(* ===== verification/Prelude.thy ===== *)
theory Prelude
  imports Complex_Main "HOL-Library.Word"
begin

text \<open>
  Shared vocabulary of the development: the machine integers of the Rust sources, the
  standard library's address types (\<open>std::net\<close>), the plain data of the \<open>ipnetwork\<close> crate,
  the polling results of \<open>futures\<close>, results as sums, and the generic lemmas on lists and
  words the component theories use.  The named collections \<open>net_simps\<close>, \<open>relay_simps\<close>,
  \<open>nft_simps\<close>, \<open>tsm_simps\<close> and \<open>daemon_simps\<close> hold the unfolding rules of the components.
\<close>

unbundle bit_operations_syntax

named_theorems net_simps \<open>unfolding rules of the network types\<close>
named_theorems relay_simps \<open>unfolding rules of the relay selector\<close>
named_theorems nft_simps \<open>unfolding rules of the netfilter rule builders\<close>
named_theorems tsm_simps \<open>unfolding rules of the tunnel state machine\<close>
named_theorems daemon_simps \<open>unfolding rules of the daemon\<close>

section \<open>Machine integers\<close>

type_synonym u8 = "8 word"
type_synonym u16 = "16 word"
type_synonym u32 = "32 word"
type_synonym u64 = "64 word"

text \<open>\<open>u64::saturating_sub\<close>.\<close>

definition saturating_sub :: "u64 \<Rightarrow> u64 \<Rightarrow> u64" where
  "saturating_sub a b = (if a < b then 0 else a - b)"

section \<open>Addresses of the standard library and networks\<close>

type_synonym ipv4 = "32 word"
type_synonym ipv6 = "128 word"

datatype ip_addr = V4 ipv4 | V6 ipv6

record socket_addr =
  sa_ip :: ip_addr
  sa_port :: u16

datatype ip_network = NetV4 ipv4 nat | NetV6 ipv6 nat

text \<open>\<open>Ipv4Addr::new\<close> and \<open>Ipv6Addr::new\<close>: the address with the given octets or groups.\<close>

definition ipv4_new :: "nat \<Rightarrow> nat \<Rightarrow> nat \<Rightarrow> nat \<Rightarrow> ipv4" where
  "ipv4_new a b c d = of_nat (((a * 256 + b) * 256 + c) * 256 + d)"

definition ipv6_new ::
    "nat \<Rightarrow> nat \<Rightarrow> nat \<Rightarrow> nat \<Rightarrow> nat \<Rightarrow> nat \<Rightarrow> nat \<Rightarrow> nat \<Rightarrow> ipv6" where
  "ipv6_new a b c d e f g h =
     of_nat (foldl (\<lambda>acc x. acc * 65536 + x) 0 [a, b, c, d, e, f, g, h])"

definition ipv4_broadcast :: ipv4 where
  "ipv4_broadcast = ipv4_new 255 255 255 255"

text \<open>\<open>IpAddr::is_loopback\<close>: 127.0.0.0/8 and ::1.\<close>

fun is_loopback :: "ip_addr \<Rightarrow> bool" where
  "is_loopback (V4 a) = (drop_bit 24 a = 127)"
| "is_loopback (V6 a) = (a = 1)"

fun is_ipv4 :: "ip_addr \<Rightarrow> bool" where
  "is_ipv4 (V4 _) = True"
| "is_ipv4 (V6 _) = False"

text \<open>\<open>IpNetwork::{is_ipv4, prefix, ip, mask}\<close>: the mask of a prefix has that many leading ones.\<close>

fun net_is_ipv4 :: "ip_network \<Rightarrow> bool" where
  "net_is_ipv4 (NetV4 _ _) = True"
| "net_is_ipv4 (NetV6 _ _) = False"

fun net_prefix :: "ip_network \<Rightarrow> nat" where
  "net_prefix (NetV4 _ p) = p"
| "net_prefix (NetV6 _ p) = p"

definition mask_v4 :: "nat \<Rightarrow> ipv4" where
  "mask_v4 p = push_bit (32 - p) (mask p)"

definition mask_v6 :: "nat \<Rightarrow> ipv6" where
  "mask_v6 p = push_bit (128 - p) (mask p)"

text \<open>
  Membership of an address in a network, as \<open>IpNetwork::contains\<close>: both are masked.  A network is
  canonical when its own address has no bit outside the mask.
\<close>

fun in_net :: "ip_addr \<Rightarrow> ip_network \<Rightarrow> bool" where
  "in_net (V4 a) (NetV4 n p) = (a AND mask_v4 p = n AND mask_v4 p)"
| "in_net (V6 a) (NetV6 n p) = (a AND mask_v6 p = n AND mask_v6 p)"
| "in_net _ _ = False"

fun canonical_net :: "ip_network \<Rightarrow> bool" where
  "canonical_net (NetV4 n p) = (n AND mask_v4 p = n)"
| "canonical_net (NetV6 n p) = (n AND mask_v6 p = n)"

section \<open>Results and polling\<close>

text \<open>
  \<open>Result<T, E>\<close> is the sum \<open>'e + 'a\<close>: \<open>Inl\<close> the error, \<open>Inr\<close> the value.  The polls of
  \<open>futures\<close> 0.1 are \<open>Poll<Option<T>, E>\<close> for a stream and \<open>Poll<T, E>\<close> for a future.
\<close>

datatype 'a stream_poll = StreamItem 'a | StreamEnd | StreamNotReady | StreamErr

datatype 'a future_poll = FutureReady 'a | FutureNotReady | FutureErr

fun is_ok :: "'e + 'a \<Rightarrow> bool" where
  "is_ok (Inr _) = True"
| "is_ok (Inl _) = False"

text \<open>The outcome of code that may panic.\<close>

datatype 'a panics = Panics | Returns 'a

text \<open>The operating system the code is compiled for (\<open>cfg(target_os)\<close>).\<close>

datatype target_os = Linux | MacOs | Android | Windows

section \<open>Generic lemmas\<close>

lemma is_ok_iff: "is_ok r \<longleftrightarrow> (\<exists>x. r = Inr x)"
  by (cases r) auto

lemma saturating_sub_unat: "unat (saturating_sub a b) = unat a - unat b"
  by (simp add: saturating_sub_def unat_sub_if_size word_less_nat_alt)

lemma saturating_sub_eq_0: "saturating_sub a b = 0 \<longleftrightarrow> a \<le> b"
proof -
  have "saturating_sub a b = 0 \<longleftrightarrow> unat (saturating_sub a b) = 0"
    by (simp add: unat_eq_zero)
  also have "\<dots> \<longleftrightarrow> a \<le> b"
    by (simp add: saturating_sub_unat word_le_nat_alt)
  finally show ?thesis .
qed

lemma ucast_eq_iff:
  fixes a b :: "'a::len word"
  assumes "LENGTH('a) \<le> LENGTH('b::len)"
  shows "(ucast a :: 'b word) = ucast b \<longleftrightarrow> a = b"
proof
  assume eq: "(ucast a :: 'b word) = ucast b"
  show "a = b"
  proof (rule bit_word_eqI)
    fix n assume "n < LENGTH('a)"
    with assms have "bit (ucast a :: 'b word) n = bit a n" "bit (ucast b :: 'b word) n = bit b n"
      by (simp_all add: bit_ucast_iff)
    with eq show "bit a n = bit b n" by simp
  qed
qed simp

lemma ucast_and: "(ucast (a AND b) :: 'b::len word) = ucast a AND ucast (b :: 'a::len word)"
  by (rule bit_word_eqI) (auto simp: bit_simps)

lemma map_filter_Cons_if:
  "List.map_filter f (x # xs) =
     (case f x of None \<Rightarrow> List.map_filter f xs | Some y \<Rightarrow> y # List.map_filter f xs)"
  by (simp split: option.splits)

lemma set_map_filter: "set (List.map_filter f xs) = {y. \<exists>x \<in> set xs. f x = Some y}"
  by (induction xs) (auto split: option.splits)

lemma map_filter_Nil_iff: "List.map_filter f xs = [] \<longleftrightarrow> (\<forall>x \<in> set xs. f x = None)"
  by (induction xs) (auto split: option.splits)

lemma find_SomeD: "List.find P xs = Some x \<Longrightarrow> x \<in> set xs \<and> P x"
  by (induction xs) (auto split: if_splits)

end
