(* ===== verification/Net_Types.thy ===== *)
theory Net_Types
  imports Prelude
begin

text \<open>
  The types and operations of \<open>talpid-types/src/net\<close>: endpoints, the parameters of OpenVPN and
  WireGuard tunnels (\<open>mod.rs\<close>, \<open>openvpn.rs\<close>, \<open>wireguard.rs\<close>), proxies (\<open>proxy.rs\<close>), and the
  tunnel state types of \<open>talpid-types/src/tunnel.rs\<close>.  The x25519 function and the base64 codec
  are crates outside the repository and appear as parameters.
\<close>

section \<open>Endpoints\<close>

datatype transport_protocol = Udp | Tcp

datatype transport_protocol_parse_error = TransportProtocolParseError

definition transport_protocol_from_str ::
    "string \<Rightarrow> transport_protocol_parse_error + transport_protocol" where
  "transport_protocol_from_str s =
     (if s = ''udp'' then Inr Udp
      else if s = ''tcp'' then Inr Tcp
      else Inl TransportProtocolParseError)"

fun transport_protocol_fmt :: "transport_protocol \<Rightarrow> string" where
  "transport_protocol_fmt Udp = ''UDP''"
| "transport_protocol_fmt Tcp = ''TCP''"

record endpoint =
  address :: socket_addr
  protocol :: transport_protocol

definition endpoint_new :: "ip_addr \<Rightarrow> u16 \<Rightarrow> transport_protocol \<Rightarrow> endpoint" where
  "endpoint_new ip port proto =
     \<lparr>address = \<lparr>sa_ip = ip, sa_port = port\<rparr>, protocol = proto\<rparr>"

datatype tunnel_type = TypeOpenVpn | TypeWireguard

fun tunnel_type_fmt :: "tunnel_type \<Rightarrow> string" where
  "tunnel_type_fmt TypeOpenVpn = ''OpenVPN''"
| "tunnel_type_fmt TypeWireguard = ''WireGuard''"

datatype proxy_type = ProxyShadowsocks | ProxyCustom

fun proxy_type_fmt :: "proxy_type \<Rightarrow> string" where
  "proxy_type_fmt ProxyShadowsocks = ''Shadowsocks''"
| "proxy_type_fmt ProxyCustom = ''custom bridge''"

record proxy_endpoint =
  pe_endpoint :: endpoint
  pe_proxy_type :: proxy_type

record tunnel_endpoint =
  te_endpoint :: endpoint
  te_tunnel_type :: tunnel_type
  te_proxy :: "proxy_endpoint option"

record generic_tunnel_options =
  enable_ipv6 :: bool

definition all_of_the_internet :: "ip_network list" where
  "all_of_the_internet = [NetV4 0 0, NetV6 0 0]"

section \<open>OpenVPN parameters and proxies\<close>

record openvpn_connection_config =
  ovpn_endpoint :: endpoint
  ovpn_username :: string
  ovpn_password :: string

definition openvpn_connection_config_new ::
    "endpoint \<Rightarrow> string \<Rightarrow> string \<Rightarrow> openvpn_connection_config" where
  "openvpn_connection_config_new e u p =
     \<lparr>ovpn_endpoint = e, ovpn_username = u, ovpn_password = p\<rparr>"

record openvpn_tunnel_options =
  mssfix :: "u16 option"

record local_proxy_settings =
  lp_port :: u16
  lp_peer :: socket_addr

record proxy_auth =
  pa_username :: string
  pa_password :: string

record remote_proxy_settings =
  rp_address :: socket_addr
  rp_auth :: "proxy_auth option"

record shadowsocks_proxy_settings =
  ss_peer :: socket_addr
  ss_password :: string
  ss_cipher :: string

datatype proxy_settings =
    ProxyLocal local_proxy_settings
  | ProxyRemote remote_proxy_settings
  | ProxyShadowsocksSettings shadowsocks_proxy_settings

definition local_get_endpoint :: "local_proxy_settings \<Rightarrow> endpoint" where
  "local_get_endpoint s = \<lparr>address = lp_peer s, protocol = Tcp\<rparr>"

definition remote_get_endpoint :: "remote_proxy_settings \<Rightarrow> endpoint" where
  "remote_get_endpoint s = \<lparr>address = rp_address s, protocol = Tcp\<rparr>"

definition shadowsocks_get_endpoint :: "shadowsocks_proxy_settings \<Rightarrow> endpoint" where
  "shadowsocks_get_endpoint s = \<lparr>address = ss_peer s, protocol = Tcp\<rparr>"

fun proxy_get_endpoint :: "proxy_settings \<Rightarrow> proxy_endpoint" where
  "proxy_get_endpoint (ProxyLocal s) =
     \<lparr>pe_endpoint = local_get_endpoint s, pe_proxy_type = ProxyCustom\<rparr>"
| "proxy_get_endpoint (ProxyRemote s) =
     \<lparr>pe_endpoint = remote_get_endpoint s, pe_proxy_type = ProxyCustom\<rparr>"
| "proxy_get_endpoint (ProxyShadowsocksSettings s) =
     \<lparr>pe_endpoint = shadowsocks_get_endpoint s, pe_proxy_type = ProxyShadowsocks\<rparr>"

definition SHADOWSOCKS_CIPHERS :: "string list" where
  "SHADOWSOCKS_CIPHERS =
     [''aes-128-cfb'', ''aes-128-cfb1'', ''aes-128-cfb8'', ''aes-128-cfb128'',
      ''aes-256-cfb'', ''aes-256-cfb1'', ''aes-256-cfb8'', ''aes-256-cfb128'',
      ''rc4'', ''rc4-md5'', ''chacha20'', ''salsa20'', ''chacha20-ietf'',
      ''aes-128-gcm'', ''aes-256-gcm'', ''chacha20-ietf-poly1305'',
      ''xchacha20-ietf-poly1305'', ''aes-128-pmac-siv'', ''aes-256-pmac-siv'']"

fun validate_proxy_settings :: "proxy_settings \<Rightarrow> string + unit" where
  "validate_proxy_settings (ProxyLocal l) =
     (if lp_port l = 0 then Inl ''Invalid local port number''
      else if is_loopback (sa_ip (lp_peer l))
        then Inl ''localhost is not a valid peer in this context''
      else if sa_port (lp_peer l) = 0 then Inl ''Invalid remote port number''
      else Inr ())"
| "validate_proxy_settings (ProxyRemote r) =
     (if sa_port (rp_address r) = 0 then Inl ''Invalid port number''
      else if is_loopback (sa_ip (rp_address r))
        then Inl ''localhost is not a valid remote server''
      else Inr ())"
| "validate_proxy_settings (ProxyShadowsocksSettings ss) =
     (if is_loopback (sa_ip (ss_peer ss))
        then Inl ''localhost is not a valid peer in this context''
      else if sa_port (ss_peer ss) = 0 then Inl ''Invalid remote port number''
      else if ss_cipher ss \<notin> set SHADOWSOCKS_CIPHERS then Inl ''Invalid cipher''
      else Inr ())"

record openvpn_tunnel_parameters =
  ovpn_config :: openvpn_connection_config
  ovpn_options :: openvpn_tunnel_options
  ovpn_generic_options :: generic_tunnel_options
  ovpn_proxy :: "proxy_settings option"

section \<open>WireGuard parameters and keys\<close>

text \<open>A key is its 32 bytes.\<close>

datatype private_key = PrivateKey "u8 list"

datatype public_key = PublicKey "u8 list"

fun private_as_bytes :: "private_key \<Rightarrow> u8 list" where
  "private_as_bytes (PrivateKey b) = b"

fun public_as_bytes :: "public_key \<Rightarrow> u8 list" where
  "public_as_bytes (PublicKey b) = b"

definition normalize_key :: "u8 list \<Rightarrow> u8 list" where
  "normalize_key b =
     (let b = b[0 := b ! 0 AND 248];
          b = b[31 := b ! 31 AND 127];
          b = b[31 := b ! 31 OR 64]
      in b)"

definition private_key_from :: "u8 list \<Rightarrow> private_key" where
  "private_key_from b = PrivateKey (normalize_key b)"

definition public_key_of :: "(u8 list \<Rightarrow> u8 list) \<Rightarrow> private_key \<Rightarrow> public_key" where
  "public_key_of x25519_base k = PublicKey (x25519_base (private_as_bytes k))"

text \<open>
  \<open>serialize_key\<close> and \<open>deserialize_key\<close>; \<open>encode\<close> and \<open>decode\<close> are \<open>base64::{encode, decode}\<close> and
  the result is built by \<open>From<[u8; 32]>\<close> of the key type, which for a private key normalises it.
\<close>

datatype key_error = DecodeError | UnexpectedLength nat

definition serialize_key :: "(u8 list \<Rightarrow> string) \<Rightarrow> u8 list \<Rightarrow> string" where
  "serialize_key encode key = encode key"

definition deserialize_key ::
    "(string \<Rightarrow> u8 list option) \<Rightarrow> (u8 list \<Rightarrow> 'k) \<Rightarrow> string \<Rightarrow> key_error + 'k" where
  "deserialize_key decode from s =
     (case decode s of
        None \<Rightarrow> Inl DecodeError
      | Some buffer \<Rightarrow>
          if length buffer \<noteq> 32 then Inl (UnexpectedLength (length buffer))
          else Inr (from buffer))"

record peer_config =
  peer_public_key :: public_key
  peer_allowed_ips :: "ip_network list"
  peer_endpoint :: socket_addr

record wg_tunnel_config =
  wg_private_key :: private_key
  wg_addresses :: "ip_addr list"

record wg_connection_config =
  wgc_tunnel :: wg_tunnel_config
  wgc_peer :: peer_config
  wgc_ipv4_gateway :: ipv4
  wgc_ipv6_gateway :: "ipv6 option"

definition wg_get_endpoint :: "wg_connection_config \<Rightarrow> endpoint" where
  "wg_get_endpoint c = \<lparr>address = peer_endpoint (wgc_peer c), protocol = Udp\<rparr>"

record wg_tunnel_options =
  wg_mtu :: "u16 option"

record wg_tunnel_parameters =
  wg_connection :: wg_connection_config
  wg_options :: wg_tunnel_options
  wg_generic_options :: generic_tunnel_options

section \<open>Tunnel parameters\<close>

datatype tunnel_parameters =
    ParamsOpenVpn openvpn_tunnel_parameters
  | ParamsWireguard wg_tunnel_parameters

fun get_tunnel_endpoint :: "tunnel_parameters \<Rightarrow> tunnel_endpoint" where
  "get_tunnel_endpoint (ParamsOpenVpn p) =
     \<lparr>te_endpoint = ovpn_endpoint (ovpn_config p), te_tunnel_type = TypeOpenVpn,
      te_proxy = map_option proxy_get_endpoint (ovpn_proxy p)\<rparr>"
| "get_tunnel_endpoint (ParamsWireguard p) =
     \<lparr>te_endpoint = wg_get_endpoint (wg_connection p), te_tunnel_type = TypeWireguard,
      te_proxy = None\<rparr>"

fun get_generic_options :: "tunnel_parameters \<Rightarrow> generic_tunnel_options" where
  "get_generic_options (ParamsOpenVpn p) = ovpn_generic_options p"
| "get_generic_options (ParamsWireguard p) = wg_generic_options p"

section \<open>Tunnel state types\<close>

datatype block_reason =
    AuthFailed "string option"
  | Ipv6Unavailable
  | SetFirewallPolicyError
  | SetDnsError
  | StartTunnelError
  | NoMatchingRelay
  | IsOffline
  | TapAdapterProblem

fun block_reason_fmt :: "block_reason \<Rightarrow> string" where
  "block_reason_fmt (AuthFailed reason) =
     ''Authentication with remote server failed: '' @
     (case reason of Some r \<Rightarrow> r | None \<Rightarrow> ''No reason provided'')"
| "block_reason_fmt Ipv6Unavailable =
     ''Failed to configure IPv6 because it's disabled in the platform''"
| "block_reason_fmt SetFirewallPolicyError = ''Failed to set firewall policy''"
| "block_reason_fmt SetDnsError = ''Failed to set system DNS server''"
| "block_reason_fmt StartTunnelError = ''Failed to start connection to remote server''"
| "block_reason_fmt NoMatchingRelay = ''No relay server matches the current settings''"
| "block_reason_fmt IsOffline = ''This device is offline, no tunnels can be established''"
| "block_reason_fmt TapAdapterProblem = ''A problem with the TAP adapter has been detected''"

datatype action_after_disconnect = ActionNothing | ActionBlock | ActionReconnect

datatype tunnel_state_transition =
    TrDisconnected
  | TrConnecting tunnel_endpoint
  | TrConnected tunnel_endpoint
  | TrDisconnecting action_after_disconnect
  | TrBlocked block_reason

fun transition_is_blocked :: "tunnel_state_transition \<Rightarrow> bool" where
  "transition_is_blocked (TrBlocked _) = True"
| "transition_is_blocked _ = False"

section \<open>Properties\<close>

lemmas proxy_endpoint_defs [net_simps] =
  endpoint_new_def local_get_endpoint_def remote_get_endpoint_def shadowsocks_get_endpoint_def
  wg_get_endpoint_def openvpn_connection_config_new_def

lemma length_normalize_key [simp]: "length (normalize_key b) = length b"
  by (simp add: normalize_key_def Let_def)

lemma normalize_key_nth:
  assumes "length b = 32" and "i < 32"
  shows "normalize_key b ! i =
    (if i = 0 then b ! 0 AND 248 else if i = 31 then (b ! 31 AND 127) OR 64 else b ! i)"
  using assms by (simp add: normalize_key_def Let_def nth_list_update)

lemma clamp_last_idem: "(((w :: u8) AND 127) OR 64) AND 127 OR 64 = (w AND 127) OR 64"
proof -
  have "(64 :: u8) AND 127 = 64" by simp
  then show ?thesis
    by (simp add: and.assoc bit.conj_disj_distrib2 or.assoc)
qed

lemma normalize_key_idem:
  assumes "length b = 32"
  shows "normalize_key (normalize_key b) = normalize_key b"
proof (rule nth_equalityI)
  show "length (normalize_key (normalize_key b)) = length (normalize_key b)" by simp
next
  fix i assume "i < length (normalize_key (normalize_key b))"
  with assms show "normalize_key (normalize_key b) ! i = normalize_key b ! i"
    by (simp add: normalize_key_nth and.assoc clamp_last_idem)
qed

text \<open>A validated proxy has a routable peer: never a loopback address and never port 0.\<close>

lemma validate_proxy_settings_ok:
  assumes "validate_proxy_settings p = Inr ()"
  shows "\<not> is_loopback (sa_ip (address (pe_endpoint (proxy_get_endpoint p))))"
    and "sa_port (address (pe_endpoint (proxy_get_endpoint p))) \<noteq> 0"
  using assms by (cases p; simp add: net_simps split: if_splits)+

end
