(* ===== verification/Firewall_Policy.thy ===== *)
theory Firewall_Policy
  imports Net_Types
begin

text \<open>
  The platform independent part of the firewall (\<open>talpid-core/src/firewall/mod.rs\<close>) and the tunnel
  metadata it names (\<open>talpid-core/src/tunnel/mod.rs\<close>): the address constants, the policy type, a
  model of the packets a policy speaks about, and the block/allow specification that the doc
  comment of \<open>FirewallPolicy\<close> gives, as the predicate \<open>policy_allows\<close>.  The locale
  \<open>firewall_interface\<close> is the contract of the trait \<open>FirewallT\<close> its clients rely on.
\<close>

section \<open>Constants\<close>

definition IPV6_LINK_LOCAL :: ip_network where
  "IPV6_LINK_LOCAL = NetV6 (ipv6_new 0xfe80 0 0 0 0 0 0 0) 10"

definition ALLOWED_LAN_NETS :: "ip_network list" where
  "ALLOWED_LAN_NETS =
     [NetV4 (ipv4_new 10 0 0 0) 8,
      NetV4 (ipv4_new 172 16 0 0) 12,
      NetV4 (ipv4_new 192 168 0 0) 16,
      NetV4 (ipv4_new 169 254 0 0) 16,
      NetV6 (ipv6_new 0xfe80 0 0 0 0 0 0 0) 10]"

definition ALLOWED_LAN_MULTICAST_NETS :: "ip_network list" where
  "ALLOWED_LAN_MULTICAST_NETS =
     [NetV4 (ipv4_new 224 0 0 0) 24,
      NetV4 (ipv4_new 239 255 255 250) 32,
      NetV4 (ipv4_new 239 255 255 251) 32,
      NetV6 (ipv6_new 0xff02 0 0 0 0 0 0 0) 16,
      NetV6 (ipv6_new 0xff05 0 0 0 0 0 0 0) 16]"

definition DHCPV6_SERVER_ADDRS :: "ipv6 list" where
  "DHCPV6_SERVER_ADDRS = [ipv6_new 0xff02 0 0 0 0 0 1 2, ipv6_new 0xff05 0 0 0 0 0 1 3]"

definition ROUTER_SOLICITATION_OUT_DST_ADDR :: ipv6 where
  "ROUTER_SOLICITATION_OUT_DST_ADDR = ipv6_new 0xff02 0 0 0 0 0 0 2"

definition DHCPV4_SERVER_PORT :: u16 where "DHCPV4_SERVER_PORT = 67"
definition DHCPV4_CLIENT_PORT :: u16 where "DHCPV4_CLIENT_PORT = 68"
definition DHCPV6_SERVER_PORT :: u16 where "DHCPV6_SERVER_PORT = 547"
definition DHCPV6_CLIENT_PORT :: u16 where "DHCPV6_CLIENT_PORT = 546"

section \<open>Policies\<close>

record tunnel_metadata =
  tm_interface :: string
  tm_ips :: "ip_addr list"
  tm_ipv4_gateway :: ipv4
  tm_ipv6_gateway :: "ipv6 option"

datatype firewall_policy =
    PolicyConnecting endpoint "ip_addr list" bool
  | PolicyConnected endpoint tunnel_metadata bool
  | PolicyBlocked bool

record firewall_arguments =
  initialize_blocked :: bool
  fa_allow_lan :: "bool option"

section \<open>Packets\<close>

datatype direction = DirIn | DirOut

datatype l3_header = L3V4 ipv4 ipv4 | L3V6 ipv6 ipv6

datatype l4_header =
    L4Udp u16 u16
  | L4Tcp u16 u16
  | L4Icmp u8 u8
  | L4Icmpv6 u8 u8
  | L4Other u8

text \<open>
  A packet as the filter sees it: its direction, the index of the interface it arrives on or
  leaves through, its network header (source and destination), its transport header (source and
  destination port, or ICMP type and code), and the connection tracking state bits.
\<close>

record packet =
  pk_dir :: direction
  pk_iface :: u32
  pk_l3 :: l3_header
  pk_l4 :: l4_header
  pk_ct :: u32

fun l3_src :: "l3_header \<Rightarrow> ip_addr" where
  "l3_src (L3V4 s _) = V4 s"
| "l3_src (L3V6 s _) = V6 s"

fun l3_dst :: "l3_header \<Rightarrow> ip_addr" where
  "l3_dst (L3V4 _ d) = V4 d"
| "l3_dst (L3V6 _ d) = V6 d"

fun l4_src_port :: "transport_protocol \<Rightarrow> l4_header \<Rightarrow> u16 option" where
  "l4_src_port Udp (L4Udp s _) = Some s"
| "l4_src_port Tcp (L4Tcp s _) = Some s"
| "l4_src_port _ _ = None"

fun l4_dst_port :: "transport_protocol \<Rightarrow> l4_header \<Rightarrow> u16 option" where
  "l4_dst_port Udp (L4Udp _ d) = Some d"
| "l4_dst_port Tcp (L4Tcp _ d) = Some d"
| "l4_dst_port _ _ = None"

text \<open>The transport protocol number of the IP header.\<close>

fun l4_number :: "l4_header \<Rightarrow> u8" where
  "l4_number (L4Udp _ _) = 17"
| "l4_number (L4Tcp _ _) = 6"
| "l4_number (L4Icmp _ _) = 1"
| "l4_number (L4Icmpv6 _ _) = 58"
| "l4_number (L4Other n) = n"

section \<open>The block/allow specification of the doc comment\<close>

definition src_in :: "packet \<Rightarrow> ip_network \<Rightarrow> bool" where
  "src_in p n = in_net (l3_src (pk_l3 p)) n"

definition dst_in :: "packet \<Rightarrow> ip_network \<Rightarrow> bool" where
  "dst_in p n = in_net (l3_dst (pk_l3 p)) n"

definition src_is :: "packet \<Rightarrow> ip_addr \<Rightarrow> bool" where
  "src_is p a = (l3_src (pk_l3 p) = a)"

definition dst_is :: "packet \<Rightarrow> ip_addr \<Rightarrow> bool" where
  "dst_is p a = (l3_dst (pk_l3 p) = a)"

definition sport_is :: "packet \<Rightarrow> transport_protocol \<Rightarrow> u16 \<Rightarrow> bool" where
  "sport_is p proto port = (l4_src_port proto (pk_l4 p) = Some port)"

definition dport_is :: "packet \<Rightarrow> transport_protocol \<Rightarrow> u16 \<Rightarrow> bool" where
  "dport_is p proto port = (l4_dst_port proto (pk_l4 p) = Some port)"

text \<open>\<open>ct_established\<close> is the bit of \<open>nftnl::expr::ct::States::ESTABLISHED\<close>.\<close>

definition ct_established :: u32 where "ct_established = 2"

definition is_established :: "packet \<Rightarrow> bool" where
  "is_established p = (pk_ct p AND ct_established \<noteq> 0)"

text \<open>Outgoing traffic every policy allows besides loopback: DHCP requests, router solicitation.\<close>

definition spec_always_out :: "packet \<Rightarrow> bool" where
  "spec_always_out p \<longleftrightarrow>
     sport_is p Udp DHCPV4_CLIENT_PORT \<and> dst_is p (V4 ipv4_broadcast) \<and>
       dport_is p Udp DHCPV4_SERVER_PORT \<or>
     src_in p IPV6_LINK_LOCAL \<and> sport_is p Udp DHCPV6_CLIENT_PORT \<and>
       (\<exists>a \<in> set DHCPV6_SERVER_ADDRS. dst_is p (V6 a)) \<and> dport_is p Udp DHCPV6_SERVER_PORT \<or>
     dst_is p (V6 ROUTER_SOLICITATION_OUT_DST_ADDR) \<and> pk_l4 p = L4Icmpv6 133 0"

text \<open>Incoming: DHCP responses, router advertisement and redirect.\<close>

definition spec_always_in :: "packet \<Rightarrow> bool" where
  "spec_always_in p \<longleftrightarrow>
     sport_is p Udp DHCPV4_SERVER_PORT \<and> dport_is p Udp DHCPV4_CLIENT_PORT \<or>
     src_in p IPV6_LINK_LOCAL \<and> sport_is p Udp DHCPV6_SERVER_PORT \<and>
       dst_in p IPV6_LINK_LOCAL \<and> dport_is p Udp DHCPV6_CLIENT_PORT \<or>
     src_in p IPV6_LINK_LOCAL \<and> (pk_l4 p = L4Icmpv6 134 0 \<or> pk_l4 p = L4Icmpv6 137 0)"

definition spec_lan_out :: "packet \<Rightarrow> bool" where
  "spec_lan_out p \<longleftrightarrow>
     (\<exists>n \<in> set ALLOWED_LAN_NETS. dst_in p n) \<or>
     (\<exists>n \<in> set ALLOWED_LAN_MULTICAST_NETS. dst_in p n) \<or>
     sport_is p Udp DHCPV4_SERVER_PORT \<and> dport_is p Udp DHCPV4_CLIENT_PORT"

definition spec_lan_in :: "packet \<Rightarrow> bool" where
  "spec_lan_in p \<longleftrightarrow>
     (\<exists>n \<in> set ALLOWED_LAN_NETS. src_in p n) \<or>
     sport_is p Udp DHCPV4_CLIENT_PORT \<and> dst_is p (V4 ipv4_broadcast) \<and>
       dport_is p Udp DHCPV4_SERVER_PORT"

definition to_endpoint :: "packet \<Rightarrow> endpoint \<Rightarrow> bool" where
  "to_endpoint p e \<longleftrightarrow>
     dst_is p (sa_ip (address e)) \<and> dport_is p (protocol e) (sa_port (address e))"

definition from_endpoint :: "packet \<Rightarrow> endpoint \<Rightarrow> bool" where
  "from_endpoint p e \<longleftrightarrow>
     src_is p (sa_ip (address e)) \<and> sport_is p (protocol e) (sa_port (address e))"

text \<open>The protocol of an ICMP packet for a host of either address family.\<close>

fun icmp_for :: "ip_addr \<Rightarrow> l4_header \<Rightarrow> bool" where
  "icmp_for (V4 _) h = (l4_number h = 1)"
| "icmp_for (V6 _) h = (l4_number h = 58)"

definition is_dns :: "packet \<Rightarrow> bool" where
  "is_dns p \<longleftrightarrow> dport_is p Udp 53 \<or> dport_is p Tcp 53"

definition to_tunnel_gateway :: "packet \<Rightarrow> tunnel_metadata \<Rightarrow> bool" where
  "to_tunnel_gateway p t \<longleftrightarrow>
     dst_is p (V4 (tm_ipv4_gateway t)) \<or>
     (\<exists>g. tm_ipv6_gateway t = Some g \<and> dst_is p (V6 g))"

text \<open>
  \<open>lo\<close> and \<open>tun\<close> are the indices of the loopback and of the tunnel interface.  Where two items of the
  documentation disagree about a DNS request to the peer endpoint itself (traffic to the peer is allowed,
  DNS is blocked to all destinations but the gateways), the first one is taken.
\<close>

fun spec_out :: "u32 \<Rightarrow> u32 \<Rightarrow> firewall_policy \<Rightarrow> packet \<Rightarrow> bool" where
  "spec_out lo tun (PolicyConnecting e hosts lan) p \<longleftrightarrow>
     pk_iface p = lo \<or> spec_always_out p \<or> to_endpoint p e \<or>
     (\<exists>h \<in> set hosts. dst_is p h \<and> icmp_for h (pk_l4 p)) \<or>
     lan \<and> spec_lan_out p"
| "spec_out lo tun (PolicyConnected e t lan) p \<longleftrightarrow>
     pk_iface p = lo \<or> spec_always_out p \<or> to_endpoint p e \<or>
     (if is_dns p then pk_iface p = tun \<and> to_tunnel_gateway p t
      else pk_iface p = tun \<or> lan \<and> spec_lan_out p)"
| "spec_out lo tun (PolicyBlocked lan) p \<longleftrightarrow>
     pk_iface p = lo \<or> spec_always_out p \<or> lan \<and> spec_lan_out p"

text \<open>Incoming traffic: from the peer endpoint, and the rest.\<close>

fun from_peer :: "firewall_policy \<Rightarrow> packet \<Rightarrow> bool" where
  "from_peer (PolicyConnecting e _ _) p = from_endpoint p e"
| "from_peer (PolicyConnected e _ _) p = from_endpoint p e"
| "from_peer (PolicyBlocked _) p = False"

fun spec_in_besides_peer :: "u32 \<Rightarrow> u32 \<Rightarrow> firewall_policy \<Rightarrow> packet \<Rightarrow> bool" where
  "spec_in_besides_peer lo tun (PolicyConnecting e hosts lan) p \<longleftrightarrow>
     pk_iface p = lo \<or> spec_always_in p \<or>
     (\<exists>h \<in> set hosts. src_is p h \<and> icmp_for h (pk_l4 p)) \<or>
     lan \<and> spec_lan_in p"
| "spec_in_besides_peer lo tun (PolicyConnected e t lan) p \<longleftrightarrow>
     pk_iface p = lo \<or> spec_always_in p \<or> pk_iface p = tun \<or> lan \<and> spec_lan_in p"
| "spec_in_besides_peer lo tun (PolicyBlocked lan) p \<longleftrightarrow>
     pk_iface p = lo \<or> spec_always_in p \<or> lan \<and> spec_lan_in p"

definition spec_in :: "u32 \<Rightarrow> u32 \<Rightarrow> firewall_policy \<Rightarrow> packet \<Rightarrow> bool" where
  "spec_in lo tun pol p \<longleftrightarrow> from_peer pol p \<or> spec_in_besides_peer lo tun pol p"

definition policy_allows :: "u32 \<Rightarrow> u32 \<Rightarrow> firewall_policy \<Rightarrow> packet \<Rightarrow> bool" where
  "policy_allows lo tun pol p =
     (case pk_dir p of DirOut \<Rightarrow> spec_out lo tun pol p | DirIn \<Rightarrow> spec_in lo tun pol p)"

text \<open>
  Packets of a conversation the peer endpoint starts, which nothing but the item on the peer endpoint
  allows.  The documentation allows them; the implementations do not (they let in only what belongs
  to a conversation the host has started).
\<close>

definition peer_starts :: "u32 \<Rightarrow> u32 \<Rightarrow> firewall_policy \<Rightarrow> packet \<Rightarrow> bool" where
  "peer_starts lo tun pol p \<longleftrightarrow>
     pk_dir p = DirIn \<and> from_peer pol p \<and> \<not> is_established p \<and> \<not> spec_in_besides_peer lo tun pol p"

fun policy_allow_lan :: "firewall_policy \<Rightarrow> bool" where
  "policy_allow_lan (PolicyConnecting _ _ lan) = lan"
| "policy_allow_lan (PolicyConnected _ _ lan) = lan"
| "policy_allow_lan (PolicyBlocked lan) = lan"

section \<open>The contract of the trait \<open>FirewallT\<close>\<close>

text \<open>
  \<open>enforces s p\<close> says that the system firewall in state \<open>s\<close> enforces the policy \<open>p\<close>, \<open>lifted s\<close> that no
  policy of ours is in place.  A failed operation leaves the previous policy or the new one in
  place: netfilter batches and pf rule sets are swapped atomically, but an error can still be
  reported after the swap.
\<close>

locale firewall_interface =
  fixes apply_policy :: "firewall_policy \<Rightarrow> 'fw \<Rightarrow> ('e + unit) \<times> 'fw"
    and reset_policy :: "'fw \<Rightarrow> ('e + unit) \<times> 'fw"
    and enforces :: "'fw \<Rightarrow> firewall_policy \<Rightarrow> bool"
    and lifted :: "'fw \<Rightarrow> bool"
  assumes apply_ok: "apply_policy p s = (Inr u, s') \<Longrightarrow> enforces s' p"
    and apply_err:
      "apply_policy p s = (Inl e, s') \<Longrightarrow>
         enforces s' p \<or> (\<forall>q. enforces s q \<longrightarrow> enforces s' q)"
    and reset_ok: "reset_policy s = (Inr u, s') \<Longrightarrow> lifted s'"
    and reset_err:
      "reset_policy s = (Inl e, s') \<Longrightarrow> lifted s' \<or> (\<forall>q. enforces s q \<longrightarrow> enforces s' q)"
begin

definition guarded :: "'fw \<Rightarrow> bool" where
  "guarded s \<longleftrightarrow> (\<exists>q. enforces s q)"

lemma apply_guarded: "guarded s \<Longrightarrow> apply_policy p s = (r, s') \<Longrightarrow> guarded s'"
  by (cases r) (auto simp: guarded_def dest: apply_ok apply_err)

lemma apply_ok_guarded: "apply_policy p s = (Inr u, s') \<Longrightarrow> guarded s'"
  by (auto simp: guarded_def dest: apply_ok)

lemma apply_old_or_new:
  "enforces s q \<Longrightarrow> apply_policy p s = (r, s') \<Longrightarrow> enforces s' p \<or> enforces s' q"
  by (cases r) (auto dest: apply_ok apply_err)

end

section \<open>Properties of the specification\<close>

lemmas spec_defs =
  src_in_def dst_in_def src_is_def dst_is_def sport_is_def dport_is_def is_established_def
  to_endpoint_def from_endpoint_def

lemma policy_allows_split:
  "policy_allows lo tun pol p \<longleftrightarrow>
     (pk_dir p = DirOut \<and> spec_out lo tun pol p) \<or> (pk_dir p = DirIn \<and> spec_in lo tun pol p)"
  by (simp add: policy_allows_def split: direction.split)

end
