(* ===== verification/Std_Fmt.thy ===== *)
theory Std_Fmt
  imports Prelude
begin

text \<open>
  The parts of the standard library's \<open>Display\<close> implementations the sources print with: unsigned
  integers, \<open>Ipv4Addr\<close>, \<open>Ipv6Addr\<close> (with the compression of the longest run of zero segments),
  \<open>IpAddr\<close> and \<open>SocketAddr\<close>, and \<open>Path::join\<close> for a plain file name.
\<close>

definition digit :: "nat \<Rightarrow> char" where
  "digit d = (if d < 10 then char_of (48 + d) else char_of (87 + d))"

fun fmt_radix :: "nat \<Rightarrow> nat \<Rightarrow> string" where
  "fmt_radix b n = (if b \<le> 1 \<or> n < b then [digit n] else fmt_radix b (n div b) @ [digit (n mod b)])"

declare fmt_radix.simps [simp del]

definition fmt_nat :: "nat \<Rightarrow> string" where
  "fmt_nat n = fmt_radix 10 n"

definition fmt_hex :: "nat \<Rightarrow> string" where
  "fmt_hex n = fmt_radix 16 n"

fun join_with :: "string \<Rightarrow> string list \<Rightarrow> string" where
  "join_with sep [] = []"
| "join_with sep [x] = x"
| "join_with sep (x # y # ys) = x @ sep @ join_with sep (y # ys)"

definition ipv4_octets :: "ipv4 \<Rightarrow> nat list" where
  "ipv4_octets a = map (\<lambda>i. unat (drop_bit (8 * i) a) mod 256) [3, 2, 1, 0]"

definition fmt_ipv4 :: "ipv4 \<Rightarrow> string" where
  "fmt_ipv4 a = join_with ''.'' (map fmt_nat (ipv4_octets a))"

definition ipv6_segments :: "ipv6 \<Rightarrow> nat list" where
  "ipv6_segments a = map (\<lambda>i. unat (drop_bit (16 * i) a) mod 65536) [7, 6, 5, 4, 3, 2, 1, 0]"

text \<open>\<open>find_zero_slice\<close>: position and length of the first longest run of zero segments.\<close>

fun find_zero_slice :: "nat list \<Rightarrow> nat \<Rightarrow> nat \<times> nat \<Rightarrow> nat \<times> nat \<Rightarrow> nat \<times> nat" where
  "find_zero_slice [] i cur best = best"
| "find_zero_slice (s # ss) i (pos, len) best =
     (if s = 0 then
        (let pos = (if len = 0 then i else pos); len = len + 1
         in find_zero_slice ss (i + 1) (pos, len) (if len > snd best then (pos, len) else best))
      else find_zero_slice ss (i + 1) (0, 0) best)"

definition fmt_segments :: "nat list \<Rightarrow> string" where
  "fmt_segments ss = join_with '':'' (map fmt_hex ss)"

definition fmt_ipv4_tail :: "nat \<Rightarrow> nat \<Rightarrow> string" where
  "fmt_ipv4_tail g h = join_with ''.'' (map fmt_nat [g div 256, g mod 256, h div 256, h mod 256])"

definition fmt_ipv6 :: "ipv6 \<Rightarrow> string" where
  "fmt_ipv6 a =
     (let ss = ipv6_segments a in
      if ss = [0, 0, 0, 0, 0, 0, 0, 0] then ''::''
      else if ss = [0, 0, 0, 0, 0, 0, 0, 1] then ''::1''
      else if take 6 ss = [0, 0, 0, 0, 0, 0] then ''::'' @ fmt_ipv4_tail (ss ! 6) (ss ! 7)
      else if take 6 ss = [0, 0, 0, 0, 0, 65535] then ''::ffff:'' @ fmt_ipv4_tail (ss ! 6) (ss ! 7)
      else
        (case find_zero_slice ss 0 (0, 0) (0, 0) of
           (zeros_at, zeros_len) \<Rightarrow>
             if zeros_len > 1
             then fmt_segments (take zeros_at ss) @ ''::'' @ fmt_segments (drop (zeros_at + zeros_len) ss)
             else fmt_segments ss))"

fun fmt_ip :: "ip_addr \<Rightarrow> string" where
  "fmt_ip (V4 a) = fmt_ipv4 a"
| "fmt_ip (V6 a) = fmt_ipv6 a"

definition fmt_u16 :: "u16 \<Rightarrow> string" where
  "fmt_u16 n = fmt_nat (unat n)"

definition fmt_socket_addr :: "socket_addr \<Rightarrow> string" where
  "fmt_socket_addr s =
     (case sa_ip s of
        V4 a \<Rightarrow> fmt_ipv4 a @ '':'' @ fmt_u16 (sa_port s)
      | V6 a \<Rightarrow> ''['' @ fmt_ipv6 a @ '']:'' @ fmt_u16 (sa_port s))"

definition path_join :: "string \<Rightarrow> string \<Rightarrow> string" where
  "path_join dir file =
     (if dir = [] \<or> last dir = CHR ''/'' then dir @ file else dir @ ''/'' @ file)"

section \<open>Properties\<close>

text \<open>Every printed address consists of printable, non-blank characters only.\<close>

definition plain_char :: "char \<Rightarrow> bool" where
  "plain_char c \<longleftrightarrow> (48 \<le> (of_char c :: nat) \<and> of_char c < (128 :: nat)) \<or> c \<in> set ''.-/''"

definition plain :: "string \<Rightarrow> bool" where
  "plain s \<longleftrightarrow> list_all plain_char s"

lemma plain_simps [simp]:
  "plain []" "plain (x # xs) \<longleftrightarrow> plain_char x \<and> plain xs" "plain (xs @ ys) \<longleftrightarrow> plain xs \<and> plain ys"
  by (simp_all add: plain_def)

lemma plain_char_digit: "d < 16 \<Longrightarrow> plain_char (digit d)"
  by (simp add: digit_def plain_char_def)

lemma plain_fmt_radix: "2 \<le> b \<Longrightarrow> b \<le> 16 \<Longrightarrow> plain (fmt_radix b n)"
proof (induction b n rule: fmt_radix.induct)
  case (1 b n)
  then have "n mod b < 16" by (meson mod_less_divisor less_le_trans zero_less_numeral)
  with 1 show ?case
    by (subst fmt_radix.simps) (auto simp: plain_char_digit)
qed

lemma plain_join_with: "plain sep \<Longrightarrow> list_all plain xs \<Longrightarrow> plain (join_with sep xs)"
  by (induction sep xs rule: join_with.induct) auto

lemma plain_fmt_nat [simp]: "plain (fmt_nat n)"
  by (simp add: fmt_nat_def plain_fmt_radix)

lemma plain_fmt_hex [simp]: "plain (fmt_hex n)"
  by (simp add: fmt_hex_def plain_fmt_radix)

lemma plain_char_lits [simp]: "plain_char CHR ''.''" "plain_char CHR '':''" "plain_char CHR ''[''"
  "plain_char CHR '']''" "plain_char CHR ''f''" "plain_char CHR ''1''" "plain_char CHR ''/''"
  by (simp_all add: plain_char_def)

lemma plain_fmt_ipv4 [simp]: "plain (fmt_ipv4 a)"
  unfolding fmt_ipv4_def by (rule plain_join_with) (simp_all add: list.pred_map comp_def list_all_iff)

lemma plain_fmt_segments [simp]: "plain (fmt_segments ss)"
  unfolding fmt_segments_def by (rule plain_join_with) (simp_all add: list.pred_map comp_def list_all_iff)

lemma plain_fmt_ipv4_tail [simp]: "plain (fmt_ipv4_tail g h)"
  unfolding fmt_ipv4_tail_def by (rule plain_join_with) (simp_all add: list.pred_map comp_def)

lemma plain_fmt_ipv6 [simp]: "plain (fmt_ipv6 a)"
  by (simp add: fmt_ipv6_def Let_def split: prod.split)

lemma plain_fmt_ip [simp]: "plain (fmt_ip a)"
  by (cases a) simp_all

lemma plain_fmt_socket_addr [simp]: "plain (fmt_socket_addr s)"
  by (simp add: fmt_socket_addr_def fmt_u16_def split: ip_addr.split)

end
