(* ===== verification/Wireguard.thy ===== *)
theory Wireguard
  imports Net_Types Firewall_Policy Std_Fmt "HOL-Library.AList"
begin

text \<open>
  The WireGuard tunnel (\<open>talpid-core/src/tunnel/wireguard/{config,mod,ping_monitor}.rs\<close>): the
  configuration derived from the tunnel parameters and its userspace format, the routes through
  the tunnel, the messages that close it, and the ping command line.  \<open>hex::encode\<close>, the printing of
  an \<open>IpNetwork\<close> and the Go library are outside the repository and appear as arguments.
\<close>

section \<open>Configuration\<close>

record wg_config =
  cfg_tunnel :: wg_tunnel_config
  cfg_peers :: "peer_config list"
  cfg_ipv4_gateway :: ipv4
  cfg_ipv6_gateway :: "ipv6 option"
  cfg_mtu :: u16

definition SMALLEST_IPV6_MTU :: u16 where "SMALLEST_IPV6_MTU = 1420"
definition DEFAULT_MTU :: u16 where "DEFAULT_MTU = SMALLEST_IPV6_MTU"

datatype wg_config_error = InvalidTunnelIpError | InvalidPeerIpError | NoPeersSuppliedError

text \<open>The loop over the peers, which returns early at the first peer left without addresses.\<close>

fun filter_peers :: "bool \<Rightarrow> peer_config list \<Rightarrow> wg_config_error + peer_config list" where
  "filter_peers v6 [] = Inr []"
| "filter_peers v6 (p # ps) =
     (let ips = filter (\<lambda>ip. net_is_ipv4 ip \<or> v6) (peer_allowed_ips p) in
      if ips = [] then Inl InvalidPeerIpError
      else (case filter_peers v6 ps of
              Inl e \<Rightarrow> Inl e
            | Inr ps' \<Rightarrow> Inr (p\<lparr>peer_allowed_ips := ips\<rparr> # ps')))"

definition wg_config_new ::
    "wg_tunnel_config \<Rightarrow> peer_config list \<Rightarrow> wg_connection_config \<Rightarrow> wg_tunnel_options
      \<Rightarrow> generic_tunnel_options \<Rightarrow> wg_config_error + wg_config" where
  "wg_config_new tunnel peers connection_config options generic_options =
     (if peers = [] then Inl NoPeersSuppliedError
      else
        (let mtu = (case wg_mtu options of Some m \<Rightarrow> m | None \<Rightarrow> DEFAULT_MTU);
             is_ipv6_enabled = (mtu \<ge> SMALLEST_IPV6_MTU \<and> enable_ipv6 generic_options)
         in case filter_peers is_ipv6_enabled peers of
              Inl e \<Rightarrow> Inl e
            | Inr peers \<Rightarrow>
                (let tunnel = tunnel\<lparr>wg_addresses :=
                       filter (\<lambda>ip. is_ipv4 ip \<or> is_ipv6_enabled) (wg_addresses tunnel)\<rparr>
                 in if wg_addresses tunnel = [] then Inl InvalidTunnelIpError
                    else Inr \<lparr>cfg_tunnel = tunnel, cfg_peers = peers,
                           cfg_ipv4_gateway = wgc_ipv4_gateway connection_config,
                           cfg_ipv6_gateway =
                             (if is_ipv6_enabled then wgc_ipv6_gateway connection_config else None),
                           cfg_mtu = mtu\<rparr>)))"

definition wg_config_from_parameters :: "wg_tunnel_parameters \<Rightarrow> wg_config_error + wg_config" where
  "wg_config_from_parameters params =
     wg_config_new (wgc_tunnel (wg_connection params)) [wgc_peer (wg_connection params)]
       (wg_connection params) (wg_options params) (wg_generic_options params)"

section \<open>The userspace format\<close>

datatype conf_value = ConfString string | ConfBytes "u8 list"

fun conf_to_bytes :: "(u8 list \<Rightarrow> string) \<Rightarrow> conf_value \<Rightarrow> string" where
  "conf_to_bytes hex_encode (ConfString s) = s"
| "conf_to_bytes hex_encode (ConfBytes b) = hex_encode b"

definition conf_add :: "(u8 list \<Rightarrow> string) \<Rightarrow> string \<Rightarrow> conf_value \<Rightarrow> string \<Rightarrow> string" where
  "conf_add hex_encode key v buf = buf @ key @ ''='' @ conf_to_bytes hex_encode v @ [CHR 0x0A]"

definition into_config :: "string \<Rightarrow> string" where
  "into_config buf = buf @ [CHR 0x0A]"

definition conf_add_peer ::
    "(u8 list \<Rightarrow> string) \<Rightarrow> (ip_network \<Rightarrow> string) \<Rightarrow> string \<Rightarrow> peer_config \<Rightarrow> string" where
  "conf_add_peer hex_encode fmt_net buf peer =
     foldl (\<lambda>buf addr. conf_add hex_encode ''allowed_ip'' (ConfString (fmt_net addr)) buf)
       (conf_add hex_encode ''replace_allowed_ips'' (ConfString ''true'')
         (conf_add hex_encode ''endpoint'' (ConfString (fmt_socket_addr (peer_endpoint peer)))
           (conf_add hex_encode ''public_key'' (ConfBytes (public_as_bytes (peer_public_key peer))) buf)))
       (peer_allowed_ips peer)"

text \<open>\<open>None\<close> is the panic of \<open>CString::new(...).expect\<close> when the buffer holds a NUL byte.\<close>

definition to_userspace_format ::
    "(u8 list \<Rightarrow> string) \<Rightarrow> (ip_network \<Rightarrow> string) \<Rightarrow> wg_config \<Rightarrow> string option" where
  "to_userspace_format hex_encode fmt_net c =
     (let buf = conf_add hex_encode ''private_key''
                  (ConfBytes (private_as_bytes (wg_private_key (cfg_tunnel c)))) [];
          buf = conf_add hex_encode ''listen_port'' (ConfString ''0'') buf;
          buf = conf_add hex_encode ''replace_peers'' (ConfString ''true'') buf;
          buf = foldl (conf_add_peer hex_encode fmt_net) buf (cfg_peers c);
          bytes = into_config buf
      in if CHR 0x00 \<in> set bytes then None else Some bytes)"

section \<open>Routes and the monitor\<close>

fun split_default_route :: "ip_network \<Rightarrow> ip_network list" where
  "split_default_route allowed_ip =
     (if net_prefix allowed_ip = 0 then
        (if net_is_ipv4 allowed_ip
         then [NetV4 (ipv4_new 0 0 0 0) 1, NetV4 (ipv4_new 128 0 0 0) 1]
         else [NetV6 (ipv6_new 0x8000 0 0 0 0 0 0 0) 1, NetV6 (ipv6_new 0 0 0 0 0 0 0 0) 1])
      else [allowed_ip])"

definition get_tunnel_routes :: "wg_config \<Rightarrow> ip_network list" where
  "get_tunnel_routes c =
     concat (map split_default_route (concat (map peer_allowed_ips (cfg_peers c))))"

text \<open>\<open>routing::NetNode\<close>: the default route's node, or a real node.  A host address converts to a full-length network.\<close>

record route_node =
  node_ip :: "ip_addr option"
  node_device :: "string option"

datatype net_node = RealNode route_node | DefaultNode

definition node_device_new :: "string \<Rightarrow> route_node" where
  "node_device_new d = \<lparr>node_ip = None, node_device = Some d\<rparr>"

fun host_network :: "ip_addr \<Rightarrow> ip_network" where
  "host_network (V4 a) = NetV4 a 32"
| "host_network (V6 a) = NetV6 a 128"

definition get_routes :: "string \<Rightarrow> wg_config \<Rightarrow> (ip_network \<times> net_node) list" where
  "get_routes iface_name c =
     (let node = node_device_new iface_name;
          routes = foldl (\<lambda>m n. AList.update n (RealNode node) m) [] (get_tunnel_routes c)
      in foldl (\<lambda>m p. AList.update (host_network (sa_ip (peer_endpoint p))) DefaultNode m) routes
           (cfg_peers c))"

definition wg_tunnel_metadata :: "string \<Rightarrow> wg_config \<Rightarrow> tunnel_metadata" where
  "wg_tunnel_metadata interface_name c =
     \<lparr>tm_interface = interface_name, tm_ips = wg_addresses (cfg_tunnel c),
      tm_ipv4_gateway = cfg_ipv4_gateway c, tm_ipv6_gateway = cfg_ipv6_gateway c\<rparr>"

datatype close_msg = CloseStop | ClosePingErr

datatype wireguard_error =
    SetupTunnelDeviceError
  | StartWireguardError int
  | StopWireguardError int
  | SetupRoutingError
  | PrepareLogFileError
  | InterfaceNameError
  | PingTimeoutError

text \<open>
  \<open>WireguardMonitor::wait\<close>: \<open>recv\<close> is the message read from the close channel (\<open>None\<close> when all
  senders are gone); the result comes with the effects on the route manager and the tunnel, in order.
\<close>

datatype wg_effect = RoutesStopped | TunnelStopped | EventDown

fun wg_monitor_wait :: "close_msg option \<Rightarrow> (wireguard_error + unit) \<times> wg_effect list" where
  "wg_monitor_wait recv =
     (let wait_result = (case recv of
            Some ClosePingErr \<Rightarrow> Inl PingTimeoutError
          | Some CloseStop \<Rightarrow> Inr ()
          | None \<Rightarrow> Inr ())
      in (wait_result, [RoutesStopped, TunnelStopped, EventDown]))"

section \<open>Pinging the gateway\<close>

definition ping_cmd_args :: "target_os \<Rightarrow> ip_addr \<Rightarrow> u16 \<Rightarrow> string \<Rightarrow> bool \<Rightarrow> string list" where
  "ping_cmd_args os ip timeout_secs interface exit_on_first_reply =
     (let args = [''-n'', ''-i'', ''1''];
          timeout_flag = (if os = Linux \<or> os = Android then ''-w'' else ''-t'');
          args = args @ [timeout_flag, fmt_u16 timeout_secs];
          interface_flag = (if os = Linux then Some ''-I'' else if os = MacOs then Some ''-b'' else None);
          args = (case interface_flag of Some f \<Rightarrow> args @ [f, interface] | None \<Rightarrow> args);
          args = (if exit_on_first_reply
                  then (if os = MacOs then args @ [''-o''] else args @ [''-c'', ''1''])
                  else args)
      in args @ [fmt_ip ip])"

datatype ping_error = PingError | TimeoutError

text \<open>\<open>run\<close> gives \<open>None\<close> when the command cannot be run, else whether its exit status is success.\<close>

definition ping :: "(string list \<Rightarrow> bool option) \<Rightarrow> target_os \<Rightarrow> ip_addr \<Rightarrow> u16 \<Rightarrow> string \<Rightarrow> bool \<Rightarrow> ping_error + unit" where
  "ping run os ip timeout_secs interface exit_on_first_reply =
     (case run (ping_cmd_args os ip timeout_secs interface exit_on_first_reply) of
        None \<Rightarrow> Inl PingError
      | Some success \<Rightarrow> if success then Inr () else Inl TimeoutError)"

text \<open>
  \<open>monitor_ping\<close> loops until a ping fails; the outcomes of the successive \<open>ping\<close> commands are a list,
  and \<open>None\<close> says that the loop is still running when they are used up.
\<close>

fun monitor_ping :: "(ping_error + unit) list \<Rightarrow> ping_error option" where
  "monitor_ping [] = None"
| "monitor_ping (Inl e # _) = Some e"
| "monitor_ping (Inr _ # rs) = monitor_ping rs"

text \<open>
  The thread \<open>WireguardMonitor::start\<close> spawns: the event it reports and the close messages it sends,
  given the first ping's result and the end of \<open>monitor_ping\<close> (if it ends).
\<close>

fun ping_thread :: "tunnel_metadata \<Rightarrow> ping_error + unit \<Rightarrow> (ping_error + unit) list
    \<Rightarrow> tunnel_metadata option \<times> close_msg list" where
  "ping_thread md first rest =
     (case first of Inr _ \<Rightarrow> Some md | Inl _ \<Rightarrow> None,
      (case first of Inr _ \<Rightarrow> [] | Inl _ \<Rightarrow> [ClosePingErr]) @
      (case monitor_ping rest of None \<Rightarrow> [] | Some _ \<Rightarrow> [ClosePingErr]))"

section \<open>Lemmas\<close>

lemma update_fold_lookup:
  "map_of (foldl (\<lambda>m x. AList.update (f x) v m) acc xs) k =
     (if k \<in> f ` set xs then Some v else map_of acc k)"
  by (induction xs arbitrary: acc) (auto simp: update_conv')

lemma split_bit: "(a :: 'a::len word) AND push_bit n 1 = (if bit a n then push_bit n 1 else 0)"
  by (rule bit_word_eqI) (auto simp: bit_simps)

lemma half_space:
  fixes a :: "'a::len word"
  assumes "h = push_bit n 1"
  shows "a AND h = 0 \<or> a AND h = h"
  using assms split_bit [of a n] by auto

lemma split_default_route_covers:
  "(\<exists>r \<in> set (split_default_route n). in_net a r) \<longleftrightarrow> in_net a n"
proof -
  have v4: "ipv4_new 128 0 0 0 = push_bit 31 1" "mask_v4 (Suc 0) = push_bit 31 1" "ipv4_new 0 0 0 0 = 0"
    by (simp_all add: ipv4_new_def mask_v4_def mask_eq_exp_minus_1)
  have v6: "ipv6_new 0x8000 0 0 0 0 0 0 0 = push_bit 127 1" "mask_v6 (Suc 0) = push_bit 127 1"
    "ipv6_new 0 0 0 0 0 0 0 0 = 0"
    by (simp_all add: ipv6_new_def mask_v6_def mask_eq_exp_minus_1)
  show ?thesis
    using half_space [OF refl, where n = 31 and 'a = 32] half_space [OF refl, where n = 127 and 'a = 128]
    by (cases n; cases a) (auto simp del: push_bit_of_1 simp: v4 v6 mask_v4_def [of 0] mask_v6_def [of 0])
qed

section \<open>Properties\<close>

text \<open>
  \<open>Config::from_parameters\<close> succeeds exactly when, under the IPv6 rule of the code (an MTU of at
  least 1420 and IPv6 enabled), the peer keeps an allowed network and the tunnel an address; the
  configuration then holds exactly the usable addresses and networks in their order, and without
  IPv6 it has no IPv6 gateway.
\<close>

theorem wg_config_from_parameters_spec:
  "wg_config_from_parameters p =
    (let con = wg_connection p;
         v6 = (case wg_mtu (wg_options p) of Some m \<Rightarrow> m \<ge> 1420 | None \<Rightarrow> True) \<and>
           enable_ipv6 (wg_generic_options p);
         nets = filter (\<lambda>n. net_is_ipv4 n \<or> v6) (peer_allowed_ips (wgc_peer con));
         addrs = filter (\<lambda>a. is_ipv4 a \<or> v6) (wg_addresses (wgc_tunnel con))
     in if nets = [] then Inl InvalidPeerIpError
        else if addrs = [] then Inl InvalidTunnelIpError
        else Inr \<lparr>cfg_tunnel = (wgc_tunnel con)\<lparr>wg_addresses := addrs\<rparr>,
               cfg_peers = [(wgc_peer con)\<lparr>peer_allowed_ips := nets\<rparr>],
               cfg_ipv4_gateway = wgc_ipv4_gateway con,
               cfg_ipv6_gateway = (if v6 then wgc_ipv6_gateway con else None),
               cfg_mtu = (case wg_mtu (wg_options p) of Some m \<Rightarrow> m | None \<Rightarrow> 1420)\<rparr>)"
  by (auto simp: wg_config_from_parameters_def wg_config_new_def Let_def
      DEFAULT_MTU_def SMALLEST_IPV6_MTU_def filter_empty_conv split: option.splits)

text \<open>
  C22.  The routes through the tunnel cover exactly the addresses the peers' allowed networks cover: the
  two half-spaces that replace a default route (prefix 0) lose and add nothing.
\<close>

theorem get_tunnel_routes_covers:
  "(\<exists>r \<in> set (get_tunnel_routes c). in_net a r) \<longleftrightarrow>
    (\<exists>p \<in> set (cfg_peers c). \<exists>n \<in> set (peer_allowed_ips p). in_net a n)"
  using split_default_route_covers [of _ a]
  by (auto simp: get_tunnel_routes_def simp del: split_default_route.simps)

text \<open>
  The routing table \<open>get_routes\<close> sets up sends every network of the tunnel routes to the tunnel
  device, except the host routes of the peers' own endpoints, which always go through the default
  node; there are no other routes.
\<close>

theorem get_routes_lookup:
  "map_of (get_routes iface c) n =
     (if \<exists>p \<in> set (cfg_peers c). n = host_network (sa_ip (peer_endpoint p)) then Some DefaultNode
      else if n \<in> set (get_tunnel_routes c) then Some (RealNode (node_device_new iface)) else None)"
proof -
  have "map_of (foldl (\<lambda>m n. AList.update n (RealNode (node_device_new iface)) m) [] (get_tunnel_routes c)) n =
      (if n \<in> set (get_tunnel_routes c) then Some (RealNode (node_device_new iface)) else None)"
    using update_fold_lookup [where f = "\<lambda>x. x" and v = "RealNode (node_device_new iface)" and acc = "[]"
        and xs = "get_tunnel_routes c" and k = n] by simp
  then show ?thesis
    unfolding get_routes_def Let_def
    by (simp add: update_fold_lookup [where f = "\<lambda>p. host_network (sa_ip (peer_endpoint p))"])
      (simp add: image_iff)
qed

definition ref_wg_params :: wg_tunnel_parameters where
  "ref_wg_params = \<lparr>wg_connection = \<lparr>
       wgc_tunnel = \<lparr>wg_private_key = PrivateKey (replicate 32 0), wg_addresses = [V4 (ipv4_new 10 64 0 2)]\<rparr>,
       wgc_peer = \<lparr>peer_public_key = PublicKey (replicate 32 1),
         peer_allowed_ips = [NetV4 0 0, NetV6 0 0],
         peer_endpoint = \<lparr>sa_ip = V4 (ipv4_new 1 2 3 4), sa_port = 51820\<rparr>\<rparr>,
       wgc_ipv4_gateway = ipv4_new 10 64 0 1, wgc_ipv6_gateway = None\<rparr>,
     wg_options = \<lparr>wg_mtu = None\<rparr>, wg_generic_options = \<lparr>enable_ipv6 = True\<rparr>\<rparr>"

definition ref_wg_config :: wg_config where
  "ref_wg_config = \<lparr>cfg_tunnel = wgc_tunnel (wg_connection ref_wg_params),
     cfg_peers = [wgc_peer (wg_connection ref_wg_params)], cfg_ipv4_gateway = ipv4_new 10 64 0 1,
     cfg_ipv6_gateway = None, cfg_mtu = 1420\<rparr>"

lemma ref_wg_config_ok: "wg_config_from_parameters ref_wg_params = Inr ref_wg_config"
  by (simp add: wg_config_from_parameters_def wg_config_new_def ref_wg_params_def ref_wg_config_def
      Let_def DEFAULT_MTU_def SMALLEST_IPV6_MTU_def)

theorem get_tunnel_routes_covers_witness:
  "\<exists>r \<in> set (get_tunnel_routes ref_wg_config). in_net (V4 (ipv4_new 8 8 8 8)) r"
proof -
  have "in_net (V4 (ipv4_new 8 8 8 8)) (NetV4 0 0)" by (simp add: mask_v4_def)
  then show ?thesis
    by (subst get_tunnel_routes_covers)
      (auto simp: ref_wg_config_def ref_wg_params_def)
qed

definition lines_of :: "string \<Rightarrow> nat" where
  "lines_of s = length (filter (\<lambda>c. c = CHR 0x0A) s)"

lemma lines_of_simps [simp]:
  "lines_of [] = 0" "lines_of (c # s) = (if c = CHR 0x0A then 1 else 0) + lines_of s"
  "lines_of (s @ t) = lines_of s + lines_of t"
  by (simp_all add: lines_of_def)

lemma plain_no_control:
  assumes "plain s"
  shows "CHR 0x00 \<notin> set s" and "filter (\<lambda>c. c = CHR 0x0A) s = []"
  using assms by (auto simp: plain_def list_all_iff plain_char_def filter_empty_conv)

lemma conf_add_lines:
  "plain key \<Longrightarrow> plain (conf_to_bytes hex v) \<Longrightarrow>
     lines_of (conf_add hex key v buf) = lines_of buf + 1 \<and>
     (CHR 0x00 \<in> set (conf_add hex key v buf) \<longleftrightarrow> CHR 0x00 \<in> set buf)"
  by (auto simp: conf_add_def lines_of_def plain_no_control)

lemma allowed_ips_lines:
  assumes "\<And>n. plain (fmt n)"
  shows "lines_of (foldl (\<lambda>buf a. conf_add hex ''allowed_ip'' (ConfString (fmt a)) buf) buf ns) =
      lines_of buf + length ns \<and>
    (CHR 0x00 \<in> set (foldl (\<lambda>buf a. conf_add hex ''allowed_ip'' (ConfString (fmt a)) buf) buf ns) \<longleftrightarrow>
      CHR 0x00 \<in> set buf)"
proof (induction ns arbitrary: buf)
  case (Cons n ns)
  have "plain ''allowed_ip''" by (simp add: plain_char_def)
  from conf_add_lines [OF this, of hex "ConfString (fmt n)"] Cons assms show ?case by simp
qed simp

lemma conf_add_peer_lines:
  assumes "\<And>b. plain (hex b)" and "\<And>n. plain (fmt n)"
  shows "lines_of (conf_add_peer hex fmt buf p) = lines_of buf + (3 + length (peer_allowed_ips p)) \<and>
    (CHR 0x00 \<in> set (conf_add_peer hex fmt buf p) \<longleftrightarrow> CHR 0x00 \<in> set buf)"
  unfolding conf_add_peer_def
  by (simp add: allowed_ips_lines assms conf_add_lines plain_char_def)

lemma conf_peers_lines:
  assumes "\<And>b. plain (hex b)" and "\<And>n. plain (fmt n)"
  shows "lines_of (foldl (conf_add_peer hex fmt) buf ps) =
      lines_of buf + (\<Sum>p\<leftarrow>ps. 3 + length (peer_allowed_ips p)) \<and>
    (CHR 0x00 \<in> set (foldl (conf_add_peer hex fmt) buf ps) \<longleftrightarrow> CHR 0x00 \<in> set buf)"
  by (induction ps arbitrary: buf) (simp_all add: conf_add_peer_lines assms)

text \<open>
  Writing the configuration for the userspace implementation never panics on a NUL byte, and
  every line of it is one \<open>key=value\<close> setting: the number of line feeds is the number of settings
  plus the terminating empty line.
\<close>

theorem to_userspace_format_total:
  assumes "\<And>b. plain (hex_encode b)" and "\<And>n. plain (fmt_net n)"
  shows "\<exists>conf. to_userspace_format hex_encode fmt_net c = Some conf \<and>
    lines_of conf = 4 + (\<Sum>p\<leftarrow>cfg_peers c. 3 + length (peer_allowed_ips p))"
  unfolding to_userspace_format_def Let_def into_config_def
  by (simp add: conf_peers_lines assms conf_add_lines plain_char_def)

definition ref_hex :: "u8 list \<Rightarrow> string" where
  "ref_hex b = concat (map (\<lambda>x. fmt_hex (unat x div 16) @ fmt_hex (unat x mod 16)) b)"

fun ref_fmt_net :: "ip_network \<Rightarrow> string" where
  "ref_fmt_net (NetV4 a p) = fmt_ipv4 a @ ''/'' @ fmt_nat p"
| "ref_fmt_net (NetV6 a p) = fmt_ipv6 a @ ''/'' @ fmt_nat p"

theorem to_userspace_format_total_witness:
  "\<exists>conf. to_userspace_format ref_hex ref_fmt_net ref_wg_config = Some conf \<and> lines_of conf = 9"
proof -
  have "plain (ref_hex b)" for b by (induction b) (simp_all add: ref_hex_def)
  moreover have "plain (ref_fmt_net n)" for n by (cases n) simp_all
  ultimately show ?thesis
    using to_userspace_format_total [of ref_hex ref_fmt_net ref_wg_config]
    by (simp add: ref_wg_config_def ref_wg_params_def)
qed

end
