(* ===== verification/OpenVpn.thy ===== *)
theory OpenVpn
  imports Net_Types Std_Fmt
begin

text \<open>
  The OpenVPN tunnel: the command line of \<open>talpid-core/src/process/openvpn.rs\<close>, stopping a process
  (\<open>process/stoppable_process.rs\<close>), the proxies of \<open>talpid-core/src/proxy\<close>, and starting and waiting for
  the tunnel in \<open>talpid-core/src/tunnel/openvpn.rs\<close>.  Paths are strings; the results of file system
  and process operations are read from an environment record.
\<close>

section \<open>The command line\<close>

definition BASE_ARGUMENTS :: "target_os \<Rightarrow> string list list" where
  "BASE_ARGUMENTS os =
     [[''--client''], [''--nobind''],
      (if os = Windows then [''--dev-type'', ''tun''] else [''--dev'', ''tun'']),
      [''--ping'', ''4''], [''--ping-exit'', ''20''], [''--connect-timeout'', ''30''],
      [''--connect-retry'', ''0'', ''0''], [''--connect-retry-max'', ''1''],
      [''--remote-cert-tls'', ''server''], [''--rcvbuf'', ''1048576''], [''--sndbuf'', ''1048576''],
      [''--fast-io''], [''--cipher'', ''AES-256-CBC''], [''--verb'', ''3'']] @
     (if os = Windows
      then [[''--route-gateway'', ''dhcp'', ''--route'', ''0.0.0.0'', ''0.0.0.0'', ''vpn_gateway'', ''1'']]
      else [])"

definition ALLOWED_TLS_CIPHERS :: "string list" where
  "ALLOWED_TLS_CIPHERS =
     [''TLS-DHE-RSA-WITH-AES-256-GCM-SHA384'', ''TLS-DHE-RSA-WITH-AES-256-CBC-SHA'']"

record openvpn_command =
  oc_openvpn_bin :: string
  oc_config :: "string option"
  oc_remote :: "endpoint option"
  oc_user_pass_path :: "string option"
  oc_proxy_auth_path :: "string option"
  oc_ca :: "string option"
  oc_crl :: "string option"
  oc_iproute_bin :: "string option"
  oc_plugin :: "(string \<times> string list) option"
  oc_log :: "string option"
  oc_tunnel_options :: openvpn_tunnel_options
  oc_proxy_settings :: "proxy_settings option"
  oc_tunnel_alias :: "string option"
  oc_enable_ipv6 :: bool
  oc_proxy_port :: "u16 option"

definition openvpn_command_new :: "string \<Rightarrow> openvpn_command" where
  "openvpn_command_new openvpn_bin =
     \<lparr>oc_openvpn_bin = openvpn_bin, oc_config = None, oc_remote = None, oc_user_pass_path = None,
      oc_proxy_auth_path = None, oc_ca = None, oc_crl = None, oc_iproute_bin = None,
      oc_plugin = None, oc_log = None, oc_tunnel_options = \<lparr>mssfix = None\<rparr>,
      oc_proxy_settings = None, oc_tunnel_alias = None, oc_enable_ipv6 = True, oc_proxy_port = None\<rparr>"

definition opt_args :: "'a option \<Rightarrow> ('a \<Rightarrow> string list) \<Rightarrow> string list" where
  "opt_args v f = (case v of None \<Rightarrow> [] | Some x \<Rightarrow> f x)"

definition base_arguments :: "target_os \<Rightarrow> string list" where
  "base_arguments os = concat (BASE_ARGUMENTS os)"

definition security_arguments :: "string list" where
  "security_arguments = [''--tls-cipher'', join_with '':'' ALLOWED_TLS_CIPHERS]"

definition remote_arguments :: "openvpn_command \<Rightarrow> string list" where
  "remote_arguments c =
     opt_args (oc_remote c) (\<lambda>e.
       [''--proto'', (case protocol e of Udp \<Rightarrow> ''udp'' | Tcp \<Rightarrow> ''tcp-client''),
        ''--remote'', fmt_ip (sa_ip (address e)), fmt_u16 (sa_port (address e))])"

definition authentication_arguments :: "openvpn_command \<Rightarrow> string list" where
  "authentication_arguments c = opt_args (oc_user_pass_path c) (\<lambda>p. [''--auth-user-pass'', p])"

definition bypass_route :: "ip_addr \<Rightarrow> string list" where
  "bypass_route ip = [''--route'', fmt_ip ip, ''255.255.255.255'', ''net_gateway'']"

text \<open>\<open>None\<close> is the panic on a Shadowsocks proxy without a registered port.\<close>

definition proxy_arguments :: "openvpn_command \<Rightarrow> string list option" where
  "proxy_arguments c =
     (case oc_proxy_settings c of
        None \<Rightarrow> Some []
      | Some (ProxyLocal l) \<Rightarrow>
          Some ([''--socks-proxy'', ''127.0.0.1'', fmt_u16 (lp_port l)] @ bypass_route (sa_ip (lp_peer l)))
      | Some (ProxyRemote r) \<Rightarrow>
          Some ([''--socks-proxy'', fmt_ip (sa_ip (rp_address r)), fmt_u16 (sa_port (rp_address r))] @
            (case rp_auth r of
               None \<Rightarrow> []
             | Some _ \<Rightarrow> opt_args (oc_proxy_auth_path c) (\<lambda>f. [f])) @
            bypass_route (sa_ip (rp_address r)))
      | Some (ProxyShadowsocksSettings ss) \<Rightarrow>
          (case oc_proxy_port c of
             None \<Rightarrow> None
           | Some port \<Rightarrow>
               Some ([''--socks-proxy'', ''127.0.0.1'', fmt_u16 port] @ bypass_route (sa_ip (ss_peer ss)))))"

definition ipv6_filter_arguments :: "openvpn_command \<Rightarrow> string list" where
  "ipv6_filter_arguments c =
     (if oc_enable_ipv6 c then []
      else [''--pull-filter'', ''ignore'', ''route-ipv6'', ''--pull-filter'', ''ignore'', ''ifconfig-ipv6''])"

definition get_arguments :: "target_os \<Rightarrow> openvpn_command \<Rightarrow> string list option" where
  "get_arguments os c =
     (case proxy_arguments c of
        None \<Rightarrow> None
      | Some proxy_args \<Rightarrow>
          Some (base_arguments os @
            opt_args (oc_config c) (\<lambda>p. [''--config'', p]) @
            remote_arguments c @
            authentication_arguments c @
            opt_args (oc_iproute_bin c) (\<lambda>p. [''--iproute'', p]) @
            opt_args (oc_ca c) (\<lambda>p. [''--ca'', p]) @
            opt_args (oc_crl c) (\<lambda>p. [''--crl-verify'', p]) @
            opt_args (oc_plugin c) (\<lambda>(p, args). [''--plugin'', p] @ args) @
            opt_args (oc_log c) (\<lambda>p. [''--log'', p]) @
            opt_args (mssfix (oc_tunnel_options c)) (\<lambda>m. [''--mssfix'', fmt_u16 m]) @
            ipv6_filter_arguments c @
            opt_args (oc_tunnel_alias c) (\<lambda>d. [''--dev-node'', d]) @
            security_arguments @ proxy_args))"

section \<open>Stopping a process\<close>

text \<open>
  \<open>wait_timeout\<close>: the list holds the results of \<open>has_stopped\<close> of the polls that fit into the timeout
  (\<open>None\<close> is an I/O error); \<open>nice_kill\<close> returns whether it had to kill the process and the result.
\<close>

fun wait_timeout :: "bool option list \<Rightarrow> bool option" where
  "wait_timeout [] = Some False"
| "wait_timeout (None # _) = None"
| "wait_timeout (Some stopped # ps) = (if stopped then Some True else wait_timeout ps)"

datatype kill_outcome = KillIoError | StoppedGracefully | Killed bool

definition nice_kill :: "bool option list \<Rightarrow> bool \<Rightarrow> kill_outcome" where
  "nice_kill polls kill_ok =
     (case wait_timeout polls of
        None \<Rightarrow> KillIoError
      | Some True \<Rightarrow> StoppedGracefully
      | Some False \<Rightarrow> Killed kill_ok)"

section \<open>Proxies\<close>

record shadowsocks_command =
  sc_shadowsocks_bin :: string
  sc_local :: "socket_addr option"
  sc_peer :: "socket_addr option"
  sc_peer_password :: "string option"
  sc_cipher :: "string option"

definition shadowsocks_arguments :: "shadowsocks_command \<Rightarrow> string list" where
  "shadowsocks_arguments c =
     [''--no-delay''] @
     opt_args (sc_local c) (\<lambda>l. [''--local-addr'', fmt_ip (sa_ip l) @ '':'' @ fmt_u16 (sa_port l)]) @
     opt_args (sc_peer c) (\<lambda>p. [''--server-addr'', fmt_ip (sa_ip p) @ '':'' @ fmt_u16 (sa_port p)]) @
     opt_args (sc_peer_password c) (\<lambda>p. [''--password'', p]) @
     opt_args (sc_cipher c) (\<lambda>x. [''--encrypt-method'', x])"

definition shadowsocks_command_for :: "string \<Rightarrow> shadowsocks_proxy_settings \<Rightarrow> shadowsocks_command" where
  "shadowsocks_command_for binary settings =
     \<lparr>sc_shadowsocks_bin = binary,
      sc_local = Some \<lparr>sa_ip = V4 (ipv4_new 127 0 0 1), sa_port = 0\<rparr>,
      sc_peer = Some (ss_peer settings), sc_peer_password = Some (ss_password settings),
      sc_cipher = Some (ss_cipher settings)\<rparr>"

text \<open>
  \<open>get_bound_port\<close>: at most five rounds over the log.  A round is the list of lines it can read
  (an error of \<open>read_line\<close> ends it) and whether the process has exited afterwards, \<open>None\<close> when
  \<open>try_wait\<close> fails, which panics; \<open>parse_port\<close> is the regular expression match.
\<close>

fun first_port :: "(string \<Rightarrow> u16 option) \<Rightarrow> string list \<Rightarrow> u16 option" where
  "first_port parse_port [] = None"
| "first_port parse_port (l # ls) =
     (case parse_port l of Some p \<Rightarrow> Some p | None \<Rightarrow> first_port parse_port ls)"

fun get_bound_port_rounds ::
    "(string \<Rightarrow> u16 option) \<Rightarrow> (string list \<times> bool option) list \<Rightarrow> u16 option panics" where
  "get_bound_port_rounds parse_port [] = Returns None"
| "get_bound_port_rounds parse_port ((ls, exited) # rounds) =
     (case first_port parse_port ls of
        Some p \<Rightarrow> Returns (Some p)
      | None \<Rightarrow>
          (case exited of
             None \<Rightarrow> Panics
           | Some True \<Rightarrow> Returns None
           | Some False \<Rightarrow> get_bound_port_rounds parse_port rounds))"

definition get_bound_port ::
    "(string \<Rightarrow> u16 option) \<Rightarrow> (string list \<times> bool option) list \<Rightarrow> u16 option panics" where
  "get_bound_port parse_port rounds = get_bound_port_rounds parse_port (take 5 rounds)"

datatype proxy_wait_result = UnexpectedExit string | ProperShutdown

definition fmt_i32 :: "int \<Rightarrow> string" where
  "fmt_i32 n = (if n < 0 then ''-'' @ fmt_nat (nat (- n)) else fmt_nat (nat n))"

text \<open>The process output is \<open>None\<close> on an I/O error, else the exit code (absent after a signal).\<close>

definition shadowsocks_wait :: "int option option \<Rightarrow> bool \<Rightarrow> unit + proxy_wait_result" where
  "shadowsocks_wait output was_closed =
     (case output of
        None \<Rightarrow> Inl ()
      | Some code \<Rightarrow>
          Inr (if was_closed then ProperShutdown
               else UnexpectedExit (case code of
                  Some c \<Rightarrow> ''Exit code: '' @ fmt_i32 c
                | None \<Rightarrow> ''Exit code is indeterminable'')))"

text \<open>
  \<open>swap_close\<close> is the body of both close handles: only the first close kills the process.  It returns
  whether the process is killed and the new value of the flag.
\<close>

definition swap_close :: "bool \<Rightarrow> bool \<times> bool" where
  "swap_close was_closed = (\<not> was_closed, True)"

section \<open>The environment\<close>

record ovpn_env =
  oe_os :: target_os
  oe_exists :: "string \<Rightarrow> bool"
  oe_which_ip :: "string option"
  oe_tap_alias :: "string option"
  oe_create_file :: "string \<Rightarrow> string option"
  oe_rotate_log :: "string \<Rightarrow> bool"
  oe_temp_dir :: string
  oe_start_process :: "string \<Rightarrow> string list \<Rightarrow> bool"
  oe_open_log :: "string \<Rightarrow> bool"
  oe_log_rounds :: "(string list \<times> bool option) list"
  oe_parse_port :: "string \<Rightarrow> u16 option"
  oe_event_server :: "string option"

datatype openvpn_error =
    ChildProcessError string
  | EventDispatcherError
  | EventDispatcherExited
  | MissingTapAdapter
  | DisabledTapAdapter
  | ChildProcessDied
  | IpRouteNotFound
  | OpenVpnNotFound string
  | PluginNotFound string
  | CredentialsWriteError
  | StartProxyError
  | MonitorProxyError
  | ProxyExited string
  | WinnetError

definition SHADOWSOCKS_BIN_FILENAME :: "target_os \<Rightarrow> string" where
  "SHADOWSOCKS_BIN_FILENAME os = (if os = Windows then ''sslocal.exe'' else ''sslocal'')"

definition OPENVPN_PLUGIN_FILENAME :: "target_os \<Rightarrow> string" where
  "OPENVPN_PLUGIN_FILENAME os =
     (case os of MacOs \<Rightarrow> ''libtalpid_openvpn_plugin.dylib''
      | Windows \<Rightarrow> ''talpid_openvpn_plugin.dll''
      | _ \<Rightarrow> ''libtalpid_openvpn_plugin.so'')"

definition OPENVPN_BIN_FILENAME :: "target_os \<Rightarrow> string" where
  "OPENVPN_BIN_FILENAME os = (if os = Windows then ''openvpn.exe'' else ''openvpn'')"

definition shadowsocks_monitor_start ::
    "ovpn_env \<Rightarrow> shadowsocks_proxy_settings \<Rightarrow> string \<Rightarrow> string option \<Rightarrow> u16 option panics" where
  "shadowsocks_monitor_start env settings resource_dir log_dir =
     (let cmd = shadowsocks_command_for (path_join resource_dir (SHADOWSOCKS_BIN_FILENAME (oe_os env))) settings;
          log_dir = (case log_dir of Some d \<Rightarrow> d | None \<Rightarrow> oe_temp_dir env);
          logfile = path_join log_dir ''shadowsocks.log''
      in if \<not> oe_rotate_log env logfile then Returns None
         else if \<not> oe_start_process env (sc_shadowsocks_bin cmd) (shadowsocks_arguments cmd) then Returns None
         else if \<not> oe_open_log env logfile then Returns None
         else get_bound_port (oe_parse_port env) (oe_log_rounds env))"

text \<open>\<open>proxy::start_proxy\<close>, by the port its monitor reports; \<open>None\<close> is an I/O error.\<close>

fun start_proxy_monitor ::
    "ovpn_env \<Rightarrow> proxy_settings \<Rightarrow> string \<Rightarrow> string option \<Rightarrow> u16 option panics" where
  "start_proxy_monitor env (ProxyLocal l) resource_dir log_dir = Returns (Some (lp_port l))"
| "start_proxy_monitor env (ProxyRemote r) resource_dir log_dir = Returns (Some (sa_port (rp_address r)))"
| "start_proxy_monitor env (ProxyShadowsocksSettings ss) resource_dir log_dir =
     shadowsocks_monitor_start env ss resource_dir log_dir"

section \<open>Starting the tunnel\<close>

definition create_credentials_file :: "ovpn_env \<Rightarrow> string \<Rightarrow> string \<Rightarrow> openvpn_error + string" where
  "create_credentials_file env username password =
     (case oe_create_file env (username @ [CHR 0x0A] @ password @ [CHR 0x0A]) of
        None \<Rightarrow> Inl CredentialsWriteError
      | Some path \<Rightarrow> Inr path)"

definition create_proxy_auth_file ::
    "ovpn_env \<Rightarrow> proxy_settings option \<Rightarrow> openvpn_error + string option" where
  "create_proxy_auth_file env settings =
     (case settings of
        Some (ProxyRemote r) \<Rightarrow>
          (case rp_auth r of
             Some auth \<Rightarrow>
               (case create_credentials_file env (pa_username auth) (pa_password auth) of
                  Inl e \<Rightarrow> Inl e
                | Inr path \<Rightarrow> Inr (Some path))
           | None \<Rightarrow> Inr None)
      | _ \<Rightarrow> Inr None)"

text \<open>The result holds the port of the started proxy monitor.\<close>

definition start_proxy ::
    "ovpn_env \<Rightarrow> proxy_settings option \<Rightarrow> string \<Rightarrow> string option
      \<Rightarrow> (openvpn_error + u16 option) panics" where
  "start_proxy env settings resource_dir log_dir =
     (case settings of
        None \<Rightarrow> Returns (Inr None)
      | Some s \<Rightarrow>
          (case start_proxy_monitor env s resource_dir log_dir of
             Panics \<Rightarrow> Panics
           | Returns None \<Rightarrow> Returns (Inl StartProxyError)
           | Returns (Some port) \<Rightarrow> Returns (Inr (Some port))))"

definition get_plugin_path :: "ovpn_env \<Rightarrow> string \<Rightarrow> openvpn_error + string" where
  "get_plugin_path env resource_dir =
     (let path = path_join resource_dir (OPENVPN_PLUGIN_FILENAME (oe_os env))
      in if oe_exists env path then Inr path else Inl (PluginNotFound path))"

definition get_openvpn_bin :: "ovpn_env \<Rightarrow> string \<Rightarrow> openvpn_error + string" where
  "get_openvpn_bin env resource_dir =
     (let path = path_join resource_dir (OPENVPN_BIN_FILENAME (oe_os env))
      in if oe_exists env path then Inr path else Inl (OpenVpnNotFound path))"

definition get_config_path :: "ovpn_env \<Rightarrow> string \<Rightarrow> string option" where
  "get_config_path env resource_dir =
     (let path = path_join resource_dir ''openvpn.conf''
      in if oe_exists env path then Some path else None)"

text \<open>The platform dependent part of \<open>create_openvpn_cmd\<close>: \<open>ip\<close> on Linux, the TAP alias on Windows.\<close>

definition add_iproute :: "ovpn_env \<Rightarrow> openvpn_command \<Rightarrow> openvpn_error + openvpn_command" where
  "add_iproute env cmd =
     (if oe_os env = Linux then
        (case oe_which_ip env of
           None \<Rightarrow> Inl IpRouteNotFound
         | Some p \<Rightarrow> Inr (cmd\<lparr>oc_iproute_bin := Some p\<rparr>))
      else Inr cmd)"

definition add_tunnel_alias :: "ovpn_env \<Rightarrow> openvpn_command \<Rightarrow> openvpn_error + openvpn_command" where
  "add_tunnel_alias env cmd =
     (if oe_os env = Windows then
        (case oe_tap_alias env of
           None \<Rightarrow> Inl WinnetError
         | Some a \<Rightarrow> Inr (cmd\<lparr>oc_tunnel_alias := Some a\<rparr>))
      else Inr cmd)"

definition create_openvpn_cmd ::
    "ovpn_env \<Rightarrow> openvpn_tunnel_parameters \<Rightarrow> string \<Rightarrow> string option \<Rightarrow> string \<Rightarrow> u16 option
      \<Rightarrow> openvpn_error + openvpn_command" where
  "create_openvpn_cmd env params user_pass_file proxy_auth_file resource_dir proxy_monitor =
     (case get_openvpn_bin env resource_dir of
        Inl e \<Rightarrow> Inl e
      | Inr bin \<Rightarrow>
          (let cmd = openvpn_command_new bin;
               cmd = (case get_config_path env resource_dir of
                        Some c \<Rightarrow> cmd\<lparr>oc_config := Some c\<rparr> | None \<Rightarrow> cmd)
           in case add_iproute env cmd of
                Inl e \<Rightarrow> Inl e
              | Inr cmd \<Rightarrow>
                  (let cmd = cmd\<lparr>oc_remote := Some (ovpn_endpoint (ovpn_config params)),
                               oc_user_pass_path := Some user_pass_file,
                               oc_tunnel_options := ovpn_options params,
                               oc_enable_ipv6 := enable_ipv6 (ovpn_generic_options params),
                               oc_ca := Some (path_join resource_dir ''ca.crt'')\<rparr>
                   in case add_tunnel_alias env cmd of
                        Inl e \<Rightarrow> Inl e
                      | Inr cmd \<Rightarrow>
                          (let cmd = (case ovpn_proxy params of
                                 Some s \<Rightarrow> cmd\<lparr>oc_proxy_settings := Some s\<rparr> | None \<Rightarrow> cmd);
                               cmd = (case proxy_auth_file of
                                 Some f \<Rightarrow> cmd\<lparr>oc_proxy_auth_path := Some f\<rparr> | None \<Rightarrow> cmd);
                               cmd = (case proxy_monitor of
                                 Some port \<Rightarrow> cmd\<lparr>oc_proxy_port := Some port\<rparr> | None \<Rightarrow> cmd)
                           in Inr cmd))))"

text \<open>
  \<open>Path::parent\<close>: the path without its last component, \<open>None\<close> for the root and the empty path
  (components \<open>.\<close>, which name the same directory, are not dropped).  \<open>openvpn_log_dir\<close> is the
  \<open>log_dir\<close> of \<open>start\<close>, which expects a parent.
\<close>

definition path_parent :: "string \<Rightarrow> string option" where
  "path_parent p =
     (let last_first = dropWhile (\<lambda>c. c = CHR ''/'') (rev p);
          rest = dropWhile (\<lambda>c. c \<noteq> CHR ''/'') last_first;
          dir = dropWhile (\<lambda>c. c = CHR ''/'') rest
      in if last_first = [] then None
         else Some (if rest \<noteq> [] \<and> dir = [] then ''/'' else rev dir))"

definition openvpn_log_dir :: "string option \<Rightarrow> string option panics" where
  "openvpn_log_dir log_path =
     (case log_path of
        None \<Rightarrow> Returns None
      | Some l \<Rightarrow> (case path_parent l of None \<Rightarrow> Panics | Some d \<Rightarrow> Returns (Some d)))"

record openvpn_monitor =
  om_child :: "string \<times> string list"
  om_proxy_port :: "u16 option"
  om_log_path :: "string option"
  om_user_pass_file :: string
  om_proxy_auth_file :: "string option"

text \<open>
  \<open>new_internal\<close>: the event server is started, then the process with the plugin and the log file
  of the command.  Building the arguments may panic (\<open>proxy_arguments\<close>).
\<close>

definition openvpn_new_internal ::
    "ovpn_env \<Rightarrow> openvpn_command \<Rightarrow> string \<Rightarrow> string option \<Rightarrow> string \<Rightarrow> string option \<Rightarrow> u16 option
      \<Rightarrow> (openvpn_error + openvpn_monitor) panics" where
  "openvpn_new_internal env cmd plugin_path log_path user_pass_file proxy_auth_file proxy_monitor =
     (case oe_event_server env of
        None \<Rightarrow> Returns (Inl EventDispatcherError)
      | Some ipc_path \<Rightarrow>
          (let cmd = cmd\<lparr>oc_plugin := Some (plugin_path, [ipc_path])\<rparr>;
               cmd = (case log_path of Some l \<Rightarrow> cmd\<lparr>oc_log := Some l\<rparr> | None \<Rightarrow> cmd)
           in case get_arguments (oe_os env) cmd of
                None \<Rightarrow> Panics
              | Some args \<Rightarrow>
                  Returns (if oe_start_process env (oc_openvpn_bin cmd) args
                     then Inr \<lparr>om_child = (oc_openvpn_bin cmd, args), om_proxy_port = proxy_monitor,
                            om_log_path = log_path, om_user_pass_file = user_pass_file,
                            om_proxy_auth_file = proxy_auth_file\<rparr>
                     else Inl (ChildProcessError ''Failed to start''))))"

definition openvpn_monitor_start ::
    "ovpn_env \<Rightarrow> openvpn_tunnel_parameters \<Rightarrow> string option \<Rightarrow> string
      \<Rightarrow> (openvpn_error + openvpn_monitor) panics" where
  "openvpn_monitor_start env params log_path resource_dir =
     (case create_credentials_file env (ovpn_username (ovpn_config params)) (ovpn_password (ovpn_config params)) of
        Inl e \<Rightarrow> Returns (Inl e)
      | Inr user_pass_file \<Rightarrow>
     (case create_proxy_auth_file env (ovpn_proxy params) of
        Inl e \<Rightarrow> Returns (Inl e)
      | Inr proxy_auth_file \<Rightarrow>
     (case openvpn_log_dir log_path of
        Panics \<Rightarrow> Panics
      | Returns log_dir \<Rightarrow>
     (case start_proxy env (ovpn_proxy params) resource_dir log_dir of
        Panics \<Rightarrow> Panics
      | Returns (Inl e) \<Rightarrow> Returns (Inl e)
      | Returns (Inr proxy_monitor) \<Rightarrow>
     (case create_openvpn_cmd env params user_pass_file proxy_auth_file resource_dir proxy_monitor of
        Inl e \<Rightarrow> Returns (Inl e)
      | Inr cmd \<Rightarrow>
     (case get_plugin_path env resource_dir of
        Inl e \<Rightarrow> Returns (Inl e)
      | Inr plugin_path \<Rightarrow>
          openvpn_new_internal env cmd plugin_path log_path user_pass_file proxy_auth_file
            proxy_monitor))))))"

section \<open>Waiting for the tunnel\<close>

text \<open>\<open>Child\<close> carries whether the exit status is a success (\<open>None\<close> for an I/O error) and the closed flag.\<close>

datatype wait_result = Child "bool option" bool | EventDispatcher

text \<open>\<open>log_content\<close> is the content of the OpenVPN log_content, if it can be read; \<open>contains\<close> is \<open>str::contains\<close>.\<close>

fun contains :: "string \<Rightarrow> string \<Rightarrow> bool" where
  "contains [] pat = (pat = [])"
| "contains (c # s) pat = (take (length pat) (c # s) = pat \<or> contains s pat)"

definition postmortem :: "target_os \<Rightarrow> string option \<Rightarrow> openvpn_error" where
  "postmortem os log_content =
     (case (if os = Windows then log_content else None) of
        Some l \<Rightarrow>
          (if contains l ''There are no TAP-Windows adapters on this system'' then MissingTapAdapter
           else if contains l ''CreateFile failed on TAP device'' then DisabledTapAdapter
           else ChildProcessDied)
      | None \<Rightarrow> ChildProcessDied)"

fun wait_tunnel :: "target_os \<Rightarrow> string option \<Rightarrow> wait_result \<Rightarrow> openvpn_error + unit" where
  "wait_tunnel os log_content (Child (Some success) was_closed) =
     (if success \<or> was_closed then Inr () else Inl (postmortem os log_content))"
| "wait_tunnel os log_content (Child None was_closed) = Inl (ChildProcessError ''Error when waiting'')"
| "wait_tunnel os log_content EventDispatcher = Inl EventDispatcherExited"

datatype stopped = StoppedTunnel "openvpn_error + unit" | StoppedProxy "unit + proxy_wait_result"

text \<open>\<open>OpenVpnMonitor::wait\<close> with a proxy returns what the first message on the channel gives.\<close>

fun openvpn_wait_proxy :: "stopped \<Rightarrow> openvpn_error + unit" where
  "openvpn_wait_proxy (StoppedTunnel r) = r"
| "openvpn_wait_proxy (StoppedProxy (Inr ProperShutdown)) = Inl (ProxyExited ''No details'')"
| "openvpn_wait_proxy (StoppedProxy (Inr (UnexpectedExit d))) = Inl (ProxyExited d)"
| "openvpn_wait_proxy (StoppedProxy (Inl _)) = Inl MonitorProxyError"

section \<open>Properties\<close>

lemma proxy_arguments_some:
  assumes "\<And>ss. oc_proxy_settings c = Some (ProxyShadowsocksSettings ss) \<Longrightarrow> oc_proxy_port c \<noteq> None"
  shows "\<exists>args. proxy_arguments c = Some args"
  using assms by (auto simp: proxy_arguments_def split: option.split proxy_settings.split)

lemma add_iproute_ok: "add_iproute env cmd = Inr cmd' \<Longrightarrow> \<exists>p. cmd' = cmd\<lparr>oc_iproute_bin := p\<rparr>"
  by (auto simp: add_iproute_def split: if_splits option.splits
      intro: exI [of _ "oc_iproute_bin cmd"])

lemma add_tunnel_alias_ok: "add_tunnel_alias env cmd = Inr cmd' \<Longrightarrow> \<exists>a. cmd' = cmd\<lparr>oc_tunnel_alias := a\<rparr>"
  by (auto simp: add_tunnel_alias_def split: if_splits option.splits
      intro: exI [of _ "oc_tunnel_alias cmd"])

lemma create_openvpn_cmd_fields:
  assumes "create_openvpn_cmd env params upf paf dir pm = Inr cmd"
  shows "oc_remote cmd = Some (ovpn_endpoint (ovpn_config params))"
    and "oc_proxy_settings cmd = ovpn_proxy params" and "oc_proxy_port cmd = pm"
    and "oc_enable_ipv6 cmd = enable_ipv6 (ovpn_generic_options params)"
    and "oc_user_pass_path cmd = Some upf"
proof -
  obtain bin where bin: "get_openvpn_bin env dir = Inr bin"
    using assms by (cases "get_openvpn_bin env dir") (simp_all add: create_openvpn_cmd_def)
  define c0 where "c0 = (case get_config_path env dir of
    Some c \<Rightarrow> openvpn_command_new bin\<lparr>oc_config := Some c\<rparr> | None \<Rightarrow> openvpn_command_new bin)"
  have c0: "oc_proxy_settings c0 = None" "oc_proxy_port c0 = None"
    by (simp_all add: c0_def openvpn_command_new_def split: option.split)
  obtain c1 where c1: "add_iproute env c0 = Inr c1"
    using assms by (cases "add_iproute env c0")
      (simp_all add: create_openvpn_cmd_def bin Let_def flip: c0_def)
  obtain c2 where c2: "add_tunnel_alias env (c1\<lparr>oc_remote := Some (ovpn_endpoint (ovpn_config params)),
      oc_user_pass_path := Some upf, oc_tunnel_options := ovpn_options params,
      oc_enable_ipv6 := enable_ipv6 (ovpn_generic_options params),
      oc_ca := Some (path_join dir ''ca.crt'')\<rparr>) = Inr c2" (is "add_tunnel_alias env ?c = _")
    using assms by (cases "add_tunnel_alias env ?c")
      (simp_all add: create_openvpn_cmd_def bin Let_def c1 flip: c0_def)
  have cmd: "cmd = (let cmd = (case ovpn_proxy params of
             Some s \<Rightarrow> c2\<lparr>oc_proxy_settings := Some s\<rparr> | None \<Rightarrow> c2);
           cmd = (case paf of Some f \<Rightarrow> cmd\<lparr>oc_proxy_auth_path := Some f\<rparr> | None \<Rightarrow> cmd)
       in case pm of Some port \<Rightarrow> cmd\<lparr>oc_proxy_port := Some port\<rparr> | None \<Rightarrow> cmd)"
    using assms by (simp add: create_openvpn_cmd_def bin c1 c2 Let_def flip: c0_def)
  obtain p a where "c1 = c0\<lparr>oc_iproute_bin := p\<rparr>" "c2 = ?c\<lparr>oc_tunnel_alias := a\<rparr>"
    using add_iproute_ok [OF c1] add_tunnel_alias_ok [OF c2] by blast
  then show "oc_remote cmd = Some (ovpn_endpoint (ovpn_config params))"
    and "oc_proxy_settings cmd = ovpn_proxy params" and "oc_proxy_port cmd = pm"
    and "oc_enable_ipv6 cmd = enable_ipv6 (ovpn_generic_options params)"
    and "oc_user_pass_path cmd = Some upf"
    by (simp_all add: cmd c0 Let_def split: option.split)
qed

lemma started_proxy_port:
  "start_proxy env (Some s) dir log_dir = Returns (Inr pm) \<Longrightarrow> pm \<noteq> None"
  by (auto simp: start_proxy_def split: panics.splits option.splits)

text \<open>The process of the proxy can be asked whether it has exited, in every round.\<close>

definition proxy_pollable :: "ovpn_env \<Rightarrow> bool" where
  "proxy_pollable env \<longleftrightarrow> (\<forall>r \<in> set (take 5 (oe_log_rounds env)). snd r \<noteq> None)"

lemma get_bound_port_returns:
  "\<forall>r \<in> set rounds. snd r \<noteq> None \<Longrightarrow> get_bound_port_rounds parse_port rounds \<noteq> Panics"
  by (induction parse_port rounds rule: get_bound_port_rounds.induct) (auto split: option.split bool.split)

lemma start_proxy_returns:
  assumes "\<And>ss. settings = Some (ProxyShadowsocksSettings ss) \<Longrightarrow> proxy_pollable env"
  shows "start_proxy env settings dir log_dir \<noteq> Panics"
proof -
  have "start_proxy_monitor env s dir log_dir \<noteq> Panics" if "settings = Some s" for s
    using assms that get_bound_port_returns [of "take 5 (oe_log_rounds env)" "oe_parse_port env"]
    by (cases s) (auto simp: shadowsocks_monitor_start_def Let_def get_bound_port_def proxy_pollable_def)
  then show ?thesis
    by (auto simp: start_proxy_def split: option.split panics.split)
qed

lemma path_parent_none: "path_parent p = None \<longleftrightarrow> set p \<subseteq> {CHR ''/''}"
  by (auto simp: path_parent_def Let_def dropWhile_eq_Nil_conv)

lemma joined_path_parent:
  "c \<in> set file \<Longrightarrow> c \<noteq> CHR ''/'' \<Longrightarrow> path_parent (path_join dir file) \<noteq> None"
  by (auto simp: path_parent_none path_join_def simp del: not_None_eq)

lemma openvpn_log_dir_returns:
  "(\<And>l. log_path = Some l \<Longrightarrow> path_parent l \<noteq> None) \<Longrightarrow> openvpn_log_dir log_path \<noteq> Panics"
  by (auto simp: openvpn_log_dir_def split: option.split)

definition sublist_of :: "'a list \<Rightarrow> 'a list \<Rightarrow> bool" where
  "sublist_of ys xs \<longleftrightarrow> (\<exists>pre post. xs = pre @ ys @ post)"

lemma sublist_of_append:
  "sublist_of ys (ys @ zs)" "sublist_of ys zs \<Longrightarrow> sublist_of ys (xs @ zs)"
  unfolding sublist_of_def by (metis append_Nil, metis append_assoc)

lemma get_arguments_contain:
  assumes "get_arguments os c = Some args"
  shows "sublist_of (remote_arguments c) args" and "sublist_of (authentication_arguments c) args"
    and "sublist_of security_arguments args" and "sublist_of (ipv6_filter_arguments c) args"
  using assms unfolding get_arguments_def
  by (auto split: option.splits simp del: append_assoc)
    (rule sublist_of_append(1) | rule sublist_of_append(2))+

lemma new_internal_args:
  assumes pm: "start_proxy env (ovpn_proxy params) dir log_dir = Returns (Inr pm)"
    and cmd: "create_openvpn_cmd env params upf paf dir pm = Inr cmd"
  shows "openvpn_new_internal env cmd plugin log_path upf paf pm \<noteq> Panics"
    and "openvpn_new_internal env cmd plugin log_path upf paf pm = Returns (Inr m) \<Longrightarrow>
      \<exists>c. get_arguments (oe_os env) c = Some (snd (om_child m)) \<and>
        oc_remote c = Some (ovpn_endpoint (ovpn_config params)) \<and>
        oc_user_pass_path c = Some (om_user_pass_file m) \<and>
        oc_enable_ipv6 c = enable_ipv6 (ovpn_generic_options params)"
proof -
  note fields = create_openvpn_cmd_fields [OF cmd]
  have "\<exists>args. proxy_arguments (cmd\<lparr>oc_plugin := p, oc_log := l\<rparr>) = Some args"
    "\<exists>args. proxy_arguments (cmd\<lparr>oc_plugin := p\<rparr>) = Some args" for p l
    using pm started_proxy_port by (auto intro!: proxy_arguments_some simp: fields)
  then have args: "get_arguments os (cmd\<lparr>oc_plugin := p, oc_log := l\<rparr>) \<noteq> None"
    "get_arguments os (cmd\<lparr>oc_plugin := p\<rparr>) \<noteq> None" for os p l
    by (simp_all add: get_arguments_def split: option.split)
  show "openvpn_new_internal env cmd plugin log_path upf paf pm \<noteq> Panics"
    by (simp add: openvpn_new_internal_def Let_def args del: not_None_eq split: option.split)
  show "\<exists>c. get_arguments (oe_os env) c = Some (snd (om_child m)) \<and>
        oc_remote c = Some (ovpn_endpoint (ovpn_config params)) \<and>
        oc_user_pass_path c = Some (om_user_pass_file m) \<and>
        oc_enable_ipv6 c = enable_ipv6 (ovpn_generic_options params)"
    if "openvpn_new_internal env cmd plugin log_path upf paf pm = Returns (Inr m)"
  proof -
    let ?c = "case log_path of Some l \<Rightarrow> cmd\<lparr>oc_plugin := Some (plugin, [the (oe_event_server env)]), oc_log := Some l\<rparr>
      | None \<Rightarrow> cmd\<lparr>oc_plugin := Some (plugin, [the (oe_event_server env)])\<rparr>"
    have "get_arguments (oe_os env) ?c = Some (snd (om_child m)) \<and> om_user_pass_file m = upf"
      using that by (auto simp: openvpn_new_internal_def Let_def split: option.splits if_splits)
    then show ?thesis
      by (intro exI [of _ ?c]) (auto simp: fields split: option.split)
  qed
qed

lemma openvpn_start_no_panic:
  assumes "\<And>l. log_path = Some l \<Longrightarrow> path_parent l \<noteq> None"
    and "\<And>ss. ovpn_proxy params = Some (ProxyShadowsocksSettings ss) \<Longrightarrow> proxy_pollable env"
  shows "openvpn_monitor_start env params log_path resource_dir \<noteq> Panics"
  unfolding openvpn_monitor_start_def
  using openvpn_log_dir_returns [OF assms(1)] start_proxy_returns [OF assms(2)]
  by (auto split: sum.splits panics.splits dest: new_internal_args(1))

text \<open>
  C21.  Starting OpenVPN does not panic, provided the log path, if there is one, has a parent directory
  (the path that \<open>TunnelMonitor::start\<close> hands over has one) and, with a Shadowsocks proxy, the process of
  the proxy can be polled (\<open>try_wait().unwrap()\<close>); in particular the panic of the argument builder is
  never reached: the port of a started Shadowsocks proxy is always registered.  When it returns a
  monitor, the process was started with the relay endpoint of the parameters, the credentials file
  just written, the allowed TLS ciphers, and, if IPv6 is disabled, the filters that drop the server's
  IPv6 settings.
\<close>

theorem openvpn_monitor_start_safe:
  assumes "\<And>l. log_path = Some l \<Longrightarrow> path_parent l \<noteq> None"
    and "\<And>ss. ovpn_proxy params = Some (ProxyShadowsocksSettings ss) \<Longrightarrow> proxy_pollable env"
  shows "openvpn_monitor_start env params log_path resource_dir \<noteq> Panics \<and>
   (\<forall>m. openvpn_monitor_start env params log_path resource_dir = Returns (Inr m) \<longrightarrow>
      (let args = snd (om_child m); e = ovpn_endpoint (ovpn_config params) in
       sublist_of [''--proto'', (case protocol e of Udp \<Rightarrow> ''udp'' | Tcp \<Rightarrow> ''tcp-client''),
          ''--remote'', fmt_ip (sa_ip (address e)), fmt_u16 (sa_port (address e))] args \<and>
       sublist_of [''--auth-user-pass'', om_user_pass_file m] args \<and>
       sublist_of security_arguments args \<and>
       (\<not> enable_ipv6 (ovpn_generic_options params) \<longrightarrow>
          sublist_of [''--pull-filter'', ''ignore'', ''route-ipv6'', ''--pull-filter'', ''ignore'', ''ifconfig-ipv6''] args)))"
proof -
  have args: "\<exists>c. get_arguments (oe_os env) c = Some (snd (om_child m)) \<and>
        oc_remote c = Some (ovpn_endpoint (ovpn_config params)) \<and>
        oc_user_pass_path c = Some (om_user_pass_file m) \<and>
        oc_enable_ipv6 c = enable_ipv6 (ovpn_generic_options params)"
    if "openvpn_monitor_start env params log_path resource_dir = Returns (Inr m)" for m
    using that unfolding openvpn_monitor_start_def
    by (auto split: sum.splits panics.splits dest: new_internal_args(2))
  have "openvpn_monitor_start env params log_path resource_dir \<noteq> Panics"
    by (rule openvpn_start_no_panic) (use assms in blast)+
  with args show ?thesis
    by (fastforce simp: Let_def remote_arguments_def authentication_arguments_def
        ipv6_filter_arguments_def opt_args_def dest: get_arguments_contain)
qed

definition ref_ovpn_env :: ovpn_env where
  "ref_ovpn_env = \<lparr>oe_os = Linux, oe_exists = (\<lambda>p. True), oe_which_ip = Some ''/sbin/ip'',
     oe_tap_alias = None, oe_create_file = (\<lambda>_. Some ''/tmp/up''), oe_rotate_log = (\<lambda>_. True),
     oe_temp_dir = ''/tmp'', oe_start_process = (\<lambda>_ _. True), oe_open_log = (\<lambda>_. True),
     oe_log_rounds = [([''TCP Listening on 127.0.0.1:1080''], Some False)],
     oe_parse_port = (\<lambda>_. Some 1080), oe_event_server = Some ''/tmp/ipc''\<rparr>"

definition ref_ovpn_params :: openvpn_tunnel_parameters where
  "ref_ovpn_params = \<lparr>
     ovpn_config = openvpn_connection_config_new (endpoint_new (V4 (ipv4_new 1 2 3 4)) 1194 Udp) ''u'' ''p'',
     ovpn_options = \<lparr>mssfix = None\<rparr>, ovpn_generic_options = \<lparr>enable_ipv6 = False\<rparr>,
     ovpn_proxy = Some (ProxyShadowsocksSettings
       \<lparr>ss_peer = \<lparr>sa_ip = V4 (ipv4_new 5 6 7 8), sa_port = 443\<rparr>, ss_password = ''x'', ss_cipher = ''aes-256-cfb''\<rparr>)\<rparr>"

theorem openvpn_monitor_start_safe_witness:
  "\<exists>m. openvpn_monitor_start ref_ovpn_env ref_ovpn_params (Some ''/var/log/openvpn.log'') ''/r'' = Returns (Inr m) \<and>
     sublist_of [''--auth-user-pass'', om_user_pass_file m] (snd (om_child m))"
proof -
  have "\<exists>m. openvpn_monitor_start ref_ovpn_env ref_ovpn_params (Some ''/var/log/openvpn.log'') ''/r'' =
      Returns (Inr m)"
    by (simp add: openvpn_monitor_start_def create_credentials_file_def create_proxy_auth_file_def
        start_proxy_def shadowsocks_monitor_start_def get_bound_port_def create_openvpn_cmd_def
        get_openvpn_bin_def get_config_path_def add_iproute_def add_tunnel_alias_def get_plugin_path_def
        openvpn_new_internal_def get_arguments_def proxy_arguments_def openvpn_command_new_def
        openvpn_log_dir_def path_parent_def ref_ovpn_env_def ref_ovpn_params_def Let_def)
  moreover have "path_parent ''/var/log/openvpn.log'' \<noteq> None" by (simp add: path_parent_def)
  moreover have "proxy_pollable ref_ovpn_env" by (simp add: proxy_pollable_def ref_ovpn_env_def)
  ultimately show ?thesis
    using openvpn_monitor_start_safe [of "Some ''/var/log/openvpn.log''" ref_ovpn_params ref_ovpn_env "''/r''"]
    by (auto simp: Let_def)
qed

end
