(* ===== verification/Tunnel.thy ===== *)
theory Tunnel
  imports Wireguard OpenVpn
begin

text \<open>
  The tunnel abstraction (\<open>talpid-core/src/tunnel/mod.rs\<close>) over OpenVPN and WireGuard, the rotation of
  log files (\<open>talpid-core/src/logging.rs\<close>), and the part of \<open>connecting_state.rs\<close> that turns the end of a
  tunnel into a block reason.  The parsers of \<open>std::net\<close> are arguments.
\<close>

section \<open>Log rotation\<close>

text \<open>\<open>Path::with_extension\<close> for a path whose file name has a stem.\<close>

definition with_extension :: "string \<Rightarrow> string \<Rightarrow> string" where
  "with_extension p ext =
     (let name_rev = takeWhile (\<lambda>c. c \<noteq> CHR ''/'') (rev p);
          dir = take (length p - length name_rev) p;
          name = rev name_rev;
          stem = (if CHR ''.'' \<in> set (tl name)
                  then rev (tl (dropWhile (\<lambda>c. c \<noteq> CHR ''.'') name_rev)) else name)
      in dir @ stem @ ''.'' @ ext)"

text \<open>
  The file system maps paths to contents.  \<open>rename_ok\<close> and \<open>create_ok\<close> say whether the system calls
  succeed (a missing file makes \<open>rename\<close> fail with \<open>NotFound\<close>, which is ignored).
\<close>

definition rotate_log ::
    "bool \<Rightarrow> bool \<Rightarrow> string \<Rightarrow> (string \<rightharpoonup> string) \<Rightarrow> bool \<times> (string \<rightharpoonup> string)" where
  "rotate_log rename_ok create_ok file fs =
     (let backup = with_extension file ''old.log'';
          fs = (case fs file of
                  Some content \<Rightarrow> if rename_ok then fs(backup \<mapsto> content, file := None) else fs
                | None \<Rightarrow> fs)
      in if create_ok then (True, fs(file \<mapsto> [])) else (False, fs))"

section \<open>Tunnel events\<close>

datatype tunnel_event =
    EvAuthFailed "string option"
  | EvUp tunnel_metadata
  | EvDown

text \<open>The event types of the crate \<open>openvpn_plugin\<close> the code distinguishes.\<close>

datatype openvpn_event_type = OvAuthFailed | OvRouteUp | OvRoutePredown | OvOther

record addr_parsers =
  parse_ip :: "string \<Rightarrow> ip_addr option"
  parse_v4 :: "string \<Rightarrow> ipv4 option"
  parse_v6 :: "string \<Rightarrow> ipv6 option"

text \<open>Missing or malformed entries make the handler panic (\<open>expect\<close>).\<close>

definition from_openvpn_event ::
    "addr_parsers \<Rightarrow> openvpn_event_type \<Rightarrow> (string \<rightharpoonup> string) \<Rightarrow> tunnel_event option panics" where
  "from_openvpn_event ps event env =
     (case event of
        OvAuthFailed \<Rightarrow> Returns (Some (EvAuthFailed (env ''auth_failed_reason'')))
      | OvRouteUp \<Rightarrow>
          (case env ''dev'' of
             None \<Rightarrow> Panics
           | Some interface \<Rightarrow>
          (case Option.bind (env ''ifconfig_local'') (parse_ip ps) of
             None \<Rightarrow> Panics
           | Some ip \<Rightarrow>
          (case Option.bind (env ''route_vpn_gateway'') (parse_v4 ps) of
             None \<Rightarrow> Panics
           | Some gateway \<Rightarrow>
          (case env ''route_ipv6_gateway_1'' of
             None \<Rightarrow> Returns (Some (EvUp \<lparr>tm_interface = interface, tm_ips = [ip],
                       tm_ipv4_gateway = gateway, tm_ipv6_gateway = None\<rparr>))
           | Some s \<Rightarrow>
               (case parse_v6 ps s of
                  None \<Rightarrow> Panics
                | Some g6 \<Rightarrow> Returns (Some (EvUp \<lparr>tm_interface = interface, tm_ips = [ip],
                       tm_ipv4_gateway = gateway, tm_ipv6_gateway = Some g6\<rparr>)))))))
      | OvRoutePredown \<Rightarrow> Returns (Some EvDown)
      | OvOther \<Rightarrow> Returns None)"

section \<open>Starting a tunnel\<close>

datatype tunnel_error =
    EnableIpv6Error
  | UnsupportedPlatform
  | RotateLogError
  | WireguardConfigError wg_config_error
  | OpenVpnTunnelMonitoringError openvpn_error
  | WirguardTunnelMonitoringError wireguard_error

record wg_env =
  we_start_tunnel :: "wg_config \<Rightarrow> string option \<Rightarrow> ip_network list \<Rightarrow> wireguard_error + string"
  we_route_manager :: "(ip_network \<times> net_node) list \<Rightarrow> bool"

record wg_monitor =
  wm_interface :: string
  wm_metadata :: tunnel_metadata

definition wg_monitor_start :: "wg_env \<Rightarrow> wg_config \<Rightarrow> string option \<Rightarrow> wireguard_error + wg_monitor" where
  "wg_monitor_start env config log_path =
     (case we_start_tunnel env config log_path (get_tunnel_routes config) of
        Inl e \<Rightarrow> Inl e
      | Inr iface_name \<Rightarrow>
          if we_route_manager env (get_routes iface_name config)
          then Inr \<lparr>wm_interface = iface_name, wm_metadata = wg_tunnel_metadata iface_name config\<rparr>
          else Inl SetupRoutingError)"

datatype tunnel_monitor = OpenVpnMon openvpn_monitor | WireguardMon wg_monitor

record tunnel_env =
  te_ovpn :: ovpn_env
  te_wg :: wg_env
  te_ipv6_enabled :: bool

definition OPENVPN_LOG_FILENAME :: string where "OPENVPN_LOG_FILENAME = ''openvpn.log''"
definition WIREGUARD_LOG_FILENAME :: string where "WIREGUARD_LOG_FILENAME = ''wireguard.log''"

definition ensure_ipv6_can_be_used_if_enabled ::
    "tunnel_env \<Rightarrow> generic_tunnel_options \<Rightarrow> tunnel_error + unit" where
  "ensure_ipv6_can_be_used_if_enabled env options =
     (if enable_ipv6 options \<and> \<not> te_ipv6_enabled env then Inl EnableIpv6Error else Inr ())"

definition tunnel_log_filename :: "tunnel_parameters \<Rightarrow> string" where
  "tunnel_log_filename params =
     (case params of ParamsOpenVpn _ \<Rightarrow> OPENVPN_LOG_FILENAME | ParamsWireguard _ \<Rightarrow> WIREGUARD_LOG_FILENAME)"

definition prepare_tunnel_log_file ::
    "tunnel_env \<Rightarrow> tunnel_parameters \<Rightarrow> string option \<Rightarrow> tunnel_error + string option" where
  "prepare_tunnel_log_file env params log_dir =
     (case log_dir of
        Some d \<Rightarrow>
          (let tunnel_log = path_join d (tunnel_log_filename params)
           in if oe_rotate_log (te_ovpn env) tunnel_log then Inr (Some tunnel_log) else Inl RotateLogError)
      | None \<Rightarrow> Inr None)"

definition start_wireguard_tunnel ::
    "tunnel_env \<Rightarrow> wg_tunnel_parameters \<Rightarrow> string option \<Rightarrow> tunnel_error + tunnel_monitor" where
  "start_wireguard_tunnel env params log_file =
     (case wg_config_from_parameters params of
        Inl e \<Rightarrow> Inl (WireguardConfigError e)
      | Inr config \<Rightarrow>
          (case wg_monitor_start (te_wg env) config log_file of
             Inl e \<Rightarrow> Inl (WirguardTunnelMonitoringError e)
           | Inr m \<Rightarrow> Inr (WireguardMon m)))"

definition start_openvpn_tunnel ::
    "tunnel_env \<Rightarrow> openvpn_tunnel_parameters \<Rightarrow> string option \<Rightarrow> string
      \<Rightarrow> (tunnel_error + tunnel_monitor) panics" where
  "start_openvpn_tunnel env config log_file resource_dir =
     (case openvpn_monitor_start (te_ovpn env) config log_file resource_dir of
        Panics \<Rightarrow> Panics
      | Returns (Inl e) \<Rightarrow> Returns (Inl (OpenVpnTunnelMonitoringError e))
      | Returns (Inr m) \<Rightarrow> Returns (Inr (OpenVpnMon m)))"

definition tunnel_monitor_start ::
    "tunnel_env \<Rightarrow> tunnel_parameters \<Rightarrow> string option \<Rightarrow> string
      \<Rightarrow> (tunnel_error + tunnel_monitor) panics" where
  "tunnel_monitor_start env params log_dir resource_dir =
     (case ensure_ipv6_can_be_used_if_enabled env (get_generic_options params) of
        Inl e \<Rightarrow> Returns (Inl e)
      | Inr _ \<Rightarrow>
     (case prepare_tunnel_log_file env params log_dir of
        Inl e \<Rightarrow> Returns (Inl e)
      | Inr log_file \<Rightarrow>
     (case params of
        ParamsOpenVpn config \<Rightarrow>
          if oe_os (te_ovpn env) = Android then Returns (Inl UnsupportedPlatform)
          else start_openvpn_tunnel env config log_file resource_dir
      | ParamsWireguard config \<Rightarrow>
          if oe_os (te_ovpn env) = Windows then Returns (Inl UnsupportedPlatform)
          else Returns (start_wireguard_tunnel env config log_file))))"

text \<open>\<open>is_ipv6_enabled_in_os\<close> on Linux (the content of \<open>disable_ipv6\<close>) and on macOS and Android.\<close>

definition trim :: "string \<Rightarrow> string" where
  "trim s = (let ws = (\<lambda>c. c = CHR '' '' \<or> c = CHR 0x0A \<or> c = CHR 0x0D \<or> c = CHR 0x09)
             in rev (dropWhile ws (rev (dropWhile ws s))))"

definition is_ipv6_enabled_in_os :: "target_os \<Rightarrow> string option \<Rightarrow> bool" where
  "is_ipv6_enabled_in_os os proc_file =
     (if os = Linux then (case proc_file of Some s \<Rightarrow> trim s = ''0'' | None \<Rightarrow> False) else True)"

section \<open>The end of a tunnel\<close>

text \<open>\<open>wait_for_tunnel_monitor\<close>: the adapter problems exist on Windows only.\<close>

fun wait_for_tunnel_monitor :: "target_os \<Rightarrow> tunnel_error + unit \<Rightarrow> block_reason option" where
  "wait_for_tunnel_monitor os (Inr _) = None"
| "wait_for_tunnel_monitor os (Inl e) =
     (if os = Windows \<and>
         (e = OpenVpnTunnelMonitoringError DisabledTapAdapter \<or>
          e = OpenVpnTunnelMonitoringError MissingTapAdapter)
      then Some TapAdapterProblem else None)"

section \<open>Properties\<close>

text \<open>
  Starting a tunnel does not panic as long as the process of a Shadowsocks proxy can be polled (the log
  path always has a parent), and a tunnel with IPv6 enabled is only ever started when the
  operating system has IPv6 enabled; a started tunnel is of the kind the parameters ask for.
\<close>

lemma tunnel_log_has_parent:
  "prepare_tunnel_log_file env params log_dir = Inr (Some l) \<Longrightarrow> path_parent l \<noteq> None"
  using joined_path_parent [of "CHR ''o''" "tunnel_log_filename params"]
    joined_path_parent [of "CHR ''w''" "tunnel_log_filename params"]
  by (auto simp: prepare_tunnel_log_file_def tunnel_log_filename_def OPENVPN_LOG_FILENAME_def
      WIREGUARD_LOG_FILENAME_def Let_def split: option.splits if_splits tunnel_parameters.splits)

theorem tunnel_monitor_start_safe:
  assumes "proxy_pollable (te_ovpn env)"
  shows "tunnel_monitor_start env params log_dir resource_dir \<noteq> Panics \<and>
   (\<forall>m. tunnel_monitor_start env params log_dir resource_dir = Returns (Inr m) \<longrightarrow>
      (enable_ipv6 (get_generic_options params) \<longrightarrow> te_ipv6_enabled env) \<and>
      (case params of
         ParamsOpenVpn _ \<Rightarrow> \<exists>mon. m = OpenVpnMon mon
       | ParamsWireguard p \<Rightarrow> \<exists>mon c. m = WireguardMon mon \<and> wg_config_from_parameters p = Inr c \<and>
           wm_metadata mon = wg_tunnel_metadata (wm_interface mon) c))"
proof -
  have start: "openvpn_monitor_start (te_ovpn env) p log_file resource_dir \<noteq> Panics"
    if "prepare_tunnel_log_file env params log_dir = Inr log_file" for p log_file
    by (rule openvpn_start_no_panic) (use that assms tunnel_log_has_parent in blast)+
  have "tunnel_monitor_start env params log_dir resource_dir \<noteq> Panics"
    using start by (auto simp: tunnel_monitor_start_def start_openvpn_tunnel_def
        split: sum.split tunnel_parameters.split panics.split)
  moreover have "(enable_ipv6 (get_generic_options params) \<longrightarrow> te_ipv6_enabled env)"
    if "tunnel_monitor_start env params log_dir resource_dir = Returns (Inr m)" for m
    using that by (simp add: tunnel_monitor_start_def ensure_ipv6_can_be_used_if_enabled_def
        split: if_splits)
  moreover have "case params of
         ParamsOpenVpn _ \<Rightarrow> \<exists>mon. m = OpenVpnMon mon
       | ParamsWireguard p \<Rightarrow> \<exists>mon c. m = WireguardMon mon \<and> wg_config_from_parameters p = Inr c \<and>
           wm_metadata mon = wg_tunnel_metadata (wm_interface mon) c"
    if "tunnel_monitor_start env params log_dir resource_dir = Returns (Inr m)" for m
    using that by (auto simp: tunnel_monitor_start_def start_openvpn_tunnel_def
        start_wireguard_tunnel_def wg_monitor_start_def
        split: sum.splits tunnel_parameters.splits if_splits panics.splits)
  ultimately show ?thesis by blast
qed

definition ref_tunnel_env :: tunnel_env where
  "ref_tunnel_env = \<lparr>te_ovpn = ref_ovpn_env,
     te_wg = \<lparr>we_start_tunnel = (\<lambda>_ _ _. Inr ''wg0''), we_route_manager = (\<lambda>_. True)\<rparr>,
     te_ipv6_enabled = True\<rparr>"

theorem tunnel_monitor_start_safe_witness:
  "\<exists>mon. tunnel_monitor_start ref_tunnel_env (ParamsWireguard ref_wg_params) None ''/r'' =
     Returns (Inr (WireguardMon mon)) \<and>
     wm_metadata mon = wg_tunnel_metadata (wm_interface mon) ref_wg_config"
proof -
  have "\<exists>m. tunnel_monitor_start ref_tunnel_env (ParamsWireguard ref_wg_params) None ''/r'' = Returns (Inr m)"
    by (simp add: tunnel_monitor_start_def ensure_ipv6_can_be_used_if_enabled_def
        prepare_tunnel_log_file_def start_wireguard_tunnel_def wg_monitor_start_def ref_wg_config_ok
        ref_tunnel_env_def ref_ovpn_env_def)
  moreover have "proxy_pollable (te_ovpn ref_tunnel_env)"
    by (simp add: ref_tunnel_env_def ref_ovpn_env_def proxy_pollable_def)
  ultimately show ?thesis using tunnel_monitor_start_safe [of ref_tunnel_env "ParamsWireguard ref_wg_params" None "''/r''"]
    by (auto simp: ref_wg_config_ok)
qed

text \<open>Rotating a log keeps the previous one under the backup name and touches no other file.\<close>

lemma rotate_log_keeps_backup:
  assumes "fs file = Some old" and "with_extension file ''old.log'' \<noteq> file"
  shows "rotate_log True True file fs =
    (True, fs(with_extension file ''old.log'' \<mapsto> old, file \<mapsto> []))"
  using assms by (simp add: rotate_log_def Let_def fun_upd_twist)

end
