(* ===== verification/Tunnel_State_Machine.thy ===== *)
theory Tunnel_State_Machine
  imports Firewall_Policy Tunnel
begin

text \<open>
  The tunnel state machine (\<open>talpid-core/src/tunnel_state_machine/*.rs\<close>).  The states, their
  \<open>enter\<close> functions and event handlers are translated with the shared values passed explicitly;
  the polls of the command stream, of the tunnel event stream and of the close event are inputs.
  What the machine calls (firewall, DNS monitor, parameters generator, tunnels) is the record
  \<open>platform\<close>.  An error is its display string, which is all the machine uses of it.
\<close>

section \<open>What the machine calls\<close>

record ('fw, 'dns, 'gen, 'tp) platform =
  pf_fw_new :: "firewall_arguments \<Rightarrow> string + 'fw"
  pf_fw_apply :: "firewall_policy \<Rightarrow> 'fw \<Rightarrow> (string + unit) \<times> 'fw"
  pf_fw_reset :: "'fw \<Rightarrow> (string + unit) \<times> 'fw"
  pf_dns_new :: "string \<Rightarrow> string + 'dns"
  pf_dns_set :: "string \<Rightarrow> ip_addr list \<Rightarrow> 'dns \<Rightarrow> (string + unit) \<times> 'dns"
  pf_dns_reset :: "'dns \<Rightarrow> (string + unit) \<times> 'dns"
  pf_generate :: "u32 \<Rightarrow> 'gen \<Rightarrow> tunnel_parameters option \<times> 'gen"
  pf_start :: "tunnel_parameters \<Rightarrow> string option \<Rightarrow> string \<Rightarrow> 'tp \<Rightarrow> (tunnel_error + nat) \<times> 'tp"
  pf_close :: "nat \<Rightarrow> 'tp \<Rightarrow> 'tp"

text \<open>\<open>SharedTunnelStateValues\<close>; \<open>sv_tun_provider\<close> is the state of the tunnels the provider hands out.\<close>

record ('fw, 'dns, 'gen, 'tp) shared =
  sv_firewall :: 'fw
  sv_dns_monitor :: 'dns
  sv_allow_lan :: bool
  sv_block_when_disconnected :: bool
  sv_is_offline :: bool
  sv_generator :: 'gen
  sv_tun_provider :: 'tp
  sv_log_dir :: "string option"
  sv_resource_dir :: string

datatype tunnel_command =
    CmdAllowLan bool
  | CmdBlockWhenDisconnected bool
  | CmdIsOffline bool
  | CmdConnect
  | CmdDisconnect
  | CmdBlock block_reason

section \<open>States\<close>

text \<open>
  The channels of a running tunnel (its events, its close event, its close handle) all belong to
  the tunnel with the number the start returned.
\<close>

datatype after_disconnect = AfterNothing | AfterBlock block_reason | AfterReconnect u32

record connecting_state =
  cg_tunnel :: nat
  cg_tunnel_parameters :: tunnel_parameters
  cg_retry_attempt :: u32

record connected_state =
  cd_metadata :: tunnel_metadata
  cd_tunnel :: nat
  cd_tunnel_parameters :: tunnel_parameters

record disconnecting_state =
  dg_tunnel :: nat
  dg_after_disconnect :: after_disconnect

datatype tunnel_state =
    StDisconnected
  | StConnecting connecting_state
  | StConnected connected_state
  | StDisconnecting disconnecting_state
  | StBlocked block_reason

datatype 's event_consequence =
    NewState tunnel_state tunnel_state_transition
  | SameState 's
  | NoEvents 's
  | Finished

text \<open>The polls one call of \<open>handle_event\<close> may make.\<close>

record polls =
  po_commands :: "tunnel_command stream_poll"
  po_tunnel_events :: "tunnel_event stream_poll"
  po_close_event :: "block_reason option future_poll"

text \<open>The macro \<open>try_handle_event!\<close>: an ended stream and a failed one are both \<open>TriedErr\<close>.\<close>

datatype 'a tried = TriedOk 'a | TriedErr | TriedNotReady

fun try_handle_event :: "'a stream_poll \<Rightarrow> 'a tried" where
  "try_handle_event (StreamItem e) = TriedOk e"
| "try_handle_event StreamEnd = TriedErr"
| "try_handle_event StreamNotReady = TriedNotReady"
| "try_handle_event StreamErr = TriedErr"

fun or_else ::
    "'s event_consequence \<times> 'v \<Rightarrow> ('s \<Rightarrow> 'v \<Rightarrow> 's event_consequence \<times> 'v) \<Rightarrow> 's event_consequence \<times> 'v"
  where
  "or_else (NoEvents st, sh) handle_event = handle_event st sh"
| "or_else (c, sh) handle_event = (c, sh)"

fun after_disconnect_action :: "after_disconnect \<Rightarrow> action_after_disconnect" where
  "after_disconnect_action AfterNothing = ActionNothing"
| "after_disconnect_action (AfterBlock _) = ActionBlock"
| "after_disconnect_action (AfterReconnect _) = ActionReconnect"

section \<open>Shared operations\<close>

definition apply_policy :: "('fw, 'dns, 'gen, 'tp) platform \<Rightarrow> firewall_policy
    \<Rightarrow> ('fw, 'dns, 'gen, 'tp) shared \<Rightarrow> (string + unit) \<times> ('fw, 'dns, 'gen, 'tp) shared" where
  "apply_policy pf policy sh =
     (case pf_fw_apply pf policy (sv_firewall sh) of (r, fw) \<Rightarrow> (r, sh\<lparr>sv_firewall := fw\<rparr>))"

definition reset_policy :: "('fw, 'dns, 'gen, 'tp) platform
    \<Rightarrow> ('fw, 'dns, 'gen, 'tp) shared \<Rightarrow> (string + unit) \<times> ('fw, 'dns, 'gen, 'tp) shared" where
  "reset_policy pf sh =
     (case pf_fw_reset pf (sv_firewall sh) of (r, fw) \<Rightarrow> (r, sh\<lparr>sv_firewall := fw\<rparr>))"

definition reset_dns :: "('fw, 'dns, 'gen, 'tp) platform
    \<Rightarrow> ('fw, 'dns, 'gen, 'tp) shared \<Rightarrow> ('fw, 'dns, 'gen, 'tp) shared" where
  "reset_dns pf sh = sh\<lparr>sv_dns_monitor := snd (pf_dns_reset pf (sv_dns_monitor sh))\<rparr>"

section \<open>Entering the states\<close>

definition disconnected_set_firewall_policy :: "('fw, 'dns, 'gen, 'tp) platform
    \<Rightarrow> ('fw, 'dns, 'gen, 'tp) shared \<Rightarrow> ('fw, 'dns, 'gen, 'tp) shared" where
  "disconnected_set_firewall_policy pf sh =
     snd (if sv_block_when_disconnected sh
          then apply_policy pf (PolicyBlocked (sv_allow_lan sh)) sh
          else reset_policy pf sh)"

definition disconnected_enter :: "('fw, 'dns, 'gen, 'tp) platform \<Rightarrow> ('fw, 'dns, 'gen, 'tp) shared
    \<Rightarrow> tunnel_state \<times> tunnel_state_transition \<times> ('fw, 'dns, 'gen, 'tp) shared" where
  "disconnected_enter pf sh =
     (StDisconnected, TrDisconnected, disconnected_set_firewall_policy pf sh)"

definition blocked_set_firewall_policy :: "('fw, 'dns, 'gen, 'tp) platform
    \<Rightarrow> ('fw, 'dns, 'gen, 'tp) shared \<Rightarrow> block_reason option \<times> ('fw, 'dns, 'gen, 'tp) shared" where
  "blocked_set_firewall_policy pf sh =
     (case apply_policy pf (PolicyBlocked (sv_allow_lan sh)) sh of
        (Inr _, sh) \<Rightarrow> (None, sh)
      | (Inl _, sh) \<Rightarrow> (Some SetFirewallPolicyError, sh))"

definition blocked_enter :: "('fw, 'dns, 'gen, 'tp) platform \<Rightarrow> block_reason
    \<Rightarrow> ('fw, 'dns, 'gen, 'tp) shared
    \<Rightarrow> tunnel_state \<times> tunnel_state_transition \<times> ('fw, 'dns, 'gen, 'tp) shared" where
  "blocked_enter pf block_reason sh =
     (case blocked_set_firewall_policy pf sh of
        (r, sh) \<Rightarrow>
          (let block_reason = (case r of Some e \<Rightarrow> e | None \<Rightarrow> block_reason)
           in (StBlocked block_reason, TrBlocked block_reason, sh)))"

definition disconnecting_enter :: "('fw, 'dns, 'gen, 'tp) platform \<Rightarrow> nat \<Rightarrow> after_disconnect
    \<Rightarrow> ('fw, 'dns, 'gen, 'tp) shared
    \<Rightarrow> tunnel_state \<times> tunnel_state_transition \<times> ('fw, 'dns, 'gen, 'tp) shared" where
  "disconnecting_enter pf tunnel after_disconnect sh =
     (StDisconnecting \<lparr>dg_tunnel = tunnel, dg_after_disconnect = after_disconnect\<rparr>,
      TrDisconnecting (after_disconnect_action after_disconnect),
      sh\<lparr>sv_tun_provider := pf_close pf tunnel (sv_tun_provider sh)\<rparr>)"

fun get_openvpn_proxy_settings :: "tunnel_parameters \<Rightarrow> proxy_settings option" where
  "get_openvpn_proxy_settings (ParamsOpenVpn config) = ovpn_proxy config"
| "get_openvpn_proxy_settings _ = None"

fun gateway_list_from_params :: "tunnel_parameters \<Rightarrow> ip_addr list" where
  "gateway_list_from_params (ParamsWireguard p) =
     V4 (wgc_ipv4_gateway (wg_connection p)) #
     (case wgc_ipv6_gateway (wg_connection p) of Some g \<Rightarrow> [V6 g] | None \<Rightarrow> [])"
| "gateway_list_from_params (ParamsOpenVpn _) = []"

definition connecting_policy :: "tunnel_parameters \<Rightarrow> bool \<Rightarrow> firewall_policy" where
  "connecting_policy params allow_lan =
     (let peer_endpoint = (case get_openvpn_proxy_settings params of
            Some proxy_settings \<Rightarrow> pe_endpoint (proxy_get_endpoint proxy_settings)
          | None \<Rightarrow> te_endpoint (get_tunnel_endpoint params))
      in PolicyConnecting peer_endpoint (gateway_list_from_params params) allow_lan)"

definition connecting_set_firewall_policy :: "('fw, 'dns, 'gen, 'tp) platform \<Rightarrow> tunnel_parameters
    \<Rightarrow> ('fw, 'dns, 'gen, 'tp) shared \<Rightarrow> (string + unit) \<times> ('fw, 'dns, 'gen, 'tp) shared" where
  "connecting_set_firewall_policy pf params sh =
     apply_policy pf (connecting_policy params (sv_allow_lan sh)) sh"

definition start_tunnel :: "('fw, 'dns, 'gen, 'tp) platform \<Rightarrow> tunnel_parameters \<Rightarrow> u32
    \<Rightarrow> ('fw, 'dns, 'gen, 'tp) shared
    \<Rightarrow> (tunnel_error + connecting_state) \<times> ('fw, 'dns, 'gen, 'tp) shared" where
  "start_tunnel pf parameters retry_attempt sh =
     (case pf_start pf parameters (sv_log_dir sh) (sv_resource_dir sh) (sv_tun_provider sh) of
        (Inl e, tp) \<Rightarrow> (Inl e, sh\<lparr>sv_tun_provider := tp\<rparr>)
      | (Inr n, tp) \<Rightarrow>
          (Inr \<lparr>cg_tunnel = n, cg_tunnel_parameters = parameters, cg_retry_attempt = retry_attempt\<rparr>,
           sh\<lparr>sv_tun_provider := tp\<rparr>))"

definition connecting_enter :: "('fw, 'dns, 'gen, 'tp) platform \<Rightarrow> u32
    \<Rightarrow> ('fw, 'dns, 'gen, 'tp) shared
    \<Rightarrow> tunnel_state \<times> tunnel_state_transition \<times> ('fw, 'dns, 'gen, 'tp) shared" where
  "connecting_enter pf retry_attempt sh =
     (if sv_is_offline sh then blocked_enter pf IsOffline sh
      else
        (case pf_generate pf retry_attempt (sv_generator sh) of
           (None, g) \<Rightarrow> blocked_enter pf NoMatchingRelay (sh\<lparr>sv_generator := g\<rparr>)
         | (Some params, g) \<Rightarrow>
             (case connecting_set_firewall_policy pf params (sh\<lparr>sv_generator := g\<rparr>) of
                (Inl _, sh) \<Rightarrow> blocked_enter pf StartTunnelError sh
              | (Inr _, sh) \<Rightarrow>
                  (case start_tunnel pf params retry_attempt sh of
                     (Inr st, sh) \<Rightarrow>
                       (StConnecting st, TrConnecting (get_tunnel_endpoint (cg_tunnel_parameters st)), sh)
                   | (Inl e, sh) \<Rightarrow>
                       blocked_enter pf
                         (case e of EnableIpv6Error \<Rightarrow> Ipv6Unavailable | _ \<Rightarrow> StartTunnelError) sh))))"

fun get_endpoint_from_params :: "tunnel_parameters \<Rightarrow> endpoint" where
  "get_endpoint_from_params (ParamsOpenVpn params) =
     (case ovpn_proxy params of
        Some proxy_settings \<Rightarrow> pe_endpoint (proxy_get_endpoint proxy_settings)
      | None \<Rightarrow> ovpn_endpoint (ovpn_config params))"
| "get_endpoint_from_params (ParamsWireguard params) = wg_get_endpoint (wg_connection params)"

definition connected_policy :: "connected_state \<Rightarrow> bool \<Rightarrow> firewall_policy" where
  "connected_policy st allow_lan =
     PolicyConnected (get_endpoint_from_params (cd_tunnel_parameters st)) (cd_metadata st) allow_lan"

definition connected_set_firewall_policy :: "('fw, 'dns, 'gen, 'tp) platform \<Rightarrow> connected_state
    \<Rightarrow> ('fw, 'dns, 'gen, 'tp) shared \<Rightarrow> (string + unit) \<times> ('fw, 'dns, 'gen, 'tp) shared" where
  "connected_set_firewall_policy pf st sh =
     apply_policy pf (connected_policy st (sv_allow_lan sh)) sh"

definition connected_set_dns :: "('fw, 'dns, 'gen, 'tp) platform \<Rightarrow> connected_state
    \<Rightarrow> ('fw, 'dns, 'gen, 'tp) shared \<Rightarrow> (string + unit) \<times> ('fw, 'dns, 'gen, 'tp) shared" where
  "connected_set_dns pf st sh =
     (let md = cd_metadata st;
          dns_ips = V4 (tm_ipv4_gateway md) #
            (case tm_ipv6_gateway md of Some g \<Rightarrow> [V6 g] | None \<Rightarrow> [])
      in case pf_dns_set pf (tm_interface md) dns_ips (sv_dns_monitor sh) of
           (r, dns) \<Rightarrow> (r, sh\<lparr>sv_dns_monitor := dns\<rparr>))"

definition connected_enter :: "('fw, 'dns, 'gen, 'tp) platform \<Rightarrow> connected_state
    \<Rightarrow> ('fw, 'dns, 'gen, 'tp) shared
    \<Rightarrow> tunnel_state \<times> tunnel_state_transition \<times> ('fw, 'dns, 'gen, 'tp) shared" where
  "connected_enter pf st sh =
     (case connected_set_firewall_policy pf st sh of
        (Inl _, sh) \<Rightarrow> disconnecting_enter pf (cd_tunnel st) (AfterBlock SetFirewallPolicyError) sh
      | (Inr _, sh) \<Rightarrow>
          (case connected_set_dns pf st sh of
             (Inl _, sh) \<Rightarrow> disconnecting_enter pf (cd_tunnel st) (AfterBlock SetDnsError) sh
           | (Inr _, sh) \<Rightarrow>
               (StConnected st, TrConnected (get_tunnel_endpoint (cd_tunnel_parameters st)), sh)))"

text \<open>\<open>NewState(X::enter(..))\<close>.\<close>

definition new_state ::
    "tunnel_state \<times> tunnel_state_transition \<times> 'v \<Rightarrow> 's event_consequence \<times> 'v" where
  "new_state r = (case r of (st, tr, sh) \<Rightarrow> (NewState st tr, sh))"

section \<open>Handling events\<close>

text \<open>\<open>DisconnectedState\<close>: the state carries no data, so \<open>'s\<close> is \<open>unit\<close>.\<close>

definition disconnected_handle_event :: "('fw, 'dns, 'gen, 'tp) platform \<Rightarrow> polls
    \<Rightarrow> ('fw, 'dns, 'gen, 'tp) shared
    \<Rightarrow> unit event_consequence \<times> ('fw, 'dns, 'gen, 'tp) shared" where
  "disconnected_handle_event pf ps sh =
     (case try_handle_event (po_commands ps) of
        TriedNotReady \<Rightarrow> (NoEvents (), sh)
      | TriedOk (CmdAllowLan allow_lan) \<Rightarrow>
          (SameState (),
           if sv_allow_lan sh \<noteq> allow_lan
           then disconnected_set_firewall_policy pf (sh\<lparr>sv_allow_lan := allow_lan\<rparr>) else sh)
      | TriedOk (CmdBlockWhenDisconnected b) \<Rightarrow>
          (SameState (),
           if sv_block_when_disconnected sh \<noteq> b
           then disconnected_set_firewall_policy pf (sh\<lparr>sv_block_when_disconnected := b\<rparr>) else sh)
      | TriedOk (CmdIsOffline is_offline) \<Rightarrow> (SameState (), sh\<lparr>sv_is_offline := is_offline\<rparr>)
      | TriedOk CmdConnect \<Rightarrow> new_state (connecting_enter pf 0 sh)
      | TriedOk (CmdBlock reason) \<Rightarrow> new_state (blocked_enter pf reason sh)
      | TriedOk CmdDisconnect \<Rightarrow> (SameState (), sh)
      | TriedErr \<Rightarrow> (Finished, sh))"

definition connecting_handle_commands :: "('fw, 'dns, 'gen, 'tp) platform \<Rightarrow> polls
    \<Rightarrow> connecting_state \<Rightarrow> ('fw, 'dns, 'gen, 'tp) shared
    \<Rightarrow> connecting_state event_consequence \<times> ('fw, 'dns, 'gen, 'tp) shared" where
  "connecting_handle_commands pf ps st sh =
     (case try_handle_event (po_commands ps) of
        TriedNotReady \<Rightarrow> (NoEvents st, sh)
      | TriedOk (CmdAllowLan allow_lan) \<Rightarrow>
          (case connecting_set_firewall_policy pf (cg_tunnel_parameters st)
                  (sh\<lparr>sv_allow_lan := allow_lan\<rparr>) of
             (Inr _, sh) \<Rightarrow> (SameState st, sh)
           | (Inl _, sh) \<Rightarrow>
               new_state (disconnecting_enter pf (cg_tunnel st) (AfterBlock SetFirewallPolicyError) sh))
      | TriedOk (CmdBlockWhenDisconnected b) \<Rightarrow>
          (SameState st, sh\<lparr>sv_block_when_disconnected := b\<rparr>)
      | TriedOk (CmdIsOffline is_offline) \<Rightarrow>
          (let sh = sh\<lparr>sv_is_offline := is_offline\<rparr>
           in if is_offline
              then new_state (disconnecting_enter pf (cg_tunnel st) (AfterBlock IsOffline) sh)
              else (SameState st, sh))
      | TriedOk CmdConnect \<Rightarrow> new_state (disconnecting_enter pf (cg_tunnel st) (AfterReconnect 0) sh)
      | TriedOk CmdDisconnect \<Rightarrow> new_state (disconnecting_enter pf (cg_tunnel st) AfterNothing sh)
      | TriedErr \<Rightarrow> new_state (disconnecting_enter pf (cg_tunnel st) AfterNothing sh)
      | TriedOk (CmdBlock reason) \<Rightarrow>
          new_state (disconnecting_enter pf (cg_tunnel st) (AfterBlock reason) sh))"

definition into_connected_state_bootstrap :: "connecting_state \<Rightarrow> tunnel_metadata \<Rightarrow> connected_state" where
  "into_connected_state_bootstrap st metadata =
     \<lparr>cd_metadata = metadata, cd_tunnel = cg_tunnel st,
      cd_tunnel_parameters = cg_tunnel_parameters st\<rparr>"

definition connecting_handle_tunnel_events :: "('fw, 'dns, 'gen, 'tp) platform \<Rightarrow> polls
    \<Rightarrow> connecting_state \<Rightarrow> ('fw, 'dns, 'gen, 'tp) shared
    \<Rightarrow> connecting_state event_consequence \<times> ('fw, 'dns, 'gen, 'tp) shared" where
  "connecting_handle_tunnel_events pf ps st sh =
     (case try_handle_event (po_tunnel_events ps) of
        TriedNotReady \<Rightarrow> (NoEvents st, sh)
      | TriedOk (EvAuthFailed reason) \<Rightarrow>
          new_state (disconnecting_enter pf (cg_tunnel st) (AfterBlock (AuthFailed reason)) sh)
      | TriedOk (EvUp metadata) \<Rightarrow>
          new_state (connected_enter pf (into_connected_state_bootstrap st metadata) sh)
      | TriedOk EvDown \<Rightarrow> (SameState st, sh)
      | TriedErr \<Rightarrow>
          new_state (disconnecting_enter pf (cg_tunnel st) (AfterReconnect (cg_retry_attempt st + 1)) sh))"

definition connecting_handle_tunnel_close_event :: "('fw, 'dns, 'gen, 'tp) platform \<Rightarrow> polls
    \<Rightarrow> connecting_state \<Rightarrow> ('fw, 'dns, 'gen, 'tp) shared
    \<Rightarrow> connecting_state event_consequence \<times> ('fw, 'dns, 'gen, 'tp) shared" where
  "connecting_handle_tunnel_close_event pf ps st sh =
     (case po_close_event ps of
        FutureReady (Some reason) \<Rightarrow> new_state (blocked_enter pf reason sh)
      | FutureNotReady \<Rightarrow> (NoEvents st, sh)
      | _ \<Rightarrow> new_state (connecting_enter pf (cg_retry_attempt st + 1) sh))"

definition connecting_handle_event :: "('fw, 'dns, 'gen, 'tp) platform \<Rightarrow> polls
    \<Rightarrow> connecting_state \<Rightarrow> ('fw, 'dns, 'gen, 'tp) shared
    \<Rightarrow> connecting_state event_consequence \<times> ('fw, 'dns, 'gen, 'tp) shared" where
  "connecting_handle_event pf ps st sh =
     or_else (or_else (connecting_handle_commands pf ps st sh)
       (connecting_handle_tunnel_events pf ps)) (connecting_handle_tunnel_close_event pf ps)"

definition connected_disconnect :: "('fw, 'dns, 'gen, 'tp) platform \<Rightarrow> connected_state
    \<Rightarrow> after_disconnect \<Rightarrow> ('fw, 'dns, 'gen, 'tp) shared
    \<Rightarrow> connected_state event_consequence \<times> ('fw, 'dns, 'gen, 'tp) shared" where
  "connected_disconnect pf st after_disconnect sh =
     new_state (disconnecting_enter pf (cd_tunnel st) after_disconnect (reset_dns pf sh))"

definition connected_handle_commands :: "('fw, 'dns, 'gen, 'tp) platform \<Rightarrow> polls
    \<Rightarrow> connected_state \<Rightarrow> ('fw, 'dns, 'gen, 'tp) shared
    \<Rightarrow> connected_state event_consequence \<times> ('fw, 'dns, 'gen, 'tp) shared" where
  "connected_handle_commands pf ps st sh =
     (case try_handle_event (po_commands ps) of
        TriedNotReady \<Rightarrow> (NoEvents st, sh)
      | TriedOk (CmdAllowLan allow_lan) \<Rightarrow>
          (case connected_set_firewall_policy pf st (sh\<lparr>sv_allow_lan := allow_lan\<rparr>) of
             (Inr _, sh) \<Rightarrow> (SameState st, sh)
           | (Inl _, sh) \<Rightarrow> connected_disconnect pf st (AfterBlock SetFirewallPolicyError) sh)
      | TriedOk (CmdBlockWhenDisconnected b) \<Rightarrow>
          (SameState st, sh\<lparr>sv_block_when_disconnected := b\<rparr>)
      | TriedOk (CmdIsOffline is_offline) \<Rightarrow>
          (let sh = sh\<lparr>sv_is_offline := is_offline\<rparr>
           in if is_offline then connected_disconnect pf st (AfterBlock IsOffline) sh
              else (SameState st, sh))
      | TriedOk CmdConnect \<Rightarrow> connected_disconnect pf st (AfterReconnect 0) sh
      | TriedOk CmdDisconnect \<Rightarrow> connected_disconnect pf st AfterNothing sh
      | TriedErr \<Rightarrow> connected_disconnect pf st AfterNothing sh
      | TriedOk (CmdBlock reason) \<Rightarrow> connected_disconnect pf st (AfterBlock reason) sh)"

definition connected_handle_tunnel_events :: "('fw, 'dns, 'gen, 'tp) platform \<Rightarrow> polls
    \<Rightarrow> connected_state \<Rightarrow> ('fw, 'dns, 'gen, 'tp) shared
    \<Rightarrow> connected_state event_consequence \<times> ('fw, 'dns, 'gen, 'tp) shared" where
  "connected_handle_tunnel_events pf ps st sh =
     (case try_handle_event (po_tunnel_events ps) of
        TriedNotReady \<Rightarrow> (NoEvents st, sh)
      | TriedOk EvDown \<Rightarrow> connected_disconnect pf st (AfterReconnect 0) sh
      | TriedErr \<Rightarrow> connected_disconnect pf st (AfterReconnect 0) sh
      | TriedOk _ \<Rightarrow> (SameState st, sh))"

definition connected_handle_tunnel_close_event :: "('fw, 'dns, 'gen, 'tp) platform \<Rightarrow> polls
    \<Rightarrow> connected_state \<Rightarrow> ('fw, 'dns, 'gen, 'tp) shared
    \<Rightarrow> connected_state event_consequence \<times> ('fw, 'dns, 'gen, 'tp) shared" where
  "connected_handle_tunnel_close_event pf ps st sh =
     (case po_close_event ps of
        FutureReady (Some reason) \<Rightarrow> new_state (blocked_enter pf reason sh)
      | FutureNotReady \<Rightarrow> (NoEvents st, sh)
      | _ \<Rightarrow> new_state (connecting_enter pf 0 (reset_dns pf sh)))"

definition connected_handle_event :: "('fw, 'dns, 'gen, 'tp) platform \<Rightarrow> polls
    \<Rightarrow> connected_state \<Rightarrow> ('fw, 'dns, 'gen, 'tp) shared
    \<Rightarrow> connected_state event_consequence \<times> ('fw, 'dns, 'gen, 'tp) shared" where
  "connected_handle_event pf ps st sh =
     or_else (or_else (connected_handle_commands pf ps st sh)
       (connected_handle_tunnel_events pf ps)) (connected_handle_tunnel_close_event pf ps)"

text \<open>
  The command part of \<open>DisconnectingState\<close>: the new action after the disconnect and the shared
  values, for every pair of action and event (\<open>None\<close> when the stream has ended or failed).
\<close>

fun disconnecting_command :: "after_disconnect \<Rightarrow> tunnel_command option
    \<Rightarrow> ('fw, 'dns, 'gen, 'tp) shared \<Rightarrow> after_disconnect \<times> ('fw, 'dns, 'gen, 'tp) shared" where
  "disconnecting_command a (Some (CmdAllowLan b)) sh = (a, sh\<lparr>sv_allow_lan := b\<rparr>)"
| "disconnecting_command a (Some (CmdBlockWhenDisconnected b)) sh =
     (a, sh\<lparr>sv_block_when_disconnected := b\<rparr>)"
| "disconnecting_command AfterNothing (Some (CmdIsOffline b)) sh = (AfterNothing, sh\<lparr>sv_is_offline := b\<rparr>)"
| "disconnecting_command (AfterBlock reason) (Some (CmdIsOffline b)) sh =
     (if \<not> b \<and> reason = IsOffline then AfterReconnect 0 else AfterBlock reason, sh\<lparr>sv_is_offline := b\<rparr>)"
| "disconnecting_command (AfterReconnect n) (Some (CmdIsOffline b)) sh =
     (if b then AfterBlock IsOffline else AfterReconnect n, sh\<lparr>sv_is_offline := b\<rparr>)"
| "disconnecting_command AfterNothing (Some CmdConnect) sh = (AfterReconnect 0, sh)"
| "disconnecting_command (AfterBlock _) (Some CmdConnect) sh = (AfterReconnect 0, sh)"
| "disconnecting_command (AfterReconnect n) (Some CmdConnect) sh = (AfterReconnect n, sh)"
| "disconnecting_command _ (Some CmdDisconnect) sh = (AfterNothing, sh)"
| "disconnecting_command _ (Some (CmdBlock reason)) sh = (AfterBlock reason, sh)"
| "disconnecting_command AfterNothing None sh = (AfterNothing, sh)"
| "disconnecting_command (AfterBlock reason) None sh = (AfterBlock reason, sh)"
| "disconnecting_command (AfterReconnect _) None sh = (AfterNothing, sh)"

definition disconnecting_handle_commands :: "polls
    \<Rightarrow> disconnecting_state \<Rightarrow> ('fw, 'dns, 'gen, 'tp) shared
    \<Rightarrow> disconnecting_state event_consequence \<times> ('fw, 'dns, 'gen, 'tp) shared" where
  "disconnecting_handle_commands ps st sh =
     (let handle = (\<lambda>event.
        (case disconnecting_command (dg_after_disconnect st) event sh of
           (a, sh) \<Rightarrow> (SameState (st\<lparr>dg_after_disconnect := a\<rparr>), sh)))
      in case try_handle_event (po_commands ps) of
           TriedNotReady \<Rightarrow> (NoEvents st, sh)
         | TriedOk cmd \<Rightarrow> handle (Some cmd)
         | TriedErr \<Rightarrow> handle None)"

definition disconnecting_after_disconnect :: "('fw, 'dns, 'gen, 'tp) platform
    \<Rightarrow> disconnecting_state \<Rightarrow> block_reason option \<Rightarrow> ('fw, 'dns, 'gen, 'tp) shared
    \<Rightarrow> tunnel_state \<times> tunnel_state_transition \<times> ('fw, 'dns, 'gen, 'tp) shared" where
  "disconnecting_after_disconnect pf st block_reason sh =
     (case block_reason of
        Some reason \<Rightarrow> blocked_enter pf reason sh
      | None \<Rightarrow>
          (case dg_after_disconnect st of
             AfterNothing \<Rightarrow> disconnected_enter pf sh
           | AfterBlock reason \<Rightarrow> blocked_enter pf reason sh
           | AfterReconnect retry_attempt \<Rightarrow> connecting_enter pf retry_attempt sh))"

definition disconnecting_handle_exit_event :: "('fw, 'dns, 'gen, 'tp) platform \<Rightarrow> polls
    \<Rightarrow> disconnecting_state \<Rightarrow> ('fw, 'dns, 'gen, 'tp) shared
    \<Rightarrow> disconnecting_state event_consequence \<times> ('fw, 'dns, 'gen, 'tp) shared" where
  "disconnecting_handle_exit_event pf ps st sh =
     (case po_close_event ps of
        FutureNotReady \<Rightarrow> (NoEvents st, sh)
      | FutureReady block_reason \<Rightarrow> new_state (disconnecting_after_disconnect pf st block_reason sh)
      | FutureErr \<Rightarrow> new_state (disconnecting_after_disconnect pf st None sh))"

definition disconnecting_handle_event :: "('fw, 'dns, 'gen, 'tp) platform \<Rightarrow> polls
    \<Rightarrow> disconnecting_state \<Rightarrow> ('fw, 'dns, 'gen, 'tp) shared
    \<Rightarrow> disconnecting_state event_consequence \<times> ('fw, 'dns, 'gen, 'tp) shared" where
  "disconnecting_handle_event pf ps st sh =
     or_else (disconnecting_handle_commands ps st sh) (disconnecting_handle_exit_event pf ps)"

definition blocked_handle_event :: "('fw, 'dns, 'gen, 'tp) platform \<Rightarrow> polls
    \<Rightarrow> block_reason \<Rightarrow> ('fw, 'dns, 'gen, 'tp) shared
    \<Rightarrow> block_reason event_consequence \<times> ('fw, 'dns, 'gen, 'tp) shared" where
  "blocked_handle_event pf ps st sh =
     (case try_handle_event (po_commands ps) of
        TriedNotReady \<Rightarrow> (NoEvents st, sh)
      | TriedOk (CmdAllowLan allow_lan) \<Rightarrow>
          (SameState st, snd (blocked_set_firewall_policy pf (sh\<lparr>sv_allow_lan := allow_lan\<rparr>)))
      | TriedOk (CmdBlockWhenDisconnected b) \<Rightarrow>
          (SameState st, sh\<lparr>sv_block_when_disconnected := b\<rparr>)
      | TriedOk (CmdIsOffline is_offline) \<Rightarrow>
          (let sh = sh\<lparr>sv_is_offline := is_offline\<rparr>
           in if \<not> is_offline \<and> st = IsOffline then new_state (connecting_enter pf 0 sh)
              else (SameState st, sh))
      | TriedOk CmdConnect \<Rightarrow> new_state (connecting_enter pf 0 sh)
      | TriedOk CmdDisconnect \<Rightarrow> new_state (disconnected_enter pf sh)
      | TriedErr \<Rightarrow> new_state (disconnected_enter pf sh)
      | TriedOk (CmdBlock reason) \<Rightarrow> new_state (blocked_enter pf reason sh))"

section \<open>The machine\<close>

datatype poll_result = PollTransition tunnel_state_transition | PollEnd | PollNotReady

datatype machine_action = ActRepeat tunnel_state | ActNotify "tunnel_state option" poll_result

fun action_from_consequence :: "('s \<Rightarrow> tunnel_state) \<Rightarrow> 's event_consequence \<Rightarrow> machine_action" where
  "action_from_consequence wrap (NewState st tr) = ActNotify (Some st) (PollTransition tr)"
| "action_from_consequence wrap (SameState st) = ActRepeat (wrap st)"
| "action_from_consequence wrap (NoEvents st) = ActNotify (Some (wrap st)) PollNotReady"
| "action_from_consequence wrap Finished = ActNotify None PollEnd"

fun handle_event :: "('fw, 'dns, 'gen, 'tp) platform \<Rightarrow> polls \<Rightarrow> tunnel_state
    \<Rightarrow> ('fw, 'dns, 'gen, 'tp) shared \<Rightarrow> machine_action \<times> ('fw, 'dns, 'gen, 'tp) shared" where
  "handle_event pf ps StDisconnected sh =
     apfst (action_from_consequence (\<lambda>_. StDisconnected)) (disconnected_handle_event pf ps sh)"
| "handle_event pf ps (StConnecting st) sh =
     apfst (action_from_consequence StConnecting) (connecting_handle_event pf ps st sh)"
| "handle_event pf ps (StConnected st) sh =
     apfst (action_from_consequence StConnected) (connected_handle_event pf ps st sh)"
| "handle_event pf ps (StDisconnecting st) sh =
     apfst (action_from_consequence StDisconnecting) (disconnecting_handle_event pf ps st sh)"
| "handle_event pf ps (StBlocked st) sh =
     apfst (action_from_consequence StBlocked) (blocked_handle_event pf ps st sh)"

record ('fw, 'dns, 'gen, 'tp) machine =
  tm_current_state :: "tunnel_state option"
  tm_shared :: "('fw, 'dns, 'gen, 'tp) shared"

datatype tsm_error = InitFirewallError string | InitDnsMonitorError string

definition machine_new :: "('fw, 'dns, 'gen, 'tp) platform \<Rightarrow> bool \<Rightarrow> bool \<Rightarrow> bool \<Rightarrow> 'gen \<Rightarrow> 'tp
    \<Rightarrow> string option \<Rightarrow> string \<Rightarrow> string \<Rightarrow> tsm_error + ('fw, 'dns, 'gen, 'tp) machine" where
  "machine_new pf allow_lan block_when_disconnected is_offline g tp log_dir resource_dir cache_dir =
     (let args = (if block_when_disconnected
                  then \<lparr>initialize_blocked = True, fa_allow_lan = Some allow_lan\<rparr>
                  else \<lparr>initialize_blocked = False, fa_allow_lan = None\<rparr>)
      in case pf_fw_new pf args of
           Inl e \<Rightarrow> Inl (InitFirewallError e)
         | Inr fw \<Rightarrow>
             (case pf_dns_new pf cache_dir of
                Inl e \<Rightarrow> Inl (InitDnsMonitorError e)
              | Inr dns \<Rightarrow>
                  (let sh = \<lparr>sv_firewall = fw, sv_dns_monitor = dns, sv_allow_lan = allow_lan,
                         sv_block_when_disconnected = block_when_disconnected,
                         sv_is_offline = is_offline, sv_generator = g, sv_tun_provider = tp,
                         sv_log_dir = log_dir, sv_resource_dir = resource_dir\<rparr>
                   in case disconnected_enter pf sh of
                        (initial_state, _, sh) \<Rightarrow>
                          Inr \<lparr>tm_current_state = Some initial_state, tm_shared = sh\<rparr>)))"

text \<open>
  \<open>Stream::poll\<close>: the loop makes the polls of the list, one element per iteration; \<open>None\<close> says
  that the loop is still running when they are used up.
\<close>

fun machine_poll :: "('fw, 'dns, 'gen, 'tp) platform \<Rightarrow> polls list
    \<Rightarrow> ('fw, 'dns, 'gen, 'tp) machine \<Rightarrow> poll_result option \<times> ('fw, 'dns, 'gen, 'tp) machine" where
  "machine_poll pf pss m =
     (case tm_current_state m of
        None \<Rightarrow> (Some PollEnd, m)
      | Some st \<Rightarrow>
          (case pss of
             [] \<Rightarrow> (None, m)
           | ps # pss \<Rightarrow>
               (case handle_event pf ps st (tm_shared m) of
                  (ActRepeat st, sh) \<Rightarrow>
                    machine_poll pf pss \<lparr>tm_current_state = Some st, tm_shared = sh\<rparr>
                | (ActNotify st r, sh) \<Rightarrow> (Some r, \<lparr>tm_current_state = st, tm_shared = sh\<rparr>))))"

declare machine_poll.simps [simp del]

text \<open>One iteration of the loop, as a step of the machine between two states.\<close>

inductive machine_step :: "('fw, 'dns, 'gen, 'tp) platform
    \<Rightarrow> tunnel_state \<times> ('fw, 'dns, 'gen, 'tp) shared
    \<Rightarrow> tunnel_state \<times> ('fw, 'dns, 'gen, 'tp) shared \<Rightarrow> bool" for pf where
  repeat: "handle_event pf ps st sh = (ActRepeat st', sh') \<Longrightarrow> machine_step pf (st, sh) (st', sh')"
| notify: "handle_event pf ps st sh = (ActNotify (Some st') r, sh') \<Longrightarrow>
    machine_step pf (st, sh) (st', sh')"

inductive_cases machine_stepE: "machine_step pf (st, sh) (st', sh')"

text \<open>The states reachable from the start of the machine.\<close>

inductive reachable :: "('fw, 'dns, 'gen, 'tp) platform
    \<Rightarrow> tunnel_state \<times> ('fw, 'dns, 'gen, 'tp) shared \<Rightarrow> bool" for pf where
  start: "machine_new pf lan bwd off g tp ld rd cd =
      Inr \<lparr>tm_current_state = Some st, tm_shared = sh\<rparr> \<Longrightarrow> reachable pf (st, sh)"
| step: "reachable pf c \<Longrightarrow> machine_step pf c c' \<Longrightarrow> reachable pf c'"

lemmas enter_defs [tsm_simps] =
  apply_policy_def reset_policy_def reset_dns_def disconnected_set_firewall_policy_def
  disconnected_enter_def blocked_set_firewall_policy_def blocked_enter_def disconnecting_enter_def
  connecting_set_firewall_policy_def start_tunnel_def connecting_enter_def
  connected_set_firewall_policy_def connected_set_dns_def connected_enter_def new_state_def

end
