(* ===== verification/Relay_Types.thy ===== *)
theory Relay_Types
  imports Net_Types Std_Fmt
begin

text \<open>
  The relay types of \<open>mullvad-types\<close>: locations and their distance (\<open>location.rs\<close>), the relay list
  (\<open>relay_list.rs\<close>), endpoints of relays (\<open>endpoint.rs\<close>), constraints on relays and how settings
  are merged (\<open>relay_constraints.rs\<close>), and custom tunnel endpoints (\<open>custom_tunnel.rs\<close>).

  Latitudes, longitudes and distances are \<open>f64\<close> in the code and \<open>real\<close> here: rounding is not
  modelled.  The DNS lookup of \<open>ToSocketAddrs\<close> and the base64 printing of keys are parameters.
\<close>

section \<open>Locations\<close>

record location =
  loc_country :: string
  loc_country_code :: string
  loc_city :: string
  loc_city_code :: string
  loc_latitude :: real
  loc_longitude :: real

definition RAIDUS_OF_EARTH :: real where
  "RAIDUS_OF_EARTH = 6372.8"

text \<open>\<open>f64::to_radians\<close>.\<close>

definition to_radians :: "real \<Rightarrow> real" where
  "to_radians d = d * (pi / 180)"

definition haversine_dist_rad :: "real \<Rightarrow> real \<Rightarrow> real \<Rightarrow> real \<Rightarrow> real" where
  "haversine_dist_rad lat lon other_lat other_lon =
     (let d_lat = lat - other_lat;
          d_lon = lon - other_lon;
          haversine = (sin (d_lat / 2)) ^ 2 + (sin (d_lon / 2)) ^ 2 * cos lat * cos other_lat
      in arcsin (sqrt haversine) * 2 * RAIDUS_OF_EARTH)"

definition haversine_dist_deg :: "real \<Rightarrow> real \<Rightarrow> real \<Rightarrow> real \<Rightarrow> real" where
  "haversine_dist_deg lat lon other_lat other_lon =
     haversine_dist_rad (to_radians lat) (to_radians lon) (to_radians other_lat)
       (to_radians other_lon)"

definition distance_from :: "location \<Rightarrow> location \<Rightarrow> real" where
  "distance_from l other =
     haversine_dist_deg (loc_latitude l) (loc_longitude l) (loc_latitude other)
       (loc_longitude other)"

record am_i_mullvad =
  am_ip :: ip_addr
  am_country :: string
  am_city :: "string option"
  am_latitude :: real
  am_longitude :: real
  am_mullvad_exit_ip :: bool

record geo_ip_location =
  geo_ipv4 :: "ipv4 option"
  geo_ipv6 :: "ipv6 option"
  geo_country :: string
  geo_city :: "string option"
  geo_latitude :: real
  geo_longitude :: real
  geo_mullvad_exit_ip :: bool
  geo_hostname :: "string option"
  geo_bridge_hostname :: "string option"

definition geo_ip_location_from :: "am_i_mullvad \<Rightarrow> geo_ip_location" where
  "geo_ip_location_from l =
     (case (case am_ip l of V4 v4 \<Rightarrow> (Some v4, None) | V6 v6 \<Rightarrow> (None, Some v6)) of
        (ipv4, ipv6) \<Rightarrow>
          \<lparr>geo_ipv4 = ipv4, geo_ipv6 = ipv6, geo_country = am_country l, geo_city = am_city l,
           geo_latitude = am_latitude l, geo_longitude = am_longitude l,
           geo_mullvad_exit_ip = am_mullvad_exit_ip l, geo_hostname = None,
           geo_bridge_hostname = None\<rparr>)"

section \<open>The relay list\<close>

record openvpn_endpoint_data =
  oe_port :: u16
  oe_protocol :: transport_protocol

record wireguard_endpoint_data =
  we_port_ranges :: "(u16 \<times> u16) list"
  we_ipv4_gateway :: ipv4
  we_ipv6_gateway :: ipv6
  we_public_key :: public_key

record relay_tunnels =
  rt_openvpn :: "openvpn_endpoint_data list"
  rt_wireguard :: "wireguard_endpoint_data list"

definition tunnels_is_empty :: "relay_tunnels \<Rightarrow> bool" where
  "tunnels_is_empty t = (rt_openvpn t = [] \<and> rt_wireguard t = [])"

definition tunnels_clear :: "relay_tunnels \<Rightarrow> relay_tunnels" where
  "tunnels_clear t = t\<lparr>rt_openvpn := [], rt_wireguard := []\<rparr>"

record shadowsocks_endpoint_data =
  se_port :: u16
  se_cipher :: string
  se_password :: string
  se_protocol :: transport_protocol

definition to_proxy_settings :: "shadowsocks_endpoint_data \<Rightarrow> ip_addr \<Rightarrow> proxy_settings" where
  "to_proxy_settings d addr =
     ProxyShadowsocksSettings
       \<lparr>ss_peer = \<lparr>sa_ip = addr, sa_port = se_port d\<rparr>, ss_password = se_password d,
        ss_cipher = se_cipher d\<rparr>"

record relay_bridges =
  rb_shadowsocks :: "shadowsocks_endpoint_data list"

definition bridges_is_empty :: "relay_bridges \<Rightarrow> bool" where
  "bridges_is_empty b = (rb_shadowsocks b = [])"

definition bridges_clear :: "relay_bridges \<Rightarrow> relay_bridges" where
  "bridges_clear b = b\<lparr>rb_shadowsocks := []\<rparr>"

record relay =
  r_hostname :: string
  r_ipv4_addr_in :: ipv4
  r_include_in_country :: bool
  r_weight :: u64
  r_tunnels :: relay_tunnels
  r_bridges :: relay_bridges
  r_location :: "location option"

record relay_list_city =
  ci_name :: string
  ci_code :: string
  ci_latitude :: real
  ci_longitude :: real
  ci_relays :: "relay list"

record relay_list_country =
  co_name :: string
  co_code :: string
  co_cities :: "relay_list_city list"

record relay_list =
  rl_countries :: "relay_list_country list"

definition relay_list_empty :: relay_list where
  "relay_list_empty = \<lparr>rl_countries = []\<rparr>"

definition openvpn_endpoint_data_fmt :: "openvpn_endpoint_data \<Rightarrow> string" where
  "openvpn_endpoint_data_fmt d =
     transport_protocol_fmt (oe_protocol d) @ '' port '' @ fmt_u16 (oe_port d)"

definition wireguard_endpoint_data_fmt ::
    "(public_key \<Rightarrow> string) \<Rightarrow> wireguard_endpoint_data \<Rightarrow> string" where
  "wireguard_endpoint_data_fmt key_fmt d =
     ''gateways '' @ fmt_ipv4 (we_ipv4_gateway d) @ '' - '' @ fmt_ipv6 (we_ipv6_gateway d) @
     '' port_ranges { '' @
     join_with '','' (map (\<lambda>range. ''['' @ fmt_u16 (fst range) @ '' - '' @ fmt_u16 (snd range) @ '']'')
       (we_port_ranges d)) @
     '' } public_key '' @ key_fmt (we_public_key d)"

section \<open>Endpoints of relays\<close>

datatype mullvad_endpoint =
    MullvadOpenVpn endpoint
  | MullvadWireguard peer_config ipv4 ipv6

fun mullvad_to_endpoint :: "mullvad_endpoint \<Rightarrow> endpoint" where
  "mullvad_to_endpoint (MullvadOpenVpn e) = e"
| "mullvad_to_endpoint (MullvadWireguard peer _ _) =
     endpoint_new (sa_ip (peer_endpoint peer)) (sa_port (peer_endpoint peer)) Udp"

definition into_mullvad_endpoint :: "openvpn_endpoint_data \<Rightarrow> ip_addr \<Rightarrow> mullvad_endpoint" where
  "into_mullvad_endpoint d host = MullvadOpenVpn (endpoint_new host (oe_port d) (oe_protocol d))"

datatype tunnel_endpoint_data =
    DataOpenVpn openvpn_endpoint_data
  | DataWireguard wireguard_endpoint_data

fun tunnel_endpoint_data_fmt :: "(public_key \<Rightarrow> string) \<Rightarrow> tunnel_endpoint_data \<Rightarrow> string" where
  "tunnel_endpoint_data_fmt key_fmt (DataOpenVpn d) = ''OpenVPN '' @ openvpn_endpoint_data_fmt d"
| "tunnel_endpoint_data_fmt key_fmt (DataWireguard d) =
     ''Wireguard '' @ wireguard_endpoint_data_fmt key_fmt d"

section \<open>Constraints\<close>

datatype 'a constraint = Any | Only 'a

fun constraint_unwrap_or :: "'a constraint \<Rightarrow> 'a \<Rightarrow> 'a" where
  "constraint_unwrap_or Any other = other"
| "constraint_unwrap_or (Only v) other = v"

fun constraint_or :: "'a constraint \<Rightarrow> 'a constraint \<Rightarrow> 'a constraint" where
  "constraint_or Any other = other"
| "constraint_or (Only v) other = Only v"

fun is_any :: "'a constraint \<Rightarrow> bool" where
  "is_any Any = True"
| "is_any (Only _) = False"

fun constraint_matches :: "'a constraint \<Rightarrow> 'a \<Rightarrow> bool" where
  "constraint_matches Any other = True"
| "constraint_matches (Only v) other = (v = other)"

datatype location_constraint =
    LocCountry string
  | LocCity string string
  | LocHostname string string string

fun location_constraint_fmt :: "location_constraint \<Rightarrow> string" where
  "location_constraint_fmt (LocCountry country) = ''country '' @ country"
| "location_constraint_fmt (LocCity country city) = ''city '' @ city @ '', '' @ country"
| "location_constraint_fmt (LocHostname country city hostname) =
     ''city '' @ city @ '', '' @ country @ '', hostname '' @ hostname"

datatype tunnel_protocol = ProtoWireguard | ProtoOpenVpn

fun tunnel_protocol_fmt :: "tunnel_protocol \<Rightarrow> string" where
  "tunnel_protocol_fmt ProtoWireguard = ''WireGuard''"
| "tunnel_protocol_fmt ProtoOpenVpn = ''OpenVPN''"

record openvpn_constraints =
  oc_port :: "u16 constraint"
  oc_protocol :: "transport_protocol constraint"

definition openvpn_constraints_default :: openvpn_constraints where
  "openvpn_constraints_default = \<lparr>oc_port = Any, oc_protocol = Any\<rparr>"

definition openvpn_constraints_fmt :: "openvpn_constraints \<Rightarrow> string" where
  "openvpn_constraints_fmt c =
     (case oc_port c of Any \<Rightarrow> ''any port'' | Only port \<Rightarrow> ''port '' @ fmt_u16 port) @
     '' over '' @
     (case oc_protocol c of Any \<Rightarrow> ''any protocol'' | Only p \<Rightarrow> transport_protocol_fmt p)"

definition openvpn_matches :: "openvpn_constraints \<Rightarrow> openvpn_endpoint_data \<Rightarrow> bool" where
  "openvpn_matches c endpoint =
     (constraint_matches (oc_port c) (oe_port endpoint) \<and>
      constraint_matches (oc_protocol c) (oe_protocol endpoint))"

record wireguard_constraints =
  wc_port :: "u16 constraint"

definition wireguard_constraints_default :: wireguard_constraints where
  "wireguard_constraints_default = \<lparr>wc_port = Any\<rparr>"

definition wireguard_constraints_fmt :: "wireguard_constraints \<Rightarrow> string" where
  "wireguard_constraints_fmt c =
     (case wc_port c of Any \<Rightarrow> ''any port'' | Only port \<Rightarrow> ''port '' @ fmt_u16 port)"

definition wireguard_matches :: "wireguard_constraints \<Rightarrow> wireguard_endpoint_data \<Rightarrow> bool" where
  "wireguard_matches c endpoint =
     (case wc_port c of
        Any \<Rightarrow> True
      | Only port \<Rightarrow> list_ex (\<lambda>r. port \<ge> fst r \<and> port \<le> snd r) (we_port_ranges endpoint))"

datatype tunnel_constraints =
    TcOpenVpn openvpn_constraints
  | TcWireguard wireguard_constraints

fun tunnel_constraints_fmt :: "tunnel_constraints \<Rightarrow> string" where
  "tunnel_constraints_fmt (TcOpenVpn c) = ''OpenVPN over '' @ openvpn_constraints_fmt c"
| "tunnel_constraints_fmt (TcWireguard c) = ''Wireguard over '' @ wireguard_constraints_fmt c"

fun tunnel_matches_openvpn :: "tunnel_constraints \<Rightarrow> openvpn_endpoint_data \<Rightarrow> bool" where
  "tunnel_matches_openvpn (TcOpenVpn c) endpoint = openvpn_matches c endpoint"
| "tunnel_matches_openvpn _ endpoint = False"

fun tunnel_matches_wireguard :: "tunnel_constraints \<Rightarrow> wireguard_endpoint_data \<Rightarrow> bool" where
  "tunnel_matches_wireguard (TcWireguard c) endpoint = wireguard_matches c endpoint"
| "tunnel_matches_wireguard _ endpoint = False"

record relay_constraints =
  rc_location :: "location_constraint constraint"
  rc_tunnel_protocol :: "tunnel_protocol constraint"
  rc_wireguard_constraints :: wireguard_constraints
  rc_openvpn_constraints :: openvpn_constraints

definition relay_constraints_default :: relay_constraints where
  "relay_constraints_default =
     \<lparr>rc_location = Any, rc_tunnel_protocol = Any,
      rc_wireguard_constraints = wireguard_constraints_default,
      rc_openvpn_constraints = openvpn_constraints_default\<rparr>"

definition relay_constraints_fmt :: "relay_constraints \<Rightarrow> string" where
  "relay_constraints_fmt c =
     (case rc_tunnel_protocol c of
        Any \<Rightarrow> ''any tunnel protocol''
      | Only tunnel_protocol \<Rightarrow>
          tunnel_protocol_fmt tunnel_protocol @
          (case tunnel_protocol of
             ProtoWireguard \<Rightarrow> '' over '' @ wireguard_constraints_fmt (rc_wireguard_constraints c)
           | ProtoOpenVpn \<Rightarrow> '' over '' @ openvpn_constraints_fmt (rc_openvpn_constraints c))) @
     '' in '' @
     (case rc_location c of
        Any \<Rightarrow> ''any location''
      | Only location_constraint \<Rightarrow> location_constraint_fmt location_constraint)"

record relay_constraints_update =
  ru_location :: "location_constraint constraint option"
  ru_tunnel_protocol :: "tunnel_protocol constraint option"
  ru_wireguard_constraints :: "wireguard_constraints option"
  ru_openvpn_constraints :: "openvpn_constraints option"

definition unwrap_or :: "'a option \<Rightarrow> 'a \<Rightarrow> 'a" where
  "unwrap_or x d = (case x of Some x \<Rightarrow> x | None \<Rightarrow> d)"

definition relay_constraints_merge ::
    "relay_constraints \<Rightarrow> relay_constraints_update \<Rightarrow> relay_constraints" where
  "relay_constraints_merge c update =
     \<lparr>rc_location = unwrap_or (ru_location update) (rc_location c),
      rc_tunnel_protocol = unwrap_or (ru_tunnel_protocol update) (rc_tunnel_protocol c),
      rc_wireguard_constraints =
        unwrap_or (ru_wireguard_constraints update) (rc_wireguard_constraints c),
      rc_openvpn_constraints =
        unwrap_or (ru_openvpn_constraints update) (rc_openvpn_constraints c)\<rparr>"

record bridge_constraints =
  bc_location :: "location_constraint constraint"

definition bridge_constraints_fmt :: "bridge_constraints \<Rightarrow> string" where
  "bridge_constraints_fmt c =
     (case bc_location c of
        Any \<Rightarrow> ''any location''
      | Only location_constraint \<Rightarrow> location_constraint_fmt location_constraint)"

datatype bridge_settings = BridgeNormal bridge_constraints | BridgeCustom proxy_settings

datatype bridge_state = BridgeAuto | BridgeOn | BridgeOff

fun bridge_state_fmt :: "bridge_state \<Rightarrow> string" where
  "bridge_state_fmt BridgeAuto = ''auto''"
| "bridge_state_fmt BridgeOn = ''on''"
| "bridge_state_fmt BridgeOff = ''off''"

record internal_bridge_constraints =
  ib_location :: "location_constraint constraint"
  ib_transport_protocol :: "transport_protocol constraint"

section \<open>Custom tunnel endpoints\<close>

datatype custom_tunnel_error = InvalidHost string | HostHasNoIpv4 string

datatype connection_config =
    ConfigOpenVpn openvpn_connection_config
  | ConfigWireguard wg_connection_config

record custom_tunnel_endpoint =
  ct_host :: string
  ct_config :: connection_config

record tunnel_options =
  to_openvpn :: openvpn_tunnel_options
  to_wireguard :: wg_tunnel_options
  to_generic :: generic_tunnel_options

definition tunnel_options_default :: tunnel_options where
  "tunnel_options_default =
     \<lparr>to_openvpn = \<lparr>mssfix = None\<rparr>, to_wireguard = \<lparr>wg_mtu = None\<rparr>,
      to_generic = \<lparr>enable_ipv6 = False\<rparr>\<rparr>"

definition custom_tunnel_endpoint_new :: "string \<Rightarrow> connection_config \<Rightarrow> custom_tunnel_endpoint" where
  "custom_tunnel_endpoint_new host config = \<lparr>ct_host = host, ct_config = config\<rparr>"

text \<open>\<open>Vec::pop\<close>: the last element.\<close>

definition vec_pop :: "'a list \<Rightarrow> 'a option" where
  "vec_pop xs = (if xs = [] then None else Some (last xs))"

text \<open>\<open>lookup host\<close> is \<open>(host, 0).to_socket_addrs()\<close>: \<open>None\<close> an I/O error, else the addresses.\<close>

definition resolve_to_ip ::
    "(string \<Rightarrow> ip_addr list option) \<Rightarrow> string \<Rightarrow> custom_tunnel_error + ip_addr" where
  "resolve_to_ip lookup host =
     (case lookup host of
        None \<Rightarrow> Inl (InvalidHost host)
      | Some addrs \<Rightarrow>
          (case List.partition is_ipv4 addrs of
             (ipv4, ipv6) \<Rightarrow>
               (case (case vec_pop ipv4 of Some a \<Rightarrow> Some a | None \<Rightarrow> vec_pop ipv6) of
                  Some a \<Rightarrow> Inr a
                | None \<Rightarrow> Inl (HostHasNoIpv4 host))))"

fun set_ip :: "ip_addr \<Rightarrow> connection_config \<Rightarrow> connection_config" where
  "set_ip ip (ConfigOpenVpn config) =
     (let e = ovpn_endpoint config in
      ConfigOpenVpn (config\<lparr>ovpn_endpoint :=
        e\<lparr>address := \<lparr>sa_ip = ip, sa_port = sa_port (address e)\<rparr>\<rparr>\<rparr>))"
| "set_ip ip (ConfigWireguard config) =
     (let p = wgc_peer config in
      ConfigWireguard (config\<lparr>wgc_peer :=
        p\<lparr>peer_endpoint := \<lparr>sa_ip = ip, sa_port = sa_port (peer_endpoint p)\<rparr>\<rparr>\<rparr>))"

definition to_tunnel_parameters ::
    "(string \<Rightarrow> ip_addr list option) \<Rightarrow> custom_tunnel_endpoint \<Rightarrow> tunnel_options
      \<Rightarrow> proxy_settings option \<Rightarrow> custom_tunnel_error + tunnel_parameters" where
  "to_tunnel_parameters lookup e options proxy =
     (case resolve_to_ip lookup (ct_host e) of
        Inl err \<Rightarrow> Inl err
      | Inr ip \<Rightarrow>
          Inr (case set_ip ip (ct_config e) of
                 ConfigOpenVpn config \<Rightarrow>
                   ParamsOpenVpn
                     \<lparr>ovpn_config = config, ovpn_options = to_openvpn options,
                      ovpn_generic_options = to_generic options, ovpn_proxy = proxy\<rparr>
               | ConfigWireguard connection \<Rightarrow>
                   ParamsWireguard
                     \<lparr>wg_connection = connection, wg_options = to_wireguard options,
                      wg_generic_options = to_generic options\<rparr>))"

definition custom_tunnel_endpoint_fmt ::
    "(public_key \<Rightarrow> string) \<Rightarrow> custom_tunnel_endpoint \<Rightarrow> string" where
  "custom_tunnel_endpoint_fmt key_fmt e =
     (case ct_config e of
        ConfigOpenVpn config \<Rightarrow>
          ''OpenVPN relay - '' @ ct_host e @ '':'' @
          fmt_u16 (sa_port (address (ovpn_endpoint config))) @ '' '' @
          transport_protocol_fmt (protocol (ovpn_endpoint config))
      | ConfigWireguard connection \<Rightarrow>
          ''WireGuard relay - '' @ fmt_socket_addr (peer_endpoint (wgc_peer connection)) @
          '' with public key '' @ key_fmt (peer_public_key (wgc_peer connection)))"

section \<open>Relay settings\<close>

datatype relay_settings =
    RelayCustomTunnelEndpoint custom_tunnel_endpoint
  | RelayNormal relay_constraints

datatype relay_settings_update =
    UpdateCustomTunnelEndpoint custom_tunnel_endpoint
  | UpdateNormal relay_constraints_update

fun relay_settings_fmt :: "(public_key \<Rightarrow> string) \<Rightarrow> relay_settings \<Rightarrow> string" where
  "relay_settings_fmt key_fmt (RelayCustomTunnelEndpoint e) =
     ''custom endpoint '' @ custom_tunnel_endpoint_fmt key_fmt e"
| "relay_settings_fmt key_fmt (RelayNormal c) = relay_constraints_fmt c"

fun relay_settings_merge :: "relay_settings \<Rightarrow> relay_settings_update \<Rightarrow> relay_settings" where
  "relay_settings_merge s (UpdateCustomTunnelEndpoint relay) = RelayCustomTunnelEndpoint relay"
| "relay_settings_merge s (UpdateNormal constraint_update) =
     RelayNormal
       (case s of
          RelayCustomTunnelEndpoint _ \<Rightarrow>
            relay_constraints_merge relay_constraints_default constraint_update
        | RelayNormal constraint \<Rightarrow> relay_constraints_merge constraint constraint_update)"

section \<open>Properties\<close>

subsection \<open>Distances\<close>

text \<open>The haversine of two points is half of one minus the cosine of the angle between them.\<close>

lemma sin_half_squared: "(sin (x / 2)) ^ 2 = (1 - cos x) / (2 :: real)"
  using cos_double_sin [of "x / 2"] by simp

lemma abs_sin_cos_combination:
  "\<bar>sin a * sin b + c * (cos a * cos b)\<bar> \<le> (1 :: real)" if "\<bar>c\<bar> \<le> 1"
proof -
  have "\<bar>sin a * sin b + c * (cos a * cos b)\<bar> \<le> \<bar>sin a\<bar> * \<bar>sin b\<bar> + \<bar>c\<bar> * (\<bar>cos a\<bar> * \<bar>cos b\<bar>)"
    by (simp add: abs_mult [symmetric] abs_triangle_ineq)
  also have "\<dots> \<le> \<bar>sin a\<bar> * \<bar>sin b\<bar> + 1 * (\<bar>cos a\<bar> * \<bar>cos b\<bar>)"
    using that by (intro add_mono mult_right_mono) auto
  also have "\<dots> \<le> 1"
  proof -
    have "2 * (\<bar>sin a\<bar> * \<bar>sin b\<bar>) \<le> (sin a) ^ 2 + (sin b) ^ 2"
      using sum_squares_bound [of "\<bar>sin a\<bar>" "\<bar>sin b\<bar>"] by (simp add: mult.assoc)
    moreover have "2 * (\<bar>cos a\<bar> * \<bar>cos b\<bar>) \<le> (cos a) ^ 2 + (cos b) ^ 2"
      using sum_squares_bound [of "\<bar>cos a\<bar>" "\<bar>cos b\<bar>"] by (simp add: mult.assoc)
    moreover have "(sin a) ^ 2 + (cos a) ^ 2 = 1" "(sin b) ^ 2 + (cos b) ^ 2 = 1"
      by (simp_all add: sin_squared_eq)
    ultimately show ?thesis by linarith
  qed
  finally show ?thesis .
qed

lemma haversine_bounds:
  fixes a b d :: real
  defines "h \<equiv> (sin ((a - b) / 2)) ^ 2 + (sin (d / 2)) ^ 2 * cos a * cos b"
  shows "0 \<le> h" and "h \<le> 1"
proof -
  have "h = (1 - (sin a * sin b + cos d * (cos a * cos b))) / 2"
    unfolding h_def sin_half_squared cos_diff by (simp add: field_simps)
  moreover have "\<bar>sin a * sin b + cos d * (cos a * cos b)\<bar> \<le> 1"
    by (rule abs_sin_cos_combination) (rule abs_cos_le_one)
  ultimately show "0 \<le> h" "h \<le> 1" by (simp_all add: abs_le_iff)
qed

lemma haversine_dist_rad_bounds:
  "0 \<le> haversine_dist_rad a x b y" "haversine_dist_rad a x b y \<le> pi * RAIDUS_OF_EARTH"
proof -
  let ?h = "(sin ((a - b) / 2)) ^ 2 + (sin ((x - y) / 2)) ^ 2 * cos a * cos b"
  have "0 \<le> sqrt ?h" "sqrt ?h \<le> 1" "- 1 \<le> sqrt ?h"
    using haversine_bounds [of a b "x - y"] by (simp_all add: order.trans [of "- 1" 0])
  then have "0 \<le> arcsin (sqrt ?h)" "arcsin (sqrt ?h) \<le> pi / 2"
    using arcsin_le_arcsin [of 0 "sqrt ?h"] arcsin_ubound [of "sqrt ?h"] by simp_all
  then show "0 \<le> haversine_dist_rad a x b y" "haversine_dist_rad a x b y \<le> pi * RAIDUS_OF_EARTH"
    by (simp_all add: haversine_dist_rad_def Let_def RAIDUS_OF_EARTH_def)
qed

lemma sin_half_diff_squared_commute: "(sin ((a - b) / 2)) ^ 2 = (sin ((b - a) / 2 :: real)) ^ 2"
proof -
  have "(a - b) / 2 = - ((b - a) / 2)" by (simp add: field_simps)
  then show ?thesis by (simp only: sin_minus power2_minus)
qed

lemma haversine_dist_rad_commute: "haversine_dist_rad a x b y = haversine_dist_rad b y a x"
  unfolding haversine_dist_rad_def Let_def
  by (simp add: sin_half_diff_squared_commute [of a b] sin_half_diff_squared_commute [of x y]
      mult.commute mult.left_commute)

lemma haversine_dist_rad_self: "haversine_dist_rad a x a x = 0"
  by (simp add: haversine_dist_rad_def)

text \<open>
  The distance between two locations is a length on the surface of the earth: it is never
  negative (so the key of the bridge sort is well defined), at most half the circumference, the
  same in both directions, and zero from a location to itself.\<close>

theorem distance_from_metric:
  "0 \<le> distance_from l m \<and> distance_from l m \<le> pi * RAIDUS_OF_EARTH \<and>
   distance_from l m = distance_from m l \<and> distance_from l l = 0"
  by (simp add: distance_from_def haversine_dist_deg_def haversine_dist_rad_bounds
      haversine_dist_rad_self haversine_dist_rad_commute
        [of "to_radians (loc_latitude l)" "to_radians (loc_longitude l)"])

subsection \<open>Constraints and settings\<close>

lemma constraint_matches_unwrap: "constraint_matches c (constraint_unwrap_or c x)"
  by (cases c) auto

lemma constraint_or_matches:
  "constraint_matches (constraint_or c d) x \<longleftrightarrow>
     (if is_any c then constraint_matches d x else constraint_matches c x)"
  by (cases c) auto

text \<open>Updates compose: fields of the later update win, the others keep the earlier value.\<close>

definition update_then :: "relay_constraints_update \<Rightarrow> relay_constraints_update
    \<Rightarrow> relay_constraints_update" where
  "update_then u v =
     \<lparr>ru_location = (case ru_location v of None \<Rightarrow> ru_location u | x \<Rightarrow> x),
      ru_tunnel_protocol = (case ru_tunnel_protocol v of None \<Rightarrow> ru_tunnel_protocol u | x \<Rightarrow> x),
      ru_wireguard_constraints =
        (case ru_wireguard_constraints v of None \<Rightarrow> ru_wireguard_constraints u | x \<Rightarrow> x),
      ru_openvpn_constraints =
        (case ru_openvpn_constraints v of None \<Rightarrow> ru_openvpn_constraints u | x \<Rightarrow> x)\<rparr>"

lemma relay_constraints_merge_merge:
  "relay_constraints_merge (relay_constraints_merge c u) v =
     relay_constraints_merge c (update_then u v)"
  by (simp add: relay_constraints_merge_def update_then_def unwrap_or_def split: option.split)

lemma relay_constraints_merge_idem:
  "relay_constraints_merge (relay_constraints_merge c u) u = relay_constraints_merge c u"
  by (simp add: relay_constraints_merge_def unwrap_or_def split: option.split)

lemma relay_settings_merge_idem:
  "relay_settings_merge (relay_settings_merge s u) u = relay_settings_merge s u"
  by (cases u; cases s) (simp_all add: relay_constraints_merge_idem)

subsection \<open>Custom tunnels\<close>

lemma resolve_to_ip_Inr:
  assumes "lookup host = Some addrs"
  shows "resolve_to_ip lookup host =
    (if filter is_ipv4 addrs \<noteq> [] then Inr (last (filter is_ipv4 addrs))
     else if addrs \<noteq> [] then Inr (last addrs) else Inl (HostHasNoIpv4 host))"
proof -
  have "filter (\<lambda>a. \<not> is_ipv4 a) addrs = addrs" if "filter is_ipv4 addrs = []"
    using that by (auto simp: filter_empty_conv intro: filter_True)
  with assms show ?thesis by (auto simp: resolve_to_ip_def vec_pop_def comp_def)
qed

text \<open>
  A custom tunnel resolves its host and replaces only the address: the tunnel endpoint of the
  resulting parameters has an address the lookup returned (IPv4 whenever the lookup returned any
  IPv4 address), the configured port and protocol, and the options and proxy that were passed.
  Only when the lookup fails or returns no address is there an error.\<close>

theorem to_tunnel_parameters_spec:
  "case to_tunnel_parameters lookup e options proxy of
     Inl err \<Rightarrow> (lookup (ct_host e) = None \<and> err = InvalidHost (ct_host e)) \<or>
                 (lookup (ct_host e) = Some [] \<and> err = HostHasNoIpv4 (ct_host e))
   | Inr params \<Rightarrow>
       (\<exists>addrs ip. lookup (ct_host e) = Some addrs \<and> ip \<in> set addrs \<and>
          (is_ipv4 ip \<or> (\<forall>a. a \<in> set addrs \<longrightarrow> \<not> is_ipv4 a)) \<and>
          te_endpoint (get_tunnel_endpoint params) =
            (let cfg = (case ct_config e of ConfigOpenVpn c \<Rightarrow> ovpn_endpoint c
                                          | ConfigWireguard c \<Rightarrow> wg_get_endpoint c)
             in endpoint_new ip (sa_port (address cfg)) (protocol cfg)) \<and>
          get_generic_options params = to_generic options \<and>
          te_proxy (get_tunnel_endpoint params) =
            (case ct_config e of ConfigOpenVpn _ \<Rightarrow> map_option proxy_get_endpoint proxy
                               | ConfigWireguard _ \<Rightarrow> None))"
proof (cases "lookup (ct_host e)")
  case None
  then show ?thesis by (simp add: to_tunnel_parameters_def resolve_to_ip_def)
next
  case (Some addrs)
  show ?thesis
  proof (cases "addrs = []")
    case True
    with Some show ?thesis by (simp add: to_tunnel_parameters_def resolve_to_ip_Inr)
  next
    case False
    define ip where "ip = (if filter is_ipv4 addrs \<noteq> [] then last (filter is_ipv4 addrs) else last addrs)"
    have res: "resolve_to_ip lookup (ct_host e) = Inr ip"
      using Some False by (simp add: resolve_to_ip_Inr ip_def)
    have ip: "ip \<in> set addrs \<and> (is_ipv4 ip \<or> (\<forall>a. a \<in> set addrs \<longrightarrow> \<not> is_ipv4 a))"
      using False last_in_set [of "filter is_ipv4 addrs"]
      by (auto simp: ip_def filter_empty_conv)
    show ?thesis
      using Some res ip
      by (cases "ct_config e") (auto simp: to_tunnel_parameters_def net_simps Let_def)
  qed
qed

text \<open>A host with two addresses, one of each family: the IPv4 address is used.\<close>

theorem to_tunnel_parameters_spec_witness:
  "case to_tunnel_parameters (\<lambda>_. Some [V6 1, V4 5])
      (custom_tunnel_endpoint_new ''host''
         (ConfigOpenVpn (openvpn_connection_config_new (endpoint_new (V4 0) 1194 Udp) ''u'' ''p'')))
      tunnel_options_default None of
     Inl err \<Rightarrow> False
   | Inr params \<Rightarrow> te_endpoint (get_tunnel_endpoint params) = endpoint_new (V4 5) 1194 Udp"
  using to_tunnel_parameters_spec [of "\<lambda>_. Some [V6 1, V4 5]"
      "custom_tunnel_endpoint_new ''host''
         (ConfigOpenVpn (openvpn_connection_config_new (endpoint_new (V4 0) 1194 Udp) ''u'' ''p''))"
      tunnel_options_default None]
  by (auto simp: custom_tunnel_endpoint_new_def net_simps Let_def split: sum.splits)

end
