(* ===== verification/Relay_Selector.thy ===== *)
theory Relay_Selector
  imports Relay_Types
begin

text \<open>
  The relay selector of the daemon, \<open>mullvad-daemon/src/relays.rs\<close>: parsing the relay list, choosing
  a relay and an endpoint for the constraints of the user, choosing a bridge, reading the list from
  disk and the updater thread that downloads and caches new lists.

  The random number generator of the crate \<open>rand\<close> is a record of operations on an opaque state;
  integer arithmetic wraps as in release builds.  Time is in nanoseconds since the epoch.  The file
  system is a map from paths to modification time and contents, the outcome of each write is an
  input, and the JSON codec of \<open>serde_json\<close> is a parameter.
\<close>

section \<open>Parsed relays\<close>

record parsed_relays =
  pr_last_updated :: int
  pr_locations :: relay_list
  pr_relays :: "relay list"

definition parsed_relays_empty :: parsed_relays where
  "parsed_relays_empty =
     \<lparr>pr_last_updated = 0, pr_locations = relay_list_empty, pr_relays = []\<rparr>"

definition relay_with_location :: "relay_list_country \<Rightarrow> relay_list_city \<Rightarrow> relay \<Rightarrow> relay" where
  "relay_with_location country city relay =
     relay\<lparr>r_location := Some
       \<lparr>loc_country = co_name country, loc_country_code = co_code country, loc_city = ci_name city,
        loc_city_code = ci_code city, loc_latitude = ci_latitude city,
        loc_longitude = ci_longitude city\<rparr>\<rparr>"

definition from_relay_list :: "relay_list \<Rightarrow> int \<Rightarrow> parsed_relays" where
  "from_relay_list relay_list last_updated =
     \<lparr>pr_last_updated = last_updated, pr_locations = relay_list,
      pr_relays =
        concat (map (\<lambda>country.
          concat (map (\<lambda>city. map (relay_with_location country city) (ci_relays city))
            (co_cities country))) (rl_countries relay_list))\<rparr>"

section \<open>Random choices\<close>

text \<open>
  \<open>Rng::gen_range\<close>, which panics on an empty range, and \<open>SliceRandom::choose\<close>, which returns
  \<open>None\<close> on an empty slice; \<open>rng_index n\<close> is the index chosen in a slice of \<open>n\<close> elements.
\<close>

record 'g rng =
  rng_u64 :: "u64 \<Rightarrow> u64 \<Rightarrow> 'g \<Rightarrow> u64 \<times> 'g"
  rng_index :: "nat \<Rightarrow> 'g \<Rightarrow> nat \<times> 'g"

definition gen_range :: "'g rng \<Rightarrow> u64 \<Rightarrow> u64 \<Rightarrow> 'g \<Rightarrow> (u64 \<times> 'g) panics" where
  "gen_range rng low high g = (if low < high then Returns (rng_u64 rng low high g) else Panics)"

definition slice_choose :: "'g rng \<Rightarrow> 'a list \<Rightarrow> 'g \<Rightarrow> 'a option \<times> 'g" where
  "slice_choose rng xs g =
     (if xs = [] then (None, g)
      else (case rng_index rng (length xs) g of (i, g) \<Rightarrow> (Some (xs ! i), g)))"

fun find_by_weight :: "relay list \<Rightarrow> u64 \<Rightarrow> relay option" where
  "find_by_weight [] i = None"
| "find_by_weight (relay # relays) i =
     (let i = saturating_sub i (r_weight relay)
      in if i = 0 then Some relay else find_by_weight relays i)"

definition pick_random_relay :: "'g rng \<Rightarrow> relay list \<Rightarrow> 'g \<Rightarrow> (relay option \<times> 'g) panics" where
  "pick_random_relay rng relays g =
     (let total_weight = sum_list (map r_weight relays)
      in if total_weight = 0 then Returns (None, g)
         else
           (case gen_range rng 0 (total_weight + 1) g of
              Panics \<Rightarrow> Panics
            | Returns (i, g) \<Rightarrow>
                (case find_by_weight relays i of
                   None \<Rightarrow> Panics
                 | Some relay \<Rightarrow> Returns (Some relay, g))))"

definition pick_random_bridge :: "'g rng \<Rightarrow> relay \<Rightarrow> 'g \<Rightarrow> proxy_settings option \<times> 'g" where
  "pick_random_bridge rng relay g =
     (case slice_choose rng (rb_shadowsocks (r_bridges relay)) g of
        (data, g) \<Rightarrow> (map_option (\<lambda>d. to_proxy_settings d (V4 (r_ipv4_addr_in relay))) data, g))"

section \<open>Matching relays\<close>

fun relay_matches_location :: "relay \<Rightarrow> location_constraint constraint \<Rightarrow> bool" where
  "relay_matches_location relay Any = True"
| "relay_matches_location relay (Only (LocCountry country)) =
     (case_option False (\<lambda>loc. loc_country_code loc = country) (r_location relay) \<and>
      r_include_in_country relay)"
| "relay_matches_location relay (Only (LocCity country city)) =
     case_option False (\<lambda>loc. loc_country_code loc = country \<and> loc_city_code loc = city)
       (r_location relay)"
| "relay_matches_location relay (Only (LocHostname country city hostname)) =
     case_option False (\<lambda>loc. loc_country_code loc = country \<and> loc_city_code loc = city \<and>
       r_hostname relay = hostname) (r_location relay)"

definition matching_openvpn_tunnels :: "relay_tunnels \<Rightarrow> openvpn_constraints \<Rightarrow> relay_tunnels" where
  "matching_openvpn_tunnels tunnels constraints =
     \<lparr>rt_openvpn = filter (openvpn_matches constraints) (rt_openvpn tunnels), rt_wireguard = []\<rparr>"

definition matching_wireguard_tunnels :: "relay_tunnels \<Rightarrow> wireguard_constraints \<Rightarrow> relay_tunnels" where
  "matching_wireguard_tunnels tunnels constraints =
     \<lparr>rt_openvpn = [], rt_wireguard = filter (wireguard_matches constraints) (rt_wireguard tunnels)\<rparr>"

definition matching_relay :: "relay \<Rightarrow> relay_constraints \<Rightarrow> relay option" where
  "matching_relay relay constraints =
     (if \<not> relay_matches_location relay (rc_location constraints) then None
      else
        (let relay = (case rc_tunnel_protocol constraints of
               Any \<Rightarrow> relay
             | Only ProtoWireguard \<Rightarrow>
                 relay\<lparr>r_tunnels := matching_wireguard_tunnels (r_tunnels relay)
                          (rc_wireguard_constraints constraints)\<rparr>
             | Only ProtoOpenVpn \<Rightarrow>
                 relay\<lparr>r_tunnels := matching_openvpn_tunnels (r_tunnels relay)
                          (rc_openvpn_constraints constraints)\<rparr>);
             relay_matches = (case rc_tunnel_protocol constraints of
               Any \<Rightarrow> rt_openvpn (r_tunnels relay) \<noteq> [] \<or> rt_wireguard (r_tunnels relay) \<noteq> []
             | Only ProtoOpenVpn \<Rightarrow> rt_openvpn (r_tunnels relay) \<noteq> []
             | Only ProtoWireguard \<Rightarrow> rt_wireguard (r_tunnels relay) \<noteq> [])
         in if relay_matches then Some relay else None))"

definition matching_bridge_relay :: "relay \<Rightarrow> internal_bridge_constraints \<Rightarrow> relay option" where
  "matching_bridge_relay relay constraints =
     (if \<not> relay_matches_location relay (ib_location constraints) then None
      else
        (let bridges = r_bridges relay;
             shadowsocks = filter (\<lambda>b. constraint_matches (ib_transport_protocol constraints)
               (se_protocol b)) (rb_shadowsocks bridges);
             filtered_relay = relay\<lparr>r_bridges := bridges\<lparr>rb_shadowsocks := shadowsocks\<rparr>\<rparr>
         in if shadowsocks = [] then None else Some filtered_relay))"

section \<open>Choosing an endpoint\<close>

text \<open>
  The number of ports of a range is computed in \<open>u16\<close>, wrapping as in a release build: the range 0 to 65535
  counts as empty.  (A debug build panics when the end of a range is 65535.)
\<close>

definition get_port_amount :: "u16 \<times> u16 \<Rightarrow> u64" where
  "get_port_amount r = ucast (1 + snd r - fst r)"

fun port_at_index :: "(u16 \<times> u16) list \<Rightarrow> u64 \<Rightarrow> u16 panics" where
  "port_at_index [] port_index = Panics"
| "port_at_index (r # ranges) port_index =
     (let ports_in_range = get_port_amount r
      in if port_index < ports_in_range then Returns (ucast port_index + fst r)
         else port_at_index ranges (port_index - ports_in_range))"

definition get_port_for_wireguard_relay ::
    "'g rng \<Rightarrow> wireguard_endpoint_data \<Rightarrow> wireguard_constraints \<Rightarrow> 'g \<Rightarrow> (u16 option \<times> 'g) panics" where
  "get_port_for_wireguard_relay rng data constraints g =
     (case wc_port constraints of
        Any \<Rightarrow>
          (let port_amount = sum_list (map get_port_amount (we_port_ranges data))
           in if port_amount < 1 then Returns (None, g)
              else
                (case gen_range rng 0 port_amount g of
                   Panics \<Rightarrow> Panics
                 | Returns (port_index, g) \<Rightarrow>
                     (case port_at_index (we_port_ranges data) port_index of
                        Panics \<Rightarrow> Panics
                      | Returns port \<Rightarrow> Returns (Some port, g))))
      | Only port \<Rightarrow>
          Returns (if list_ex (\<lambda>r. fst r \<le> port \<and> port \<le> snd r) (we_port_ranges data)
                   then Some port else None, g))"

definition wg_data_to_endpoint ::
    "'g rng \<Rightarrow> ip_addr \<Rightarrow> wireguard_endpoint_data \<Rightarrow> wireguard_constraints \<Rightarrow> 'g
      \<Rightarrow> (mullvad_endpoint option \<times> 'g) panics" where
  "wg_data_to_endpoint rng host data constraints g =
     (case get_port_for_wireguard_relay rng data constraints g of
        Panics \<Rightarrow> Panics
      | Returns (None, g) \<Rightarrow> Returns (None, g)
      | Returns (Some port, g) \<Rightarrow>
          Returns (Some (MullvadWireguard
              \<lparr>peer_public_key = we_public_key data, peer_allowed_ips = all_of_the_internet,
               peer_endpoint = \<lparr>sa_ip = host, sa_port = port\<rparr>\<rparr>
              (we_ipv4_gateway data) (we_ipv6_gateway data)), g))"

definition random_openvpn :: "'g rng \<Rightarrow> relay \<Rightarrow> 'g \<Rightarrow> (mullvad_endpoint option \<times> 'g) panics" where
  "random_openvpn rng relay g =
     (case slice_choose rng (rt_openvpn (r_tunnels relay)) g of
        (endpoint, g) \<Rightarrow>
          Returns (map_option (\<lambda>e. into_mullvad_endpoint e (V4 (r_ipv4_addr_in relay))) endpoint, g))"

definition random_wireguard ::
    "'g rng \<Rightarrow> relay \<Rightarrow> wireguard_constraints \<Rightarrow> 'g \<Rightarrow> (mullvad_endpoint option \<times> 'g) panics" where
  "random_wireguard rng relay constraints g =
     (case slice_choose rng (rt_wireguard (r_tunnels relay)) g of
        (None, g) \<Rightarrow> Returns (None, g)
      | (Some wg_tunnel, g) \<Rightarrow>
          wg_data_to_endpoint rng (V4 (r_ipv4_addr_in relay)) wg_tunnel constraints g)"

definition get_random_tunnel ::
    "target_os \<Rightarrow> 'g rng \<Rightarrow> relay \<Rightarrow> relay_constraints \<Rightarrow> 'g
      \<Rightarrow> (mullvad_endpoint option \<times> 'g) panics" where
  "get_random_tunnel os rng relay constraints g =
     (case rc_tunnel_protocol constraints of
        Only ProtoWireguard \<Rightarrow>
          random_wireguard rng relay (rc_wireguard_constraints constraints) g
      | Any \<Rightarrow>
          if os = Android then random_wireguard rng relay wireguard_constraints_default g
          else random_openvpn rng relay g
      | Only ProtoOpenVpn \<Rightarrow>
          if os = Android then Returns (None, g) else random_openvpn rng relay g)"

definition get_tunnel_endpoint_internal ::
    "target_os \<Rightarrow> 'g rng \<Rightarrow> relay list \<Rightarrow> relay_constraints \<Rightarrow> 'g
      \<Rightarrow> ((relay \<times> mullvad_endpoint) option \<times> 'g) panics" where
  "get_tunnel_endpoint_internal os rng relays constraints g =
     (let matching_relays = List.map_filter (\<lambda>relay. matching_relay relay constraints) relays
      in case pick_random_relay rng matching_relays g of
           Panics \<Rightarrow> Panics
         | Returns (None, g) \<Rightarrow> Returns (None, g)
         | Returns (Some selected_relay, g) \<Rightarrow>
             (case get_random_tunnel os rng selected_relay constraints g of
                Panics \<Rightarrow> Panics
              | Returns (endpoint, g) \<Rightarrow>
                  Returns (map_option (\<lambda>e. (selected_relay, e)) endpoint, g)))"

definition preferred_transport :: "u32 \<Rightarrow> u16 constraint \<times> transport_protocol" where
  "preferred_transport retry_attempt =
     (if retry_attempt = 0 \<or> retry_attempt = 1 then (Any, Udp)
      else if retry_attempt = 2 \<or> retry_attempt = 3 then (Only 443, Tcp)
      else if retry_attempt mod 2 = 0 then (Any, Udp)
      else (Any, Tcp))"

definition preferred_constraints ::
    "target_os \<Rightarrow> relay_constraints \<Rightarrow> u32 \<Rightarrow> relay_constraints" where
  "preferred_constraints os original retry_attempt =
     (case preferred_transport retry_attempt of
        (preferred_port, preferred_protocol) \<Rightarrow>
          (let relay_constraints = relay_constraints_default
                 \<lparr>rc_location := rc_location original,
                  rc_tunnel_protocol := rc_tunnel_protocol original\<rparr>
           in if os = Android
              then relay_constraints\<lparr>rc_wireguard_constraints := rc_wireguard_constraints original\<rparr>
              else
                (case rc_tunnel_protocol original of
                   Any \<Rightarrow>
                     (if is_any (oc_port (rc_openvpn_constraints original)) \<and>
                         is_any (oc_protocol (rc_openvpn_constraints original))
                      then relay_constraints\<lparr>rc_openvpn_constraints :=
                             \<lparr>oc_port = preferred_port, oc_protocol = Only preferred_protocol\<rparr>\<rparr>
                      else relay_constraints\<lparr>rc_openvpn_constraints :=
                             \<lparr>oc_port = oc_port (rc_openvpn_constraints original),
                              oc_protocol = oc_protocol (rc_openvpn_constraints original)\<rparr>\<rparr>)
                 | Only ProtoOpenVpn \<Rightarrow>
                     relay_constraints\<lparr>rc_openvpn_constraints := rc_openvpn_constraints original\<rparr>
                 | Only ProtoWireguard \<Rightarrow>
                     relay_constraints\<lparr>rc_wireguard_constraints := rc_wireguard_constraints original\<rparr>)))"

datatype relays_error =
    ReadCachedRelays
  | WriteRelayCache
  | DownloadError
  | DownloadTimeout
  | NoRelay
  | SerializeError

record 'g relay_selector =
  rs_parsed_relays :: parsed_relays
  rs_rng :: 'g

definition get_locations :: "'g relay_selector \<Rightarrow> relay_list" where
  "get_locations sel = pr_locations (rs_parsed_relays sel)"

definition selector_get_tunnel_endpoint ::
    "target_os \<Rightarrow> 'g rng \<Rightarrow> 'g relay_selector \<Rightarrow> relay_constraints \<Rightarrow> u32
      \<Rightarrow> ((relays_error + relay \<times> mullvad_endpoint) \<times> 'g relay_selector) panics" where
  "selector_get_tunnel_endpoint os rng sel constraints retry_attempt =
     (let relays = pr_relays (rs_parsed_relays sel);
          preferred = preferred_constraints os constraints retry_attempt
      in case get_tunnel_endpoint_internal os rng relays preferred (rs_rng sel) of
           Panics \<Rightarrow> Panics
         | Returns (Some r, g) \<Rightarrow> Returns (Inr r, sel\<lparr>rs_rng := g\<rparr>)
         | Returns (None, g) \<Rightarrow>
             (case get_tunnel_endpoint_internal os rng relays constraints g of
                Panics \<Rightarrow> Panics
              | Returns (Some r, g) \<Rightarrow> Returns (Inr r, sel\<lparr>rs_rng := g\<rparr>)
              | Returns (None, g) \<Rightarrow> Returns (Inl NoRelay, sel\<lparr>rs_rng := g\<rparr>)))"

section \<open>Choosing a bridge\<close>

definition should_use_bridge :: "u32 \<Rightarrow> bool" where
  "should_use_bridge retry_attempt = (retry_attempt > 3 \<and> retry_attempt mod 4 < 2)"

text \<open>The cast \<open>as i64\<close> of a float truncates towards zero and saturates.\<close>

definition as_i64 :: "real \<Rightarrow> int" where
  "as_i64 x = max (- (2 ^ 63)) (min (2 ^ 63 - 1) (if x < 0 then \<lceil>x\<rceil> else \<lfloor>x\<rfloor>))"

definition bridge_sort_key :: "location \<Rightarrow> relay \<Rightarrow> int" where
  "bridge_sort_key location relay =
     (case r_location relay of
        None \<Rightarrow> 0
      | Some l \<Rightarrow> as_i64 (distance_from l location * 1000))"

text \<open>
  \<open>sort_by_cached_key\<close> is stable, and computes the keys (which unwraps the location of each relay)
  only for slices of two or more elements.
\<close>

definition get_proxy_settings ::
    "'g rng \<Rightarrow> 'g relay_selector \<Rightarrow> internal_bridge_constraints \<Rightarrow> location
      \<Rightarrow> ((proxy_settings \<times> relay) option \<times> 'g relay_selector) panics" where
  "get_proxy_settings rng sel constraints location =
     (let matching_relays = List.map_filter (\<lambda>relay. matching_bridge_relay relay constraints)
            (pr_relays (rs_parsed_relays sel))
      in if matching_relays = [] then Returns (None, sel)
         else if 2 \<le> length matching_relays \<and> list_ex (\<lambda>r. r_location r = None) matching_relays
           then Panics
         else
           (let relay = hd (sort_key (bridge_sort_key location) matching_relays)
            in case pick_random_bridge rng relay (rs_rng sel) of
                 (bridge, g) \<Rightarrow>
                   Returns (map_option (\<lambda>b. (b, relay)) bridge, sel\<lparr>rs_rng := g\<rparr>)))"

definition get_auto_proxy_settings ::
    "'g rng \<Rightarrow> 'g relay_selector \<Rightarrow> internal_bridge_constraints \<Rightarrow> location \<Rightarrow> u32
      \<Rightarrow> ((proxy_settings \<times> relay) option \<times> 'g relay_selector) panics" where
  "get_auto_proxy_settings rng sel constraints location retry_attempt =
     (if \<not> should_use_bridge retry_attempt then Returns (None, sel)
      else if ib_transport_protocol constraints = Only Udp then Returns (None, sel)
      else get_proxy_settings rng sel constraints location)"

section \<open>Reading and caching the relay list\<close>

definition RELAYS_FILENAME :: string where
  "RELAYS_FILENAME = ''relays.json''"

type_synonym disk = "string \<rightharpoonup> int \<times> string"

definition from_file ::
    "(string \<Rightarrow> relay_list option) \<Rightarrow> disk \<Rightarrow> string \<Rightarrow> relays_error + parsed_relays" where
  "from_file from_json disk path =
     (case disk path of
        None \<Rightarrow> Inl ReadCachedRelays
      | Some (last_modified, contents) \<Rightarrow>
          (case from_json contents of
             None \<Rightarrow> Inl SerializeError
           | Some relay_list \<Rightarrow> Inr (from_relay_list relay_list last_modified)))"

definition read_relays_from_disk ::
    "(string \<Rightarrow> relay_list option) \<Rightarrow> disk \<Rightarrow> string \<Rightarrow> string \<Rightarrow> relays_error + parsed_relays" where
  "read_relays_from_disk from_json disk cache_path resource_path =
     (let cached_relays = from_file from_json disk cache_path
      in case from_file from_json disk resource_path of
           Inl e \<Rightarrow> cached_relays
         | Inr bundled_relays \<Rightarrow>
             if (case cached_relays of
                   Inr cached \<Rightarrow> pr_last_updated cached > pr_last_updated bundled_relays
                 | Inl _ \<Rightarrow> False)
             then cached_relays else Inr bundled_relays)"

definition relay_selector_new ::
    "(string \<Rightarrow> relay_list option) \<Rightarrow> disk \<Rightarrow> 'g \<Rightarrow> string \<Rightarrow> string \<Rightarrow> 'g relay_selector" where
  "relay_selector_new from_json disk g resource_dir cache_dir =
     \<lparr>rs_parsed_relays =
        (case read_relays_from_disk from_json disk (path_join cache_dir RELAYS_FILENAME)
                (path_join resource_dir RELAYS_FILENAME) of
           Inr relays \<Rightarrow> relays
         | Inl _ \<Rightarrow> parsed_relays_empty),
      rs_rng = g\<rparr>"

text \<open>
  Writing the cache file at time \<open>now\<close>: creating it may fail; once created it is truncated, and the
  buffered write ends with everything on disk, with an error after some bytes, or with bytes lost
  when the buffer is dropped, which is not reported.
\<close>

datatype write_outcome = CreateFails | Written | WriteFails nat | WriteLost nat

definition cache_relays ::
    "(relay_list \<Rightarrow> string) \<Rightarrow> write_outcome \<Rightarrow> int \<Rightarrow> string \<Rightarrow> relay_list \<Rightarrow> disk
      \<Rightarrow> (relays_error + unit) \<times> disk" where
  "cache_relays to_json outcome now cache_path relays disk =
     (case outcome of
        CreateFails \<Rightarrow> (Inl WriteRelayCache, disk)
      | Written \<Rightarrow> (Inr (), disk(cache_path \<mapsto> (now, to_json relays)))
      | WriteFails n \<Rightarrow> (Inl SerializeError, disk(cache_path \<mapsto> (now, take n (to_json relays))))
      | WriteLost n \<Rightarrow> (Inr (), disk(cache_path \<mapsto> (now, take n (to_json relays)))))"

section \<open>The updater thread\<close>

definition UPDATE_INTERVAL :: int where
  "UPDATE_INTERVAL = 3600 * 1000000000"

datatype download_outcome = Downloaded relay_list | DownloadFails | DownloadTimesOut

datatype wakeup = UpdateRequested | TimedOut | ChannelDisconnected

record iteration =
  it_wakeup :: wakeup
  it_checked_at :: int
  it_download :: download_outcome
  it_write :: write_outcome
  it_written_at :: int
  it_updated_at :: int

record updater =
  up_parsed_relays :: parsed_relays
  up_disk :: disk
  up_notified :: "relay_list list"

definition wait_for_next_iteration :: "wakeup \<Rightarrow> bool" where
  "wait_for_next_iteration w =
     (case w of UpdateRequested \<Rightarrow> True | TimedOut \<Rightarrow> True | ChannelDisconnected \<Rightarrow> False)"

definition should_update :: "int \<Rightarrow> parsed_relays \<Rightarrow> bool" where
  "should_update now parsed =
     (if now \<ge> pr_last_updated parsed then now - pr_last_updated parsed > UPDATE_INTERVAL else True)"

definition download_relay_list :: "download_outcome \<Rightarrow> relays_error + relay_list" where
  "download_relay_list d =
     (case d of
        Downloaded relay_list \<Rightarrow> Inr relay_list
      | DownloadFails \<Rightarrow> Inl DownloadError
      | DownloadTimesOut \<Rightarrow> Inl DownloadTimeout)"

definition updater_update ::
    "(relay_list \<Rightarrow> string) \<Rightarrow> string \<Rightarrow> iteration \<Rightarrow> updater \<Rightarrow> (relays_error + unit) \<times> updater" where
  "updater_update to_json cache_path it u =
     (case download_relay_list (it_download it) of
        Inl e \<Rightarrow> (Inl e, u)
      | Inr new_relay_list \<Rightarrow>
          (let disk = snd (cache_relays to_json (it_write it) (it_written_at it) cache_path
                 new_relay_list (up_disk u));
               new_parsed_relays = from_relay_list new_relay_list (it_updated_at it)
           in (Inr (),
               \<lparr>up_parsed_relays = new_parsed_relays, up_disk = disk,
                up_notified = up_notified u @ [pr_locations new_parsed_relays]\<rparr>)))"

text \<open>The loop of \<open>run\<close> over the wake-ups it sees; it ends when the channel is disconnected.\<close>

fun updater_run :: "(relay_list \<Rightarrow> string) \<Rightarrow> string \<Rightarrow> iteration list \<Rightarrow> updater \<Rightarrow> updater" where
  "updater_run to_json cache_path [] u = u"
| "updater_run to_json cache_path (it # its) u =
     (if \<not> wait_for_next_iteration (it_wakeup it) then u
      else if should_update (it_checked_at it) (up_parsed_relays u)
        then updater_run to_json cache_path its (snd (updater_update to_json cache_path it u))
      else updater_run to_json cache_path its u)"

end
