(* ===== verification/Settings.thy ===== *)
theory Settings
  imports Relay_Selector
begin

text \<open>
  The settings of the daemon: \<open>mullvad-types/src/settings/mod.rs\<close> with its migrations
  (\<open>migrations/mod.rs\<close>, \<open>migrations/v1.rs\<close>) and \<open>mullvad-daemon/src/settings.rs\<close>.

  The file system is a map from paths to contents.  The JSON codec of \<open>serde_json\<close> is the record
  \<open>settings_codec\<close>; the directory of \<open>mullvad_paths\<close> and the outcome of each file operation are the
  inputs \<open>settings_io\<close>.
\<close>

section \<open>Settings\<close>

type_synonym files = "string \<rightharpoonup> string"

datatype settings_error =
    DirectoryError
  | ReadError string
  | DeleteError string
  | ParseError
  | SettingsSerializeError
  | WriteError string
  | InvalidProxyData string
  | NoMatchingVersion

definition SETTINGS_FILE :: string where
  "SETTINGS_FILE = ''settings.json''"

datatype settings_version = SettingsV2

fun as_u32 :: "settings_version \<Rightarrow> u32" where
  "as_u32 SettingsV2 = 2"

definition max_version :: settings_version where "max_version = SettingsV2"

definition min_version :: settings_version where "min_version = SettingsV2"

text \<open>The transmuted number is one of the enum, since it lies between the smallest and largest.\<close>

definition settings_version_deserialize :: "u32 \<Rightarrow> string + settings_version" where
  "settings_version_deserialize version =
     (if version < as_u32 min_version
        then Inl (''Version number '' @ fmt_nat (unat version) @ '' too small'')
      else if version > as_u32 max_version
        then Inl (''Version number '' @ fmt_nat (unat version) @ '' too large'')
      else Inr SettingsV2)"

definition settings_version_serialize :: "settings_version \<Rightarrow> u32" where
  "settings_version_serialize v = as_u32 v"

record settings =
  st_account_token :: "string option"
  st_relay_settings :: relay_settings
  st_bridge_settings :: bridge_settings
  st_bridge_state :: bridge_state
  st_allow_lan :: bool
  st_block_when_disconnected :: bool
  st_auto_connect :: bool
  st_tunnel_options :: tunnel_options
  st_settings_version :: settings_version

definition settings_default :: settings where
  "settings_default =
     \<lparr>st_account_token = None,
      st_relay_settings = RelayNormal
        (relay_constraints_default\<lparr>rc_location := Only (LocCountry ''se'')\<rparr>),
      st_bridge_settings = BridgeNormal \<lparr>bc_location = Any\<rparr>,
      st_bridge_state = BridgeAuto, st_allow_lan = False, st_block_when_disconnected = False,
      st_auto_connect = False, st_tunnel_options = tunnel_options_default,
      st_settings_version = SettingsV2\<rparr>"

section \<open>Version 1 and its migration\<close>

record v1_relay_constraints =
  v1_location :: "location_constraint constraint"
  v1_tunnel :: "tunnel_constraints constraint"

datatype v1_relay_settings =
    V1CustomTunnelEndpoint custom_tunnel_endpoint
  | V1Normal v1_relay_constraints

record v1_settings =
  v1_account_token :: "string option"
  v1_relay_settings :: v1_relay_settings
  v1_bridge_settings :: bridge_settings
  v1_bridge_state :: bridge_state
  v1_allow_lan :: bool
  v1_block_when_disconnected :: bool
  v1_auto_connect :: bool
  v1_tunnel_options :: tunnel_options

datatype versioned_settings = VersionedV1 v1_settings | VersionedV2 settings

record settings_codec =
  sc_parse :: "string \<Rightarrow> settings option"
  sc_parse_v1 :: "string \<Rightarrow> v1_settings option"
  sc_print :: "settings \<Rightarrow> string"

fun versioned_unwrap :: "versioned_settings \<Rightarrow> settings panics" where
  "versioned_unwrap (VersionedV2 s) = Returns s"
| "versioned_unwrap (VersionedV1 _) = Panics"

fun migrate_relay_settings :: "v1_relay_settings \<Rightarrow> relay_settings" where
  "migrate_relay_settings (V1CustomTunnelEndpoint endpoint) = RelayCustomTunnelEndpoint endpoint"
| "migrate_relay_settings (V1Normal old) =
     (let new = relay_constraints_default\<lparr>rc_location := v1_location old\<rparr>
      in RelayNormal
           (case v1_tunnel old of
              Any \<Rightarrow> new
            | Only (TcOpenVpn constraints) \<Rightarrow> new\<lparr>rc_openvpn_constraints := constraints\<rparr>
            | Only (TcWireguard constraints) \<Rightarrow>
                new\<lparr>rc_wireguard_constraints := constraints,
                    rc_tunnel_protocol := Only ProtoWireguard\<rparr>))"

definition v1_read :: "settings_codec \<Rightarrow> string \<Rightarrow> settings_error + versioned_settings" where
  "v1_read codec bytes =
     (case sc_parse_v1 codec bytes of
        None \<Rightarrow> Inl ParseError
      | Some s \<Rightarrow> Inr (VersionedV1 s))"

fun v1_migrate :: "versioned_settings \<Rightarrow> versioned_settings" where
  "v1_migrate (VersionedV1 old) =
     VersionedV2
       \<lparr>st_account_token = v1_account_token old,
        st_relay_settings = migrate_relay_settings (v1_relay_settings old),
        st_bridge_settings = v1_bridge_settings old, st_bridge_state = v1_bridge_state old,
        st_allow_lan = v1_allow_lan old,
        st_block_when_disconnected = v1_block_when_disconnected old,
        st_auto_connect = v1_auto_connect old, st_tunnel_options = v1_tunnel_options old,
        st_settings_version = SettingsV2\<rparr>"
| "v1_migrate (VersionedV2 new) = VersionedV2 new"

type_synonym migration =
  "(string \<Rightarrow> settings_error + versioned_settings) \<times> (versioned_settings \<Rightarrow> versioned_settings)"

definition migrations :: "settings_codec \<Rightarrow> migration list" where
  "migrations codec = [(v1_read codec, v1_migrate)]"

text \<open>The first migration that can read the file, and those tried before it.\<close>

fun read_first :: "migration list \<Rightarrow> string \<Rightarrow> migration list
    \<Rightarrow> (versioned_settings \<times> migration list) option" where
  "read_first [] bytes to_apply = None"
| "read_first (m # ms) bytes to_apply =
     (case fst m bytes of
        Inr s \<Rightarrow> Some (snd m s, to_apply)
      | Inl _ \<Rightarrow> read_first ms bytes (to_apply @ [m]))"

definition try_migrate_settings :: "settings_codec \<Rightarrow> string \<Rightarrow> (settings_error + settings) panics" where
  "try_migrate_settings codec bytes =
     (case read_first (migrations codec) bytes [] of
        None \<Rightarrow> Returns (Inl NoMatchingVersion)
      | Some (s, to_apply) \<Rightarrow>
          (case versioned_unwrap (foldl (\<lambda>old m. snd m old) s (rev to_apply)) of
             Panics \<Rightarrow> Panics
           | Returns s \<Rightarrow> Returns (Inr s)))"

section \<open>Loading and saving\<close>

text \<open>
  Writing the file: creating it may fail; the pretty printer may fail after some bytes; the final
  \<open>sync_all\<close> may fail with everything written.
\<close>

datatype file_write = FileWritten | FileCreateFails | FilePrintFails nat | FileSyncFails

record settings_io =
  si_settings_dir :: "string option"
  si_read_ok :: bool
  si_write :: file_write
  si_remove_ok :: bool

definition get_settings_path :: "settings_io \<Rightarrow> settings_error + string" where
  "get_settings_path io =
     (case si_settings_dir io of
        None \<Rightarrow> Inl DirectoryError
      | Some dir \<Rightarrow> Inr (path_join dir SETTINGS_FILE))"

definition settings_save ::
    "settings_codec \<Rightarrow> settings_io \<Rightarrow> settings \<Rightarrow> files \<Rightarrow> (settings_error + unit) \<times> files" where
  "settings_save codec io s files =
     (case get_settings_path io of
        Inl e \<Rightarrow> (Inl e, files)
      | Inr path \<Rightarrow>
          (case si_write io of
             FileCreateFails \<Rightarrow> (Inl (WriteError path), files)
           | FilePrintFails n \<Rightarrow>
               (Inl SettingsSerializeError, files(path \<mapsto> take n (sc_print codec s)))
           | FileSyncFails \<Rightarrow> (Inl (WriteError path), files(path \<mapsto> sc_print codec s))
           | FileWritten \<Rightarrow> (Inr (), files(path \<mapsto> sc_print codec s))))"

definition parse_settings :: "settings_codec \<Rightarrow> string \<Rightarrow> settings_error + settings" where
  "parse_settings codec bytes =
     (case sc_parse codec bytes of None \<Rightarrow> Inl ParseError | Some s \<Rightarrow> Inr s)"

definition settings_load ::
    "settings_codec \<Rightarrow> settings_io \<Rightarrow> files \<Rightarrow> ((settings_error + settings) \<times> files) panics" where
  "settings_load codec io files =
     (case get_settings_path io of
        Inl e \<Rightarrow> Returns (Inl e, files)
      | Inr path \<Rightarrow>
          (case files path of
             None \<Rightarrow> Returns (Inl (ReadError path), files)
           | Some settings_bytes \<Rightarrow>
               if \<not> si_read_ok io
               then Returns (Inl (ReadError ''Failed to read settings file''), files)
               else
                 (case parse_settings codec settings_bytes of
                    Inr s \<Rightarrow> Returns (Inr s, files)
                  | Inl _ \<Rightarrow>
                      (case try_migrate_settings codec settings_bytes of
                         Panics \<Rightarrow> Panics
                       | Returns (Inl e) \<Rightarrow> Returns (Inl e, files)
                       | Returns (Inr s) \<Rightarrow>
                           Returns (Inr s, snd (settings_save codec io s files))))))"

definition settings_reset ::
    "settings_codec \<Rightarrow> settings_io \<Rightarrow> files \<Rightarrow> (settings_error + unit) \<times> settings \<times> files" where
  "settings_reset codec io files =
     (case settings_save codec io settings_default files of
        (Inr _, files) \<Rightarrow> (Inr (), settings_default, files)
      | (Inl _, files) \<Rightarrow>
          (case get_settings_path io of
             Inl e \<Rightarrow> (Inl e, settings_default, files)
           | Inr path \<Rightarrow>
               if si_remove_ok io \<and> files path \<noteq> None
               then (Inr (), settings_default, files(path := None))
               else (Inl (DeleteError path), settings_default, files)))"

section \<open>Changing settings\<close>

text \<open>The common tail \<open>self.save().map(|_| true)\<close> of the setters.\<close>

definition save_changed ::
    "settings_codec \<Rightarrow> settings_io \<Rightarrow> settings \<Rightarrow> files \<Rightarrow> (settings_error + bool) \<times> settings \<times> files" where
  "save_changed codec io s files =
     (case settings_save codec io s files of
        (Inl e, files) \<Rightarrow> (Inl e, s, files)
      | (Inr _, files) \<Rightarrow> (Inr True, s, files))"

type_synonym setter =
  "settings_codec \<Rightarrow> settings_io \<Rightarrow> settings \<Rightarrow> files \<Rightarrow> (settings_error + bool) \<times> settings \<times> files"

definition set_account_token :: "string option \<Rightarrow> setter" where
  "set_account_token account_token codec io s files =
     (let account_token = (if map_option length account_token = Some 0 then None else account_token)
      in if account_token \<noteq> st_account_token s
         then save_changed codec io (s\<lparr>st_account_token := account_token\<rparr>) files
         else (Inr False, s, files))"

definition update_relay_settings :: "relay_settings_update \<Rightarrow> setter" where
  "update_relay_settings update codec io s files =
     (let new_settings = relay_settings_merge (st_relay_settings s) update
      in if st_relay_settings s \<noteq> new_settings
         then save_changed codec io (s\<lparr>st_relay_settings := new_settings\<rparr>) files
         else (Inr False, s, files))"

definition set_allow_lan :: "bool \<Rightarrow> setter" where
  "set_allow_lan allow_lan codec io s files =
     (if allow_lan \<noteq> st_allow_lan s
      then save_changed codec io (s\<lparr>st_allow_lan := allow_lan\<rparr>) files
      else (Inr False, s, files))"

definition set_block_when_disconnected :: "bool \<Rightarrow> setter" where
  "set_block_when_disconnected b codec io s files =
     (if b \<noteq> st_block_when_disconnected s
      then save_changed codec io (s\<lparr>st_block_when_disconnected := b\<rparr>) files
      else (Inr False, s, files))"

definition set_auto_connect :: "bool \<Rightarrow> setter" where
  "set_auto_connect auto_connect codec io s files =
     (if auto_connect \<noteq> st_auto_connect s
      then save_changed codec io (s\<lparr>st_auto_connect := auto_connect\<rparr>) files
      else (Inr False, s, files))"

definition set_openvpn_mssfix :: "u16 option \<Rightarrow> setter" where
  "set_openvpn_mssfix v codec io s files =
     (let opts = st_tunnel_options s; ov = to_openvpn opts
      in if mssfix ov \<noteq> v
         then save_changed codec io
                (s\<lparr>st_tunnel_options := opts\<lparr>to_openvpn := ov\<lparr>mssfix := v\<rparr>\<rparr>\<rparr>) files
         else (Inr False, s, files))"

definition set_enable_ipv6 :: "bool \<Rightarrow> setter" where
  "set_enable_ipv6 v codec io s files =
     (let opts = st_tunnel_options s; gen = to_generic opts
      in if enable_ipv6 gen \<noteq> v
         then save_changed codec io
                (s\<lparr>st_tunnel_options := opts\<lparr>to_generic := gen\<lparr>enable_ipv6 := v\<rparr>\<rparr>\<rparr>) files
         else (Inr False, s, files))"

definition set_wireguard_mtu :: "u16 option \<Rightarrow> setter" where
  "set_wireguard_mtu mtu codec io s files =
     (let opts = st_tunnel_options s; wg = to_wireguard opts
      in if wg_mtu wg \<noteq> mtu
         then save_changed codec io
                (s\<lparr>st_tunnel_options := opts\<lparr>to_wireguard := wg\<lparr>wg_mtu := mtu\<rparr>\<rparr>\<rparr>) files
         else (Inr False, s, files))"

definition set_bridge_settings :: "bridge_settings \<Rightarrow> setter" where
  "set_bridge_settings v codec io s files =
     (if st_bridge_settings s \<noteq> v
      then save_changed codec io (s\<lparr>st_bridge_settings := v\<rparr>) files
      else (Inr False, s, files))"

definition set_bridge_state :: "bridge_state \<Rightarrow> setter" where
  "set_bridge_state v codec io s files =
     (if st_bridge_state s \<noteq> v
      then save_changed codec io (s\<lparr>st_bridge_state := v\<rparr>) files
      else (Inr False, s, files))"

section \<open>Loading in the daemon\<close>

text \<open>
  \<open>load\<close> of the daemon.  On Windows a missing file triggers the migration of \<open>winutil\<close>: its outcome
  is an input, \<open>Some files'\<close> a success that leaves the files \<open>files'\<close>.
\<close>

datatype migration_status = MigrationSuccess files | MigrationAborted | NothingToMigrate | MigrationFailed

definition migrate_after_windows_update :: "migration_status \<Rightarrow> files \<Rightarrow> bool \<times> files" where
  "migrate_after_windows_update status files =
     (case status of
        MigrationSuccess files' \<Rightarrow> (True, files')
      | MigrationAborted \<Rightarrow> (False, files)
      | NothingToMigrate \<Rightarrow> (False, files)
      | MigrationFailed \<Rightarrow> (False, files))"

definition daemon_load_settings ::
    "target_os \<Rightarrow> settings_codec \<Rightarrow> settings_io \<Rightarrow> migration_status \<Rightarrow> files \<Rightarrow> (settings \<times> files) panics" where
  "daemon_load_settings os codec io status files =
     (case settings_load codec io files of
        Panics \<Rightarrow> Panics
      | Returns (Inr s, files) \<Rightarrow> Returns (s, files)
      | Returns (Inl e, files) \<Rightarrow>
          (if os = Windows \<and>
              (case (e, get_settings_path io) of
                 (ReadError _, Inr path) \<Rightarrow> files path = None
               | _ \<Rightarrow> False)
           then
             (case migrate_after_windows_update status files of
                (False, files) \<Rightarrow> Returns (settings_default, files)
              | (True, files) \<Rightarrow>
                  (case settings_load codec io files of
                     Panics \<Rightarrow> Panics
                   | Returns (Inr s, files) \<Rightarrow> Returns (s, files)
                   | Returns (Inl _, files) \<Rightarrow> Returns (settings_default, files)))
           else Returns (settings_default, files)))"

end
