(* ===== verification/Account_History.thy ===== *)
theory Account_History
  imports Net_Types Std_Fmt
begin

text \<open>
  The account history of the daemon, \<open>mullvad-daemon/src/account_history.rs\<close>, with the data of
  \<open>mullvad-types/src/wireguard.rs\<close>: a cache of the most recently used accounts that is written to a
  file at every change.  The locale \<open>mru_cache\<close> states what its clients rely on.

  The history keeps its file open: the state has the list in memory and the contents of the file.
  The JSON codec is a parameter, the outcome of each write an input.
\<close>

section \<open>Accounts\<close>

record associated_addresses =
  aa_ipv4_address :: "ipv4 \<times> nat"
  aa_ipv6_address :: "ipv6 \<times> nat"

record wireguard_data =
  wd_private_key :: private_key
  wd_addresses :: associated_addresses

datatype keygen_event = NewKey public_key | TooManyKeys | GenerationFailure

fun keygen_event_fmt :: "(public_key \<Rightarrow> string) \<Rightarrow> keygen_event \<Rightarrow> string" where
  "keygen_event_fmt key_fmt (NewKey k) = ''New wireguard key '' @ key_fmt k"
| "keygen_event_fmt key_fmt TooManyKeys = ''Account has too many keys already''"
| "keygen_event_fmt key_fmt GenerationFailure = ''Failed to generate new wireguard key''"

record account_entry =
  ae_account :: string
  ae_wireguard :: "wireguard_data option"

datatype history_error = HistoryRead | HistorySerialize | HistoryWrite

definition ACCOUNT_HISTORY_LIMIT :: nat where
  "ACCOUNT_HISTORY_LIMIT = 3"

record history_codec =
  hc_parse :: "string \<Rightarrow> account_entry list option"
  hc_parse_old :: "string \<Rightarrow> string list option"
  hc_print :: "account_entry list \<Rightarrow> string"

record account_history =
  ah_file :: string
  ah_accounts :: "account_entry list"

section \<open>Opening and saving\<close>

text \<open>\<open>opened\<close> is the contents of the opened or created file, \<open>None\<close> when it cannot be opened.\<close>

definition try_old_format :: "history_codec \<Rightarrow> bool \<Rightarrow> string \<Rightarrow> history_error + string list" where
  "try_old_format codec seek_ok contents =
     (if \<not> seek_ok then Inl HistoryRead
      else Inr (case hc_parse_old codec contents of Some accounts \<Rightarrow> accounts | None \<Rightarrow> []))"

definition account_history_new ::
    "history_codec \<Rightarrow> string option \<Rightarrow> bool \<Rightarrow> history_error + account_history" where
  "account_history_new codec opened seek_ok =
     (case opened of
        None \<Rightarrow> Inl HistoryRead
      | Some contents \<Rightarrow>
          (case (case hc_parse codec contents of
                   Some accounts \<Rightarrow> Inr accounts
                 | None \<Rightarrow>
                     (case try_old_format codec seek_ok contents of
                        Inl e \<Rightarrow> Inl e
                      | Inr tokens \<Rightarrow> Inr (map (\<lambda>t. \<lparr>ae_account = t, ae_wireguard = None\<rparr>) tokens))) of
             Inl e \<Rightarrow> Inl e
           | Inr accounts \<Rightarrow> Inr \<lparr>ah_file = contents, ah_accounts = accounts\<rparr>))"

datatype history_write =
    HistWritten
  | HistTruncateFails
  | HistSeekFails
  | HistPrintFails nat
  | HistFlushFails nat
  | HistSyncFails

definition save_to_disk ::
    "history_codec \<Rightarrow> history_write \<Rightarrow> account_history \<Rightarrow> (history_error + unit) \<times> account_history" where
  "save_to_disk codec w h =
     (let json = hc_print codec (ah_accounts h)
      in case w of
           HistTruncateFails \<Rightarrow> (Inl HistoryWrite, h)
         | HistSeekFails \<Rightarrow> (Inl HistoryWrite, h\<lparr>ah_file := []\<rparr>)
         | HistPrintFails n \<Rightarrow> (Inl HistorySerialize, h\<lparr>ah_file := take n json\<rparr>)
         | HistFlushFails n \<Rightarrow> (Inl HistoryWrite, h\<lparr>ah_file := take n json\<rparr>)
         | HistSyncFails \<Rightarrow> (Inl HistoryWrite, h\<lparr>ah_file := json\<rparr>)
         | HistWritten \<Rightarrow> (Inr (), h\<lparr>ah_file := json\<rparr>))"

section \<open>Operations\<close>

definition history_insert ::
    "history_codec \<Rightarrow> history_write \<Rightarrow> account_entry \<Rightarrow> account_history
      \<Rightarrow> (history_error + unit) \<times> account_history" where
  "history_insert codec w new_entry h =
     (let accounts = filter (\<lambda>e. ae_account e \<noteq> ae_account new_entry) (ah_accounts h);
          accounts = new_entry # accounts;
          accounts = (if length accounts > ACCOUNT_HISTORY_LIMIT then butlast accounts else accounts)
      in save_to_disk codec w (h\<lparr>ah_accounts := accounts\<rparr>))"

text \<open>The position and entry of the first entry of an account.\<close>

fun find_entry :: "string \<Rightarrow> account_entry list \<Rightarrow> nat \<Rightarrow> (nat \<times> account_entry) option" where
  "find_entry account [] idx = None"
| "find_entry account (e # es) idx =
     (if ae_account e = account then Some (idx, e) else find_entry account es (idx + 1))"

definition history_get ::
    "history_codec \<Rightarrow> history_write \<Rightarrow> string \<Rightarrow> account_history
      \<Rightarrow> (history_error + account_entry option) \<times> account_history" where
  "history_get codec w account h =
     (case find_entry account (ah_accounts h) 0 of
        None \<Rightarrow> (Inr None, h)
      | Some (idx, entry) \<Rightarrow>
          if idx = 0 then (Inr (Some entry), h)
          else (case history_insert codec w entry h of
                  (Inl e, h) \<Rightarrow> (Inl e, h)
                | (Inr _, h) \<Rightarrow> (Inr (Some entry), h)))"

definition bump_history ::
    "history_codec \<Rightarrow> history_write \<Rightarrow> string \<Rightarrow> account_history
      \<Rightarrow> (history_error + unit) \<times> account_history" where
  "bump_history codec w account h =
     (case history_get codec w account h of
        (Inl e, h) \<Rightarrow> (Inl e, h)
      | (Inr (Some _), h) \<Rightarrow> (Inr (), h)
      | (Inr None, h) \<Rightarrow>
          history_insert codec w \<lparr>ae_account = account, ae_wireguard = None\<rparr> h)"

definition get_account_history :: "account_history \<Rightarrow> string list" where
  "get_account_history h = map ae_account (ah_accounts h)"

definition remove_account ::
    "history_codec \<Rightarrow> history_write \<Rightarrow> string \<Rightarrow> account_history
      \<Rightarrow> (history_error + unit) \<times> account_history" where
  "remove_account codec w account h =
     save_to_disk codec w
       (h\<lparr>ah_accounts := filter (\<lambda>e. ae_account e \<noteq> account) (ah_accounts h)\<rparr>)"

definition history_clear ::
    "history_codec \<Rightarrow> history_write \<Rightarrow> account_history \<Rightarrow> (history_error + unit) \<times> account_history" where
  "history_clear codec w h = save_to_disk codec w (h\<lparr>ah_accounts := []\<rparr>)"

section \<open>Caches of the most recently used entries\<close>

text \<open>
  The contract: a store holds a list of entries; inserting puts an entry in front, replaces the
  entry with the same key and keeps at most \<open>limit\<close> entries.
\<close>

locale mru_cache =
  fixes key :: "'e \<Rightarrow> 'k" and entries :: "'s \<Rightarrow> 'e list" and inv :: "'s \<Rightarrow> bool"
    and ins :: "'e \<Rightarrow> 's \<Rightarrow> 's" and limit :: nat
  assumes limit_pos: "0 < limit"
    and inv_iff: "inv s \<longleftrightarrow> distinct (map key (entries s)) \<and> length (entries s) \<le> limit"
    and entries_ins: "inv s \<Longrightarrow>
      entries (ins e s) = take limit (e # filter (\<lambda>x. key x \<noteq> key e) (entries s))"
begin

definition lookup :: "'k \<Rightarrow> 's \<Rightarrow> 'e option" where
  "lookup k s = map_of (map (\<lambda>x. (key x, x)) (entries s)) k"

lemma inv_ins:
  assumes "inv s"
  shows "inv (ins e s)"
proof -
  have "distinct (map key (e # filter (\<lambda>x. key x \<noteq> key e) (entries s)))"
    using assms by (auto simp: inv_iff intro: distinct_map_filter)
  then have "distinct (take limit (map key (e # filter (\<lambda>x. key x \<noteq> key e) (entries s))))"
    by (rule distinct_take)
  then show ?thesis by (simp add: inv_iff entries_ins [OF assms] take_map [symmetric])
qed

lemma hd_ins: "inv s \<Longrightarrow> entries (ins e s) \<noteq> [] \<and> hd (entries (ins e s)) = e"
  using limit_pos by (cases limit) (simp_all add: entries_ins)

lemma lookup_ins_same: "inv s \<Longrightarrow> lookup (key e) (ins e s) = Some e"
  using limit_pos by (cases limit) (simp_all add: lookup_def entries_ins)

text \<open>An entry that was not inserted last is kept as it was, or was the one pushed out.\<close>

lemma lookup_ins_other:
  assumes "inv s" and "k \<noteq> key e" and "lookup k (ins e s) = Some x"
  shows "lookup k s = Some x"
proof -
  have "inv (ins e s)" using assms(1) by (rule inv_ins)
  then have x: "x \<in> set (entries (ins e s))" "key x = k"
    using assms(3) by (auto simp: lookup_def dest!: map_of_SomeD)
  then have "x \<in> set (entries s)"
    using assms(1,2) by (auto simp: entries_ins dest!: in_set_takeD)
  with x(2) assms(1) show ?thesis
    by (auto simp: lookup_def inv_iff comp_def intro!: map_of_is_SomeI)
qed

text \<open>The keys after inserting: the new key and then the others, up to the limit.\<close>

lemma keys_ins:
  "inv s \<Longrightarrow> map key (entries (ins e s)) = take limit (key e # filter (\<lambda>k. k \<noteq> key e) (map key (entries s)))"
  by (simp add: entries_ins take_map [symmetric] filter_map comp_def)

end

section \<open>The account history is such a cache\<close>

definition history_ok :: "account_history \<Rightarrow> bool" where
  "history_ok h \<longleftrightarrow>
     distinct (map ae_account (ah_accounts h)) \<and> length (ah_accounts h) \<le> ACCOUNT_HISTORY_LIMIT"

lemma save_to_disk_accounts [simp]: "ah_accounts (snd (save_to_disk codec w h)) = ah_accounts h"
  by (simp add: save_to_disk_def Let_def split: history_write.split)

lemma butlast_over_limit:
  "length xs \<le> Suc n \<Longrightarrow> (if length xs > n then butlast xs else xs) = take n xs"
  by (cases "length xs = Suc n") (simp_all add: butlast_conv_take)

lemma history_insert_accounts:
  assumes "length (ah_accounts h) \<le> ACCOUNT_HISTORY_LIMIT"
  shows "ah_accounts (snd (history_insert codec w e h)) =
    take ACCOUNT_HISTORY_LIMIT
      (e # filter (\<lambda>x. ae_account x \<noteq> ae_account e) (ah_accounts h))"
proof -
  have "length (e # filter (\<lambda>x. ae_account x \<noteq> ae_account e) (ah_accounts h)) \<le>
      Suc ACCOUNT_HISTORY_LIMIT"
    using assms order.trans [OF length_filter_le] by auto
  from butlast_over_limit [OF this] show ?thesis
    by (simp add: history_insert_def Let_def split del: if_split)
qed

interpretation history: mru_cache ae_account ah_accounts history_ok
  "\<lambda>e h. snd (history_insert codec w e h)" ACCOUNT_HISTORY_LIMIT for codec w
  by unfold_locales
    (simp_all add: history_ok_def history_insert_accounts ACCOUNT_HISTORY_LIMIT_def)

lemma find_entry_map_of:
  "map_option snd (find_entry account es i) = map_of (map (\<lambda>e. (ae_account e, e)) es) account"
  by (induction account es i rule: find_entry.induct) simp_all

lemma find_entry_SomeD:
  "find_entry account es i = Some (j, e) \<Longrightarrow>
     ae_account e = account \<and> e \<in> set es \<and> i \<le> j \<and> (j = i \<longleftrightarrow> e = hd es \<and> ae_account (hd es) = account)"
proof (induction account es i rule: find_entry.induct)
  case (2 account e es idx)
  then show ?case by (fastforce split: if_splits)
qed simp

text \<open>The list in memory after a bump: the account in front and the others in their order.\<close>

lemma find_entry_0:
  "find_entry account es i = Some (i, e) \<Longrightarrow> \<exists>rest. es = e # rest \<and> ae_account e = account"
  by (cases es) (auto split: if_splits dest: find_entry_SomeD)

lemma history_get_accounts:
  assumes ok: "history_ok h"
  shows "snd (history_get codec w account h) =
    (case find_entry account (ah_accounts h) 0 of
       None \<Rightarrow> h
     | Some (i, e) \<Rightarrow> if i = 0 then h else snd (history_insert codec w e h))"
  by (simp add: history_get_def split: option.split prod.split sum.split)

lemma find_entry_None: "find_entry account es i = None \<longleftrightarrow> account \<notin> ae_account ` set es"
  by (induction account es i rule: find_entry.induct) auto

lemma bump_history_tokens:
  assumes ok: "history_ok h"
  shows "get_account_history (snd (bump_history codec w account h)) =
    take ACCOUNT_HISTORY_LIMIT (account # filter (\<lambda>t. t \<noteq> account) (get_account_history h)) \<and>
    history_ok (snd (bump_history codec w account h))"
proof (cases "find_entry account (ah_accounts h) 0")
  case None
  then have "snd (bump_history codec w account h) =
      snd (history_insert codec w \<lparr>ae_account = account, ae_wireguard = None\<rparr> h)"
    by (simp add: bump_history_def history_get_def)
  then show ?thesis
    using history.keys_ins [OF ok] history.inv_ins [OF ok] by (simp add: get_account_history_def)
next
  case (Some p)
  obtain i e where p: "p = (i, e)" by fastforce
  show ?thesis
  proof (cases "i = 0")
    case True
    with Some p obtain rest where rest: "ah_accounts h = e # rest" "ae_account e = account"
      using find_entry_0 by blast
    have "snd (bump_history codec w account h) = h"
      using Some p True by (simp add: bump_history_def history_get_def)
    moreover have "filter (\<lambda>t. t \<noteq> account) (map ae_account rest) = map ae_account rest"
      using ok rest by (auto simp: history_ok_def intro!: filter_True)
    ultimately show ?thesis
      using ok rest by (auto simp: get_account_history_def history_ok_def)
  next
    case False
    have e: "ae_account e = account" using find_entry_SomeD [of account "ah_accounts h" 0 i e] Some p by simp
    have "snd (bump_history codec w account h) = snd (history_insert codec w e h)"
      using Some p False by (auto simp: bump_history_def history_get_def split: prod.split sum.split)
    then show ?thesis
      using history.keys_ins [OF ok, of codec w e] history.inv_ins [OF ok] e
      by (simp add: get_account_history_def)
  qed
qed

section \<open>Properties\<close>

definition keep_first :: "'a list \<Rightarrow> 'a list" where
  "keep_first xs = rev (remdups (rev xs))"

lemma remdups_snoc: "remdups (xs @ [x]) = remdups (filter (\<lambda>y. y \<noteq> x) xs) @ [x]"
  by (induction xs) auto

lemma keep_first_Cons: "keep_first (x # xs) = x # filter (\<lambda>y. y \<noteq> x) (keep_first xs)"
  by (simp add: keep_first_def remdups_snoc remdups_filter rev_filter)

lemma take_filter_take:
  assumes "distinct ys"
  shows "take n (filter (\<lambda>y. y \<noteq> x) (take (Suc n) ys)) = take n (filter (\<lambda>y. y \<noteq> x) ys)"
  using assms
proof (induction ys arbitrary: n)
  case (Cons y ys)
  show ?case
  proof (cases "y = x")
    case True
    with Cons.prems have "filter (\<lambda>z. z \<noteq> x) ys = ys" by (auto intro: filter_True)
    moreover have "filter (\<lambda>z. z \<noteq> x) (take n ys) = take n ys"
      using True Cons.prems by (auto intro!: filter_True dest: in_set_takeD)
    ultimately show ?thesis using True by simp
  next
    case False
    with Cons show ?thesis by (cases n) simp_all
  qed
qed simp

lemma distinct_keep_first: "distinct (keep_first xs)"
  by (simp add: keep_first_def)

text \<open>The outcome of each write is part of the sequence: the list in memory does not depend on it.\<close>

definition bump_all ::
    "history_codec \<Rightarrow> (history_write \<times> string) list \<Rightarrow> account_history \<Rightarrow> account_history" where
  "bump_all codec = fold (\<lambda>(w, account) h. snd (bump_history codec w account h))"

text \<open>
  C40.  The history is a list of the most recently used accounts: after bumping any sequence of
  accounts it holds, most recent first and without duplicates, the last three accounts used, counting
  those it held before as used earlier.  This holds for the list in memory even when the file could
  not be written.\<close>

theorem history_most_recent:
  assumes "history_ok h"
  shows "get_account_history (bump_all codec ops h) =
     take ACCOUNT_HISTORY_LIMIT (keep_first (rev (map snd ops) @ get_account_history h)) \<and>
   history_ok (bump_all codec ops h)"
proof (induction ops rule: rev_induct)
  case Nil
  have "keep_first (get_account_history h) = get_account_history h"
    using assms by (simp add: keep_first_def history_ok_def get_account_history_def distinct_remdups_id)
  with assms show ?case by (simp add: bump_all_def history_ok_def get_account_history_def)
next
  case (snoc op ops)
  obtain w t where op: "op = (w, t)" by fastforce
  let ?h = "bump_all codec ops h"
  have step: "bump_all codec (ops @ [op]) h = snd (bump_history codec w t ?h)"
    by (simp add: bump_all_def op)
  have "get_account_history (snd (bump_history codec w t ?h)) =
      take ACCOUNT_HISTORY_LIMIT (t # filter (\<lambda>x. x \<noteq> t) (get_account_history ?h))"
    using bump_history_tokens snoc.IH by blast
  also have "\<dots> = take ACCOUNT_HISTORY_LIMIT
      (keep_first (t # rev (map snd ops) @ get_account_history h))"
    using take_filter_take [OF distinct_keep_first, of 2 t] snoc.IH
    by (simp add: keep_first_Cons ACCOUNT_HISTORY_LIMIT_def numeral_3_eq_3 numeral_2_eq_2)
  finally have tokens: "get_account_history (snd (bump_history codec w t ?h)) = \<dots>" .
  have "history_ok (snd (bump_history codec w t ?h))" using bump_history_tokens snoc.IH by blast
  with tokens show ?case unfolding step by (simp add: op)
qed

theorem history_most_recent_witness:
  "get_account_history (bump_all \<lparr>hc_parse = \<lambda>_. None, hc_parse_old = \<lambda>_. None, hc_print = \<lambda>_. []\<rparr>
     [(HistWritten, ''1''), (HistSyncFails, ''2''), (HistWritten, ''3''), (HistWritten, ''1'')]
     \<lparr>ah_file = [], ah_accounts = [\<lparr>ae_account = ''0'', ae_wireguard = None\<rparr>]\<rparr>) =
   [''1'', ''3'', ''2'']"
  using history_most_recent [of "\<lparr>ah_file = [], ah_accounts = [\<lparr>ae_account = ''0'', ae_wireguard = None\<rparr>]\<rparr>"
      "\<lparr>hc_parse = \<lambda>_. None, hc_parse_old = \<lambda>_. None, hc_print = \<lambda>_. []\<rparr>"
      "[(HistWritten, ''1''), (HistSyncFails, ''2''), (HistWritten, ''3''), (HistWritten, ''1'')]"]
  by (simp add: history_ok_def get_account_history_def ACCOUNT_HISTORY_LIMIT_def keep_first_def)

definition history_lookup :: "string \<Rightarrow> account_history \<Rightarrow> account_entry option" where
  "history_lookup account h = List.find (\<lambda>e. ae_account e = account) (ah_accounts h)"

lemma map_of_key_find: "map_of (map (\<lambda>x. (f x, x)) xs) k = List.find (\<lambda>x. f x = k) xs"
  by (induction xs) auto

lemma history_lookup_eq: "history.lookup = history_lookup"
  by (intro ext) (simp add: history.lookup_def history_lookup_def map_of_key_find)

text \<open>
  The WireGuard data of an account is kept: looking an account up returns the entry last inserted
  for it as long as it is in the history, inserting one account never changes the entry of another,
  and an account that is read is moved to the front, so that it is not the next to be pushed out.\<close>

theorem history_keeps_entries:
  assumes "history_ok h"
  shows "fst (history_get codec w (ae_account e) (snd (history_insert codec w' e h))) = Inr (Some e) \<and>
    (\<forall>t x. t \<noteq> ae_account e \<and> history_lookup t (snd (history_insert codec w' e h)) = Some x \<longrightarrow>
       history_lookup t h = Some x) \<and>
    (\<forall>t x. fst (history_get codec w t h) = Inr (Some x) \<longrightarrow>
       ae_account x = t \<and> history_lookup t h = Some x \<and>
       hd (ah_accounts (snd (history_get codec w t h))) = x)"
proof (intro conjI allI impI)
  obtain rest where "ah_accounts (snd (history_insert codec w' e h)) = e # rest"
    using history.hd_ins [OF assms, of codec w' e] by (metis list.exhaust_sel)
  then show "fst (history_get codec w (ae_account e) (snd (history_insert codec w' e h))) = Inr (Some e)"
    by (simp add: history_get_def)
next
  fix t x
  assume "t \<noteq> ae_account e \<and> history_lookup t (snd (history_insert codec w' e h)) = Some x"
  then show "history_lookup t h = Some x"
    using history.lookup_ins_other [OF assms, of t e codec w' x] by (simp add: history_lookup_eq)
next
  fix t x
  assume "fst (history_get codec w t h) = Inr (Some x)"
  then obtain i where i: "find_entry t (ah_accounts h) 0 = Some (i, x)"
    by (auto simp: history_get_def split: option.splits if_splits prod.splits sum.splits)
  then show "ae_account x = t" using find_entry_SomeD by blast
  show "history_lookup t h = Some x"
    using i find_entry_map_of [of t "ah_accounts h" 0] by (simp add: history_lookup_def map_of_key_find)
  show "hd (ah_accounts (snd (history_get codec w t h))) = x"
  proof (cases "i = 0")
    case True
    with i find_entry_0 [of t "ah_accounts h" 0 x] show ?thesis
      by (auto simp: history_get_accounts [OF assms])
  next
    case False
    with i history.hd_ins [OF assms, of codec w x] show ?thesis
      by (simp add: history_get_accounts [OF assms])
  qed
qed

theorem history_keeps_entries_witness:
  "fst (history_get \<lparr>hc_parse = \<lambda>_. None, hc_parse_old = \<lambda>_. None, hc_print = \<lambda>_. []\<rparr> HistWritten ''7''
     (snd (history_insert \<lparr>hc_parse = \<lambda>_. None, hc_parse_old = \<lambda>_. None, hc_print = \<lambda>_. []\<rparr>
        HistSeekFails \<lparr>ae_account = ''7'', ae_wireguard = None\<rparr> \<lparr>ah_file = [], ah_accounts = []\<rparr>))) =
   Inr (Some \<lparr>ae_account = ''7'', ae_wireguard = None\<rparr>)"
  using history_keeps_entries [of "\<lparr>ah_file = [], ah_accounts = []\<rparr>"
      "\<lparr>hc_parse = \<lambda>_. None, hc_parse_old = \<lambda>_. None, hc_print = \<lambda>_. []\<rparr>" HistWritten
      "\<lparr>ae_account = ''7'', ae_wireguard = None\<rparr>" HistSeekFails]
  by (simp add: history_ok_def)

end
