(* ===== verification/Key_Manager.thy ===== *)
theory Key_Manager
  imports Account_History Relay_Types
begin

text \<open>
  The WireGuard key manager of the daemon (\<open>mullvad-daemon/src/wireguard.rs\<close>) and the lookup of the
  current location (\<open>mullvad-daemon/src/geoip.rs\<close>).

  Random bytes, whether the reactor accepts a future, and the answers of the API are inputs.  The
  asynchronous generation uploads the key with \<open>tokio_retry\<close>: the answers to its attempts form a
  list, and the job has not ended while the list has no final answer or timer failure.
\<close>

section \<open>Errors\<close>

datatype rpc_error = JsonRpcError int | OtherRpcError

datatype wg_key_error = GenerationError | ExecutionError | KeyRpcError rpc_error | TooManyKeysError

definition TOO_MANY_KEYS_ERROR_CODE :: int where
  "TOO_MANY_KEYS_ERROR_CODE = - 703"

fun map_rpc_error :: "rpc_error \<Rightarrow> wg_key_error" where
  "map_rpc_error (JsonRpcError code) =
     (if code = - 703 then TooManyKeysError else KeyRpcError (JsonRpcError code))"
| "map_rpc_error OtherRpcError = KeyRpcError OtherRpcError"

fun should_retry :: "rpc_error \<Rightarrow> bool" where
  "should_retry (JsonRpcError code) = (code \<noteq> TOO_MANY_KEYS_ERROR_CODE)"
| "should_retry OtherRpcError = True"

section \<open>Jobs\<close>

record key_job =
  kj_id :: nat
  kj_account :: string
  kj_private_key :: private_key

text \<open>The manager; \<open>km_cancelled\<close> are the jobs it has sent a cancel signal to.\<close>

record key_manager =
  km_current_job :: "key_job option"
  km_cancelled :: "key_job list"
  km_started :: nat

definition key_manager_new :: key_manager where
  "key_manager_new = \<lparr>km_current_job = None, km_cancelled = [], km_started = 0\<rparr>"

definition km_reset :: "key_manager \<Rightarrow> key_manager" where
  "km_reset km =
     (case km_current_job km of
        None \<Rightarrow> km
      | Some job \<Rightarrow> km\<lparr>km_current_job := None, km_cancelled := km_cancelled km @ [job]\<rparr>)"

text \<open>One upload of the public key: the data of a key whose upload is answered with addresses.\<close>

definition push_key ::
    "private_key \<Rightarrow> rpc_error + associated_addresses \<Rightarrow> rpc_error + wireguard_data" where
  "push_key private_key answer =
     (case answer of
        Inl e \<Rightarrow> Inl e
      | Inr addresses \<Rightarrow> Inr \<lparr>wd_private_key = private_key, wd_addresses = addresses\<rparr>)"

definition generate_key_sync ::
    "string \<Rightarrow> u8 list option \<Rightarrow> bool \<Rightarrow> (rpc_error + associated_addresses) option \<Rightarrow> key_manager
      \<Rightarrow> (wg_key_error + wireguard_data) \<times> key_manager" where
  "generate_key_sync account random execute_ok answer km =
     (let km = km_reset km
      in case random of
           None \<Rightarrow> (Inl GenerationError, km)
         | Some bytes \<Rightarrow>
             if \<not> execute_ok then (Inl ExecutionError, km)
             else
               (case answer of
                  None \<Rightarrow> (Inl ExecutionError, km)
                | Some a \<Rightarrow>
                    (case push_key (private_key_from bytes) a of
                       Inl e \<Rightarrow> (Inl (map_rpc_error e), km)
                     | Inr data \<Rightarrow> (Inr data, km))))"

definition generate_key_async ::
    "string \<Rightarrow> u8 list option \<Rightarrow> bool \<Rightarrow> key_manager \<Rightarrow> (wg_key_error + unit) \<times> key_manager" where
  "generate_key_async account random execute_ok km =
     (let km = km_reset km
      in case random of
           None \<Rightarrow> (Inl GenerationError, km)
         | Some bytes \<Rightarrow>
             if execute_ok
             then (Inr (), km\<lparr>km_current_job := Some \<lparr>kj_id = km_started km, kj_account = account,
                       kj_private_key = private_key_from bytes\<rparr>,
                     km_started := km_started km + 1\<rparr>)
             else (Inl ExecutionError, km))"

text \<open>
  \<open>RetryIf\<close> with an endless strategy, and the mapping of its errors: an attempt is answered, or the
  timer before the next one fails.
\<close>

datatype upload_step = Answered "rpc_error + associated_addresses" | TimerFailed

fun retry_upload :: "private_key \<Rightarrow> upload_step list \<Rightarrow> (wg_key_error + wireguard_data) option" where
  "retry_upload key [] = None"
| "retry_upload key (TimerFailed # steps) = Some (Inl ExecutionError)"
| "retry_upload key (Answered answer # steps) =
     (case push_key key answer of
        Inr data \<Rightarrow> Some (Inr data)
      | Inl e \<Rightarrow> if should_retry e then retry_upload key steps else Some (Inl (map_rpc_error e)))"

text \<open>\<open>Cancellable::poll\<close>: a signal on the channel, or its closing, cancels before the future is polled.\<close>

datatype 'e cancel_err = Cancelled | InnerErr 'e

definition cancellable_poll ::
    "bool \<Rightarrow> ('e + 'a) option \<Rightarrow> ('e cancel_err + 'a) option" where
  "cancellable_poll signalled inner =
     (if signalled then Some (Inl Cancelled)
      else (case inner of
              None \<Rightarrow> None
            | Some (Inr v) \<Rightarrow> Some (Inr v)
            | Some (Inl e) \<Rightarrow> Some (Inl (InnerErr e))))"

text \<open>The event a job sends to the daemon when it ends: none when it was cancelled.\<close>

definition job_event :: "key_manager \<Rightarrow> key_job \<Rightarrow> upload_step list
    \<Rightarrow> (string \<times> (wg_key_error + wireguard_data)) option" where
  "job_event km job answers =
     (case cancellable_poll (job \<in> set (km_cancelled km)) (retry_upload (kj_private_key job) answers) of
        Some (Inr data) \<Rightarrow> Some (kj_account job, Inr data)
      | Some (Inl (InnerErr e)) \<Rightarrow> Some (kj_account job, Inl e)
      | Some (Inl Cancelled) \<Rightarrow> None
      | None \<Rightarrow> None)"

section \<open>The current location\<close>

datatype geoip_error = SendRequestError | NoResponse | GeoTransport | GeoDeserialize

text \<open>The answer to one request: sent, answered, without transport error, and parsed.\<close>

definition send_location_request_internal ::
    "(string \<Rightarrow> am_i_mullvad option) \<Rightarrow> bool \<Rightarrow> (unit + string) option \<Rightarrow> geoip_error + am_i_mullvad" where
  "send_location_request_internal parse sent response =
     (if \<not> sent then Inl SendRequestError
      else
        (case response of
           None \<Rightarrow> Inl NoResponse
         | Some (Inl _) \<Rightarrow> Inl GeoTransport
         | Some (Inr bytes) \<Rightarrow>
             (case parse bytes of None \<Rightarrow> Inl GeoDeserialize | Some l \<Rightarrow> Inr l)))"

definition send_location_request ::
    "geoip_error + am_i_mullvad \<Rightarrow> geoip_error + am_i_mullvad \<Rightarrow> geoip_error + geo_ip_location" where
  "send_location_request v4_answer v6_answer =
     (case (map_sum id geo_ip_location_from v4_answer, map_sum id geo_ip_location_from v6_answer) of
        (Inr v4, Inr v6) \<Rightarrow>
          Inr (v4\<lparr>geo_ipv6 := geo_ipv6 v6,
                  geo_mullvad_exit_ip := geo_mullvad_exit_ip v4 \<and> geo_mullvad_exit_ip v6\<rparr>)
      | (Inr v4, Inl _) \<Rightarrow> Inr v4
      | (Inl _, Inr v6) \<Rightarrow> Inr v6
      | (Inl e_v4, Inl _) \<Rightarrow> Inl e_v4)"

section \<open>Properties\<close>

text \<open>
  Uploading a key is retried until the API gives a final answer: while the job has not ended every
  attempt was answered with an error worth a retry.  It ends with the generated key and the addresses
  of an answer, with \<open>TooManyKeys\<close> if the API said so, or with an execution error of the timer, and
  with no other error.\<close>

theorem key_upload_final:
  "(case retry_upload key steps of
      None \<Rightarrow> list_all (case_upload_step (case_sum should_retry (\<lambda>_. False)) False) steps
    | Some (Inr data) \<Rightarrow> wd_private_key data = key \<and> Answered (Inr (wd_addresses data)) \<in> set steps
    | Some (Inl TooManyKeysError) \<Rightarrow> Answered (Inl (JsonRpcError TOO_MANY_KEYS_ERROR_CODE)) \<in> set steps
    | Some (Inl e) \<Rightarrow> e = ExecutionError \<and> TimerFailed \<in> set steps)"
proof (induction key steps rule: retry_upload.induct)
  case (3 key answer steps)
  then show ?case
  proof (cases answer)
    case (Inl e)
    show ?thesis
    proof (cases "should_retry e")
      case True
      with Inl 3 show ?thesis
        by (auto simp: push_key_def split: option.splits sum.splits wg_key_error.splits)
    next
      case False
      then have "e = JsonRpcError TOO_MANY_KEYS_ERROR_CODE" by (cases e) simp_all
      with False Inl show ?thesis by (simp add: push_key_def TOO_MANY_KEYS_ERROR_CODE_def)
    qed
  qed (simp add: push_key_def)
qed simp_all

text \<open>
  At most one generated key reaches the daemon: whenever a new generation is started the previous
  job is cancelled, and a cancelled job sends no event whatever the API answers.\<close>

theorem new_key_job_cancels:
  assumes "km_current_job km = Some job"
  shows "job_event (snd (generate_key_async account random ok km)) job answers = None \<and>
    job_event (snd (generate_key_sync account random ok answer km)) job answers = None"
proof -
  have "job \<in> set (km_cancelled (km_reset km))" using assms by (simp add: km_reset_def)
  moreover have "km_cancelled (snd (generate_key_async account random ok km)) = km_cancelled (km_reset km)"
    by (simp add: generate_key_async_def Let_def split: option.split)
  moreover have "snd (generate_key_sync account random ok answer km) = km_reset km"
    by (simp add: generate_key_sync_def Let_def split: option.split sum.split)
  ultimately show ?thesis by (simp add: job_event_def cancellable_poll_def)
qed

theorem new_key_job_cancels_witness:
  "job_event (snd (generate_key_async ''b'' None True
      \<lparr>km_current_job = Some \<lparr>kj_id = 0, kj_account = ''a'', kj_private_key = PrivateKey []\<rparr>,
       km_cancelled = [], km_started = 1\<rparr>))
     \<lparr>kj_id = 0, kj_account = ''a'', kj_private_key = PrivateKey []\<rparr>
     [Answered (Inr \<lparr>aa_ipv4_address = (1, 32), aa_ipv6_address = (1, 128)\<rparr>)] = None"
  using new_key_job_cancels [of
      "\<lparr>km_current_job = Some \<lparr>kj_id = 0, kj_account = ''a'', kj_private_key = PrivateKey []\<rparr>,
       km_cancelled = [], km_started = 1\<rparr>"
      "\<lparr>kj_id = 0, kj_account = ''a'', kj_private_key = PrivateKey []\<rparr>" "''b''" None True
      "[Answered (Inr \<lparr>aa_ipv4_address = (1, 32), aa_ipv6_address = (1, 128)\<rparr>)]" None]
  by simp

lemma send_location_request_exit_ip:
  assumes "send_location_request a4 a6 = Inr l" and "geo_mullvad_exit_ip l"
  shows "(\<forall>x. a4 = Inr x \<longrightarrow> am_mullvad_exit_ip x) \<and> (\<forall>x. a6 = Inr x \<longrightarrow> am_mullvad_exit_ip x)"
  using assms
  by (cases a4; cases a6)
    (auto simp: send_location_request_def geo_ip_location_from_def split: ip_addr.splits)

end
