(* ===== verification/Daemon.thy ===== *)
theory Daemon
  imports Tunnel_State_Machine Settings Key_Manager
begin

text \<open>
  The daemon (\<open>mullvad-daemon/src/lib.rs\<close>) with the states of \<open>mullvad-types/src/states.rs\<close> and the
  commands of \<open>mullvad-daemon/src/management_interface.rs\<close>.

  The fields of \<open>Daemon\<close> are the record \<open>daemon\<close>; everything a handler sends (commands to the tunnel
  state machine, notifications to the event listener, answers to clients, tunnel parameters) is
  appended to \<open>dm_effects\<close> in order.  What the daemon calls and cannot decide is in two records:
  \<open>daemon_env\<close> for functions (random numbers, DNS, codecs, x25519) and \<open>daemon_io\<close> for the outcomes of
  the input/output of one event, with the relays the updater has stored before it.  Sending to the tunnel state machine panics when the machine has
  stopped; the machine stops only when its command stream ends, and the daemon holds the sender.
\<close>

section \<open>States, commands and effects\<close>

datatype target_state = Unsecured | Secured

datatype daemon_tunnel_state =
    DtDisconnected
  | DtConnecting tunnel_endpoint "geo_ip_location option"
  | DtConnected tunnel_endpoint "geo_ip_location option"
  | DtDisconnecting action_after_disconnect
  | DtBlocked block_reason

fun is_blocked :: "daemon_tunnel_state \<Rightarrow> bool" where
  "is_blocked (DtBlocked _) = True"
| "is_blocked _ = False"

datatype execution_state = ExecRunning | ExecExiting | ExecFinished

fun exec_shutdown :: "daemon_tunnel_state \<Rightarrow> execution_state \<Rightarrow> execution_state" where
  "exec_shutdown tunnel_state ExecRunning =
     (case tunnel_state of DtDisconnected \<Rightarrow> ExecFinished | _ \<Rightarrow> ExecExiting)"
| "exec_shutdown tunnel_state ExecExiting = ExecExiting"
| "exec_shutdown tunnel_state ExecFinished = ExecFinished"

fun exec_disconnected :: "execution_state \<Rightarrow> execution_state" where
  "exec_disconnected ExecExiting = ExecFinished"
| "exec_disconnected ExecRunning = ExecRunning"
| "exec_disconnected ExecFinished = ExecFinished"

fun is_running :: "execution_state \<Rightarrow> bool" where
  "is_running ExecRunning = True"
| "is_running ExecExiting = False"
| "is_running ExecFinished = False"

datatype daemon_error =
    DaemonIsAlreadyRunning
  | StartManagementInterface
  | InitIoEventLoop
  | InitRpcClient
  | InitHttpsClient
  | LoadAccountHistory history_error
  | ManagementInterfaceExitedError
  | NoKeyAvailable
  | NoBridgeAvailable
  | AccountHistoryError history_error
  | TunnelError tsm_error
  | RemoveDirError string
  | CreateDirError string
  | PathError
  | FileTypeError
  | FileEntryError
  | ReadDirError

datatype management_command =
    SetTargetState target_state
  | GetState
  | GetCurrentLocation
  | GetAccountData string
  | GetAccountHistory
  | RemoveAccountFromHistory string
  | GetRelayLocations
  | UpdateRelayLocations
  | SetAccount "string option"
  | UpdateRelaySettings relay_settings_update
  | SetAllowLan bool
  | SetBlockWhenDisconnected bool
  | SetAutoConnect bool
  | SetOpenVpnMssfix "u16 option"
  | SetBridgeSettings bridge_settings
  | SetBridgeState bridge_state
  | SetEnableIpv6 bool
  | SetWireguardMtu "u16 option"
  | GetSettings
  | GenerateWireguardKey
  | GetWireguardKey
  | VerifyWireguardKey
  | GetVersionInfo
  | GetCurrentVersion
  | FactoryReset
  | Shutdown

text \<open>The value sent on the channel of a command; requests to the API are sent as futures.\<close>

datatype reply =
    ReplyUnit
  | ReplyTargetState "unit + unit"
  | ReplyState daemon_tunnel_state
  | ReplyLocation "geo_ip_location option"
  | ReplyAccountData string
  | ReplyAccountHistory "string list"
  | ReplyRelayLocations relay_list
  | ReplyBridge "settings_error + unit"
  | ReplySettings settings
  | ReplyKeygen keygen_event
  | ReplyKey "public_key option"
  | ReplyVerifyKey bool
  | ReplyCheckKey string public_key
  | ReplyVersionInfo string string
  | ReplyVersion string

datatype daemon_effect =
    TunnelCommand tunnel_command
  | NotifyNewState daemon_tunnel_state
  | NotifySettings settings
  | NotifyKeyEvent keygen_event
  | Reply reply
  | SendParameters tunnel_parameters
  | RelayListUpdate

datatype internal_event =
    EventTunnelStateTransition tunnel_state_transition
  | EventGenerateTunnelParameters u32
  | EventManagementCommand management_command
  | EventManagementInterfaceExited
  | EventTriggerShutdown
  | EventWgKey string "wg_key_error + wireguard_data"

section \<open>The daemon\<close>

record 'g daemon_env =
  de_os :: target_os
  de_rng :: "'g rng"
  de_lookup :: "string \<Rightarrow> ip_addr list option"
  de_settings :: settings_codec
  de_history :: history_codec
  de_x25519 :: "u8 list \<Rightarrow> u8 list"

record daemon_io =
  di_settings :: settings_io
  di_settings2 :: settings_io
  di_history :: history_write
  di_history2 :: history_write
  di_random :: "u8 list option"
  di_execute_ok :: bool
  di_key_answer :: "(rpc_error + associated_addresses) option"
  di_geo :: "geoip_error + geo_ip_location"
  di_parameters_ok :: bool
  di_relays :: "parsed_relays option"

record 'g daemon =
  dm_tunnel_state :: daemon_tunnel_state
  dm_target_state :: target_state
  dm_state :: execution_state
  dm_reconnect :: bool
  dm_settings :: settings
  dm_files :: files
  dm_account_history :: account_history
  dm_key_manager :: key_manager
  dm_relay_selector :: "'g relay_selector"
  dm_last_generated_relay :: "relay option"
  dm_last_generated_bridge_relay :: "relay option"
  dm_version :: string
  dm_shutdown_callbacks :: "bool list"
  dm_effects :: "daemon_effect list"

definition emit :: "daemon_effect \<Rightarrow> 'g daemon \<Rightarrow> 'g daemon" where
  "emit e d = d\<lparr>dm_effects := dm_effects d @ [e]\<rparr>"

text \<open>
  Commands to the tunnel state machine go over a channel.  Sending expects that the machine still
  receives; that panic is part of \<open>daemon_loop_on\<close> below, which knows which threads still run.
\<close>

definition send_tunnel_command :: "tunnel_command \<Rightarrow> 'g daemon \<Rightarrow> 'g daemon" where
  "send_tunnel_command c d = emit (TunnelCommand c) d"

definition connect_tunnel :: "'g daemon \<Rightarrow> 'g daemon" where
  "connect_tunnel d = send_tunnel_command CmdConnect d"

definition disconnect_tunnel :: "'g daemon \<Rightarrow> 'g daemon" where
  "disconnect_tunnel d = send_tunnel_command CmdDisconnect d"

definition reconnect_tunnel :: "'g daemon \<Rightarrow> 'g daemon" where
  "reconnect_tunnel d = (if dm_target_state d = Secured then connect_tunnel d else d)"

definition set_target_state :: "target_state \<Rightarrow> 'g daemon \<Rightarrow> 'g daemon" where
  "set_target_state target d =
     (if target \<noteq> dm_target_state d \<or> is_blocked (dm_tunnel_state d)
      then
        (let d = d\<lparr>dm_target_state := target\<rparr>
         in case target of Secured \<Rightarrow> connect_tunnel d | Unsecured \<Rightarrow> disconnect_tunnel d)
      else d)"

definition trigger_shutdown_event :: "'g daemon \<Rightarrow> 'g daemon" where
  "trigger_shutdown_event d =
     disconnect_tunnel (d\<lparr>dm_state := exec_shutdown (dm_tunnel_state d) (dm_state d)\<rparr>)"

definition schedule_reconnect :: "'g daemon \<Rightarrow> 'g daemon" where
  "schedule_reconnect d = d\<lparr>dm_reconnect := True\<rparr>"

definition unschedule_reconnect :: "'g daemon \<Rightarrow> 'g daemon" where
  "unschedule_reconnect d = d\<lparr>dm_reconnect := False\<rparr>"

definition history_lookup_account :: "'g daemon_env \<Rightarrow> history_write \<Rightarrow> string \<Rightarrow> 'g daemon
    \<Rightarrow> (history_error + account_entry option) \<times> 'g daemon" where
  "history_lookup_account env w account d =
     (case history_get (de_history env) w account (dm_account_history d) of
        (r, h) \<Rightarrow> (r, d\<lparr>dm_account_history := h\<rparr>))"

definition history_insert_entry :: "'g daemon_env \<Rightarrow> history_write \<Rightarrow> account_entry \<Rightarrow> 'g daemon
    \<Rightarrow> (history_error + unit) \<times> 'g daemon" where
  "history_insert_entry env w entry d =
     (case history_insert (de_history env) w entry (dm_account_history d) of
        (r, h) \<Rightarrow> (r, d\<lparr>dm_account_history := h\<rparr>))"

definition change_settings :: "'g daemon_env \<Rightarrow> settings_io \<Rightarrow> setter \<Rightarrow> 'g daemon
    \<Rightarrow> (settings_error + bool) \<times> 'g daemon" where
  "change_settings env io setter d =
     (case setter (de_settings env) io (dm_settings d) (dm_files d) of
        (r, s, files) \<Rightarrow> (r, d\<lparr>dm_settings := s, dm_files := files\<rparr>))"

definition notify_settings :: "'g daemon \<Rightarrow> 'g daemon" where
  "notify_settings d = emit (NotifySettings (dm_settings d)) d"

section \<open>Tunnel states and parameters\<close>

definition build_location_from_relay :: "'g daemon \<Rightarrow> geo_ip_location option panics" where
  "build_location_from_relay d =
     (case dm_last_generated_relay d of
        None \<Rightarrow> Returns None
      | Some relay \<Rightarrow>
          (case r_location relay of
             None \<Rightarrow> Panics
           | Some location \<Rightarrow>
               Returns (Some
                 \<lparr>geo_ipv4 = None, geo_ipv6 = None, geo_country = loc_country location,
                  geo_city = Some (loc_city location), geo_latitude = loc_latitude location,
                  geo_longitude = loc_longitude location, geo_mullvad_exit_ip = True,
                  geo_hostname = Some (r_hostname relay),
                  geo_bridge_hostname = map_option r_hostname (dm_last_generated_bridge_relay d)\<rparr>)))"

definition tunnel_state_of_transition ::
    "tunnel_state_transition \<Rightarrow> 'g daemon \<Rightarrow> daemon_tunnel_state panics" where
  "tunnel_state_of_transition transition d =
     (case transition of
        TrDisconnected \<Rightarrow> Returns DtDisconnected
      | TrConnecting endpoint \<Rightarrow>
          (case build_location_from_relay d of
             Panics \<Rightarrow> Panics | Returns location \<Rightarrow> Returns (DtConnecting endpoint location))
      | TrConnected endpoint \<Rightarrow>
          (case build_location_from_relay d of
             Panics \<Rightarrow> Panics | Returns location \<Rightarrow> Returns (DtConnected endpoint location))
      | TrDisconnecting after_disconnect \<Rightarrow> Returns (DtDisconnecting after_disconnect)
      | TrBlocked reason \<Rightarrow> Returns (DtBlocked reason))"

definition handle_tunnel_state_transition ::
    "tunnel_state_transition \<Rightarrow> 'g daemon \<Rightarrow> 'g daemon panics" where
  "handle_tunnel_state_transition transition d =
     (case tunnel_state_of_transition transition d of
        Panics \<Rightarrow> Panics
      | Returns tunnel_state \<Rightarrow>
          (let d = unschedule_reconnect d;
               d = (case tunnel_state of
                      DtDisconnected \<Rightarrow> d\<lparr>dm_state := exec_disconnected (dm_state d)\<rparr>
                    | DtBlocked (AuthFailed _) \<Rightarrow> schedule_reconnect d
                    | _ \<Rightarrow> d);
               d = d\<lparr>dm_tunnel_state := tunnel_state\<rparr>
           in Returns (emit (NotifyNewState tunnel_state) d)))"

definition openvpn_proxy_settings :: "'g daemon_env \<Rightarrow> endpoint \<Rightarrow> location \<Rightarrow> u32 \<Rightarrow> 'g daemon
    \<Rightarrow> ((daemon_error + proxy_settings option) \<times> 'g daemon) panics" where
  "openvpn_proxy_settings env endpoint location retry_attempt d =
     (case st_bridge_settings (dm_settings d) of
        BridgeNormal settings \<Rightarrow>
          (let bridge_constraints =
             \<lparr>ib_location = bc_location settings, ib_transport_protocol = Only (protocol endpoint)\<rparr>
           in case st_bridge_state (dm_settings d) of
                BridgeOn \<Rightarrow>
                  (case get_proxy_settings (de_rng env) (dm_relay_selector d) bridge_constraints location of
                     Panics \<Rightarrow> Panics
                   | Returns (None, sel) \<Rightarrow>
                       Returns (Inl NoBridgeAvailable, d\<lparr>dm_relay_selector := sel\<rparr>)
                   | Returns (Some (bridge, bridge_relay), sel) \<Rightarrow>
                       Returns (Inr (Some bridge),
                         d\<lparr>dm_relay_selector := sel,
                           dm_last_generated_bridge_relay := Some bridge_relay\<rparr>))
              | BridgeAuto \<Rightarrow>
                  (case get_auto_proxy_settings (de_rng env) (dm_relay_selector d) bridge_constraints
                          location retry_attempt of
                     Panics \<Rightarrow> Panics
                   | Returns (None, sel) \<Rightarrow> Returns (Inr None, d\<lparr>dm_relay_selector := sel\<rparr>)
                   | Returns (Some (bridge, bridge_relay), sel) \<Rightarrow>
                       Returns (Inr (Some bridge),
                         d\<lparr>dm_relay_selector := sel,
                           dm_last_generated_bridge_relay := Some bridge_relay\<rparr>))
              | BridgeOff \<Rightarrow> Returns (Inr None, d))
      | BridgeCustom proxy \<Rightarrow>
          Returns (Inr (case st_bridge_state (dm_settings d) of
             BridgeOn \<Rightarrow> Some proxy
           | BridgeAuto \<Rightarrow> if should_use_bridge retry_attempt then Some proxy else None
           | BridgeOff \<Rightarrow> None), d))"

definition create_tunnel_parameters ::
    "'g daemon_env \<Rightarrow> daemon_io \<Rightarrow> relay \<Rightarrow> mullvad_endpoint \<Rightarrow> string \<Rightarrow> u32 \<Rightarrow> 'g daemon
      \<Rightarrow> ((daemon_error + tunnel_parameters) \<times> 'g daemon) panics" where
  "create_tunnel_parameters env io relay endpoint account_token retry_attempt d =
     (let tunnel_options = st_tunnel_options (dm_settings d)
      in case r_location relay of
           None \<Rightarrow> Panics
         | Some location \<Rightarrow>
             (let d = d\<lparr>dm_last_generated_bridge_relay := None\<rparr>
              in case endpoint of
                   MullvadOpenVpn endpoint \<Rightarrow>
                     (case openvpn_proxy_settings env endpoint location retry_attempt d of
                        Panics \<Rightarrow> Panics
                      | Returns (Inl e, d) \<Rightarrow> Returns (Inl e, d)
                      | Returns (Inr proxy, d) \<Rightarrow>
                          Returns (Inr (ParamsOpenVpn
                            \<lparr>ovpn_config = openvpn_connection_config_new endpoint account_token ''-'',
                             ovpn_options = to_openvpn tunnel_options,
                             ovpn_generic_options = to_generic tunnel_options,
                             ovpn_proxy = proxy\<rparr>), d))
                 | MullvadWireguard peer ipv4_gateway ipv6_gateway \<Rightarrow>
                     (case history_lookup_account env (di_history io) account_token d of
                        (Inl e, d) \<Rightarrow> Returns (Inl (AccountHistoryError e), d)
                      | (Inr entry, d) \<Rightarrow>
                          (case Option.bind entry ae_wireguard of
                             None \<Rightarrow> Returns (Inl NoKeyAvailable, d)
                           | Some wg_data \<Rightarrow>
                               Returns (Inr (ParamsWireguard
                                 \<lparr>wg_connection =
                                    \<lparr>wgc_tunnel =
                                       \<lparr>wg_private_key = wd_private_key wg_data,
                                        wg_addresses =
                                          [V4 (fst (aa_ipv4_address (wd_addresses wg_data))),
                                           V6 (fst (aa_ipv6_address (wd_addresses wg_data)))]\<rparr>,
                                     wgc_peer = peer, wgc_ipv4_gateway = ipv4_gateway,
                                     wgc_ipv6_gateway = Some ipv6_gateway\<rparr>,
                                  wg_options = to_wireguard tunnel_options,
                                  wg_generic_options = to_generic tunnel_options\<rparr>), d)))))"

text \<open>The parameters are sent on the channel of the request, unless its receiver is gone.\<close>

definition send_parameters :: "daemon_io \<Rightarrow> tunnel_parameters \<Rightarrow> 'g daemon \<Rightarrow> 'g daemon" where
  "send_parameters io params d = (if di_parameters_ok io then emit (SendParameters params) d else d)"

definition handle_generate_tunnel_parameters ::
    "'g daemon_env \<Rightarrow> daemon_io \<Rightarrow> u32 \<Rightarrow> 'g daemon \<Rightarrow> 'g daemon panics" where
  "handle_generate_tunnel_parameters env io retry_attempt d =
     (case st_account_token (dm_settings d) of
        None \<Rightarrow> Returns d
      | Some account_token \<Rightarrow>
          (case st_relay_settings (dm_settings d) of
             RelayCustomTunnelEndpoint custom_relay \<Rightarrow>
               (let d = d\<lparr>dm_last_generated_relay := None\<rparr>
                in case to_tunnel_parameters (de_lookup env) custom_relay
                          (st_tunnel_options (dm_settings d)) None of
                     Inl _ \<Rightarrow> Returns d
                   | Inr params \<Rightarrow> Returns (send_parameters io params d))
           | RelayNormal constraints \<Rightarrow>
               (case selector_get_tunnel_endpoint (de_os env) (de_rng env) (dm_relay_selector d)
                       constraints retry_attempt of
                  Panics \<Rightarrow> Panics
                | Returns (Inl _, sel) \<Rightarrow> Returns (d\<lparr>dm_relay_selector := sel\<rparr>)
                | Returns (Inr (relay, endpoint), sel) \<Rightarrow>
                    (case create_tunnel_parameters env io relay endpoint account_token retry_attempt
                            (d\<lparr>dm_relay_selector := sel\<rparr>) of
                       Panics \<Rightarrow> Panics
                     | Returns (Inl _, d) \<Rightarrow> Returns (d\<lparr>dm_last_generated_relay := Some relay\<rparr>)
                     | Returns (Inr params, d) \<Rightarrow>
                         Returns (send_parameters io params
                           (d\<lparr>dm_last_generated_relay := Some relay\<rparr>))))))"

text \<open>
  \<open>MullvadTunnelParametersGenerator::generate\<close>: the request goes to the daemon as an event, unless its
  receiver is gone, and the answer is what the daemon sends before it drops the channel.
\<close>

fun sent_parameters :: "daemon_effect list \<Rightarrow> tunnel_parameters option" where
  "sent_parameters (SendParameters params # _) = Some params"
| "sent_parameters _ = None"

definition mullvad_generate ::
    "'g daemon_env \<Rightarrow> daemon_io \<Rightarrow> bool \<Rightarrow> u32 \<Rightarrow> 'g daemon
      \<Rightarrow> (tunnel_parameters option \<times> 'g daemon) panics" where
  "mullvad_generate env io sent retry_attempt d =
     (if \<not> sent then Returns (None, d)
      else
        (case handle_generate_tunnel_parameters env io retry_attempt d of
           Panics \<Rightarrow> Panics
         | Returns d' \<Rightarrow> Returns (sent_parameters (drop (length (dm_effects d)) (dm_effects d')), d')))"

section \<open>WireGuard keys\<close>

definition ensure_wireguard_keys_for_current_account ::
    "'g daemon_env \<Rightarrow> daemon_io \<Rightarrow> 'g daemon \<Rightarrow> 'g daemon" where
  "ensure_wireguard_keys_for_current_account env io d =
     (case st_account_token (dm_settings d) of
        None \<Rightarrow> d
      | Some account \<Rightarrow>
          (case history_lookup_account env (di_history io) account d of
             (r, d) \<Rightarrow>
               if (case r of
                     Inr (Some e) \<Rightarrow> ae_wireguard e = None
                   | _ \<Rightarrow> True)
               then d\<lparr>dm_key_manager :=
                      snd (generate_key_async account (di_random io) (di_execute_ok io) (dm_key_manager d))\<rparr>
               else d))"

definition handle_wireguard_key_event ::
    "'g daemon_env \<Rightarrow> daemon_io \<Rightarrow> string \<Rightarrow> wg_key_error + wireguard_data \<Rightarrow> 'g daemon \<Rightarrow> 'g daemon" where
  "handle_wireguard_key_event env io account result d =
     (if st_account_token (dm_settings d) \<noteq> Some account then d
      else
        (case result of
           Inr data \<Rightarrow>
             (let public_key = public_key_of (de_x25519 env) (wd_private_key data)
              in case history_lookup_account env (di_history io) account d of
                   (r, d) \<Rightarrow>
                     (let account_entry = (case r of
                            Inr (Some e) \<Rightarrow> e
                          | _ \<Rightarrow> \<lparr>ae_account = account, ae_wireguard = None\<rparr>)
                      in case history_insert_entry env (di_history2 io)
                                (account_entry\<lparr>ae_wireguard := Some data\<rparr>) d of
                           (Inr _, d) \<Rightarrow> emit (NotifyKeyEvent (NewKey public_key)) d
                         | (Inl _, d) \<Rightarrow> emit (NotifyKeyEvent GenerationFailure) d))
         | Inl TooManyKeysError \<Rightarrow> emit (NotifyKeyEvent TooManyKeys) d
         | Inl _ \<Rightarrow> emit (NotifyKeyEvent GenerationFailure) d))"

definition on_generate_wireguard_key :: "'g daemon_env \<Rightarrow> daemon_io \<Rightarrow> 'g daemon \<Rightarrow> 'g daemon" where
  "on_generate_wireguard_key env io d =
     (case st_account_token (dm_settings d) of
        None \<Rightarrow> d
      | Some account_token \<Rightarrow>
          (case history_lookup_account env (di_history io) account_token d of
             (Inl _, d) \<Rightarrow> d
           | (Inr entry, d) \<Rightarrow>
               (let account_entry = (case entry of
                      Some e \<Rightarrow> e
                    | None \<Rightarrow> \<lparr>ae_account = account_token, ae_wireguard = None\<rparr>)
                in case generate_key_sync account_token (di_random io) (di_execute_ok io)
                          (di_key_answer io) (dm_key_manager d) of
                     (Inr new_data, km) \<Rightarrow>
                       (case history_insert_entry env (di_history2 io)
                               (account_entry\<lparr>ae_wireguard := Some new_data\<rparr>)
                               (d\<lparr>dm_key_manager := km\<rparr>) of
                          (Inl _, d) \<Rightarrow> d
                        | (Inr _, d) \<Rightarrow>
                            (let keygen_event =
                               NewKey (public_key_of (de_x25519 env) (wd_private_key new_data))
                             in emit (Reply (ReplyKeygen keygen_event))
                                  (emit (NotifyKeyEvent keygen_event) d)))
                   | (Inl TooManyKeysError, km) \<Rightarrow>
                       emit (Reply (ReplyKeygen TooManyKeys)) (d\<lparr>dm_key_manager := km\<rparr>)
                   | (Inl _, km) \<Rightarrow> d\<lparr>dm_key_manager := km\<rparr>)))"

definition on_get_wireguard_key :: "'g daemon_env \<Rightarrow> daemon_io \<Rightarrow> 'g daemon \<Rightarrow> 'g daemon" where
  "on_get_wireguard_key env io d =
     (case st_account_token (dm_settings d) of
        None \<Rightarrow> emit (Reply (ReplyKey None)) d
      | Some account \<Rightarrow>
          (case history_lookup_account env (di_history io) account d of
             (Inl _, d) \<Rightarrow> emit (Reply (ReplyKey None)) d
           | (Inr entry, d) \<Rightarrow>
               emit (Reply (ReplyKey (map_option (\<lambda>wg. public_key_of (de_x25519 env) (wd_private_key wg))
                 (Option.bind entry ae_wireguard)))) d))"

definition on_verify_wireguard_key :: "'g daemon_env \<Rightarrow> daemon_io \<Rightarrow> 'g daemon \<Rightarrow> 'g daemon" where
  "on_verify_wireguard_key env io d =
     (case st_account_token (dm_settings d) of
        None \<Rightarrow> emit (Reply (ReplyVerifyKey False)) d
      | Some account \<Rightarrow>
          (case history_lookup_account env (di_history io) account d of
             (Inl _, d) \<Rightarrow> d
           | (Inr entry, d) \<Rightarrow>
               (case Option.bind entry ae_wireguard of
                  None \<Rightarrow> emit (Reply (ReplyVerifyKey False)) d
                | Some wg \<Rightarrow>
                    emit (Reply (ReplyCheckKey account
                      (public_key_of (de_x25519 env) (wd_private_key wg)))) d)))"

section \<open>Commands\<close>

definition on_set_target_state :: "target_state \<Rightarrow> 'g daemon \<Rightarrow> 'g daemon" where
  "on_set_target_state new_target_state d =
     emit (Reply (ReplyTargetState (Inr ())))
       (if is_running (dm_state d) then set_target_state new_target_state d else d)"

definition on_get_current_location :: "daemon_io \<Rightarrow> 'g daemon \<Rightarrow> 'g daemon panics" where
  "on_get_current_location io d =
     (case dm_tunnel_state d of
        DtDisconnected \<Rightarrow>
          Returns (case di_geo io of
             Inr l \<Rightarrow> emit (Reply (ReplyLocation (Some l))) d | Inl _ \<Rightarrow> d)
      | DtConnecting _ location \<Rightarrow> Returns (emit (Reply (ReplyLocation location)) d)
      | DtDisconnecting _ \<Rightarrow>
          (case build_location_from_relay d of
             Panics \<Rightarrow> Panics
           | Returns location \<Rightarrow> Returns (emit (Reply (ReplyLocation location)) d))
      | DtConnected _ relay_location \<Rightarrow>
          Returns (case di_geo io of
             Inr fetched \<Rightarrow>
               emit (Reply (ReplyLocation (Some
                 ((case relay_location of Some l \<Rightarrow> l | None \<Rightarrow> fetched)
                    \<lparr>geo_ipv4 := geo_ipv4 fetched, geo_ipv6 := geo_ipv6 fetched\<rparr>)))) d
           | Inl _ \<Rightarrow> d)
      | DtBlocked _ \<Rightarrow> Returns (emit (Reply (ReplyLocation None)) d))"

definition on_set_account :: "'g daemon_env \<Rightarrow> daemon_io \<Rightarrow> string option \<Rightarrow> 'g daemon \<Rightarrow> 'g daemon" where
  "on_set_account env io account_token d =
     (case change_settings env (di_settings io) (set_account_token account_token) d of
        (Inl _, d) \<Rightarrow> d
      | (Inr account_changed, d) \<Rightarrow>
          (let d = emit (Reply ReplyUnit) d
           in if account_changed
              then
                (let d = notify_settings (ensure_wireguard_keys_for_current_account env io d)
                 in case account_token of
                      Some token \<Rightarrow>
                        reconnect_tunnel (d\<lparr>dm_account_history :=
                          snd (bump_history (de_history env) (di_history2 io) token (dm_account_history d))\<rparr>)
                    | None \<Rightarrow> set_target_state Unsecured d)
              else d))"

definition on_remove_account_from_history ::
    "'g daemon_env \<Rightarrow> daemon_io \<Rightarrow> string \<Rightarrow> 'g daemon \<Rightarrow> 'g daemon" where
  "on_remove_account_from_history env io account_token d =
     (case remove_account (de_history env) (di_history io) account_token (dm_account_history d) of
        (Inr _, h) \<Rightarrow> emit (Reply ReplyUnit) (d\<lparr>dm_account_history := h\<rparr>)
      | (Inl _, h) \<Rightarrow> d\<lparr>dm_account_history := h\<rparr>)"

text \<open>The handlers that answer, announce changed settings and then act on the change.\<close>

definition on_changed_settings ::
    "'g daemon_env \<Rightarrow> daemon_io \<Rightarrow> setter \<Rightarrow> ('g daemon \<Rightarrow> 'g daemon) \<Rightarrow> 'g daemon \<Rightarrow> 'g daemon" where
  "on_changed_settings env io setter act d =
     (case change_settings env (di_settings io) setter d of
        (Inl _, d) \<Rightarrow> d
      | (Inr settings_changed, d) \<Rightarrow>
          (let d = emit (Reply ReplyUnit) d
           in if settings_changed then act (notify_settings d) else d))"

definition on_update_relay_settings ::
    "'g daemon_env \<Rightarrow> daemon_io \<Rightarrow> relay_settings_update \<Rightarrow> 'g daemon \<Rightarrow> 'g daemon" where
  "on_update_relay_settings env io update =
     on_changed_settings env io (update_relay_settings update) reconnect_tunnel"

definition on_set_allow_lan :: "'g daemon_env \<Rightarrow> daemon_io \<Rightarrow> bool \<Rightarrow> 'g daemon \<Rightarrow> 'g daemon" where
  "on_set_allow_lan env io allow_lan =
     on_changed_settings env io (set_allow_lan allow_lan) (send_tunnel_command (CmdAllowLan allow_lan))"

definition on_set_block_when_disconnected ::
    "'g daemon_env \<Rightarrow> daemon_io \<Rightarrow> bool \<Rightarrow> 'g daemon \<Rightarrow> 'g daemon" where
  "on_set_block_when_disconnected env io b =
     on_changed_settings env io (set_block_when_disconnected b)
       (send_tunnel_command (CmdBlockWhenDisconnected b))"

definition on_set_auto_connect :: "'g daemon_env \<Rightarrow> daemon_io \<Rightarrow> bool \<Rightarrow> 'g daemon \<Rightarrow> 'g daemon" where
  "on_set_auto_connect env io auto_connect =
     on_changed_settings env io (set_auto_connect auto_connect) id"

definition on_set_openvpn_mssfix ::
    "'g daemon_env \<Rightarrow> daemon_io \<Rightarrow> u16 option \<Rightarrow> 'g daemon \<Rightarrow> 'g daemon" where
  "on_set_openvpn_mssfix env io mssfix_arg =
     on_changed_settings env io (set_openvpn_mssfix mssfix_arg) reconnect_tunnel"

definition on_set_enable_ipv6 :: "'g daemon_env \<Rightarrow> daemon_io \<Rightarrow> bool \<Rightarrow> 'g daemon \<Rightarrow> 'g daemon" where
  "on_set_enable_ipv6 env io b =
     on_changed_settings env io (set_enable_ipv6 b) reconnect_tunnel"

definition on_set_wireguard_mtu ::
    "'g daemon_env \<Rightarrow> daemon_io \<Rightarrow> u16 option \<Rightarrow> 'g daemon \<Rightarrow> 'g daemon" where
  "on_set_wireguard_mtu env io mtu =
     on_changed_settings env io (set_wireguard_mtu mtu) reconnect_tunnel"

definition on_set_bridge_settings ::
    "'g daemon_env \<Rightarrow> daemon_io \<Rightarrow> bridge_settings \<Rightarrow> 'g daemon \<Rightarrow> 'g daemon" where
  "on_set_bridge_settings env io new_settings d =
     (case change_settings env (di_settings io) (set_bridge_settings new_settings) d of
        (Inr settings_changed, d) \<Rightarrow>
          emit (Reply (ReplyBridge (Inr ())))
            (if settings_changed then reconnect_tunnel (notify_settings d) else d)
      | (Inl e, d) \<Rightarrow> emit (Reply (ReplyBridge (Inl e))) d)"

definition apply_proxy_constraints ::
    "'g daemon_env \<Rightarrow> settings_io \<Rightarrow> 'g daemon \<Rightarrow> (settings_error + bool) \<times> 'g daemon" where
  "apply_proxy_constraints env io d =
     change_settings env io
       (update_relay_settings (UpdateNormal
          \<lparr>ru_location = None, ru_tunnel_protocol = Some (Only ProtoOpenVpn),
           ru_wireguard_constraints = None,
           ru_openvpn_constraints = Some \<lparr>oc_port = Any, oc_protocol = Only Tcp\<rparr>\<rparr>)) d"

definition on_set_bridge_state ::
    "'g daemon_env \<Rightarrow> daemon_io \<Rightarrow> bridge_state \<Rightarrow> 'g daemon \<Rightarrow> 'g daemon" where
  "on_set_bridge_state env io bridge_state d =
     (case change_settings env (di_settings io) (set_bridge_state bridge_state) d of
        (Inr settings_changed, d) \<Rightarrow>
          emit (Reply (ReplyBridge (Inr ())))
            (if settings_changed
             then
               (let d = (if bridge_state = BridgeOn
                         then snd (apply_proxy_constraints env (di_settings2 io) d) else d)
                in reconnect_tunnel (notify_settings d))
             else d)
      | (Inl e, d) \<Rightarrow> emit (Reply (ReplyBridge (Inl e))) d)"

fun platform_name :: "target_os \<Rightarrow> string" where
  "platform_name Linux = ''linux''"
| "platform_name MacOs = ''macos''"
| "platform_name Windows = ''windows''"
| "platform_name Android = ''android''"

text \<open>
  The reset also pushes a callback that clears directories at the end; it remembers whether
  something had failed before.  The answer is sent by that callback.
\<close>

definition on_factory_reset :: "'g daemon_env \<Rightarrow> daemon_io \<Rightarrow> 'g daemon \<Rightarrow> 'g daemon" where
  "on_factory_reset env io d =
     (case settings_reset (de_settings env) (di_settings io) (dm_files d) of
        (r1, s, files) \<Rightarrow>
          (case history_clear (de_history env) (di_history io) (dm_account_history d) of
             (r2, h) \<Rightarrow>
               (let failed = (\<not> is_ok r1 \<or> \<not> is_ok r2);
                    d = d\<lparr>dm_settings := s, dm_files := files, dm_account_history := h\<rparr>;
                    d = trigger_shutdown_event d
                in d\<lparr>dm_shutdown_callbacks := dm_shutdown_callbacks d @ [failed]\<rparr>)))"

fun run_management_command ::
    "'g daemon_env \<Rightarrow> daemon_io \<Rightarrow> management_command \<Rightarrow> 'g daemon \<Rightarrow> 'g daemon panics" where
  "run_management_command env io (SetTargetState s) d = Returns (on_set_target_state s d)"
| "run_management_command env io GetState d = Returns (emit (Reply (ReplyState (dm_tunnel_state d))) d)"
| "run_management_command env io GetCurrentLocation d = on_get_current_location io d"
| "run_management_command env io (GetAccountData t) d = Returns (emit (Reply (ReplyAccountData t)) d)"
| "run_management_command env io GetRelayLocations d =
     Returns (emit (Reply (ReplyRelayLocations (get_locations (dm_relay_selector d)))) d)"
| "run_management_command env io UpdateRelayLocations d = Returns (emit RelayListUpdate d)"
| "run_management_command env io (SetAccount t) d = Returns (on_set_account env io t d)"
| "run_management_command env io GetAccountHistory d =
     Returns (emit (Reply (ReplyAccountHistory (get_account_history (dm_account_history d)))) d)"
| "run_management_command env io (RemoveAccountFromHistory t) d =
     Returns (on_remove_account_from_history env io t d)"
| "run_management_command env io (UpdateRelaySettings u) d =
     Returns (on_update_relay_settings env io u d)"
| "run_management_command env io (SetAllowLan b) d = Returns (on_set_allow_lan env io b d)"
| "run_management_command env io (SetBlockWhenDisconnected b) d =
     Returns (on_set_block_when_disconnected env io b d)"
| "run_management_command env io (SetAutoConnect b) d = Returns (on_set_auto_connect env io b d)"
| "run_management_command env io (SetOpenVpnMssfix v) d = Returns (on_set_openvpn_mssfix env io v d)"
| "run_management_command env io (SetBridgeSettings b) d = Returns (on_set_bridge_settings env io b d)"
| "run_management_command env io (SetBridgeState b) d = Returns (on_set_bridge_state env io b d)"
| "run_management_command env io (SetEnableIpv6 b) d = Returns (on_set_enable_ipv6 env io b d)"
| "run_management_command env io (SetWireguardMtu v) d = Returns (on_set_wireguard_mtu env io v d)"
| "run_management_command env io GetSettings d = Returns (emit (Reply (ReplySettings (dm_settings d))) d)"
| "run_management_command env io GenerateWireguardKey d = Returns (on_generate_wireguard_key env io d)"
| "run_management_command env io GetWireguardKey d = Returns (on_get_wireguard_key env io d)"
| "run_management_command env io VerifyWireguardKey d = Returns (on_verify_wireguard_key env io d)"
| "run_management_command env io GetVersionInfo d =
     Returns (emit (Reply (ReplyVersionInfo (dm_version d) (platform_name (de_os env)))) d)"
| "run_management_command env io GetCurrentVersion d = Returns (emit (Reply (ReplyVersion (dm_version d))) d)"
| "run_management_command env io FactoryReset d =
     Returns (if de_os env = Android then d else on_factory_reset env io d)"
| "run_management_command env io Shutdown d = Returns (trigger_shutdown_event d)"

definition handle_management_interface_event ::
    "'g daemon_env \<Rightarrow> daemon_io \<Rightarrow> management_command \<Rightarrow> 'g daemon \<Rightarrow> 'g daemon panics" where
  "handle_management_interface_event env io c d =
     (if \<not> is_running (dm_state d) then Returns d else run_management_command env io c d)"

section \<open>Clearing directories\<close>

text \<open>On Windows the entries of a directory: reading one fails, its type fails, or removing it does.\<close>

datatype entry_outcome = EntryFails | EntryTypeFails | EntryRemoveFails string | EntryRemoved

fun clear_entries :: "entry_outcome list \<Rightarrow> daemon_error + unit" where
  "clear_entries [] = Inr ()"
| "clear_entries (EntryFails # es) = Inl FileEntryError"
| "clear_entries (EntryTypeFails # es) = Inl FileTypeError"
| "clear_entries (EntryRemoveFails path # es) = Inl (RemoveDirError path)"
| "clear_entries (EntryRemoved # es) = clear_entries es"

record dir_outcome =
  do_path :: "string option"
  do_remove_ok :: bool
  do_create_ok :: bool
  do_entries :: "entry_outcome list option"

definition clear_directory :: "target_os \<Rightarrow> dir_outcome \<Rightarrow> daemon_error + unit" where
  "clear_directory os dir =
     (case do_path dir of
        None \<Rightarrow> Inl PathError
      | Some path \<Rightarrow>
          if os = Windows
          then (case do_entries dir of None \<Rightarrow> Inl ReadDirError | Some es \<Rightarrow> clear_entries es)
          else if \<not> do_remove_ok dir then Inl (RemoveDirError path)
          else if \<not> do_create_ok dir then Inl (CreateDirError path)
          else Inr ())"

text \<open>\<open>finalize\<close>: the callbacks in order; each answers its client when nothing failed.\<close>

fun run_shutdown_callbacks ::
    "target_os \<Rightarrow> bool list \<Rightarrow> (dir_outcome \<times> dir_outcome) list \<Rightarrow> reply list" where
  "run_shutdown_callbacks os (failed # cbs) ((cache, logs) # ds) =
     (if \<not> failed \<and> is_ok (clear_directory os cache) \<and> is_ok (clear_directory os logs)
      then [ReplyUnit] else []) @ run_shutdown_callbacks os cbs ds"
| "run_shutdown_callbacks os _ _ = []"

definition daemon_finalize ::
    "'g daemon_env \<Rightarrow> (dir_outcome \<times> dir_outcome) list \<Rightarrow> 'g daemon \<Rightarrow> 'g daemon" where
  "daemon_finalize env dirs d =
     d\<lparr>dm_effects := dm_effects d @
         map Reply (run_shutdown_callbacks (de_os env) (dm_shutdown_callbacks d) dirs)\<rparr>"

section \<open>The event loop\<close>

fun daemon_handle_event :: "'g daemon_env \<Rightarrow> daemon_io \<Rightarrow> internal_event \<Rightarrow> 'g daemon
    \<Rightarrow> (daemon_error option \<times> 'g daemon) panics" where
  "daemon_handle_event env io (EventTunnelStateTransition tr) d =
     (case handle_tunnel_state_transition tr d of Panics \<Rightarrow> Panics | Returns d \<Rightarrow> Returns (None, d))"
| "daemon_handle_event env io (EventGenerateTunnelParameters n) d =
     (case handle_generate_tunnel_parameters env io n d of Panics \<Rightarrow> Panics | Returns d \<Rightarrow> Returns (None, d))"
| "daemon_handle_event env io (EventManagementCommand c) d =
     (case handle_management_interface_event env io c d of Panics \<Rightarrow> Panics | Returns d \<Rightarrow> Returns (None, d))"
| "daemon_handle_event env io EventManagementInterfaceExited d =
     Returns (Some ManagementInterfaceExitedError, d)"
| "daemon_handle_event env io EventTriggerShutdown d = Returns (None, trigger_shutdown_event d)"
| "daemon_handle_event env io (EventWgKey account result) d =
     Returns (None, handle_wireguard_key_event env io account result d)"

text \<open>
  The relays are shared with the updater, which may have replaced them since the last event.
\<close>

definition refresh_relays :: "daemon_io \<Rightarrow> 'g daemon \<Rightarrow> 'g daemon" where
  "refresh_relays io d =
     (case di_relays io of
        None \<Rightarrow> d
      | Some relays \<Rightarrow> d\<lparr>dm_relay_selector := (dm_relay_selector d)\<lparr>rs_parsed_relays := relays\<rparr>\<rparr>)"

text \<open>The loop over the events it receives; \<open>None\<close> when it is still waiting after the last one.\<close>

fun daemon_loop :: "'g daemon_env \<Rightarrow> (daemon_io \<times> internal_event) list \<Rightarrow> 'g daemon
    \<Rightarrow> ((daemon_error + unit) option \<times> 'g daemon) panics" where
  "daemon_loop env [] d = Returns (None, d)"
| "daemon_loop env ((io, e) # es) d =
     (case daemon_handle_event env io e (refresh_relays io d) of
        Panics \<Rightarrow> Panics
      | Returns (Some err, d) \<Rightarrow> Returns (Some (Inl err), d)
      | Returns (None, d) \<Rightarrow>
          if dm_state d = ExecFinished then Returns (Some (Inr ()), d)
          else daemon_loop env es d)"

definition daemon_auto_connect :: "'g daemon \<Rightarrow> 'g daemon" where
  "daemon_auto_connect d =
     (if st_auto_connect (dm_settings d) \<and> st_account_token (dm_settings d) \<noteq> None
      then set_target_state Secured d else d)"

definition daemon_run :: "'g daemon_env \<Rightarrow> (daemon_io \<times> internal_event) list
    \<Rightarrow> (dir_outcome \<times> dir_outcome) list \<Rightarrow> 'g daemon
    \<Rightarrow> ((daemon_error + unit) option \<times> 'g daemon) panics" where
  "daemon_run env es dirs d =
     (case daemon_loop env es (daemon_auto_connect d) of
        Panics \<Rightarrow> Panics
      | Returns (Some (Inr _), d) \<Rightarrow> Returns (Some (Inr ()), daemon_finalize env dirs d)
      | Returns (r, d) \<Rightarrow> Returns (r, d))"

text \<open>
  Two sends of the handlers expect a receiver: \<open>send_tunnel_command\<close> the tunnel state machine, and
  \<open>RelaySelector::update\<close> the thread that updates the relay list.  A handler that sends to a thread that
  has stopped panics there.  What a handler sends is the end of \<open>dm_effects\<close> it adds; which threads still
  receive is given for every event.
\<close>

record threads =
  th_tunnel_state_machine :: bool
  th_relay_updater :: bool

fun receives :: "threads \<Rightarrow> daemon_effect \<Rightarrow> bool" where
  "receives th (TunnelCommand _) = th_tunnel_state_machine th"
| "receives th RelayListUpdate = th_relay_updater th"
| "receives th _ = True"

definition all_received :: "threads \<Rightarrow> 'g daemon \<Rightarrow> 'g daemon \<Rightarrow> bool" where
  "all_received th d d' = list_all (receives th) (drop (length (dm_effects d)) (dm_effects d'))"

fun daemon_loop_on :: "'g daemon_env \<Rightarrow> (threads \<times> daemon_io \<times> internal_event) list \<Rightarrow> 'g daemon
    \<Rightarrow> ((daemon_error + unit) option \<times> 'g daemon) panics" where
  "daemon_loop_on env [] d = Returns (None, d)"
| "daemon_loop_on env ((th, io, e) # es) d =
     (case daemon_handle_event env io e (refresh_relays io d) of
        Panics \<Rightarrow> Panics
      | Returns (err, d') \<Rightarrow>
          if \<not> all_received th d d' then Panics
          else (case err of
                  Some err \<Rightarrow> Returns (Some (Inl err), d')
                | None \<Rightarrow>
                    if dm_state d' = ExecFinished then Returns (Some (Inr ()), d')
                    else daemon_loop_on env es d'))"

definition daemon_run_on :: "'g daemon_env \<Rightarrow> threads \<Rightarrow> (threads \<times> daemon_io \<times> internal_event) list
    \<Rightarrow> (dir_outcome \<times> dir_outcome) list \<Rightarrow> 'g daemon
    \<Rightarrow> ((daemon_error + unit) option \<times> 'g daemon) panics" where
  "daemon_run_on env th es dirs d =
     (let d' = daemon_auto_connect d
      in if \<not> all_received th d d' then Panics
         else case daemon_loop_on env es d' of
                Panics \<Rightarrow> Panics
              | Returns (Some (Inr _), d) \<Rightarrow> Returns (Some (Inr ()), daemon_finalize env dirs d)
              | Returns (r, d) \<Rightarrow> Returns (r, d))"

text \<open>
  \<open>start_internal\<close>: the clients of the API and the state machine are created, the settings, relays
  and account history are loaded, and a WireGuard key is generated if the account has none.
\<close>

definition start_internal ::
    "'g daemon_env \<Rightarrow> daemon_io \<Rightarrow> bool \<Rightarrow> bool \<Rightarrow> bool \<Rightarrow> 'g relay_selector \<Rightarrow> settings \<times> files
      \<Rightarrow> history_error + account_history \<Rightarrow> (bool \<Rightarrow> bool \<Rightarrow> tsm_error + unit) \<Rightarrow> string
      \<Rightarrow> daemon_error + 'g daemon" where
  "start_internal env io event_loop_ok rpc_ok https_ok selector loaded history spawn version =
     (if \<not> event_loop_ok then Inl InitIoEventLoop
      else if \<not> rpc_ok then Inl InitRpcClient
      else if \<not> https_ok then Inl InitHttpsClient
      else
        (case loaded of
           (settings, files) \<Rightarrow>
             (case history of
                Inl e \<Rightarrow> Inl (LoadAccountHistory e)
              | Inr account_history \<Rightarrow>
                  (case spawn (st_allow_lan settings) (st_block_when_disconnected settings) of
                     Inl e \<Rightarrow> Inl (TunnelError e)
                   | Inr _ \<Rightarrow>
                       Inr (ensure_wireguard_keys_for_current_account env io
                         \<lparr>dm_tunnel_state = DtDisconnected, dm_target_state = Unsecured,
                          dm_state = ExecRunning, dm_reconnect = False, dm_settings = settings,
                          dm_files = files, dm_account_history = account_history,
                          dm_key_manager = key_manager_new, dm_relay_selector = selector,
                          dm_last_generated_relay = None, dm_last_generated_bridge_relay = None,
                          dm_version = version, dm_shutdown_callbacks = [],
                          dm_effects = [RelayListUpdate]\<rparr>)))))"

text \<open>\<open>Daemon::start\<close> of the desktop: refused when another instance answers on the socket.\<close>

definition daemon_start ::
    "bool \<Rightarrow> bool \<Rightarrow> (unit \<Rightarrow> daemon_error + 'g daemon) \<Rightarrow> daemon_error + 'g daemon" where
  "daemon_start another_instance_running interface_ok start =
     (if another_instance_running then Inl DaemonIsAlreadyRunning
      else if \<not> interface_ok then Inl StartManagementInterface
      else start ())"

end
