(* ===== verification/Relay_Selector_Proofs.thy ===== *)
theory Relay_Selector_Proofs
  imports Relay_Selector "HOL-Library.Multiset"
begin

text \<open>
  Lemmas on the relay selector: weights and the draws that select a relay, the ports of a WireGuard
  relay against the list of all ports, and endpoints against the constraints of the user.  The
  contract of the crate \<open>rand\<close> is the locale \<open>random_source\<close>.
\<close>

section \<open>The random number generator\<close>

locale random_source =
  fixes rng :: "'g rng"
  assumes u64_range: "low < high \<Longrightarrow>
      low \<le> fst (rng_u64 rng low high g) \<and> fst (rng_u64 rng low high g) < high"
    and index_range: "0 < n \<Longrightarrow> fst (rng_index rng n g) < n"
begin

lemma gen_range_cases:
  assumes "low < high"
  obtains i g' where "rng_u64 rng low high g = (i, g')" "low \<le> i" "i < high"
    "gen_range rng low high g = Returns (i, g')"
proof -
  obtain i g' where eq: "rng_u64 rng low high g = (i, g')" by fastforce
  with u64_range [OF assms, of g] assms show thesis
    by (intro that [of i g']) (simp_all add: gen_range_def)
qed

lemma slice_choose_cases:
  obtains "xs = []" "slice_choose rng xs g = (None, g)"
  | x g' where "x \<in> set xs" "slice_choose rng xs g = (Some x, g')"
proof (cases "xs = []")
  case True
  then show thesis using that(1) by (simp add: slice_choose_def)
next
  case False
  obtain i g' where eq: "rng_index rng (length xs) g = (i, g')" by fastforce
  have "i < length xs" using index_range [of "length xs" g] eq False by simp
  with False eq show thesis
    by (intro that(2) [of "xs ! i" g']) (simp_all add: slice_choose_def)
qed

end

text \<open>
  A generator that plays back a given sequence of raw words, reduced to the requested range: every
  sequence of outcomes of a generator within its contract is one of these.
\<close>

definition scripted_rng :: "u64 list rng" where
  "scripted_rng =
     \<lparr>rng_u64 = \<lambda>low high g. (low + (case g of [] \<Rightarrow> 0 | x # _ \<Rightarrow> x mod (high - low)), tl g),
      rng_index = \<lambda>n g. ((case g of [] \<Rightarrow> 0 | x # _ \<Rightarrow> unat x mod n), tl g)\<rparr>"

lemma word_offset_in_range:
  fixes low high d :: "'a::len word"
  assumes "low < high" and "d < high - low"
  shows "low \<le> low + d \<and> low + d < high"
proof -
  from assms have lt: "unat d < unat high - unat low"
    by (simp add: word_less_nat_alt unat_sub word_le_nat_alt less_imp_le)
  moreover have bound: "unat high < 2 ^ LENGTH('a)" by (rule unsigned_less)
  ultimately have "unat (low + d) = unat low + unat d"
    using bound by (intro unat_add_lem [THEN iffD1]) linarith
  with lt show ?thesis by (simp add: word_le_nat_alt word_less_nat_alt)
qed

interpretation scripted: random_source scripted_rng
proof
  fix low high :: u64 and g
  assume lt: "low < high"
  then have pos: "0 < high - low" by (simp add: word_gt_0)
  show "low \<le> fst (rng_u64 scripted_rng low high g) \<and> fst (rng_u64 scripted_rng low high g) < high"
    using lt pos word_offset_in_range [OF lt, of "hd g mod (high - low)"]
    by (cases g) (simp_all add: scripted_rng_def word_mod_less_divisor)
next
  fix n :: nat and g
  assume "0 < n"
  then show "fst (rng_index scripted_rng n g) < n"
    by (cases g) (simp_all add: scripted_rng_def)
qed

section \<open>Weights\<close>

declare sum_list_eq_0_iff [simp del]

definition weight_before :: "relay list \<Rightarrow> nat \<Rightarrow> nat" where
  "weight_before relays k = sum_list (map (unat \<circ> r_weight) (take k relays))"

abbreviation total_weight :: "relay list \<Rightarrow> nat" where
  "total_weight relays \<equiv> sum_list (map (unat \<circ> r_weight) relays)"

text \<open>The draws that select the relay at position \<open>k\<close>.\<close>

definition draw_selects :: "relay list \<Rightarrow> nat \<Rightarrow> nat \<Rightarrow> bool" where
  "draw_selects relays i k \<longleftrightarrow>
     k < length relays \<and> i \<le> weight_before relays (Suc k) \<and>
     (weight_before relays k < i \<or> (i = 0 \<and> k = 0))"

lemma weight_before_simps [simp]:
  "weight_before relays 0 = 0"
  "weight_before (r # relays) (Suc k) = unat (r_weight r) + weight_before relays k"
  by (simp_all add: weight_before_def)

lemma weight_before_Suc:
  "k < length relays \<Longrightarrow>
     weight_before relays (Suc k) = weight_before relays k + unat (r_weight (relays ! k))"
  by (simp add: weight_before_def take_Suc_conv_app_nth)

lemma find_by_weight_selects:
  "draw_selects relays (unat i) k \<Longrightarrow> find_by_weight relays i = Some (relays ! k)"
proof (induction relays arbitrary: i k)
  case Nil
  then show ?case by (simp add: draw_selects_def)
next
  case (Cons r relays)
  show ?case
  proof (cases k)
    case 0
    with Cons.prems have "i \<le> r_weight r"
      by (simp add: draw_selects_def word_le_nat_alt)
    with 0 show ?thesis by (simp add: saturating_sub_eq_0 Let_def)
  next
    case (Suc k')
    let ?i = "saturating_sub i (r_weight r)"
    from Suc Cons.prems have gt: "unat (r_weight r) < unat i"
      by (auto simp: draw_selects_def)
    then have "draw_selects relays (unat ?i) k'"
      using Suc Cons.prems by (auto simp: draw_selects_def saturating_sub_unat)
    then have "find_by_weight relays ?i = Some (relays ! k')" by (rule Cons.IH)
    with gt Suc show ?thesis
      by (simp add: Let_def saturating_sub_eq_0 word_le_nat_alt)
  qed
qed

lemma draw_selects_ex:
  assumes "relays \<noteq> []" and "i \<le> total_weight relays"
  shows "\<exists>k. draw_selects relays i k"
  using assms
proof (induction relays arbitrary: i)
  case (Cons r relays)
  show ?case
  proof (cases "i \<le> unat (r_weight r)")
    case True
    then have "draw_selects (r # relays) i 0" by (auto simp: draw_selects_def)
    then show ?thesis ..
  next
    case False
    with Cons.prems have "relays \<noteq> []" by auto
    with False Cons.prems have "\<exists>k. draw_selects relays (i - unat (r_weight r)) k"
      by (intro Cons.IH) auto
    then obtain k where "draw_selects relays (i - unat (r_weight r)) k" ..
    with False have "draw_selects (r # relays) i (Suc k)"
      by (auto simp: draw_selects_def)
    then show ?thesis ..
  qed
qed simp

lemma weight_before_le_total: "weight_before relays k \<le> total_weight relays"
proof -
  have "total_weight relays = weight_before relays k + sum_list (map (unat \<circ> r_weight) (drop k relays))"
    unfolding weight_before_def
    by (simp flip: sum_list_append map_append)
  then show ?thesis by simp
qed

lemma card_draw_selects:
  assumes "k < length relays"
  shows "card {i. i \<le> total_weight relays \<and> draw_selects relays i k} =
    unat (r_weight (relays ! k)) + (if k = 0 then 1 else 0)"
proof -
  have le: "weight_before relays (Suc k) \<le> total_weight relays" by (rule weight_before_le_total)
  have "{i. i \<le> total_weight relays \<and> draw_selects relays i k} =
    (if k = 0 then {0 .. weight_before relays (Suc k)}
     else {weight_before relays k <.. weight_before relays (Suc k)})"
    using le assms by (auto simp: draw_selects_def)
  then show ?thesis
    using assms weight_before_Suc [of k relays] by (auto split: if_splits)
qed

lemma unat_add_le: "unat (a + b) \<le> unat a + unat (b :: 'a::len word)"
  by (simp add: unat_word_ariths)

lemma unat_sum_list_le: "unat (sum_list xs) \<le> sum_list (map unat (xs :: 'a::len word list))"
  by (induction xs) (auto intro: order.trans [OF unat_add_le])

lemma unat_sum_list:
  "sum_list (map unat xs) < 2 ^ LENGTH('a) \<Longrightarrow> unat (sum_list (xs :: 'a::len word list)) = sum_list (map unat xs)"
proof (induction xs)
  case (Cons x xs)
  then have "unat (sum_list xs) = sum_list (map unat xs)" by simp
  with Cons.prems show ?case by (simp add: unat_word_ariths)
qed simp

lemma unat_total_weight:
  "total_weight relays < 2 ^ 64 \<Longrightarrow> unat (sum_list (map r_weight relays)) = total_weight relays"
  using unat_sum_list [of "map r_weight relays"] by (simp add: comp_def)

lemma pick_random_relay_none:
  assumes "total_weight relays = 0"
  shows "pick_random_relay rng relays g = Returns (None, g)"
proof -
  have "unat (sum_list (map r_weight relays)) = 0"
    using assms unat_total_weight [of relays] by simp
  then have "sum_list (map r_weight relays) = 0" by (simp add: unat_eq_zero)
  then show ?thesis by (simp add: pick_random_relay_def)
qed

context random_source
begin

lemma pick_random_relay_draw:
  assumes bound: "total_weight relays < 2 ^ 64 - 1" and pos: "0 < total_weight relays"
  obtains i g' k where "rng_u64 rng 0 (of_nat (total_weight relays) + 1) g = (i, g')"
    "draw_selects relays (unat i) k" "pick_random_relay rng relays g = Returns (Some (relays ! k), g')"
proof -
  let ?t = "sum_list (map r_weight relays)"
  have t: "unat ?t = total_weight relays" using bound by (intro unat_total_weight) simp
  then have t': "?t = of_nat (total_weight relays)" by (simp flip: t)
  have t1: "unat (?t + 1) = total_weight relays + 1"
    using t bound by (simp add: unat_word_ariths)
  then have "0 < ?t + 1" by (simp add: word_less_nat_alt)
  then obtain i g' where i: "rng_u64 rng 0 (?t + 1) g = (i, g')" "i < ?t + 1"
      "gen_range rng 0 (?t + 1) g = Returns (i, g')"
    by (rule gen_range_cases)
  have "unat i \<le> total_weight relays" using i(2) t1 by (simp add: word_less_nat_alt)
  moreover have "relays \<noteq> []" using pos by auto
  ultimately obtain k where k: "draw_selects relays (unat i) k" using draw_selects_ex by blast
  have "?t \<noteq> 0" using t pos by auto
  then have "pick_random_relay rng relays g = Returns (Some (relays ! k), g')"
    using find_by_weight_selects [OF k] i(3) by (simp add: pick_random_relay_def Let_def)
  with i(1) k t' show thesis by (intro that [of i g' k]) simp_all
qed

lemma pick_random_relay_cases:
  assumes bound: "total_weight relays < 2 ^ 64 - 1"
  obtains "total_weight relays = 0" "pick_random_relay rng relays g = Returns (None, g)"
  | r g' where "0 < total_weight relays" "r \<in> set relays"
      "pick_random_relay rng relays g = Returns (Some r, g')"
proof (cases "total_weight relays = 0")
  case True
  then show thesis by (intro that(1) pick_random_relay_none)
next
  case False
  then have pos: "0 < total_weight relays" by simp
  show thesis
  proof (rule pick_random_relay_draw [OF bound pos, of g])
    fix i g' k
    assume "draw_selects relays (unat i) k"
      and "pick_random_relay rng relays g = Returns (Some (relays ! k), g')"
    with pos show thesis
      by (intro that(2) [of "relays ! k" g']) (simp_all add: draw_selects_def)
  qed
qed

end

section \<open>Ports of a WireGuard relay\<close>

text \<open>The ports of a list of ranges, in order; \<open>u16\<close> arithmetic counts every range but the full one.\<close>

definition all_ports :: "(u16 \<times> u16) list \<Rightarrow> nat list" where
  "all_ports ranges = concat (map (\<lambda>r. [unat (fst r)..<Suc (unat (snd r))]) ranges)"

definition countable_range :: "u16 \<times> u16 \<Rightarrow> bool" where
  "countable_range r \<longleftrightarrow> fst r \<le> snd r \<and> r \<noteq> (0, 65535)"

lemma unat_get_port_amount:
  assumes "countable_range r"
  shows "unat (get_port_amount r) = Suc (unat (snd r)) - unat (fst r)"
proof -
  obtain a b where r: "r = (a, b)" by fastforce
  have ab: "unat a \<le> unat b" using assms r by (simp add: countable_range_def word_le_nat_alt)
  have b: "unat b < 65536" using unsigned_less [of b] by simp
  have "Suc (unat b) - unat a < 65536"
  proof (rule ccontr)
    assume "\<not> ?thesis"
    with b have "unat a = 0" "unat b = 65535" by auto
    then have "a = 0" "b = 65535" by (simp_all add: word_unat_eq_iff)
    with assms r show False by (simp add: countable_range_def)
  qed
  moreover have "1 + b - a = of_nat (Suc (unat b) - unat a)" using ab by (simp add: of_nat_diff)
  ultimately show ?thesis
    using r by (simp add: get_port_amount_def unsigned_ucast_eq unsigned_of_nat take_bit_nat_eq_self)
qed

lemma length_all_ports:
  "list_all countable_range ranges \<Longrightarrow>
     length (all_ports ranges) = sum_list (map (unat \<circ> get_port_amount) ranges)"
  by (induction ranges) (auto simp: all_ports_def unat_get_port_amount simp del: upt_Suc)

lemma port_at_index_returns:
  "unat i < sum_list (map (unat \<circ> get_port_amount) ranges) \<Longrightarrow> \<exists>p. port_at_index ranges i = Returns p"
  by (induction ranges arbitrary: i)
    (auto simp: Let_def word_less_nat_alt unat_sub_if_size)

lemma port_at_index_all_ports:
  "list_all countable_range ranges \<Longrightarrow> unat i < length (all_ports ranges) \<Longrightarrow>
     port_at_index ranges i = Returns (of_nat (all_ports ranges ! unat i))"
proof (induction ranges arbitrary: i)
  case (Cons r ranges)
  let ?n = "unat (get_port_amount r)"
  have n: "?n = Suc (unat (snd r)) - unat (fst r)"
    using Cons.prems by (intro unat_get_port_amount) simp
  have ports_eq: "all_ports (r # ranges) = [unat (fst r)..<Suc (unat (snd r))] @ all_ports ranges"
    by (simp add: all_ports_def)
  show ?case
  proof (cases "i < get_port_amount r")
    case True
    then have "unat i < Suc (unat (snd r)) - unat (fst r)" using n by (simp add: word_less_nat_alt)
    then have "all_ports (r # ranges) ! unat i = unat (fst r) + unat i"
      by (simp add: ports_eq nth_append del: upt_Suc)
    moreover have "(ucast i :: u16) = of_nat (unat i)" by simp
    ultimately show ?thesis using True by (simp add: Let_def add.commute)
  next
    case False
    then have ge: "?n \<le> unat i" by (simp add: word_less_nat_alt)
    then have i: "unat (i - get_port_amount r) = unat i - ?n" by (simp add: unat_sub_if_size)
    have nth: "all_ports (r # ranges) ! unat i = all_ports ranges ! (unat i - ?n)"
      using ge n by (simp add: ports_eq nth_append del: upt_Suc)
    have "unat (i - get_port_amount r) < length (all_ports ranges)"
      using Cons.prems(2) ge n by (simp add: i ports_eq del: upt_Suc)
    with Cons False i nth show ?thesis by (simp add: Let_def)
  qed
qed (simp add: all_ports_def)

lemma in_all_ports_iff:
  "p \<in> set (all_ports ranges) \<longleftrightarrow> (\<exists>r \<in> set ranges. unat (fst r) \<le> p \<and> p \<le> unat (snd r))"
  by (auto simp: all_ports_def)

context random_source
begin

lemma get_port_any:
  assumes "wc_port c = Any" and wf: "list_all countable_range (we_port_ranges d)"
    and bound: "length (all_ports (we_port_ranges d)) < 2 ^ 64"
  shows "get_port_for_wireguard_relay rng d c g =
    (let ports = all_ports (we_port_ranges d)
     in if ports = [] then Returns (None, g)
        else case rng_u64 rng 0 (of_nat (length ports)) g of
               (i, g') \<Rightarrow> Returns (Some (of_nat (ports ! unat i)), g')) \<and>
    (all_ports (we_port_ranges d) \<noteq> [] \<longrightarrow>
       unat (fst (rng_u64 rng 0 (of_nat (length (all_ports (we_port_ranges d)))) g))
         < length (all_ports (we_port_ranges d)))"
proof -
  let ?ports = "all_ports (we_port_ranges d)"
  let ?t = "sum_list (map get_port_amount (we_port_ranges d))"
  have t: "unat ?t = length ?ports"
    using bound unat_sum_list [of "map get_port_amount (we_port_ranges d)"]
    by (simp add: length_all_ports [OF wf] comp_def)
  then have t': "of_nat (length ?ports) = ?t" by (simp flip: t)
  show ?thesis
  proof (cases "?ports = []")
    case True
    with t have "?t = 0" by (simp add: unat_eq_zero)
    with True assms(1) show ?thesis
      by (simp add: get_port_for_wireguard_relay_def t' word_less_1 split: prod.splits)
  next
    case False
    with t have pos: "0 < ?t" by (simp add: word_less_nat_alt)
    then obtain i g' where i: "rng_u64 rng 0 ?t g = (i, g')" "i < ?t"
        "gen_range rng 0 ?t g = Returns (i, g')"
      by (rule gen_range_cases)
    then have lt: "unat i < length ?ports" using t by (simp add: word_less_nat_alt)
    have "\<not> ?t < 1" using pos by (simp add: word_less_1 word_gt_0)
    with False assms(1) i lt port_at_index_all_ports [OF wf lt] show ?thesis
      by (simp add: get_port_for_wireguard_relay_def t')
  qed
qed

lemma get_port_returns:
  "\<exists>p g'. get_port_for_wireguard_relay rng d c g = Returns (p, g')"
proof (cases "wc_port c")
  case Any
  let ?t = "sum_list (map get_port_amount (we_port_ranges d))"
  show ?thesis
  proof (cases "?t < 1")
    case True
    with Any show ?thesis by (simp add: get_port_for_wireguard_relay_def)
  next
    case False
    then have "0 < ?t" by (simp add: word_less_1 word_gt_0)
    then obtain i g' where i: "i < ?t" "gen_range rng 0 ?t g = Returns (i, g')"
      by (rule gen_range_cases)
    from i(1) have "unat i < sum_list (map (unat \<circ> get_port_amount) (we_port_ranges d))"
      using unat_sum_list_le [of "map get_port_amount (we_port_ranges d)"]
      by (simp add: word_less_nat_alt comp_def)
    then obtain p where "port_at_index (we_port_ranges d) i = Returns p"
      using port_at_index_returns by blast
    with Any False i show ?thesis by (simp add: get_port_for_wireguard_relay_def)
  qed
qed (simp add: get_port_for_wireguard_relay_def)

end

section \<open>Selected endpoints\<close>

definition port_ranges_ok :: "wireguard_endpoint_data \<Rightarrow> bool" where
  "port_ranges_ok d \<longleftrightarrow>
     list_all countable_range (we_port_ranges d) \<and> length (all_ports (we_port_ranges d)) < 2 ^ 64"

text \<open>
  The documentation of \<open>get_tunnel_endpoint\<close>: the endpoint is one of the relay, matching the given
  constraints, those of its tunnel protocol included.  A WireGuard port is one of the relay's ranges, if
  these can be counted.
\<close>

fun endpoint_satisfies :: "relay_constraints \<Rightarrow> relay \<Rightarrow> mullvad_endpoint \<Rightarrow> bool" where
  "endpoint_satisfies c r (MullvadOpenVpn ep) \<longleftrightarrow>
     constraint_matches (rc_tunnel_protocol c) ProtoOpenVpn \<and>
     (\<exists>d \<in> set (rt_openvpn (r_tunnels r)).
        ep = endpoint_new (V4 (r_ipv4_addr_in r)) (oe_port d) (oe_protocol d) \<and>
        openvpn_matches (rc_openvpn_constraints c) d)"
| "endpoint_satisfies c r (MullvadWireguard peer gateway4 gateway6) \<longleftrightarrow>
     constraint_matches (rc_tunnel_protocol c) ProtoWireguard \<and>
     (\<exists>d \<in> set (rt_wireguard (r_tunnels r)).
        peer_public_key peer = we_public_key d \<and> peer_allowed_ips peer = all_of_the_internet \<and>
        gateway4 = we_ipv4_gateway d \<and> gateway6 = we_ipv6_gateway d \<and>
        sa_ip (peer_endpoint peer) = V4 (r_ipv4_addr_in r) \<and>
        constraint_matches (wc_port (rc_wireguard_constraints c)) (sa_port (peer_endpoint peer)) \<and>
        (port_ranges_ok d \<longrightarrow>
           unat (sa_port (peer_endpoint peer)) \<in> set (all_ports (we_port_ranges d))))"

text \<open>
  With the tunnel protocol \<open>Any\<close> the code uses neither the OpenVPN nor the WireGuard constraints: the
  endpoint then matches only the rest of the constraints.  The tunnel is WireGuard if the user asks
  for it and on Android, OpenVPN otherwise.
\<close>

definition ignoring_tunnel_constraints :: "relay_constraints \<Rightarrow> relay_constraints" where
  "ignoring_tunnel_constraints c =
     c\<lparr>rc_openvpn_constraints := openvpn_constraints_default,
       rc_wireguard_constraints := wireguard_constraints_default\<rparr>"

definition constraints_used :: "relay_constraints \<Rightarrow> relay_constraints" where
  "constraints_used c = (if rc_tunnel_protocol c = Any then ignoring_tunnel_constraints c else c)"

fun tunnel_kind_ok :: "target_os \<Rightarrow> relay_constraints \<Rightarrow> mullvad_endpoint \<Rightarrow> bool" where
  "tunnel_kind_ok os c (MullvadOpenVpn _) \<longleftrightarrow> os \<noteq> Android"
| "tunnel_kind_ok os c (MullvadWireguard _ _ _) \<longleftrightarrow> os = Android \<or> rc_tunnel_protocol c = Only ProtoWireguard"

text \<open>What the draws give, in the terms of the code.\<close>

fun endpoint_chosen :: "target_os \<Rightarrow> relay_constraints \<Rightarrow> relay \<Rightarrow> mullvad_endpoint \<Rightarrow> bool" where
  "endpoint_chosen os c r (MullvadOpenVpn ep) \<longleftrightarrow>
     os \<noteq> Android \<and> rc_tunnel_protocol c \<noteq> Only ProtoWireguard \<and>
     (\<exists>d \<in> set (rt_openvpn (r_tunnels r)).
        ep = endpoint_new (V4 (r_ipv4_addr_in r)) (oe_port d) (oe_protocol d) \<and>
        (rc_tunnel_protocol c = Only ProtoOpenVpn \<longrightarrow> openvpn_matches (rc_openvpn_constraints c) d))"
| "endpoint_chosen os c r (MullvadWireguard peer gateway4 gateway6) \<longleftrightarrow>
     (rc_tunnel_protocol c = Only ProtoWireguard \<or> (os = Android \<and> rc_tunnel_protocol c = Any)) \<and>
     (\<exists>d \<in> set (rt_wireguard (r_tunnels r)).
        peer_public_key peer = we_public_key d \<and> peer_allowed_ips peer = all_of_the_internet \<and>
        gateway4 = we_ipv4_gateway d \<and> gateway6 = we_ipv6_gateway d \<and>
        sa_ip (peer_endpoint peer) = V4 (r_ipv4_addr_in r) \<and>
        (rc_tunnel_protocol c = Only ProtoWireguard \<longrightarrow>
           constraint_matches (wc_port (rc_wireguard_constraints c)) (sa_port (peer_endpoint peer))) \<and>
        (port_ranges_ok d \<longrightarrow>
           unat (sa_port (peer_endpoint peer)) \<in> set (all_ports (we_port_ranges d))))"

lemma endpoint_chosen_iff:
  "endpoint_chosen os c r e \<longleftrightarrow> tunnel_kind_ok os c e \<and> endpoint_satisfies (constraints_used c) r e"
proof (cases "rc_tunnel_protocol c")
  case Any
  then show ?thesis
    by (cases e) (auto simp: constraints_used_def ignoring_tunnel_constraints_def
        openvpn_constraints_default_def wireguard_constraints_default_def openvpn_matches_def)
next
  case (Only proto)
  then show ?thesis
    by (cases e; cases proto) (auto simp: constraints_used_def)
qed

lemma matching_relay_SomeD:
  assumes "matching_relay r c = Some r'"
  shows "relay_matches_location r (rc_location c)" "r_weight r' = r_weight r"
    "r_ipv4_addr_in r' = r_ipv4_addr_in r" "r' = r\<lparr>r_tunnels := r_tunnels r'\<rparr>"
    "rc_tunnel_protocol c = Only ProtoOpenVpn \<Longrightarrow>
       rt_openvpn (r_tunnels r') = filter (openvpn_matches (rc_openvpn_constraints c)) (rt_openvpn (r_tunnels r))"
    "rc_tunnel_protocol c = Only ProtoWireguard \<Longrightarrow>
       rt_wireguard (r_tunnels r') = filter (wireguard_matches (rc_wireguard_constraints c)) (rt_wireguard (r_tunnels r))"
    "rc_tunnel_protocol c = Any \<Longrightarrow> r' = r"
  using assms
  by (auto simp: matching_relay_def Let_def matching_openvpn_tunnels_def matching_wireguard_tunnels_def
      split: if_splits constraint.splits tunnel_protocol.splits)

lemma matching_relay_tunnels:
  assumes "matching_relay r c = Some r'"
  shows "set (rt_openvpn (r_tunnels r')) \<subseteq> set (rt_openvpn (r_tunnels r))"
    "set (rt_wireguard (r_tunnels r')) \<subseteq> set (rt_wireguard (r_tunnels r))"
  using assms
  by (auto simp: matching_relay_def Let_def matching_openvpn_tunnels_def matching_wireguard_tunnels_def
      split: if_splits constraint.splits tunnel_protocol.splits)

lemma total_weight_map_filter:
  "total_weight (List.map_filter (\<lambda>r. matching_relay r c) relays) \<le> total_weight relays"
  by (induction relays) (auto simp: matching_relay_SomeD(2) split: option.split)

context random_source
begin

lemma get_port_in_ranges:
  assumes "get_port_for_wireguard_relay rng d c g = Returns (Some p, g')" and "port_ranges_ok d"
  shows "unat p \<in> set (all_ports (we_port_ranges d))"
proof (cases "wc_port c")
  case Any
  let ?ports = "all_ports (we_port_ranges d)"
  have eq: "?ports \<noteq> []" "p = of_nat (?ports ! unat (fst (rng_u64 rng 0 (of_nat (length ?ports)) g)))"
      "unat (fst (rng_u64 rng 0 (of_nat (length ?ports)) g)) < length ?ports"
    using get_port_any [OF Any, of d g] assms
    by (auto simp: port_ranges_ok_def Let_def split: if_splits prod.splits)
  then have mem: "?ports ! unat (fst (rng_u64 rng 0 (of_nat (length ?ports)) g)) \<in> set ?ports" by simp
  moreover have "x < 65536" if "x \<in> set ?ports" for x
  proof -
    from that obtain r :: "u16 \<times> u16" where "x \<le> unat (snd r)" by (auto simp: in_all_ports_iff)
    moreover have "unat (snd r) < 65536" using unsigned_less [of "snd r"] by simp
    ultimately show ?thesis by simp
  qed
  ultimately show ?thesis using eq(2) by (simp add: unsigned_of_nat take_bit_nat_eq_self)
next
  case (Only port)
  with assms show ?thesis
    by (auto simp: get_port_for_wireguard_relay_def in_all_ports_iff list_ex_iff word_le_nat_alt
        split: if_splits)
qed

lemma get_port_constraint:
  "get_port_for_wireguard_relay rng d c g = Returns (Some p, g') \<Longrightarrow> constraint_matches (wc_port c) p"
  by (cases "wc_port c") (auto simp: get_port_for_wireguard_relay_def split: if_splits)

lemma random_openvpn_cases:
  obtains "rt_openvpn (r_tunnels r) = []" "random_openvpn rng r g = Returns (None, g)"
  | d g' where "d \<in> set (rt_openvpn (r_tunnels r))"
      "random_openvpn rng r g = Returns (Some (into_mullvad_endpoint d (V4 (r_ipv4_addr_in r))), g')"
  by (rule slice_choose_cases [of "rt_openvpn (r_tunnels r)" g]) (auto simp: random_openvpn_def)

lemma random_wireguard_cases:
  obtains g' where "random_wireguard rng r c g = Returns (None, g')"
      "rt_wireguard (r_tunnels r) = [] \<or>
       (\<exists>d \<in> set (rt_wireguard (r_tunnels r)). \<exists>g''. get_port_for_wireguard_relay rng d c g'' = Returns (None, g'))"
  | d p g'' g' where "d \<in> set (rt_wireguard (r_tunnels r))"
      "get_port_for_wireguard_relay rng d c g'' = Returns (Some p, g')"
      "random_wireguard rng r c g = Returns (Some (MullvadWireguard
         \<lparr>peer_public_key = we_public_key d, peer_allowed_ips = all_of_the_internet,
          peer_endpoint = \<lparr>sa_ip = V4 (r_ipv4_addr_in r), sa_port = p\<rparr>\<rparr>
         (we_ipv4_gateway d) (we_ipv6_gateway d)), g')"
proof (rule slice_choose_cases [of "rt_wireguard (r_tunnels r)" g])
  assume "rt_wireguard (r_tunnels r) = []" "slice_choose rng (rt_wireguard (r_tunnels r)) g = (None, g)"
  then show thesis by (intro that(1) [of g]) (simp_all add: random_wireguard_def)
next
  fix d g1
  assume d: "d \<in> set (rt_wireguard (r_tunnels r))"
    and ch: "slice_choose rng (rt_wireguard (r_tunnels r)) g = (Some d, g1)"
  obtain p g' where p: "get_port_for_wireguard_relay rng d c g1 = Returns (p, g')"
    using get_port_returns by blast
  show thesis
  proof (cases p)
    case None
    with d ch p show thesis
      by (intro that(1) [of g']) (auto simp: random_wireguard_def wg_data_to_endpoint_def)
  next
    case (Some port)
    with d ch p show thesis
      by (intro that(2) [of d g1 port g']) (simp_all add: random_wireguard_def wg_data_to_endpoint_def)
  qed
qed

lemma get_random_tunnel_returns: "\<exists>e g'. get_random_tunnel os rng r c g = Returns (e, g')"
proof -
  have "\<exists>e g'. random_openvpn rng r g = Returns (e, g')"
    by (rule random_openvpn_cases [of r g]) auto
  moreover have "\<exists>e g'. random_wireguard rng r w g = Returns (e, g')" for w
    by (rule random_wireguard_cases [of r w g]) auto
  ultimately show ?thesis
    by (auto simp: get_random_tunnel_def split: constraint.split tunnel_protocol.split)
qed

lemma random_openvpn_satisfies:
  assumes "random_openvpn rng r' g = Returns (Some e, g')" and "matching_relay r c = Some r'"
    and "os \<noteq> Android" and "rc_tunnel_protocol c \<noteq> Only ProtoWireguard"
  shows "endpoint_chosen os c r e"
proof (rule random_openvpn_cases [of r' g])
  fix d g''
  assume d: "d \<in> set (rt_openvpn (r_tunnels r'))"
    "random_openvpn rng r' g = Returns (Some (into_mullvad_endpoint d (V4 (r_ipv4_addr_in r'))), g'')"
  have "d \<in> set (rt_openvpn (r_tunnels r))" using d matching_relay_tunnels [OF assms(2)] by auto
  moreover have "rc_tunnel_protocol c = Only ProtoOpenVpn \<longrightarrow> openvpn_matches (rc_openvpn_constraints c) d"
    using d matching_relay_SomeD(5) [OF assms(2)] by auto
  ultimately show ?thesis using assms(1,3,4) d(2) matching_relay_SomeD(3) [OF assms(2)]
    by (auto simp: into_mullvad_endpoint_def intro!: bexI [of _ d])
qed (use assms in simp)

lemma random_wireguard_satisfies:
  assumes "random_wireguard rng r' w g = Returns (Some e, g')" and "matching_relay r c = Some r'"
    and "rc_tunnel_protocol c = Only ProtoWireguard \<and> w = rc_wireguard_constraints c \<or>
         os = Android \<and> rc_tunnel_protocol c = Any"
  shows "endpoint_chosen os c r e"
proof (rule random_wireguard_cases [of r' w g])
  fix d p g1 g2
  assume *: "d \<in> set (rt_wireguard (r_tunnels r'))"
      "get_port_for_wireguard_relay rng d w g1 = Returns (Some p, g2)"
      "random_wireguard rng r' w g = Returns (Some (MullvadWireguard
         \<lparr>peer_public_key = we_public_key d, peer_allowed_ips = all_of_the_internet,
          peer_endpoint = \<lparr>sa_ip = V4 (r_ipv4_addr_in r'), sa_port = p\<rparr>\<rparr>
         (we_ipv4_gateway d) (we_ipv6_gateway d)), g2)"
  have "d \<in> set (rt_wireguard (r_tunnels r))" using * matching_relay_tunnels [OF assms(2)] by auto
  moreover have "constraint_matches (wc_port w) p" using *(2) by (rule get_port_constraint)
  moreover have "port_ranges_ok d \<longrightarrow> unat p \<in> set (all_ports (we_port_ranges d))"
    using *(2) get_port_in_ranges by blast
  ultimately show ?thesis using assms(1,3) *(3) matching_relay_SomeD(3) [OF assms(2)]
    by (auto intro!: bexI [of _ d])
qed (use assms in simp)

lemma get_random_tunnel_satisfies:
  assumes "get_random_tunnel os rng r' c g = Returns (Some e, g')" and "matching_relay r c = Some r'"
  shows "endpoint_chosen os c r e"
  using assms random_openvpn_satisfies [OF _ assms(2)] random_wireguard_satisfies [OF _ assms(2)]
  by (auto simp: get_random_tunnel_def split: constraint.splits tunnel_protocol.splits if_splits)

lemma get_tunnel_endpoint_internal_cases:
  assumes bound: "total_weight relays < 2 ^ 64 - 1"
  obtains "total_weight (List.map_filter (\<lambda>r. matching_relay r c) relays) = 0"
      "get_tunnel_endpoint_internal os rng relays c g = Returns (None, g)"
  | r r' g1 g' where "r \<in> set relays" "matching_relay r c = Some r'"
      "get_random_tunnel os rng r' c g1 = Returns (None, g')"
      "get_tunnel_endpoint_internal os rng relays c g = Returns (None, g')"
  | r r' e g' where "r \<in> set relays" "matching_relay r c = Some r'" "endpoint_chosen os c r e"
      "get_tunnel_endpoint_internal os rng relays c g = Returns (Some (r', e), g')"
proof -
  let ?ms = "List.map_filter (\<lambda>r. matching_relay r c) relays"
  have "total_weight ?ms < 2 ^ 64 - 1" using total_weight_map_filter [of c relays] bound by linarith
  then show thesis
  proof (rule pick_random_relay_cases [of ?ms g])
    assume "total_weight ?ms = 0" "pick_random_relay rng ?ms g = Returns (None, g)"
    then show thesis by (intro that(1)) (simp_all add: get_tunnel_endpoint_internal_def)
  next
    fix r' g1
    assume r': "r' \<in> set ?ms" and pick: "pick_random_relay rng ?ms g = Returns (Some r', g1)"
    from r' obtain r where r: "r \<in> set relays" "matching_relay r c = Some r'"
      by (auto simp: set_map_filter)
    obtain e g' where e: "get_random_tunnel os rng r' c g1 = Returns (e, g')"
      using get_random_tunnel_returns by blast
    show thesis
    proof (cases e)
      case None
      with r e pick show thesis
        by (intro that(2) [of r r' g1 g']) (simp_all add: get_tunnel_endpoint_internal_def)
    next
      case (Some ep)
      with r e pick get_random_tunnel_satisfies [of os r' c g1 ep g' r] show thesis
        by (intro that(3) [of r r' ep g']) (simp_all add: get_tunnel_endpoint_internal_def)
    qed
  qed
qed

end

end
