(* ===== verification/Relay_Selector_Props.thy ===== *)
theory Relay_Selector_Props
  imports Relay_Selector_Proofs
begin

text \<open>
  The properties of the relay selector: a relay is drawn in proportion to its weight and a WireGuard
  port uniformly from the ports of the relay; the selected endpoint satisfies the constraints of the
  user, and one is found whenever a usable relay matches; the chosen bridge is the nearest; the
  updater announces exactly what it installs, and the cached list is read back after a restart.
\<close>

section \<open>Draws\<close>

text \<open>
  \<open>pick_random_relay\<close> returns \<open>None\<close> exactly when the relays have no weight, and otherwise never
  panics: a draw between 0 and the total weight selects the relay in whose share of the weights it
  lies.  The relay at position \<open>k\<close> is selected by as many draws as it has weight, the first relay by
  one more (the draw 0).\<close>

theorem pick_random_relay_weighted:
  assumes "random_source rng" and "total_weight relays < 2 ^ 64 - 1"
  shows "if total_weight relays = 0 then pick_random_relay rng relays g = Returns (None, g)
    else \<exists>i g' k. rng_u64 rng 0 (of_nat (total_weight relays) + 1) g = (i, g') \<and>
      draw_selects relays (unat i) k \<and>
      pick_random_relay rng relays g = Returns (Some (relays ! k), g') \<and>
      card {i. i \<le> total_weight relays \<and> draw_selects relays i k} =
        unat (r_weight (relays ! k)) + (if k = 0 then 1 else 0)"
proof (cases "total_weight relays = 0")
  case True
  then show ?thesis
    using random_source.pick_random_relay_cases [OF assms, of g] by auto
next
  case False
  then have pos: "0 < total_weight relays" by simp
  show ?thesis
  proof (rule random_source.pick_random_relay_draw [OF assms pos, of g])
    fix i g' k
    assume *: "rng_u64 rng 0 (of_nat (total_weight relays) + 1) g = (i, g')"
      "draw_selects relays (unat i) k"
      "pick_random_relay rng relays g = Returns (Some (relays ! k), g')"
    then have card: "card {i. i \<le> total_weight relays \<and> draw_selects relays i k} =
        unat (r_weight (relays ! k)) + (if k = 0 then 1 else 0)"
      by (intro card_draw_selects) (simp add: draw_selects_def)
    show ?thesis
      unfolding if_not_P [OF False]
      by (intro exI [of _ i] exI [of _ g'] exI [of _ k] conjI * card)
  qed
qed

definition sample_relay :: relay where
  "sample_relay =
     \<lparr>r_hostname = ''se1'', r_ipv4_addr_in = 5, r_include_in_country = True, r_weight = 2,
      r_tunnels = \<lparr>rt_openvpn = [\<lparr>oe_port = 443, oe_protocol = Tcp\<rparr>], rt_wireguard = []\<rparr>,
      r_bridges = \<lparr>rb_shadowsocks = [\<lparr>se_port = 9, se_cipher = ''c'', se_password = ''p'',
                                      se_protocol = Tcp\<rparr>]\<rparr>,
      r_location = None\<rparr>"

definition sample_list :: relay_list where
  "sample_list =
     \<lparr>rl_countries = [\<lparr>co_name = ''Sweden'', co_code = ''se'', co_cities =
        [\<lparr>ci_name = ''Malmo'', ci_code = ''mma'', ci_latitude = 0, ci_longitude = 0,
          ci_relays = [sample_relay]\<rparr>]\<rparr>]\<rparr>"

lemma unat_sample_weight: "total_weight [sample_relay] = 2"
  by (simp add: sample_relay_def)

text \<open>One relay of weight two and the draw 1.\<close>

theorem pick_random_relay_weighted_witness:
  "\<exists>g'. pick_random_relay scripted_rng [sample_relay] [1] = Returns (Some sample_relay, g')"
proof -
  have "total_weight [sample_relay] < 2 ^ 64 - 1" by (simp add: sample_relay_def)
  from pick_random_relay_weighted [OF scripted.random_source_axioms this, of "[1]"]
  obtain k g' where "draw_selects [sample_relay] (unat (1 :: u64)) k \<or> k < 1"
      "pick_random_relay scripted_rng [sample_relay] [1] = Returns (Some ([sample_relay] ! k), g')"
      "k < length [sample_relay]"
    unfolding unat_sample_weight by (auto simp: draw_selects_def)
  then show ?thesis by auto
qed

text \<open>
  C39.  Without a port constraint the port of a WireGuard relay is the entry at the drawn index of the
  list of all ports of its ranges, the index being drawn uniformly from that list: every port of the
  relay can be selected, no other can, and the \<open>panic!\<close> behind the loop is not reached.  With a port
  constraint it is that port if one of the ranges has it, and none otherwise.  Without a constraint
  this needs ranges that \<open>u16\<close> arithmetic can count: none is empty or 0 to 65535, and together they have fewer
  than \<open>2^64\<close> ports.  The arithmetic is the wrapping one of a release build; a debug build panics for a
  range that ends at 65535.\<close>

theorem wireguard_port_uniform:
  assumes "random_source rng" and "wc_port c = Any \<longrightarrow> port_ranges_ok d"
  shows "case wc_port c of
      Any \<Rightarrow>
        get_port_for_wireguard_relay rng d c g =
          (let ports = all_ports (we_port_ranges d)
           in if ports = [] then Returns (None, g)
              else case rng_u64 rng 0 (of_nat (length ports)) g of
                     (i, g') \<Rightarrow> Returns (Some (of_nat (ports ! unat i)), g')) \<and>
        (\<forall>p. p \<in> set (all_ports (we_port_ranges d)) \<longleftrightarrow>
           (\<exists>r \<in> set (we_port_ranges d). unat (fst r) \<le> p \<and> p \<le> unat (snd r)))
    | Only port \<Rightarrow>
        get_port_for_wireguard_relay rng d c g =
          Returns (if \<exists>r \<in> set (we_port_ranges d). fst r \<le> port \<and> port \<le> snd r then Some port else None, g)"
proof (cases "wc_port c")
  case Any
  with random_source.get_port_any [OF assms(1) Any, of d g] assms(2) show ?thesis
    by (simp add: port_ranges_ok_def in_all_ports_iff)
next
  case (Only port)
  then show ?thesis by (simp add: get_port_for_wireguard_relay_def list_ex_iff)
qed

definition sample_wireguard :: wireguard_endpoint_data where
  "sample_wireguard =
     \<lparr>we_port_ranges = [(10, 11), (65535, 65535)], we_ipv4_gateway = 1, we_ipv6_gateway = 1,
      we_public_key = PublicKey []\<rparr>"

lemma sample_wireguard_ports: "all_ports (we_port_ranges sample_wireguard) = [10, 11, 65535]"
  by (simp add: all_ports_def sample_wireguard_def upt_rec)

text \<open>Two ranges, the second at the top of the port space, and the draw 2.\<close>

theorem wireguard_port_uniform_witness:
  "get_port_for_wireguard_relay scripted_rng sample_wireguard \<lparr>wc_port = Any\<rparr> [2] =
     Returns (Some 65535, [])"
proof -
  have ok: "port_ranges_ok sample_wireguard"
    unfolding port_ranges_ok_def sample_wireguard_ports
    by (simp add: sample_wireguard_def countable_range_def)
  show ?thesis
    using wireguard_port_uniform [OF scripted.random_source_axioms, of "\<lparr>wc_port = Any\<rparr>" sample_wireguard "[2]"] ok
    by (simp add: sample_wireguard_ports scripted_rng_def Let_def)
qed

section \<open>Selecting an endpoint\<close>

lemma preferred_constraints_simps [simp]:
  "rc_location (preferred_constraints os c n) = rc_location c"
  "rc_tunnel_protocol (preferred_constraints os c n) = rc_tunnel_protocol c"
  by (simp_all add: preferred_constraints_def relay_constraints_default_def Let_def
      split: prod.split constraint.split tunnel_protocol.split)

lemma preferred_constraints_only:
  "rc_tunnel_protocol c = Only ProtoWireguard \<Longrightarrow>
     rc_wireguard_constraints (preferred_constraints os c n) = rc_wireguard_constraints c"
  "rc_tunnel_protocol c = Only ProtoOpenVpn \<Longrightarrow>
     rc_openvpn_constraints (preferred_constraints os c n) =
       (if os = Android then openvpn_constraints_default else rc_openvpn_constraints c)"
  by (simp_all add: preferred_constraints_def relay_constraints_default_def Let_def split: prod.split)

lemma endpoint_chosen_preferred:
  "endpoint_chosen os (preferred_constraints os c n) r e \<Longrightarrow> endpoint_chosen os c r e"
  by (cases e) (auto simp: preferred_constraints_only)

lemma matching_relay_cong:
  assumes "rc_location c = rc_location c'" and "rc_tunnel_protocol c = rc_tunnel_protocol c'"
    and "rc_tunnel_protocol c = Only ProtoWireguard \<Longrightarrow>
      rc_wireguard_constraints c = rc_wireguard_constraints c'"
    and "rc_tunnel_protocol c = Only ProtoOpenVpn \<Longrightarrow>
      rc_openvpn_constraints c = rc_openvpn_constraints c'"
  shows "matching_relay r c = matching_relay r c'"
    and "get_random_tunnel os rng r c g = get_random_tunnel os rng r c' g"
  using assms
  by (auto simp: matching_relay_def get_random_tunnel_def Let_def
      split: constraint.splits tunnel_protocol.splits)

lemma internal_cong:
  assumes "rc_location c = rc_location c'" and "rc_tunnel_protocol c = rc_tunnel_protocol c'"
    and "rc_tunnel_protocol c = Only ProtoWireguard \<Longrightarrow>
      rc_wireguard_constraints c = rc_wireguard_constraints c'"
    and "rc_tunnel_protocol c = Only ProtoOpenVpn \<Longrightarrow>
      rc_openvpn_constraints c = rc_openvpn_constraints c'"
  shows "get_tunnel_endpoint_internal os rng relays c g =
         get_tunnel_endpoint_internal os rng relays c' g"
  by (simp add: get_tunnel_endpoint_internal_def matching_relay_cong [OF assms]
      split: panics.split option.split prod.split)

lemma selector_endpoint_ok:
  fixes sel :: "'g relay_selector"
  assumes "random_source rng" and "total_weight (pr_relays (rs_parsed_relays sel)) < 2 ^ 64 - 1"
  shows "\<exists>res g'. selector_get_tunnel_endpoint os rng sel c n = Returns (res, sel\<lparr>rs_rng := g'\<rparr>) \<and>
    (case res of
       Inl e \<Rightarrow> e = NoRelay
     | Inr (r', e) \<Rightarrow>
         \<exists>r \<in> set (pr_relays (rs_parsed_relays sel)).
           relay_matches_location r (rc_location c) \<and> r' = r\<lparr>r_tunnels := r_tunnels r'\<rparr> \<and>
           endpoint_chosen os c r e)"
proof -
  let ?relays = "pr_relays (rs_parsed_relays sel)"
  define ok where "ok = (\<lambda>c' r' e. \<exists>r \<in> set ?relays. relay_matches_location r (rc_location c') \<and>
    r' = r\<lparr>r_tunnels := r_tunnels r'\<rparr> \<and> endpoint_chosen os c' r e)"
  have internal: "\<exists>res g'. get_tunnel_endpoint_internal os rng ?relays c' g = Returns (res, g') \<and>
      (\<forall>r' e. res = Some (r', e) \<longrightarrow> ok c' r' e)" for c' and g :: 'g
    unfolding ok_def
    by (rule random_source.get_tunnel_endpoint_internal_cases [OF assms, of c' os g])
      (auto dest: matching_relay_SomeD(1,4))
  have preferred: "ok c r' e" if "ok (preferred_constraints os c n) r' e" for r' e
    using that endpoint_chosen_preferred unfolding ok_def preferred_constraints_simps by blast
  obtain res1 g1 where 1: "get_tunnel_endpoint_internal os rng ?relays
        (preferred_constraints os c n) (rs_rng sel) = Returns (res1, g1)"
      "\<forall>r' e. res1 = Some (r', e) \<longrightarrow> ok c r' e"
    using internal [of "preferred_constraints os c n" "rs_rng sel"] preferred by blast
  obtain res2 g2 where 2: "get_tunnel_endpoint_internal os rng ?relays c g1 = Returns (res2, g2)"
      "\<forall>r' e. res2 = Some (r', e) \<longrightarrow> ok c r' e"
    using internal [of c g1] by blast
  have "\<exists>res g'. selector_get_tunnel_endpoint os rng sel c n = Returns (res, sel\<lparr>rs_rng := g'\<rparr>) \<and>
    (case res of Inl e \<Rightarrow> e = NoRelay | Inr (r', e) \<Rightarrow> ok c r' e)"
  proof (cases res1)
    case None
    with 1 2 show ?thesis
      by (cases res2) (auto simp: selector_get_tunnel_endpoint_def Let_def)
  next
    case (Some x)
    with 1 show ?thesis by (cases x) (auto simp: selector_get_tunnel_endpoint_def Let_def)
  qed
  then show ?thesis unfolding ok_def .
qed

text \<open>
  C12.  On a list whose total weight fits \<open>u64\<close> with room for one more (less than \<open>2^64 - 1\<close>), selecting a
  relay never panics.  A selected relay is one of the list, in the location the user asked for, and the
  endpoint is one of that relay's: its own address, a tunnel it offers, of the tunnel protocol the user
  asked for, matching the constraints as \<open>get_tunnel_endpoint\<close> documents it - except that with the tunnel
  protocol \<open>Any\<close> the code ignores the OpenVPN and WireGuard constraints, so that only the rest of the
  constraints is matched.  The only error is \<open>NoRelay\<close>, and the list of relays is left unchanged.\<close>

theorem selector_endpoint_sound:
  fixes sel :: "'g relay_selector"
  assumes "random_source rng" and "total_weight (pr_relays (rs_parsed_relays sel)) < 2 ^ 64 - 1"
  shows "\<exists>res g'. selector_get_tunnel_endpoint os rng sel c n = Returns (res, sel\<lparr>rs_rng := g'\<rparr>) \<and>
    (case res of
       Inl e \<Rightarrow> e = NoRelay
     | Inr (r', e) \<Rightarrow>
         \<exists>r \<in> set (pr_relays (rs_parsed_relays sel)).
           relay_matches_location r (rc_location c) \<and> r' = r\<lparr>r_tunnels := r_tunnels r'\<rparr> \<and>
           tunnel_kind_ok os c e \<and>
           endpoint_satisfies (if rc_tunnel_protocol c = Any then ignoring_tunnel_constraints c else c) r e)"
  using selector_endpoint_ok [OF assms, of os c n] unfolding endpoint_chosen_iff constraints_used_def .

definition sample_selector :: "u64 list relay_selector" where
  "sample_selector = \<lparr>rs_parsed_relays = from_relay_list sample_list 0, rs_rng = [1]\<rparr>"

definition sample_constraints :: relay_constraints where
  "sample_constraints =
     relay_constraints_default\<lparr>rc_location := Only (LocCountry ''se''),
       rc_tunnel_protocol := Only ProtoOpenVpn\<rparr>"

lemmas sample_defs = sample_selector_def sample_list_def sample_relay_def sample_constraints_def
  from_relay_list_def relay_with_location_def relay_constraints_default_def
  openvpn_constraints_default_def

lemma sample_bound: "total_weight (pr_relays (rs_parsed_relays sample_selector)) < 2 ^ 64 - 1"
  by (simp add: sample_defs)

theorem selector_endpoint_sound_witness:
  "\<exists>res g'. selector_get_tunnel_endpoint Linux scripted_rng sample_selector sample_constraints 0 =
      Returns (res, sample_selector\<lparr>rs_rng := g'\<rparr>) \<and>
    (case res of
       Inl e \<Rightarrow> e = NoRelay
     | Inr (r', e) \<Rightarrow>
         \<exists>r \<in> set (pr_relays (rs_parsed_relays sample_selector)).
           relay_matches_location r (rc_location sample_constraints) \<and>
           r' = r\<lparr>r_tunnels := r_tunnels r'\<rparr> \<and> endpoint_satisfies sample_constraints r e)"
  using selector_endpoint_sound [OF scripted.random_source_axioms sample_bound, of Linux sample_constraints 0]
  by (simp add: sample_constraints_def split: sum.splits prod.splits) blast

lemma total_weight_eq_0: "total_weight relays = 0 \<longleftrightarrow> (\<forall>r \<in> set relays. r_weight r = 0)"
  by (induction relays) (auto simp: unat_eq_zero)

lemma matching_weight_eq_0:
  "total_weight (List.map_filter (\<lambda>r. matching_relay r c) relays) = 0 \<longleftrightarrow>
     (\<forall>r \<in> set relays. matching_relay r c \<noteq> None \<longrightarrow> r_weight r = 0)"
  unfolding total_weight_eq_0 set_map_filter
  by (auto simp: matching_relay_SomeD(2))

lemma get_port_Some:
  assumes "random_source rng" and "port_ranges_ok d" and "we_port_ranges d \<noteq> []"
    and "wireguard_matches c d"
  shows "get_port_for_wireguard_relay rng d c g \<noteq> Returns (None, g')"
proof (cases "wc_port c")
  case Any
  obtain r where "r \<in> set (we_port_ranges d)" "countable_range r"
    using assms(2,3) by (cases "we_port_ranges d") (auto simp: port_ranges_ok_def)
  then have "unat (fst r) \<in> set (all_ports (we_port_ranges d))"
    by (auto simp: in_all_ports_iff countable_range_def word_le_nat_alt)
  then have "all_ports (we_port_ranges d) \<noteq> []" by auto
  with random_source.get_port_any [OF assms(1) Any, of d g] assms(2) show ?thesis
    by (simp add: port_ranges_ok_def Let_def split: prod.split)
next
  case (Only port)
  with assms(4) show ?thesis
    by (auto simp: get_port_for_wireguard_relay_def wireguard_matches_def list_ex_iff)
qed

lemma get_random_tunnel_Some:
  assumes rng: "random_source rng" and m: "matching_relay r c = Some r'"
    and proto: "rc_tunnel_protocol c = Only ProtoOpenVpn \<and> os \<noteq> Android \<or>
      rc_tunnel_protocol c = Only ProtoWireguard"
    and ok: "\<forall>d \<in> set (rt_wireguard (r_tunnels r)). port_ranges_ok d \<and> we_port_ranges d \<noteq> []"
  shows "get_random_tunnel os rng r' c g \<noteq> Returns (None, g')"
  using proto
proof
  assume *: "rc_tunnel_protocol c = Only ProtoOpenVpn \<and> os \<noteq> Android"
  with m have "rt_openvpn (r_tunnels r') \<noteq> []"
    by (auto simp: matching_relay_def Let_def split: if_splits)
  with * show ?thesis
    by (auto simp: get_random_tunnel_def intro: random_source.random_openvpn_cases [OF rng, of r' g])
next
  assume *: "rc_tunnel_protocol c = Only ProtoWireguard"
  with m have ne: "rt_wireguard (r_tunnels r') \<noteq> []"
    by (auto simp: matching_relay_def Let_def split: if_splits)
  have "get_port_for_wireguard_relay rng d (rc_wireguard_constraints c) g1 \<noteq> Returns (None, g2)"
    if "d \<in> set (rt_wireguard (r_tunnels r'))" for d g1 g2
    using that ok matching_relay_SomeD(6) [OF m *] by (intro get_port_Some [OF rng]) auto
  with * ne show ?thesis
    by (auto simp: get_random_tunnel_def
        intro: random_source.random_wireguard_cases [OF rng, of r' "rc_wireguard_constraints c" g])
qed

text \<open>
  C38.  With a tunnel protocol selected (WireGuard, or OpenVPN on a system other than Android), a relay is
  found whenever one can be: \<open>NoRelay\<close> is returned exactly when every relay that matches the constraints
  has weight zero.  The total weight of the list is less than \<open>2^64 - 1\<close> and its WireGuard endpoints have
  port ranges that can be counted and are not empty.\<close>

theorem selector_finds_relay:
  assumes rng: "random_source rng"
    and bound: "total_weight (pr_relays (rs_parsed_relays sel)) < 2 ^ 64 - 1"
    and proto: "rc_tunnel_protocol c = Only ProtoOpenVpn \<and> os \<noteq> Android \<or>
      rc_tunnel_protocol c = Only ProtoWireguard"
    and ok: "\<forall>r \<in> set (pr_relays (rs_parsed_relays sel)). \<forall>d \<in> set (rt_wireguard (r_tunnels r)).
      port_ranges_ok d \<and> we_port_ranges d \<noteq> []"
  shows "(\<exists>sel'. selector_get_tunnel_endpoint os rng sel c n = Returns (Inl NoRelay, sel')) \<longleftrightarrow>
    (\<forall>r \<in> set (pr_relays (rs_parsed_relays sel)). matching_relay r c \<noteq> None \<longrightarrow> r_weight r = 0)"
proof -
  let ?relays = "pr_relays (rs_parsed_relays sel)"
  let ?none = "total_weight (List.map_filter (\<lambda>r. matching_relay r c) ?relays) = 0"
  have same: "get_tunnel_endpoint_internal os rng ?relays (preferred_constraints os c n) g =
      get_tunnel_endpoint_internal os rng ?relays c g" for g
    using proto by (intro internal_cong) (auto simp: preferred_constraints_only)
  have internal: "(?none \<and> get_tunnel_endpoint_internal os rng ?relays c g = Returns (None, g)) \<or>
      (\<not> ?none \<and> (\<exists>x g'. get_tunnel_endpoint_internal os rng ?relays c g = Returns (Some x, g')))" for g
  proof (rule random_source.get_tunnel_endpoint_internal_cases [OF rng bound, of c os g])
    fix r r' g1 g'
    assume "r \<in> set ?relays" "matching_relay r c = Some r'"
      "get_random_tunnel os rng r' c g1 = Returns (None, g')"
    then show ?thesis using get_random_tunnel_Some [OF rng _ proto] ok by blast
  next
    fix r r' e g'
    assume "get_tunnel_endpoint_internal os rng ?relays c g = Returns (Some (r', e), g')"
    then show ?thesis
      by (cases ?none)
        (auto simp: get_tunnel_endpoint_internal_def pick_random_relay_none Let_def)
  qed simp
  show ?thesis
  proof (cases ?none)
    case True
    then have "get_tunnel_endpoint_internal os rng ?relays c g = Returns (None, g)" for g
      using internal by blast
    with True show ?thesis
      unfolding matching_weight_eq_0 by (simp add: selector_get_tunnel_endpoint_def same Let_def)
  next
    case False
    then obtain x g' where "get_tunnel_endpoint_internal os rng ?relays c (rs_rng sel) = Returns (Some x, g')"
      using internal [of "rs_rng sel"] by auto
    with False show ?thesis
      unfolding matching_weight_eq_0 by (simp add: selector_get_tunnel_endpoint_def same Let_def)
  qed
qed

theorem selector_finds_relay_witness:
  "\<not> (\<exists>sel'. selector_get_tunnel_endpoint Linux scripted_rng sample_selector sample_constraints 7 =
        Returns (Inl NoRelay, sel'))"
proof -
  have "rc_tunnel_protocol sample_constraints = Only ProtoOpenVpn \<and> Linux \<noteq> Android \<or>
      rc_tunnel_protocol sample_constraints = Only ProtoWireguard"
    "\<forall>r \<in> set (pr_relays (rs_parsed_relays sample_selector)). \<forall>d \<in> set (rt_wireguard (r_tunnels r)).
      port_ranges_ok d \<and> we_port_ranges d \<noteq> []"
    by (simp_all add: sample_defs)
  note iff = selector_finds_relay [OF scripted.random_source_axioms sample_bound this, of 7]
  have "\<exists>r \<in> set (pr_relays (rs_parsed_relays sample_selector)).
      matching_relay r sample_constraints \<noteq> None \<and> r_weight r \<noteq> 0"
    by (simp add: sample_defs matching_relay_def matching_openvpn_tunnels_def openvpn_matches_def)
  with iff show ?thesis by blast
qed

text \<open>
  The preferred transport of a retry attempt has no effect on the selection: with a tunnel
  protocol selected the constraints of the user are used, and without one the OpenVPN constraints are
  not looked at, neither when relays are filtered nor when an endpoint is drawn.\<close>

theorem retry_attempt_ignored:
  "selector_get_tunnel_endpoint os rng sel c m = selector_get_tunnel_endpoint os rng sel c n"
proof -
  have "get_tunnel_endpoint_internal os rng relays (preferred_constraints os c m) g =
      get_tunnel_endpoint_internal os rng relays (preferred_constraints os c n) g" for relays g
    by (rule internal_cong) (simp_all add: preferred_constraints_only)
  then show ?thesis by (simp add: selector_get_tunnel_endpoint_def)
qed

section \<open>Bridges\<close>

lemma hd_sort_key_min:
  assumes "x \<in> set xs"
  shows "hd (sort_key f xs) \<in> set xs" "f (hd (sort_key f xs)) \<le> f x"
proof -
  obtain y ys where eq: "sort_key f xs = y # ys" using assms set_sort [of f xs] by (cases "sort_key f xs") auto
  have "set (y # ys) = set xs" by (simp flip: eq)
  with assms have "x \<in> set (y # ys)" "y \<in> set xs" by auto
  moreover have "sorted (map f (y # ys))" by (simp flip: eq)
  ultimately show "hd (sort_key f xs) \<in> set xs" "f (hd (sort_key f xs)) \<le> f x"
    by (auto simp: eq)
qed

lemma from_relay_list_location:
  "r \<in> set (pr_relays (from_relay_list rl t)) \<Longrightarrow> r_location r \<noteq> None"
  by (auto simp: from_relay_list_def relay_with_location_def)

lemma matching_bridge_relay_SomeD:
  assumes "matching_bridge_relay r c = Some b"
  shows "relay_matches_location r (ib_location c)" "r_location b = r_location r"
    "r_ipv4_addr_in b = r_ipv4_addr_in r"
    "rb_shadowsocks (r_bridges b) = filter (\<lambda>d. constraint_matches (ib_transport_protocol c) (se_protocol d))
       (rb_shadowsocks (r_bridges r))"
    "rb_shadowsocks (r_bridges b) \<noteq> []"
  using assms by (auto simp: matching_bridge_relay_def Let_def split: if_splits)

lemma pick_random_bridge_Some:
  assumes "random_source rng" and "rb_shadowsocks (r_bridges b) \<noteq> []"
  obtains d g' where "d \<in> set (rb_shadowsocks (r_bridges b))"
    "pick_random_bridge rng b g = (Some (to_proxy_settings d (V4 (r_ipv4_addr_in b))), g')"
proof (rule random_source.slice_choose_cases [OF assms(1), of "rb_shadowsocks (r_bridges b)" g])
  fix d g'
  assume "d \<in> set (rb_shadowsocks (r_bridges b))"
    "slice_choose rng (rb_shadowsocks (r_bridges b)) g = (Some d, g')"
  then show thesis by (intro that [of d g']) (simp_all add: pick_random_bridge_def)
qed (use assms(2) in simp)

text \<open>The bridge a selection should make: the nearest matching relay and one of its bridges.\<close>

definition nearest_bridge :: "relay list \<Rightarrow> internal_bridge_constraints \<Rightarrow> location
    \<Rightarrow> proxy_settings \<times> relay \<Rightarrow> bool" where
  "nearest_bridge relays c location = (\<lambda>(proxy, b).
     (\<exists>r \<in> set relays. relay_matches_location r (ib_location c) \<and> matching_bridge_relay r c = Some b \<and>
       (\<exists>d \<in> set (rb_shadowsocks (r_bridges r)).
          constraint_matches (ib_transport_protocol c) (se_protocol d) \<and>
          proxy = to_proxy_settings d (V4 (r_ipv4_addr_in r)))) \<and>
     (\<forall>r \<in> set relays. \<forall>b'. matching_bridge_relay r c = Some b' \<longrightarrow>
        bridge_sort_key location b \<le> bridge_sort_key location b'))"

lemma get_proxy_settings_nearest:
  assumes rng: "random_source rng" and parsed: "rs_parsed_relays sel = from_relay_list rl t"
  shows "\<exists>res g'. get_proxy_settings rng sel c location = Returns (res, sel\<lparr>rs_rng := g'\<rparr>) \<and>
    (case res of
       None \<Rightarrow> \<forall>r \<in> set (pr_relays (rs_parsed_relays sel)). matching_bridge_relay r c = None
     | Some pb \<Rightarrow> nearest_bridge (pr_relays (rs_parsed_relays sel)) c location pb)"
proof -
  let ?relays = "pr_relays (rs_parsed_relays sel)"
  let ?ms = "List.map_filter (\<lambda>r. matching_bridge_relay r c) ?relays"
  let ?b = "hd (sort_key (bridge_sort_key location) ?ms)"
  show ?thesis
  proof (cases "?ms = []")
    case True
    then show ?thesis
      by (intro exI [of _ None] exI [of _ "rs_rng sel"])
        (simp add: get_proxy_settings_def map_filter_Nil_iff)
  next
    case False
    have loc: "\<not> list_ex (\<lambda>r. r_location r = None) ?ms"
      using from_relay_list_location [of _ rl t] parsed matching_bridge_relay_SomeD(2)
      by (auto simp: list_ex_iff set_map_filter)
    have "?b \<in> set ?ms" using False by (intro hd_sort_key_min(1) [of "hd ?ms"]) simp
    then obtain r where r: "r \<in> set ?relays" "matching_bridge_relay r c = Some ?b"
      by (auto simp: set_map_filter)
    note b = matching_bridge_relay_SomeD [OF r(2)]
    obtain d g' where d: "d \<in> set (rb_shadowsocks (r_bridges ?b))"
      "pick_random_bridge rng ?b (rs_rng sel) = (Some (to_proxy_settings d (V4 (r_ipv4_addr_in ?b))), g')"
      using pick_random_bridge_Some [OF rng b(5)] by blast
    have "nearest_bridge ?relays c location (to_proxy_settings d (V4 (r_ipv4_addr_in ?b)), ?b)"
      unfolding nearest_bridge_def
    proof (clarify, intro conjI ballI allI impI)
      show "\<exists>r \<in> set ?relays. relay_matches_location r (ib_location c) \<and>
          matching_bridge_relay r c = Some ?b \<and>
          (\<exists>d' \<in> set (rb_shadowsocks (r_bridges r)).
             constraint_matches (ib_transport_protocol c) (se_protocol d') \<and>
             to_proxy_settings d (V4 (r_ipv4_addr_in ?b)) = to_proxy_settings d' (V4 (r_ipv4_addr_in r)))"
        using r b(1,3,4) d(1) by (intro bexI [of _ r] conjI bexI [of _ d]) auto
    next
      fix r b' assume "r \<in> set ?relays" "matching_bridge_relay r c = Some b'"
      then show "bridge_sort_key location ?b \<le> bridge_sort_key location b'"
        by (intro hd_sort_key_min(2)) (auto simp: set_map_filter)
    qed
    with False loc d(2) show ?thesis
      by (intro exI [of _ "Some (to_proxy_settings d (V4 (r_ipv4_addr_in ?b)), ?b)"] exI [of _ g'])
        (simp add: get_proxy_settings_def Let_def)
  qed
qed

text \<open>
  The automatic choice of a bridge never panics on a parsed relay list (every relay of it has a
  location).  It returns a bridge only on the attempts that use one, which is then a bridge with the
  requested transport on a matching relay, none of the matching relays being nearer by a whole metre;
  it returns none when no bridge should be used or no relay matches.\<close>

theorem auto_bridge_nearest:
  assumes "random_source rng" and "rs_parsed_relays sel = from_relay_list rl t"
  shows "\<exists>res g'. get_auto_proxy_settings rng sel c location n = Returns (res, sel\<lparr>rs_rng := g'\<rparr>) \<and>
    (case res of
       None \<Rightarrow> \<not> should_use_bridge n \<or> ib_transport_protocol c = Only Udp \<or>
         (\<forall>r \<in> set (pr_relays (rs_parsed_relays sel)). matching_bridge_relay r c = None)
     | Some pb \<Rightarrow> should_use_bridge n \<and> ib_transport_protocol c \<noteq> Only Udp \<and>
         nearest_bridge (pr_relays (rs_parsed_relays sel)) c location pb)"
proof (cases "should_use_bridge n \<and> ib_transport_protocol c \<noteq> Only Udp")
  case True
  then have eq: "get_auto_proxy_settings rng sel c location n = get_proxy_settings rng sel c location"
    by (simp add: get_auto_proxy_settings_def)
  show ?thesis
    unfolding eq using True get_proxy_settings_nearest [OF assms, of c location]
    by (elim exE) (rule exI, rule exI, auto split: option.splits)
next
  case False
  then show ?thesis
    by (intro exI [of _ None] exI [of _ "rs_rng sel"]) (auto simp: get_auto_proxy_settings_def)
qed

theorem auto_bridge_nearest_witness:
  "\<exists>res g'. get_auto_proxy_settings scripted_rng sample_selector
      \<lparr>ib_location = Any, ib_transport_protocol = Any\<rparr>
      \<lparr>loc_country = [], loc_country_code = [], loc_city = [], loc_city_code = [],
       loc_latitude = 1, loc_longitude = 2\<rparr> 4 = Returns (res, sample_selector\<lparr>rs_rng := g'\<rparr>) \<and>
    res \<noteq> None"
proof -
  have parsed: "rs_parsed_relays sample_selector = from_relay_list sample_list 0"
    by (simp add: sample_selector_def)
  have "should_use_bridge 4"
    by (simp add: should_use_bridge_def)
  moreover have "\<exists>r \<in> set (pr_relays (rs_parsed_relays sample_selector)).
      matching_bridge_relay r \<lparr>ib_location = Any, ib_transport_protocol = Any\<rparr> \<noteq> None"
    by (simp add: sample_defs matching_bridge_relay_def)
  ultimately show ?thesis
    using auto_bridge_nearest [OF scripted.random_source_axioms parsed,
        of "\<lparr>ib_location = Any, ib_transport_protocol = Any\<rparr>"
           "\<lparr>loc_country = [], loc_country_code = [], loc_city = [], loc_city_code = [],
             loc_latitude = 1, loc_longitude = 2\<rparr>" 4]
    by (fastforce split: option.splits)
qed

section \<open>Updating and caching the list\<close>

text \<open>
  The updater announces exactly the lists it installs: after any run the announcements are
  extended by lists that were downloaded, and the installed relays are those of the last list
  announced; without a new announcement relays and cache file are unchanged.\<close>

theorem updater_run_announces:
  "\<exists>new. up_notified (updater_run to_json path its u) = up_notified u @ new \<and>
     set new \<subseteq> {rl. \<exists>it \<in> set its. it_download it = Downloaded rl} \<and>
     (if new = [] then updater_run to_json path its u = u
      else \<exists>t. up_parsed_relays (updater_run to_json path its u) = from_relay_list (last new) t)"
proof (induction its arbitrary: u)
  case (Cons it its)
  let ?u = "if should_update (it_checked_at it) (up_parsed_relays u)
    then snd (updater_update to_json path it u) else u"
  show ?case
  proof (cases "wait_for_next_iteration (it_wakeup it)")
    case False
    then show ?thesis by simp
  next
    case True
    obtain new where new: "up_notified (updater_run to_json path its ?u) = up_notified ?u @ new"
        "set new \<subseteq> {rl. \<exists>it \<in> set its. it_download it = Downloaded rl}"
        "if new = [] then updater_run to_json path its ?u = ?u
         else \<exists>t. up_parsed_relays (updater_run to_json path its ?u) = from_relay_list (last new) t"
      using Cons.IH by blast
    have run: "updater_run to_json path (it # its) u = updater_run to_json path its ?u"
      using True by simp
    have "?u = u \<or> (\<exists>rl. it_download it = Downloaded rl \<and> up_notified ?u = up_notified u @ [rl] \<and>
        up_parsed_relays ?u = from_relay_list rl (it_updated_at it))"
      by (auto simp: updater_update_def download_relay_list_def from_relay_list_def Let_def
          split: download_outcome.split)
    then show ?thesis
    proof
      assume "?u = u"
      with run new show ?thesis by (intro exI [of _ new]) auto
    next
      assume "\<exists>rl. it_download it = Downloaded rl \<and> up_notified ?u = up_notified u @ [rl] \<and>
        up_parsed_relays ?u = from_relay_list rl (it_updated_at it)"
      then obtain rl where "it_download it = Downloaded rl" "up_notified ?u = up_notified u @ [rl]"
        "up_parsed_relays ?u = from_relay_list rl (it_updated_at it)" by blast
      with run new show ?thesis
        by (intro exI [of _ "rl # new"]) (auto split: if_splits)
    qed
  qed
qed simp

text \<open>
  A list that was downloaded and cached is used after a restart: when the codec reads back what
  it wrote and the bundled list is older, the selector created from the disk has the relays and
  locations the updater installed.\<close>

theorem relay_cache_roundtrip:
  assumes "from_json (to_json rl) = Some rl" and "it_download it = Downloaded rl"
    and "it_write it = Written"
    and "path_join cache_dir RELAYS_FILENAME \<noteq> path_join resource_dir RELAYS_FILENAME"
    and "case from_file from_json (up_disk u) (path_join resource_dir RELAYS_FILENAME) of
      Inl _ \<Rightarrow> True | Inr bundled \<Rightarrow> pr_last_updated bundled < it_written_at it"
  shows "let u' = snd (updater_update to_json (path_join cache_dir RELAYS_FILENAME) it u);
             read = rs_parsed_relays (relay_selector_new from_json (up_disk u') g resource_dir cache_dir)
         in pr_relays read = pr_relays (up_parsed_relays u') \<and>
            pr_locations read = pr_locations (up_parsed_relays u')"
proof -
  have "from_file from_json (up_disk u) (path_join resource_dir RELAYS_FILENAME) =
      from_file from_json ((up_disk u)(path_join cache_dir RELAYS_FILENAME \<mapsto> x))
        (path_join resource_dir RELAYS_FILENAME)" for x
    using assms(4) by (simp add: from_file_def)
  with assms show ?thesis
    by (simp add: updater_update_def download_relay_list_def cache_relays_def relay_selector_new_def
        read_relays_from_disk_def from_file_def [of _ _ "path_join cache_dir RELAYS_FILENAME"]
        from_relay_list_def Let_def split: sum.splits)
qed

definition sample_codec :: "string \<Rightarrow> relay_list option" where
  "sample_codec s = (if s = ''{se}'' then Some sample_list else None)"

theorem relay_cache_roundtrip_witness:
  "pr_relays (rs_parsed_relays (relay_selector_new sample_codec
     (up_disk (snd (updater_update (\<lambda>_. ''{se}'') (path_join ''/var'' RELAYS_FILENAME)
        \<lparr>it_wakeup = TimedOut, it_checked_at = 5, it_download = Downloaded sample_list,
         it_write = Written, it_written_at = 5, it_updated_at = 6\<rparr>
        \<lparr>up_parsed_relays = parsed_relays_empty,
         up_disk = [path_join ''/opt'' RELAYS_FILENAME \<mapsto> (1, ''{se}'')], up_notified = []\<rparr>)))
     () ''/opt'' ''/var'')) =
   pr_relays (from_relay_list sample_list 6)"
  using relay_cache_roundtrip [of sample_codec "\<lambda>_. ''{se}''" sample_list
      "\<lparr>it_wakeup = TimedOut, it_checked_at = 5, it_download = Downloaded sample_list,
         it_write = Written, it_written_at = 5, it_updated_at = 6\<rparr>" "''/var''" "''/opt''"
      "\<lparr>up_parsed_relays = parsed_relays_empty,
         up_disk = [path_join ''/opt'' RELAYS_FILENAME \<mapsto> (1, ''{se}'')], up_notified = []\<rparr>" "()"]
  by (simp add: sample_codec_def path_join_def RELAYS_FILENAME_def from_file_def from_relay_list_def
      updater_update_def download_relay_list_def Let_def)

end
