(* ===== verification/Settings_Props.thy ===== *)
theory Settings_Props
  imports Settings Relay_Selector_Props
begin

text \<open>
  Properties of the settings: every setter makes exactly the requested change and reports whether
  there was one; settings that were saved are loaded again after a restart; version 1 files are
  migrated; a reset always leaves the defaults.
\<close>

section \<open>Setters\<close>

text \<open>A change of the settings and the settings it asks for.\<close>

datatype setting_change =
    ChangeAccountToken "string option"
  | ChangeRelaySettings relay_settings_update
  | ChangeAllowLan bool
  | ChangeBlockWhenDisconnected bool
  | ChangeAutoConnect bool
  | ChangeMssfix "u16 option"
  | ChangeEnableIpv6 bool
  | ChangeMtu "u16 option"
  | ChangeBridgeSettings bridge_settings
  | ChangeBridgeState bridge_state

fun apply_change :: "setting_change \<Rightarrow> setter" where
  "apply_change (ChangeAccountToken t) = set_account_token t"
| "apply_change (ChangeRelaySettings u) = update_relay_settings u"
| "apply_change (ChangeAllowLan b) = set_allow_lan b"
| "apply_change (ChangeBlockWhenDisconnected b) = set_block_when_disconnected b"
| "apply_change (ChangeAutoConnect b) = set_auto_connect b"
| "apply_change (ChangeMssfix v) = set_openvpn_mssfix v"
| "apply_change (ChangeEnableIpv6 b) = set_enable_ipv6 b"
| "apply_change (ChangeMtu v) = set_wireguard_mtu v"
| "apply_change (ChangeBridgeSettings b) = set_bridge_settings b"
| "apply_change (ChangeBridgeState b) = set_bridge_state b"

fun changed :: "setting_change \<Rightarrow> settings \<Rightarrow> settings" where
  "changed (ChangeAccountToken t) s = s\<lparr>st_account_token := if t = Some [] then None else t\<rparr>"
| "changed (ChangeRelaySettings u) s =
     s\<lparr>st_relay_settings := relay_settings_merge (st_relay_settings s) u\<rparr>"
| "changed (ChangeAllowLan b) s = s\<lparr>st_allow_lan := b\<rparr>"
| "changed (ChangeBlockWhenDisconnected b) s = s\<lparr>st_block_when_disconnected := b\<rparr>"
| "changed (ChangeAutoConnect b) s = s\<lparr>st_auto_connect := b\<rparr>"
| "changed (ChangeMssfix v) s =
     s\<lparr>st_tunnel_options := (st_tunnel_options s)\<lparr>to_openvpn := \<lparr>mssfix = v\<rparr>\<rparr>\<rparr>"
| "changed (ChangeEnableIpv6 b) s =
     s\<lparr>st_tunnel_options := (st_tunnel_options s)\<lparr>to_generic := \<lparr>enable_ipv6 = b\<rparr>\<rparr>\<rparr>"
| "changed (ChangeMtu v) s =
     s\<lparr>st_tunnel_options := (st_tunnel_options s)\<lparr>to_wireguard := \<lparr>wg_mtu = v\<rparr>\<rparr>\<rparr>"
| "changed (ChangeBridgeSettings b) s = s\<lparr>st_bridge_settings := b\<rparr>"
| "changed (ChangeBridgeState b) s = s\<lparr>st_bridge_state := b\<rparr>"

lemmas setter_defs [daemon_simps] =
  set_account_token_def update_relay_settings_def set_allow_lan_def
  set_block_when_disconnected_def set_auto_connect_def set_openvpn_mssfix_def set_enable_ipv6_def
  set_wireguard_mtu_def set_bridge_settings_def set_bridge_state_def

lemma single_field_eqs:
  "ov\<lparr>mssfix := v\<rparr> = \<lparr>mssfix = v\<rparr>" "p\<lparr>enable_ipv6 := b\<rparr> = \<lparr>enable_ipv6 = b\<rparr>"
  "q\<lparr>wg_mtu := v\<rparr> = \<lparr>wg_mtu = v\<rparr>"
  by simp_all

lemma settings_field_update_eq:
  "s\<lparr>st_account_token := t\<rparr> = s \<longleftrightarrow> t = st_account_token s"
  "s\<lparr>st_relay_settings := r\<rparr> = s \<longleftrightarrow> r = st_relay_settings s"
  "s\<lparr>st_bridge_settings := bs\<rparr> = s \<longleftrightarrow> bs = st_bridge_settings s"
  "s\<lparr>st_bridge_state := b\<rparr> = s \<longleftrightarrow> b = st_bridge_state s"
  "s\<lparr>st_allow_lan := x\<rparr> = s \<longleftrightarrow> x = st_allow_lan s"
  "s\<lparr>st_block_when_disconnected := x\<rparr> = s \<longleftrightarrow> x = st_block_when_disconnected s"
  "s\<lparr>st_auto_connect := x\<rparr> = s \<longleftrightarrow> x = st_auto_connect s"
  "s\<lparr>st_tunnel_options := opts\<rparr> = s \<longleftrightarrow> opts = st_tunnel_options (s :: settings)"
  by (cases s; auto)+

lemma options_field_update_eq:
  "opts\<lparr>to_openvpn := v\<rparr> = opts \<longleftrightarrow> v = to_openvpn opts"
  "opts\<lparr>to_generic := g\<rparr> = opts \<longleftrightarrow> g = to_generic opts"
  "opts\<lparr>to_wireguard := w\<rparr> = opts \<longleftrightarrow> w = to_wireguard (opts :: tunnel_options)"
  by (cases opts; auto)+

lemma single_field_inj:
  "\<lparr>mssfix = v\<rparr> = ov \<longleftrightarrow> v = mssfix ov" "\<lparr>enable_ipv6 = b\<rparr> = p \<longleftrightarrow> b = enable_ipv6 p"
  "\<lparr>wg_mtu = v\<rparr> = q \<longleftrightarrow> v = wg_mtu q"
  by (cases ov; cases p; cases q; auto)+

lemma apply_change_eq:
  "apply_change ch codec io s files =
     (if changed ch s = s then (Inr False, s, files) else save_changed codec io (changed ch s) files)"
  by (cases ch) (auto simp: daemon_simps Let_def settings_field_update_eq options_field_update_eq
      single_field_inj single_field_eqs)

text \<open>
  Every setter leaves exactly the requested settings in memory, whether or not they can be saved.
  It reports \<open>Ok(true)\<close> or \<open>Ok(false)\<close> according to whether anything changed, having written the new
  settings to the file or left the files alone; an error is only reported for a real change.\<close>

theorem setter_contract:
  "case apply_change ch codec io s files of
     (r, s', files') \<Rightarrow>
       s' = changed ch s \<and>
       (case r of
          Inr b \<Rightarrow> b = (s' \<noteq> s) \<and>
            files' = (if s' = s then files
                      else case get_settings_path io of
                             Inr path \<Rightarrow> files(path \<mapsto> sc_print codec s')
                           | Inl _ \<Rightarrow> files)
        | Inl e \<Rightarrow> s' \<noteq> s \<and> fst (settings_save codec io s' files) = Inl e)"
  by (simp add: apply_change_eq save_changed_def settings_save_def
      split: sum.split file_write.split)

section \<open>Loading saved settings\<close>

fun run_changes :: "settings_codec \<Rightarrow> (settings_io \<times> setting_change) list \<Rightarrow> settings \<Rightarrow> files
    \<Rightarrow> settings_error list \<times> settings \<times> files" where
  "run_changes codec [] s files = ([], s, files)"
| "run_changes codec ((io, ch) # chs) s files =
     (case apply_change ch codec io s files of
        (r, s, files) \<Rightarrow>
          (case run_changes codec chs s files of
             (errors, s, files) \<Rightarrow> ((case r of Inl e \<Rightarrow> [e] | Inr _ \<Rightarrow> []) @ errors, s, files)))"

lemma apply_change_keeps_sync:
  assumes "si_settings_dir io = Some dir" and "files (path_join dir SETTINGS_FILE) = Some (sc_print codec s)"
    and "apply_change ch codec io s files = (Inr b, s', files')"
  shows "files' (path_join dir SETTINGS_FILE) = Some (sc_print codec s')"
  using assms
  by (auto simp: apply_change_eq save_changed_def settings_save_def get_settings_path_def
      split: if_splits file_write.splits)

lemma run_changes_keeps_sync:
  "list_all (\<lambda>(io, _). si_settings_dir io = Some dir) chs \<Longrightarrow>
   files (path_join dir SETTINGS_FILE) = Some (sc_print codec s) \<Longrightarrow>
   run_changes codec chs s files = ([], s', files') \<Longrightarrow>
   files' (path_join dir SETTINGS_FILE) = Some (sc_print codec s')"
proof (induction codec chs s files arbitrary: s' files' rule: run_changes.induct)
  case (2 codec io ch chs s files)
  obtain r s1 files1 where step: "apply_change ch codec io s files = (r, s1, files1)"
    by (rule prod_cases3)
  obtain errors s2 files2 where rest: "run_changes codec chs s1 files1 = (errors, s2, files2)"
    by (rule prod_cases3)
  from "2.prems"(3) step rest obtain b where r: "r = Inr b" "errors = []" "s2 = s'" "files2 = files'"
    by (cases r) simp_all
  have "files1 (path_join dir SETTINGS_FILE) = Some (sc_print codec s1)"
    using "2.prems"(1,2) step r(1) apply_change_keeps_sync [of io dir files codec s ch b s1 files1]
    by simp
  with "2.IH" [OF step [symmetric] refl] "2.prems"(1) rest r show ?case by simp
qed simp

text \<open>
  C37.  Settings survive a restart: starting from a file that holds the current settings, after any
  sequence of changes none of which reported an error, loading gives the settings in memory, provided
  the codec reads back what it printed for them.\<close>

theorem settings_roundtrip:
  assumes "sc_parse codec (sc_print codec s') = Some s'"
    and "files (path_join dir SETTINGS_FILE) = Some (sc_print codec s)"
    and "list_all (\<lambda>(io, _). si_settings_dir io = Some dir) chs"
    and "run_changes codec chs s files = ([], s', files')"
    and "si_settings_dir io = Some dir" and "si_read_ok io"
  shows "settings_load codec io files' = Returns (Inr s', files')"
  using run_changes_keeps_sync [OF assms(3,2,4)] assms(1,5,6)
  by (simp add: settings_load_def get_settings_path_def parse_settings_def)

text \<open>
  Loading never panics.  A file of the current version is loaded as it is; a file only version 1
  can read is migrated, every setting being carried over, and the result is saved; a missing or
  unreadable file and a file of no known version are reported as errors and change nothing.\<close>

theorem settings_load_cases:
  "case settings_load codec io files of
     Panics \<Rightarrow> False
   | Returns (r, files') \<Rightarrow>
       (case get_settings_path io of
          Inl e \<Rightarrow> r = Inl e \<and> files' = files
        | Inr path \<Rightarrow>
            (case files path of
               None \<Rightarrow> r = Inl (ReadError path) \<and> files' = files
             | Some bytes \<Rightarrow>
                 if \<not> si_read_ok io then \<not> is_ok r \<and> files' = files
                 else
                   (case (sc_parse codec bytes, sc_parse_v1 codec bytes) of
                      (Some s, _) \<Rightarrow> r = Inr s \<and> files' = files
                    | (None, None) \<Rightarrow> r = Inl NoMatchingVersion \<and> files' = files
                    | (None, Some v1) \<Rightarrow>
                        r = Inr \<lparr>st_account_token = v1_account_token v1,
                                 st_relay_settings = migrate_relay_settings (v1_relay_settings v1),
                                 st_bridge_settings = v1_bridge_settings v1,
                                 st_bridge_state = v1_bridge_state v1,
                                 st_allow_lan = v1_allow_lan v1,
                                 st_block_when_disconnected = v1_block_when_disconnected v1,
                                 st_auto_connect = v1_auto_connect v1,
                                 st_tunnel_options = v1_tunnel_options v1,
                                 st_settings_version = SettingsV2\<rparr> \<and>
                        files' = snd (settings_save codec io (projr r) files))))"
  by (simp add: settings_load_def try_migrate_settings_def migrations_def v1_read_def
      parse_settings_def split: sum.split option.split)

text \<open>
  A reset always leaves the default settings in memory, and when it reports success the daemon
  starts with the defaults next time (on platforms without the Windows backup): either they were
  written or the file is gone.\<close>

theorem reset_then_load:
  assumes "sc_parse codec (sc_print codec settings_default) = Some settings_default"
    and "settings_reset codec io files = (Inr (), s, files')"
    and "si_settings_dir io' = si_settings_dir io" and "os \<noteq> Windows" and "si_read_ok io'"
  shows "s = settings_default \<and>
    daemon_load_settings os codec io' status files' = Returns (settings_default, files')"
  using assms
  by (auto simp: settings_reset_def settings_save_def get_settings_path_def daemon_load_settings_def
      settings_load_def parse_settings_def split: option.splits file_write.splits if_splits sum.splits)

text \<open>
  An OpenVPN constraint of a version 1 file has no effect after its migration: the migrated
  settings select no tunnel protocol, and the selector then makes the same selection as with any
  other OpenVPN constraint.\<close>

theorem migrated_openvpn_constraint_ignored:
  assumes "v1_tunnel old = Only (TcOpenVpn oc)"
    and "migrate_relay_settings (V1Normal old) = RelayNormal c"
  shows "rc_openvpn_constraints c = oc \<and> rc_tunnel_protocol c = Any \<and>
    selector_get_tunnel_endpoint os rng sel c n =
      selector_get_tunnel_endpoint os rng sel (c\<lparr>rc_openvpn_constraints := oc'\<rparr>) n"
proof -
  from assms have c: "rc_tunnel_protocol c = Any" "rc_openvpn_constraints c = oc"
    by (auto simp: relay_constraints_default_def)
  have "get_tunnel_endpoint_internal os rng relays c g =
      get_tunnel_endpoint_internal os rng relays (c\<lparr>rc_openvpn_constraints := oc'\<rparr>) g" for relays g
    using c by (intro internal_cong) simp_all
  moreover have "get_tunnel_endpoint_internal os rng relays (preferred_constraints os c n) g =
      get_tunnel_endpoint_internal os rng relays
        (preferred_constraints os (c\<lparr>rc_openvpn_constraints := oc'\<rparr>) n) g" for relays g
    using c by (intro internal_cong) simp_all
  ultimately show ?thesis
    using c by (simp add: selector_get_tunnel_endpoint_def Let_def split: panics.split option.split prod.split)
qed

section \<open>Witnesses\<close>

text \<open>A codec for the two settings used here: the defaults, and the defaults with LAN allowed.\<close>

definition sample_settings_codec :: settings_codec where
  "sample_settings_codec =
     \<lparr>sc_parse = (\<lambda>b. if b = ''{}'' then Some settings_default
                     else if b = ''{lan}'' then Some (settings_default\<lparr>st_allow_lan := True\<rparr>) else None),
      sc_parse_v1 = (\<lambda>_. None),
      sc_print = (\<lambda>s. if st_allow_lan s then ''{lan}'' else ''{}'')\<rparr>"

definition sample_io :: settings_io where
  "sample_io = \<lparr>si_settings_dir = Some ''/etc'', si_read_ok = True, si_write = FileWritten,
     si_remove_ok = True\<rparr>"

theorem settings_roundtrip_witness:
  "settings_load sample_settings_codec sample_io
     [path_join ''/etc'' SETTINGS_FILE \<mapsto> ''{lan}''] =
   Returns (Inr (settings_default\<lparr>st_allow_lan := True\<rparr>),
     [path_join ''/etc'' SETTINGS_FILE \<mapsto> ''{lan}''])"
proof (rule settings_roundtrip [where s = settings_default and dir = "''/etc''" and
      files = "[path_join ''/etc'' SETTINGS_FILE \<mapsto> ''{}'']" and
      chs = "[(sample_io, ChangeAllowLan True)]"])
  show "run_changes sample_settings_codec [(sample_io, ChangeAllowLan True)] settings_default
      [path_join ''/etc'' SETTINGS_FILE \<mapsto> ''{}''] =
    ([], settings_default\<lparr>st_allow_lan := True\<rparr>, [path_join ''/etc'' SETTINGS_FILE \<mapsto> ''{lan}''])"
    by (simp add: set_allow_lan_def save_changed_def settings_save_def get_settings_path_def
        sample_io_def sample_settings_codec_def settings_default_def)
qed (simp_all add: sample_settings_codec_def sample_io_def settings_default_def)

text \<open>Saving fails while the file is being created, and the file is removed.\<close>

theorem reset_then_load_witness:
  "daemon_load_settings Linux sample_settings_codec sample_io MigrationFailed Map.empty =
     Returns (settings_default, Map.empty)"
  using reset_then_load [of sample_settings_codec "sample_io\<lparr>si_write := FileCreateFails\<rparr>"
      "[path_join ''/etc'' SETTINGS_FILE \<mapsto> ''{lan}'']" settings_default Map.empty sample_io Linux
      MigrationFailed]
  by (simp add: settings_reset_def settings_save_def get_settings_path_def sample_io_def
      sample_settings_codec_def settings_default_def)

definition sample_v1 :: v1_relay_constraints where
  "sample_v1 =
     \<lparr>v1_location = Any, v1_tunnel = Only (TcOpenVpn \<lparr>oc_port = Only 53, oc_protocol = Only Udp\<rparr>)\<rparr>"

theorem migrated_openvpn_constraint_ignored_witness:
  "selector_get_tunnel_endpoint Linux scripted_rng sample_selector
     (relay_constraints_default\<lparr>rc_openvpn_constraints := \<lparr>oc_port = Only 53, oc_protocol = Only Udp\<rparr>\<rparr>) 0 =
   selector_get_tunnel_endpoint Linux scripted_rng sample_selector relay_constraints_default 0"
  using migrated_openvpn_constraint_ignored [of sample_v1 _ _ Linux scripted_rng sample_selector 0
      openvpn_constraints_default]
  by (simp add: sample_v1_def relay_constraints_default_def openvpn_constraints_default_def)

end
