(* ===== verification/Daemon_Proofs.thy ===== *)
theory Daemon_Proofs
  imports Daemon Settings_Props
begin

text \<open>
  What the handlers of the daemon change.  The tunnel state machine sees the daemon through the
  commands it is sent; \<open>daemon_core\<close> is the part of the daemon those commands are about, and the
  lemmas of this theory say for every event how it changes.
\<close>

section \<open>The commands sent to the tunnel state machine\<close>

fun command_of :: "daemon_effect \<Rightarrow> tunnel_command list" where
  "command_of (TunnelCommand c) = [c]"
| "command_of _ = []"

definition daemon_commands :: "'g daemon \<Rightarrow> tunnel_command list" where
  "daemon_commands d = concat (map command_of (dm_effects d))"

text \<open>The settings a machine has after the commands, and whether they leave it asked to connect.\<close>

fun obey :: "tunnel_command \<Rightarrow> bool \<times> bool \<Rightarrow> bool \<times> bool" where
  "obey (CmdAllowLan b) (lan, block) = (b, block)"
| "obey (CmdBlockWhenDisconnected b) (lan, block) = (lan, b)"
| "obey _ v = v"

fun aim :: "tunnel_command \<Rightarrow> bool \<Rightarrow> bool" where
  "aim CmdConnect _ = True"
| "aim CmdDisconnect _ = False"
| "aim _ b = b"

definition sent_settings :: "bool \<times> bool \<Rightarrow> tunnel_command list \<Rightarrow> bool \<times> bool" where
  "sent_settings v cs = fold obey cs v"

definition sent_aim :: "tunnel_command list \<Rightarrow> bool" where
  "sent_aim cs = fold aim cs False"

lemma sent_settings_simps [simp]:
  "sent_settings v [] = v" "sent_settings v (cs @ [c]) = obey c (sent_settings v cs)"
  by (simp_all add: sent_settings_def)

lemma sent_aim_simps [simp]:
  "\<not> sent_aim []" "sent_aim (cs @ [c]) = aim c (sent_aim cs)"
  by (simp_all add: sent_aim_def)

section \<open>Sending\<close>

lemma emit_sel [simp]:
  "dm_tunnel_state (emit e d) = dm_tunnel_state d" "dm_target_state (emit e d) = dm_target_state d"
  "dm_state (emit e d) = dm_state d" "dm_settings (emit e d) = dm_settings d"
  "dm_files (emit e d) = dm_files d" "dm_reconnect (emit e d) = dm_reconnect d"
  "dm_account_history (emit e d) = dm_account_history d"
  "dm_relay_selector (emit e d) = dm_relay_selector d"
  "dm_last_generated_relay (emit e d) = dm_last_generated_relay d"
  "dm_effects (emit e d) = dm_effects d @ [e]"
  "daemon_commands (emit e d) = daemon_commands d @ command_of e"
  by (simp_all add: emit_def daemon_commands_def)

lemma daemon_commands_updates [simp]:
  "daemon_commands (d\<lparr>dm_tunnel_state := ts\<rparr>) = daemon_commands d"
  "daemon_commands (d\<lparr>dm_target_state := t\<rparr>) = daemon_commands d"
  "daemon_commands (d\<lparr>dm_state := x\<rparr>) = daemon_commands d"
  "daemon_commands (d\<lparr>dm_reconnect := b\<rparr>) = daemon_commands d"
  "daemon_commands (d\<lparr>dm_settings := s\<rparr>) = daemon_commands d"
  "daemon_commands (d\<lparr>dm_files := fs\<rparr>) = daemon_commands d"
  "daemon_commands (d\<lparr>dm_account_history := h\<rparr>) = daemon_commands d"
  "daemon_commands (d\<lparr>dm_key_manager := km\<rparr>) = daemon_commands d"
  "daemon_commands (d\<lparr>dm_relay_selector := sel\<rparr>) = daemon_commands d"
  "daemon_commands (d\<lparr>dm_last_generated_relay := r\<rparr>) = daemon_commands d"
  "daemon_commands (d\<lparr>dm_last_generated_bridge_relay := r\<rparr>) = daemon_commands d"
  "daemon_commands (d\<lparr>dm_shutdown_callbacks := cbs\<rparr>) = daemon_commands d"
  by (simp_all add: daemon_commands_def)

lemmas daemon_send_defs [daemon_simps] =
  send_tunnel_command_def connect_tunnel_def disconnect_tunnel_def notify_settings_def
  schedule_reconnect_def unschedule_reconnect_def send_parameters_def

lemma history_lookup_account_eq [daemon_simps]:
  "history_lookup_account env w a d =
     (fst (history_get (de_history env) w a (dm_account_history d)),
      d\<lparr>dm_account_history := snd (history_get (de_history env) w a (dm_account_history d))\<rparr>)"
  by (simp add: history_lookup_account_def split: prod.split)

lemma history_insert_entry_eq [daemon_simps]:
  "history_insert_entry env w e d =
     (fst (history_insert (de_history env) w e (dm_account_history d)),
      d\<lparr>dm_account_history := snd (history_insert (de_history env) w e (dm_account_history d))\<rparr>)"
  by (simp add: history_insert_entry_def split: prod.split)

section \<open>Parts that leave the core alone\<close>

text \<open>What the commands to the machine are about: everything but relays, keys and history.\<close>

definition daemon_core :: "'g daemon \<Rightarrow> settings \<times> files \<times> execution_state \<times> target_state \<times>
    daemon_tunnel_state \<times> bool \<times> tunnel_command list" where
  "daemon_core d = (dm_settings d, dm_files d, dm_state d, dm_target_state d, dm_tunnel_state d,
     dm_reconnect d, daemon_commands d)"

lemma daemon_core_frame [simp]:
  "daemon_core (d\<lparr>dm_account_history := h\<rparr>) = daemon_core d"
  "daemon_core (d\<lparr>dm_key_manager := km\<rparr>) = daemon_core d"
  "daemon_core (d\<lparr>dm_relay_selector := sel\<rparr>) = daemon_core d"
  "daemon_core (d\<lparr>dm_last_generated_relay := r\<rparr>) = daemon_core d"
  "daemon_core (d\<lparr>dm_last_generated_bridge_relay := r\<rparr>) = daemon_core d"
  "command_of e = [] \<Longrightarrow> daemon_core (emit e d) = daemon_core d"
  by (simp_all add: daemon_core_def)

lemma daemon_core_eqD:
  assumes "daemon_core d' = daemon_core d"
  shows "dm_settings d' = dm_settings d" "dm_files d' = dm_files d" "dm_state d' = dm_state d"
    "dm_target_state d' = dm_target_state d" "dm_tunnel_state d' = dm_tunnel_state d"
    "dm_reconnect d' = dm_reconnect d" "daemon_commands d' = daemon_commands d"
  using assms by (simp_all add: daemon_core_def)

lemma ensure_wireguard_keys_core [simp]:
  "daemon_core (ensure_wireguard_keys_for_current_account env io d) = daemon_core d"
  by (simp add: ensure_wireguard_keys_for_current_account_def daemon_simps split: option.split)

lemma handle_wireguard_key_event_core [simp]:
  "daemon_core (handle_wireguard_key_event env io account result d) = daemon_core d"
  by (simp add: handle_wireguard_key_event_def daemon_simps Let_def
      split: sum.split wg_key_error.split)

lemma key_commands_core [simp]:
  "daemon_core (on_generate_wireguard_key env io d) = daemon_core d"
  "daemon_core (on_get_wireguard_key env io d) = daemon_core d"
  "daemon_core (on_verify_wireguard_key env io d) = daemon_core d"
  by (simp_all add: on_generate_wireguard_key_def on_get_wireguard_key_def on_verify_wireguard_key_def
      daemon_simps Let_def split: option.split sum.split prod.split wg_key_error.split)

lemma openvpn_proxy_settings_core:
  "openvpn_proxy_settings env ep location n d = Returns (r, d') \<Longrightarrow> daemon_core d' = daemon_core d"
  by (auto simp: openvpn_proxy_settings_def Let_def
      split: bridge_settings.splits bridge_state.splits panics.splits option.splits)

lemma create_tunnel_parameters_core:
  "create_tunnel_parameters env io relay ep account n d = Returns (r, d') \<Longrightarrow>
     daemon_core d' = daemon_core d"
  by (auto simp: create_tunnel_parameters_def daemon_simps Let_def
      dest!: openvpn_proxy_settings_core
      split: option.splits mullvad_endpoint.splits panics.splits sum.splits)

lemma send_parameters_core [simp]: "daemon_core (send_parameters io params d) = daemon_core d"
  by (simp add: send_parameters_def)

lemma handle_generate_tunnel_parameters_core:
  "handle_generate_tunnel_parameters env io n d = Returns d' \<Longrightarrow> daemon_core d' = daemon_core d"
  by (auto simp: handle_generate_tunnel_parameters_def Let_def dest!: create_tunnel_parameters_core
      split: option.splits relay_settings.splits sum.splits panics.splits)

section \<open>Changing settings\<close>

text \<open>Settings can be saved: their path is known and the write succeeds.\<close>

definition settings_saved :: "settings_io \<Rightarrow> bool" where
  "settings_saved io \<longleftrightarrow> is_ok (get_settings_path io) \<and> si_write io = FileWritten"

lemma change_settings_eq:
  "change_settings env io (apply_change ch) d =
     (if changed ch (dm_settings d) = dm_settings d then (Inr False, d)
      else (map_sum id (\<lambda>_. True) (fst (settings_save (de_settings env) io (changed ch (dm_settings d)) (dm_files d))),
            d\<lparr>dm_settings := changed ch (dm_settings d),
              dm_files := snd (settings_save (de_settings env) io (changed ch (dm_settings d)) (dm_files d))\<rparr>))"
  by (simp add: change_settings_def apply_change_eq save_changed_def split: prod.split sum.split)

lemma setters_are_changes:
  "set_account_token t = apply_change (ChangeAccountToken t)"
  "update_relay_settings u = apply_change (ChangeRelaySettings u)"
  "set_allow_lan b = apply_change (ChangeAllowLan b)"
  "set_block_when_disconnected b = apply_change (ChangeBlockWhenDisconnected b)"
  "set_auto_connect b = apply_change (ChangeAutoConnect b)"
  "set_openvpn_mssfix v = apply_change (ChangeMssfix v)"
  "set_enable_ipv6 b = apply_change (ChangeEnableIpv6 b)"
  "set_wireguard_mtu v = apply_change (ChangeMtu v)"
  "set_bridge_settings bs = apply_change (ChangeBridgeSettings bs)"
  "set_bridge_state st = apply_change (ChangeBridgeState st)"
  by simp_all

declare apply_change.simps [simp del]

lemma settings_saved_ok:
  "settings_saved io \<Longrightarrow> fst (settings_save codec io s files) = Inr ()"
  by (auto simp: settings_saved_def settings_save_def split: sum.split)

lemma set_target_state_sel [simp]:
  "dm_settings (set_target_state t d) = dm_settings d" "dm_state (set_target_state t d) = dm_state d"
  "dm_tunnel_state (set_target_state t d) = dm_tunnel_state d"
  "dm_target_state (set_target_state t d) = t"
  "sent_settings v (daemon_commands (set_target_state t d)) = sent_settings v (daemon_commands d)"
  by (auto simp: set_target_state_def daemon_simps Let_def split: target_state.split)

lemma reconnect_tunnel_sel [simp]:
  "dm_settings (reconnect_tunnel d) = dm_settings d" "dm_state (reconnect_tunnel d) = dm_state d"
  "dm_tunnel_state (reconnect_tunnel d) = dm_tunnel_state d"
  "dm_target_state (reconnect_tunnel d) = dm_target_state d"
  "sent_settings v (daemon_commands (reconnect_tunnel d)) = sent_settings v (daemon_commands d)"
  by (auto simp: reconnect_tunnel_def daemon_simps)

lemma trigger_shutdown_sel [simp]:
  "dm_settings (trigger_shutdown_event d) = dm_settings d"
  "dm_tunnel_state (trigger_shutdown_event d) = dm_tunnel_state d"
  "dm_target_state (trigger_shutdown_event d) = dm_target_state d"
  "dm_state (trigger_shutdown_event d) = exec_shutdown (dm_tunnel_state d) (dm_state d)"
  "daemon_commands (trigger_shutdown_event d) = daemon_commands d @ [CmdDisconnect]"
  by (simp_all add: trigger_shutdown_event_def daemon_simps)

lemma not_running_shutdown [simp]: "\<not> is_running (exec_shutdown ts x)"
  by (cases x; cases ts) simp_all

section \<open>The settings and the target the commands announce\<close>

text \<open>
  While the daemon runs, the commands it has sent announce the LAN and blocking settings it has, and
  the last request to connect or disconnect is its target; once it shuts down, it is a disconnect.
\<close>

definition settings_announced :: "bool \<times> bool \<Rightarrow> 'g daemon \<Rightarrow> bool" where
  "settings_announced v d \<longleftrightarrow> (is_running (dm_state d) \<longrightarrow>
     sent_settings v (daemon_commands d) =
       (st_allow_lan (dm_settings d), st_block_when_disconnected (dm_settings d)))"

definition target_announced :: "'g daemon \<Rightarrow> bool" where
  "target_announced d \<longleftrightarrow>
     sent_aim (daemon_commands d) = (is_running (dm_state d) \<and> dm_target_state d = Secured)"

lemma announced_core:
  assumes "daemon_core d' = daemon_core d"
  shows "settings_announced v d' = settings_announced v d" "target_announced d' = target_announced d"
  using daemon_core_eqD [OF assms] by (simp_all add: settings_announced_def target_announced_def)

lemma announced_emit [simp]:
  assumes "command_of e = []"
  shows "settings_announced v (emit e d) = settings_announced v d"
    "target_announced (emit e d) = target_announced d"
  using announced_core [of "emit e d" d] assms by simp_all

lemma shutdown_announced [simp]:
  "settings_announced v (trigger_shutdown_event d)" "target_announced (trigger_shutdown_event d)"
  by (simp_all add: settings_announced_def target_announced_def)

lemma set_target_state_announced:
  assumes "target_announced d" and "is_running (dm_state d)"
  shows "target_announced (set_target_state t d)"
  using assms
  by (cases t) (auto simp: target_announced_def set_target_state_def daemon_simps)

lemma reconnect_announced:
  assumes "target_announced d" and "is_running (dm_state d)"
  shows "target_announced (reconnect_tunnel d)"
  using assms by (auto simp: target_announced_def reconnect_tunnel_def daemon_simps)

lemma announced_frame [simp]:
  "target_announced (d\<lparr>dm_account_history := h\<rparr>) = target_announced d"
  "settings_announced v (d\<lparr>dm_account_history := h\<rparr>) = settings_announced v d"
  by (simp_all add: target_announced_def settings_announced_def)

lemma key_commands_announced [simp]:
  "target_announced (on_generate_wireguard_key env io d) = target_announced d"
  "target_announced (on_get_wireguard_key env io d) = target_announced d"
  "target_announced (on_verify_wireguard_key env io d) = target_announced d"
  "target_announced (handle_wireguard_key_event env io account result d) = target_announced d"
  "settings_announced v (on_generate_wireguard_key env io d) = settings_announced v d"
  "settings_announced v (on_get_wireguard_key env io d) = settings_announced v d"
  "settings_announced v (on_verify_wireguard_key env io d) = settings_announced v d"
  "settings_announced v (handle_wireguard_key_event env io account result d) = settings_announced v d"
  by (rule announced_core; simp)+

lemma announced_settings_update [simp]:
  "target_announced (d\<lparr>dm_settings := s, dm_files := fs\<rparr>) = target_announced d"
  by (simp add: target_announced_def)

lemma change_settings_target:
  "change_settings env io (apply_change ch) d = (r, d') \<Longrightarrow>
     target_announced d' = target_announced d \<and> dm_state d' = dm_state d"
  by (auto simp: change_settings_eq split: if_splits)

lemma on_changed_settings_target:
  assumes "target_announced d" and "is_running (dm_state d)"
    and "\<And>x. target_announced x \<Longrightarrow> is_running (dm_state x) \<Longrightarrow> target_announced (act x)"
  shows "target_announced (on_changed_settings env io (apply_change ch) act d)"
proof (cases "change_settings env (di_settings io) (apply_change ch) d")
  case (Pair r d')
  then show ?thesis
    using change_settings_target [OF Pair] assms
    by (cases r) (auto simp: on_changed_settings_def notify_settings_def Let_def)
qed

lemma target_announced_silent:
  "aim c = id \<Longrightarrow> target_announced (send_tunnel_command c d) = target_announced d"
  by (simp add: target_announced_def send_tunnel_command_def)

lemma aim_silent [simp]: "aim (CmdAllowLan b) = id" "aim (CmdBlockWhenDisconnected b) = id"
  by (simp_all add: fun_eq_iff)

lemma on_set_account_target:
  assumes "target_announced d" and "is_running (dm_state d)"
  shows "target_announced (on_set_account env io t d)"
proof (cases "change_settings env (di_settings io) (set_account_token t) d")
  case (Pair r d1)
  have 1: "target_announced d1" "is_running (dm_state d1)"
    using change_settings_target [OF Pair [unfolded setters_are_changes(1)]] assms by simp_all
  let ?d = "ensure_wireguard_keys_for_current_account env io (emit (Reply ReplyUnit) d1)"
  have "daemon_core ?d = daemon_core d1" by simp
  note 2 = announced_core(2) [OF this] daemon_core_eqD [OF this]
  have "target_announced (set_target_state Unsecured (notify_settings ?d))"
    using 1 2 by (intro set_target_state_announced) (simp_all add: notify_settings_def)
  moreover have "target_announced (reconnect_tunnel ((notify_settings ?d)\<lparr>dm_account_history := h\<rparr>))" for h
    using 1 2 by (intro reconnect_announced) (simp_all add: notify_settings_def)
  ultimately show ?thesis using Pair 1
    by (auto simp: on_set_account_def Let_def split: sum.split option.split)
qed

lemma bridge_handlers_target:
  assumes "target_announced d" and "is_running (dm_state d)"
  shows "target_announced (on_set_bridge_settings env io bs d)"
    "target_announced (on_set_bridge_state env io b d)"
proof -
  have rec: "target_announced (reconnect_tunnel (notify_settings x))"
    if "target_announced x" "is_running (dm_state x)" for x :: "'a daemon"
    using that by (intro reconnect_announced) (simp_all add: notify_settings_def)
  show "target_announced (on_set_bridge_settings env io bs d)"
    using assms unfolding on_set_bridge_settings_def setters_are_changes
    by (auto split: prod.split sum.split dest!: change_settings_target intro: rec)
  show "target_announced (on_set_bridge_state env io b d)"
    using assms unfolding on_set_bridge_state_def apply_proxy_constraints_def setters_are_changes
    by (auto simp: Let_def split: prod.split sum.split dest!: change_settings_target intro!: rec
        simp: change_settings_eq)
qed

lemma run_management_command_target:
  assumes "run_management_command env io c d = Returns d'"
    and "target_announced d" and "is_running (dm_state d)"
  shows "target_announced d'"
proof (cases c)
  case (SetAccount t)
  with assms show ?thesis by (auto intro: on_set_account_target)
next
  case FactoryReset
  with assms show ?thesis
    by (auto simp: on_factory_reset_def Let_def target_announced_def split: prod.splits if_splits)
qed (use assms in \<open>auto simp: on_set_target_state_def on_update_relay_settings_def
       on_set_allow_lan_def on_set_block_when_disconnected_def on_set_auto_connect_def
       on_set_openvpn_mssfix_def on_set_enable_ipv6_def on_set_wireguard_mtu_def
       on_get_current_location_def on_remove_account_from_history_def setters_are_changes
       target_announced_silent
     intro!: on_changed_settings_target set_target_state_announced reconnect_announced
       bridge_handlers_target
     split: daemon_tunnel_state.splits panics.splits sum.splits prod.splits if_splits\<close>)

text \<open>The settings, for changes that were saved.\<close>

lemma on_changed_settings_announced:
  assumes "settings_saved (di_settings io)" and "settings_announced v d"
    and "\<And>x. dm_state x = dm_state d \<Longrightarrow> dm_settings x = changed ch (dm_settings d) \<Longrightarrow>
           daemon_commands x = daemon_commands d \<Longrightarrow> settings_announced v (act x)"
  shows "settings_announced v (on_changed_settings env io (apply_change ch) act d)"
  using assms(2) settings_saved_ok [OF assms(1)]
  by (auto simp: on_changed_settings_def change_settings_eq notify_settings_def Let_def
      intro!: assms(3))

lemma neutral_change_announced:
  assumes "settings_saved (di_settings io)" and "settings_announced v d"
    and "\<And>s. st_allow_lan (changed ch s) = st_allow_lan s"
    and "\<And>s. st_block_when_disconnected (changed ch s) = st_block_when_disconnected s"
  shows "settings_announced v (on_changed_settings env io (apply_change ch) reconnect_tunnel d)"
    "settings_announced v (on_changed_settings env io (apply_change ch) id d)"
  using assms by (intro on_changed_settings_announced; simp add: settings_announced_def)+

lemma lan_change_announced:
  assumes "settings_saved (di_settings io)" and "settings_announced v d"
  shows "settings_announced v (on_set_allow_lan env io b d)"
    "settings_announced v (on_set_block_when_disconnected env io b d)"
proof -
  show "settings_announced v (on_set_allow_lan env io b d)"
    unfolding on_set_allow_lan_def setters_are_changes
    using assms
    by (intro on_changed_settings_announced) (auto simp: settings_announced_def send_tunnel_command_def)
  show "settings_announced v (on_set_block_when_disconnected env io b d)"
    unfolding on_set_block_when_disconnected_def setters_are_changes
    using assms
    by (intro on_changed_settings_announced) (auto simp: settings_announced_def send_tunnel_command_def)
qed

lemma bridge_change_announced:
  assumes "settings_announced v d"
  shows "settings_announced v (on_set_bridge_settings env io bs d)"
    "settings_announced v (on_set_bridge_state env io b d)"
  using assms unfolding on_set_bridge_settings_def on_set_bridge_state_def
    apply_proxy_constraints_def setters_are_changes change_settings_eq
  by (auto simp: Let_def settings_announced_def notify_settings_def split: sum.split)

lemma on_set_account_announced:
  assumes "settings_announced v d"
  shows "settings_announced v (on_set_account env io t d)"
proof -
  let ?d = "\<lambda>d. ensure_wireguard_keys_for_current_account env io (emit (Reply ReplyUnit) d)"
  have core: "daemon_core (?d x) = daemon_core x" for x :: "'a daemon" by simp
  show ?thesis
    using assms unfolding on_set_account_def setters_are_changes change_settings_eq
    by (auto simp: Let_def settings_announced_def notify_settings_def daemon_core_eqD [OF core]
        split: sum.split option.split)
qed

lemma run_management_command_settings:
  assumes "run_management_command env io c d = Returns d'"
    and "settings_saved (di_settings io)" and "settings_announced v d"
  shows "settings_announced v d'"
proof (cases c)
  case FactoryReset
  with assms show ?thesis
    by (auto simp: on_factory_reset_def Let_def settings_announced_def split: prod.splits if_splits)
next
  case (SetTargetState t)
  with assms show ?thesis by (auto simp: on_set_target_state_def settings_announced_def)
qed (use assms in \<open>auto simp: on_update_relay_settings_def on_set_auto_connect_def
       on_set_openvpn_mssfix_def on_set_enable_ipv6_def on_set_wireguard_mtu_def
       on_get_current_location_def on_remove_account_from_history_def setters_are_changes
     intro!: neutral_change_announced lan_change_announced bridge_change_announced
       on_set_account_announced
     split: daemon_tunnel_state.splits panics.splits sum.splits prod.splits if_splits\<close>)

section \<open>Events\<close>

lemma handle_tunnel_state_transition_sel:
  assumes "handle_tunnel_state_transition tr d = Returns d'"
  shows "dm_settings d' = dm_settings d" "dm_target_state d' = dm_target_state d"
    "daemon_commands d' = daemon_commands d" "dm_account_history d' = dm_account_history d"
    "dm_relay_selector d' = dm_relay_selector d"
    "dm_last_generated_relay d' = dm_last_generated_relay d"
    "dm_state d' = (if tr = TrDisconnected then exec_disconnected (dm_state d) else dm_state d)"
    "dm_reconnect d' \<longleftrightarrow> (\<exists>r. tr = TrBlocked (AuthFailed r))"
    "tunnel_state_of_transition tr d = Returns (dm_tunnel_state d')"
  using assms
  by (auto simp: handle_tunnel_state_transition_def tunnel_state_of_transition_def daemon_simps Let_def
      split: panics.splits tunnel_state_transition.splits block_reason.splits)

lemma is_running_disconnected [simp]: "is_running (exec_disconnected x) = is_running x"
  by (cases x) simp_all

lemma event_announced:
  assumes ev: "daemon_handle_event env io e d = Returns (err, d')"
  shows "target_announced d \<Longrightarrow> target_announced d'"
    and "settings_saved (di_settings io) \<Longrightarrow> settings_announced v d \<Longrightarrow> settings_announced v d'"
proof -
  have "(target_announced d \<longrightarrow> target_announced d') \<and>
      (settings_saved (di_settings io) \<longrightarrow> settings_announced v d \<longrightarrow> settings_announced v d')"
  proof (cases e)
    case (EventTunnelStateTransition tr)
    with ev have "handle_tunnel_state_transition tr d = Returns d'" by (auto split: panics.splits)
    note this = handle_tunnel_state_transition_sel [OF this]
    then show ?thesis by (simp add: target_announced_def settings_announced_def)
  next
    case (EventGenerateTunnelParameters n)
    with ev have "daemon_core d' = daemon_core d"
      by (auto split: panics.splits dest: handle_generate_tunnel_parameters_core)
    then show ?thesis by (simp add: announced_core [of d' d])
  next
    case (EventManagementCommand c)
    with ev show ?thesis
      by (auto simp: handle_management_interface_event_def split: panics.splits if_splits
          dest: run_management_command_target run_management_command_settings)
  qed (use ev in auto)
  then show "target_announced d \<Longrightarrow> target_announced d'"
    and "settings_saved (di_settings io) \<Longrightarrow> settings_announced v d \<Longrightarrow> settings_announced v d'"
    by blast+
qed

lemma refresh_relays_sel [simp]:
  "daemon_core (refresh_relays io d) = daemon_core d" "dm_state (refresh_relays io d) = dm_state d"
  "dm_settings (refresh_relays io d) = dm_settings d"
  "dm_tunnel_state (refresh_relays io d) = dm_tunnel_state d"
  "dm_last_generated_relay (refresh_relays io d) = dm_last_generated_relay d"
  by (simp_all add: refresh_relays_def split: option.split)

lemma daemon_loop_invariant:
  assumes "daemon_loop env es d = Returns (r, d')" and "P d"
    and "\<And>io e d d' err. (io, e) \<in> set es \<Longrightarrow> P d \<Longrightarrow> dm_state d \<noteq> ExecFinished \<Longrightarrow>
           daemon_handle_event env io e (refresh_relays io d) = Returns (err, d') \<Longrightarrow> P d'"
    and "dm_state d \<noteq> ExecFinished"
  shows "P d'"
  using assms
proof (induction env es d rule: daemon_loop.induct)
  case (2 env io e es d)
  let ?d = "refresh_relays io d"
  from "2.prems"(1) obtain err d1 where d1: "daemon_handle_event env io e ?d = Returns (err, d1)"
    by (auto split: panics.splits)
  have "P d1" using "2.prems"(3) [of io e d err d1] "2.prems"(2,4) d1 by simp
  show ?case
  proof (cases "err = None \<and> dm_state d1 \<noteq> ExecFinished")
    case True
    then show ?thesis
      using d1 "2.prems"(1) \<open>P d1\<close>
      by (intro "2.IH" [of "(err, d1)" err d1]) (auto intro: "2.prems"(3))
  next
    case False
    with d1 "2.prems"(1) \<open>P d1\<close> show ?thesis by (auto split: option.splits)
  qed
qed auto

text \<open>The settings and the target are announced along every run.\<close>

lemma refresh_announced [simp]:
  "settings_announced v (refresh_relays io d) = settings_announced v d"
  "target_announced (refresh_relays io d) = target_announced d"
  by (rule announced_core; simp)+

lemma auto_connect_announced:
  "target_announced d \<Longrightarrow> is_running (dm_state d) \<Longrightarrow> target_announced (daemon_auto_connect d)"
  "settings_announced v d \<Longrightarrow> settings_announced v (daemon_auto_connect d)"
  "dm_state (daemon_auto_connect d) = dm_state d"
  by (auto simp: daemon_auto_connect_def set_target_state_announced settings_announced_def)

lemma finalize_announced [simp]:
  "target_announced (daemon_finalize env dirs d) = target_announced d"
  "settings_announced v (daemon_finalize env dirs d) = settings_announced v d"
proof -
  have "concat (map (command_of \<circ> Reply) rs) = []" for rs by (simp add: concat_eq_Nil_conv)
  then have "daemon_core (daemon_finalize env dirs d) = daemon_core d"
    by (simp add: daemon_finalize_def daemon_core_def daemon_commands_def)
  then show "target_announced (daemon_finalize env dirs d) = target_announced d"
    "settings_announced v (daemon_finalize env dirs d) = settings_announced v d"
    by (rule announced_core)+
qed

lemma daemon_run_invariant:
  assumes "daemon_run env es dirs d = Returns (r, d')" and "P (daemon_auto_connect d)"
    and "dm_state d = ExecRunning"
    and "\<And>io e d d' err. (io, e) \<in> set es \<Longrightarrow> P d \<Longrightarrow> dm_state d \<noteq> ExecFinished \<Longrightarrow>
           daemon_handle_event env io e (refresh_relays io d) = Returns (err, d') \<Longrightarrow> P d'"
    and "\<And>d. P d \<Longrightarrow> P (daemon_finalize env dirs d)"
  shows "P d'"
proof -
  obtain r1 d1 where 1: "daemon_loop env es (daemon_auto_connect d) = Returns (r1, d1)"
    "d' = d1 \<or> d' = daemon_finalize env dirs d1"
    using assms(1) by (auto simp: daemon_run_def split: panics.splits option.splits sum.splits)
  have "dm_state (daemon_auto_connect d) \<noteq> ExecFinished"
    using assms(3) by (simp add: auto_connect_announced)
  with 1(1) assms(2,4) have "P d1" by (rule daemon_loop_invariant)
  with 1(2) assms(5) show ?thesis by blast
qed

lemma daemon_run_target:
  assumes "daemon_run env es dirs d = Returns (r, d')" and "target_announced d"
    and "dm_state d = ExecRunning"
  shows "target_announced d'"
  using assms
  by (elim daemon_run_invariant) (auto simp: auto_connect_announced dest: event_announced(1))

lemma daemon_run_settings:
  assumes "daemon_run env es dirs d = Returns (r, d')" and "settings_announced v d"
    and "dm_state d = ExecRunning" and "\<And>io e. (io, e) \<in> set es \<Longrightarrow> settings_saved (di_settings io)"
  shows "settings_announced v d'"
  using assms(1-3)
  by (elim daemon_run_invariant) (auto simp: auto_connect_announced dest: event_announced(2) assms(4))

text \<open>A daemon that has just started.\<close>

lemma start_internal_Inr:
  assumes "start_internal env io ok1 ok2 ok3 selector loaded history spawn version = Inr d"
  shows "dm_settings d = fst loaded" "dm_state d = ExecRunning" "dm_target_state d = Unsecured"
    "dm_tunnel_state d = DtDisconnected" "daemon_commands d = []" "\<not> dm_reconnect d"
    "is_ok (spawn (st_allow_lan (fst loaded)) (st_block_when_disconnected (fst loaded)))"
proof -
  obtain d0 :: "'a daemon" where d: "d = ensure_wireguard_keys_for_current_account env io d0"
    and d0: "daemon_core d0 =
      (fst loaded, snd loaded, ExecRunning, Unsecured, DtDisconnected, False, [])"
    and "is_ok (spawn (st_allow_lan (fst loaded)) (st_block_when_disconnected (fst loaded)))"
    using assms
    by (auto simp: start_internal_def daemon_core_def daemon_commands_def
        split: if_splits prod.splits sum.splits)
  then show "dm_settings d = fst loaded" "dm_state d = ExecRunning" "dm_target_state d = Unsecured"
    "dm_tunnel_state d = DtDisconnected" "daemon_commands d = []" "\<not> dm_reconnect d"
    "is_ok (spawn (st_allow_lan (fst loaded)) (st_block_when_disconnected (fst loaded)))"
    using daemon_core_eqD [OF ensure_wireguard_keys_core [of env io d0]]
    by (simp_all add: daemon_core_def)
qed

lemma start_internal_announced:
  assumes "start_internal env io ok1 ok2 ok3 selector loaded history spawn version = Inr d"
  shows "target_announced d"
    "settings_announced (st_allow_lan (fst loaded), st_block_when_disconnected (fst loaded)) d"
  using start_internal_Inr [OF assms] by (simp_all add: target_announced_def settings_announced_def)

end
