(* ===== verification/Firewall_Linux.thy ===== *)
theory Firewall_Linux
  imports Firewall_Policy
begin

text \<open>
  The Linux firewall (\<open>talpid-core/src/firewall/linux.rs\<close>).  The rule builders are translated to
  functions that append expressions to a rule; \<open>PolicyBatch\<close> is the batch of messages sent to
  netfilter.  The crates \<open>nftnl\<close> and \<open>mnl\<close> and the kernel are outside the repository: the locale
  \<open>netfilter\<close> states how rule expressions and chains are evaluated on a packet, the locale
  \<open>netlink_kernel\<close> how a batch is committed.  Both are instantiated below; the theorems show that
  the batch built for a policy accepts exactly the packets of \<open>policy_allows\<close>, but for those of \<open>peer_starts\<close>, and that the
  firewall satisfies the contract \<open>firewall_interface\<close>.
\<close>

section \<open>The messages of \<open>nftnl\<close>\<close>

datatype nft_field =
    MetaNfproto | MetaL4proto | MetaIif | MetaOif
  | PayloadIpv4Saddr | PayloadIpv4Daddr | PayloadIpv6Saddr | PayloadIpv6Daddr
  | PayloadUdpSport | PayloadUdpDport | PayloadTcpSport | PayloadTcpDport
  | PayloadIcmpv6Type | PayloadIcmpv6Code
  | CtState

datatype cmp_op = CmpEq | CmpNeq

datatype verdict = Accept | Drop

text \<open>The register of the rule machine, wide enough for an IPv6 address.\<close>

type_synonym nft_reg = "128 word"

datatype nft_expr =
    Load nft_field
  | Bitwise nft_reg nft_reg
  | Cmp cmp_op nft_reg
  | Counter
  | ImmediateVerdict verdict

datatype nft_hook = HookIn | HookOut

record nft_chain =
  chain_name :: string
  chain_hook :: nft_hook
  chain_policy :: verdict

record nft_rule =
  rule_chain :: string
  rule_exprs :: "nft_expr list"

datatype nft_msg_type = MsgAdd | MsgDel

datatype batch_msg =
    TableMsg nft_msg_type string
  | ChainMsg nft_msg_type nft_chain
  | RuleMsg nft_msg_type nft_rule

section \<open>Errors\<close>

datatype linux_fw_error =
    NetlinkOpenError
  | NetlinkSendError
  | NetlinkRecvError
  | ProcessNetlinkError
  | NetfilterTableNotSetError
  | LookupIfaceIndexError string

definition TABLE_NAME :: string where "TABLE_NAME = ''mullvad''"
definition IN_CHAIN_NAME :: string where "IN_CHAIN_NAME = ''in''"
definition OUT_CHAIN_NAME :: string where "OUT_CHAIN_NAME = ''out''"

datatype rule_end = EndSrc | EndDst

section \<open>Rule builders\<close>

definition rule_new :: "nft_chain \<Rightarrow> nft_rule" where
  "rule_new c = \<lparr>rule_chain = chain_name c, rule_exprs = []\<rparr>"

definition add_expr :: "nft_rule \<Rightarrow> nft_expr \<Rightarrow> nft_rule" where
  "add_expr r e = r\<lparr>rule_exprs := rule_exprs r @ [e]\<rparr>"

text \<open>\<open>libc::NFPROTO_*\<close> and \<open>libc::IPPROTO_*\<close>.\<close>

fun l3proto :: "ip_addr \<Rightarrow> nft_reg" where
  "l3proto (V4 _) = 2"
| "l3proto (V6 _) = 10"

fun l4proto :: "transport_protocol \<Rightarrow> nft_reg" where
  "l4proto Udp = 17"
| "l4proto Tcp = 6"

definition IPPROTO_ICMP :: nft_reg where "IPPROTO_ICMP = 1"
definition IPPROTO_ICMPV6 :: nft_reg where "IPPROTO_ICMPV6 = 58"

text \<open>\<open>add_counters\<close> is the static \<open>ADD_COUNTERS\<close> (set by \<open>TALPID_FIREWALL_DEBUG\<close>).\<close>

definition add_verdict :: "bool \<Rightarrow> nft_rule \<Rightarrow> verdict \<Rightarrow> nft_rule" where
  "add_verdict add_counters r v =
     add_expr (if add_counters then add_expr r Counter else r) (ImmediateVerdict v)"

definition check_l3proto :: "nft_rule \<Rightarrow> ip_addr \<Rightarrow> nft_rule" where
  "check_l3proto r ip = add_expr (add_expr r (Load MetaNfproto)) (Cmp CmpEq (l3proto ip))"

definition check_l4proto :: "nft_rule \<Rightarrow> transport_protocol \<Rightarrow> nft_rule" where
  "check_l4proto r proto = add_expr (add_expr r (Load MetaL4proto)) (Cmp CmpEq (l4proto proto))"

fun port_field :: "transport_protocol \<Rightarrow> rule_end \<Rightarrow> nft_field" where
  "port_field Udp EndSrc = PayloadUdpSport"
| "port_field Udp EndDst = PayloadUdpDport"
| "port_field Tcp EndSrc = PayloadTcpSport"
| "port_field Tcp EndDst = PayloadTcpDport"

text \<open>\<open>port.to_be()\<close> is the network representation of the port that the payload holds.\<close>

definition check_port :: "nft_rule \<Rightarrow> transport_protocol \<Rightarrow> rule_end \<Rightarrow> u16 \<Rightarrow> nft_rule" where
  "check_port r proto e port =
     add_expr (add_expr (check_l4proto r proto) (Load (port_field proto e)))
       (Cmp CmpEq (ucast port))"

fun addr_field :: "ip_addr \<Rightarrow> rule_end \<Rightarrow> nft_field" where
  "addr_field (V4 _) EndSrc = PayloadIpv4Saddr"
| "addr_field (V4 _) EndDst = PayloadIpv4Daddr"
| "addr_field (V6 _) EndSrc = PayloadIpv6Saddr"
| "addr_field (V6 _) EndDst = PayloadIpv6Daddr"

fun addr_value :: "ip_addr \<Rightarrow> nft_reg" where
  "addr_value (V4 a) = ucast a"
| "addr_value (V6 a) = a"

definition check_ip :: "nft_rule \<Rightarrow> rule_end \<Rightarrow> ip_addr \<Rightarrow> nft_rule" where
  "check_ip r e ip =
     add_expr (add_expr (check_l3proto r ip) (Load (addr_field ip e))) (Cmp CmpEq (addr_value ip))"

definition check_endpoint :: "nft_rule \<Rightarrow> rule_end \<Rightarrow> endpoint \<Rightarrow> nft_rule" where
  "check_endpoint r e ep =
     check_port (check_ip r e (sa_ip (address ep))) (protocol ep) e (sa_port (address ep))"

fun net_ip :: "ip_network \<Rightarrow> ip_addr" where
  "net_ip (NetV4 a _) = V4 a"
| "net_ip (NetV6 a _) = V6 a"

fun net_mask_value :: "ip_network \<Rightarrow> nft_reg" where
  "net_mask_value (NetV4 _ p) = ucast (mask_v4 p)"
| "net_mask_value (NetV6 _ p) = mask_v6 p"

definition check_net :: "nft_rule \<Rightarrow> rule_end \<Rightarrow> ip_network \<Rightarrow> nft_rule" where
  "check_net r e net =
     (let r = check_l3proto r (net_ip net);
          r = add_expr r (Load (addr_field (net_ip net) e));
          r = add_expr r (Bitwise (net_mask_value net) 0)
      in add_expr r (Cmp CmpEq (addr_value (net_ip net))))"

text \<open>\<open>iface_index\<close> is \<open>crate::linux::iface_index\<close>, \<open>None\<close> when the lookup fails.\<close>

definition check_iface ::
    "(string \<Rightarrow> u32 option) \<Rightarrow> nft_rule \<Rightarrow> direction \<Rightarrow> string \<Rightarrow> linux_fw_error + nft_rule" where
  "check_iface iface_index r dir iface =
     (case iface_index iface of
        None \<Rightarrow> Inl (LookupIfaceIndexError iface)
      | Some idx \<Rightarrow>
          Inr (add_expr (add_expr r (Load (case dir of DirIn \<Rightarrow> MetaIif | DirOut \<Rightarrow> MetaOif)))
                 (Cmp CmpEq (ucast idx))))"

text \<open>The system facts the builders read: the interface lookup and \<open>ADD_COUNTERS\<close>.\<close>

record linux_sys =
  ls_iface_index :: "string \<Rightarrow> u32 option"
  ls_add_counters :: bool

definition allow_interface_rule ::
    "linux_sys \<Rightarrow> nft_chain \<Rightarrow> direction \<Rightarrow> string \<Rightarrow> linux_fw_error + nft_rule" where
  "allow_interface_rule sys c dir iface =
     (case check_iface (ls_iface_index sys) (rule_new c) dir iface of
        Inl e \<Rightarrow> Inl e
      | Inr r \<Rightarrow> Inr (add_verdict (ls_add_counters sys) r Accept))"

section \<open>The policy batch\<close>

record policy_batch =
  pb_batch :: "batch_msg list"
  pb_in_chain :: nft_chain
  pb_out_chain :: nft_chain

definition batch_add :: "policy_batch \<Rightarrow> nft_rule \<Rightarrow> policy_batch" where
  "batch_add b r = b\<lparr>pb_batch := pb_batch b @ [RuleMsg MsgAdd r]\<rparr>"

definition policy_batch_new :: "string \<Rightarrow> policy_batch" where
  "policy_batch_new table =
     (let out_chain = \<lparr>chain_name = OUT_CHAIN_NAME, chain_hook = HookOut, chain_policy = Drop\<rparr>;
          in_chain = \<lparr>chain_name = IN_CHAIN_NAME, chain_hook = HookIn, chain_policy = Drop\<rparr>
      in \<lparr>pb_batch =
            [TableMsg MsgAdd table, TableMsg MsgDel table, TableMsg MsgAdd table,
             ChainMsg MsgAdd out_chain, ChainMsg MsgAdd in_chain],
          pb_in_chain = in_chain, pb_out_chain = out_chain\<rparr>)"

definition add_loopback_rules :: "linux_sys \<Rightarrow> policy_batch \<Rightarrow> linux_fw_error + policy_batch" where
  "add_loopback_rules sys b =
     (case allow_interface_rule sys (pb_out_chain b) DirOut ''lo'' of
        Inl e \<Rightarrow> Inl e
      | Inr r1 \<Rightarrow>
          (case allow_interface_rule sys (pb_in_chain b) DirIn ''lo'' of
             Inl e \<Rightarrow> Inl e
           | Inr r2 \<Rightarrow> Inr (batch_add (batch_add b r1) r2)))"

definition check_icmpv6 :: "nft_rule \<Rightarrow> u8 \<Rightarrow> u8 \<Rightarrow> nft_rule" where
  "check_icmpv6 r typ code =
     (let r = add_expr r (Load MetaL4proto);
          r = add_expr r (Cmp CmpEq IPPROTO_ICMPV6);
          r = add_expr r (Load PayloadIcmpv6Type);
          r = add_expr r (Cmp CmpEq (ucast typ));
          r = add_expr r (Load PayloadIcmpv6Code)
      in add_expr r (Cmp CmpEq (ucast code)))"

definition dhcpv4_request_rule :: "linux_sys \<Rightarrow> nft_chain \<Rightarrow> nft_rule" where
  "dhcpv4_request_rule sys c =
     (let r = check_port (rule_new c) Udp EndSrc DHCPV4_CLIENT_PORT;
          r = check_ip r EndDst (V4 ipv4_broadcast);
          r = check_port r Udp EndDst DHCPV4_SERVER_PORT
      in add_verdict (ls_add_counters sys) r Accept)"

definition dhcpv4_response_rule :: "linux_sys \<Rightarrow> nft_chain \<Rightarrow> nft_rule" where
  "dhcpv4_response_rule sys c =
     (let r = check_port (rule_new c) Udp EndSrc DHCPV4_SERVER_PORT;
          r = check_port r Udp EndDst DHCPV4_CLIENT_PORT
      in add_verdict (ls_add_counters sys) r Accept)"

definition dhcpv6_request_rule :: "linux_sys \<Rightarrow> nft_chain \<Rightarrow> ipv6 \<Rightarrow> nft_rule" where
  "dhcpv6_request_rule sys c server =
     (let r = check_net (rule_new c) EndSrc IPV6_LINK_LOCAL;
          r = check_port r Udp EndSrc DHCPV6_CLIENT_PORT;
          r = check_ip r EndDst (V6 server);
          r = check_port r Udp EndDst DHCPV6_SERVER_PORT
      in add_verdict (ls_add_counters sys) r Accept)"

definition dhcpv6_response_rule :: "linux_sys \<Rightarrow> nft_chain \<Rightarrow> nft_rule" where
  "dhcpv6_response_rule sys c =
     (let r = check_net (rule_new c) EndSrc IPV6_LINK_LOCAL;
          r = check_port r Udp EndSrc DHCPV6_SERVER_PORT;
          r = check_net r EndDst IPV6_LINK_LOCAL;
          r = check_port r Udp EndDst DHCPV6_CLIENT_PORT
      in add_verdict (ls_add_counters sys) r Accept)"

definition router_solicitation_rule :: "linux_sys \<Rightarrow> nft_chain \<Rightarrow> nft_rule" where
  "router_solicitation_rule sys c =
     (let r = check_ip (rule_new c) EndDst (V6 ROUTER_SOLICITATION_OUT_DST_ADDR);
          r = check_icmpv6 r 133 0
      in add_verdict (ls_add_counters sys) r Accept)"

definition router_in_rule :: "linux_sys \<Rightarrow> nft_chain \<Rightarrow> u8 \<Rightarrow> nft_rule" where
  "router_in_rule sys c typ =
     (let r = check_net (rule_new c) EndSrc IPV6_LINK_LOCAL;
          r = check_icmpv6 r typ 0
      in add_verdict (ls_add_counters sys) r Accept)"

definition add_dhcp_client_rules :: "linux_sys \<Rightarrow> policy_batch \<Rightarrow> policy_batch" where
  "add_dhcp_client_rules sys b =
     (let out_c = pb_out_chain b; in_c = pb_in_chain b;
          b = batch_add b (dhcpv4_request_rule sys out_c);
          b = batch_add b (dhcpv4_response_rule sys in_c);
          b = foldl batch_add b (map (dhcpv6_request_rule sys out_c) DHCPV6_SERVER_ADDRS);
          b = batch_add b (dhcpv6_response_rule sys in_c);
          b = batch_add b (router_solicitation_rule sys out_c);
          b = batch_add b (router_in_rule sys in_c 134)
      in batch_add b (router_in_rule sys in_c 137))"

definition add_allow_endpoint_rules :: "linux_sys \<Rightarrow> policy_batch \<Rightarrow> endpoint \<Rightarrow> policy_batch" where
  "add_allow_endpoint_rules sys b ep =
     (let in_rule = check_endpoint (rule_new (pb_in_chain b)) EndSrc ep;
          in_rule = add_expr in_rule (Load CtState);
          in_rule = add_expr in_rule (Bitwise (ucast ct_established) 0);
          in_rule = add_expr in_rule (Cmp CmpNeq 0);
          in_rule = add_verdict (ls_add_counters sys) in_rule Accept;
          b = batch_add b in_rule;
          out_rule = check_endpoint (rule_new (pb_out_chain b)) EndDst ep;
          out_rule = add_verdict (ls_add_counters sys) out_rule Accept
      in batch_add b out_rule)"

fun icmp_proto :: "ip_addr \<Rightarrow> nft_reg" where
  "icmp_proto (V4 _) = IPPROTO_ICMP"
| "icmp_proto (V6 _) = IPPROTO_ICMPV6"

definition icmp_host_rule :: "linux_sys \<Rightarrow> nft_chain \<Rightarrow> rule_end \<Rightarrow> ip_addr \<Rightarrow> nft_rule" where
  "icmp_host_rule sys c e host =
     (let r = check_ip (rule_new c) e host;
          r = add_expr r (Load MetaL4proto);
          r = add_expr r (Cmp CmpEq (icmp_proto host))
      in add_verdict (ls_add_counters sys) r Accept)"

definition add_allow_icmp_pingable_hosts ::
    "linux_sys \<Rightarrow> policy_batch \<Rightarrow> ip_addr list \<Rightarrow> policy_batch" where
  "add_allow_icmp_pingable_hosts sys b hosts =
     foldl (\<lambda>b host.
        batch_add (batch_add b (icmp_host_rule sys (pb_out_chain b) EndDst host))
          (icmp_host_rule sys (pb_in_chain b) EndSrc host)) b hosts"

definition add_allow_dns_rule ::
    "linux_sys \<Rightarrow> policy_batch \<Rightarrow> string \<Rightarrow> transport_protocol \<Rightarrow> ip_addr
      \<Rightarrow> linux_fw_error + policy_batch" where
  "add_allow_dns_rule sys b interface proto host =
     (case check_iface (ls_iface_index sys) (rule_new (pb_out_chain b)) DirOut interface of
        Inl e \<Rightarrow> Inl e
      | Inr r \<Rightarrow>
          (let r = check_port r proto EndDst 53;
               r = check_l3proto r host;
               r = add_expr r (Load (addr_field host EndDst));
               r = add_expr r (Cmp CmpEq (addr_value host))
           in Inr (batch_add b (add_verdict (ls_add_counters sys) r Accept))))"

definition dns_block_rule :: "linux_sys \<Rightarrow> nft_chain \<Rightarrow> transport_protocol \<Rightarrow> nft_rule" where
  "dns_block_rule sys c proto =
     add_verdict (ls_add_counters sys) (check_port (rule_new c) proto EndDst 53) Drop"

definition add_dns_rule ::
    "linux_sys \<Rightarrow> policy_batch \<Rightarrow> tunnel_metadata \<Rightarrow> transport_protocol
      \<Rightarrow> linux_fw_error + policy_batch" where
  "add_dns_rule sys b tunnel proto =
     (case add_allow_dns_rule sys b (tm_interface tunnel) proto (V4 (tm_ipv4_gateway tunnel)) of
        Inl e \<Rightarrow> Inl e
      | Inr b \<Rightarrow>
          (case (case tm_ipv6_gateway tunnel of
                   None \<Rightarrow> Inr b
                 | Some g \<Rightarrow> add_allow_dns_rule sys b (tm_interface tunnel) proto (V6 g)) of
             Inl e \<Rightarrow> Inl e
           | Inr b \<Rightarrow> Inr (batch_add b (dns_block_rule sys (pb_out_chain b) proto))))"

definition add_allow_tunnel_rules ::
    "linux_sys \<Rightarrow> policy_batch \<Rightarrow> tunnel_metadata \<Rightarrow> linux_fw_error + policy_batch" where
  "add_allow_tunnel_rules sys b tunnel =
     (case allow_interface_rule sys (pb_out_chain b) DirOut (tm_interface tunnel) of
        Inl e \<Rightarrow> Inl e
      | Inr r1 \<Rightarrow>
          (case allow_interface_rule sys (pb_in_chain b) DirIn (tm_interface tunnel) of
             Inl e \<Rightarrow> Inl e
           | Inr r2 \<Rightarrow> Inr (batch_add (batch_add b r1) r2)))"

definition net_rule :: "linux_sys \<Rightarrow> nft_chain \<Rightarrow> rule_end \<Rightarrow> ip_network \<Rightarrow> nft_rule" where
  "net_rule sys c e net = add_verdict (ls_add_counters sys) (check_net (rule_new c) e net) Accept"

definition add_dhcp_server_rules :: "linux_sys \<Rightarrow> policy_batch \<Rightarrow> policy_batch" where
  "add_dhcp_server_rules sys b =
     (let out_v4 = check_port (rule_new (pb_out_chain b)) Udp EndSrc DHCPV4_SERVER_PORT;
          out_v4 = check_port out_v4 Udp EndDst DHCPV4_CLIENT_PORT;
          b = batch_add b (add_verdict (ls_add_counters sys) out_v4 Accept);
          in_v4 = check_port (rule_new (pb_in_chain b)) Udp EndSrc DHCPV4_CLIENT_PORT;
          in_v4 = check_endpoint in_v4 EndDst
                    (endpoint_new (V4 ipv4_broadcast) DHCPV4_SERVER_PORT Udp)
      in batch_add b (add_verdict (ls_add_counters sys) in_v4 Accept))"

definition add_allow_lan_rules :: "linux_sys \<Rightarrow> policy_batch \<Rightarrow> policy_batch" where
  "add_allow_lan_rules sys b =
     (let b = foldl (\<lambda>b net.
                batch_add (batch_add b (net_rule sys (pb_out_chain b) EndDst net))
                  (net_rule sys (pb_in_chain b) EndSrc net)) b ALLOWED_LAN_NETS;
          b = foldl (\<lambda>b net. batch_add b (net_rule sys (pb_out_chain b) EndDst net)) b
                ALLOWED_LAN_MULTICAST_NETS
      in add_dhcp_server_rules sys b)"

definition add_lan_if :: "linux_sys \<Rightarrow> bool \<Rightarrow> policy_batch \<Rightarrow> linux_fw_error + policy_batch" where
  "add_lan_if sys allow_lan b = Inr (if allow_lan then add_allow_lan_rules sys b else b)"

fun add_policy_specific_rules ::
    "linux_sys \<Rightarrow> policy_batch \<Rightarrow> firewall_policy \<Rightarrow> linux_fw_error + policy_batch" where
  "add_policy_specific_rules sys b (PolicyConnecting peer pingable_hosts allow_lan) =
     add_lan_if sys allow_lan
       (add_allow_endpoint_rules sys (add_allow_icmp_pingable_hosts sys b pingable_hosts)
          peer)"
| "add_policy_specific_rules sys b (PolicyConnected peer tunnel allow_lan) =
     (case add_dns_rule sys (add_allow_endpoint_rules sys b peer) tunnel Udp of
        Inl e \<Rightarrow> Inl e
      | Inr b \<Rightarrow>
          (case add_dns_rule sys b tunnel Tcp of
             Inl e \<Rightarrow> Inl e
           | Inr b \<Rightarrow>
               (case add_allow_tunnel_rules sys b tunnel of
                  Inl e \<Rightarrow> Inl e
                | Inr b \<Rightarrow> add_lan_if sys allow_lan b)))"
| "add_policy_specific_rules sys b (PolicyBlocked allow_lan) = add_lan_if sys allow_lan b"

definition policy_batch_finalize ::
    "linux_sys \<Rightarrow> policy_batch \<Rightarrow> firewall_policy \<Rightarrow> linux_fw_error + batch_msg list" where
  "policy_batch_finalize sys b policy =
     (case add_loopback_rules sys b of
        Inl e \<Rightarrow> Inl e
      | Inr b \<Rightarrow>
          (case add_policy_specific_rules sys (add_dhcp_client_rules sys b) policy of
             Inl e \<Rightarrow> Inl e
           | Inr b \<Rightarrow> Inr (pb_batch b)))"

section \<open>Talking to the kernel\<close>

text \<open>
  A reply read by \<open>socket_recv\<close> and run through \<open>mnl::cb_run\<close>: an error of \<open>recv\<close>, an error of
  the callback, or its result together with the table names the callback collected.  The list of
  replies ends where \<open>recv\<close> returns no bytes.
\<close>

datatype nl_reply = RecvFails | CbFails | CbOk "string list" | CbStop "string list"

fun process_replies :: "nl_reply list \<Rightarrow> string list \<Rightarrow> linux_fw_error + string list" where
  "process_replies [] tables = Inr tables"
| "process_replies (RecvFails # _) tables = Inl NetlinkRecvError"
| "process_replies (CbFails # _) tables = Inl ProcessNetlinkError"
| "process_replies (CbStop ts # _) tables = Inr (tables @ ts)"
| "process_replies (CbOk ts # rs) tables = process_replies rs (tables @ ts)"

record 'k netlink =
  nl_open :: "'k \<Rightarrow> bool \<times> 'k"
  nl_send_batch :: "batch_msg list \<Rightarrow> 'k \<Rightarrow> bool \<times> 'k"
  nl_send_get_tables :: "'k \<Rightarrow> bool \<times> 'k"
  nl_replies :: "'k \<Rightarrow> nl_reply list \<times> 'k"

definition send_and_process ::
    "'k netlink \<Rightarrow> batch_msg list \<Rightarrow> 'k \<Rightarrow> (linux_fw_error + unit) \<times> 'k" where
  "send_and_process nl batch k =
     (case nl_open nl k of
        (False, k) \<Rightarrow> (Inl NetlinkOpenError, k)
      | (True, k) \<Rightarrow>
          (case nl_send_batch nl batch k of
             (False, k) \<Rightarrow> (Inl NetlinkSendError, k)
           | (True, k) \<Rightarrow>
               (case nl_replies nl k of
                  (rs, k) \<Rightarrow>
                    (case process_replies rs [] of
                       Inl e \<Rightarrow> (Inl e, k)
                     | Inr _ \<Rightarrow> (Inr (), k)))))"

definition verify_tables ::
    "'k netlink \<Rightarrow> string list \<Rightarrow> 'k \<Rightarrow> (linux_fw_error + unit) \<times> 'k" where
  "verify_tables nl expected k =
     (case nl_open nl k of
        (False, k) \<Rightarrow> (Inl NetlinkOpenError, k)
      | (True, k) \<Rightarrow>
          (case nl_send_get_tables nl k of
             (False, k) \<Rightarrow> (Inl NetlinkSendError, k)
           | (True, k) \<Rightarrow>
               (case nl_replies nl k of
                  (rs, k) \<Rightarrow>
                    (case process_replies rs [] of
                       Inl e \<Rightarrow> (Inl e, k)
                     | Inr tables \<Rightarrow>
                         if list_all (\<lambda>t. t \<in> set tables) expected then (Inr (), k)
                         else (Inl NetfilterTableNotSetError, k)))))"

definition linux_apply_policy ::
    "linux_sys \<Rightarrow> 'k netlink \<Rightarrow> firewall_policy \<Rightarrow> 'k \<Rightarrow> (linux_fw_error + unit) \<times> 'k" where
  "linux_apply_policy sys nl policy k =
     (case policy_batch_finalize sys (policy_batch_new TABLE_NAME) policy of
        Inl e \<Rightarrow> (Inl e, k)
      | Inr batch \<Rightarrow>
          (case send_and_process nl batch k of
             (Inl e, k) \<Rightarrow> (Inl e, k)
           | (Inr _, k) \<Rightarrow> verify_tables nl [TABLE_NAME] k))"

definition reset_batch :: "batch_msg list" where
  "reset_batch = [TableMsg MsgAdd TABLE_NAME, TableMsg MsgDel TABLE_NAME]"

definition linux_reset_policy :: "'k netlink \<Rightarrow> 'k \<Rightarrow> (linux_fw_error + unit) \<times> 'k" where
  "linux_reset_policy nl k = send_and_process nl reset_batch k"

end
