(* ===== verification/Firewall_Linux_Proofs.thy ===== *)
theory Firewall_Linux_Proofs
  imports Firewall_Linux
begin

text \<open>
  Correctness of the Linux firewall.  The locale \<open>netfilter\<close> states the documented evaluation of
  rule expressions, chains and tables; \<open>netlink_kernel\<close> states that a batch is committed as a
  whole or not at all.  The lemmas compute the decision of every rule builder, then of the
  chains built for a policy, and end in the contract \<open>firewall_interface\<close>.
\<close>

section \<open>Evaluation of rules, chains and tables\<close>

text \<open>The fields of a packet as a rule loads them; \<open>None\<close> when the packet has no such field.\<close>

fun nft_load :: "nft_field \<Rightarrow> packet \<Rightarrow> nft_reg option" where
  "nft_load MetaNfproto p = Some (case pk_l3 p of L3V4 _ _ \<Rightarrow> 2 | L3V6 _ _ \<Rightarrow> 10)"
| "nft_load MetaL4proto p = Some (ucast (l4_number (pk_l4 p)))"
| "nft_load MetaIif p = (if pk_dir p = DirIn then Some (ucast (pk_iface p)) else None)"
| "nft_load MetaOif p = (if pk_dir p = DirOut then Some (ucast (pk_iface p)) else None)"
| "nft_load PayloadIpv4Saddr p = (case pk_l3 p of L3V4 s _ \<Rightarrow> Some (ucast s) | _ \<Rightarrow> None)"
| "nft_load PayloadIpv4Daddr p = (case pk_l3 p of L3V4 _ d \<Rightarrow> Some (ucast d) | _ \<Rightarrow> None)"
| "nft_load PayloadIpv6Saddr p = (case pk_l3 p of L3V6 s _ \<Rightarrow> Some s | _ \<Rightarrow> None)"
| "nft_load PayloadIpv6Daddr p = (case pk_l3 p of L3V6 _ d \<Rightarrow> Some d | _ \<Rightarrow> None)"
| "nft_load PayloadUdpSport p = map_option ucast (l4_src_port Udp (pk_l4 p))"
| "nft_load PayloadUdpDport p = map_option ucast (l4_dst_port Udp (pk_l4 p))"
| "nft_load PayloadTcpSport p = map_option ucast (l4_src_port Tcp (pk_l4 p))"
| "nft_load PayloadTcpDport p = map_option ucast (l4_dst_port Tcp (pk_l4 p))"
| "nft_load PayloadIcmpv6Type p = (case pk_l4 p of L4Icmpv6 t _ \<Rightarrow> Some (ucast t) | _ \<Rightarrow> None)"
| "nft_load PayloadIcmpv6Code p = (case pk_l4 p of L4Icmpv6 _ c \<Rightarrow> Some (ucast c) | _ \<Rightarrow> None)"
| "nft_load CtState p = Some (ucast (pk_ct p))"

fun nft_cmp :: "cmp_op \<Rightarrow> nft_reg \<Rightarrow> nft_reg \<Rightarrow> bool" where
  "nft_cmp CmpEq a b = (a = b)"
| "nft_cmp CmpNeq a b = (a \<noteq> b)"

type_synonym nft_table = "(nft_chain \<times> nft_expr list list) list"

fun hook_of :: "direction \<Rightarrow> nft_hook" where
  "hook_of DirIn = HookIn"
| "hook_of DirOut = HookOut"

text \<open>
  The commit of one message to the table of the daemon, and of a batch: adding an existing table
  changes nothing, deleting it drops its chains, a rule is appended to its chain.
\<close>

fun commit_msg :: "batch_msg \<Rightarrow> nft_table option \<Rightarrow> nft_table option" where
  "commit_msg (TableMsg MsgAdd _) None = Some []"
| "commit_msg (TableMsg MsgAdd _) (Some t) = Some t"
| "commit_msg (TableMsg MsgDel _) _ = None"
| "commit_msg (ChainMsg MsgAdd c) t = map_option (\<lambda>t. t @ [(c, [])]) t"
| "commit_msg (ChainMsg MsgDel c) t =
     map_option (filter (\<lambda>(d, _). chain_name d \<noteq> chain_name c)) t"
| "commit_msg (RuleMsg MsgAdd r) t =
     map_option (map (\<lambda>(c, rs).
       if chain_name c = rule_chain r then (c, rs @ [rule_exprs r]) else (c, rs))) t"
| "commit_msg (RuleMsg MsgDel r) t =
     map_option (map (\<lambda>(c, rs).
       if chain_name c = rule_chain r then (c, removeAll (rule_exprs r) rs) else (c, rs))) t"

definition commit :: "batch_msg list \<Rightarrow> nft_table option \<Rightarrow> nft_table option" where
  "commit msgs t = fold commit_msg msgs t"

text \<open>A reference evaluator, used to instantiate the locale \<open>netfilter\<close>.\<close>

fun nft_run :: "nft_expr list \<Rightarrow> packet \<Rightarrow> nft_reg \<Rightarrow> verdict option" where
  "nft_run [] p r = None"
| "nft_run (Load f # es) p r = (case nft_load f p of None \<Rightarrow> None | Some v \<Rightarrow> nft_run es p v)"
| "nft_run (Bitwise m x # es) p r = nft_run es p ((r AND m) XOR x)"
| "nft_run (Cmp op v # es) p r = (if nft_cmp op r v then nft_run es p r else None)"
| "nft_run (Counter # es) p r = nft_run es p r"
| "nft_run (ImmediateVerdict v # es) p r = Some v"

fun nft_chain_eval :: "verdict \<Rightarrow> nft_expr list list \<Rightarrow> packet \<Rightarrow> verdict" where
  "nft_chain_eval pol [] p = pol"
| "nft_chain_eval pol (r # rs) p =
     (case nft_run r p 0 of Some v \<Rightarrow> v | None \<Rightarrow> nft_chain_eval pol rs p)"

fun nft_filter :: "nft_table option \<Rightarrow> packet \<Rightarrow> verdict" where
  "nft_filter None p = Accept"
| "nft_filter (Some t) p =
     (if list_all (\<lambda>(c, rs). chain_hook c = hook_of (pk_dir p) \<longrightarrow>
            nft_chain_eval (chain_policy c) rs p = Accept) t
      then Accept else Drop)"

section \<open>What the batch of a policy consists of\<close>

definition rules_for :: "string \<Rightarrow> batch_msg list \<Rightarrow> nft_expr list list" where
  "rules_for c msgs =
     List.map_filter (\<lambda>m. case m of
        RuleMsg MsgAdd r \<Rightarrow> if rule_chain r = c then Some (rule_exprs r) else None
      | _ \<Rightarrow> None) msgs"

definition std_batch :: "policy_batch \<Rightarrow> bool" where
  "std_batch b \<longleftrightarrow>
     chain_name (pb_out_chain b) = OUT_CHAIN_NAME \<and> chain_name (pb_in_chain b) = IN_CHAIN_NAME"

text \<open>\<open>b'\<close> is \<open>b\<close> with rule messages appended.\<close>

definition rule_ext :: "policy_batch \<Rightarrow> policy_batch \<Rightarrow> bool" where
  "rule_ext b b' \<longleftrightarrow> (\<exists>rs. pb_batch b' = pb_batch b @ map (RuleMsg MsgAdd) rs)"

abbreviation out_rules :: "policy_batch \<Rightarrow> nft_expr list list" where
  "out_rules b \<equiv> rules_for OUT_CHAIN_NAME (pb_batch b)"

abbreviation in_rules :: "policy_batch \<Rightarrow> nft_expr list list" where
  "in_rules b \<equiv> rules_for IN_CHAIN_NAME (pb_batch b)"

text \<open>The decision of a prefix of a chain, and what a later rule adds to it.\<close>

definition or_verdict :: "verdict option \<Rightarrow> verdict option \<Rightarrow> verdict option" where
  "or_verdict a b = (case a of Some v \<Rightarrow> Some v | None \<Rightarrow> b)"

abbreviation accept_if :: "bool \<Rightarrow> verdict option" where
  "accept_if c \<equiv> (if c then Some Accept else None)"

lemma or_verdict_simps [simp]:
  "or_verdict None b = b" "or_verdict (Some v) b = Some v" "or_verdict a None = a"
  by (simp_all add: or_verdict_def split: option.split)

lemma or_verdict_assoc: "or_verdict (or_verdict a b) c = or_verdict a (or_verdict b c)"
  by (cases a) simp_all

lemma or_accept: "or_verdict (accept_if P) (accept_if Q) = accept_if (P \<or> Q)"
  by simp

lemma rules_for_append: "rules_for c (xs @ ys) = rules_for c xs @ rules_for c ys"
  by (induction xs) (auto simp: rules_for_def split: option.split)

lemma rules_for_batch_add [simp]:
  "rules_for c (pb_batch (batch_add b r)) =
     rules_for c (pb_batch b) @ (if rule_chain r = c then [rule_exprs r] else [])"
  by (simp add: batch_add_def rules_for_append) (simp add: rules_for_def)

lemma pb_chain_batch_add [simp]:
  "pb_out_chain (batch_add b r) = pb_out_chain b" "pb_in_chain (batch_add b r) = pb_in_chain b"
  by (simp_all add: batch_add_def)

lemma std_batch_add [simp]: "std_batch (batch_add b r) = std_batch b"
  by (simp add: std_batch_def)

lemma rule_ext_refl [simp]: "rule_ext b b"
  by (auto simp: rule_ext_def intro: exI [of _ "[]"])

lemma rule_ext_trans [trans]: "rule_ext a b \<Longrightarrow> rule_ext b c \<Longrightarrow> rule_ext a c"
  by (auto simp: rule_ext_def simp flip: map_append)

lemma rule_ext_batch_add [simp]: "rule_ext a b \<Longrightarrow> rule_ext a (batch_add b r)"
  by (auto simp: rule_ext_def batch_add_def intro: exI [of _ "_ @ [r]"])

lemma fold_commit_rules:
  assumes "chain_name oc = OUT_CHAIN_NAME" and "chain_name ic = IN_CHAIN_NAME"
  shows "fold commit_msg (map (RuleMsg MsgAdd) rs) (Some [(oc, xs), (ic, ys)]) =
    Some [(oc, xs @ rules_for OUT_CHAIN_NAME (map (RuleMsg MsgAdd) rs)),
          (ic, ys @ rules_for IN_CHAIN_NAME (map (RuleMsg MsgAdd) rs))]"
  using assms by (induction rs arbitrary: xs ys) (auto simp: rules_for_def)

lemma commit_policy_batch:
  assumes "rule_ext (policy_batch_new T) b"
  shows "commit (pb_batch b) t =
    Some [(pb_out_chain (policy_batch_new T), out_rules b),
          (pb_in_chain (policy_batch_new T), in_rules b)]"
proof -
  from assms obtain rs where
    "pb_batch b = pb_batch (policy_batch_new T) @ map (RuleMsg MsgAdd) rs"
    by (auto simp: rule_ext_def)
  moreover have "fold commit_msg (pb_batch (policy_batch_new T)) t =
      Some [(pb_out_chain (policy_batch_new T), []), (pb_in_chain (policy_batch_new T), [])]"
    by (cases t) (simp_all add: policy_batch_new_def Let_def)
  moreover have "rules_for c (pb_batch (policy_batch_new T)) = []" for c
    by (simp add: policy_batch_new_def Let_def rules_for_def)
  ultimately show ?thesis
    by (simp add: commit_def rules_for_append fold_commit_rules)
      (simp add: fold_commit_rules policy_batch_new_def Let_def)
qed

lemma chain_names_differ [simp]:
  "OUT_CHAIN_NAME \<noteq> IN_CHAIN_NAME" "IN_CHAIN_NAME \<noteq> OUT_CHAIN_NAME"
  by (simp_all add: OUT_CHAIN_NAME_def IN_CHAIN_NAME_def)

lemma rule_chain_add_expr [simp]: "rule_chain (add_expr r e) = rule_chain r"
  by (simp add: add_expr_def)

lemma rule_chain_builders [simp]:
  "rule_chain (rule_new c) = chain_name c"
  "rule_chain (check_l3proto r ip) = rule_chain r"
  "rule_chain (check_l4proto r proto) = rule_chain r"
  "rule_chain (check_port r proto e port) = rule_chain r"
  "rule_chain (check_ip r e ip) = rule_chain r"
  "rule_chain (check_net r e net) = rule_chain r"
  "rule_chain (check_endpoint r e ep) = rule_chain r"
  "rule_chain (check_icmpv6 r t code) = rule_chain r"
  "rule_chain (add_verdict cnt r v) = rule_chain r"
  by (simp_all add: rule_new_def check_l3proto_def check_l4proto_def check_port_def check_ip_def
      check_net_def check_endpoint_def check_icmpv6_def add_verdict_def Let_def)

lemma rule_chain_rules [simp]:
  "rule_chain (dhcpv4_request_rule sys c) = chain_name c"
  "rule_chain (dhcpv4_response_rule sys c) = chain_name c"
  "rule_chain (dhcpv6_request_rule sys c a) = chain_name c"
  "rule_chain (dhcpv6_response_rule sys c) = chain_name c"
  "rule_chain (router_solicitation_rule sys c) = chain_name c"
  "rule_chain (router_in_rule sys c t) = chain_name c"
  "rule_chain (net_rule sys c e n) = chain_name c"
  "rule_chain (icmp_host_rule sys c e h) = chain_name c"
  "rule_chain (dns_block_rule sys c proto) = chain_name c"
  by (simp_all add: dhcpv4_request_rule_def dhcpv4_response_rule_def dhcpv6_request_rule_def
      dhcpv6_response_rule_def router_solicitation_rule_def router_in_rule_def net_rule_def
      icmp_host_rule_def dns_block_rule_def Let_def)

lemma rule_chain_check_iface: "check_iface idx r d i = Inr r' \<Longrightarrow> rule_chain r' = rule_chain r"
  by (auto simp: check_iface_def split: option.splits)

text \<open>The tunnel interface a policy names, if any, has the index \<open>tun\<close>.\<close>

fun tunnel_index_is :: "linux_sys \<Rightarrow> u32 \<Rightarrow> firewall_policy \<Rightarrow> bool" where
  "tunnel_index_is sys tun (PolicyConnected _ t _) = (ls_iface_index sys (tm_interface t) = Some tun)"
| "tunnel_index_is _ _ _ = True"

locale netfilter =
  fixes run_rule :: "nft_expr list \<Rightarrow> packet \<Rightarrow> nft_reg \<Rightarrow> verdict option"
    and run_chain :: "verdict \<Rightarrow> nft_expr list list \<Rightarrow> packet \<Rightarrow> verdict"
    and filter_packet :: "nft_table option \<Rightarrow> packet \<Rightarrow> verdict"
  assumes run_load:
      "run_rule (Load f # es) p r = (case nft_load f p of None \<Rightarrow> None | Some v \<Rightarrow> run_rule es p v)"
    and run_bitwise: "run_rule (Bitwise m x # es) p r = run_rule es p ((r AND m) XOR x)"
    and run_cmp:
      "run_rule (Cmp op v # es) p r = (if nft_cmp op r v then run_rule es p r else None)"
    and run_counter: "run_rule (Counter # es) p r = run_rule es p r"
    and run_verdict: "run_rule (ImmediateVerdict w # es) p r = Some w"
    and chain_nil: "run_chain pol [] p = pol"
    and chain_cons:
      "run_chain pol (rl # rls) p =
         (case run_rule rl p 0 of Some v \<Rightarrow> v | None \<Rightarrow> run_chain pol rls p)"
    and filter_none: "filter_packet None p = Accept"
    and filter_some:
      "filter_packet (Some t) p =
         (if list_all (\<lambda>(c, es). chain_hook c = hook_of (pk_dir p) \<longrightarrow>
                run_chain (chain_policy c) es p = Accept) t
          then Accept else Drop)"
begin

lemmas run_simps = run_load run_bitwise run_cmp run_counter run_verdict

text \<open>The expressions \<open>es\<close> let a packet through exactly when it satisfies \<open>P\<close>.\<close>

definition tests :: "nft_expr list \<Rightarrow> (packet \<Rightarrow> bool) \<Rightarrow> bool" where
  "tests es P \<longleftrightarrow>
     (\<forall>rest p r. \<exists>r'. run_rule (es @ rest) p r = (if P p then run_rule rest p r' else None))"

definition rtests :: "nft_rule \<Rightarrow> (packet \<Rightarrow> bool) \<Rightarrow> bool" where
  "rtests r P \<longleftrightarrow> tests (rule_exprs r) P"

lemma tests_append: "tests es P \<Longrightarrow> tests fs Q \<Longrightarrow> tests (es @ fs) (\<lambda>p. P p \<and> Q p)"
  unfolding tests_def by (metis (no_types, lifting) append_assoc)

lemma tests_load_eq: "tests [Load f, Cmp CmpEq v] (\<lambda>p. nft_load f p = Some v)"
  unfolding tests_def by (auto simp: run_simps split: option.split)

lemma tests_cong: "tests es P \<Longrightarrow> (\<And>p. P p = Q p) \<Longrightarrow> tests es Q"
  by (simp add: tests_def)

lemma rtests_append:
  "rtests r P \<Longrightarrow> tests es Q \<Longrightarrow> rule_exprs r' = rule_exprs r @ es \<Longrightarrow>
     (\<And>p. R p = (P p \<and> Q p)) \<Longrightarrow> rtests r' R"
  unfolding rtests_def using tests_append [of "rule_exprs r" P es Q] by (auto intro: tests_cong)

lemma rtests_new: "rtests (rule_new c) (\<lambda>_. True)"
  unfolding rtests_def tests_def by (auto simp: rule_new_def)

lemma rtests_l3proto:
  "rtests r P \<Longrightarrow>
     rtests (check_l3proto r ip) (\<lambda>p. P p \<and> nft_load MetaNfproto p = Some (l3proto ip))"
  by (rule rtests_append [OF _ tests_load_eq]) (auto simp: check_l3proto_def add_expr_def)

lemma rtests_l4proto:
  "rtests r P \<Longrightarrow>
     rtests (check_l4proto r proto) (\<lambda>p. P p \<and> nft_load MetaL4proto p = Some (l4proto proto))"
  by (rule rtests_append [OF _ tests_load_eq]) (auto simp: check_l4proto_def add_expr_def)

lemma rtests_load_eq:
  "rtests r P \<Longrightarrow> (\<And>p. Q p = (P p \<and> nft_load f p = Some v)) \<Longrightarrow>
     rtests (add_expr (add_expr r (Load f)) (Cmp CmpEq v)) Q"
  by (rule rtests_append [OF _ tests_load_eq]) (auto simp: add_expr_def)

definition port_at :: "packet \<Rightarrow> transport_protocol \<Rightarrow> rule_end \<Rightarrow> u16 \<Rightarrow> bool" where
  "port_at p proto e port =
     (case e of EndSrc \<Rightarrow> sport_is p proto port | EndDst \<Rightarrow> dport_is p proto port)"

definition ip_at :: "packet \<Rightarrow> rule_end \<Rightarrow> ip_addr \<Rightarrow> bool" where
  "ip_at p e a = (case e of EndSrc \<Rightarrow> src_is p a | EndDst \<Rightarrow> dst_is p a)"

definition net_at :: "packet \<Rightarrow> rule_end \<Rightarrow> ip_network \<Rightarrow> bool" where
  "net_at p e n \<longleftrightarrow> canonical_net n \<and> (case e of EndSrc \<Rightarrow> src_in p n | EndDst \<Rightarrow> dst_in p n)"

text \<open>
  The rules compare the masked address with the address of the network as it is given: they match
  nothing for a network that is not canonical.  The networks of the policies are canonical.
\<close>

lemma canonical_nets [simp]:
  "canonical_net IPV6_LINK_LOCAL"
  "n \<in> set ALLOWED_LAN_NETS \<Longrightarrow> canonical_net n"
  "n \<in> set ALLOWED_LAN_MULTICAST_NETS \<Longrightarrow> canonical_net n"
  by (auto simp: IPV6_LINK_LOCAL_def ALLOWED_LAN_NETS_def ALLOWED_LAN_MULTICAST_NETS_def
      ipv4_new_def ipv6_new_def mask_v4_def mask_v6_def mask_eq_exp_minus_1)

lemma port_test_iff:
  "nft_load MetaL4proto p = Some (l4proto proto) \<and>
   nft_load (port_field proto e) p = Some (ucast port) \<longleftrightarrow> port_at p proto e port"
  by (cases proto; cases e; cases "pk_l4 p")
    (auto simp: port_at_def sport_is_def dport_is_def ucast_eq_iff)

lemma addr_test_iff:
  "nft_load MetaNfproto p = Some (l3proto a) \<and>
   nft_load (addr_field a e) p = Some (addr_value a) \<longleftrightarrow> ip_at p e a"
  by (cases a; cases e; cases "pk_l3 p") (auto simp: ip_at_def src_is_def dst_is_def ucast_eq_iff)

lemma rtests_port:
  "rtests r P \<Longrightarrow> rtests (check_port r proto e port) (\<lambda>p. P p \<and> port_at p proto e port)"
  unfolding check_port_def
  by (rule rtests_load_eq [OF rtests_l4proto]) (auto simp: port_test_iff [symmetric])

lemma rtests_ip: "rtests r P \<Longrightarrow> rtests (check_ip r e a) (\<lambda>p. P p \<and> ip_at p e a)"
  unfolding check_ip_def
  by (rule rtests_load_eq [OF rtests_l3proto]) (auto simp: addr_test_iff [symmetric])

lemma mask_test_iff:
  "nft_load MetaNfproto p = Some (l3proto (net_ip n)) \<and>
   (\<exists>v. nft_load (addr_field (net_ip n) e) p = Some v \<and>
         v AND net_mask_value n = addr_value (net_ip n)) \<longleftrightarrow> net_at p e n"
  by (cases n; cases e; cases "pk_l3 p")
    (auto simp: net_at_def src_in_def dst_in_def ucast_eq_iff and.assoc ucast_and [symmetric])

lemma tests_load_mask:
  "tests [Load f, Bitwise m 0, Cmp CmpEq v]
     (\<lambda>p. \<exists>x. nft_load f p = Some x \<and> x AND m = v)"
  unfolding tests_def by (auto simp: run_simps split: option.split)

lemma rtests_net: "rtests r P \<Longrightarrow> rtests (check_net r e n) (\<lambda>p. P p \<and> net_at p e n)"
  by (rule rtests_append [OF rtests_l3proto tests_load_mask])
    (auto simp: check_net_def add_expr_def Let_def mask_test_iff [symmetric])

lemma rtests_endpoint:
  "rtests r P \<Longrightarrow>
     rtests (check_endpoint r e ep)
       (\<lambda>p. (P p \<and> ip_at p e (sa_ip (address ep))) \<and>
            port_at p (protocol ep) e (sa_port (address ep)))"
  unfolding check_endpoint_def by (rule rtests_port [OF rtests_ip])

lemma rtests_icmpv6:
  "rtests r P \<Longrightarrow> rtests (check_icmpv6 r t c) (\<lambda>p. P p \<and> pk_l4 p = L4Icmpv6 t c)"
proof -
  assume r: "rtests r P"
  let ?es = "[Load MetaL4proto, Cmp CmpEq IPPROTO_ICMPV6] @ [Load PayloadIcmpv6Type, Cmp CmpEq (ucast t)]
    @ [Load PayloadIcmpv6Code, Cmp CmpEq (ucast c)]"
  have "tests ?es (\<lambda>p. nft_load MetaL4proto p = Some IPPROTO_ICMPV6 \<and>
      nft_load PayloadIcmpv6Type p = Some (ucast t) \<and> nft_load PayloadIcmpv6Code p = Some (ucast c))"
    by (intro tests_append tests_load_eq)
  then show ?thesis
    by (rule rtests_append [OF r])
      (auto simp: check_icmpv6_def add_expr_def Let_def IPPROTO_ICMPV6_def ucast_eq_iff
        split: l4_header.splits)
qed

lemma rtests_iface_out:
  "rtests r P \<Longrightarrow> check_iface idx r DirOut i = Inr r' \<Longrightarrow>
     rtests r' (\<lambda>p. P p \<and> pk_dir p = DirOut \<and> idx i = Some (pk_iface p))"
  by (auto simp: check_iface_def ucast_eq_iff split: option.splits if_splits intro!: rtests_load_eq)

lemma rtests_iface_in:
  "rtests r P \<Longrightarrow> check_iface idx r DirIn i = Inr r' \<Longrightarrow>
     rtests r' (\<lambda>p. P p \<and> pk_dir p = DirIn \<and> idx i = Some (pk_iface p))"
  by (auto simp: check_iface_def ucast_eq_iff split: option.splits if_splits intro!: rtests_load_eq)

lemma run_add_verdict:
  "rtests r P \<Longrightarrow>
     run_rule (rule_exprs (add_verdict cnt r v)) p reg = (if P p then Some v else None)"
proof -
  assume "rtests r P"
  then obtain r' where
    "run_rule (rule_exprs r @ (if cnt then [Counter] else []) @ [ImmediateVerdict v]) p reg =
       (if P p then run_rule ((if cnt then [Counter] else []) @ [ImmediateVerdict v]) p r' else None)"
    unfolding rtests_def tests_def by blast
  then show ?thesis
    by (auto simp: add_verdict_def add_expr_def run_simps split: if_splits)
qed

primrec decided :: "nft_expr list list \<Rightarrow> packet \<Rightarrow> verdict option" where
  "decided [] p = None"
| "decided (e # es) p = or_verdict (run_rule e p 0) (decided es p)"

lemma decided_append: "decided (xs @ ys) p = or_verdict (decided xs p) (decided ys p)"
  by (induction xs) (simp_all add: or_verdict_assoc)

lemma run_chain_decided:
  "run_chain pol es p = (case decided es p of Some v \<Rightarrow> v | None \<Rightarrow> pol)"
  by (induction es) (auto simp: chain_nil chain_cons or_verdict_def split: option.splits)

text \<open>
  Going from batch \<open>b\<close> to \<open>b'\<close> appends rules whose decision on an outgoing packet is \<open>vo\<close> and on an
  incoming one \<open>vi\<close>.
\<close>

definition adds ::
    "policy_batch \<Rightarrow> policy_batch \<Rightarrow> (packet \<Rightarrow> verdict option) \<Rightarrow> (packet \<Rightarrow> verdict option) \<Rightarrow> bool"
  where
  "adds b b' vo vi \<longleftrightarrow>
     std_batch b' \<and> rule_ext b b' \<and>
     (\<forall>p. pk_dir p = DirOut \<longrightarrow>
        decided (out_rules b') p = or_verdict (decided (out_rules b) p) (vo p)) \<and>
     (\<forall>p. pk_dir p = DirIn \<longrightarrow>
        decided (in_rules b') p = or_verdict (decided (in_rules b) p) (vi p))"

lemma adds_std: "adds b b' vo vi \<Longrightarrow> std_batch b'"
  by (simp add: adds_def)

lemma adds_refl: "std_batch b \<Longrightarrow> adds b b (\<lambda>_. None) (\<lambda>_. None)"
  by (simp add: adds_def)

lemma adds_trans:
  "adds b b' vo vi \<Longrightarrow> adds b' b'' wo wi \<Longrightarrow>
     adds b b'' (\<lambda>p. or_verdict (vo p) (wo p)) (\<lambda>p. or_verdict (vi p) (wi p))"
  by (auto simp: adds_def or_verdict_assoc intro: rule_ext_trans)

lemma adds_cong:
  "adds b b' vo vi \<Longrightarrow> (\<And>p. pk_dir p = DirOut \<Longrightarrow> vo p = wo p) \<Longrightarrow>
     (\<And>p. pk_dir p = DirIn \<Longrightarrow> vi p = wi p) \<Longrightarrow> adds b b' wo wi"
  by (simp add: adds_def)

lemma adds_out:
  "std_batch b \<Longrightarrow> rtests r P \<Longrightarrow> rule_chain r = OUT_CHAIN_NAME \<Longrightarrow>
     adds b (batch_add b (add_verdict cnt r v)) (\<lambda>p. if P p then Some v else None) (\<lambda>_. None)"
  by (auto simp: adds_def decided_append run_add_verdict)

lemma adds_in:
  "std_batch b \<Longrightarrow> rtests r P \<Longrightarrow> rule_chain r = IN_CHAIN_NAME \<Longrightarrow>
     adds b (batch_add b (add_verdict cnt r v)) (\<lambda>_. None) (\<lambda>p. if P p then Some v else None)"
  by (auto simp: adds_def decided_append run_add_verdict)

lemma adds_foldl:
  assumes "\<And>b x. std_batch b \<Longrightarrow> adds b (g b x) (\<lambda>p. accept_if (Po x p)) (\<lambda>p. accept_if (Pi x p))"
    and "std_batch b"
  shows "adds b (foldl g b xs)
    (\<lambda>p. accept_if (\<exists>x \<in> set xs. Po x p)) (\<lambda>p. accept_if (\<exists>x \<in> set xs. Pi x p))"
  using assms(2)
proof (induction xs arbitrary: b)
  case Nil
  then show ?case by (simp add: adds_refl)
next
  case (Cons x xs)
  note step = assms(1) [OF Cons.prems, of x]
  show ?case
    using adds_trans [OF step Cons.IH [OF adds_std [OF step]]]
    by simp (erule adds_cong; auto)
qed

lemmas at_simps = port_at_def ip_at_def net_at_def

lemma adds_iface_out:
  "std_batch b \<Longrightarrow> allow_interface_rule sys (pb_out_chain b) DirOut i = Inr r \<Longrightarrow>
     adds b (batch_add b r) (\<lambda>p. accept_if (ls_iface_index sys i = Some (pk_iface p))) (\<lambda>_. None)"
  by (auto simp: allow_interface_rule_def std_batch_def split: sum.splits
      dest: rule_chain_check_iface
      intro!: adds_cong [OF adds_out [OF _ rtests_iface_out [OF rtests_new]]])

lemma adds_iface_in:
  "std_batch b \<Longrightarrow> allow_interface_rule sys (pb_in_chain b) DirIn i = Inr r \<Longrightarrow>
     adds b (batch_add b r) (\<lambda>_. None) (\<lambda>p. accept_if (ls_iface_index sys i = Some (pk_iface p)))"
  by (auto simp: allow_interface_rule_def std_batch_def split: sum.splits
      dest: rule_chain_check_iface
      intro!: adds_cong [OF adds_in [OF _ rtests_iface_in [OF rtests_new]]])

lemma adds_iface_both:
  assumes "std_batch b" and "allow_interface_rule sys (pb_out_chain b) DirOut i = Inr r1"
    and "allow_interface_rule sys (pb_in_chain b) DirIn i = Inr r2"
  shows "adds b (batch_add (batch_add b r1) r2)
    (\<lambda>p. accept_if (ls_iface_index sys i = Some (pk_iface p)))
    (\<lambda>p. accept_if (ls_iface_index sys i = Some (pk_iface p)))"
proof -
  from assms have "adds (batch_add b r1) (batch_add (batch_add b r1) r2)
      (\<lambda>_. None) (\<lambda>p. accept_if (ls_iface_index sys i = Some (pk_iface p)))"
    by (simp add: adds_iface_in)
  from adds_trans [OF adds_iface_out [OF assms(1,2)] this] show ?thesis by simp
qed

lemma adds_loopback:
  "std_batch b \<Longrightarrow> add_loopback_rules sys b = Inr b' \<Longrightarrow>
     adds b b' (\<lambda>p. accept_if (ls_iface_index sys ''lo'' = Some (pk_iface p)))
       (\<lambda>p. accept_if (ls_iface_index sys ''lo'' = Some (pk_iface p)))"
  by (auto simp: add_loopback_rules_def split: sum.splits intro: adds_iface_both)

lemma adds_tunnel:
  "std_batch b \<Longrightarrow> add_allow_tunnel_rules sys b t = Inr b' \<Longrightarrow>
     adds b b' (\<lambda>p. accept_if (ls_iface_index sys (tm_interface t) = Some (pk_iface p)))
       (\<lambda>p. accept_if (ls_iface_index sys (tm_interface t) = Some (pk_iface p)))"
  by (auto simp: add_allow_tunnel_rules_def split: sum.splits intro: adds_iface_both)

text \<open>The decision of every rule the builders create.\<close>

lemma run_dhcpv4_request:
  "run_rule (rule_exprs (dhcpv4_request_rule sys c)) p reg =
     accept_if (sport_is p Udp DHCPV4_CLIENT_PORT \<and> dst_is p (V4 ipv4_broadcast) \<and>
       dport_is p Udp DHCPV4_SERVER_PORT)"
  unfolding dhcpv4_request_rule_def Let_def
  by (subst run_add_verdict [OF rtests_port [OF rtests_ip [OF rtests_port [OF rtests_new]]]])
    (simp add: at_simps)

lemma run_dhcpv4_response:
  "run_rule (rule_exprs (dhcpv4_response_rule sys c)) p reg =
     accept_if (sport_is p Udp DHCPV4_SERVER_PORT \<and> dport_is p Udp DHCPV4_CLIENT_PORT)"
  unfolding dhcpv4_response_rule_def Let_def
  by (subst run_add_verdict [OF rtests_port [OF rtests_port [OF rtests_new]]])
    (simp add: at_simps)

lemma run_dhcpv6_request:
  "run_rule (rule_exprs (dhcpv6_request_rule sys c server)) p reg =
     accept_if (src_in p IPV6_LINK_LOCAL \<and> sport_is p Udp DHCPV6_CLIENT_PORT \<and>
       dst_is p (V6 server) \<and> dport_is p Udp DHCPV6_SERVER_PORT)"
  unfolding dhcpv6_request_rule_def Let_def
  by (subst run_add_verdict
      [OF rtests_port [OF rtests_ip [OF rtests_port [OF rtests_net [OF rtests_new]]]]])
    (simp add: at_simps)

lemma run_dhcpv6_response:
  "run_rule (rule_exprs (dhcpv6_response_rule sys c)) p reg =
     accept_if (src_in p IPV6_LINK_LOCAL \<and> sport_is p Udp DHCPV6_SERVER_PORT \<and>
       dst_in p IPV6_LINK_LOCAL \<and> dport_is p Udp DHCPV6_CLIENT_PORT)"
  unfolding dhcpv6_response_rule_def Let_def
  by (subst run_add_verdict
      [OF rtests_port [OF rtests_net [OF rtests_port [OF rtests_net [OF rtests_new]]]]])
    (simp add: at_simps)

lemma run_router_solicitation:
  "run_rule (rule_exprs (router_solicitation_rule sys c)) p reg =
     accept_if (dst_is p (V6 ROUTER_SOLICITATION_OUT_DST_ADDR) \<and> pk_l4 p = L4Icmpv6 133 0)"
  unfolding router_solicitation_rule_def Let_def
  by (subst run_add_verdict [OF rtests_icmpv6 [OF rtests_ip [OF rtests_new]]])
    (simp add: at_simps)

lemma run_router_in:
  "run_rule (rule_exprs (router_in_rule sys c t)) p reg =
     accept_if (src_in p IPV6_LINK_LOCAL \<and> pk_l4 p = L4Icmpv6 t 0)"
  unfolding router_in_rule_def Let_def
  by (subst run_add_verdict [OF rtests_icmpv6 [OF rtests_net [OF rtests_new]]])
    (simp add: at_simps)

lemma run_net_rule:
  "run_rule (rule_exprs (net_rule sys c e n)) p reg = accept_if (net_at p e n)"
  unfolding net_rule_def by (subst run_add_verdict [OF rtests_net [OF rtests_new]]) simp

lemma icmp_test_iff:
  "nft_load MetaL4proto p = Some (icmp_proto h) \<longleftrightarrow> icmp_for h (pk_l4 p)"
proof -
  have num: "(ucast n = IPPROTO_ICMP) = (n = 1)" "(ucast n = IPPROTO_ICMPV6) = (n = 58)" for n :: u8
    using ucast_eq_iff [where 'a = 8 and 'b = 128, of n 1]
      ucast_eq_iff [where 'a = 8 and 'b = 128, of n 58]
    by (simp_all add: IPPROTO_ICMP_def IPPROTO_ICMPV6_def)
  show ?thesis by (cases h) (simp_all add: num)
qed

lemma run_icmp_host:
  "run_rule (rule_exprs (icmp_host_rule sys c e h)) p reg =
     accept_if (ip_at p e h \<and> icmp_for h (pk_l4 p))"
  unfolding icmp_host_rule_def Let_def
  by (subst run_add_verdict [OF rtests_load_eq [OF rtests_ip [OF rtests_new] refl]])
    (simp only: icmp_test_iff simp_thms)

lemma run_dns_block:
  "run_rule (rule_exprs (dns_block_rule sys c proto)) p reg =
     (if dport_is p proto 53 then Some Drop else None)"
  unfolding dns_block_rule_def
  by (subst run_add_verdict [OF rtests_port [OF rtests_new]]) (simp add: at_simps)

lemmas run_rules =
  run_dhcpv4_request run_dhcpv4_response run_dhcpv6_request run_dhcpv6_response
  run_router_solicitation run_router_in run_net_rule run_icmp_host run_dns_block

lemma adds_dhcp_client:
  assumes "std_batch b"
  shows "adds b (add_dhcp_client_rules sys b)
    (\<lambda>p. accept_if (spec_always_out p)) (\<lambda>p. accept_if (spec_always_in p))"
proof -
  have std: "chain_name (pb_out_chain b) = OUT_CHAIN_NAME" "chain_name (pb_in_chain b) = IN_CHAIN_NAME"
    using assms by (simp_all add: std_batch_def)
  show ?thesis
    by (auto simp: adds_def add_dhcp_client_rules_def DHCPV6_SERVER_ADDRS_def Let_def assms std
        decided_append or_verdict_assoc run_rules or_accept spec_always_out_def spec_always_in_def)
qed

lemma tests_ct_established:
  "tests [Load CtState, Bitwise (ucast ct_established) 0, Cmp CmpNeq 0] is_established"
proof -
  have "(ucast (pk_ct p) AND ucast ct_established = (0 :: nft_reg)) =
      (pk_ct p AND ct_established = 0)" for p
    using ucast_eq_iff [where 'a = 32 and 'b = 128, of "pk_ct p AND ct_established" 0]
    by (simp add: ucast_and)
  then show ?thesis
    unfolding tests_def by (auto simp: run_simps is_established_def)
qed

lemma adds_endpoint:
  assumes "std_batch b"
  shows "adds b (add_allow_endpoint_rules sys b ep)
    (\<lambda>p. accept_if (to_endpoint p ep)) (\<lambda>p. accept_if (from_endpoint p ep \<and> is_established p))"
proof -
  let ?r = "check_endpoint (rule_new (pb_in_chain b)) EndSrc ep"
  let ?r' = "add_expr (add_expr (add_expr ?r (Load CtState)) (Bitwise (ucast ct_established) 0))
    (Cmp CmpNeq 0)"
  have "rtests ?r' (\<lambda>p. from_endpoint p ep \<and> is_established p)"
    by (rule rtests_append [OF rtests_endpoint [OF rtests_new] tests_ct_established])
      (auto simp: add_expr_def from_endpoint_def at_simps)
  then have in_dec: "run_rule (rule_exprs (add_verdict cnt ?r' Accept)) p reg =
      accept_if (from_endpoint p ep \<and> is_established p)" for cnt p reg
    by (rule run_add_verdict)
  have "run_rule (rule_exprs (add_verdict cnt (check_endpoint (rule_new c) EndDst ep) Accept)) p reg =
      accept_if (to_endpoint p ep)" for cnt c p reg
    by (subst run_add_verdict [OF rtests_endpoint [OF rtests_new]])
      (simp add: to_endpoint_def at_simps)
  with in_dec assms show ?thesis
    by (simp add: adds_def add_allow_endpoint_rules_def Let_def decided_append std_batch_def)
qed

lemma adds_pingable:
  assumes "std_batch b"
  shows "adds b (add_allow_icmp_pingable_hosts sys b hosts)
    (\<lambda>p. accept_if (\<exists>h \<in> set hosts. dst_is p h \<and> icmp_for h (pk_l4 p)))
    (\<lambda>p. accept_if (\<exists>h \<in> set hosts. src_is p h \<and> icmp_for h (pk_l4 p)))"
  unfolding add_allow_icmp_pingable_hosts_def
  by (rule adds_foldl [OF _ assms])
    (simp add: adds_def std_batch_def decided_append run_rules at_simps)

lemma adds_lan:
  assumes "std_batch b"
  shows "adds b (add_allow_lan_rules sys b)
    (\<lambda>p. accept_if (spec_lan_out p)) (\<lambda>p. accept_if (spec_lan_in p))"
proof -
  let ?g = "\<lambda>b net. batch_add (batch_add b (net_rule sys (pb_out_chain b) EndDst net))
    (net_rule sys (pb_in_chain b) EndSrc net)"
  let ?h = "\<lambda>b net. batch_add b (net_rule sys (pb_out_chain b) EndDst net)"
  let ?b1 = "foldl ?g b ALLOWED_LAN_NETS"
  let ?b2 = "foldl ?h ?b1 ALLOWED_LAN_MULTICAST_NETS"
  have 1: "adds b ?b1 (\<lambda>p. accept_if (\<exists>n \<in> set ALLOWED_LAN_NETS. canonical_net n \<and> dst_in p n))
      (\<lambda>p. accept_if (\<exists>n \<in> set ALLOWED_LAN_NETS. canonical_net n \<and> src_in p n))"
    by (rule adds_foldl [OF _ assms])
      (simp add: adds_def std_batch_def decided_append run_rules at_simps)
  have 2: "adds ?b1 ?b2
      (\<lambda>p. accept_if (\<exists>n \<in> set ALLOWED_LAN_MULTICAST_NETS. canonical_net n \<and> dst_in p n))
      (\<lambda>p. accept_if (\<exists>n \<in> set ALLOWED_LAN_MULTICAST_NETS. False))"
    by (rule adds_foldl [OF _ adds_std [OF 1]])
      (simp add: adds_def std_batch_def decided_append run_rules at_simps)
  have out_dec: "run_rule (rule_exprs (add_verdict cnt (check_port (check_port (rule_new c) Udp EndSrc
        DHCPV4_SERVER_PORT) Udp EndDst DHCPV4_CLIENT_PORT) Accept)) p reg =
      accept_if (sport_is p Udp DHCPV4_SERVER_PORT \<and> dport_is p Udp DHCPV4_CLIENT_PORT)"
    for cnt c p reg
    by (subst run_add_verdict [OF rtests_port [OF rtests_port [OF rtests_new]]])
      (simp add: at_simps)
  have in_dec: "run_rule (rule_exprs (add_verdict cnt (check_endpoint (check_port (rule_new c) Udp EndSrc
        DHCPV4_CLIENT_PORT) EndDst (endpoint_new (V4 ipv4_broadcast) DHCPV4_SERVER_PORT Udp)) Accept))
        p reg =
      accept_if (sport_is p Udp DHCPV4_CLIENT_PORT \<and> dst_is p (V4 ipv4_broadcast) \<and>
        dport_is p Udp DHCPV4_SERVER_PORT)" for cnt c p reg
    by (subst run_add_verdict [OF rtests_endpoint [OF rtests_port [OF rtests_new]]])
      (simp add: at_simps endpoint_new_def)
  have 3: "adds ?b2 (add_dhcp_server_rules sys ?b2)
      (\<lambda>p. accept_if (sport_is p Udp DHCPV4_SERVER_PORT \<and> dport_is p Udp DHCPV4_CLIENT_PORT))
      (\<lambda>p. accept_if (sport_is p Udp DHCPV4_CLIENT_PORT \<and> dst_is p (V4 ipv4_broadcast) \<and>
        dport_is p Udp DHCPV4_SERVER_PORT))"
    using adds_std [OF 2]
    by (simp add: adds_def add_dhcp_server_rules_def Let_def decided_append std_batch_def out_dec in_dec)
  show ?thesis
    using adds_trans [OF adds_trans [OF 1 2] 3]
    unfolding add_allow_lan_rules_def Let_def
    by (rule adds_cong) (simp_all add: spec_lan_out_def spec_lan_in_def)
qed

lemma adds_lan_if:
  "std_batch b \<Longrightarrow> add_lan_if sys lan b = Inr b' \<Longrightarrow>
     adds b b' (\<lambda>p. accept_if (lan \<and> spec_lan_out p)) (\<lambda>p. accept_if (lan \<and> spec_lan_in p))"
  using adds_lan [of b sys] adds_refl [of b] by (auto simp: add_lan_if_def split: if_splits)

lemma adds_allow_dns:
  assumes "std_batch b" and "add_allow_dns_rule sys b i proto h = Inr b'"
  shows "adds b b' (\<lambda>p. accept_if (ls_iface_index sys i = Some (pk_iface p) \<and>
      dport_is p proto 53 \<and> dst_is p h)) (\<lambda>_. None)"
proof -
  from assms(2) obtain r where r: "check_iface (ls_iface_index sys) (rule_new (pb_out_chain b)) DirOut i = Inr r"
    and b': "b' = batch_add b (add_verdict (ls_add_counters sys)
      (check_ip (check_port r proto EndDst 53) EndDst h) Accept)"
    by (auto simp: add_allow_dns_rule_def check_ip_def Let_def split: sum.splits)
  have "rtests (check_ip (check_port r proto EndDst 53) EndDst h)
      (\<lambda>p. ((((True \<and> pk_dir p = DirOut \<and> ls_iface_index sys i = Some (pk_iface p)) \<and>
         port_at p proto EndDst 53) \<and> ip_at p EndDst h)))"
    by (intro rtests_ip rtests_port rtests_iface_out [OF rtests_new r])
  moreover have "rule_chain (check_ip (check_port r proto EndDst 53) EndDst h) = OUT_CHAIN_NAME"
    using rule_chain_check_iface [OF r] assms(1) by (simp add: std_batch_def)
  ultimately show ?thesis
    unfolding b' by (rule adds_cong [OF adds_out [OF assms(1)]]) (auto simp: at_simps)
qed

lemma adds_dns:
  assumes "std_batch b" and "add_dns_rule sys b t proto = Inr b'"
  shows "adds b b' (\<lambda>p. if dport_is p proto 53
      then Some (if ls_iface_index sys (tm_interface t) = Some (pk_iface p) \<and> to_tunnel_gateway p t
                 then Accept else Drop) else None) (\<lambda>_. None)"
proof -
  let ?i = "tm_interface t"
  from assms(2) obtain b1 b2 where
    b1: "add_allow_dns_rule sys b ?i proto (V4 (tm_ipv4_gateway t)) = Inr b1" and
    b2: "(case tm_ipv6_gateway t of None \<Rightarrow> Inr b1
          | Some g \<Rightarrow> add_allow_dns_rule sys b1 ?i proto (V6 g)) = Inr b2" and
    b': "b' = batch_add b2 (dns_block_rule sys (pb_out_chain b2) proto)"
    by (auto simp: add_dns_rule_def split: sum.splits)
  note a1 = adds_allow_dns [OF assms(1) b1]
  have a2: "adds b1 b2 (\<lambda>p. accept_if (ls_iface_index sys ?i = Some (pk_iface p) \<and>
      dport_is p proto 53 \<and> (\<exists>g. tm_ipv6_gateway t = Some g \<and> dst_is p (V6 g)))) (\<lambda>_. None)"
    using b2 adds_std [OF a1]
    by (cases "tm_ipv6_gateway t") (simp_all add: adds_refl adds_allow_dns)
  have a3: "adds b2 b' (\<lambda>p. if dport_is p proto 53 then Some Drop else None) (\<lambda>_. None)"
    using adds_std [OF a2] by (simp add: b' adds_def decided_append run_rules std_batch_def)
  show ?thesis
    by (rule adds_cong [OF adds_trans [OF adds_trans [OF a1 a2] a3]])
      (auto simp: to_tunnel_gateway_def)
qed

lemma adds_connected:
  assumes "std_batch b"
    and "add_policy_specific_rules sys b (PolicyConnected ep t lan) = Inr b'"
  shows "adds b b'
    (\<lambda>p. if to_endpoint p ep then Some Accept
         else if is_dns p then
           Some (if ls_iface_index sys (tm_interface t) = Some (pk_iface p) \<and> to_tunnel_gateway p t
                 then Accept else Drop)
         else accept_if (ls_iface_index sys (tm_interface t) = Some (pk_iface p) \<or> lan \<and> spec_lan_out p))
    (\<lambda>p. accept_if (from_endpoint p ep \<and> is_established p \<or>
         ls_iface_index sys (tm_interface t) = Some (pk_iface p) \<or> lan \<and> spec_lan_in p))"
proof -
  from assms(2) obtain b1 b2 b3 where
    b1: "add_dns_rule sys (add_allow_endpoint_rules sys b ep) t Udp = Inr b1" and
    b2: "add_dns_rule sys b1 t Tcp = Inr b2" and
    b3: "add_allow_tunnel_rules sys b2 t = Inr b3" and
    b4: "add_lan_if sys lan b3 = Inr b'"
    by (auto split: sum.splits)
  note a0 = adds_endpoint [OF assms(1)]
  note a1 = adds_dns [OF adds_std [OF a0] b1]
  note a2 = adds_dns [OF adds_std [OF a1] b2]
  note a3 = adds_tunnel [OF adds_std [OF a2] b3]
  note a4 = adds_lan_if [OF adds_std [OF a3] b4]
  show ?thesis
    by (rule adds_cong [OF adds_trans [OF a0 adds_trans [OF a1 adds_trans [OF a2 adds_trans [OF a3 a4]]]]])
      (auto simp: is_dns_def)
qed

lemma adds_connecting:
  assumes "std_batch b"
    and "add_policy_specific_rules sys b (PolicyConnecting ep hosts lan) = Inr b'"
  shows "adds b b'
    (\<lambda>p. accept_if ((\<exists>h \<in> set hosts. dst_is p h \<and> icmp_for h (pk_l4 p)) \<or> to_endpoint p ep \<or>
         lan \<and> spec_lan_out p))
    (\<lambda>p. accept_if ((\<exists>h \<in> set hosts. src_is p h \<and> icmp_for h (pk_l4 p)) \<or>
         from_endpoint p ep \<and> is_established p \<or> lan \<and> spec_lan_in p))"
proof -
  note a0 = adds_pingable [OF assms(1), of sys hosts]
  note a1 = adds_endpoint [OF adds_std [OF a0], of sys ep]
  note a2 = adds_lan_if [OF adds_std [OF a1], of sys lan b']
  from assms(2) show ?thesis
    by (intro adds_cong [OF adds_trans [OF a0 adds_trans [OF a1 a2]]]) auto
qed

text \<open>
  The policy specific rules, with decisions \<open>vo\<close> and \<open>vi\<close>, complete the rules every policy has to the
  specification of the policy, but for the conversations the peer starts.
\<close>

definition completes ::
    "u32 \<Rightarrow> u32 \<Rightarrow> firewall_policy \<Rightarrow> (packet \<Rightarrow> verdict option) \<Rightarrow> (packet \<Rightarrow> verdict option) \<Rightarrow> bool"
  where
  "completes lo tun pol vo vi \<longleftrightarrow> (\<forall>p.
     (pk_iface p = lo \<or> spec_always_out p \<or> vo p = Some Accept \<longleftrightarrow> spec_out lo tun pol p) \<and>
     (pk_iface p = lo \<or> spec_always_in p \<or> vi p = Some Accept \<longleftrightarrow>
        from_peer pol p \<and> is_established p \<or> spec_in_besides_peer lo tun pol p))"

lemma adds_policy:
  assumes "std_batch b" and "add_policy_specific_rules sys b pol = Inr b'"
    and tun: "tunnel_index_is sys tun pol"
  shows "\<exists>vo vi. adds b b' vo vi \<and> completes lo tun pol vo vi"
proof (cases pol)
  case (PolicyConnecting ep hosts lan)
  show ?thesis
    by (rule exI, rule exI, rule conjI, rule adds_connecting [OF assms(1), of sys ep hosts lan])
      (use assms(2) PolicyConnecting in \<open>auto simp: completes_def\<close>)
next
  case (PolicyConnected ep t lan)
  show ?thesis
    by (rule exI, rule exI, rule conjI, rule adds_connected [OF assms(1), of sys ep t lan])
      (use assms(2) tun PolicyConnected in \<open>auto simp: completes_def\<close>)
next
  case (PolicyBlocked lan)
  show ?thesis
    by (rule exI, rule exI, rule conjI, rule adds_lan_if [OF assms(1), of sys lan])
      (use assms(2) PolicyBlocked in \<open>auto simp: completes_def\<close>)
qed

lemma adds_finalize:
  assumes "policy_batch_finalize sys (policy_batch_new T) pol = Inr msgs"
    and lo: "ls_iface_index sys ''lo'' = Some lo"
    and tun: "tunnel_index_is sys tun pol"
  shows "\<exists>b vo vi. pb_batch b = msgs \<and>
    adds (policy_batch_new T) b
      (\<lambda>p. or_verdict (accept_if (pk_iface p = lo \<or> spec_always_out p)) (vo p))
      (\<lambda>p. or_verdict (accept_if (pk_iface p = lo \<or> spec_always_in p)) (vi p)) \<and>
    completes lo tun pol vo vi"
proof -
  from assms(1) obtain b1 b where b1: "add_loopback_rules sys (policy_batch_new T) = Inr b1"
    and b: "add_policy_specific_rules sys (add_dhcp_client_rules sys b1) pol = Inr b"
    and msgs: "pb_batch b = msgs"
    by (auto simp: policy_batch_finalize_def split: sum.splits)
  have "std_batch (policy_batch_new T)"
    by (simp add: std_batch_def policy_batch_new_def Let_def)
  note a1 = adds_loopback [OF this b1]
  note a2 = adds_dhcp_client [OF adds_std [OF a1], of sys]
  obtain vo vi where a3: "adds (add_dhcp_client_rules sys b1) b vo vi"
    and ok: "completes lo tun pol vo vi"
    using adds_policy [OF adds_std [OF a2] b tun] by blast
  have "adds (policy_batch_new T) b
      (\<lambda>p. or_verdict (accept_if (pk_iface p = lo \<or> spec_always_out p)) (vo p))
      (\<lambda>p. or_verdict (accept_if (pk_iface p = lo \<or> spec_always_in p)) (vi p))"
    by (rule adds_cong [OF adds_trans [OF a1 adds_trans [OF a2 a3]]]) (auto simp: lo)
  with ok msgs show ?thesis by blast
qed

lemma filter_policy:
  assumes fin: "policy_batch_finalize sys (policy_batch_new T) pol = Inr msgs"
    and lo: "ls_iface_index sys ''lo'' = Some lo"
    and tun: "tunnel_index_is sys tun pol"
  shows "filter_packet (commit msgs tab) p = 
    (if policy_allows lo tun pol p \<and> \<not> peer_starts lo tun pol p then Accept else Drop)"
proof -
  obtain b vo vi where msgs: "pb_batch b = msgs" and
    a: "adds (policy_batch_new T) b
      (\<lambda>p. or_verdict (accept_if (pk_iface p = lo \<or> spec_always_out p)) (vo p))
      (\<lambda>p. or_verdict (accept_if (pk_iface p = lo \<or> spec_always_in p)) (vi p))" and
    ok: "completes lo tun pol vo vi"
    using adds_finalize [OF fin lo tun] by blast
  have tab: "commit msgs tab = Some [(pb_out_chain (policy_batch_new T), out_rules b),
      (pb_in_chain (policy_batch_new T), in_rules b)]"
    unfolding msgs [symmetric] using a by (intro commit_policy_batch) (simp add: adds_def)
  have empty: "rules_for c (pb_batch (policy_batch_new T)) = []" for c
    by (simp add: policy_batch_new_def Let_def rules_for_def)
  have accept: "(case or_verdict (accept_if c) v of None \<Rightarrow> Drop | Some w \<Rightarrow> w) = Accept \<longleftrightarrow>
      c \<or> v = Some Accept" for c v
    by (cases c) (auto split: option.split)
  show ?thesis
  proof (cases "pk_dir p")
    case DirOut
    with a have "decided (out_rules b) p =
        or_verdict (accept_if (pk_iface p = lo \<or> spec_always_out p)) (vo p)"
      by (simp add: adds_def empty)
    then have "run_chain Drop (out_rules b) p = Accept \<longleftrightarrow> spec_out lo tun pol p"
      using ok by (simp add: run_chain_decided accept completes_def disj_assoc)
    with DirOut show ?thesis
      by (simp add: tab filter_some policy_batch_new_def Let_def policy_allows_def peer_starts_def
          spec_in_def)
  next
    case DirIn
    with a have "decided (in_rules b) p =
        or_verdict (accept_if (pk_iface p = lo \<or> spec_always_in p)) (vi p)"
      by (simp add: adds_def empty)
    then have "run_chain Drop (in_rules b) p = Accept \<longleftrightarrow>
        from_peer pol p \<and> is_established p \<or> spec_in_besides_peer lo tun pol p"
      using ok by (simp add: run_chain_decided accept completes_def disj_assoc)
    with DirIn show ?thesis
      by (simp add: tab filter_some policy_batch_new_def Let_def policy_allows_def peer_starts_def
          spec_in_def)
  qed
qed

end

interpretation nft: netfilter nft_run nft_chain_eval nft_filter
  by unfold_locales simp_all

section \<open>The table a policy leaves in the kernel\<close>

lemma finalize_ext:
  assumes "policy_batch_finalize sys (policy_batch_new T) pol = Inr msgs"
  shows "\<exists>b. pb_batch b = msgs \<and> rule_ext (policy_batch_new T) b"
proof -
  obtain lo where lo: "ls_iface_index sys ''lo'' = Some lo"
    using assms by (auto simp: policy_batch_finalize_def add_loopback_rules_def
        allow_interface_rule_def check_iface_def split: sum.splits option.splits)
  have "\<exists>tun. tunnel_index_is sys tun pol"
    using assms by (cases pol) (auto simp: policy_batch_finalize_def add_allow_tunnel_rules_def
        allow_interface_rule_def check_iface_def split: sum.splits option.splits)
  then obtain tun where "tunnel_index_is sys tun pol" ..
  from nft.adds_finalize [OF assms lo this] show ?thesis
    by (auto simp: nft.adds_def)
qed

lemma commit_independent:
  "policy_batch_finalize sys (policy_batch_new T) pol = Inr msgs \<Longrightarrow> commit msgs t = commit msgs t'"
  by (drule finalize_ext) (auto simp: commit_policy_batch)

lemma commit_is_table:
  "policy_batch_finalize sys (policy_batch_new T) pol = Inr msgs \<Longrightarrow> commit msgs t \<noteq> None"
  by (drule finalize_ext) (auto simp: commit_policy_batch)

end
