(* ===== verification/Firewall_Linux_Kernel.thy ===== *)
theory Firewall_Linux_Kernel
  imports Firewall_Linux_Proofs
begin

text \<open>
  The Linux firewall against the kernel.  The locale \<open>netlink_kernel\<close> states what the code relies
  on when it talks to netfilter: a batch is committed as a whole or not at all, and when no error is
  reported it has been committed.  The locale \<open>linux_firewall\<close> derives the contract
  \<open>firewall_interface\<close> for \<open>linux_apply_policy\<close> and \<open>linux_reset_policy\<close> from it; a reference kernel with
  injected faults instantiates both.  The properties of the Linux firewall end the theory.
\<close>

section \<open>What is in force\<close>

text \<open>
  The rule set in the kernel lets through exactly the packets the policy allows, for the
  interface indices at hand, but for the conversations the peer endpoint starts.
\<close>

definition linux_enforces ::
    "linux_sys \<Rightarrow> (nft_table option \<Rightarrow> packet \<Rightarrow> verdict) \<Rightarrow> ('k \<Rightarrow> nft_table option) \<Rightarrow> 'k
      \<Rightarrow> firewall_policy \<Rightarrow> bool" where
  "linux_enforces sys filter_packet ruleset k pol \<longleftrightarrow>
     (\<exists>lo tun. ls_iface_index sys ''lo'' = Some lo \<and> tunnel_index_is sys tun pol \<and>
        (\<forall>p. filter_packet (ruleset k) p =
           (if policy_allows lo tun pol p \<and> \<not> peer_starts lo tun pol p then Accept else Drop)))"

fun policy_tunnel_index :: "linux_sys \<Rightarrow> firewall_policy \<Rightarrow> u32 option" where
  "policy_tunnel_index sys (PolicyConnected _ t _) = ls_iface_index sys (tm_interface t)"
| "policy_tunnel_index _ _ = None"

definition linux_lifted :: "('k \<Rightarrow> nft_table option) \<Rightarrow> 'k \<Rightarrow> bool" where
  "linux_lifted ruleset k \<longleftrightarrow> ruleset k = None"

lemma finalize_indices:
  assumes "policy_batch_finalize sys (policy_batch_new T) pol = Inr msgs"
  shows "\<exists>lo tun. ls_iface_index sys ''lo'' = Some lo \<and> tunnel_index_is sys tun pol"
  using assms
  by (cases pol) (auto simp: policy_batch_finalize_def add_loopback_rules_def
      add_allow_tunnel_rules_def allow_interface_rule_def check_iface_def
      split: sum.splits option.splits)

lemma finalize_ok_iff:
  "is_ok (policy_batch_finalize sys (policy_batch_new T) pol) \<longleftrightarrow>
     (\<exists>lo tun. ls_iface_index sys ''lo'' = Some lo \<and> tunnel_index_is sys tun pol)"
proof
  assume "is_ok (policy_batch_finalize sys (policy_batch_new T) pol)"
  then show "\<exists>lo tun. ls_iface_index sys ''lo'' = Some lo \<and> tunnel_index_is sys tun pol"
    using finalize_indices by (auto simp: is_ok_iff)
next
  assume "\<exists>lo tun. ls_iface_index sys ''lo'' = Some lo \<and> tunnel_index_is sys tun pol"
  then show "is_ok (policy_batch_finalize sys (policy_batch_new T) pol)"
    by (cases pol) (auto simp: policy_batch_finalize_def add_loopback_rules_def
        add_allow_tunnel_rules_def allow_interface_rule_def check_iface_def add_lan_if_def
        add_dns_rule_def add_allow_dns_rule_def Let_def split: option.splits)
qed

lemma commit_reset [simp]: "commit reset_batch t = None"
  by (cases t) (simp_all add: commit_def reset_batch_def)

section \<open>The kernel\<close>

locale netlink_kernel =
  fixes nl :: "'k netlink"
    and ruleset :: "'k \<Rightarrow> nft_table option"
  assumes open_keeps: "nl_open nl k = (ok, k') \<Longrightarrow> ruleset k' = ruleset k"
    and send_fails: "nl_send_batch nl b k = (False, k') \<Longrightarrow> ruleset k' = ruleset k"
    and send_atomic:
      "nl_send_batch nl b k = (True, k') \<Longrightarrow> nl_replies nl k' = (rs, k'') \<Longrightarrow>
         ruleset k'' = ruleset k \<or> ruleset k'' = commit b (ruleset k)"
    and send_acknowledged:
      "nl_send_batch nl b k = (True, k') \<Longrightarrow> nl_replies nl k' = (rs, k'') \<Longrightarrow>
         process_replies rs [] = Inr ts \<Longrightarrow> ruleset k'' = commit b (ruleset k)"
    and get_keeps: "nl_send_get_tables nl k = (ok, k') \<Longrightarrow> ruleset k' = ruleset k"
    and get_replies_keep:
      "nl_send_get_tables nl k = (True, k') \<Longrightarrow> nl_replies nl k' = (rs, k'') \<Longrightarrow>
         ruleset k'' = ruleset k"
begin

lemma send_and_process_ok:
  "send_and_process nl b k = (Inr u, k') \<Longrightarrow> ruleset k' = commit b (ruleset k)"
  unfolding send_and_process_def
  by (auto split: prod.splits bool.splits sum.splits dest!: open_keeps dest: send_acknowledged)

lemma send_and_process_err:
  "send_and_process nl b k = (Inl e, k') \<Longrightarrow>
     ruleset k' = ruleset k \<or> ruleset k' = commit b (ruleset k)"
  unfolding send_and_process_def
  by (auto split: prod.splits bool.splits sum.splits dest!: open_keeps send_fails dest: send_atomic)

lemma verify_tables_keeps: "verify_tables nl ts k = (r, k') \<Longrightarrow> ruleset k' = ruleset k"
  unfolding verify_tables_def
  by (auto split: prod.splits bool.splits sum.splits if_splits dest!: open_keeps
      dest: get_keeps get_replies_keep)

lemma apply_policy_ok:
  assumes "linux_apply_policy sys nl pol k = (Inr u, k')"
  shows "\<exists>msgs. policy_batch_finalize sys (policy_batch_new TABLE_NAME) pol = Inr msgs \<and>
    ruleset k' = commit msgs None"
  using assms unfolding linux_apply_policy_def
  by (auto split: sum.splits prod.splits dest!: verify_tables_keeps send_and_process_ok
      intro: commit_independent)

lemma apply_policy_err:
  assumes "linux_apply_policy sys nl pol k = (Inl e, k')"
  shows "ruleset k' = ruleset k \<or>
    (\<exists>msgs. policy_batch_finalize sys (policy_batch_new TABLE_NAME) pol = Inr msgs \<and>
       ruleset k' = commit msgs None)"
  using assms unfolding linux_apply_policy_def
  by (auto split: sum.splits prod.splits
      dest!: verify_tables_keeps send_and_process_ok send_and_process_err
      intro: commit_independent)

lemma reset_policy_ok: "linux_reset_policy nl k = (Inr u, k') \<Longrightarrow> ruleset k' = None"
  by (auto simp: linux_reset_policy_def dest: send_and_process_ok)

lemma reset_policy_err:
  "linux_reset_policy nl k = (Inl e, k') \<Longrightarrow> ruleset k' = ruleset k \<or> ruleset k' = None"
  by (auto simp: linux_reset_policy_def dest: send_and_process_err)

end

locale linux_firewall =
  netfilter run_rule run_chain filter_packet + netlink_kernel nl ruleset
  for run_rule :: "nft_expr list \<Rightarrow> packet \<Rightarrow> nft_reg \<Rightarrow> verdict option"
    and run_chain :: "verdict \<Rightarrow> nft_expr list list \<Rightarrow> packet \<Rightarrow> verdict"
    and filter_packet :: "nft_table option \<Rightarrow> packet \<Rightarrow> verdict"
    and nl :: "'k netlink"
    and ruleset :: "'k \<Rightarrow> nft_table option" +
  fixes sys :: linux_sys
begin

lemma committed_enforces:
  assumes "policy_batch_finalize sys (policy_batch_new TABLE_NAME) pol = Inr msgs"
    and "ruleset k = commit msgs None"
  shows "linux_enforces sys filter_packet ruleset k pol"
  unfolding linux_enforces_def
  using finalize_indices [OF assms(1)] filter_policy [OF assms(1)] assms(2) by metis

lemma enforces_cong:
  "ruleset k' = ruleset k \<Longrightarrow>
     linux_enforces sys filter_packet ruleset k' = linux_enforces sys filter_packet ruleset k"
  by (simp add: linux_enforces_def fun_eq_iff)

end

sublocale linux_firewall \<subseteq>
  fw: firewall_interface "linux_apply_policy sys nl" "linux_reset_policy nl"
    "linux_enforces sys filter_packet ruleset" "linux_lifted ruleset"
  by unfold_locales
    (auto simp: linux_lifted_def
      dest: apply_policy_ok apply_policy_err reset_policy_ok reset_policy_err
      dest!: enforces_cong intro: committed_enforces)

section \<open>A reference kernel\<close>

text \<open>
  A kernel that holds one table and answers system calls; the list \<open>nk_faults\<close> scripts the outcome
  of the coming calls.  A rejected batch is answered by an error message and changes nothing.
\<close>

datatype fault = NoFault | CallFails | BatchRejected

record nft_kernel =
  nk_table :: "nft_table option"
  nk_faults :: "fault list"
  nk_pending :: "nl_reply list"

definition next_fault :: "nft_kernel \<Rightarrow> fault" where
  "next_fault k = (case nk_faults k of [] \<Rightarrow> NoFault | f # _ \<Rightarrow> f)"

definition drop_fault :: "nft_kernel \<Rightarrow> nft_kernel" where
  "drop_fault k = k\<lparr>nk_faults := tl (nk_faults k)\<rparr>"

definition ref_netlink :: "nft_kernel netlink" where
  "ref_netlink = \<lparr>
     nl_open = (\<lambda>k. (next_fault k \<noteq> CallFails, drop_fault k)),
     nl_send_batch = (\<lambda>b k.
       (case next_fault k of
          CallFails \<Rightarrow> (False, drop_fault k)
        | BatchRejected \<Rightarrow> (True, drop_fault k\<lparr>nk_pending := [CbFails]\<rparr>)
        | NoFault \<Rightarrow> (True, drop_fault k\<lparr>nk_table := commit b (nk_table k), nk_pending := []\<rparr>))),
     nl_send_get_tables = (\<lambda>k.
       (next_fault k \<noteq> CallFails,
        drop_fault k\<lparr>nk_pending :=
          [CbOk (case nk_table k of None \<Rightarrow> [] | Some _ \<Rightarrow> [TABLE_NAME])]\<rparr>)),
     nl_replies = (\<lambda>k. (nk_pending k, k\<lparr>nk_pending := []\<rparr>))\<rparr>"

interpretation ref_kernel: netlink_kernel ref_netlink nk_table
  by unfold_locales (auto simp: ref_netlink_def drop_fault_def split: fault.splits)

definition ref_sys :: linux_sys where
  "ref_sys = \<lparr>ls_iface_index = map_of [(''lo'', 1), (''tun0'', 7)], ls_add_counters = False\<rparr>"

interpretation ref_firewall:
  linux_firewall nft_run nft_chain_eval nft_filter ref_netlink nk_table ref_sys
  by unfold_locales

definition ref_tunnel :: tunnel_metadata where
  "ref_tunnel = \<lparr>tm_interface = ''tun0'', tm_ips = [V4 (ipv4_new 10 8 0 2)],
     tm_ipv4_gateway = ipv4_new 10 8 0 1, tm_ipv6_gateway = None\<rparr>"

definition ref_policy :: firewall_policy where
  "ref_policy = PolicyConnected (endpoint_new (V4 (ipv4_new 1 2 3 4)) 1194 Udp) ref_tunnel True"

definition ref_boot :: nft_kernel where
  "ref_boot = \<lparr>nk_table = None, nk_faults = [], nk_pending = []\<rparr>"

lemma ref_indices:
  "ls_iface_index ref_sys ''lo'' = Some 1" "tunnel_index_is ref_sys 7 ref_policy"
  by (simp_all add: ref_sys_def ref_policy_def ref_tunnel_def)

lemma ref_apply_ok:
  assumes "policy_batch_finalize sys (policy_batch_new TABLE_NAME) pol = Inr msgs"
    and "nk_faults k = []"
  shows "linux_apply_policy sys ref_netlink pol k = (Inr (), k\<lparr>nk_table := commit msgs None, nk_pending := []\<rparr>)"
proof -
  obtain t where t: "commit msgs (nk_table k) = Some t" "commit msgs None = Some t"
    using commit_is_table [OF assms(1), of None]
      commit_independent [OF assms(1), of "nk_table k" None] by auto
  show ?thesis
    by (simp add: linux_apply_policy_def assms send_and_process_def verify_tables_def ref_netlink_def
        next_fault_def drop_fault_def t)
qed

lemma ref_apply_boot:
  "\<exists>k'. linux_apply_policy ref_sys ref_netlink ref_policy ref_boot = (Inr (), k')"
proof -
  have "is_ok (policy_batch_finalize ref_sys (policy_batch_new TABLE_NAME) ref_policy)"
    using ref_indices finalize_ok_iff by blast
  then show ?thesis
    using ref_apply_ok [where k = ref_boot] by (auto simp: is_ok_iff ref_boot_def)
qed

section \<open>Properties\<close>

text \<open>
  C4.  For every policy whose interfaces exist, \<open>PolicyBatch::finalize\<close> succeeds, and once the batch it
  returns is committed (whatever the table was before) netfilter accepts exactly the packets the
  documented block/allow specification of \<open>FirewallPolicy\<close> names and drops all others, in both
  directions, with one exception: a packet of a conversation that the peer endpoint starts (it is
  not established) and that no other item of the policy allows is dropped, although the
  documentation allows traffic "to and from" the peer endpoint.
\<close>

theorem linux_policy_exact:
  assumes "netfilter run_rule run_chain filter_packet"
    and "ls_iface_index sys ''lo'' = Some lo" and "tunnel_index_is sys tun pol"
  shows "\<exists>msgs. policy_batch_finalize sys (policy_batch_new TABLE_NAME) pol = Inr msgs \<and>
    (\<forall>tab p. filter_packet (commit msgs tab) p =
      (if policy_allows lo tun pol p \<and> \<not> peer_starts lo tun pol p then Accept else Drop))"
proof -
  have "is_ok (policy_batch_finalize sys (policy_batch_new TABLE_NAME) pol)"
    using assms(2,3) finalize_ok_iff by blast
  then obtain msgs where "policy_batch_finalize sys (policy_batch_new TABLE_NAME) pol = Inr msgs"
    by (auto simp: is_ok_iff)
  then show ?thesis
    using netfilter.filter_policy [OF assms(1) _ assms(2,3)] by blast
qed

theorem linux_policy_exact_witness:
  "\<exists>msgs. policy_batch_finalize ref_sys (policy_batch_new TABLE_NAME) ref_policy = Inr msgs \<and>
    (\<forall>tab p. nft_filter (commit msgs tab) p =
      (if policy_allows 1 7 ref_policy p \<and> \<not> peer_starts 1 7 ref_policy p then Accept else Drop))"
  by (rule linux_policy_exact [OF nft.netfilter_axioms ref_indices])



text \<open>
  C17.  No DNS leak, apart from loopback and the relay endpoint itself.  With the \<open>Connected\<close> policy
  committed, a DNS request (UDP or TCP to port 53) that is neither sent over loopback nor to the relay
  endpoint itself (a relay may listen on port 53) leaves the host exactly if it goes through the tunnel
  interface to a gateway of the tunnel, even if local network sharing is on.
\<close>

theorem linux_no_dns_leak:
  assumes "netfilter run_rule run_chain filter_packet"
    and "ls_iface_index sys ''lo'' = Some lo" and "tunnel_index_is sys tun (PolicyConnected ep t lan)"
    and "policy_batch_finalize sys (policy_batch_new TABLE_NAME) (PolicyConnected ep t lan) = Inr msgs"
    and "pk_dir p = DirOut" and "is_dns p" and "pk_iface p \<noteq> lo" and "\<not> to_endpoint p ep"
  shows "filter_packet (commit msgs tab) p = Accept \<longleftrightarrow> pk_iface p = tun \<and> to_tunnel_gateway p t"
proof -
  have "\<not> spec_always_out p"
    using assms(6) by (cases "pk_l4 p") (auto simp: is_dns_def spec_always_out_def dport_is_def
        DHCPV4_SERVER_PORT_def DHCPV6_SERVER_PORT_def)
  with assms(5-) show ?thesis
    by (simp add: netfilter.filter_policy [OF assms(1,4,2,3)] policy_allows_def peer_starts_def)
qed

definition ref_dns_leak :: packet where
  "ref_dns_leak = \<lparr>pk_dir = DirOut, pk_iface = 3,
     pk_l3 = L3V4 (ipv4_new 192 168 1 2) (ipv4_new 192 168 1 1), pk_l4 = L4Udp 4444 53, pk_ct = 8\<rparr>"

theorem linux_no_dns_leak_witness:
  "\<exists>msgs. policy_batch_finalize ref_sys (policy_batch_new TABLE_NAME) ref_policy = Inr msgs \<and>
     nft_filter (commit msgs None) ref_dns_leak = Drop"
proof -
  have "is_ok (policy_batch_finalize ref_sys (policy_batch_new TABLE_NAME) ref_policy)"
    using ref_indices finalize_ok_iff by blast
  then obtain msgs where
    msgs: "policy_batch_finalize ref_sys (policy_batch_new TABLE_NAME) ref_policy = Inr msgs"
    by (auto simp: is_ok_iff)
  have "nft_filter (commit msgs None) ref_dns_leak \<noteq> Accept"
    using linux_no_dns_leak [OF nft.netfilter_axioms ref_indices(1)
        ref_indices(2) [unfolded ref_policy_def] msgs [unfolded ref_policy_def],
        of ref_dns_leak None]
    by (simp add: ref_dns_leak_def is_dns_def dport_is_def to_endpoint_def endpoint_new_def)
  with msgs show ?thesis by (metis verdict.exhaust)
qed

text \<open>
  Nothing leaks around the tunnel.  Whatever policy \<open>apply_policy\<close> has successfully installed, a
  packet that leaves the host through an interface other than loopback and the tunnel is a DHCP
  request or router solicitation, goes to the policy's relay endpoint, is an ICMP packet for a
  pingable host of a \<open>Connecting\<close> policy, or goes to a local network while the policy allows LAN.
\<close>

theorem linux_no_leak:
  assumes "netfilter run_rule run_chain filter_packet" and "netlink_kernel nl ruleset"
    and "linux_apply_policy sys nl pol k = (Inr u, k')"
    and "pk_dir p = DirOut" and "filter_packet (ruleset k') p = Accept"
    and "ls_iface_index sys ''lo'' \<noteq> Some (pk_iface p)"
    and "policy_tunnel_index sys pol \<noteq> Some (pk_iface p)"
  shows "spec_always_out p \<or> policy_allow_lan pol \<and> spec_lan_out p \<or>
    (\<exists>ep hosts lan. pol = PolicyConnecting ep hosts lan \<and>
       (to_endpoint p ep \<or> (\<exists>h \<in> set hosts. dst_is p h \<and> icmp_for h (pk_l4 p)))) \<or>
    (\<exists>ep t lan. pol = PolicyConnected ep t lan \<and> to_endpoint p ep)"
proof -
  obtain msgs where fin: "policy_batch_finalize sys (policy_batch_new TABLE_NAME) pol = Inr msgs"
    and k': "ruleset k' = commit msgs None"
    using netlink_kernel.apply_policy_ok [OF assms(2,3)] by blast
  obtain lo tun where idx: "ls_iface_index sys ''lo'' = Some lo" "tunnel_index_is sys tun pol"
    using finalize_indices [OF fin] by blast
  have "spec_out lo tun pol p"
    using assms(4,5) by (simp add: k' netfilter.filter_policy [OF assms(1) fin idx] policy_allows_def peer_starts_def
        split: if_splits)
  with assms(6,7) idx show ?thesis
    by (cases pol) (auto split: if_splits)
qed


definition ref_lan_packet :: packet where
  "ref_lan_packet = ref_dns_leak\<lparr>pk_l4 := L4Tcp 4444 80\<rparr>"

theorem linux_no_leak_witness:
  "\<exists>k'. linux_apply_policy ref_sys ref_netlink ref_policy ref_boot = (Inr (), k') \<and>
     nft_filter (nk_table k') ref_lan_packet = Accept \<and> spec_lan_out ref_lan_packet"
proof -
  obtain k' where k': "linux_apply_policy ref_sys ref_netlink ref_policy ref_boot = (Inr (), k')"
    using ref_apply_boot by blast
  then obtain msgs where
    fin: "policy_batch_finalize ref_sys (policy_batch_new TABLE_NAME) ref_policy = Inr msgs" and
    tab: "nk_table k' = commit msgs None"
    using ref_kernel.apply_policy_ok by blast
  have lan: "spec_lan_out ref_lan_packet"
    by (simp add: spec_lan_out_def ALLOWED_LAN_NETS_def ref_lan_packet_def ref_dns_leak_def dst_in_def
        mask_v4_def ipv4_new_def mask_eq_exp_minus_1)
  have ok: "nft_filter (nk_table k') ref_lan_packet = Accept"
    unfolding tab nft.filter_policy [OF fin ref_indices]
    by (simp add: ref_lan_packet_def ref_dns_leak_def policy_allows_def peer_starts_def ref_policy_def is_dns_def
        dport_is_def lan [unfolded ref_lan_packet_def ref_dns_leak_def, simplified])
  have "spec_always_out ref_lan_packet \<or> spec_lan_out ref_lan_packet \<or>
      to_endpoint ref_lan_packet (endpoint_new (V4 (ipv4_new 1 2 3 4)) 1194 Udp)"
    using linux_no_leak [OF nft.netfilter_axioms ref_kernel.netlink_kernel_axioms k' _ ok]
    by (auto simp: ref_lan_packet_def ref_dns_leak_def ref_policy_def ref_tunnel_def ref_sys_def)
  then show ?thesis using k' ok lan by blast
qed

end
