(* ===== verification/Tunnel_State_Machine_Proofs.thy ===== *)
theory Tunnel_State_Machine_Proofs
  imports Tunnel_State_Machine
begin

text \<open>
  Properties of the tunnel state machine.  The locale \<open>tsm_firewall\<close> takes the firewall of the
  platform to satisfy the contract \<open>firewall_interface\<close>; in it the kill switch invariants are proved
  for arbitrary failures of the firewall.  The other lemmas hold for every platform.
\<close>

section \<open>Splitting and bookkeeping\<close>

fun act_state :: "machine_action \<Rightarrow> tunnel_state option" where
  "act_state (ActRepeat st) = Some st"
| "act_state (ActNotify st _) = st"

lemmas handler_defs [tsm_simps] =
  disconnected_handle_event_def connecting_handle_commands_def connecting_handle_tunnel_events_def
  connecting_handle_tunnel_close_event_def connecting_handle_event_def connected_disconnect_def
  connected_handle_commands_def connected_handle_tunnel_events_def
  connected_handle_tunnel_close_event_def connected_handle_event_def
  disconnecting_handle_commands_def disconnecting_after_disconnect_def
  disconnecting_handle_exit_event_def disconnecting_handle_event_def blocked_handle_event_def
  into_connected_state_bootstrap_def

lemmas handler_splits =
  tried.splits tunnel_command.splits tunnel_event.splits future_poll.splits option.splits
  prod.splits sum.splits if_splits after_disconnect.splits

lemma try_handle_event_cases:
  "(try_handle_event p = TriedErr) = (p = StreamEnd \<or> p = StreamErr)"
  "(try_handle_event p = TriedNotReady) = (p = StreamNotReady)"
  "(try_handle_event p = TriedOk e) = (p = StreamItem e)"
  by (cases p; simp)+

lemma or_else_new_state [simp]: "or_else (new_state r) h = new_state r"
  by (cases r) (simp add: new_state_def)

text \<open>Each handler asks its sources in order: the commands, the tunnel events, the close event.\<close>

lemma connecting_handle_event_eq:
  "connecting_handle_event pf ps st sh =
     (if po_commands ps \<noteq> StreamNotReady then connecting_handle_commands pf ps st sh
      else if po_tunnel_events ps \<noteq> StreamNotReady then connecting_handle_tunnel_events pf ps st sh
      else connecting_handle_tunnel_close_event pf ps st sh)"
  by (cases "po_commands ps"; cases "po_tunnel_events ps")
    (auto simp: connecting_handle_event_def connecting_handle_commands_def
      connecting_handle_tunnel_events_def Let_def
      split: tunnel_command.split tunnel_event.split prod.split sum.split)

lemma connected_handle_event_eq:
  "connected_handle_event pf ps st sh =
     (if po_commands ps \<noteq> StreamNotReady then connected_handle_commands pf ps st sh
      else if po_tunnel_events ps \<noteq> StreamNotReady then connected_handle_tunnel_events pf ps st sh
      else connected_handle_tunnel_close_event pf ps st sh)"
  by (cases "po_commands ps"; cases "po_tunnel_events ps")
    (auto simp: connected_handle_event_def connected_handle_commands_def
      connected_handle_tunnel_events_def connected_disconnect_def Let_def
      split: tunnel_command.split tunnel_event.split prod.split sum.split)

lemma disconnecting_handle_event_eq:
  "disconnecting_handle_event pf ps st sh =
     (if po_commands ps \<noteq> StreamNotReady then disconnecting_handle_commands ps st sh
      else disconnecting_handle_exit_event pf ps st sh)"
  by (cases "po_commands ps")
    (auto simp: disconnecting_handle_event_def disconnecting_handle_commands_def Let_def
      split: prod.split)

text \<open>
  The frame of the \<open>enter\<close> functions: the settings and the DNS monitor are as before, and the firewall
  is as before or has been asked to apply one policy.
\<close>

definition same_settings :: "('fw, 'dns, 'gen, 'tp) shared \<Rightarrow> ('fw, 'dns, 'gen, 'tp) shared \<Rightarrow> bool" where
  "same_settings sh sh' \<longleftrightarrow>
     sv_allow_lan sh' = sv_allow_lan sh \<and>
     sv_block_when_disconnected sh' = sv_block_when_disconnected sh \<and>
     sv_is_offline sh' = sv_is_offline sh \<and> sv_dns_monitor sh' = sv_dns_monitor sh"

definition at_most_one_policy :: "('fw, 'dns, 'gen, 'tp) platform
    \<Rightarrow> ('fw, 'dns, 'gen, 'tp) shared \<Rightarrow> ('fw, 'dns, 'gen, 'tp) shared \<Rightarrow> bool" where
  "at_most_one_policy pf sh sh' \<longleftrightarrow> sv_firewall sh' = sv_firewall sh \<or>
     (\<exists>p. sv_firewall sh' = snd (pf_fw_apply pf p (sv_firewall sh)))"

lemma connecting_enter_cases [consumes 0, case_names blocked connecting]:
  obtains (blocked) r sh0 where "connecting_enter pf n sh = blocked_enter pf r sh0"
      "same_settings sh sh0" "at_most_one_policy pf sh sh0"
  | (connecting) c fw sh1 where
      "connecting_enter pf n sh =
         (StConnecting c, TrConnecting (get_tunnel_endpoint (cg_tunnel_parameters c)), sh1)"
      "pf_fw_apply pf (connecting_policy (cg_tunnel_parameters c) (sv_allow_lan sh)) (sv_firewall sh) =
         (Inr (), fw)"
      "sv_firewall sh1 = fw" "same_settings sh sh1" "\<not> sv_is_offline sh" "cg_retry_attempt c = n"
      "fst (pf_generate pf n (sv_generator sh)) = Some (cg_tunnel_parameters c)"
proof (cases "sv_is_offline sh")
  case True
  then show thesis
    by (intro blocked [of IsOffline sh])
      (simp_all add: connecting_enter_def same_settings_def at_most_one_policy_def)
next
  case online: False
  obtain p g where g: "pf_generate pf n (sv_generator sh) = (p, g)" by fastforce
  show thesis
  proof (cases p)
    case None
    with online g show thesis
      by (intro blocked [of NoMatchingRelay "sh\<lparr>sv_generator := g\<rparr>"])
        (simp_all add: connecting_enter_def same_settings_def at_most_one_policy_def)
  next
    case (Some params)
    obtain r fw where fw: "pf_fw_apply pf (connecting_policy params (sv_allow_lan sh)) (sv_firewall sh) = (r, fw)"
      by fastforce
    show thesis
    proof (cases r)
      case (Inl e)
      with online g Some fw show thesis
        by (intro blocked [of StartTunnelError "sh\<lparr>sv_generator := g, sv_firewall := fw\<rparr>"])
          (simp_all add: connecting_enter_def connecting_set_firewall_policy_def apply_policy_def
            same_settings_def at_most_one_policy_def, metis snd_conv)
    next
      case (Inr u)
      obtain t tp where t: "pf_start pf params (sv_log_dir sh) (sv_resource_dir sh) (sv_tun_provider sh) = (t, tp)"
        by fastforce
      show thesis
      proof (cases t)
        case (Inl e)
        with online g Some fw Inr t show thesis
          by (intro blocked [of "case e of EnableIpv6Error \<Rightarrow> Ipv6Unavailable | _ \<Rightarrow> StartTunnelError"
                "sh\<lparr>sv_generator := g, sv_firewall := fw, sv_tun_provider := tp\<rparr>"])
            (simp_all add: connecting_enter_def connecting_set_firewall_policy_def apply_policy_def
              start_tunnel_def same_settings_def at_most_one_policy_def, metis snd_conv)
      next
        case (Inr k)
        with online g Some fw \<open>r = Inr u\<close> t show thesis
          by (intro connecting [of "\<lparr>cg_tunnel = k, cg_tunnel_parameters = params, cg_retry_attempt = n\<rparr>"
                "sh\<lparr>sv_generator := g, sv_firewall := fw, sv_tun_provider := tp\<rparr>" fw])
            (simp_all add: connecting_enter_def connecting_set_firewall_policy_def apply_policy_def
              start_tunnel_def same_settings_def)
      qed
    qed
  qed
qed

lemma blocked_enter_cases:
  obtains r' sh1 where "blocked_enter pf r sh = (StBlocked r', TrBlocked r', sh1)"
    "same_settings sh sh1"
    "sv_firewall sh1 = snd (pf_fw_apply pf (PolicyBlocked (sv_allow_lan sh)) (sv_firewall sh))"
    "r' = (if is_ok (fst (pf_fw_apply pf (PolicyBlocked (sv_allow_lan sh)) (sv_firewall sh)))
           then r else SetFirewallPolicyError)"
proof -
  obtain res fw where "pf_fw_apply pf (PolicyBlocked (sv_allow_lan sh)) (sv_firewall sh) = (res, fw)"
    by fastforce
  then show thesis
    by (intro that [of "if is_ok res then r else SetFirewallPolicyError" "sh\<lparr>sv_firewall := fw\<rparr>"])
      (auto simp: blocked_enter_def blocked_set_firewall_policy_def apply_policy_def Let_def
        same_settings_def split: sum.split)
qed

section \<open>The kill switch\<close>

text \<open>What the firewall does in every state of the machine.\<close>

fun secure :: "('fw \<Rightarrow> firewall_policy \<Rightarrow> bool) \<Rightarrow> tunnel_state
    \<Rightarrow> ('fw, 'dns, 'gen, 'tp) shared \<Rightarrow> bool" where
  "secure enforces StDisconnected sh = True"
| "secure enforces (StConnecting c) sh =
     enforces (sv_firewall sh) (connecting_policy (cg_tunnel_parameters c) (sv_allow_lan sh))"
| "secure enforces (StConnected c) sh =
     enforces (sv_firewall sh) (connected_policy c (sv_allow_lan sh))"
| "secure enforces (StDisconnecting d) sh = (\<exists>p. enforces (sv_firewall sh) p)"
| "secure enforces (StBlocked r) sh =
     (r \<noteq> SetFirewallPolicyError \<longrightarrow> (\<exists>lan. enforces (sv_firewall sh) (PolicyBlocked lan)))"

locale tsm_firewall =
  fw: firewall_interface "pf_fw_apply pf" "pf_fw_reset pf" enforces lifted
  for pf :: "('fw, 'dns, 'gen, 'tp) platform"
    and enforces :: "'fw \<Rightarrow> firewall_policy \<Rightarrow> bool"
    and lifted :: "'fw \<Rightarrow> bool"
begin

abbreviation guarded_sh :: "('fw, 'dns, 'gen, 'tp) shared \<Rightarrow> bool" where
  "guarded_sh sh \<equiv> fw.guarded (sv_firewall sh)"

lemma secure_guarded:
  "secure enforces st sh \<Longrightarrow> st \<noteq> StDisconnected \<Longrightarrow> st \<noteq> StBlocked SetFirewallPolicyError \<Longrightarrow>
     guarded_sh sh"
  by (cases st) (auto simp: fw.guarded_def)

lemma apply_guarded_sh:
  "guarded_sh sh \<Longrightarrow> fw.guarded (snd (pf_fw_apply pf p (sv_firewall sh)))"
  using fw.apply_guarded [of "sv_firewall sh" p] by (metis prod.collapse)

lemma blocked_enter_secure: "blocked_enter pf r sh = (st, tr, sh') \<Longrightarrow> secure enforces st sh'"
  by (rule blocked_enter_cases [of pf r sh])
    (auto simp: is_ok_iff dest: fw.apply_ok split: if_splits, metis fw.apply_ok prod.collapse)

lemma blocked_enter_guarded:
  "blocked_enter pf r sh = (st, tr, sh') \<Longrightarrow> guarded_sh sh \<Longrightarrow> guarded_sh sh'"
  by (rule blocked_enter_cases [of pf r sh]) (auto simp: apply_guarded_sh)

lemma at_most_one_policy_guarded: "at_most_one_policy pf sh sh' \<Longrightarrow> guarded_sh sh \<Longrightarrow> guarded_sh sh'"
  by (auto simp: at_most_one_policy_def apply_guarded_sh)

lemma connecting_enter_secure: "connecting_enter pf n sh = (st, tr, sh') \<Longrightarrow> secure enforces st sh'"
  by (rule connecting_enter_cases [of pf n sh])
    (auto simp: same_settings_def dest: blocked_enter_secure fw.apply_ok)

lemma connecting_enter_guarded:
  "connecting_enter pf n sh = (st, tr, sh') \<Longrightarrow> guarded_sh sh \<Longrightarrow> guarded_sh sh'"
  by (rule connecting_enter_cases [of pf n sh])
    (auto dest: blocked_enter_guarded at_most_one_policy_guarded intro: fw.apply_ok_guarded)

lemma disconnecting_enter_secure:
  "disconnecting_enter pf t a sh = (st, tr, sh') \<Longrightarrow> guarded_sh sh \<Longrightarrow>
     secure enforces st sh' \<and> guarded_sh sh'"
  by (auto simp: disconnecting_enter_def fw.guarded_def)

lemma apply_policy_spec:
  assumes "apply_policy pf p sh = (r, sh')"
  shows "same_settings sh sh'" and "is_ok r \<Longrightarrow> enforces (sv_firewall sh') p"
    and "guarded_sh sh \<Longrightarrow> guarded_sh sh'"
  using assms by (auto simp: apply_policy_def same_settings_def is_ok_iff split: prod.splits
      dest: fw.apply_ok fw.apply_guarded)

lemma connected_set_dns_keeps:
  "connected_set_dns pf st sh = (r, sh') \<Longrightarrow> sv_firewall sh' = sv_firewall sh \<and> sv_allow_lan sh' = sv_allow_lan sh"
  by (auto simp: connected_set_dns_def Let_def split: prod.splits)

lemma connected_enter_secure:
  assumes "connected_enter pf c sh = (st, tr, sh')" and "guarded_sh sh"
  shows "secure enforces st sh' \<and> guarded_sh sh'"
proof -
  obtain r sh1 where 1: "apply_policy pf (connected_policy c (sv_allow_lan sh)) sh = (r, sh1)" by fastforce
  obtain r2 sh2 where 2: "connected_set_dns pf c sh1 = (r2, sh2)" by fastforce
  note spec = apply_policy_spec [OF 1] connected_set_dns_keeps [OF 2]
  then have g: "guarded_sh sh1" "guarded_sh sh2" using assms(2) by simp_all
  show ?thesis
    using assms(1) g spec
    by (cases r; cases r2) (auto simp: connected_enter_def connected_set_firewall_policy_def 1 2
        same_settings_def dest: disconnecting_enter_secure)
qed

lemma reset_dns_keeps [simp]:
  "sv_firewall (reset_dns pf sh) = sv_firewall sh" "sv_allow_lan (reset_dns pf sh) = sv_allow_lan sh"
  "sv_block_when_disconnected (reset_dns pf sh) = sv_block_when_disconnected sh"
  "sv_is_offline (reset_dns pf sh) = sv_is_offline sh"
  by (simp_all add: reset_dns_def)

lemma new_state_secure:
  assumes "apfst (action_from_consequence wrap) (new_state r) = (act, sh')"
  obtains st tr where "r = (st, tr, sh')" "act = ActNotify (Some st) (PollTransition tr)"
  using assms by (cases r) (auto simp: new_state_def)

definition keeps_secure :: "machine_action \<times> ('fw, 'dns, 'gen, 'tp) shared \<Rightarrow> bool" where
  "keeps_secure r \<longleftrightarrow> (\<forall>st. act_state (fst r) = Some st \<longrightarrow> secure enforces st (snd r))"

lemma keeps_secure_new:
  "(\<And>st tr sh'. r = (st, tr, sh') \<Longrightarrow> secure enforces st sh') \<Longrightarrow>
     keeps_secure (apfst (action_from_consequence wrap) (new_state r))"
  by (cases r) (simp add: keeps_secure_def new_state_def)

lemma disconnected_secure: "keeps_secure (handle_event pf ps StDisconnected sh)"
  by (auto simp: disconnected_handle_event_def split: tried.split tunnel_command.split
      intro!: keeps_secure_new dest: connecting_enter_secure blocked_enter_secure)
    (auto simp: keeps_secure_def)

lemma blocked_secure:
  assumes "secure enforces (StBlocked r) sh"
  shows "keeps_secure (handle_event pf ps (StBlocked r) sh)"
proof -
  have lan: "secure enforces (StBlocked r) (snd (blocked_set_firewall_policy pf (sh\<lparr>sv_allow_lan := b\<rparr>)))" for b
  proof (cases "r = SetFirewallPolicyError")
    case False
    then obtain lan where "enforces (sv_firewall sh) (PolicyBlocked lan)" using assms by auto
    then show ?thesis
      using fw.apply_old_or_new [of "sv_firewall sh" "PolicyBlocked lan" "PolicyBlocked b"]
      by (auto simp: blocked_set_firewall_policy_def apply_policy_def split: prod.split sum.split)
  qed simp
  show ?thesis
    using assms lan
    by (auto simp: blocked_handle_event_def Let_def disconnected_enter_def
        split: tried.split tunnel_command.split
        intro!: keeps_secure_new dest: connecting_enter_secure blocked_enter_secure)
      (auto simp: keeps_secure_def)
qed

lemma connecting_secure:
  assumes "secure enforces (StConnecting c) sh"
  shows "keeps_secure (handle_event pf ps (StConnecting c) sh)"
proof -
  have g: "guarded_sh sh" using assms secure_guarded by blast
  have commands: "keeps_secure (apfst (action_from_consequence StConnecting) (connecting_handle_commands pf ps c sh))"
  proof (cases "\<exists>b. po_commands ps = StreamItem (CmdAllowLan b)")
    case True
    then obtain b where b: "po_commands ps = StreamItem (CmdAllowLan b)" ..
    obtain r sh1 where 1: "apply_policy pf (connecting_policy (cg_tunnel_parameters c) b) (sh\<lparr>sv_allow_lan := b\<rparr>) = (r, sh1)"
      by fastforce
    from apply_policy_spec [OF 1] g show ?thesis
      by (cases r) (auto simp: connecting_handle_commands_def b connecting_set_firewall_policy_def 1
          keeps_secure_def same_settings_def disconnecting_enter_def new_state_def fw.guarded_def)
  next
    case False
    with assms g show ?thesis
      by (cases "po_commands ps")
        (auto simp: connecting_handle_commands_def Let_def split: tunnel_command.split
          intro!: keeps_secure_new dest!: disconnecting_enter_secure,
         auto simp: keeps_secure_def)
  qed
  have "keeps_secure (apfst (action_from_consequence StConnecting) (connecting_handle_tunnel_events pf ps c sh))"
    using assms g
    by (cases "po_tunnel_events ps")
      (auto simp: connecting_handle_tunnel_events_def split: tunnel_event.split
        intro!: keeps_secure_new dest!: disconnecting_enter_secure connected_enter_secure,
       auto simp: keeps_secure_def)
  moreover have "keeps_secure (apfst (action_from_consequence StConnecting) (connecting_handle_tunnel_close_event pf ps c sh))"
    using assms
    by (auto simp: connecting_handle_tunnel_close_event_def split: future_poll.split option.split
        intro!: keeps_secure_new dest: blocked_enter_secure connecting_enter_secure,
       auto simp: keeps_secure_def)
  ultimately show ?thesis using commands by (simp add: connecting_handle_event_eq)
qed

lemma connected_secure:
  assumes "secure enforces (StConnected c) sh"
  shows "keeps_secure (handle_event pf ps (StConnected c) sh)"
proof -
  have g: "guarded_sh sh" using assms secure_guarded by blast
  have commands: "keeps_secure (apfst (action_from_consequence StConnected) (connected_handle_commands pf ps c sh))"
  proof (cases "\<exists>b. po_commands ps = StreamItem (CmdAllowLan b)")
    case True
    then obtain b where b: "po_commands ps = StreamItem (CmdAllowLan b)" ..
    obtain r sh1 where 1: "apply_policy pf (connected_policy c b) (sh\<lparr>sv_allow_lan := b\<rparr>) = (r, sh1)"
      by fastforce
    from apply_policy_spec [OF 1] g show ?thesis
      by (cases r) (auto simp: connected_handle_commands_def b connected_set_firewall_policy_def 1
          connected_disconnect_def keeps_secure_def same_settings_def disconnecting_enter_def
          new_state_def fw.guarded_def)
  next
    case False
    with assms g show ?thesis
      by (cases "po_commands ps")
        (auto simp: connected_handle_commands_def connected_disconnect_def Let_def split: tunnel_command.split
          intro!: keeps_secure_new dest!: disconnecting_enter_secure,
         auto simp: keeps_secure_def)
  qed
  have "keeps_secure (apfst (action_from_consequence StConnected) (connected_handle_tunnel_events pf ps c sh))"
    using assms g
    by (cases "po_tunnel_events ps")
      (auto simp: connected_handle_tunnel_events_def connected_disconnect_def split: tunnel_event.split
        intro!: keeps_secure_new dest!: disconnecting_enter_secure,
       auto simp: keeps_secure_def)
  moreover have "keeps_secure (apfst (action_from_consequence StConnected) (connected_handle_tunnel_close_event pf ps c sh))"
    using assms
    by (auto simp: connected_handle_tunnel_close_event_def split: future_poll.split option.split
        intro!: keeps_secure_new dest: blocked_enter_secure connecting_enter_secure,
       auto simp: keeps_secure_def)
  ultimately show ?thesis using commands by (simp add: connected_handle_event_eq)
qed

lemma disconnecting_command_keeps:
  "disconnecting_command a e sh = (a', sh') \<Longrightarrow>
     sv_firewall sh' = sv_firewall sh \<and> sv_dns_monitor sh' = sv_dns_monitor sh"
  by (cases "(a, e, sh)" rule: disconnecting_command.cases) auto

lemma disconnecting_secure:
  assumes "secure enforces (StDisconnecting d) sh"
  shows "keeps_secure (handle_event pf ps (StDisconnecting d) sh)"
proof -
  have "keeps_secure (apfst (action_from_consequence StDisconnecting) (disconnecting_handle_commands ps d sh))"
    using assms by (auto simp: disconnecting_handle_commands_def Let_def keeps_secure_def
        split: tried.split prod.split dest!: disconnecting_command_keeps)
  moreover have "keeps_secure (apfst (action_from_consequence StDisconnecting) (disconnecting_handle_exit_event pf ps d sh))"
    using assms
    by (auto simp: disconnecting_handle_exit_event_def disconnecting_after_disconnect_def
        disconnected_enter_def split: future_poll.split option.split after_disconnect.split
        intro!: keeps_secure_new dest: blocked_enter_secure connecting_enter_secure)
      (auto simp: keeps_secure_def)
  ultimately show ?thesis by (simp add: disconnecting_handle_event_eq)
qed

lemma handle_event_secure:
  "secure enforces st sh \<Longrightarrow> keeps_secure (handle_event pf ps st sh)"
  by (cases st) (simp_all only: disconnected_secure connecting_secure connected_secure
      disconnecting_secure blocked_secure)

lemma handle_event_secureD:
  "secure enforces st sh \<Longrightarrow> handle_event pf ps st sh = (act, sh') \<Longrightarrow> act_state act = Some st' \<Longrightarrow>
     secure enforces st' sh'"
  using handle_event_secure [of st sh ps] by (simp add: keeps_secure_def)

lemma machine_step_secure:
  "machine_step pf (st, sh) (st', sh') \<Longrightarrow> secure enforces st sh \<Longrightarrow> secure enforces st' sh'"
  by (auto elim!: machine_stepE intro: handle_event_secureD [OF _ _ act_state.simps(1)]
      handle_event_secureD [OF _ _ act_state.simps(2)])

lemma reachable_secure: "reachable pf (st, sh) \<Longrightarrow> secure enforces st sh"
proof (induction "(st, sh)" arbitrary: st sh rule: reachable.induct)
  case (start lan bwd off g tp ld rd cd st sh)
  then show ?case
    by (auto simp: machine_new_def disconnected_enter_def Let_def split: sum.splits)
next
  case (step c st' sh')
  then show ?case by (cases c) (auto dest: machine_step_secure)
qed

text \<open>
  Once a policy is in force, one stays in force through every step; the only way out is the
  disconnected state with blocking switched off.
\<close>

definition keeps_guard :: "machine_action \<times> ('fw, 'dns, 'gen, 'tp) shared \<Rightarrow> bool" where
  "keeps_guard r \<longleftrightarrow> guarded_sh (snd r) \<or>
     act_state (fst r) = Some StDisconnected \<and> \<not> sv_block_when_disconnected (snd r)"

lemma keeps_guard_new:
  "(\<And>st tr sh'. r = (st, tr, sh') \<Longrightarrow>
       guarded_sh sh' \<or> st = StDisconnected \<and> \<not> sv_block_when_disconnected sh') \<Longrightarrow>
     keeps_guard (apfst (action_from_consequence wrap) (new_state r))"
  by (cases r) (simp add: keeps_guard_def new_state_def)

lemma keeps_guard_intro: "guarded_sh sh \<Longrightarrow> keeps_guard (act, sh)"
  by (simp add: keeps_guard_def)

lemma disconnected_policy_guarded:
  "guarded_sh sh \<Longrightarrow> guarded_sh (disconnected_set_firewall_policy pf sh) \<or>
     \<not> sv_block_when_disconnected (disconnected_set_firewall_policy pf sh)"
  by (auto simp: disconnected_set_firewall_policy_def apply_policy_def reset_policy_def
      split: prod.split dest: fw.apply_guarded)

lemma set_policy_guarded:
  assumes "guarded_sh sh"
  shows "guarded_sh (snd (apply_policy pf p sh))"
  using apply_policy_spec(3) [of p sh] assms by (metis prod.collapse)

lemma enter_keeps_guard:
  assumes "guarded_sh sh"
  shows "keeps_guard (apfst (action_from_consequence w) (new_state (blocked_enter pf r sh)))"
    and "keeps_guard (apfst (action_from_consequence w) (new_state (connecting_enter pf n sh)))"
    and "keeps_guard (apfst (action_from_consequence w) (new_state (disconnecting_enter pf t a sh)))"
    and "keeps_guard (apfst (action_from_consequence w) (new_state (connected_enter pf c sh)))"
    and "keeps_guard (apfst (action_from_consequence w) (new_state (disconnected_enter pf sh)))"
proof -
  show "keeps_guard (apfst (action_from_consequence w) (new_state (blocked_enter pf r sh)))"
    by (rule keeps_guard_new) (use assms blocked_enter_guarded in blast)
  show "keeps_guard (apfst (action_from_consequence w) (new_state (connecting_enter pf n sh)))"
    by (rule keeps_guard_new) (use assms connecting_enter_guarded in blast)
  show "keeps_guard (apfst (action_from_consequence w) (new_state (disconnecting_enter pf t a sh)))"
    by (rule keeps_guard_new) (use assms disconnecting_enter_secure in blast)
  show "keeps_guard (apfst (action_from_consequence w) (new_state (connected_enter pf c sh)))"
    by (rule keeps_guard_new) (use assms connected_enter_secure in blast)
  show "keeps_guard (apfst (action_from_consequence w) (new_state (disconnected_enter pf sh)))"
    by (rule keeps_guard_new)
      (use assms disconnected_policy_guarded [of sh] in \<open>auto simp: disconnected_enter_def\<close>)
qed

lemma disconnected_keeps_guard:
  assumes "guarded_sh sh"
  shows "keeps_guard (handle_event pf ps StDisconnected sh)"
proof -
  have "keeps_guard (ActRepeat StDisconnected, disconnected_set_firewall_policy pf (sh\<lparr>sv_allow_lan := b\<rparr>))"
    "keeps_guard (ActRepeat StDisconnected,
       disconnected_set_firewall_policy pf (sh\<lparr>sv_block_when_disconnected := b\<rparr>))" for b
    using assms disconnected_policy_guarded [of "sh\<lparr>sv_allow_lan := b\<rparr>"]
      disconnected_policy_guarded [of "sh\<lparr>sv_block_when_disconnected := b\<rparr>"]
    by (auto simp: keeps_guard_def)
  with assms show ?thesis
    by (simp add: disconnected_handle_event_def keeps_guard_intro enter_keeps_guard
        split: tried.split tunnel_command.split)
qed

lemma blocked_keeps_guard:
  assumes "guarded_sh sh"
  shows "keeps_guard (handle_event pf ps (StBlocked r) sh)"
proof -
  have "guarded_sh (snd (blocked_set_firewall_policy pf (sh\<lparr>sv_allow_lan := b\<rparr>)))" for b
    using set_policy_guarded [of "sh\<lparr>sv_allow_lan := b\<rparr>" "PolicyBlocked b"] assms
    by (auto simp: blocked_set_firewall_policy_def split: prod.split sum.split)
  with assms show ?thesis
    by (simp add: blocked_handle_event_def Let_def keeps_guard_intro enter_keeps_guard
        split: tried.split tunnel_command.split)
qed

lemma connecting_keeps_guard:
  assumes g: "guarded_sh sh"
  shows "keeps_guard (handle_event pf ps (StConnecting c) sh)"
proof -
  let ?k = "\<lambda>r. keeps_guard (apfst (action_from_consequence StConnecting) r)"
  have lan: "?k (case connecting_set_firewall_policy pf (cg_tunnel_parameters c) (sh\<lparr>sv_allow_lan := b\<rparr>) of
      (Inr _, sh) \<Rightarrow> (SameState c, sh)
    | (Inl _, sh) \<Rightarrow> new_state (disconnecting_enter pf (cg_tunnel c) a sh))" for a b
    using set_policy_guarded [of "sh\<lparr>sv_allow_lan := b\<rparr>"] g
    by (auto simp: connecting_set_firewall_policy_def split: prod.split sum.split
        intro!: keeps_guard_intro enter_keeps_guard) (metis snd_conv)+
  have "?k (connecting_handle_commands pf ps c sh)"
    using g by (simp add: connecting_handle_commands_def Let_def lan keeps_guard_intro enter_keeps_guard
        split: tried.split tunnel_command.split)
  moreover have "?k (connecting_handle_tunnel_events pf ps c sh)"
    using g by (simp add: connecting_handle_tunnel_events_def keeps_guard_intro enter_keeps_guard
        split: tried.split tunnel_event.split)
  moreover have "?k (connecting_handle_tunnel_close_event pf ps c sh)"
    using g by (simp add: connecting_handle_tunnel_close_event_def keeps_guard_intro enter_keeps_guard
        split: future_poll.split option.split)
  ultimately show ?thesis by (simp add: connecting_handle_event_eq)
qed

lemma connected_keeps_guard:
  assumes g: "guarded_sh sh"
  shows "keeps_guard (handle_event pf ps (StConnected c) sh)"
proof -
  let ?k = "\<lambda>r. keeps_guard (apfst (action_from_consequence StConnected) r)"
  have lan: "?k (case connected_set_firewall_policy pf c (sh\<lparr>sv_allow_lan := b\<rparr>) of
      (Inr _, sh) \<Rightarrow> (SameState c, sh)
    | (Inl _, sh) \<Rightarrow> connected_disconnect pf c a sh)" for a b
    using set_policy_guarded [of "sh\<lparr>sv_allow_lan := b\<rparr>"] g
    by (auto simp: connected_set_firewall_policy_def connected_disconnect_def split: prod.split sum.split
        intro!: keeps_guard_intro enter_keeps_guard) (metis snd_conv)+
  have "?k (connected_handle_commands pf ps c sh)"
    using g by (simp add: connected_handle_commands_def connected_disconnect_def Let_def lan
        keeps_guard_intro enter_keeps_guard split: tried.split tunnel_command.split)
  moreover have "?k (connected_handle_tunnel_events pf ps c sh)"
    using g by (simp add: connected_handle_tunnel_events_def connected_disconnect_def
        keeps_guard_intro enter_keeps_guard split: tried.split tunnel_event.split)
  moreover have "?k (connected_handle_tunnel_close_event pf ps c sh)"
    using g by (simp add: connected_handle_tunnel_close_event_def keeps_guard_intro enter_keeps_guard
        split: future_poll.split option.split)
  ultimately show ?thesis by (simp add: connected_handle_event_eq)
qed

lemma disconnecting_keeps_guard:
  assumes g: "guarded_sh sh"
  shows "keeps_guard (handle_event pf ps (StDisconnecting d) sh)"
proof -
  let ?k = "\<lambda>r. keeps_guard (apfst (action_from_consequence StDisconnecting) r)"
  have "?k (disconnecting_handle_commands ps d sh)"
    using g by (auto simp: disconnecting_handle_commands_def Let_def split: tried.split prod.split
        intro!: keeps_guard_intro dest!: disconnecting_command_keeps)
  moreover have "?k (disconnecting_handle_exit_event pf ps d sh)"
    using g by (simp add: disconnecting_handle_exit_event_def disconnecting_after_disconnect_def
        keeps_guard_intro enter_keeps_guard
        split: future_poll.split option.split after_disconnect.split)
  ultimately show ?thesis by (simp add: disconnecting_handle_event_eq)
qed

lemma handle_event_keeps_guard:
  "guarded_sh sh \<Longrightarrow> keeps_guard (handle_event pf ps st sh)"
  by (cases st) (simp_all only: disconnected_keeps_guard connecting_keeps_guard
      connected_keeps_guard disconnecting_keeps_guard blocked_keeps_guard)

end

text \<open>The intended policy of every state: \<open>lifted\<close> stands for no policy.\<close>

fun exact :: "('fw \<Rightarrow> firewall_policy \<Rightarrow> bool) \<Rightarrow> ('fw \<Rightarrow> bool) \<Rightarrow> tunnel_state
    \<Rightarrow> ('fw, 'dns, 'gen, 'tp) shared \<Rightarrow> bool" where
  "exact enforces lifted StDisconnected sh =
     (if sv_block_when_disconnected sh then enforces (sv_firewall sh) (PolicyBlocked (sv_allow_lan sh))
      else lifted (sv_firewall sh))"
| "exact enforces lifted (StConnecting c) sh =
     enforces (sv_firewall sh) (connecting_policy (cg_tunnel_parameters c) (sv_allow_lan sh))"
| "exact enforces lifted (StConnected c) sh =
     enforces (sv_firewall sh) (connected_policy c (sv_allow_lan sh))"
| "exact enforces lifted (StDisconnecting d) sh = (\<exists>p. enforces (sv_firewall sh) p)"
| "exact enforces lifted (StBlocked r) sh = enforces (sv_firewall sh) (PolicyBlocked (sv_allow_lan sh))"

locale reliable_tsm = tsm_firewall pf enforces lifted
  for pf :: "('fw, 'dns, 'gen, 'tp) platform"
    and enforces :: "'fw \<Rightarrow> firewall_policy \<Rightarrow> bool"
    and lifted :: "'fw \<Rightarrow> bool" +
  assumes apply_reliable: "is_ok (fst (pf_fw_apply pf p f))"
    and reset_reliable: "is_ok (fst (pf_fw_reset pf f))"
begin

definition keeps_exact :: "machine_action \<times> ('fw, 'dns, 'gen, 'tp) shared \<Rightarrow> bool" where
  "keeps_exact r \<longleftrightarrow> (\<forall>st. act_state (fst r) = Some st \<longrightarrow> exact enforces lifted st (snd r))"

lemma keeps_exact_new:
  "(\<And>st tr sh'. r = (st, tr, sh') \<Longrightarrow> exact enforces lifted st sh') \<Longrightarrow>
     keeps_exact (apfst (action_from_consequence w) (new_state r))"
  by (cases r) (simp add: keeps_exact_def new_state_def)

lemma apply_enforces: "enforces (snd (pf_fw_apply pf p f)) p"
  using apply_reliable [of p f] fw.apply_ok [of p f] by (metis is_ok_iff prod.collapse)

lemma reset_lifts: "lifted (snd (pf_fw_reset pf f))"
  using reset_reliable [of f] fw.reset_ok [of f] by (metis is_ok_iff prod.collapse)

lemma set_policy_reliable:
  "\<exists>sh'. apply_policy pf p sh = (Inr (), sh') \<and> enforces (sv_firewall sh') p \<and> same_settings sh sh'"
  using apply_reliable [of p "sv_firewall sh"] apply_enforces [of p "sv_firewall sh"]
  by (auto simp: apply_policy_def is_ok_iff same_settings_def split: prod.split)

lemma disconnected_policy_exact: "exact enforces lifted StDisconnected (disconnected_set_firewall_policy pf sh)"
  using apply_enforces [of _ "sv_firewall sh"] reset_lifts [of "sv_firewall sh"]
  by (auto simp: disconnected_set_firewall_policy_def apply_policy_def reset_policy_def
      split: prod.split) (metis snd_conv)+

lemma blocked_enter_exact: "blocked_enter pf r sh = (st, tr, sh') \<Longrightarrow> exact enforces lifted st sh'"
  by (rule blocked_enter_cases [of pf r sh]) (auto simp: same_settings_def apply_enforces)

lemma connecting_enter_exact: "connecting_enter pf n sh = (st, tr, sh') \<Longrightarrow> exact enforces lifted st sh'"
  by (rule connecting_enter_cases [of pf n sh])
    (auto simp: same_settings_def dest: blocked_enter_exact fw.apply_ok)

lemma connected_enter_exact: "connected_enter pf c sh = (st, tr, sh') \<Longrightarrow> exact enforces lifted st sh'"
  using set_policy_reliable [of "connected_policy c (sv_allow_lan sh)" sh]
  by (auto simp: connected_enter_def connected_set_firewall_policy_def disconnecting_enter_def
      same_settings_def split: prod.splits sum.splits dest!: connected_set_dns_keeps)

lemma disconnecting_enter_exact:
  "guarded_sh sh \<Longrightarrow> disconnecting_enter pf t a sh = (st, tr, sh') \<Longrightarrow> exact enforces lifted st sh'"
  by (auto simp: disconnecting_enter_def fw.guarded_def)

lemma enter_keeps_exact:
  "keeps_exact (apfst (action_from_consequence w) (new_state (blocked_enter pf r sh)))"
  "keeps_exact (apfst (action_from_consequence w) (new_state (connecting_enter pf n sh)))"
  "keeps_exact (apfst (action_from_consequence w) (new_state (connected_enter pf c sh)))"
  "keeps_exact (apfst (action_from_consequence w) (new_state (disconnected_enter pf sh)))"
  "guarded_sh sh \<Longrightarrow> keeps_exact (apfst (action_from_consequence w) (new_state (disconnecting_enter pf t a sh)))"
  using disconnected_policy_exact
  by (auto intro!: keeps_exact_new simp: disconnected_enter_def
      dest: blocked_enter_exact connecting_enter_exact connected_enter_exact disconnecting_enter_exact)

lemma keeps_exact_same: "exact enforces lifted st sh \<Longrightarrow> keeps_exact (ActRepeat st, sh)"
  "exact enforces lifted st sh \<Longrightarrow> keeps_exact (ActNotify (Some st) r, sh)" "keeps_exact (ActNotify None r, sh)"
  by (simp_all add: keeps_exact_def)

lemma disconnected_exact:
  assumes "exact enforces lifted StDisconnected sh"
  shows "keeps_exact (handle_event pf ps StDisconnected sh)"
  using assms disconnected_policy_exact
  by (simp add: disconnected_handle_event_def keeps_exact_same enter_keeps_exact
      split: tried.split tunnel_command.split)

lemma blocked_exact:
  assumes "exact enforces lifted (StBlocked r) sh"
  shows "keeps_exact (handle_event pf ps (StBlocked r) sh)"
proof -
  have "exact enforces lifted (StBlocked r) (snd (blocked_set_firewall_policy pf (sh\<lparr>sv_allow_lan := b\<rparr>)))" for b
    using set_policy_reliable [of "PolicyBlocked b" "sh\<lparr>sv_allow_lan := b\<rparr>"]
    by (auto simp: blocked_set_firewall_policy_def same_settings_def)
  with assms show ?thesis
    by (simp add: blocked_handle_event_def Let_def keeps_exact_same enter_keeps_exact
        split: tried.split tunnel_command.split)
qed

lemma connecting_exact:
  assumes "exact enforces lifted (StConnecting c) sh"
  shows "keeps_exact (handle_event pf ps (StConnecting c) sh)"
proof -
  let ?k = "\<lambda>r. keeps_exact (apfst (action_from_consequence StConnecting) r)"
  have g: "guarded_sh sh" using assms by (auto simp: fw.guarded_def)
  have lan: "?k (case connecting_set_firewall_policy pf (cg_tunnel_parameters c) (sh\<lparr>sv_allow_lan := b\<rparr>) of
      (Inr _, sh) \<Rightarrow> (SameState c, sh)
    | (Inl _, sh) \<Rightarrow> new_state (disconnecting_enter pf (cg_tunnel c) a sh))" for a b
    using set_policy_reliable [of "connecting_policy (cg_tunnel_parameters c) b" "sh\<lparr>sv_allow_lan := b\<rparr>"]
    by (auto simp: connecting_set_firewall_policy_def same_settings_def keeps_exact_same)
  have "?k (connecting_handle_commands pf ps c sh)"
    using g assms by (simp add: connecting_handle_commands_def Let_def lan keeps_exact_same
        enter_keeps_exact split: tried.split tunnel_command.split)
  moreover have "?k (connecting_handle_tunnel_events pf ps c sh)"
    using g assms by (simp add: connecting_handle_tunnel_events_def keeps_exact_same enter_keeps_exact
        split: tried.split tunnel_event.split)
  moreover have "?k (connecting_handle_tunnel_close_event pf ps c sh)"
    using assms by (simp add: connecting_handle_tunnel_close_event_def keeps_exact_same enter_keeps_exact
        split: future_poll.split option.split)
  ultimately show ?thesis by (simp add: connecting_handle_event_eq)
qed

lemma connected_exact:
  assumes "exact enforces lifted (StConnected c) sh"
  shows "keeps_exact (handle_event pf ps (StConnected c) sh)"
proof -
  let ?k = "\<lambda>r. keeps_exact (apfst (action_from_consequence StConnected) r)"
  have g: "guarded_sh sh" using assms by (auto simp: fw.guarded_def)
  have lan: "?k (case connected_set_firewall_policy pf c (sh\<lparr>sv_allow_lan := b\<rparr>) of
      (Inr _, sh) \<Rightarrow> (SameState c, sh)
    | (Inl _, sh) \<Rightarrow> connected_disconnect pf c a sh)" for a b
    using set_policy_reliable [of "connected_policy c b" "sh\<lparr>sv_allow_lan := b\<rparr>"]
    by (auto simp: connected_set_firewall_policy_def same_settings_def keeps_exact_same)
  have "?k (connected_handle_commands pf ps c sh)"
    using g assms by (simp add: connected_handle_commands_def connected_disconnect_def Let_def lan
        keeps_exact_same enter_keeps_exact split: tried.split tunnel_command.split)
  moreover have "?k (connected_handle_tunnel_events pf ps c sh)"
    using g assms by (simp add: connected_handle_tunnel_events_def connected_disconnect_def
        keeps_exact_same enter_keeps_exact split: tried.split tunnel_event.split)
  moreover have "?k (connected_handle_tunnel_close_event pf ps c sh)"
    using assms by (simp add: connected_handle_tunnel_close_event_def keeps_exact_same enter_keeps_exact
        split: future_poll.split option.split)
  ultimately show ?thesis by (simp add: connected_handle_event_eq)
qed

lemma disconnecting_exact:
  assumes "exact enforces lifted (StDisconnecting d) sh"
  shows "keeps_exact (handle_event pf ps (StDisconnecting d) sh)"
proof -
  let ?k = "\<lambda>r. keeps_exact (apfst (action_from_consequence StDisconnecting) r)"
  have "?k (disconnecting_handle_commands ps d sh)"
    using assms by (auto simp: disconnecting_handle_commands_def Let_def keeps_exact_def
        split: tried.split prod.split dest!: disconnecting_command_keeps)
  moreover have "?k (disconnecting_handle_exit_event pf ps d sh)"
    using assms by (simp add: disconnecting_handle_exit_event_def disconnecting_after_disconnect_def
        keeps_exact_same enter_keeps_exact split: future_poll.split option.split after_disconnect.split)
  ultimately show ?thesis by (simp add: disconnecting_handle_event_eq)
qed

lemma handle_event_exact: "exact enforces lifted st sh \<Longrightarrow> keeps_exact (handle_event pf ps st sh)"
  by (cases st) (simp_all only: disconnected_exact connecting_exact connected_exact
      disconnecting_exact blocked_exact)

lemma handle_event_exactD:
  "exact enforces lifted st sh \<Longrightarrow> handle_event pf ps st sh = (act, sh') \<Longrightarrow>
     act_state act = Some st' \<Longrightarrow> exact enforces lifted st' sh'"
  using handle_event_exact [of st sh ps] by (simp add: keeps_exact_def)

lemma reachable_exact: "reachable pf (st, sh) \<Longrightarrow> exact enforces lifted st sh"
proof (induction "(st, sh)" arbitrary: st sh rule: reachable.induct)
  case (start lan bwd off g tp ld rd cd st sh)
  then obtain sh0 where "st = StDisconnected" "sh = disconnected_set_firewall_policy pf sh0"
    by (auto simp: machine_new_def disconnected_enter_def Let_def split: sum.splits)
  then show ?case using disconnected_policy_exact by blast
next
  case (step c st' sh')
  obtain st sh where "c = (st, sh)" by fastforce
  with step show ?case
    by (auto elim!: machine_stepE intro: handle_event_exactD [OF _ _ act_state.simps(1)]
        handle_event_exactD [OF _ _ act_state.simps(2)])
qed

end

section \<open>The shape of the machine\<close>

text \<open>The transition the machine notifies for a state it enters, and the kinds of states.\<close>

fun transition_of :: "tunnel_state \<Rightarrow> tunnel_state_transition" where
  "transition_of StDisconnected = TrDisconnected"
| "transition_of (StConnecting c) = TrConnecting (get_tunnel_endpoint (cg_tunnel_parameters c))"
| "transition_of (StConnected c) = TrConnected (get_tunnel_endpoint (cd_tunnel_parameters c))"
| "transition_of (StDisconnecting d) = TrDisconnecting (after_disconnect_action (dg_after_disconnect d))"
| "transition_of (StBlocked r) = TrBlocked r"

datatype state_kind = KDisconnected | KConnecting | KConnected | KDisconnecting | KBlocked

fun kind_of :: "tunnel_state \<Rightarrow> state_kind" where
  "kind_of StDisconnected = KDisconnected"
| "kind_of (StConnecting _) = KConnecting"
| "kind_of (StConnected _) = KConnected"
| "kind_of (StDisconnecting _) = KDisconnecting"
| "kind_of (StBlocked _) = KBlocked"

text \<open>The abstract state machine: which kinds of states may follow which.\<close>

fun may_follow :: "state_kind \<Rightarrow> state_kind list" where
  "may_follow KDisconnected = [KConnecting, KBlocked]"
| "may_follow KConnecting = [KConnecting, KConnected, KDisconnecting, KBlocked]"
| "may_follow KConnected = [KConnecting, KDisconnecting, KBlocked]"
| "may_follow KDisconnecting = [KDisconnected, KConnecting, KBlocked]"
| "may_follow KBlocked = [KDisconnected, KConnecting, KBlocked]"

lemma blocked_enter_shape:
  "blocked_enter pf r sh = (st, tr, sh') \<Longrightarrow> kind_of st = KBlocked \<and> tr = transition_of st"
  by (rule blocked_enter_cases [of pf r sh]) auto

lemma connecting_enter_shape:
  "connecting_enter pf n sh = (st, tr, sh') \<Longrightarrow>
     kind_of st \<in> {KConnecting, KBlocked} \<and> tr = transition_of st"
  by (rule connecting_enter_cases [of pf n sh]) (auto dest: blocked_enter_shape)

lemma connected_enter_shape:
  "connected_enter pf c sh = (st, tr, sh') \<Longrightarrow>
     kind_of st \<in> {KConnected, KDisconnecting} \<and> tr = transition_of st"
  by (auto simp: connected_enter_def disconnecting_enter_def split: prod.splits sum.splits)

lemma disconnecting_enter_shape:
  "disconnecting_enter pf t a sh = (st, tr, sh') \<Longrightarrow> kind_of st = KDisconnecting \<and> tr = transition_of st"
  by (auto simp: disconnecting_enter_def)

lemma disconnected_enter_shape:
  "disconnected_enter pf sh = (st, tr, sh') \<Longrightarrow> kind_of st = KDisconnected \<and> tr = transition_of st"
  by (auto simp: disconnected_enter_def)

lemmas enter_shape = blocked_enter_shape connecting_enter_shape connected_enter_shape
  disconnecting_enter_shape disconnected_enter_shape

text \<open>The consequences of handling an event in a state, by their shape.\<close>

fun shape_ok :: "tunnel_state \<Rightarrow> machine_action \<Rightarrow> bool" where
  "shape_ok st (ActRepeat st') = (kind_of st' = kind_of st)"
| "shape_ok st (ActNotify None r) = (st = StDisconnected \<and> r = PollEnd)"
| "shape_ok st (ActNotify (Some st') PollNotReady) = (st' = st)"
| "shape_ok st (ActNotify (Some st') (PollTransition tr)) =
     (kind_of st' \<in> set (may_follow (kind_of st)) \<and> tr = transition_of st')"
| "shape_ok st (ActNotify (Some st') PollEnd) = False"

lemma shape_ok_new:
  "(\<And>st' tr sh'. r = (st', tr, sh') \<Longrightarrow>
      kind_of st' \<in> set (may_follow (kind_of st)) \<and> tr = transition_of st') \<Longrightarrow>
     shape_ok st (action_from_consequence w (fst (new_state r)))"
  by (cases r) (simp add: new_state_def)

lemma shape_enter:
  "KBlocked \<in> set (may_follow (kind_of st)) \<Longrightarrow>
     shape_ok st (action_from_consequence w (fst (new_state (blocked_enter pf r sh))))"
  "KBlocked \<in> set (may_follow (kind_of st)) \<Longrightarrow> KConnecting \<in> set (may_follow (kind_of st)) \<Longrightarrow>
     shape_ok st (action_from_consequence w (fst (new_state (connecting_enter pf n sh))))"
  "KConnected \<in> set (may_follow (kind_of st)) \<Longrightarrow> KDisconnecting \<in> set (may_follow (kind_of st)) \<Longrightarrow>
     shape_ok st (action_from_consequence w (fst (new_state (connected_enter pf c sh))))"
  "KDisconnecting \<in> set (may_follow (kind_of st)) \<Longrightarrow>
     shape_ok st (action_from_consequence w (fst (new_state (disconnecting_enter pf t a sh))))"
  "KDisconnected \<in> set (may_follow (kind_of st)) \<Longrightarrow>
     shape_ok st (action_from_consequence w (fst (new_state (disconnected_enter pf sh))))"
  by (rule shape_ok_new, use enter_shape in fastforce)+

lemma handle_event_shape: "shape_ok st (fst (handle_event pf ps st sh))"
proof (cases st)
  case StDisconnected
  then show ?thesis
    by (simp add: disconnected_handle_event_def shape_enter split: tried.split tunnel_command.split)
next
  case (StConnecting c)
  then show ?thesis
    by (simp add: connecting_handle_event_eq connecting_handle_commands_def
        connecting_handle_tunnel_events_def connecting_handle_tunnel_close_event_def Let_def shape_enter
        split: tried.split tunnel_command.split tunnel_event.split future_poll.split option.split
          prod.split sum.split)
next
  case (StConnected c)
  then show ?thesis
    by (simp add: connected_handle_event_eq connected_handle_commands_def connected_disconnect_def
        connected_handle_tunnel_events_def connected_handle_tunnel_close_event_def Let_def shape_enter
        split: tried.split tunnel_command.split tunnel_event.split future_poll.split option.split
          prod.split sum.split)
next
  case (StDisconnecting d)
  then show ?thesis
    by (simp add: disconnecting_handle_event_eq disconnecting_handle_commands_def
        disconnecting_handle_exit_event_def disconnecting_after_disconnect_def Let_def shape_enter
        split: tried.split future_poll.split option.split prod.split after_disconnect.split)
next
  case (StBlocked r)
  then show ?thesis
    by (simp add: blocked_handle_event_def Let_def shape_enter split: tried.split tunnel_command.split)
qed

end
