(* ===== verification/Tunnel_State_Machine_Props.thy ===== *)
theory Tunnel_State_Machine_Props
  imports Tunnel_State_Machine_Proofs
begin

text \<open>
  The properties of the tunnel state machine over an arbitrary platform, and a reference platform
  with a scriptable firewall that instantiates the locales.
\<close>

section \<open>Lemmas\<close>

definition online_ok :: "tunnel_state \<Rightarrow> ('fw, 'dns, 'gen, 'tp) shared \<Rightarrow> bool" where
  "online_ok st sh \<longleftrightarrow> (kind_of st \<in> {KConnecting, KConnected} \<longrightarrow> \<not> sv_is_offline sh)"

definition keeps_online :: "machine_action \<times> ('fw, 'dns, 'gen, 'tp) shared \<Rightarrow> bool" where
  "keeps_online r \<longleftrightarrow> (\<forall>st. act_state (fst r) = Some st \<longrightarrow> online_ok st (snd r))"

lemma keeps_online_new:
  "(\<And>st tr sh'. r = (st, tr, sh') \<Longrightarrow> online_ok st sh') \<Longrightarrow>
     keeps_online (apfst (action_from_consequence w) (new_state r))"
  by (cases r) (simp add: keeps_online_def new_state_def)

lemma connected_enter_settings:
  "connected_enter pf c sh = (st, tr, sh') \<Longrightarrow> sv_is_offline sh' = sv_is_offline sh"
  by (auto simp: connected_enter_def connected_set_firewall_policy_def connected_set_dns_def
      apply_policy_def disconnecting_enter_def Let_def split: prod.splits sum.splits)

lemma enter_online:
  "keeps_online (apfst (action_from_consequence w) (new_state (blocked_enter pf r sh)))"
  "keeps_online (apfst (action_from_consequence w) (new_state (connecting_enter pf n sh)))"
  "keeps_online (apfst (action_from_consequence w) (new_state (disconnecting_enter pf t a sh)))"
  "\<not> sv_is_offline sh \<Longrightarrow> keeps_online (apfst (action_from_consequence w) (new_state (connected_enter pf c sh)))"
  "keeps_online (apfst (action_from_consequence w) (new_state (disconnected_enter pf sh)))"
proof -
  show "keeps_online (apfst (action_from_consequence w) (new_state (connecting_enter pf n sh)))"
    by (rule keeps_online_new, rule connecting_enter_cases [of pf n sh])
      (auto simp: online_ok_def same_settings_def dest: blocked_enter_shape)
  show "\<not> sv_is_offline sh \<Longrightarrow>
      keeps_online (apfst (action_from_consequence w) (new_state (connected_enter pf c sh)))"
    by (rule keeps_online_new) (auto simp: online_ok_def dest: connected_enter_settings)
qed (rule keeps_online_new, use enter_shape in \<open>fastforce simp: online_ok_def\<close>)+

lemma keeps_online_same:
  "online_ok st sh \<Longrightarrow> keeps_online (ActRepeat st, sh)"
  "online_ok st sh \<Longrightarrow> keeps_online (ActNotify (Some st) r, sh)" "keeps_online (ActNotify None r, sh)"
  by (simp_all add: keeps_online_def)

lemma set_policy_offline:
  "connecting_set_firewall_policy pf p sh = (r, sh') \<Longrightarrow> sv_is_offline sh' = sv_is_offline sh"
  "connected_set_firewall_policy pf c sh = (r, sh') \<Longrightarrow> sv_is_offline sh' = sv_is_offline sh"
  by (auto simp: connecting_set_firewall_policy_def connected_set_firewall_policy_def apply_policy_def
      split: prod.splits)

lemma handle_event_online: "online_ok st sh \<Longrightarrow> keeps_online (handle_event pf ps st sh)"
proof (cases st)
  case (StConnecting c)
  assume "online_ok st sh"
  with StConnecting show ?thesis
    by (auto simp: connecting_handle_event_eq connecting_handle_commands_def
        connecting_handle_tunnel_events_def connecting_handle_tunnel_close_event_def Let_def
        online_ok_def enter_online keeps_online_same
        split: tried.split tunnel_command.split tunnel_event.split future_poll.split option.split
          prod.split sum.split dest: set_policy_offline)
next
  case (StConnected c)
  assume "online_ok st sh"
  with StConnected show ?thesis
    by (auto simp: connected_handle_event_eq connected_handle_commands_def connected_disconnect_def
        connected_handle_tunnel_events_def connected_handle_tunnel_close_event_def Let_def
        online_ok_def enter_online keeps_online_same
        split: tried.split tunnel_command.split tunnel_event.split future_poll.split option.split
          prod.split sum.split dest: set_policy_offline)
qed (simp_all add: disconnected_handle_event_def blocked_handle_event_def disconnecting_handle_event_eq
      disconnecting_handle_commands_def disconnecting_handle_exit_event_def
      disconnecting_after_disconnect_def Let_def enter_online keeps_online_same online_ok_def
      split: tried.split tunnel_command.split future_poll.split option.split prod.split
        after_disconnect.split)

lemma handle_event_onlineD:
  "online_ok st sh \<Longrightarrow> handle_event pf ps st sh = (act, sh') \<Longrightarrow> act_state act = Some st' \<Longrightarrow>
     online_ok st' sh'"
  using handle_event_online [of st sh pf ps] by (simp add: keeps_online_def)

lemma reachable_online: "reachable pf (st, sh) \<Longrightarrow> online_ok st sh"
proof (induction "(st, sh)" arbitrary: st sh rule: reachable.induct)
  case (start lan bwd off g tp ld rd cd st sh)
  then show ?case
    by (auto simp: machine_new_def disconnected_enter_def Let_def online_ok_def split: sum.splits)
next
  case (step c st' sh')
  obtain st sh where "c = (st, sh)" by fastforce
  with step show ?case
    by (auto elim!: machine_stepE intro: handle_event_onlineD [OF _ _ act_state.simps(1)]
        handle_event_onlineD [OF _ _ act_state.simps(2)])
qed

text \<open>Polls with nothing ready.\<close>

definition idle :: polls where
  "idle = \<lparr>po_commands = StreamNotReady, po_tunnel_events = StreamNotReady, po_close_event = FutureNotReady\<rparr>"

lemma handle_event_idle: "handle_event pf idle st sh = (ActNotify (Some st) PollNotReady, sh)"
  by (cases st) (simp_all add: idle_def disconnected_handle_event_def connecting_handle_event_eq
      connecting_handle_tunnel_close_event_def connected_handle_event_eq
      connected_handle_tunnel_close_event_def disconnecting_handle_event_eq
      disconnecting_handle_exit_event_def blocked_handle_event_def)

section \<open>A reference platform\<close>

text \<open>
  The firewall holds the policy in force and a script of coming failures; DNS holds the servers
  set; the generator hands out one WireGuard relay; tunnels are numbered.
\<close>

type_synonym ref_fw = "firewall_policy option \<times> bool list"
type_synonym ref_dns = "(string \<times> ip_addr list) option"

fun ref_fw_op :: "firewall_policy option \<Rightarrow> ref_fw \<Rightarrow> (string + unit) \<times> ref_fw" where
  "ref_fw_op p (q, True # fs) = (Inl ''failed'', (q, fs))"
| "ref_fw_op p (q, False # fs) = (Inr (), (p, fs))"
| "ref_fw_op p (q, []) = (Inr (), (p, []))"

definition ref_enforces :: "ref_fw \<Rightarrow> firewall_policy \<Rightarrow> bool" where
  "ref_enforces f p \<longleftrightarrow> fst f = Some p"

definition ref_lifted :: "ref_fw \<Rightarrow> bool" where
  "ref_lifted f \<longleftrightarrow> fst f = None"

definition ref_platform :: "(ref_fw, ref_dns, nat, nat) platform" where
  "ref_platform = \<lparr>
     pf_fw_new = (\<lambda>_. Inr (None, [])),
     pf_fw_apply = (\<lambda>p. ref_fw_op (Some p)),
     pf_fw_reset = ref_fw_op None,
     pf_dns_new = (\<lambda>_. Inr None),
     pf_dns_set = (\<lambda>i ips _. (Inr (), Some (i, ips))),
     pf_dns_reset = (\<lambda>_. (Inr (), None)),
     pf_generate = (\<lambda>n g. (Some (ParamsWireguard ref_wg_params), g + 1)),
     pf_start = (\<lambda>p l r n. (Inr n, n + 1)),
     pf_close = (\<lambda>t n. n)\<rparr>"

interpretation ref_tsm: tsm_firewall ref_platform ref_enforces ref_lifted
proof unfold_locales
  fix p s u s' assume "pf_fw_apply ref_platform p s = (Inr u, s')"
  then show "ref_enforces s' p"
    by (cases "(Some p, s)" rule: ref_fw_op.cases) (auto simp: ref_platform_def ref_enforces_def)
next
  fix p s e s' assume "pf_fw_apply ref_platform p s = (Inl e, s')"
  then show "ref_enforces s' p \<or> (\<forall>q. ref_enforces s q \<longrightarrow> ref_enforces s' q)"
    by (cases "(Some p, s)" rule: ref_fw_op.cases) (auto simp: ref_platform_def ref_enforces_def)
next
  fix s u s' assume "pf_fw_reset ref_platform s = (Inr u, s')"
  then show "ref_lifted s'"
    by (cases "(None :: firewall_policy option, s)" rule: ref_fw_op.cases)
      (auto simp: ref_platform_def ref_lifted_def)
next
  fix s e s' assume "pf_fw_reset ref_platform s = (Inl e, s')"
  then show "ref_lifted s' \<or> (\<forall>q. ref_enforces s q \<longrightarrow> ref_enforces s' q)"
    by (cases "(None :: firewall_policy option, s)" rule: ref_fw_op.cases)
      (auto simp: ref_platform_def ref_enforces_def)
qed

definition ref_boot_shared :: "(ref_fw, ref_dns, nat, nat) shared" where
  "ref_boot_shared = \<lparr>sv_firewall = (None, []), sv_dns_monitor = None, sv_allow_lan = False,
     sv_block_when_disconnected = False, sv_is_offline = False, sv_generator = 0,
     sv_tun_provider = 0, sv_log_dir = None, sv_resource_dir = ''/r''\<rparr>"

definition cmd_poll :: "tunnel_command \<Rightarrow> polls" where
  "cmd_poll c = idle\<lparr>po_commands := StreamItem c\<rparr>"

definition event_poll :: "tunnel_event \<Rightarrow> polls" where
  "event_poll e = idle\<lparr>po_tunnel_events := StreamItem e\<rparr>"

definition exit_poll :: "block_reason option \<Rightarrow> polls" where
  "exit_poll r = idle\<lparr>po_close_event := FutureReady r\<rparr>"

definition ref_connecting :: connecting_state where
  "ref_connecting = \<lparr>cg_tunnel = 0, cg_tunnel_parameters = ParamsWireguard ref_wg_params,
     cg_retry_attempt = 0\<rparr>"

definition ref_connecting_shared :: "(ref_fw, ref_dns, nat, nat) shared" where
  "ref_connecting_shared = ref_boot_shared\<lparr>
     sv_firewall := (Some (connecting_policy (ParamsWireguard ref_wg_params) False), []),
     sv_generator := 1, sv_tun_provider := 1\<rparr>"

definition ref_metadata :: tunnel_metadata where
  "ref_metadata = wg_tunnel_metadata ''wg0'' ref_wg_config"

definition ref_connected :: connected_state where
  "ref_connected = into_connected_state_bootstrap ref_connecting ref_metadata"

definition ref_connected_shared :: "(ref_fw, ref_dns, nat, nat) shared" where
  "ref_connected_shared = ref_connecting_shared\<lparr>
     sv_firewall := (Some (connected_policy ref_connected False), []),
     sv_dns_monitor := Some (''wg0'', [V4 (ipv4_new 10 64 0 1)])\<rparr>"

lemmas ref_defs = ref_platform_def ref_boot_shared_def ref_connecting_def ref_connecting_shared_def
  ref_connected_def ref_connected_shared_def ref_metadata_def cmd_poll_def event_poll_def
  exit_poll_def idle_def

lemma ref_start:
  "machine_new ref_platform False False False 0 0 None ''/r'' ''/c'' =
     Inr \<lparr>tm_current_state = Some StDisconnected, tm_shared = ref_boot_shared\<rparr>"
  by (simp add: machine_new_def disconnected_enter_def disconnected_set_firewall_policy_def
      reset_policy_def ref_defs)

lemma ref_step_connecting:
  "handle_event ref_platform (cmd_poll CmdConnect) StDisconnected ref_boot_shared =
     (ActNotify (Some (StConnecting ref_connecting))
        (PollTransition (TrConnecting (get_tunnel_endpoint (ParamsWireguard ref_wg_params)))),
      ref_connecting_shared)"
  by (simp add: disconnected_handle_event_def new_state_def connecting_enter_def
      connecting_set_firewall_policy_def apply_policy_def start_tunnel_def ref_defs)

lemma ref_step_connected:
  "handle_event ref_platform (event_poll (EvUp ref_metadata)) (StConnecting ref_connecting) ref_connecting_shared =
     (ActNotify (Some (StConnected ref_connected))
        (PollTransition (TrConnected (get_tunnel_endpoint (ParamsWireguard ref_wg_params)))),
      ref_connected_shared)"
  by (simp add: connecting_handle_event_eq connecting_handle_tunnel_events_def new_state_def
      connected_enter_def connected_set_firewall_policy_def connected_set_dns_def apply_policy_def
      into_connected_state_bootstrap_def wg_tunnel_metadata_def ref_wg_config_def ref_defs)

lemma ref_reachable: "reachable ref_platform (StConnected ref_connected, ref_connected_shared)"
  by (rule reachable.step [OF reachable.step [OF reachable.start [OF ref_start]
        machine_step.notify [OF ref_step_connecting]] machine_step.notify [OF ref_step_connected]])

section \<open>Properties\<close>

text \<open>
  C5.  The kill switch.  In every reachable state, whatever operations of the firewall have failed on
  the way: while connecting or connected the firewall enforces exactly the policy of that state with
  the current LAN setting, while disconnecting some policy of ours, and in the blocked state a
  blocking policy, unless the block reason itself reports that the firewall could not be set.
\<close>

theorem tsm_kill_switch:
  assumes "firewall_interface (pf_fw_apply pf) (pf_fw_reset pf) enforces lifted"
    and "reachable pf (st, sh)"
  shows "secure enforces st sh"
  using tsm_firewall.reachable_secure [of pf enforces lifted] assms by (simp add: tsm_firewall_def)

theorem tsm_kill_switch_witness:
  "ref_enforces (sv_firewall ref_connected_shared) (connected_policy ref_connected False)"
  using tsm_kill_switch [OF _ ref_reachable, of ref_enforces ref_lifted] ref_tsm.fw.firewall_interface_axioms
  by (simp add: ref_defs)

text \<open>
  C15.  Protection is never dropped on the way.  If a policy of ours is in force before an event is
  handled, one is in force afterwards, again under arbitrary firewall failures; the only exception is
  a machine that is then in the disconnected state with \<open>block_when_disconnected\<close> off.
\<close>

theorem tsm_guard_kept:
  assumes "firewall_interface (pf_fw_apply pf) (pf_fw_reset pf) enforces lifted"
    and "enforces (sv_firewall sh) p" and "handle_event pf ps st sh = (act, sh')"
  shows "(\<exists>q. enforces (sv_firewall sh') q) \<or>
    act_state act = Some StDisconnected \<and> \<not> sv_block_when_disconnected sh'"
proof -
  have loc: "tsm_firewall pf enforces lifted" using assms(1) by (simp add: tsm_firewall_def)
  have "firewall_interface.guarded enforces (sv_firewall sh)"
    using assms(2) by (auto simp: firewall_interface.guarded_def [OF assms(1)])
  from tsm_firewall.handle_event_keeps_guard [OF loc this, of ps st] assms(3) show ?thesis
    by (simp add: tsm_firewall.keeps_guard_def [OF loc] firewall_interface.guarded_def [OF assms(1)])
qed

lemma ref_step_lan_fails:
  "handle_event ref_platform (cmd_poll (CmdAllowLan True)) (StConnected ref_connected)
     (ref_connected_shared\<lparr>sv_firewall := (Some (connected_policy ref_connected False), [True])\<rparr>) =
   (ActNotify (Some (StDisconnecting \<lparr>dg_tunnel = 0, dg_after_disconnect = AfterBlock SetFirewallPolicyError\<rparr>))
      (PollTransition (TrDisconnecting ActionBlock)),
    ref_connected_shared\<lparr>sv_allow_lan := True, sv_dns_monitor := None\<rparr>)"
  by (simp add: connected_handle_event_eq connected_handle_commands_def connected_disconnect_def
      connected_set_firewall_policy_def apply_policy_def
      disconnecting_enter_def new_state_def reset_dns_def into_connected_state_bootstrap_def ref_defs)

theorem tsm_guard_kept_witness:
  "\<exists>q. ref_enforces (sv_firewall (ref_connected_shared\<lparr>sv_allow_lan := True, sv_dns_monitor := None\<rparr>)) q"
  using tsm_guard_kept [OF ref_tsm.fw.firewall_interface_axioms _ ref_step_lan_fails,
      of "connected_policy ref_connected False"]
  by (simp add: ref_enforces_def)

text \<open>
  C18.  The machine refines the abstract state machine \<open>may_follow\<close>: a notified transition always leads to
  an allowed kind of state and describes exactly the state entered, ignoring an event never changes
  the kind of state, finding nothing ready changes nothing, and the machine finishes only in the
  disconnected state.
\<close>

theorem tsm_shape: "shape_ok st (fst (handle_event pf ps st sh))"
  by (rule handle_event_shape)

text \<open>
  A machine that knows the device to be offline is never connecting or connected.
\<close>

theorem tsm_offline:
  assumes "reachable pf (st, sh)" and "sv_is_offline sh"
  shows "kind_of st \<noteq> KConnecting \<and> kind_of st \<noteq> KConnected"
  using reachable_online [OF assms(1)] assms(2) by (auto simp: online_ok_def)

lemma ref_step_offline:
  "handle_event ref_platform (cmd_poll (CmdIsOffline True)) (StConnected ref_connected) ref_connected_shared =
     (ActNotify (Some (StDisconnecting \<lparr>dg_tunnel = 0, dg_after_disconnect = AfterBlock IsOffline\<rparr>))
        (PollTransition (TrDisconnecting ActionBlock)),
      ref_connected_shared\<lparr>sv_is_offline := True, sv_dns_monitor := None\<rparr>)"
  by (simp add: connected_handle_event_eq connected_handle_commands_def connected_disconnect_def
      disconnecting_enter_def new_state_def reset_dns_def into_connected_state_bootstrap_def ref_defs)

theorem tsm_offline_witness:
  "reachable ref_platform (StDisconnecting \<lparr>dg_tunnel = 0, dg_after_disconnect = AfterBlock IsOffline\<rparr>,
     ref_connected_shared\<lparr>sv_is_offline := True, sv_dns_monitor := None\<rparr>) \<and>
   kind_of (StDisconnecting \<lparr>dg_tunnel = 0, dg_after_disconnect = AfterBlock IsOffline\<rparr>) \<noteq> KConnected"
proof -
  note r = reachable.step [OF ref_reachable machine_step.notify [OF ref_step_offline]]
  with tsm_offline [OF r] show ?thesis by simp
qed

text \<open>
  C20.  Polling the machine always returns when it comes to an iteration in which nothing is ready: it
  cannot loop past that point.
\<close>

theorem machine_poll_returns:
  assumes "idle \<in> set pss"
  shows "fst (machine_poll pf pss m) \<noteq> None"
  using assms
proof (induction pss arbitrary: m)
  case (Cons ps pss)
  show ?case
  proof (cases "tm_current_state m")
    case (Some st)
    obtain act sh' where h: "handle_event pf ps st (tm_shared m) = (act, sh')" by fastforce
    show ?thesis
    proof (cases act)
      case (ActRepeat st')
      with h have "ps \<noteq> idle" by (auto simp: handle_event_idle)
      with Cons ActRepeat show ?thesis by (simp add: machine_poll.simps [of pf "ps # pss"] Some h)
    qed (simp add: machine_poll.simps [of pf "ps # pss"] Some h)
  qed (simp add: machine_poll.simps)
qed simp

theorem machine_poll_returns_witness:
  "fst (machine_poll ref_platform [cmd_poll CmdDisconnect, idle]
     \<lparr>tm_current_state = Some StDisconnected, tm_shared = ref_boot_shared\<rparr>) \<noteq> None"
  by (rule machine_poll_returns) simp

lemma new_state_dns:
  assumes "\<And>st tr sh'. r = (st, tr, sh') \<Longrightarrow> sv_dns_monitor sh' = d"
  shows "sv_dns_monitor (snd (new_state r :: 's event_consequence \<times> _)) = d"
  using assms by (cases r) (simp add: new_state_def)

lemma enter_dns:
  "sv_dns_monitor (snd (new_state (blocked_enter pf r sh))) = sv_dns_monitor sh"
  "sv_dns_monitor (snd (new_state (connecting_enter pf n sh))) = sv_dns_monitor sh"
  "sv_dns_monitor (snd (new_state (disconnecting_enter pf t a sh))) = sv_dns_monitor sh"
proof -
  show b: "sv_dns_monitor (snd (new_state (blocked_enter pf r sh))) = sv_dns_monitor sh" for r sh
    by (rule new_state_dns, rule blocked_enter_cases [of pf r sh]) (auto simp: same_settings_def)
  show "sv_dns_monitor (snd (new_state (connecting_enter pf n sh))) = sv_dns_monitor sh"
    by (rule connecting_enter_cases [of pf n sh]) (simp_all add: same_settings_def b, simp add: new_state_def)
  show "sv_dns_monitor (snd (new_state (disconnecting_enter pf t a sh))) = sv_dns_monitor sh"
    by (simp add: new_state_def disconnecting_enter_def)
qed

lemma set_policy_dns:
  "connected_set_firewall_policy pf c sh = (r, sh') \<Longrightarrow> sv_dns_monitor sh' = sv_dns_monitor sh"
  by (auto simp: connected_set_firewall_policy_def apply_policy_def split: prod.splits)

text \<open>
  When the machine leaves the connected state, the system DNS settings are reset, with one
  exception: if the tunnel closes by itself with a block reason, the blocked state is entered with
  the DNS monitor still set up for the dead tunnel.
\<close>

theorem tsm_dns_on_leaving_connected:
  assumes "handle_event pf ps (StConnected c) sh = (ActNotify (Some st') (PollTransition tr), sh')"
  shows "sv_dns_monitor sh' =
    (if po_commands ps = StreamNotReady \<and> po_tunnel_events ps = StreamNotReady \<and>
        (\<exists>r. po_close_event ps = FutureReady (Some r))
     then sv_dns_monitor sh else snd (pf_dns_reset pf (sv_dns_monitor sh)))"
proof -
  have reset: "sv_dns_monitor (reset_dns pf sh0) = snd (pf_dns_reset pf (sv_dns_monitor sh0))" for sh0
    by (simp add: reset_dns_def)
  have sh': "sh' = snd (connected_handle_event pf ps c sh)"
    using assms by (cases "connected_handle_event pf ps c sh") simp
  consider (cmd) "po_commands ps \<noteq> StreamNotReady"
    | (event) "po_commands ps = StreamNotReady" "po_tunnel_events ps \<noteq> StreamNotReady"
    | (close) "po_commands ps = StreamNotReady" "po_tunnel_events ps = StreamNotReady" by blast
  then show ?thesis
  proof cases
    case cmd
    with assms show ?thesis
      by (cases "po_commands ps")
        (auto simp: sh' connected_handle_event_eq connected_handle_commands_def connected_disconnect_def
          enter_dns reset Let_def split: tunnel_command.splits prod.splits sum.splits if_splits
          dest: set_policy_dns)
  next
    case event
    with assms show ?thesis
      by (cases "po_tunnel_events ps")
        (auto simp: sh' connected_handle_event_eq connected_handle_tunnel_events_def
          connected_disconnect_def enter_dns reset split: tunnel_event.splits)
  next
    case close
    with assms show ?thesis
      by (auto simp: sh' connected_handle_event_eq connected_handle_tunnel_close_event_def enter_dns reset
          split: future_poll.splits option.splits)
  qed
qed

theorem tsm_dns_on_leaving_connected_witness:
  "\<exists>st' tr sh'. handle_event ref_platform (exit_poll (Some TapAdapterProblem)) (StConnected ref_connected)
       ref_connected_shared = (ActNotify (Some st') (PollTransition tr), sh') \<and>
     sv_dns_monitor sh' = Some (''wg0'', [V4 (ipv4_new 10 64 0 1)])"
proof -
  have "\<exists>st' tr sh'. handle_event ref_platform (exit_poll (Some TapAdapterProblem)) (StConnected ref_connected)
       ref_connected_shared = (ActNotify (Some st') (PollTransition tr), sh')"
    by (simp add: connected_handle_event_eq connected_handle_tunnel_close_event_def new_state_def
        exit_poll_def idle_def split: prod.split)
  then obtain st' tr sh' where h: "handle_event ref_platform (exit_poll (Some TapAdapterProblem))
      (StConnected ref_connected) ref_connected_shared = (ActNotify (Some st') (PollTransition tr), sh')"
    by blast
  from tsm_dns_on_leaving_connected [OF h] h show ?thesis by (simp add: ref_defs)
qed

text \<open>
  While disconnecting, a closed command channel makes \<open>poll\<close> spin: it consumes the end of the
  stream over and over without ever looking at the exit event, so it never returns, however
  long it runs and whatever the tunnel does.
\<close>

theorem disconnecting_closed_channel_spins:
  assumes "tm_current_state m = Some (StDisconnecting d)"
    and "\<forall>ps \<in> set pss. po_commands ps = StreamEnd"
  shows "fst (machine_poll pf pss m) = None"
  using assms
proof (induction pss arbitrary: m d)
  case (Cons ps pss)
  from Cons.prems have "po_commands ps = StreamEnd" by simp
  then show ?case
    using Cons.IH Cons.prems
    by (auto simp: machine_poll.simps [of pf "ps # pss"] disconnecting_handle_event_eq
        disconnecting_handle_commands_def Let_def split: prod.split)
qed (simp add: machine_poll.simps)

theorem disconnecting_closed_channel_spins_witness:
  "fst (machine_poll ref_platform (replicate 1000 ((exit_poll None)\<lparr>po_commands := StreamEnd\<rparr>))
     \<lparr>tm_current_state = Some (StDisconnecting \<lparr>dg_tunnel = 0, dg_after_disconnect = AfterNothing\<rparr>),
      tm_shared = ref_connected_shared\<rparr>) = None"
  by (rule disconnecting_closed_channel_spins) (auto simp: set_replicate_conv_if)

text \<open>The commands that do not cancel a pending disconnect.\<close>

fun harmless :: "tunnel_command \<Rightarrow> bool" where
  "harmless CmdConnect = False"
| "harmless (CmdBlock _) = False"
| "harmless _ = True"

lemma disconnecting_nothing_stays:
  "harmless c \<Longrightarrow> fst (disconnecting_command AfterNothing (Some c) sh) = AfterNothing"
  by (cases c) simp_all

lemma disconnect_poll:
  assumes "list_all harmless cs" and "tm_current_state m = Some (StDisconnecting d)"
    and "dg_after_disconnect d = AfterNothing"
  shows "\<exists>m' st'. machine_poll pf (map cmd_poll cs @ [exit_poll reason]) m =
    (Some (PollTransition (transition_of st')), m') \<and> tm_current_state m' = Some st' \<and>
    (case reason of
       None \<Rightarrow> st' = StDisconnected
     | Some r \<Rightarrow> st' = StBlocked r \<or> st' = StBlocked SetFirewallPolicyError)"
  using assms
proof (induction cs arbitrary: m d)
  case Nil
  show ?case
  proof (cases reason)
    case None
    with Nil show ?thesis
      by (simp add: machine_poll.simps exit_poll_def idle_def disconnecting_handle_event_eq
          disconnecting_handle_exit_event_def disconnecting_after_disconnect_def disconnected_enter_def
          new_state_def)
  next
    case (Some r)
    show ?thesis
      by (rule blocked_enter_cases [of pf r "tm_shared m"])
        (use Nil Some in \<open>auto simp: machine_poll.simps exit_poll_def idle_def disconnecting_handle_event_eq
          disconnecting_handle_exit_event_def disconnecting_after_disconnect_def new_state_def\<close>)
  qed
next
  case (Cons c cs)
  obtain sh' where "disconnecting_command AfterNothing (Some c) (tm_shared m) = (AfterNothing, sh')"
    using disconnecting_nothing_stays [of c "tm_shared m"] Cons.prems by (metis list.pred_inject(2) prod.collapse)
  with Cons.prems have "machine_poll pf (cmd_poll c # pss) m = machine_poll pf pss
      \<lparr>tm_current_state = Some (StDisconnecting (d\<lparr>dg_after_disconnect := AfterNothing\<rparr>)), tm_shared = sh'\<rparr>" for pss
    by (simp add: machine_poll.simps [of pf "_ # _"] cmd_poll_def idle_def
        disconnecting_handle_event_eq disconnecting_handle_commands_def Let_def)
  with Cons show ?case by simp
qed

text \<open>
  C19.  The disconnect command is honoured: from the connecting and the connected state it starts the
  disconnect, and unless a connect or block command arrives in the meantime, the exit of the tunnel
  ends in the disconnected state, whatever other commands are handled before.  If the tunnel exits with
  a block reason, the machine ends blocked instead, for that reason, or for the failure of the
  firewall to block.
\<close>

theorem disconnect_completes:
  assumes "list_all harmless cs" and "tm_current_state m = Some st"
    and "kind_of st = KConnecting \<or> kind_of st = KConnected"
  shows "\<exists>m1 m2. machine_poll pf [cmd_poll CmdDisconnect] m =
      (Some (PollTransition (TrDisconnecting ActionNothing)), m1) \<and>
    (case reason of
       None \<Rightarrow>
         machine_poll pf (map cmd_poll cs @ [exit_poll reason]) m1 = (Some (PollTransition TrDisconnected), m2) \<and>
         tm_current_state m2 = Some StDisconnected
     | Some r \<Rightarrow>
         \<exists>r' \<in> {r, SetFirewallPolicyError}.
           machine_poll pf (map cmd_poll cs @ [exit_poll reason]) m1 = (Some (PollTransition (TrBlocked r')), m2) \<and>
           tm_current_state m2 = Some (StBlocked r'))"
proof -
  obtain d m1 where "machine_poll pf [cmd_poll CmdDisconnect] m =
      (Some (PollTransition (TrDisconnecting ActionNothing)), m1)"
    "tm_current_state m1 = Some (StDisconnecting d)" "dg_after_disconnect d = AfterNothing"
    using assms(2,3)
    by (cases st) (auto simp: machine_poll.simps cmd_poll_def idle_def connecting_handle_event_eq
        connecting_handle_commands_def connected_handle_event_eq connected_handle_commands_def
        connected_disconnect_def disconnecting_enter_def new_state_def)
  moreover from this(2,3) obtain m2 st' where
    "machine_poll pf (map cmd_poll cs @ [exit_poll reason]) m1 = (Some (PollTransition (transition_of st')), m2)"
    "tm_current_state m2 = Some st'"
    "case reason of None \<Rightarrow> st' = StDisconnected
     | Some r \<Rightarrow> st' = StBlocked r \<or> st' = StBlocked SetFirewallPolicyError"
    using disconnect_poll [OF assms(1)] by blast
  ultimately show ?thesis by (cases reason) auto
qed

theorem disconnect_completes_witness:
  "\<exists>m1 m2. machine_poll ref_platform [cmd_poll CmdDisconnect]
      \<lparr>tm_current_state = Some (StConnected ref_connected), tm_shared = ref_connected_shared\<rparr> =
      (Some (PollTransition (TrDisconnecting ActionNothing)), m1) \<and>
    machine_poll ref_platform (map cmd_poll [CmdAllowLan True, CmdIsOffline True] @ [exit_poll None]) m1 =
      (Some (PollTransition TrDisconnected), m2) \<and> tm_current_state m2 = Some StDisconnected"
  using disconnect_completes [where st = "StConnected ref_connected" and reason = None and pf = ref_platform
      and cs = "[CmdAllowLan True, CmdIsOffline True]"
      and m = "\<lparr>tm_current_state = Some (StConnected ref_connected), tm_shared = ref_connected_shared\<rparr>"]
  by simp

text \<open>
  A tunnel that closes while connecting (without a block reason) is retried: if the machine is
  then connecting again, it is with the attempt counter one higher (modulo 2^32) and with the parameters the
  generator gave for that attempt.
\<close>

theorem connecting_retries:
  assumes "po_commands ps = StreamNotReady" and "po_tunnel_events ps = StreamNotReady"
    and "po_close_event ps = FutureReady None \<or> po_close_event ps = FutureErr"
    and "handle_event pf ps (StConnecting c) sh = (act, sh')" and "act_state act = Some (StConnecting c')"
  shows "cg_retry_attempt c' = cg_retry_attempt c + 1 \<and>
    fst (pf_generate pf (cg_retry_attempt c + 1) (sv_generator sh)) = Some (cg_tunnel_parameters c')"
proof -
  let ?e = "connecting_enter pf (cg_retry_attempt c + 1) sh"
  have "(act, sh') = apfst (action_from_consequence StConnecting) (new_state ?e)"
    using assms(1-4) by (auto simp: connecting_handle_event_eq connecting_handle_tunnel_close_event_def)
  with assms(5) obtain tr where e: "?e = (StConnecting c', tr, sh')"
    by (cases ?e) (auto simp: new_state_def)
  show ?thesis
    by (rule connecting_enter_cases [of pf "cg_retry_attempt c + 1" sh])
      (use e in \<open>auto dest: blocked_enter_shape [OF sym]\<close>)
qed

theorem connecting_retries_witness:
  "cg_retry_attempt (ref_connecting\<lparr>cg_tunnel := 1, cg_retry_attempt := 1\<rparr>) = cg_retry_attempt ref_connecting + 1"
proof -
  let ?c = "ref_connecting\<lparr>cg_tunnel := 1, cg_retry_attempt := 1\<rparr>"
  have "handle_event ref_platform (exit_poll None) (StConnecting ref_connecting) ref_connecting_shared =
      (ActNotify (Some (StConnecting ?c))
         (PollTransition (TrConnecting (get_tunnel_endpoint (ParamsWireguard ref_wg_params)))),
       ref_connecting_shared\<lparr>sv_generator := 2, sv_tun_provider := 2\<rparr>)"
    by (simp add: connecting_handle_event_eq connecting_handle_tunnel_close_event_def new_state_def
        connecting_enter_def connecting_set_firewall_policy_def apply_policy_def start_tunnel_def ref_defs)
  from connecting_retries [OF _ _ _ this] show ?thesis by (simp add: exit_poll_def idle_def)
qed

end
