(* ===== verification/Leak_Freedom.thy ===== *)
theory Leak_Freedom
  imports Firewall_Linux_Kernel Tunnel_State_Machine_Props
begin

text \<open>
  The tunnel state machine on top of the Linux firewall.  \<open>linux_platform\<close> is the platform whose firewall
  is \<open>linux_apply_policy\<close> and \<open>linux_reset_policy\<close>; it satisfies the interface of the state machine, so that
  the kill switch invariants become statements about the packets the kernel lets out.
\<close>

section \<open>The platform\<close>

fun linux_fw_error_fmt :: "linux_fw_error \<Rightarrow> string" where
  "linux_fw_error_fmt NetlinkOpenError = ''Unable to open netlink socket to netfilter''"
| "linux_fw_error_fmt NetlinkSendError = ''Unable to send netlink command to netfilter''"
| "linux_fw_error_fmt NetlinkRecvError = ''Error while reading from netlink socket''"
| "linux_fw_error_fmt ProcessNetlinkError = ''Error while processing an incoming netlink message''"
| "linux_fw_error_fmt NetfilterTableNotSetError = ''Failed to set firewall rules''"
| "linux_fw_error_fmt (LookupIfaceIndexError i) =
     ''Unable to translate network interface name \"'' @ i @ ''\" into index''"

text \<open>\<open>Firewall::new\<close> of Linux does nothing but remember the table name: the kernel \<open>k0\<close> is used as it is.\<close>

definition linux_platform :: "linux_sys \<Rightarrow> 'k netlink \<Rightarrow> 'k \<Rightarrow> (unit, 'dns, 'gen, 'tp) platform
    \<Rightarrow> ('k, 'dns, 'gen, 'tp) platform" where
  "linux_platform sys nl k0 rest = \<lparr>
     pf_fw_new = (\<lambda>_. Inr k0),
     pf_fw_apply = (\<lambda>p k. apfst (map_sum linux_fw_error_fmt id) (linux_apply_policy sys nl p k)),
     pf_fw_reset = (\<lambda>k. apfst (map_sum linux_fw_error_fmt id) (linux_reset_policy nl k)),
     pf_dns_new = pf_dns_new rest, pf_dns_set = pf_dns_set rest, pf_dns_reset = pf_dns_reset rest,
     pf_generate = pf_generate rest, pf_start = pf_start rest, pf_close = pf_close rest\<rparr>"

lemma map_sum_results:
  "apfst (map_sum f id) r = (Inr u, s) \<longleftrightarrow> r = (Inr u, s)"
  "apfst (map_sum f id) r = (Inl e, s) \<longleftrightarrow> (\<exists>e'. r = (Inl e', s) \<and> e = f e')"
  by (cases r; cases "fst r"; auto)+

sublocale linux_firewall \<subseteq> machine: tsm_firewall "linux_platform sys nl k0 rest"
    "linux_enforces sys filter_packet ruleset" "linux_lifted ruleset" for k0 rest
  by unfold_locales (auto simp: linux_platform_def map_sum_results
      dest: fw.apply_ok fw.apply_err fw.reset_ok fw.reset_err)

context linux_firewall
begin

lemma machine_secure:
  "reachable (linux_platform sys nl k0 rest) (st, sh) \<Longrightarrow>
     secure (linux_enforces sys filter_packet ruleset) st sh"
  by (rule machine.reachable_secure)

end

section \<open>A kernel without faults\<close>

text \<open>A reference kernel that accepts every batch, on a host where every interface name resolves.\<close>

definition quiet_netlink :: "(nft_table option \<times> nl_reply list) netlink" where
  "quiet_netlink = \<lparr>
     nl_open = (\<lambda>k. (True, k)),
     nl_send_batch = (\<lambda>b k. (True, (commit b (fst k), []))),
     nl_send_get_tables = (\<lambda>k. (True, (fst k,
       [CbOk (case fst k of None \<Rightarrow> [] | Some _ \<Rightarrow> [TABLE_NAME])]))),
     nl_replies = (\<lambda>k. (snd k, (fst k, [])))\<rparr>"

definition quiet_sys :: linux_sys where
  "quiet_sys = \<lparr>ls_iface_index = (\<lambda>n. Some (if n = ''lo'' then 1 else 7)), ls_add_counters = False\<rparr>"

interpretation quiet_kernel: netlink_kernel quiet_netlink fst
  by unfold_locales (auto simp: quiet_netlink_def)

interpretation quiet_firewall: linux_firewall nft_run nft_chain_eval nft_filter quiet_netlink fst quiet_sys
  by unfold_locales

lemma quiet_apply:
  "\<exists>k'. linux_apply_policy quiet_sys quiet_netlink p k = (Inr (), k')"
proof -
  have "is_ok (policy_batch_finalize quiet_sys (policy_batch_new TABLE_NAME) p)"
    unfolding finalize_ok_iff by (cases p) (auto simp: quiet_sys_def)
  then obtain msgs where fin: "policy_batch_finalize quiet_sys (policy_batch_new TABLE_NAME) p = Inr msgs"
    by (auto simp: is_ok_iff)
  obtain t where "commit msgs (fst k) = Some t"
    using commit_is_table [OF fin, of "fst k"] by blast
  then show ?thesis
    by (simp add: linux_apply_policy_def fin send_and_process_def verify_tables_def quiet_netlink_def)
qed

lemma quiet_reset: "\<exists>k'. linux_reset_policy quiet_netlink k = (Inr (), k')"
  by (simp add: linux_reset_policy_def send_and_process_def quiet_netlink_def)

definition ref_rest :: "(unit, ref_dns, nat, nat) platform" where
  "ref_rest = \<lparr>
     pf_fw_new = (\<lambda>_. Inr ()), pf_fw_apply = (\<lambda>p k. (Inr (), ())), pf_fw_reset = (\<lambda>k. (Inr (), ())),
     pf_dns_new = (\<lambda>_. Inr None),
     pf_dns_set = (\<lambda>i ips _. (Inr (), Some (i, ips))),
     pf_dns_reset = (\<lambda>_. (Inr (), None)),
     pf_generate = (\<lambda>n g. (Some (ParamsWireguard ref_wg_params), g + 1)),
     pf_start = (\<lambda>p l r n. (Inr n, n + 1)),
     pf_close = (\<lambda>t n. n)\<rparr>"

definition quiet_platform :: "(nft_table option \<times> nl_reply list, ref_dns, nat, nat) platform" where
  "quiet_platform = linux_platform quiet_sys quiet_netlink (None, []) ref_rest"

interpretation quiet_tsm: reliable_tsm quiet_platform
    "linux_enforces quiet_sys nft_filter fst" "linux_lifted fst"
proof (rule reliable_tsm.intro)
  show "tsm_firewall quiet_platform (linux_enforces quiet_sys nft_filter fst) (linux_lifted fst)"
    unfolding quiet_platform_def by (rule quiet_firewall.machine.tsm_firewall_axioms)
  show "reliable_tsm_axioms quiet_platform"
  proof
    show "is_ok (fst (pf_fw_apply quiet_platform p f))" for p f
      using quiet_apply [of p f] by (auto simp: quiet_platform_def linux_platform_def)
    show "is_ok (fst (pf_fw_reset quiet_platform f))" for f
      using quiet_reset [of f] by (auto simp: quiet_platform_def linux_platform_def)
  qed
qed

section \<open>Properties\<close>

text \<open>
  C6.  With a firewall whose operations succeed, the policy in force is in every reachable state exactly
  the intended one: the policy of the connecting, connected or blocked state with the current LAN
  setting; in the disconnected state the blocking policy if \<open>block_when_disconnected\<close> is on, and no
  policy at all if it is off.
\<close>

theorem tsm_exact_policy:
  assumes "firewall_interface (pf_fw_apply pf) (pf_fw_reset pf) enforces lifted"
    and "\<And>p f. is_ok (fst (pf_fw_apply pf p f))" and "\<And>f. is_ok (fst (pf_fw_reset pf f))"
    and "reachable pf (st, sh)"
  shows "exact enforces lifted st sh"
proof -
  have "reliable_tsm pf enforces lifted"
    using assms(1-3) by (simp add: reliable_tsm_def tsm_firewall_def reliable_tsm_axioms_def)
  then show ?thesis using assms(4) by (rule reliable_tsm.reachable_exact)
qed

definition quiet_shared :: "(nft_table option \<times> nl_reply list, ref_dns, nat, nat) shared" where
  "quiet_shared = \<lparr>sv_firewall = (None, []), sv_dns_monitor = None, sv_allow_lan = False,
     sv_block_when_disconnected = False, sv_is_offline = False, sv_generator = 0,
     sv_tun_provider = 0, sv_log_dir = None, sv_resource_dir = ''/r''\<rparr>"

lemma quiet_start:
  "machine_new quiet_platform False False False 0 0 None ''/r'' ''/c'' =
     Inr \<lparr>tm_current_state = Some StDisconnected, tm_shared = quiet_shared\<rparr>"
  by (simp add: machine_new_def disconnected_enter_def disconnected_set_firewall_policy_def
      reset_policy_def quiet_platform_def linux_platform_def ref_rest_def quiet_shared_def
      linux_reset_policy_def send_and_process_def quiet_netlink_def)

theorem tsm_exact_policy_witness:
  "linux_lifted fst (sv_firewall quiet_shared)"
  using tsm_exact_policy [OF quiet_tsm.fw.firewall_interface_axioms quiet_tsm.apply_reliable
      quiet_tsm.reset_reliable reachable.start [OF quiet_start]]
  by (simp add: quiet_shared_def)

text \<open>The peer the connecting policy and the connected policy allow is the same.\<close>

lemma connecting_policy_eq:
  "connecting_policy params lan =
     PolicyConnecting (get_endpoint_from_params params) (gateway_list_from_params params) lan"
  by (cases params) (auto simp: connecting_policy_def split: option.split)

text \<open>
  Which packets may leave the host in a state of the machine besides loopback traffic: DHCP and NDP
  always; to a peer the relay or proxy endpoint; ICMP to the gateways while connecting; through the
  tunnel when connected, where DNS goes to a gateway of the tunnel only; the LAN if allowed.
\<close>

fun may_leave :: "linux_sys \<Rightarrow> tunnel_state \<Rightarrow> bool \<Rightarrow> packet \<Rightarrow> bool" where
  "may_leave sys (StConnecting c) lan p \<longleftrightarrow>
     spec_always_out p \<or> to_endpoint p (get_endpoint_from_params (cg_tunnel_parameters c)) \<or>
     (\<exists>h \<in> set (gateway_list_from_params (cg_tunnel_parameters c)). dst_is p h \<and> icmp_for h (pk_l4 p)) \<or>
     lan \<and> spec_lan_out p"
| "may_leave sys (StConnected c) lan p \<longleftrightarrow>
     spec_always_out p \<or> to_endpoint p (get_endpoint_from_params (cd_tunnel_parameters c)) \<or>
     (let in_tunnel = (ls_iface_index sys (tm_interface (cd_metadata c)) = Some (pk_iface p)) in
      if is_dns p then in_tunnel \<and> to_tunnel_gateway p (cd_metadata c)
      else in_tunnel \<or> lan \<and> spec_lan_out p)"
| "may_leave sys (StBlocked r) lan p \<longleftrightarrow> spec_always_out p \<or> spec_lan_out p"
| "may_leave sys StDisconnected lan p \<longleftrightarrow> True"
| "may_leave sys (StDisconnecting d) lan p \<longleftrightarrow> True"

lemma enforces_out:
  assumes "linux_enforces sys filter_packet ruleset k pol"
    and "filter_packet (ruleset k) p = Accept" and "pk_dir p = DirOut"
  obtains lo tun where "ls_iface_index sys ''lo'' = Some lo" "tunnel_index_is sys tun pol"
    "spec_out lo tun pol p"
proof -
  from assms(1) obtain lo tun where "ls_iface_index sys ''lo'' = Some lo" "tunnel_index_is sys tun pol"
    "filter_packet (ruleset k) p = 
      (if policy_allows lo tun pol p \<and> \<not> peer_starts lo tun pol p then Accept else Drop)"
    by (auto simp: linux_enforces_def)
  with assms(2,3) that show thesis by (auto simp: policy_allows_def split: if_splits)
qed

text \<open>
  C3.  End to end leak freedom.  Run the state machine on the Linux firewall, with any kernel that commits
  batches atomically, however many firewall operations fail.  In every reachable connecting or
  connected state, and in every blocked state whose reason is not a firewall failure, a packet the
  kernel lets out on an interface other than loopback is one of those listed by \<open>may_leave\<close>.
\<close>

theorem linux_machine_no_leak:
  assumes "netfilter run_rule run_chain filter_packet" and "netlink_kernel nl ruleset"
    and reach: "reachable (linux_platform sys nl k0 rest) (st, sh)"
    and st: "st \<noteq> StBlocked SetFirewallPolicyError"
    and p: "pk_dir p = DirOut" "filter_packet (ruleset (sv_firewall sh)) p = Accept"
      "ls_iface_index sys ''lo'' \<noteq> Some (pk_iface p)"
  shows "may_leave sys st (sv_allow_lan sh) p"
proof -
  have fw: "linux_firewall run_rule run_chain filter_packet nl ruleset"
    using assms(1,2) by (simp add: linux_firewall_def)
  from linux_firewall.machine_secure [OF fw reach] show ?thesis
    using st p by (cases st) (auto elim!: enforces_out simp: connecting_policy_eq connected_policy_def)
qed

definition ref_dhcp :: packet where
  "ref_dhcp = \<lparr>pk_dir = DirOut, pk_iface = 3, pk_l3 = L3V4 0 ipv4_broadcast, pk_l4 = L4Udp 68 67, pk_ct = 0\<rparr>"

lemma quiet_blocked:
  "\<exists>sh'. reachable quiet_platform (StBlocked IsOffline, sh') \<and>
     linux_enforces quiet_sys nft_filter fst (sv_firewall sh') (PolicyBlocked False)"
proof -
  obtain k' where k': "linux_apply_policy quiet_sys quiet_netlink (PolicyBlocked False) (None, []) = (Inr (), k')"
    using quiet_apply by blast
  have "handle_event quiet_platform (cmd_poll (CmdBlock IsOffline)) StDisconnected quiet_shared =
      (ActNotify (Some (StBlocked IsOffline)) (PollTransition (TrBlocked IsOffline)),
       quiet_shared\<lparr>sv_firewall := k'\<rparr>)"
    by (simp add: disconnected_handle_event_def cmd_poll_def idle_def blocked_enter_def
        blocked_set_firewall_policy_def apply_policy_def new_state_def quiet_platform_def
        linux_platform_def quiet_shared_def k')
  from reachable.step [OF reachable.start [OF quiet_start] machine_step.notify [OF this]]
  have r: "reachable quiet_platform (StBlocked IsOffline, quiet_shared\<lparr>sv_firewall := k'\<rparr>)" .
  with quiet_firewall.fw.apply_ok [OF k'] show ?thesis by (auto intro!: exI)
qed

theorem linux_machine_no_leak_witness:
  "\<exists>sh'. reachable quiet_platform (StBlocked IsOffline, sh') \<and>
     nft_filter (fst (sv_firewall sh')) ref_dhcp = Accept \<and>
     may_leave quiet_sys (StBlocked IsOffline) (sv_allow_lan sh') ref_dhcp"
proof -
  obtain sh' where r: "reachable quiet_platform (StBlocked IsOffline, sh')"
    and e: "linux_enforces quiet_sys nft_filter fst (sv_firewall sh') (PolicyBlocked False)"
    using quiet_blocked by blast
  have "policy_allows 1 tun (PolicyBlocked False) ref_dhcp \<and>
      \<not> peer_starts 1 tun (PolicyBlocked False) ref_dhcp" for tun
    by (simp add: policy_allows_def peer_starts_def ref_dhcp_def spec_always_out_def spec_defs
        DHCPV4_CLIENT_PORT_def DHCPV4_SERVER_PORT_def)
  with e have a: "nft_filter (fst (sv_firewall sh')) ref_dhcp = Accept"
    by (auto simp: linux_enforces_def quiet_sys_def)
  with linux_machine_no_leak [OF nft.netfilter_axioms quiet_kernel.netlink_kernel_axioms
      r [unfolded quiet_platform_def], of ref_dhcp] r
  show ?thesis by (auto simp: ref_dhcp_def quiet_sys_def)
qed

end
