(* ===== verification/Daemon_Machine.thy ===== *)
theory Daemon_Machine
  imports Daemon_Proofs Leak_Freedom
begin

text \<open>
  The daemon and the tunnel state machine together.  The machine receives the commands of the daemon
  interleaved with the ones of the offline monitor and with the events of its tunnels;
  \<open>machine_handles\<close> is a run of the machine with the commands it has taken from its channel so far.
\<close>

section \<open>Runs with their commands\<close>

fun polled :: "tunnel_command stream_poll \<Rightarrow> tunnel_command list" where
  "polled (StreamItem c) = [c]"
| "polled _ = []"

inductive machine_handles :: "('fw, 'dns, 'gen, 'tp) platform \<Rightarrow> (polls \<Rightarrow> bool)
    \<Rightarrow> tunnel_state \<times> ('fw, 'dns, 'gen, 'tp) shared \<Rightarrow> tunnel_command list
    \<Rightarrow> tunnel_state \<times> ('fw, 'dns, 'gen, 'tp) shared \<Rightarrow> bool" for pf ok c0 where
  handled_nothing: "machine_handles pf ok c0 [] c0"
| handled_event: "machine_handles pf ok c0 cs (st, sh) \<Longrightarrow> ok ps \<Longrightarrow>
    handle_event pf ps st sh = (act, sh') \<Longrightarrow> act_state act = Some st' \<Longrightarrow>
    machine_handles pf ok c0 (cs @ polled (po_commands ps)) (st', sh')"

lemma machine_handles_reachable:
  "machine_handles pf ok c0 cs c \<Longrightarrow> reachable pf c0 \<Longrightarrow> reachable pf c"
proof (induction rule: machine_handles.induct)
  case (handled_event cs st sh ps act sh' st')
  have "machine_step pf (st, sh) (st', sh')"
  proof (cases act)
    case (ActRepeat st1)
    with handled_event.hyps show ?thesis by (auto intro: machine_step.repeat)
  next
    case (ActNotify st1 r)
    with handled_event.hyps show ?thesis by (auto intro: machine_step.notify)
  qed
  with handled_event show ?case by (blast intro: reachable.step)
qed

section \<open>The settings of the machine\<close>

definition machine_settings :: "('fw, 'dns, 'gen, 'tp) shared \<Rightarrow> bool \<times> bool" where
  "machine_settings sh = (sv_allow_lan sh, sv_block_when_disconnected sh)"

lemma machine_settings_frame [simp]:
  "machine_settings (sh\<lparr>sv_firewall := f\<rparr>) = machine_settings sh"
  "machine_settings (sh\<lparr>sv_dns_monitor := m\<rparr>) = machine_settings sh"
  "machine_settings (sh\<lparr>sv_is_offline := b\<rparr>) = machine_settings sh"
  "machine_settings (sh\<lparr>sv_generator := g\<rparr>) = machine_settings sh"
  "machine_settings (sh\<lparr>sv_tun_provider := tp\<rparr>) = machine_settings sh"
  "machine_settings (sh\<lparr>sv_allow_lan := b\<rparr>) = (b, snd (machine_settings sh))"
  "machine_settings (sh\<lparr>sv_block_when_disconnected := b\<rparr>) = (fst (machine_settings sh), b)"
  by (simp_all add: machine_settings_def)

lemma set_policy_settings [simp]:
  "machine_settings (snd (apply_policy pf p sh)) = machine_settings sh"
  "machine_settings (snd (reset_policy pf sh)) = machine_settings sh"
  "machine_settings (reset_dns pf sh) = machine_settings sh"
  "machine_settings (disconnected_set_firewall_policy pf sh) = machine_settings sh"
  "machine_settings (snd (blocked_set_firewall_policy pf sh)) = machine_settings sh"
  "machine_settings (snd (connecting_set_firewall_policy pf params sh)) = machine_settings sh"
  "machine_settings (snd (connected_set_firewall_policy pf c sh)) = machine_settings sh"
  by (auto simp: apply_policy_def reset_policy_def reset_dns_def
      disconnected_set_firewall_policy_def blocked_set_firewall_policy_def
      connecting_set_firewall_policy_def connected_set_firewall_policy_def
      split: prod.split sum.split)

lemma set_policy_settings_eq:
  "connecting_set_firewall_policy pf params sh = (r, sh') \<Longrightarrow> machine_settings sh' = machine_settings sh"
  "connected_set_firewall_policy pf c sh = (r, sh') \<Longrightarrow> machine_settings sh' = machine_settings sh"
  using set_policy_settings(6) [of pf params sh] set_policy_settings(7) [of pf c sh] by simp_all

lemma same_settings_machine: "same_settings sh sh' \<Longrightarrow> machine_settings sh' = machine_settings sh"
  by (simp add: same_settings_def machine_settings_def)

lemma blocked_enter_settings [simp]:
  "machine_settings (snd (snd (blocked_enter pf r sh))) = machine_settings sh"
  by (rule blocked_enter_cases [of pf r sh]) (simp add: same_settings_machine)

lemma enter_settings [simp]:
  "machine_settings (snd (snd (connecting_enter pf n sh))) = machine_settings sh"
  "machine_settings (snd (snd (disconnecting_enter pf t a sh))) = machine_settings sh"
  "machine_settings (snd (snd (disconnected_enter pf sh))) = machine_settings sh"
  "machine_settings (snd (snd (connected_enter pf c sh))) = machine_settings sh"
proof -
  show "machine_settings (snd (snd (connecting_enter pf n sh))) = machine_settings sh"
    by (rule connecting_enter_cases [of pf n sh]) (auto simp: same_settings_machine)
  show d: "machine_settings (snd (snd (disconnecting_enter pf t a sh))) = machine_settings sh" for t a sh
    by (simp add: disconnecting_enter_def)
  show "machine_settings (snd (snd (disconnected_enter pf sh))) = machine_settings sh"
    by (simp add: disconnected_enter_def)
  show "machine_settings (snd (snd (connected_enter pf c sh))) = machine_settings sh"
    by (auto simp: connected_enter_def connected_set_dns_def Let_def d
        dest: set_policy_settings_eq split: prod.split sum.split)
qed

lemma new_state_shared [simp]: "snd (new_state r) = snd (snd r)"
  by (simp add: new_state_def split: prod.split)

lemma disconnecting_command_settings:
  "disconnecting_command a e sh = (a', sh') \<Longrightarrow>
     machine_settings sh' = fold obey (case e of None \<Rightarrow> [] | Some c \<Rightarrow> [c]) (machine_settings sh)"
  by (cases "(a, e, sh)" rule: disconnecting_command.cases)
    (auto simp: machine_settings_def)

text \<open>Handling an event obeys the command that was polled with it, in every state.\<close>

lemma handle_event_settings:
  assumes "handle_event pf ps st sh = (act, sh')"
  shows "machine_settings sh' = sent_settings (machine_settings sh) (polled (po_commands ps))"
proof -
  have obey: "obey c (machine_settings sh) =
      (case c of CmdAllowLan b \<Rightarrow> (b, snd (machine_settings sh))
       | CmdBlockWhenDisconnected b \<Rightarrow> (fst (machine_settings sh), b)
       | _ \<Rightarrow> machine_settings sh)" for c
    by (cases c; cases "machine_settings sh") simp_all
  have same: "machine_settings sh = (sv_allow_lan sh, snd (machine_settings sh))"
    "machine_settings sh = (fst (machine_settings sh), sv_block_when_disconnected sh)"
    by (simp_all add: machine_settings_def)
  have "machine_settings (snd (handle_event pf ps st sh)) =
      sent_settings (machine_settings sh) (polled (po_commands ps))"
  proof (cases st)
    case (StConnecting c)
    then show ?thesis
      by (cases "po_commands ps")
        (auto simp: connecting_handle_event_eq connecting_handle_commands_def sent_settings_def obey
          connecting_handle_tunnel_events_def connecting_handle_tunnel_close_event_def Let_def
          split: tried.split tunnel_command.split tunnel_event.split future_poll.split option.split
            prod.split sum.split dest: set_policy_settings_eq)
  next
    case (StConnected c)
    then show ?thesis
      by (cases "po_commands ps")
        (auto simp: connected_handle_event_eq connected_handle_commands_def connected_disconnect_def
          connected_handle_tunnel_events_def connected_handle_tunnel_close_event_def Let_def
          sent_settings_def obey
          split: tried.split tunnel_command.split tunnel_event.split future_poll.split option.split
            prod.split sum.split dest: set_policy_settings_eq)
  next
    case (StDisconnecting d)
    then show ?thesis
      by (cases "po_commands ps")
        (auto simp: disconnecting_handle_event_eq disconnecting_handle_commands_def
          disconnecting_handle_exit_event_def disconnecting_after_disconnect_def Let_def sent_settings_def
          split: future_poll.split option.split prod.split after_disconnect.split
          dest: disconnecting_command_settings)
  qed (use same in \<open>cases "po_commands ps"; auto simp: disconnected_handle_event_def
        blocked_handle_event_def Let_def sent_settings_def obey
        split: tunnel_command.split\<close>)+
  with assms show ?thesis by simp
qed

lemma machine_handles_settings:
  "machine_handles pf ok c0 cs c \<Longrightarrow>
     machine_settings (snd c) = sent_settings (machine_settings (snd c0)) cs"
  by (induction rule: machine_handles.induct)
    (auto simp: sent_settings_def dest: handle_event_settings)

section \<open>The target of the machine\<close>

text \<open>
  What the machine polls in operation: its command channel is open, nobody sends \<open>Block\<close>, and a tunnel
  does not close for the reason that the host is offline.
\<close>

definition usual_polls :: "polls \<Rightarrow> bool" where
  "usual_polls ps \<longleftrightarrow>
     (case po_commands ps of StreamItem (CmdBlock _) \<Rightarrow> False | StreamEnd \<Rightarrow> False | StreamErr \<Rightarrow> False
      | _ \<Rightarrow> True) \<and>
     po_close_event ps \<noteq> FutureReady (Some IsOffline)"

text \<open>
  A machine last asked to connect is not disconnected, nor on its way there; one that was last asked
  to disconnect is disconnected, on its way there, or blocked for good.
\<close>

fun aims_at :: "bool \<Rightarrow> tunnel_state \<Rightarrow> bool" where
  "aims_at b StDisconnected = (\<not> b)"
| "aims_at b (StDisconnecting d) = (b = (dg_after_disconnect d \<noteq> AfterNothing))"
| "aims_at b (StBlocked r) = (b \<or> r \<noteq> IsOffline)"
| "aims_at b (StConnecting _) = b"
| "aims_at b (StConnected _) = b"

definition keeps_aim :: "bool \<Rightarrow> machine_action \<times> ('fw, 'dns, 'gen, 'tp) shared \<Rightarrow> bool" where
  "keeps_aim b r \<longleftrightarrow> (\<forall>st. act_state (fst r) = Some st \<longrightarrow> aims_at b st)"

lemma keeps_aim_new [simp]:
  "keeps_aim b (apfst (action_from_consequence w) (new_state r)) = aims_at b (fst r)"
  by (cases r) (simp add: keeps_aim_def new_state_def)

lemma keeps_aim_same [simp]:
  "keeps_aim b (ActRepeat st, sh) = aims_at b st"
  "keeps_aim b (ActNotify (Some st) r, sh) = aims_at b st" "keeps_aim b (ActNotify None r, sh)"
  by (simp_all add: keeps_aim_def)

lemma blocked_enter_aim [simp]: "b \<or> r \<noteq> IsOffline \<Longrightarrow> aims_at b (fst (blocked_enter pf r sh))"
  by (rule blocked_enter_cases [of pf r sh]) auto

lemma enter_aim [simp]:
  "aims_at True (fst (connecting_enter pf n sh))"
  "aims_at b (fst (disconnecting_enter pf t a sh)) = (b = (a \<noteq> AfterNothing))"
  "aims_at b (fst (disconnected_enter pf sh)) = (\<not> b)"
  "aims_at True (fst (connected_enter pf c sh))"
  by (rule connecting_enter_cases [of pf n sh];
      auto simp: disconnecting_enter_def disconnected_enter_def connected_enter_def
        split: prod.split sum.split)+

lemma disconnecting_command_aim:
  "disconnecting_command a (Some c) sh = (a', sh') \<Longrightarrow> \<forall>r. c \<noteq> CmdBlock r \<Longrightarrow>
     (a' \<noteq> AfterNothing) = aim c (a \<noteq> AfterNothing)"
  by (cases "(a, Some c, sh)" rule: disconnecting_command.cases) (auto split: if_splits)

lemma handle_event_aim:
  assumes "aims_at b st" and "usual_polls ps" and "handle_event pf ps st sh = (act, sh')"
    and "act_state act = Some st'"
  shows "aims_at (fold aim (polled (po_commands ps)) b) st'"
proof -
  have "keeps_aim (fold aim (polled (po_commands ps)) b) (handle_event pf ps st sh)"
  proof (cases st)
    case (StConnecting c)
    with assms(1,2) show ?thesis
      by (cases "po_commands ps")
        (auto simp: connecting_handle_event_eq connecting_handle_commands_def usual_polls_def
          connecting_handle_tunnel_events_def connecting_handle_tunnel_close_event_def Let_def
          split: tried.split tunnel_command.split tunnel_event.split future_poll.split option.split
            prod.split sum.split)
  next
    case (StConnected c)
    with assms(1,2) show ?thesis
      by (cases "po_commands ps")
        (auto simp: connected_handle_event_eq connected_handle_commands_def connected_disconnect_def
          connected_handle_tunnel_events_def connected_handle_tunnel_close_event_def Let_def
          usual_polls_def
          split: tried.split tunnel_command.split tunnel_event.split future_poll.split option.split
            prod.split sum.split)
  next
    case (StDisconnecting d)
    with assms(1,2) show ?thesis
      by (cases "po_commands ps")
        (auto simp: disconnecting_handle_event_eq disconnecting_handle_commands_def usual_polls_def
          disconnecting_handle_exit_event_def disconnecting_after_disconnect_def Let_def
          split: future_poll.split option.split prod.split after_disconnect.split
            tunnel_command.splits
          dest: disconnecting_command_aim)
  qed (use assms(1,2) in \<open>cases "po_commands ps"; auto simp: disconnected_handle_event_def
        blocked_handle_event_def usual_polls_def Let_def split: tunnel_command.split\<close>)+
  with assms(3,4) show ?thesis by (simp add: keeps_aim_def)
qed

lemma machine_handles_aim:
  "machine_handles pf usual_polls c0 cs c \<Longrightarrow> aims_at False (fst c0) \<Longrightarrow> aims_at (sent_aim cs) (fst c)"
  by (induction rule: machine_handles.induct)
    (auto simp: sent_aim_def dest: handle_event_aim)

end
