(* ===== verification/Daemon_Props.thy ===== *)
theory Daemon_Props
  imports Daemon_Proofs
begin

text \<open>
  Properties of the daemon: it never panics on parsed relay lists; the tunnel parameters it hands out
  are those the user asked for; a requested shutdown ends the event loop; what happens when settings
  cannot be saved; keys are stored with the account they were made for.
\<close>

section \<open>No panics\<close>

text \<open>
  The relays come from a parsed list, whose weights do not add up to \<open>u64::MAX\<close> and whose relays have
  a location, and so has the relay chosen last.
\<close>

definition parsed_list :: "parsed_relays \<Rightarrow> bool" where
  "parsed_list p \<longleftrightarrow> (\<exists>rl t. p = from_relay_list rl t) \<and> total_weight (pr_relays p) < 2 ^ 64 - 1"

definition relays_ok :: "'g daemon \<Rightarrow> bool" where
  "relays_ok d \<longleftrightarrow> parsed_list (rs_parsed_relays (dm_relay_selector d)) \<and>
     (\<forall>r. dm_last_generated_relay d = Some r \<longrightarrow> r_location r \<noteq> None)"

definition relay_part :: "'g daemon \<Rightarrow> 'g relay_selector \<times> relay option" where
  "relay_part d = (dm_relay_selector d, dm_last_generated_relay d)"

lemma relay_part_frame [simp]:
  "relay_part (d\<lparr>dm_settings := s\<rparr>) = relay_part d" "relay_part (d\<lparr>dm_files := fs\<rparr>) = relay_part d"
  "relay_part (d\<lparr>dm_target_state := t\<rparr>) = relay_part d" "relay_part (d\<lparr>dm_state := x\<rparr>) = relay_part d"
  "relay_part (d\<lparr>dm_account_history := h\<rparr>) = relay_part d"
  "relay_part (d\<lparr>dm_key_manager := km\<rparr>) = relay_part d"
  "relay_part (d\<lparr>dm_shutdown_callbacks := cbs\<rparr>) = relay_part d"
  "relay_part (emit e d) = relay_part d" "relay_part (notify_settings d) = relay_part d"
  "relay_part (send_tunnel_command c d) = relay_part d"
  by (simp_all add: relay_part_def notify_settings_def send_tunnel_command_def)

lemma relay_part_target [simp]:
  "relay_part (set_target_state t d) = relay_part d" "relay_part (reconnect_tunnel d) = relay_part d"
  "relay_part (trigger_shutdown_event d) = relay_part d"
  by (simp_all add: set_target_state_def reconnect_tunnel_def trigger_shutdown_event_def
      connect_tunnel_def disconnect_tunnel_def Let_def split: target_state.split)

lemma relay_part_keys [simp]:
  "relay_part (ensure_wireguard_keys_for_current_account env io d) = relay_part d"
  "relay_part (handle_wireguard_key_event env io account result d) = relay_part d"
  "relay_part (on_generate_wireguard_key env io d) = relay_part d"
  "relay_part (on_get_wireguard_key env io d) = relay_part d"
  "relay_part (on_verify_wireguard_key env io d) = relay_part d"
  by (simp_all add: ensure_wireguard_keys_for_current_account_def handle_wireguard_key_event_def
      on_generate_wireguard_key_def on_get_wireguard_key_def on_verify_wireguard_key_def
      history_lookup_account_eq history_insert_entry_eq Let_def
      split: option.split sum.split prod.split wg_key_error.split)

lemma relay_part_change [simp]: "relay_part (snd (change_settings env io setter d)) = relay_part d"
  by (simp add: change_settings_def split: prod.split)

lemma relay_part_changeD: "change_settings env io setter d = (r, d') \<Longrightarrow> relay_part d' = relay_part d"
  using relay_part_change [of env io setter d] by simp

lemma relay_part_on_changed:
  "(\<And>x. relay_part (act x) = relay_part x) \<Longrightarrow>
     relay_part (on_changed_settings env io setter act d) = relay_part d"
  by (auto simp: on_changed_settings_def Let_def dest: relay_part_changeD split: prod.split sum.split)

lemma relay_part_handlers [simp]:
  "relay_part (on_set_target_state t d) = relay_part d"
  "relay_part (on_set_account env io token d) = relay_part d"
  "relay_part (on_set_bridge_settings env io bs d) = relay_part d"
  "relay_part (on_set_bridge_state env io b d) = relay_part d"
  "relay_part (on_remove_account_from_history env io account d) = relay_part d"
  "relay_part (on_factory_reset env io d) = relay_part d"
  by (auto simp: on_set_target_state_def on_set_account_def on_set_bridge_settings_def
      on_set_bridge_state_def apply_proxy_constraints_def on_remove_account_from_history_def
      on_factory_reset_def Let_def dest: relay_part_changeD
      split: prod.split sum.split option.split)

lemma run_management_command_relays:
  assumes "\<forall>r. dm_last_generated_relay d = Some r \<longrightarrow> r_location r \<noteq> None"
  shows "\<exists>d'. run_management_command env io c d = Returns d' \<and> relay_part d' = relay_part d"
proof (cases c)
  case GetCurrentLocation
  with assms show ?thesis
    by (auto simp: on_get_current_location_def build_location_from_relay_def
        split: daemon_tunnel_state.split panics.split option.split sum.split)
qed (auto simp: on_update_relay_settings_def on_set_allow_lan_def
      on_set_block_when_disconnected_def on_set_auto_connect_def on_set_openvpn_mssfix_def
      on_set_enable_ipv6_def on_set_wireguard_mtu_def relay_part_on_changed)

section \<open>Tunnel parameters\<close>

text \<open>
  The bridge OpenVPN parameters must have: none when bridges are off; when they are on, the one the
  user configured or the nearest matching one; with automatic bridges the same, or none.
\<close>

definition bridge_chosen :: "settings \<Rightarrow> relay list \<Rightarrow> endpoint \<Rightarrow> location \<Rightarrow> proxy_settings \<Rightarrow> bool" where
  "bridge_chosen s relays ep location proxy =
     (case st_bridge_settings s of
        BridgeCustom custom \<Rightarrow> proxy = custom
      | BridgeNormal settings \<Rightarrow>
          \<exists>b. nearest_bridge relays
                \<lparr>ib_location = bc_location settings, ib_transport_protocol = Only (protocol ep)\<rparr>
                location (proxy, b))"

definition proxy_ok :: "settings \<Rightarrow> relay list \<Rightarrow> endpoint \<Rightarrow> location \<Rightarrow> u32 \<Rightarrow> proxy_settings option \<Rightarrow> bool" where
  "proxy_ok s relays ep location n proxy =
     (case st_bridge_state s of
        BridgeOff \<Rightarrow> proxy = None
      | BridgeOn \<Rightarrow> (\<exists>p. proxy = Some p \<and> bridge_chosen s relays ep location p)
      | BridgeAuto \<Rightarrow>
          (case proxy of
             None \<Rightarrow> True
           | Some p \<Rightarrow> should_use_bridge n \<and> bridge_chosen s relays ep location p))"

lemma openvpn_proxy_settings_cases:
  assumes "random_source (de_rng env)" and "relays_ok d"
  shows "\<exists>res d' g. openvpn_proxy_settings env ep location n d = Returns (res, d') \<and>
    dm_effects d' = dm_effects d \<and> dm_settings d' = dm_settings d \<and>
    dm_relay_selector d' = (dm_relay_selector d)\<lparr>rs_rng := g\<rparr> \<and>
    dm_last_generated_relay d' = dm_last_generated_relay d \<and>
    (\<forall>proxy. res = Inr proxy \<longrightarrow>
       proxy_ok (dm_settings d) (pr_relays (rs_parsed_relays (dm_relay_selector d)))
         ep location n proxy)"
proof (cases "st_bridge_settings (dm_settings d)")
  case (BridgeCustom custom)
  then show ?thesis
    by (auto simp: openvpn_proxy_settings_def proxy_ok_def bridge_chosen_def
        intro!: exI [of _ "rs_rng (dm_relay_selector d)"] split: bridge_state.split)
next
  case (BridgeNormal settings)
  let ?c = "\<lparr>ib_location = bc_location settings, ib_transport_protocol = Only (protocol ep)\<rparr>"
  obtain rl t where "rs_parsed_relays (dm_relay_selector d) = from_relay_list rl t"
    using assms(2) by (auto simp: relays_ok_def parsed_list_def)
  from get_proxy_settings_nearest [OF assms(1) this, of ?c location] obtain res g where
    g: "get_proxy_settings (de_rng env) (dm_relay_selector d) ?c location =
          Returns (res, (dm_relay_selector d)\<lparr>rs_rng := g\<rparr>)"
    and near: "\<And>pb. res = Some pb \<Longrightarrow>
          nearest_bridge (pr_relays (rs_parsed_relays (dm_relay_selector d))) ?c location pb"
    by (auto split: option.splits)
  have chosen: "\<exists>b. nearest_bridge (pr_relays (rs_parsed_relays (dm_relay_selector d))) ?c location (p, b)"
    if "res = Some (p, b)" for p b
    using near that by blast
  show ?thesis
  proof (cases "st_bridge_state (dm_settings d)")
    case BridgeOn
    with BridgeNormal g chosen show ?thesis
      by (cases res) (auto simp: openvpn_proxy_settings_def Let_def proxy_ok_def bridge_chosen_def)
  next
    case BridgeAuto
    show ?thesis
    proof (cases "should_use_bridge n \<and> protocol ep \<noteq> Udp")
      case True
      with BridgeNormal BridgeAuto g chosen show ?thesis
        by (cases res) (auto simp: openvpn_proxy_settings_def get_auto_proxy_settings_def Let_def
            proxy_ok_def bridge_chosen_def)
    next
      case False
      then have "get_auto_proxy_settings (de_rng env) (dm_relay_selector d) ?c location n =
          Returns (None, dm_relay_selector d)"
        by (auto simp: get_auto_proxy_settings_def)
      with BridgeNormal BridgeAuto show ?thesis
        by (auto simp: openvpn_proxy_settings_def Let_def proxy_ok_def
            intro!: exI [of _ "rs_rng (dm_relay_selector d)"])
    qed
  next
    case BridgeOff
    with BridgeNormal show ?thesis
      by (auto simp: openvpn_proxy_settings_def Let_def proxy_ok_def
          intro!: exI [of _ "rs_rng (dm_relay_selector d)"])
  qed
qed

text \<open>The WireGuard data of an account, if the history has it.\<close>

definition account_key :: "string \<Rightarrow> account_history \<Rightarrow> wireguard_data option" where
  "account_key account h = Option.bind (history_lookup account h) ae_wireguard"

lemma history_get_lookup:
  "fst (history_get codec w account h) = Inr x \<Longrightarrow> x = history_lookup account h"
  using find_entry_map_of [of account "ah_accounts h" 0]
  by (auto simp: history_get_def history_lookup_def map_of_key_find
      split: option.splits if_splits prod.splits sum.splits)

text \<open>What the parameters made for a relay and endpoint must be.\<close>

fun parameters_ok :: "target_os \<Rightarrow> settings \<Rightarrow> account_history \<Rightarrow> relay list \<Rightarrow> relay_constraints \<Rightarrow> relay
    \<Rightarrow> string \<Rightarrow> u32 \<Rightarrow> tunnel_parameters \<Rightarrow> bool" where
  "parameters_ok os s h relays c r account n (ParamsOpenVpn p) \<longleftrightarrow>
     (let e = MullvadOpenVpn (ovpn_endpoint (ovpn_config p))
      in tunnel_kind_ok os c e \<and> endpoint_satisfies c r e) \<and>
     ovpn_username (ovpn_config p) = account \<and>
     ovpn_options p = to_openvpn (st_tunnel_options s) \<and>
     ovpn_generic_options p = to_generic (st_tunnel_options s) \<and>
     (\<exists>location. r_location r = Some location \<and>
        proxy_ok s relays (ovpn_endpoint (ovpn_config p)) location n (ovpn_proxy p))"
| "parameters_ok os s h relays c r account n (ParamsWireguard p) \<longleftrightarrow>
     (\<exists>gateway6. wgc_ipv6_gateway (wg_connection p) = Some gateway6 \<and>
        (let e = MullvadWireguard (wgc_peer (wg_connection p)) (wgc_ipv4_gateway (wg_connection p)) gateway6
         in tunnel_kind_ok os c e \<and> endpoint_satisfies c r e)) \<and>
     (\<exists>data. account_key account h = Some data \<and>
        wg_private_key (wgc_tunnel (wg_connection p)) = wd_private_key data) \<and>
     wg_options p = to_wireguard (st_tunnel_options s) \<and>
     wg_generic_options p = to_generic (st_tunnel_options s)"

lemma create_tunnel_parameters_cases:
  assumes "random_source (de_rng env)" and "relays_ok d" and "r_location relay = Some location"
    and "r_location r = Some location" and "tunnel_kind_ok os c endpoint"
    and "endpoint_satisfies c r endpoint"
  shows "\<exists>res d' g. create_tunnel_parameters env io relay endpoint account n d = Returns (res, d') \<and>
    dm_effects d' = dm_effects d \<and> dm_settings d' = dm_settings d \<and>
    dm_relay_selector d' = (dm_relay_selector d)\<lparr>rs_rng := g\<rparr> \<and>
    (\<forall>params. res = Inr params \<longrightarrow>
       parameters_ok os (dm_settings d) (dm_account_history d)
         (pr_relays (rs_parsed_relays (dm_relay_selector d))) c r account n params)"
proof (cases endpoint)
  case (MullvadOpenVpn ep)
  let ?d = "d\<lparr>dm_last_generated_bridge_relay := None\<rparr>"
  have "relays_ok ?d" using assms(2) by (simp add: relays_ok_def)
  from openvpn_proxy_settings_cases [OF assms(1) this, of ep location n] obtain res d' g where
    "openvpn_proxy_settings env ep location n ?d = Returns (res, d')"
    "dm_effects d' = dm_effects d" "dm_settings d' = dm_settings d"
    "dm_relay_selector d' = (dm_relay_selector d)\<lparr>rs_rng := g\<rparr>"
    "\<And>proxy. res = Inr proxy \<Longrightarrow> proxy_ok (dm_settings d)
        (pr_relays (rs_parsed_relays (dm_relay_selector d))) ep location n proxy"
    by auto
  with MullvadOpenVpn assms(3-6) show ?thesis
    by (cases res) (auto simp: create_tunnel_parameters_def openvpn_connection_config_new_def Let_def
        simp del: endpoint_satisfies.simps tunnel_kind_ok.simps)
next
  case (MullvadWireguard peer gateway4 gateway6)
  with assms(3-6) show ?thesis
    by (auto simp: create_tunnel_parameters_def history_lookup_account_eq account_key_def Let_def
        dest!: history_get_lookup intro!: exI [of _ "rs_rng (dm_relay_selector d)"]
        split: sum.split option.split simp del: endpoint_satisfies.simps tunnel_kind_ok.simps)
qed

lemma parsed_list_location: "parsed_list p \<Longrightarrow> r \<in> set (pr_relays p) \<Longrightarrow> r_location r \<noteq> None"
  using from_relay_list_location by (auto simp: parsed_list_def)

text \<open>What a request for parameters may send, with the settings and history it was answered with.\<close>

definition parameters_for :: "'g daemon_env \<Rightarrow> 'g daemon \<Rightarrow> u32 \<Rightarrow> tunnel_parameters \<Rightarrow> bool" where
  "parameters_for env d n params \<longleftrightarrow>
     (\<exists>account. st_account_token (dm_settings d) = Some account \<and>
       (case st_relay_settings (dm_settings d) of
          RelayCustomTunnelEndpoint custom \<Rightarrow>
            to_tunnel_parameters (de_lookup env) custom (st_tunnel_options (dm_settings d)) None = Inr params
        | RelayNormal c \<Rightarrow>
            (let relays = pr_relays (rs_parsed_relays (dm_relay_selector d));
                 used = (if rc_tunnel_protocol c = Any then ignoring_tunnel_constraints c else c)
             in \<exists>r \<in> set relays. relay_matches_location r (rc_location c) \<and>
                  parameters_ok (de_os env) (dm_settings d) (dm_account_history d) relays used r account n params)))"

lemma tunnel_kind_used [simp]: "tunnel_kind_ok os (constraints_used c) e = tunnel_kind_ok os c e"
  by (cases e) (simp_all add: constraints_used_def ignoring_tunnel_constraints_def)

lemma selector_choice:
  assumes "random_source rng" and "parsed_list (rs_parsed_relays sel)"
  shows "\<exists>res g. selector_get_tunnel_endpoint os rng sel c n = Returns (res, sel\<lparr>rs_rng := g\<rparr>) \<and>
    (\<forall>r' e. res = Inr (r', e) \<longrightarrow>
      (\<exists>r \<in> set (pr_relays (rs_parsed_relays sel)). \<exists>location. relay_matches_location r (rc_location c) \<and>
         r_location r = Some location \<and> r_location r' = Some location \<and> endpoint_chosen os c r e))"
proof -
  let ?relays = "pr_relays (rs_parsed_relays sel)"
  have "total_weight ?relays < 2 ^ 64 - 1" using assms(2) by (simp add: parsed_list_def)
  from selector_endpoint_ok [OF assms(1) this, of os c n] obtain res g where
    sel: "selector_get_tunnel_endpoint os rng sel c n = Returns (res, sel\<lparr>rs_rng := g\<rparr>)"
    and res: "case res of Inl e \<Rightarrow> e = NoRelay | Inr (r', e) \<Rightarrow>
      \<exists>r \<in> set ?relays. relay_matches_location r (rc_location c) \<and>
        r' = r\<lparr>r_tunnels := r_tunnels r'\<rparr> \<and> endpoint_chosen os c r e"
    by blast
  have "\<exists>r \<in> set ?relays. \<exists>location. relay_matches_location r (rc_location c) \<and>
      r_location r = Some location \<and> r_location r' = Some location \<and> endpoint_chosen os c r e"
    if "res = Inr (r', e)" for r' e
  proof -
    obtain r where r: "r \<in> set ?relays" "relay_matches_location r (rc_location c)"
      "r' = r\<lparr>r_tunnels := r_tunnels r'\<rparr>" "endpoint_chosen os c r e"
      using res \<open>res = Inr (r', e)\<close> by auto
    obtain location where loc: "r_location r = Some location"
      using parsed_list_location [OF assms(2) r(1)] by blast
    then have "r_location r' = Some location" by (subst r(3)) simp
    with r loc show ?thesis by blast
  qed
  with sel show ?thesis by blast
qed

lemma normal_parameters_cases:
  assumes rng: "random_source (de_rng env)" and ok: "relays_ok d"
    and account: "st_account_token (dm_settings d) = Some account"
    and normal: "st_relay_settings (dm_settings d) = RelayNormal c"
  shows "\<exists>d'. handle_generate_tunnel_parameters env io n d = Returns d' \<and> relays_ok d' \<and>
    (dm_effects d' = dm_effects d \<or>
     (\<exists>params. dm_effects d' = dm_effects d @ [SendParameters params] \<and> parameters_for env d n params))"
proof -
  let ?sel = "dm_relay_selector d" and ?h = handle_generate_tunnel_parameters
  let ?relays = "pr_relays (rs_parsed_relays ?sel)"
  have parsed: "parsed_list (rs_parsed_relays ?sel)" using ok by (simp add: relays_ok_def)
  from selector_choice [OF rng this, of "de_os env" c n] obtain res g where
    sel: "selector_get_tunnel_endpoint (de_os env) (de_rng env) ?sel c n = Returns (res, ?sel\<lparr>rs_rng := g\<rparr>)"
    and res: "\<And>r' e. res = Inr (r', e) \<Longrightarrow> \<exists>r \<in> set ?relays. \<exists>location.
      relay_matches_location r (rc_location c) \<and> r_location r = Some location \<and>
      r_location r' = Some location \<and> endpoint_chosen (de_os env) c r e"
    by blast
  let ?d = "d\<lparr>dm_relay_selector := ?sel\<lparr>rs_rng := g\<rparr>\<rparr>"
  have ok_d: "relays_ok ?d" using ok by (simp add: relays_ok_def)
  show ?thesis
  proof (cases res)
    case (Inl e)
    with account normal sel ok_d show ?thesis by (simp add: handle_generate_tunnel_parameters_def)
  next
    case (Inr re)
    obtain r' e where re: "re = (r', e)" by fastforce
    obtain r location where r: "r \<in> set ?relays" "relay_matches_location r (rc_location c)"
      "r_location r = Some location" "r_location r' = Some location"
      "endpoint_chosen (de_os env) c r e"
      using res Inr re by blast
    obtain res1 d1 g1 where
      c1: "create_tunnel_parameters env io r' e account n ?d = Returns (res1, d1)"
        "dm_effects d1 = dm_effects d" "dm_relay_selector d1 = ?sel\<lparr>rs_rng := g1\<rparr>"
      and p1: "\<And>params. res1 = Inr params \<Longrightarrow> parameters_ok (de_os env) (dm_settings d)
        (dm_account_history d) ?relays (constraints_used c) r account n params"
      using create_tunnel_parameters_cases [OF rng ok_d r(4,3), of "de_os env" "constraints_used c" e io account n]
        r(5) by (auto simp: endpoint_chosen_iff)
    have "relays_ok (d1\<lparr>dm_last_generated_relay := Some r'\<rparr>)"
      using parsed c1(3) r(4) by (simp add: relays_ok_def)
    moreover have "relays_ok (emit x y) = relays_ok y" for x and y :: "'a daemon"
      by (simp add: relays_ok_def)
    moreover have "parameters_for env d n params" if "res1 = Inr params" for params
      using account normal r(1,2) p1 [OF that] by (auto simp: parameters_for_def constraints_used_def Let_def)
    ultimately show ?thesis
      using account normal sel Inr re c1
      by (cases res1) (simp_all add: handle_generate_tunnel_parameters_def send_parameters_def)
  qed
qed

lemma handle_generate_tunnel_parameters_cases:
  assumes "random_source (de_rng env)" and "relays_ok d"
  shows "\<exists>d'. handle_generate_tunnel_parameters env io n d = Returns d' \<and> relays_ok d' \<and>
    (dm_effects d' = dm_effects d \<or>
     (\<exists>params. dm_effects d' = dm_effects d @ [SendParameters params] \<and> parameters_for env d n params))"
proof (cases "st_account_token (dm_settings d)")
  case None
  with assms show ?thesis by (simp add: handle_generate_tunnel_parameters_def)
next
  case (Some account)
  then show ?thesis
  proof (cases "st_relay_settings (dm_settings d)")
    case (RelayCustomTunnelEndpoint custom)
    with Some assms show ?thesis
      by (auto simp: handle_generate_tunnel_parameters_def send_parameters_def relays_ok_def
          parameters_for_def Let_def split: sum.split)
  qed (use normal_parameters_cases [OF assms] in blast)
qed


definition sample_env :: "u64 list daemon_env" where
  "sample_env = \<lparr>de_os = Linux, de_rng = scripted_rng, de_lookup = (\<lambda>_. None),
     de_settings = \<lparr>sc_parse = (\<lambda>_. None), sc_parse_v1 = (\<lambda>_. None), sc_print = (\<lambda>_. ''{}'')\<rparr>,
     de_history = \<lparr>hc_parse = (\<lambda>_. None), hc_parse_old = (\<lambda>_. None), hc_print = (\<lambda>_. [])\<rparr>,
     de_x25519 = id\<rparr>"

definition sample_settings_io :: settings_io where
  "sample_settings_io = \<lparr>si_settings_dir = Some ''/etc/mullvad-vpn'', si_read_ok = True,
     si_write = FileWritten, si_remove_ok = True\<rparr>"

definition sample_daemon_io :: daemon_io where
  "sample_daemon_io = \<lparr>di_settings = sample_settings_io, di_settings2 = sample_settings_io,
     di_history = HistWritten, di_history2 = HistWritten, di_random = Some [], di_execute_ok = True,
     di_key_answer = None, di_geo = Inl NoResponse, di_parameters_ok = True, di_relays = None\<rparr>"

definition sample_daemon :: "u64 list daemon" where
  "sample_daemon = \<lparr>dm_tunnel_state = DtDisconnected, dm_target_state = Unsecured,
     dm_state = ExecRunning, dm_reconnect = False,
     dm_settings = settings_default\<lparr>st_account_token := Some ''7''\<rparr>,
     dm_files = Map.empty, dm_account_history = \<lparr>ah_file = [], ah_accounts = []\<rparr>,
     dm_key_manager = key_manager_new, dm_relay_selector = sample_selector,
     dm_last_generated_relay = None, dm_last_generated_bridge_relay = None,
     dm_version = ''2020.1'', dm_shutdown_callbacks = [], dm_effects = []\<rparr>"

lemma sample_relays_ok: "relays_ok sample_daemon"
  using sample_bound by (auto simp: relays_ok_def parsed_list_def sample_daemon_def sample_selector_def)


section \<open>The event loop\<close>

lemma build_location_returns:
  "relays_ok d \<Longrightarrow> \<exists>l. build_location_from_relay d = Returns l"
  by (auto simp: relays_ok_def build_location_from_relay_def split: option.split)

lemma relay_part_ok: "relay_part d' = relay_part d \<Longrightarrow> relays_ok d' = relays_ok d"
  by (simp add: relay_part_def relays_ok_def)

lemma handle_transition_returns:
  assumes "relays_ok d"
  obtains d' where "handle_tunnel_state_transition tr d = Returns d'" "relays_ok d'"
proof -
  obtain l where "build_location_from_relay d = Returns l" using build_location_returns [OF assms] ..
  then have "\<exists>d'. handle_tunnel_state_transition tr d = Returns d'"
    by (cases tr) (simp_all add: handle_tunnel_state_transition_def tunnel_state_of_transition_def Let_def)
  then obtain d' where d': "handle_tunnel_state_transition tr d = Returns d'" ..
  show thesis
    using handle_tunnel_state_transition_sel(5,6) [OF d'] assms
    by (intro that [OF d']) (simp add: relays_ok_def)
qed

lemma daemon_handle_event_returns:
  assumes "random_source (de_rng env)" and "relays_ok d"
  shows "\<exists>err d'. daemon_handle_event env io e d = Returns (err, d') \<and> relays_ok d' \<and>
    err = (if e = EventManagementInterfaceExited then Some ManagementInterfaceExitedError else None)"
proof (cases e)
  case (EventTunnelStateTransition tr)
  then show ?thesis using handle_transition_returns [OF assms(2), of tr] by force
next
  case (EventGenerateTunnelParameters n)
  then show ?thesis using handle_generate_tunnel_parameters_cases [OF assms, of io n] by force
next
  case (EventManagementCommand c)
  then show ?thesis
    using run_management_command_relays [of d env io c] assms(2)
    by (fastforce simp: handle_management_interface_event_def relays_ok_def relay_part_def)
qed (use assms(2) in \<open>auto simp: relay_part_ok [OF relay_part_keys(2)]
      relay_part_ok [OF relay_part_target(3)]\<close>)

text \<open>
  A run of the daemon: from any state with parsed relays the loop returns (it never panics), however
  the updater replaces the relays with parsed lists.\<close>

definition parsed_refreshes :: "(daemon_io \<times> internal_event) list \<Rightarrow> bool" where
  "parsed_refreshes es = list_all (\<lambda>(io, e). case di_relays io of None \<Rightarrow> True | Some p \<Rightarrow> parsed_list p) es"

lemma refresh_relays_ok:
  "relays_ok d \<Longrightarrow> (case di_relays io of None \<Rightarrow> True | Some p \<Rightarrow> parsed_list p) \<Longrightarrow>
     relays_ok (refresh_relays io d)"
  by (auto simp: relays_ok_def refresh_relays_def split: option.splits)

lemma daemon_loop_returns:
  assumes "random_source (de_rng env)" and "relays_ok d" and "parsed_refreshes es"
  shows "\<exists>r d'. daemon_loop env es d = Returns (r, d') \<and> relays_ok d' \<and>
    (case r of
       None \<Rightarrow> True
     | Some (Inl err) \<Rightarrow> err = ManagementInterfaceExitedError \<and> EventManagementInterfaceExited \<in> snd ` set es
     | Some (Inr _) \<Rightarrow> dm_state d' = ExecFinished)"
  using assms
proof (induction env es d rule: daemon_loop.induct)
  case (2 env io e es d)
  have "relays_ok (refresh_relays io d)"
    using "2.prems"(2,3) by (intro refresh_relays_ok) (simp_all add: parsed_refreshes_def)
  from daemon_handle_event_returns [OF "2.prems"(1) this, of io e] obtain err d1 where
    1: "daemon_handle_event env io e (refresh_relays io d) = Returns (err, d1)" "relays_ok d1"
      "err = (if e = EventManagementInterfaceExited then Some ManagementInterfaceExitedError else None)"
    by blast
  show ?case
  proof (cases "err = None \<and> dm_state d1 \<noteq> ExecFinished")
    case True
    then show ?thesis
      using "2.IH" [of "(err, d1)" err d1] 1 "2.prems"
      by (fastforce simp: parsed_refreshes_def split: option.splits sum.splits if_splits)
  next
    case False
    with 1 show ?thesis by (auto split: option.split if_splits)
  qed
qed simp

text \<open>
  A handler sends to a thread that has stopped, before the loop or at one of the events it reaches.
\<close>

definition stopped_in_loop ::
    "'g daemon_env \<Rightarrow> (threads \<times> daemon_io \<times> internal_event) list \<Rightarrow> 'g daemon \<Rightarrow> bool" where
  "stopped_in_loop env es d \<longleftrightarrow>
     (\<exists>before th io e after d1 err d2. es = before @ (th, io, e) # after \<and>
        daemon_loop env (map snd before) d = Returns (None, d1) \<and>
        daemon_handle_event env io e (refresh_relays io d1) = Returns (err, d2) \<and>
        \<not> all_received th d1 d2)"

definition sends_to_stopped ::
    "'g daemon_env \<Rightarrow> threads \<Rightarrow> (threads \<times> daemon_io \<times> internal_event) list \<Rightarrow> 'g daemon \<Rightarrow> bool" where
  "sends_to_stopped env th es d \<longleftrightarrow>
     \<not> all_received th d (daemon_auto_connect d) \<or> stopped_in_loop env es (daemon_auto_connect d)"

lemma stopped_in_loopI:
  assumes "daemon_loop env (map snd before) d = Returns (None, d1)"
    and "daemon_handle_event env io e (refresh_relays io d1) = Returns (err, d2)" and "\<not> all_received th d1 d2"
  shows "stopped_in_loop env (before @ (th, io, e) # after) d"
  unfolding stopped_in_loop_def using assms by fast

lemma stopped_in_loop_Nil [simp]: "\<not> stopped_in_loop env [] d"
  by (simp add: stopped_in_loop_def)

lemma stopped_in_loop_Cons:
  assumes "daemon_handle_event env io e (refresh_relays io d) = Returns (err, d2)"
  shows "stopped_in_loop env ((th, io, e) # es) d \<longleftrightarrow>
    \<not> all_received th d d2 \<or> err = None \<and> dm_state d2 \<noteq> ExecFinished \<and> stopped_in_loop env es d2"
    (is "?l \<longleftrightarrow> ?here \<or> ?later")
proof
  assume ?l
  then obtain before th' io' e' after d1 err' d2' where
    split: "(th, io, e) # es = before @ (th', io', e') # after" and
    loop: "daemon_loop env (map snd before) d = Returns (None, d1)" and
    ev: "daemon_handle_event env io' e' (refresh_relays io' d1) = Returns (err', d2')" and
    sent: "\<not> all_received th' d1 d2'"
    by (auto simp: stopped_in_loop_def)
  show "?here \<or> ?later"
  proof (cases before)
    case Nil
    with split loop ev sent assms show ?thesis by simp
  next
    case (Cons b before')
    with split loop assms have "err = None" "dm_state d2 \<noteq> ExecFinished"
      "daemon_loop env (map snd before') d2 = Returns (None, d1)" "es = before' @ (th', io', e') # after"
      by (auto split: option.splits if_splits)
    with ev sent show ?thesis by (auto intro: stopped_in_loopI)
  qed
next
  assume "?here \<or> ?later"
  then show ?l
  proof
    assume ?here
    with assms show ?l using stopped_in_loopI [of env "[]" d d io e err d2 th es] by simp
  next
    assume later: ?later
    then obtain before th' io' e' after d1 err' d2' where
      "es = before @ (th', io', e') # after" "daemon_loop env (map snd before) d2 = Returns (None, d1)"
      "daemon_handle_event env io' e' (refresh_relays io' d1) = Returns (err', d2')"
      "\<not> all_received th' d1 d2'"
      by (auto simp: stopped_in_loop_def)
    with assms later show ?l
      using stopped_in_loopI [of env "(th, io, e) # before" d d1 io' e' err' d2' th' after] by simp
  qed
qed

lemma daemon_loop_on_eq:
  "daemon_loop env (map snd es) d = Returns (r, d') \<Longrightarrow>
     daemon_loop_on env es d = (if stopped_in_loop env es d then Panics else Returns (r, d'))"
proof (induction env es d rule: daemon_loop_on.induct)
  case (2 env th io e es d)
  then obtain err d2 where ev: "daemon_handle_event env io e (refresh_relays io d) = Returns (err, d2)"
    by (cases "daemon_handle_event env io e (refresh_relays io d)") auto
  with 2 show ?case
    by (cases err) (auto simp: stopped_in_loop_Cons [OF ev] split: if_splits)
qed simp


definition sample_start :: "daemon_error + u64 list daemon" where
  "sample_start = start_internal sample_env sample_daemon_io True True True sample_selector
     (settings_default, Map.empty) (Inr \<lparr>ah_file = [], ah_accounts = []\<rparr>) (\<lambda>_ _. Inr ()) ''2020.1''"

lemma sample_start_Inr: "\<exists>d. sample_start = Inr d"
  by (simp add: sample_start_def start_internal_def)

lemma sample_parsed: "parsed_list (rs_parsed_relays sample_selector)"
  using sample_bound by (auto simp: parsed_list_def sample_selector_def)

lemma sample_random: "random_source (de_rng sample_env)"
  using scripted.random_source_axioms by (simp add: sample_env_def)

definition sample_threads :: threads where
  "sample_threads = \<lparr>th_tunnel_state_machine = True, th_relay_updater = False\<rparr>"


text \<open>Once the daemon is exiting it stays so until the tunnel is disconnected.\<close>

lemma exiting_event:
  assumes "daemon_handle_event env io e d = Returns (err, d')" and "dm_state d = ExecExiting"
  shows "dm_state d' =
    (if e = EventTunnelStateTransition TrDisconnected then ExecFinished else ExecExiting)"
proof (cases e)
  case (EventTunnelStateTransition tr)
  with assms show ?thesis
    by (auto split: panics.splits dest: handle_tunnel_state_transition_sel(7))
next
  case (EventGenerateTunnelParameters n)
  with assms show ?thesis
    by (auto split: panics.splits dest!: handle_generate_tunnel_parameters_core daemon_core_eqD(3))
next
  case (EventWgKey account result)
  with assms show ?thesis
    using daemon_core_eqD(3) [OF handle_wireguard_key_event_core [of env io account result d]] by auto
qed (use assms in \<open>auto simp: handle_management_interface_event_def\<close>)

lemma exiting_loop:
  assumes "random_source (de_rng env)" and "relays_ok d" and "parsed_refreshes es"
    and "dm_state d = ExecExiting" and "EventManagementInterfaceExited \<notin> snd ` set es"
    and "EventTunnelStateTransition TrDisconnected \<in> snd ` set es"
  shows "\<exists>d'. daemon_loop env es d = Returns (Some (Inr ()), d')"
  using assms
proof (induction env es d rule: daemon_loop.induct)
  case (2 env io e es d)
  have "relays_ok (refresh_relays io d)"
    using "2.prems"(2,3) by (intro refresh_relays_ok) (simp_all add: parsed_refreshes_def)
  from daemon_handle_event_returns [OF "2.prems"(1) this, of io e] "2.prems"(5) obtain d1 where
    1: "daemon_handle_event env io e (refresh_relays io d) = Returns (None, d1)" "relays_ok d1"
    by auto
  note exiting_event [OF 1(1)]
  with 1 "2.prems" "2.IH" [of "(None, d1)" None d1] show ?case
    by (auto simp: parsed_refreshes_def split: if_splits)
qed simp

text \<open>
  C13.  A requested shutdown ends the daemon: after the request, by the management interface or by a
  signal, the tunnel is asked to disconnect, later requests are ignored, and as soon as the tunnel
  reports that it is disconnected (at once if it already was) the event loop ends with success.\<close>

theorem shutdown_completes:
  assumes "random_source (de_rng env)" and "relays_ok d"
    and "parsed_refreshes ((io, e) # es)" and "is_running (dm_state d)"
    and "e \<in> {EventTriggerShutdown, EventManagementCommand Shutdown}"
    and "EventManagementInterfaceExited \<notin> snd ` set es"
    and "EventTunnelStateTransition TrDisconnected \<in> snd ` set es"
  shows "(\<exists>d'. daemon_handle_event env io e d = Returns (None, d') \<and>
       daemon_commands d' = daemon_commands d @ [CmdDisconnect]) \<and>
    (\<exists>d'. daemon_loop env ((io, e) # es) d = Returns (Some (Inr ()), d'))"
proof
  have ev: "daemon_handle_event env io e x = Returns (None, trigger_shutdown_event x)"
    if "is_running (dm_state x)" for x
    using assms(5) that by (auto simp: handle_management_interface_event_def)
  with assms(4) show "\<exists>d'. daemon_handle_event env io e d = Returns (None, d') \<and>
      daemon_commands d' = daemon_commands d @ [CmdDisconnect]" by simp
  let ?d = "trigger_shutdown_event (refresh_relays io d)"
  have "relays_ok (refresh_relays io d)"
    using assms(2,3) by (intro refresh_relays_ok) (simp_all add: parsed_refreshes_def)
  then have ok: "relays_ok ?d" by (simp add: relay_part_ok [OF relay_part_target(3)])
  have st: "dm_state d = ExecRunning" using assms(4) by (cases "dm_state d") simp_all
  have loop: "\<exists>d'. daemon_loop env es ?d = Returns (Some (Inr ()), d')" if "dm_state ?d = ExecExiting"
    using exiting_loop [OF assms(1) ok _ that assms(6,7)] assms(3) by (simp add: parsed_refreshes_def)
  show "\<exists>d'. daemon_loop env ((io, e) # es) d = Returns (Some (Inr ()), d')"
    using loop st by (cases "dm_tunnel_state d") (simp_all add: ev)
qed

definition sample_connected :: "u64 list daemon" where
  "sample_connected = sample_daemon\<lparr>dm_tunnel_state := DtBlocked IsOffline, dm_target_state := Secured\<rparr>"

lemma sample_connected_ok: "relays_ok sample_connected"
  using sample_relays_ok by (simp add: relays_ok_def sample_connected_def)

theorem shutdown_completes_witness:
  "\<exists>d'. daemon_loop sample_env [(sample_daemon_io, EventTriggerShutdown),
      (sample_daemon_io, EventManagementCommand (SetTargetState Secured)),
      (sample_daemon_io, EventTunnelStateTransition TrDisconnected)] sample_connected =
    Returns (Some (Inr ()), d')"
  using shutdown_completes [OF sample_random sample_connected_ok, of sample_daemon_io EventTriggerShutdown
      "[(sample_daemon_io, EventManagementCommand (SetTargetState Secured)),
        (sample_daemon_io, EventTunnelStateTransition TrDisconnected)]"]
  by (simp add: parsed_refreshes_def sample_daemon_io_def sample_connected_def sample_daemon_def)

section \<open>Settings that cannot be saved\<close>

text \<open>The two settings the state machine has to know, with the handler and the command of each.\<close>

datatype lan_setting = LanAllow | LanBlock

fun lan_handler :: "lan_setting \<Rightarrow> 'g daemon_env \<Rightarrow> daemon_io \<Rightarrow> bool \<Rightarrow> 'g daemon \<Rightarrow> 'g daemon" where
  "lan_handler LanAllow = on_set_allow_lan"
| "lan_handler LanBlock = on_set_block_when_disconnected"

fun lan_value :: "lan_setting \<Rightarrow> settings \<Rightarrow> bool" where
  "lan_value LanAllow = st_allow_lan"
| "lan_value LanBlock = st_block_when_disconnected"

fun lan_change :: "lan_setting \<Rightarrow> bool \<Rightarrow> setting_change" where
  "lan_change LanAllow = ChangeAllowLan"
| "lan_change LanBlock = ChangeBlockWhenDisconnected"

fun lan_command :: "lan_setting \<Rightarrow> bool \<Rightarrow> tunnel_command" where
  "lan_command LanAllow = CmdAllowLan"
| "lan_command LanBlock = CmdBlockWhenDisconnected"

lemma lan_handler_eq:
  "lan_handler k env io b =
     on_changed_settings env io (apply_change (lan_change k b)) (send_tunnel_command (lan_command k b))"
  by (cases k) (simp_all add: on_set_allow_lan_def on_set_block_when_disconnected_def
      setters_are_changes)

lemma lan_change_eq:
  "lan_value k (changed (lan_change k b) s) = b"
  "changed (lan_change k b) s = s \<longleftrightarrow> lan_value k s = b"
  by (cases k; auto simp: settings_field_update_eq)+

text \<open>
  When the settings cannot be saved, a request to allow the local network or to block traffic while
  disconnected is not answered, but the daemon keeps the new value in memory; the state machine is
  not told.  Repeating the request, now with working storage, is answered as a success without
  telling the state machine either: the firewall keeps following the old value.\<close>

theorem failed_save_desynchronises:
  assumes "lan_value k (dm_settings d) \<noteq> b"
    and "fst (settings_save (de_settings env) (di_settings io)
           (changed (lan_change k b) (dm_settings d)) (dm_files d)) = Inl e"
  shows "lan_value k (dm_settings (lan_handler k env io b d)) = b \<and>
    dm_effects (lan_handler k env io b d) = dm_effects d \<and>
    dm_effects (lan_handler k env io' b (lan_handler k env io b d)) = dm_effects d @ [Reply ReplyUnit]"
  using assms by (simp add: lan_handler_eq on_changed_settings_def change_settings_eq lan_change_eq Let_def)

theorem failed_save_desynchronises_witness:
  "\<exists>io. st_block_when_disconnected (dm_settings (on_set_block_when_disconnected sample_env io True sample_daemon)) \<and>
    daemon_commands (on_set_block_when_disconnected sample_env sample_daemon_io True
      (on_set_block_when_disconnected sample_env io True sample_daemon)) = []"
proof -
  let ?io = "sample_daemon_io\<lparr>di_settings := sample_settings_io\<lparr>si_write := FileCreateFails\<rparr>\<rparr>"
  have save: "fst (settings_save (de_settings sample_env) (di_settings ?io)
      (changed (lan_change LanBlock True) (dm_settings sample_daemon)) (dm_files sample_daemon)) =
    Inl (WriteError ''/etc/mullvad-vpn/settings.json'')"
    by (simp add: settings_save_def get_settings_path_def sample_settings_io_def
        SETTINGS_FILE_def path_join_def)
  have "lan_value LanBlock (dm_settings sample_daemon) \<noteq> True"
    by (simp add: sample_daemon_def settings_default_def)
  from failed_save_desynchronises [OF this save, of sample_daemon_io] show ?thesis
    by (auto simp: daemon_commands_def sample_daemon_def)
qed

section \<open>Accounts and keys\<close>

text \<open>
  Removing the account with an empty token instead of none: the settings have no account then, but
  the daemon keeps its target, asks the state machine to connect again if it was secured, and puts the
  empty token first in the account history.  (Without a token it would go to the unsecured target.)\<close>

theorem empty_account_token_keeps_target:
  assumes "settings_saved (di_settings io)" and "st_account_token (dm_settings d) \<noteq> None"
    and "history_ok (dm_account_history d)"
  shows "let d' = on_set_account env io (Some []) d in
    st_account_token (dm_settings d') = None \<and> dm_target_state d' = dm_target_state d \<and>
    daemon_commands d' = daemon_commands d @ (if dm_target_state d = Secured then [CmdConnect] else []) \<and>
    get_account_history (dm_account_history d') =
      [] # take 2 (filter (\<lambda>t. t \<noteq> []) (get_account_history (dm_account_history d))) \<and>
    dm_target_state (on_set_account env io None d) = Unsecured"
proof -
  have ch: "changed (ChangeAccountToken (Some [])) s = s\<lparr>st_account_token := None\<rparr>"
    "changed (ChangeAccountToken None) s = s\<lparr>st_account_token := None\<rparr>" for s by simp_all
  have ne: "(dm_settings d)\<lparr>st_account_token := None\<rparr> \<noteq> dm_settings d"
    using assms(2) by (auto simp: settings_field_update_eq)
  show ?thesis
    using settings_saved_ok [OF assms(1)] ne bump_history_tokens [OF assms(3), of "de_history env" "di_history2 io" "[]"]
    unfolding on_set_account_def setters_are_changes change_settings_eq ch
    by (simp add: Let_def ensure_wireguard_keys_for_current_account_def notify_settings_def
        reconnect_tunnel_def connect_tunnel_def send_tunnel_command_def ACCOUNT_HISTORY_LIMIT_def)
qed

theorem empty_account_token_keeps_target_witness:
  "dm_target_state (on_set_account sample_env sample_daemon_io (Some []) sample_connected) = Secured \<and>
   dm_target_state (on_set_account sample_env sample_daemon_io None sample_connected) = Unsecured"
  using empty_account_token_keeps_target [of sample_daemon_io sample_connected sample_env]
  by (simp add: settings_saved_def sample_daemon_io_def sample_settings_io_def get_settings_path_def
      sample_connected_def sample_daemon_def history_ok_def Let_def)

text \<open>
  A key that was generated asynchronously is only used for the account it was made for: the answer
  for another account than the current one changes nothing; otherwise a generated key becomes the key
  of that account in the history, and clients are told its public key or the failure.\<close>

theorem key_event_for_account:
  assumes "history_ok (dm_account_history d)"
  shows "(st_account_token (dm_settings d) \<noteq> Some account \<longrightarrow>
       handle_wireguard_key_event env io account result d = d) \<and>
    (\<forall>data. result = Inr data \<and> st_account_token (dm_settings d) = Some account \<longrightarrow>
       account_key account (dm_account_history (handle_wireguard_key_event env io account result d)) = Some data) \<and>
    (st_account_token (dm_settings d) = Some account \<longrightarrow>
       (\<exists>ev. dm_effects (handle_wireguard_key_event env io account result d) =
          dm_effects d @ [NotifyKeyEvent ev] \<and>
        (\<forall>k. ev = NewKey k \<longrightarrow>
           (\<exists>data. result = Inr data \<and> k = public_key_of (de_x25519 env) (wd_private_key data)))))"
proof (intro conjI allI impI)
  show "account_key account (dm_account_history (handle_wireguard_key_event env io account result d)) = Some data"
    if "result = Inr data \<and> st_account_token (dm_settings d) = Some account" for data
  proof -
    let ?g = "history_get (de_history env) (di_history io) account (dm_account_history d)"
    let ?e = "(case fst ?g of Inr (Some e) \<Rightarrow> e | _ \<Rightarrow> \<lparr>ae_account = account, ae_wireguard = None\<rparr>)"
    have "history_ok (snd ?g)"
      using assms history.inv_ins [OF assms]
      by (auto simp: history_get_accounts [OF assms] split: option.split)
    moreover have "ae_account ?e = account"
      using find_entry_SomeD by (force simp: history_get_def split: option.splits prod.splits sum.splits if_splits)
    ultimately have "history_lookup account (snd (history_insert (de_history env) (di_history2 io)
        (?e\<lparr>ae_wireguard := Some data\<rparr>) (snd ?g))) = Some (?e\<lparr>ae_wireguard := Some data\<rparr>)"
      using history.lookup_ins_same [of "snd ?g" "?e\<lparr>ae_wireguard := Some data\<rparr>" "de_history env" "di_history2 io"]
      by (simp add: history_lookup_eq)
    with that show ?thesis
      by (simp add: handle_wireguard_key_event_def history_lookup_account_eq history_insert_entry_eq
          account_key_def Let_def split: sum.split)
  qed
qed (auto simp: handle_wireguard_key_event_def history_lookup_account_eq history_insert_entry_eq Let_def
      split: sum.split wg_key_error.split)

definition sample_wireguard_data :: wireguard_data where
  "sample_wireguard_data = \<lparr>wd_private_key = private_key_from [],
     wd_addresses = \<lparr>aa_ipv4_address = (0, 32), aa_ipv6_address = (0, 128)\<rparr>\<rparr>"

theorem key_event_for_account_witness:
  "account_key ''7'' (dm_account_history (handle_wireguard_key_event sample_env sample_daemon_io ''7''
     (Inr sample_wireguard_data) sample_daemon)) = Some sample_wireguard_data"
  using key_event_for_account [of sample_daemon "''7''" sample_env sample_daemon_io "Inr sample_wireguard_data"]
  by (simp add: sample_daemon_def history_ok_def)

end
