(* ===== verification/Management_Interface.thy ===== *)
theory Management_Interface
  imports Daemon_Proofs
begin

text \<open>
  The management interface (\<open>mullvad-daemon/src/management_interface.rs\<close>, \<open>DaemonEvent\<close> of
  \<open>mullvad-types/src/lib.rs\<close>, \<open>account.rs\<close>, \<open>version.rs\<close>): the calls a client makes, the command each
  sends to the daemon and how its answer becomes the result of the call; subscriptions and
  the broadcast of events.

  An answer is \<open>None\<close> when the daemon drops the channel of the command without answering.  The
  requests to the API that an answer may start are futures; their outcome is an input.
\<close>

section \<open>Calls\<close>

record account_data =
  ad_expiry :: string

record app_version_info =
  vi_current_is_supported :: bool
  vi_latest_stable :: string
  vi_latest :: string

text \<open>Errors of the JSON-RPC library: an internal error, invalid parameters, or one with a code.\<close>

datatype api_error = ApiInternalError | ApiInvalidParams string | ApiError int string "string option"

text \<open>Errors of the API client: an error answer of the server, or anything else.\<close>

datatype master_error = MasterJsonRpc int string "string option" | MasterOther

fun api_map_rpc_error :: "master_error \<Rightarrow> api_error" where
  "api_map_rpc_error (MasterJsonRpc code message data) = ApiError code message data"
| "api_map_rpc_error MasterOther = ApiInternalError"

datatype rpc_request =
    RpcGetAccountData string
  | RpcGetRelayLocations
  | RpcUpdateRelayLocations
  | RpcSetAccount "string option"
  | RpcUpdateRelaySettings relay_settings_update
  | RpcSetAllowLan bool
  | RpcSetBlockWhenDisconnected bool
  | RpcSetAutoConnect bool
  | RpcConnect
  | RpcDisconnect
  | RpcGetState
  | RpcGetCurrentLocation
  | RpcShutdown
  | RpcGetAccountHistory
  | RpcRemoveAccountFromHistory string
  | RpcSetOpenVpnMssfix "u16 option"
  | RpcSetBridgeSettings bridge_settings
  | RpcSetBridgeState bridge_state
  | RpcSetEnableIpv6 bool
  | RpcSetWireguardMtu "u16 option"
  | RpcGetSettings
  | RpcGenerateWireguardKey
  | RpcGetWireguardKey
  | RpcVerifyWireguardKey
  | RpcGetCurrentVersion
  | RpcGetVersionInfo
  | RpcFactoryReset

fun rpc_command :: "rpc_request \<Rightarrow> management_command" where
  "rpc_command (RpcGetAccountData t) = GetAccountData t"
| "rpc_command RpcGetRelayLocations = GetRelayLocations"
| "rpc_command RpcUpdateRelayLocations = UpdateRelayLocations"
| "rpc_command (RpcSetAccount t) = SetAccount t"
| "rpc_command (RpcUpdateRelaySettings u) = UpdateRelaySettings u"
| "rpc_command (RpcSetAllowLan b) = SetAllowLan b"
| "rpc_command (RpcSetBlockWhenDisconnected b) = SetBlockWhenDisconnected b"
| "rpc_command (RpcSetAutoConnect b) = SetAutoConnect b"
| "rpc_command RpcConnect = SetTargetState Secured"
| "rpc_command RpcDisconnect = SetTargetState Unsecured"
| "rpc_command RpcGetState = GetState"
| "rpc_command RpcGetCurrentLocation = GetCurrentLocation"
| "rpc_command RpcShutdown = Shutdown"
| "rpc_command RpcGetAccountHistory = GetAccountHistory"
| "rpc_command (RpcRemoveAccountFromHistory t) = RemoveAccountFromHistory t"
| "rpc_command (RpcSetOpenVpnMssfix v) = SetOpenVpnMssfix v"
| "rpc_command (RpcSetBridgeSettings b) = SetBridgeSettings b"
| "rpc_command (RpcSetBridgeState b) = SetBridgeState b"
| "rpc_command (RpcSetEnableIpv6 b) = SetEnableIpv6 b"
| "rpc_command (RpcSetWireguardMtu v) = SetWireguardMtu v"
| "rpc_command RpcGetSettings = GetSettings"
| "rpc_command RpcGenerateWireguardKey = GenerateWireguardKey"
| "rpc_command RpcGetWireguardKey = GetWireguardKey"
| "rpc_command RpcVerifyWireguardKey = VerifyWireguardKey"
| "rpc_command RpcGetCurrentVersion = GetCurrentVersion"
| "rpc_command RpcGetVersionInfo = GetVersionInfo"
| "rpc_command RpcFactoryReset = FactoryReset"

text \<open>What a client gets; the answers of the daemon apart from those that are mapped on the way.\<close>

datatype rpc_value =
    ValUnit
  | ValReply reply
  | ValAccountData account_data
  | ValVersionInfo app_version_info

text \<open>The outcomes of the requests to the API that \<open>get_account_data\<close> and \<open>get_version_info\<close> wait for.\<close>

record api_outcome =
  ao_account_data :: "master_error + account_data"
  ao_version_info :: "master_error + app_version_info"

text \<open>\<open>send_command_to_daemon(..).and_then(|_| rx.map_err(|_| Error::internal_error()))\<close>.\<close>

definition daemon_answer :: "bool \<Rightarrow> reply option \<Rightarrow> api_error + reply" where
  "daemon_answer sent answer =
     (if \<not> sent then Inl ApiInternalError
      else case answer of None \<Rightarrow> Inl ApiInternalError | Some r \<Rightarrow> Inr r)"

definition connect_result :: "reply \<Rightarrow> api_error + rpc_value" where
  "connect_result r =
     (case r of
        ReplyTargetState (Inl _) \<Rightarrow> Inl (ApiError (- 900) ''No account token configured'' None)
      | _ \<Rightarrow> Inr ValUnit)"

definition bridge_settings_result :: "reply \<Rightarrow> api_error + rpc_value" where
  "bridge_settings_result r =
     (case r of
        ReplyBridge (Inl (InvalidProxyData reason)) \<Rightarrow> Inl (ApiInvalidParams reason)
      | ReplyBridge (Inl _) \<Rightarrow> Inl ApiInternalError
      | _ \<Rightarrow> Inr ValUnit)"

definition bridge_state_result :: "reply \<Rightarrow> api_error + rpc_value" where
  "bridge_state_result r =
     (case r of ReplyBridge (Inl _) \<Rightarrow> Inl ApiInternalError | _ \<Rightarrow> Inr ValUnit)"

definition rpc_result :: "target_os \<Rightarrow> rpc_request \<Rightarrow> bool \<Rightarrow> reply option \<Rightarrow> api_outcome
    \<Rightarrow> api_error + rpc_value" where
  "rpc_result os req sent answer api =
     (case req of
        RpcUpdateRelayLocations \<Rightarrow> if sent then Inr ValUnit else Inl ApiInternalError
      | RpcShutdown \<Rightarrow> if sent then Inr ValUnit else Inl ApiInternalError
      | RpcDisconnect \<Rightarrow> Inr ValUnit
      | RpcConnect \<Rightarrow> (case daemon_answer sent answer of Inl e \<Rightarrow> Inl e | Inr r \<Rightarrow> connect_result r)
      | RpcSetBridgeSettings _ \<Rightarrow>
          (case daemon_answer sent answer of Inl e \<Rightarrow> Inl e | Inr r \<Rightarrow> bridge_settings_result r)
      | RpcSetBridgeState _ \<Rightarrow>
          (case daemon_answer sent answer of Inl e \<Rightarrow> Inl e | Inr r \<Rightarrow> bridge_state_result r)
      | RpcGetAccountData _ \<Rightarrow>
          (case daemon_answer sent answer of
             Inl e \<Rightarrow> Inl e | Inr _ \<Rightarrow> map_sum api_map_rpc_error ValAccountData (ao_account_data api))
      | RpcGetVersionInfo \<Rightarrow>
          (case daemon_answer sent answer of
             Inl e \<Rightarrow> Inl e | Inr _ \<Rightarrow> map_sum api_map_rpc_error ValVersionInfo (ao_version_info api))
      | RpcFactoryReset \<Rightarrow>
          if os = Android then Inr ValUnit
          else (case daemon_answer sent answer of Inl e \<Rightarrow> Inl e | Inr _ \<Rightarrow> Inr ValUnit)
      | _ \<Rightarrow>
          (case daemon_answer sent answer of
             Inl e \<Rightarrow> Inl e
           | Inr ReplyUnit \<Rightarrow> Inr ValUnit
           | Inr r \<Rightarrow> Inr (ValReply r)))"

text \<open>
  The channel of a command carries at most one answer: the first one among the effects of handling
  it.  The outcome of checking a key with the API is sent on by the daemon, or nothing if it failed.
\<close>

fun first_reply :: "(string \<Rightarrow> public_key \<Rightarrow> bool option) \<Rightarrow> daemon_effect list \<Rightarrow> reply option" where
  "first_reply check [] = None"
| "first_reply check (Reply (ReplyCheckKey account key) # es) =
     map_option ReplyVerifyKey (check account key)"
| "first_reply check (Reply r # es) = Some r"
| "first_reply check (_ # es) = first_reply check es"

definition rpc_serve :: "'g daemon_env \<Rightarrow> daemon_io \<Rightarrow> (string \<Rightarrow> public_key \<Rightarrow> bool option)
    \<Rightarrow> api_outcome \<Rightarrow> rpc_request \<Rightarrow> 'g daemon \<Rightarrow> ((api_error + rpc_value) \<times> 'g daemon) panics" where
  "rpc_serve env io check api req d =
     (if req = RpcFactoryReset \<and> de_os env = Android then Returns (Inr ValUnit, d)
      else
        (case handle_management_interface_event env io (rpc_command req) d of
           Panics \<Rightarrow> Panics
         | Returns d' \<Rightarrow>
             Returns (rpc_result (de_os env) req True
               (first_reply check (drop (length (dm_effects d)) (dm_effects d'))) api, d')))"

section \<open>Subscriptions\<close>

datatype daemon_event =
    EvTunnelState daemon_tunnel_state
  | EvSettings settings
  | EvRelayList relay_list
  | EvWireguardKey keygen_event

text \<open>The map of subscriptions, as a list of identifiers and sinks.\<close>

type_synonym 's subscriptions = "(string \<times> 's) list"

text \<open>
  \<open>daemon_event_subscribe\<close> draws identifiers until one is vacant; the draws are a list, and the result is
  \<open>None\<close> while none of them is.  \<open>assigned\<close> says whether the subscriber still takes the identifier.
\<close>

fun daemon_event_subscribe :: "string list \<Rightarrow> bool \<Rightarrow> 's \<Rightarrow> 's subscriptions \<Rightarrow> 's subscriptions option" where
  "daemon_event_subscribe [] assigned sink subs = None"
| "daemon_event_subscribe (i # ids) assigned sink subs =
     (if map_of subs i = None then Some (if assigned then (i, sink) # subs else subs)
      else daemon_event_subscribe ids assigned sink subs)"

definition daemon_event_unsubscribe :: "string \<Rightarrow> 's subscriptions \<Rightarrow> (api_error + unit) \<times> 's subscriptions" where
  "daemon_event_unsubscribe i subs =
     (if map_of subs i \<noteq> None then (Inr (), filter (\<lambda>(j, _). j \<noteq> i) subs)
      else (Inl (ApiInvalidParams ''Invalid subscription''), subs))"

text \<open>\<open>notify\<close> sends the event to every sink; a sink that fails is ignored.\<close>

definition broadcast :: "daemon_event \<Rightarrow> 's subscriptions \<Rightarrow> ('s \<times> daemon_event) list" where
  "broadcast value subs = map (\<lambda>(_, sink). (sink, value)) subs"

text \<open>The event listener of the daemon: the notifications among its effects, as events.\<close>

fun event_of_effect :: "daemon_effect \<Rightarrow> daemon_event option" where
  "event_of_effect (NotifyNewState s) = Some (EvTunnelState s)"
| "event_of_effect (NotifySettings s) = Some (EvSettings s)"
| "event_of_effect (NotifyKeyEvent e) = Some (EvWireguardKey e)"
| "event_of_effect _ = None"

definition daemon_events :: "daemon_effect list \<Rightarrow> daemon_event list" where
  "daemon_events es = List.map_filter event_of_effect es"

end
