(* ===== verification/Management_Props.thy ===== *)
theory Management_Props
  imports Management_Interface Daemon_Props
begin

text \<open>
  Properties of the management interface: what clients are told about their requests, what
  subscribers know about the daemon, and the map of subscriptions.
\<close>

section \<open>Answers to requests\<close>

text \<open>The change of the settings a request asks for.\<close>

fun rpc_change :: "rpc_request \<Rightarrow> setting_change option" where
  "rpc_change (RpcSetAccount t) = Some (ChangeAccountToken t)"
| "rpc_change (RpcUpdateRelaySettings u) = Some (ChangeRelaySettings u)"
| "rpc_change (RpcSetAllowLan b) = Some (ChangeAllowLan b)"
| "rpc_change (RpcSetBlockWhenDisconnected b) = Some (ChangeBlockWhenDisconnected b)"
| "rpc_change (RpcSetAutoConnect b) = Some (ChangeAutoConnect b)"
| "rpc_change (RpcSetOpenVpnMssfix v) = Some (ChangeMssfix v)"
| "rpc_change (RpcSetEnableIpv6 b) = Some (ChangeEnableIpv6 b)"
| "rpc_change (RpcSetWireguardMtu v) = Some (ChangeMtu v)"
| "rpc_change (RpcSetBridgeSettings b) = Some (ChangeBridgeSettings b)"
| "rpc_change (RpcSetBridgeState b) = Some (ChangeBridgeState b)"
| "rpc_change _ = None"

definition change_saved :: "'g daemon_env \<Rightarrow> daemon_io \<Rightarrow> setting_change \<Rightarrow> 'g daemon \<Rightarrow> bool" where
  "change_saved env io ch d \<longleftrightarrow> changed ch (dm_settings d) = dm_settings d \<or>
     is_ok (fst (settings_save (de_settings env) (di_settings io) (changed ch (dm_settings d)) (dm_files d)))"

text \<open>
  The settings after a request: the requested change and nothing else, except that switching bridges on,
  where this changes the settings and can be saved, also sets the relay constraints to OpenVPN over TCP
  with any port (\<open>apply_proxy_constraints\<close>).
\<close>

definition proxy_constraints :: setting_change where
  "proxy_constraints = ChangeRelaySettings (UpdateNormal
     \<lparr>ru_location = None, ru_tunnel_protocol = Some (Only ProtoOpenVpn), ru_wireguard_constraints = None,
      ru_openvpn_constraints = Some \<lparr>oc_port = Any, oc_protocol = Only Tcp\<rparr>\<rparr>)"

definition setting_result :: "bool \<Rightarrow> setting_change \<Rightarrow> settings \<Rightarrow> settings" where
  "setting_result saved ch s =
     (if ch = ChangeBridgeState BridgeOn \<and> changed ch s \<noteq> s \<and> saved
      then changed proxy_constraints (changed ch s) else changed ch s)"

lemma setting_result_other [simp]:
  "ch \<noteq> ChangeBridgeState BridgeOn \<Longrightarrow> setting_result saved ch s = changed ch s"
  by (simp add: setting_result_def)

text \<open>The effects a function adds, for the functions that only append.\<close>

definition new_effects :: "'g daemon \<Rightarrow> 'g daemon \<Rightarrow> daemon_effect list" where
  "new_effects d d' = drop (length (dm_effects d)) (dm_effects d')"

definition appends :: "('g daemon \<Rightarrow> 'g daemon) \<Rightarrow> bool" where
  "appends f \<longleftrightarrow> (\<forall>d. \<exists>es. dm_effects (f d) = dm_effects d @ es)"

lemma appends_basic [intro, simp]:
  "appends (emit e)" "appends notify_settings" "appends reconnect_tunnel" "appends id"
  "appends (send_tunnel_command c)" "appends (set_target_state t)"
  by (auto simp: appends_def notify_settings_def reconnect_tunnel_def connect_tunnel_def
      send_tunnel_command_def set_target_state_def disconnect_tunnel_def Let_def
      split: target_state.split)

lemma appendsE:
  assumes "appends f" obtains es where "dm_effects (f d) = dm_effects d @ es"
  using assms by (auto simp: appends_def)

lemma change_settings_cases:
  assumes "change_settings env (di_settings io) (apply_change ch) d = (r, d')"
  shows "is_ok r = change_saved env io ch d" "dm_effects d' = dm_effects d"
    "dm_settings d' = changed ch (dm_settings d)"
    "r = Inl e \<Longrightarrow> fst (settings_save (de_settings env) (di_settings io) (changed ch (dm_settings d)) (dm_files d)) = Inl e"
  using assms
  by (auto simp: change_settings_eq change_saved_def map_sum_def split: if_splits sum.splits)

lemma on_changed_settings_answer:
  assumes "appends act"
  shows "first_reply check (new_effects d (on_changed_settings env io (apply_change ch) act d)) =
      (if change_saved env io ch d then Some ReplyUnit else None)"
    "(\<And>x. dm_settings (act x) = dm_settings x) \<Longrightarrow>
      dm_settings (on_changed_settings env io (apply_change ch) act d) = changed ch (dm_settings d)"
proof -
  obtain r d1 where 1: "change_settings env (di_settings io) (apply_change ch) d = (r, d1)" by fastforce
  note c = change_settings_cases [OF 1]
  obtain es where "dm_effects (act (notify_settings (emit (Reply ReplyUnit) d1))) =
      dm_effects d @ Reply ReplyUnit # NotifySettings (dm_settings d1) # es"
    using appendsE [OF assms, of "notify_settings (emit (Reply ReplyUnit) d1)"] c(2)
    by (auto simp: notify_settings_def)
  with 1 c show "first_reply check (new_effects d (on_changed_settings env io (apply_change ch) act d)) =
      (if change_saved env io ch d then Some ReplyUnit else None)"
    by (cases r) (auto simp: on_changed_settings_def new_effects_def Let_def)
  show "dm_settings (on_changed_settings env io (apply_change ch) act d) = changed ch (dm_settings d)"
    if "\<And>x. dm_settings (act x) = dm_settings x"
    using 1 c that by (cases r) (auto simp: on_changed_settings_def notify_settings_def Let_def)
qed

lemma ensure_wireguard_keys_effects [simp]:
  "dm_effects (ensure_wireguard_keys_for_current_account env io d) = dm_effects d"
  "dm_settings (ensure_wireguard_keys_for_current_account env io d) = dm_settings d"
  by (simp_all add: ensure_wireguard_keys_for_current_account_def history_lookup_account_eq
      split: option.split)

lemma on_set_account_answer:
  "first_reply check (new_effects d (on_set_account env io t d)) =
     (if change_saved env io (ChangeAccountToken t) d then Some ReplyUnit else None)"
  "dm_settings (on_set_account env io t d) = changed (ChangeAccountToken t) (dm_settings d)"
proof -
  obtain r d1 where 1: "change_settings env (di_settings io) (apply_change (ChangeAccountToken t)) d = (r, d1)"
    by fastforce
  note c = change_settings_cases [OF 1]
  let ?d = "notify_settings (ensure_wireguard_keys_for_current_account env io (emit (Reply ReplyUnit) d1))"
  have act: "\<exists>es. dm_effects (f (g ?d)) = dm_effects d @ Reply ReplyUnit # NotifySettings (dm_settings d1) # es"
    if "appends f" "\<And>x. dm_effects (g x) = dm_effects x" for f :: "'a daemon \<Rightarrow> 'a daemon" and g
    using appendsE [OF that(1), of "g ?d"] that(2) c(2) by (auto simp: notify_settings_def)
  obtain es where "dm_effects (set_target_state Unsecured ?d) =
      dm_effects d @ Reply ReplyUnit # NotifySettings (dm_settings d1) # es"
    using act [of "set_target_state Unsecured" id] by auto
  moreover have "\<exists>es. dm_effects (reconnect_tunnel (?d\<lparr>dm_account_history := h\<rparr>)) =
      dm_effects d @ Reply ReplyUnit # NotifySettings (dm_settings d1) # es" for h
    using act [of reconnect_tunnel "\<lambda>x. x\<lparr>dm_account_history := h\<rparr>"] by auto
  then obtain es' where "dm_effects (reconnect_tunnel (?d\<lparr>dm_account_history := h\<rparr>)) =
      dm_effects d @ Reply ReplyUnit # NotifySettings (dm_settings d1) # es' h" for h by metis
  ultimately show "first_reply check (new_effects d (on_set_account env io t d)) =
     (if change_saved env io (ChangeAccountToken t) d then Some ReplyUnit else None)"
    using 1 c
    by (cases r; cases t) (auto simp: on_set_account_def setters_are_changes new_effects_def Let_def)
  show "dm_settings (on_set_account env io t d) = changed (ChangeAccountToken t) (dm_settings d)"
    using 1 c by (cases r; cases t)
      (auto simp: on_set_account_def setters_are_changes notify_settings_def Let_def)
qed

lemma reply_after_reconnect:
  assumes "dm_effects d1 = dm_effects d"
  shows "first_reply check (new_effects d (emit (Reply (ReplyBridge r)) (reconnect_tunnel (notify_settings d1)))) =
    Some (ReplyBridge r)"
  using assms by (auto simp: new_effects_def reconnect_tunnel_def notify_settings_def
      connect_tunnel_def send_tunnel_command_def)

text \<open>The answer to a change of the bridge settings or state, with the error if it was not saved.\<close>

definition bridge_answer :: "'g daemon_env \<Rightarrow> daemon_io \<Rightarrow> setting_change \<Rightarrow> 'g daemon \<Rightarrow> settings_error + unit" where
  "bridge_answer env io ch d =
     (if changed ch (dm_settings d) = dm_settings d then Inr ()
      else fst (settings_save (de_settings env) (di_settings io) (changed ch (dm_settings d)) (dm_files d)))"

lemma map_sum_saved [simp]:
  "map_sum id (\<lambda>_. True) r = Inl e \<longleftrightarrow> r = Inl e"
  "map_sum id (\<lambda>_. True) (r :: 'e + unit) = Inr b \<longleftrightarrow> b \<and> r = Inr ()"
  by (cases r; auto)+

lemma bridge_handler_answer:
  "first_reply check (new_effects d (on_set_bridge_settings env io bs d)) =
     Some (ReplyBridge (bridge_answer env io (ChangeBridgeSettings bs) d))"
  "first_reply check (new_effects d (on_set_bridge_state env io b d)) =
     Some (ReplyBridge (bridge_answer env io (ChangeBridgeState b) d))"
proof -
  have same: "dm_effects (snd (apply_proxy_constraints env io2 x)) = dm_effects x"
    for io2 and x :: "'a daemon"
    by (simp add: apply_proxy_constraints_def setters_are_changes change_settings_eq)
  show "first_reply check (new_effects d (on_set_bridge_settings env io bs d)) =
     Some (ReplyBridge (bridge_answer env io (ChangeBridgeSettings bs) d))"
    by (auto simp: on_set_bridge_settings_def setters_are_changes change_settings_eq bridge_answer_def
        reply_after_reconnect split: sum.split) (simp_all add: new_effects_def)
  show "first_reply check (new_effects d (on_set_bridge_state env io b d)) =
     Some (ReplyBridge (bridge_answer env io (ChangeBridgeState b) d))"
    by (auto simp: on_set_bridge_state_def setters_are_changes change_settings_eq bridge_answer_def
        reply_after_reconnect same Let_def split: sum.split) (simp_all add: new_effects_def)
qed

lemma bridge_handler_settings:
  "dm_settings (on_set_bridge_settings env io bs d) = changed (ChangeBridgeSettings bs) (dm_settings d)"
  "dm_settings (on_set_bridge_state env io b d) =
     setting_result (change_saved env io (ChangeBridgeState b) d) (ChangeBridgeState b) (dm_settings d)"
  by (auto simp: on_set_bridge_settings_def on_set_bridge_state_def apply_proxy_constraints_def
      setters_are_changes change_settings_eq notify_settings_def setting_result_def proxy_constraints_def
      change_saved_def is_ok_iff Let_def split: sum.split)

lemma rpc_setting_outcome:
  assumes "rpc_change req = Some ch" and "rpc_serve env io check api req d = Returns (res, d')"
  shows "(res = Inr ValUnit \<longleftrightarrow> is_running (dm_state d) \<and> change_saved env io ch d) \<and>
    (res \<noteq> Inr ValUnit \<longrightarrow> (\<exists>e. res = Inl e)) \<and>
    (\<not> is_running (dm_state d) \<longrightarrow> d' = d) \<and>
    (is_running (dm_state d) \<longrightarrow>
       dm_settings d' = setting_result (change_saved env io ch d) ch (dm_settings d))"
proof (cases "is_running (dm_state d)")
  case False
  with assms show ?thesis
    by (cases req) (auto simp: rpc_serve_def handle_management_interface_event_def rpc_result_def
        daemon_answer_def)
next
  case running: True
  then have h: "handle_management_interface_event env io c d = run_management_command env io c d" for c
    by (simp add: handle_management_interface_event_def)
  have saved: "change_saved env io ch d \<longleftrightarrow> bridge_answer env io ch d = Inr ()" for ch
    by (auto simp: change_saved_def bridge_answer_def is_ok_iff)
  note answers = on_changed_settings_answer [unfolded new_effects_def]
    on_set_account_answer [unfolded new_effects_def]
    bridge_handler_answer [unfolded new_effects_def] bridge_handler_settings(1)
  show ?thesis
  proof (cases "(\<exists>x. req = RpcSetBridgeSettings x) \<or> (\<exists>x. req = RpcSetBridgeState x)")
    case True
    then show ?thesis
    proof (elim disjE exE)
      fix x assume "req = RpcSetBridgeSettings x"
      with assms running show ?thesis
        by (auto simp: rpc_serve_def h answers rpc_result_def daemon_answer_def saved
            bridge_settings_result_def split: sum.splits settings_error.splits)
    next
      fix x assume "req = RpcSetBridgeState x"
      with assms running show ?thesis
        by (auto simp: bridge_handler_settings(2) rpc_serve_def h answers rpc_result_def daemon_answer_def saved
            bridge_state_result_def split: sum.splits)
    qed
  next
    case False
    with assms running show ?thesis
      by (cases req) (auto simp: rpc_serve_def h answers rpc_result_def daemon_answer_def
          on_update_relay_settings_def on_set_allow_lan_def on_set_block_when_disconnected_def
          on_set_auto_connect_def on_set_openvpn_mssfix_def on_set_enable_ipv6_def
          on_set_wireguard_mtu_def setters_are_changes send_tunnel_command_def split: if_splits)
  qed
qed

text \<open>The other requests change no setting, except for the reset.\<close>

lemma history_lookup_settings:
  "history_lookup_account env w t d = (r, d') \<Longrightarrow> dm_settings d' = dm_settings d"
  "history_insert_entry env w e d = (r2, d') \<Longrightarrow> dm_settings d' = dm_settings d"
  by (auto simp: history_lookup_account_def history_insert_entry_def split: prod.splits)

lemma reading_handlers_settings:
  "dm_settings (on_generate_wireguard_key env io d) = dm_settings d"
  "dm_settings (on_get_wireguard_key env io d) = dm_settings d"
  "dm_settings (on_verify_wireguard_key env io d) = dm_settings d"
  "dm_settings (on_remove_account_from_history env io t d) = dm_settings d"
  by (auto simp: on_generate_wireguard_key_def on_get_wireguard_key_def on_verify_wireguard_key_def
      on_remove_account_from_history_def Let_def
      split: option.split sum.split prod.split wg_key_error.split dest!: history_lookup_settings)

lemma on_get_current_location_settings:
  "on_get_current_location io d = Returns d' \<Longrightarrow> dm_settings d' = dm_settings d"
  by (auto simp: on_get_current_location_def
      split: daemon_tunnel_state.splits sum.splits option.splits panics.splits)

lemma rpc_reads_settings:
  assumes "rpc_change req = None" and "req \<noteq> RpcFactoryReset"
    and "rpc_serve env io check api req d = Returns (res, d')"
  shows "dm_settings d' = dm_settings d"
proof (cases "is_running (dm_state d)")
  case False
  with assms show ?thesis by (auto simp: rpc_serve_def handle_management_interface_event_def)
next
  case True
  with assms show ?thesis
    by (cases req)
      (auto simp: rpc_serve_def handle_management_interface_event_def on_set_target_state_def
        reading_handlers_settings dest: on_get_current_location_settings split: panics.splits if_splits)
qed

text \<open>
  C25.  Clients are told the truth about their changes.  A request that changes a setting is answered
  with success exactly if the daemon is running and the new settings were saved (or nothing had to
  change); every other outcome is an error.  A running daemon has the requested setting afterwards and
  all other settings as before, except that switching bridges on, if that is a change and was saved,
  also sets the relay constraints to OpenVPN over TCP with any port.  A daemon that is shutting down has
  the old settings.\<close>

theorem setting_request_reported:
  assumes "rpc_change req = Some ch" and "rpc_serve env io check api req d = Returns (res, d')"
  shows "(res = Inr ValUnit \<longleftrightarrow> is_running (dm_state d) \<and> change_saved env io ch d) \<and>
    (res \<noteq> Inr ValUnit \<longrightarrow> (\<exists>e. res = Inl e)) \<and>
    (\<not> is_running (dm_state d) \<longrightarrow> d' = d) \<and>
    (is_running (dm_state d) \<longrightarrow>
       dm_settings d' = setting_result (change_saved env io ch d) ch (dm_settings d))"
  by (rule rpc_setting_outcome [OF assms])

theorem setting_request_reported_witness:
  "\<exists>res d'. rpc_serve sample_env sample_daemon_io (\<lambda>_ _. None)
      \<lparr>ao_account_data = Inl MasterOther, ao_version_info = Inl MasterOther\<rparr>
      (RpcSetAutoConnect True) sample_daemon = Returns (res, d') \<and>
    res = Inr ValUnit \<and> st_auto_connect (dm_settings d')"
proof -
  let ?api = "\<lparr>ao_account_data = Inl MasterOther, ao_version_info = Inl MasterOther\<rparr>"
  have running: "is_running (dm_state sample_daemon)" by (simp add: sample_daemon_def)
  then obtain res d' where r: "rpc_serve sample_env sample_daemon_io (\<lambda>_ _. None) ?api
      (RpcSetAutoConnect True) sample_daemon = Returns (res, d')"
    by (simp add: rpc_serve_def handle_management_interface_event_def)
  have "settings_saved (di_settings sample_daemon_io)"
    by (simp add: settings_saved_def sample_daemon_io_def sample_settings_io_def get_settings_path_def)
  then have "change_saved sample_env sample_daemon_io (ChangeAutoConnect True) sample_daemon"
    by (simp add: change_saved_def settings_saved_ok)
  with setting_request_reported [OF _ r] running have "res = Inr ValUnit \<and> st_auto_connect (dm_settings d')"
    by simp
  with r show ?thesis by blast
qed

section \<open>What subscribers know\<close>

text \<open>The view of a client that applies the events it receives.\<close>

fun view_event :: "daemon_event \<Rightarrow> daemon_tunnel_state \<times> settings \<Rightarrow> daemon_tunnel_state \<times> settings" where
  "view_event (EvTunnelState st) (_, s) = (st, s)"
| "view_event (EvSettings s) (st, _) = (st, s)"
| "view_event _ v = v"

definition client_view :: "daemon_tunnel_state \<times> settings \<Rightarrow> 'g daemon \<Rightarrow> daemon_tunnel_state \<times> settings" where
  "client_view v d = fold view_event (daemon_events (dm_effects d)) v"

lemma map_filter_append: "List.map_filter f (xs @ ys) = List.map_filter f xs @ List.map_filter f ys"
  by (simp add: List.map_filter_def)

lemma client_view_emit [simp]:
  "client_view v (emit e d) =
     (case event_of_effect e of None \<Rightarrow> client_view v d | Some ev \<Rightarrow> view_event ev (client_view v d))"
  by (simp add: client_view_def daemon_events_def map_filter_append List.map_filter_def emit_def
      split: option.split)

lemma client_view_frame [simp]:
  "client_view v (d\<lparr>dm_settings := s\<rparr>) = client_view v d" "client_view v (d\<lparr>dm_files := fs\<rparr>) = client_view v d"
  "client_view v (d\<lparr>dm_tunnel_state := ts\<rparr>) = client_view v d"
  "client_view v (d\<lparr>dm_target_state := t\<rparr>) = client_view v d"
  "client_view v (d\<lparr>dm_state := x\<rparr>) = client_view v d" "client_view v (d\<lparr>dm_reconnect := b\<rparr>) = client_view v d"
  "client_view v (d\<lparr>dm_account_history := h\<rparr>) = client_view v d"
  "client_view v (d\<lparr>dm_key_manager := km\<rparr>) = client_view v d"
  "client_view v (d\<lparr>dm_relay_selector := sel\<rparr>) = client_view v d"
  "client_view v (d\<lparr>dm_last_generated_relay := r\<rparr>) = client_view v d"
  "client_view v (d\<lparr>dm_last_generated_bridge_relay := r\<rparr>) = client_view v d"
  "client_view v (d\<lparr>dm_shutdown_callbacks := cbs\<rparr>) = client_view v d"
  by (simp_all add: client_view_def)

text \<open>Subscribers are up to date: about the tunnel always, about the settings while the daemon runs.\<close>

definition view_current :: "daemon_tunnel_state \<times> settings \<Rightarrow> 'g daemon \<Rightarrow> bool" where
  "view_current v d \<longleftrightarrow> fst (client_view v d) = dm_tunnel_state d \<and>
     (is_running (dm_state d) \<longrightarrow> snd (client_view v d) = dm_settings d)"

lemma client_view_quiet [simp]:
  "client_view v (reconnect_tunnel d) = client_view v d"
  "client_view v (set_target_state t d) = client_view v d"
  "client_view v (send_tunnel_command c d) = client_view v d"
  "client_view v (trigger_shutdown_event d) = client_view v d"
  "client_view v (ensure_wireguard_keys_for_current_account env io d) = client_view v d"
  "client_view v (on_get_wireguard_key env io d) = client_view v d"
  "client_view v (on_verify_wireguard_key env io d) = client_view v d"
  "client_view v (handle_wireguard_key_event env io account result d) = client_view v d"
  "client_view v (on_generate_wireguard_key env io d) = client_view v d"
  "client_view v (refresh_relays io d) = client_view v d"
  by (simp_all add: reconnect_tunnel_def set_target_state_def send_tunnel_command_def connect_tunnel_def
      disconnect_tunnel_def trigger_shutdown_event_def ensure_wireguard_keys_for_current_account_def
      on_get_wireguard_key_def on_verify_wireguard_key_def handle_wireguard_key_event_def
      on_generate_wireguard_key_def refresh_relays_def history_lookup_account_eq
      history_insert_entry_eq Let_def
      split: target_state.split option.split sum.split prod.split wg_key_error.split)

lemma view_core:
  assumes "daemon_core d' = daemon_core d" and "client_view v d' = client_view v d"
  shows "view_current v d' = view_current v d"
  using assms(2) daemon_core_eqD [OF assms(1)] by (simp add: view_current_def)

lemma view_current_quiet:
  "view_current v (on_get_wireguard_key env io d) = view_current v d"
  "view_current v (on_verify_wireguard_key env io d) = view_current v d"
  "view_current v (on_generate_wireguard_key env io d) = view_current v d"
  "view_current v (handle_wireguard_key_event env io account result d) = view_current v d"
  "view_current v (refresh_relays io d) = view_current v d"
  by (rule view_core; simp)+

lemma view_current_emit [simp]:
  "event_of_effect e = None \<Longrightarrow> view_current v (emit e d) = view_current v d"
  "event_of_effect e = Some (EvWireguardKey k) \<Longrightarrow> view_current v (emit e d) = view_current v d"
  by (simp_all add: view_current_def)

text \<open>A change of the settings that was saved is announced.\<close>

lemma view_on_changed:
  assumes "view_current v d" and "settings_saved (di_settings io)"
    and "\<And>x. client_view v (act x) = client_view v x \<and> dm_tunnel_state (act x) = dm_tunnel_state x \<and>
           dm_settings (act x) = dm_settings x \<and> dm_state (act x) = dm_state x"
  shows "view_current v (on_changed_settings env io (apply_change ch) act d)"
  using assms(1) settings_saved_ok [OF assms(2)]
  by (cases "client_view v d")
    (auto simp: on_changed_settings_def change_settings_eq view_current_def assms(3)
      notify_settings_def Let_def)

lemma view_on_set_account:
  assumes "view_current v d" and "settings_saved (di_settings io)"
  shows "view_current v (on_set_account env io t d)"
proof -
  let ?d = "\<lambda>d. ensure_wireguard_keys_for_current_account env io (emit (Reply ReplyUnit) d)"
  have core: "daemon_core (?d x) = daemon_core x" for x :: "'a daemon" by simp
  show ?thesis
    using assms(1) settings_saved_ok [OF assms(2)]
    by (cases "client_view v d"; cases t)
      (auto simp: on_set_account_def setters_are_changes change_settings_eq view_current_def
        notify_settings_def daemon_core_eqD [OF core] Let_def)
qed

lemma view_on_bridge:
  assumes "view_current v d" and "settings_saved (di_settings io)"
  shows "view_current v (on_set_bridge_settings env io bs d)"
    "view_current v (on_set_bridge_state env io b d)"
  using assms(1) settings_saved_ok [OF assms(2)]
  by (cases "client_view v d"; auto simp: on_set_bridge_settings_def on_set_bridge_state_def
      apply_proxy_constraints_def setters_are_changes change_settings_eq view_current_def
      notify_settings_def Let_def)+

lemma view_current_target:
  "view_current v (set_target_state t d) = view_current v d"
  "view_current v d \<Longrightarrow> view_current v (trigger_shutdown_event d)"
  "view_current v (d\<lparr>dm_account_history := h\<rparr>) = view_current v d"
  by (simp_all add: view_current_def)

lemma run_management_command_view:
  assumes "run_management_command env io c d = Returns d'"
    and "view_current v d" and "settings_saved (di_settings io)"
  shows "view_current v d'"
proof (cases c)
  case FactoryReset
  with assms show ?thesis
    by (auto simp: on_factory_reset_def view_current_def Let_def split: prod.splits if_splits)
qed (use assms in \<open>auto simp: on_set_target_state_def on_update_relay_settings_def
       on_set_allow_lan_def on_set_block_when_disconnected_def on_set_auto_connect_def
       on_set_openvpn_mssfix_def on_set_enable_ipv6_def on_set_wireguard_mtu_def
       on_get_current_location_def on_remove_account_from_history_def setters_are_changes
       view_current_quiet view_current_target send_tunnel_command_def
     intro!: view_on_changed view_on_set_account view_on_bridge
     split: daemon_tunnel_state.splits panics.splits sum.splits prod.splits if_splits\<close>)

lemma openvpn_proxy_settings_view:
  "openvpn_proxy_settings env ep location n d = Returns (r, d') \<Longrightarrow> client_view v d' = client_view v d"
  by (auto simp: openvpn_proxy_settings_def Let_def
      split: bridge_settings.splits bridge_state.splits panics.splits option.splits)

lemma handle_generate_view:
  assumes "handle_generate_tunnel_parameters env io n d = Returns d'"
  shows "client_view v d' = client_view v d"
proof -
  have "client_view v d2 = client_view v d1"
    if "create_tunnel_parameters env io relay ep account n d1 = Returns (r, d2)" for relay ep account d1 d2 r
    using that by (auto simp: create_tunnel_parameters_def history_lookup_account_eq Let_def
        dest!: openvpn_proxy_settings_view [where v = v]
        split: option.splits mullvad_endpoint.splits panics.splits sum.splits)
  with assms show ?thesis
    by (fastforce simp: handle_generate_tunnel_parameters_def send_parameters_def Let_def
        split: option.splits relay_settings.splits sum.splits panics.splits if_splits)
qed

lemma handle_transition_view:
  assumes "handle_tunnel_state_transition tr d = Returns d'"
  shows "client_view v d' = (dm_tunnel_state d', snd (client_view v d))"
  using assms
  by (cases "client_view v d") (auto simp: handle_tunnel_state_transition_def schedule_reconnect_def
      unschedule_reconnect_def Let_def
      split: panics.splits daemon_tunnel_state.splits block_reason.splits)

lemma event_view:
  assumes ev: "daemon_handle_event env io e d = Returns (err, d')"
    and "view_current v d" and "settings_saved (di_settings io)"
  shows "view_current v d'"
proof (cases e)
  case (EventTunnelStateTransition tr)
  with ev have "handle_tunnel_state_transition tr d = Returns d'" by (auto split: panics.splits)
  with assms(2) show ?thesis
    using handle_tunnel_state_transition_sel [of tr d d'] handle_transition_view [of tr d d' v]
    by (simp add: view_current_def)
next
  case (EventGenerateTunnelParameters n)
  with ev have "handle_generate_tunnel_parameters env io n d = Returns d'" by (auto split: panics.splits)
  with assms(2) show ?thesis
    using view_core [OF handle_generate_tunnel_parameters_core handle_generate_view] by blast
next
  case (EventManagementCommand c)
  with ev assms(2,3) show ?thesis
    by (auto simp: handle_management_interface_event_def split: panics.splits if_splits
        dest: run_management_command_view)
qed (use assms in \<open>auto simp: view_current_quiet view_current_target\<close>)

lemma finalize_view [simp]: "view_current v (daemon_finalize env dirs d) = view_current v d"
proof -
  have "List.map_filter event_of_effect (map Reply rs) = []" for rs
    by (induction rs) (simp_all add: List.map_filter_def)
  then show ?thesis
    by (simp add: view_current_def client_view_def daemon_events_def daemon_finalize_def
        map_filter_append)
qed

text \<open>
  C26.  A client that was given the state and settings of the daemon when it subscribed, and applies the
  events it receives, knows the tunnel state at every moment, and the settings as long as the daemon
  is running, whatever happens, provided that settings could be saved.\<close>

theorem subscribers_up_to_date:
  assumes "start_internal env io ok1 ok2 ok3 selector loaded history spawn version = Inr d0"
    and "daemon_run env es dirs d0 = Returns (r, d)"
    and "\<forall>(io, e) \<in> set es. settings_saved (di_settings io)"
  shows "fst (client_view (dm_tunnel_state d0, dm_settings d0) d) = dm_tunnel_state d \<and>
    (is_running (dm_state d) \<longrightarrow>
       snd (client_view (dm_tunnel_state d0, dm_settings d0) d) = dm_settings d)"
proof -
  let ?v = "(dm_tunnel_state d0, dm_settings d0)"
  have "client_view ?v d0 = ?v"
    using assms(1) by (auto simp: start_internal_def client_view_def daemon_events_def List.map_filter_def
        split: if_splits prod.splits sum.splits)
  then have "view_current ?v (daemon_auto_connect d0)"
    by (simp add: daemon_auto_connect_def view_current_def)
  with assms(2) have "view_current ?v d"
    using start_internal_Inr(2) [OF assms(1)] assms(3)
    by (elim daemon_run_invariant) (auto simp: view_current_quiet dest: event_view)
  then show ?thesis by (simp add: view_current_def)
qed

theorem subscribers_up_to_date_witness:
  "\<exists>d0 d. sample_start = Inr d0 \<and>
    daemon_run sample_env [(sample_daemon_io, EventTunnelStateTransition (TrBlocked IsOffline))] [] d0 =
      Returns (None, d) \<and>
    fst (client_view (dm_tunnel_state d0, dm_settings d0) d) = DtBlocked IsOffline"
proof -
  obtain d0 where d0: "sample_start = Inr d0" using sample_start_Inr ..
  note s = start_internal_Inr [OF d0 [unfolded sample_start_def]]
  have saved: "\<forall>(io, e) \<in> set [(sample_daemon_io, EventTunnelStateTransition (TrBlocked IsOffline))].
      settings_saved (di_settings io)"
    by (simp add: settings_saved_def sample_daemon_io_def sample_settings_io_def get_settings_path_def)
  obtain d where d: "daemon_run sample_env
      [(sample_daemon_io, EventTunnelStateTransition (TrBlocked IsOffline))] [] d0 = Returns (None, d)"
      "dm_tunnel_state d = DtBlocked IsOffline"
    using s(1,2) by (auto simp: daemon_run_def daemon_auto_connect_def settings_default_def
        handle_tunnel_state_transition_def tunnel_state_of_transition_def unschedule_reconnect_def
        refresh_relays_def sample_daemon_io_def Let_def)
  with subscribers_up_to_date [OF d0 [unfolded sample_start_def] d(1) saved] d0 show ?thesis by auto
qed

section \<open>Subscriptions\<close>

lemma subscribe_cases:
  assumes "daemon_event_subscribe ids assigned sink subs = Some subs'"
  shows "\<exists>i \<in> set ids. map_of subs i = None \<and> subs' = (if assigned then (i, sink) # subs else subs)"
  using assms by (induction ids) (auto split: if_splits)

lemma subscribe_Some_iff:
  "daemon_event_subscribe ids assigned sink subs \<noteq> None \<longleftrightarrow> (\<exists>i \<in> set ids. map_of subs i = None)"
  by (induction ids) auto

text \<open>
  Subscribing ends as soon as one more identifier has been drawn than there are subscriptions,
  provided the draws differ.  The new subscription gets an identifier of its own, the others are
  kept, and the identifiers stay distinct; every event is then sent to each subscriber once.
  Unsubscribing with an identifier removes exactly that subscription, and fails for an unknown one.\<close>

theorem subscriptions_kept_apart:
  assumes "distinct (map fst subs)" and "distinct ids" and "length subs < length ids"
  shows "\<exists>i subs'. daemon_event_subscribe ids True sink subs = Some subs' \<and> map_of subs i = None \<and>
    map_of subs' = (map_of subs)(i \<mapsto> sink) \<and> distinct (map fst subs') \<and>
    broadcast ev subs' = (sink, ev) # broadcast ev subs \<and>
    daemon_event_unsubscribe i subs' = (Inr (), subs) \<and>
    fst (daemon_event_unsubscribe i subs) = Inl (ApiInvalidParams ''Invalid subscription'')"
proof -
  have "\<not> set ids \<subseteq> fst ` set subs"
  proof
    assume "set ids \<subseteq> fst ` set subs"
    then have "card (set ids) \<le> card (fst ` set subs)" by (intro card_mono) simp_all
    also have "\<dots> \<le> length subs" by (metis card_length length_map set_map)
    finally show False using assms(2,3) distinct_card [of ids] by simp
  qed
  then have "daemon_event_subscribe ids True sink subs \<noteq> None"
    unfolding subscribe_Some_iff by (auto simp: map_of_eq_None_iff)
  then obtain subs' where subs': "daemon_event_subscribe ids True sink subs = Some subs'" by blast
  from subscribe_cases [OF this] obtain i where i: "map_of subs i = None" "subs' = (i, sink) # subs"
    by auto
  then have "filter (\<lambda>(j, _). j \<noteq> i) subs = subs"
    by (intro filter_True) (force simp: map_of_eq_None_iff)
  with i subs' assms(1) show ?thesis
    by (intro exI [of _ i] exI [of _ subs'])
      (auto simp: broadcast_def daemon_event_unsubscribe_def map_of_eq_None_iff)
qed

theorem subscriptions_kept_apart_witness:
  "\<exists>i subs'. daemon_event_subscribe [''a'', ''b''] True (2 :: nat) [(''a'', 1)] = Some subs' \<and>
    map_of subs' = [''a'' \<mapsto> 1, i \<mapsto> 2] \<and> distinct (map fst subs')"
  using subscriptions_kept_apart [of "[(''a'', 1 :: nat)]" "[''a'', ''b'']" 2] by auto

section \<open>Requests to a daemon that shuts down\<close>

text \<open>Connecting never reports a missing account token: the daemon always answers with success.\<close>

lemma connect_never_refused:
  assumes "rpc_serve env io check api RpcConnect d = Returns (res, d')"
  shows "res = (if is_running (dm_state d) then Inr ValUnit else Inl ApiInternalError)"
proof -
  have "first_reply check (es @ [Reply (ReplyTargetState (Inr ()))]) = Some (ReplyTargetState (Inr ()))"
    if "set es \<subseteq> range TunnelCommand" for es
    using that by (induction es) auto
  moreover obtain es where "dm_effects (set_target_state Secured d) = dm_effects d @ es"
    "set es \<subseteq> range TunnelCommand"
    by (cases "Secured \<noteq> dm_target_state d \<or> is_blocked (dm_tunnel_state d)")
      (auto simp: set_target_state_def connect_tunnel_def send_tunnel_command_def)
  ultimately show ?thesis
    using assms
    by (auto simp: rpc_serve_def handle_management_interface_event_def on_set_target_state_def
        rpc_result_def daemon_answer_def connect_result_def)
qed

end
