(* ===== verification/Firewall_Macos.thy ===== *)
theory Firewall_Macos
  imports Firewall_Policy
begin

text \<open>
  The macOS firewall (\<open>talpid-core/src/firewall/macos.rs\<close>): the rules built for each policy and the calls
  to the packet filter pf.  The crate \<open>pfctl\<close> and the kernel are outside the repository: a rule is the
  record of what its builder was told, and the calls are the fields of the record \<open>pfctl\<close>, which
  change the state \<open>'k\<close> of the packet filter and may fail.
\<close>

section \<open>Results\<close>

text \<open>The operator \<open>?\<close> of Rust, on plain results and on calls that change a state.\<close>

definition and_then :: "'e + 'a \<Rightarrow> ('a \<Rightarrow> 'e + 'b) \<Rightarrow> 'e + 'b" where
  "and_then r f = (case r of Inl e \<Rightarrow> Inl e | Inr x \<Rightarrow> f x)"

definition call_then :: "('s \<Rightarrow> ('e + 'a) \<times> 's) \<Rightarrow> ('a \<Rightarrow> 's \<Rightarrow> ('e + 'b) \<times> 's) \<Rightarrow> 's \<Rightarrow> ('e + 'b) \<times> 's" where
  "call_then f g s = (case f s of (Inl e, s') \<Rightarrow> (Inl e, s') | (Inr x, s') \<Rightarrow> g x s')"

text \<open>Several fallible computations in a row: all their values, or the first error.\<close>

fun try_all :: "('e + 'a) list \<Rightarrow> 'e + 'a list" where
  "try_all [] = Inr []"
| "try_all (r # rs) = and_then r (\<lambda>x. and_then (try_all rs) (\<lambda>xs. Inr (x # xs)))"

section \<open>Rules of the packet filter\<close>

datatype rule_logging = LogNone | LogPass | LogDrop | LogAll

datatype filter_rule_action = RulePass | RuleDrop

datatype pf_proto = PfUdp | PfTcp | PfIcmp | PfIcmpV6

datatype addr_family = FamilyIpv4 | FamilyIpv6

datatype tcp_flag = Syn | Ack

datatype pf_ip = IpAny | IpNet ip_network

datatype pf_port = PortAny | PortIs u16

record pf_endpoint =
  pfe_ip :: pf_ip
  pfe_port :: pf_port

record filter_rule =
  fr_action :: filter_rule_action
  fr_direction :: "direction option"
  fr_quick :: bool
  fr_log :: bool
  fr_interface :: "string option"
  fr_proto :: "pf_proto option"
  fr_af :: "addr_family option"
  fr_from :: pf_endpoint
  fr_to :: pf_endpoint
  fr_keep_state :: bool
  fr_tcp_flags :: "(tcp_flag list \<times> tcp_flag list) option"

text \<open>The conversions of the crate into the endpoint of a rule.\<close>

fun net_of_addr :: "ip_addr \<Rightarrow> ip_network" where
  "net_of_addr (V4 a) = NetV4 a 32"
| "net_of_addr (V6 a) = NetV6 a 128"

definition to_any :: pf_endpoint where
  "to_any = \<lparr>pfe_ip = IpAny, pfe_port = PortAny\<rparr>"

definition to_port :: "u16 \<Rightarrow> pf_endpoint" where
  "to_port port = \<lparr>pfe_ip = IpAny, pfe_port = PortIs port\<rparr>"

definition to_net :: "ip_network \<Rightarrow> pf_endpoint" where
  "to_net n = \<lparr>pfe_ip = IpNet n, pfe_port = PortAny\<rparr>"

definition to_net_port :: "ip_network \<Rightarrow> u16 \<Rightarrow> pf_endpoint" where
  "to_net_port n port = \<lparr>pfe_ip = IpNet n, pfe_port = PortIs port\<rparr>"

definition to_addr_port :: "ip_addr \<Rightarrow> u16 \<Rightarrow> pf_endpoint" where
  "to_addr_port a port = to_net_port (net_of_addr a) port"

section \<open>The calls of the crate and the state of the firewall\<close>

type_synonym pf_error = string

datatype anchor_kind = AnchorFilter | AnchorRedirect

record 'k pfctl =
  pc_build :: "filter_rule \<Rightarrow> pf_error + filter_rule"
  pc_is_enabled :: "'k \<Rightarrow> (pf_error + bool) \<times> 'k"
  pc_try_enable :: "'k \<Rightarrow> (pf_error + unit) \<times> 'k"
  pc_try_disable :: "'k \<Rightarrow> (pf_error + unit) \<times> 'k"
  pc_try_add_anchor :: "string \<Rightarrow> anchor_kind \<Rightarrow> 'k \<Rightarrow> (pf_error + unit) \<times> 'k"
  pc_try_remove_anchor :: "string \<Rightarrow> anchor_kind \<Rightarrow> 'k \<Rightarrow> (pf_error + unit) \<times> 'k"
  pc_set_rules :: "string \<Rightarrow> filter_rule list \<Rightarrow> 'k \<Rightarrow> (pf_error + unit) \<times> 'k"
  pc_flush_rules :: "string \<Rightarrow> 'k \<Rightarrow> (pf_error + unit) \<times> 'k"

record 'k macos_firewall =
  mf_pf :: 'k
  mf_pf_was_enabled :: "bool option"
  mf_rule_logging :: rule_logging

definition ANCHOR_NAME :: string where
  "ANCHOR_NAME = ''mullvad''"

text \<open>\<open>Firewall::new\<close>, given the environment variable \<open>TALPID_FIREWALL_DEBUG\<close> and the outcome of \<open>PfCtl::new\<close>.\<close>

definition rule_logging_of :: "string option \<Rightarrow> rule_logging" where
  "rule_logging_of debugging =
     (if debugging = Some ''pass'' then LogPass
      else if debugging = Some ''drop'' then LogDrop
      else if debugging = Some ''all'' then LogAll
      else LogNone)"

definition macos_firewall_new ::
    "string option \<Rightarrow> pf_error + 'k \<Rightarrow> firewall_arguments \<Rightarrow> pf_error + 'k macos_firewall" where
  "macos_firewall_new debugging opened args =
     and_then opened (\<lambda>pf. Inr \<lparr>mf_pf = pf, mf_pf_was_enabled = None,
       mf_rule_logging = rule_logging_of debugging\<rparr>)"

section \<open>Rule builders\<close>

definition create_rule_builder :: "rule_logging \<Rightarrow> filter_rule_action \<Rightarrow> filter_rule" where
  "create_rule_builder logging action =
     \<lparr>fr_action = action, fr_direction = None, fr_quick = False,
      fr_log = (logging = LogPass \<and> action = RulePass \<or> logging = LogDrop \<and> action = RuleDrop \<or>
                logging = LogAll),
      fr_interface = None, fr_proto = None, fr_af = None, fr_from = to_any, fr_to = to_any,
      fr_keep_state = False, fr_tcp_flags = None\<rparr>"

fun as_pfctl_proto :: "transport_protocol \<Rightarrow> pf_proto" where
  "as_pfctl_proto Udp = PfUdp"
| "as_pfctl_proto Tcp = PfTcp"

definition get_tcp_flags :: "tcp_flag list \<times> tcp_flag list" where
  "get_tcp_flags = ([Syn], [Syn, Ack])"

definition relay_rule :: "rule_logging \<Rightarrow> endpoint \<Rightarrow> filter_rule" where
  "relay_rule lg relay_endpoint =
     (create_rule_builder lg RulePass)
       \<lparr>fr_direction := Some DirOut,
        fr_to := to_addr_port (sa_ip (address relay_endpoint)) (sa_port (address relay_endpoint)),
        fr_proto := Some (as_pfctl_proto (protocol relay_endpoint)),
        fr_keep_state := True, fr_tcp_flags := Some get_tcp_flags, fr_quick := True\<rparr>"

definition get_allow_relay_rule :: "'k pfctl \<Rightarrow> rule_logging \<Rightarrow> endpoint \<Rightarrow> pf_error + filter_rule" where
  "get_allow_relay_rule pc lg relay_endpoint = pc_build pc (relay_rule lg relay_endpoint)"

fun pf_icmp_proto :: "ip_addr \<Rightarrow> pf_proto" where
  "pf_icmp_proto (V4 _) = PfIcmp"
| "pf_icmp_proto (V6 _) = PfIcmpV6"

definition pingable_rules :: "rule_logging \<Rightarrow> ip_addr \<Rightarrow> filter_rule list" where
  "pingable_rules lg host =
     [(create_rule_builder lg RulePass)
        \<lparr>fr_quick := True, fr_direction := Some DirOut, fr_proto := Some (pf_icmp_proto host),
         fr_to := to_addr_port host 0, fr_keep_state := True\<rparr>,
      (create_rule_builder lg RulePass)
        \<lparr>fr_quick := True, fr_direction := Some DirIn, fr_proto := Some (pf_icmp_proto host),
         fr_from := to_addr_port host 0, fr_keep_state := True\<rparr>]"

definition get_allow_pingable_hosts ::
    "'k pfctl \<Rightarrow> rule_logging \<Rightarrow> ip_addr list \<Rightarrow> pf_error + filter_rule list" where
  "get_allow_pingable_hosts pc lg pingable_hosts =
     try_all (map (pc_build pc) (concat (map (pingable_rules lg) pingable_hosts)))"

definition tunnel_rule :: "rule_logging \<Rightarrow> string \<Rightarrow> filter_rule" where
  "tunnel_rule lg tunnel_interface =
     (create_rule_builder lg RulePass)
       \<lparr>fr_quick := True, fr_interface := Some tunnel_interface, fr_keep_state := True,
        fr_tcp_flags := Some get_tcp_flags\<rparr>"

definition get_allow_tunnel_rule :: "'k pfctl \<Rightarrow> rule_logging \<Rightarrow> string \<Rightarrow> pf_error + filter_rule" where
  "get_allow_tunnel_rule pc lg tunnel_interface = pc_build pc (tunnel_rule lg tunnel_interface)"

definition loopback_rule :: "rule_logging \<Rightarrow> filter_rule" where
  "loopback_rule lg =
     (create_rule_builder lg RulePass)
       \<lparr>fr_quick := True, fr_interface := Some ''lo0'', fr_keep_state := True\<rparr>"

definition get_allow_loopback_rules :: "'k pfctl \<Rightarrow> rule_logging \<Rightarrow> pf_error + filter_rule list" where
  "get_allow_loopback_rules pc lg = try_all [pc_build pc (loopback_rule lg)]"

definition lan_net_rules :: "rule_logging \<Rightarrow> ip_network \<Rightarrow> filter_rule list" where
  "lan_net_rules lg n =
     (let rule_builder = (create_rule_builder lg RulePass)\<lparr>fr_quick := True\<rparr>;
          allow_out = rule_builder\<lparr>fr_direction := Some DirOut, fr_from := to_any, fr_to := to_net n\<rparr>;
          allow_in = allow_out\<lparr>fr_direction := Some DirIn, fr_from := to_net n, fr_to := to_any\<rparr>
      in [allow_out, allow_in])"

definition multicast_rule :: "rule_logging \<Rightarrow> ip_network \<Rightarrow> filter_rule" where
  "multicast_rule lg n =
     (create_rule_builder lg RulePass)
       \<lparr>fr_quick := True, fr_direction := Some DirOut, fr_to := to_net n\<rparr>"

definition lan_dhcp_rules :: "rule_logging \<Rightarrow> filter_rule list" where
  "lan_dhcp_rules lg =
     [(create_rule_builder lg RulePass)
        \<lparr>fr_quick := True, fr_direction := Some DirOut, fr_af := Some FamilyIpv4,
         fr_from := to_port DHCPV4_SERVER_PORT, fr_to := to_port DHCPV4_CLIENT_PORT\<rparr>,
      (create_rule_builder lg RulePass)
        \<lparr>fr_quick := True, fr_direction := Some DirIn, fr_from := to_port DHCPV4_CLIENT_PORT,
         fr_to := to_addr_port (V4 ipv4_broadcast) DHCPV4_SERVER_PORT\<rparr>]"

definition get_allow_lan_rules :: "'k pfctl \<Rightarrow> rule_logging \<Rightarrow> pf_error + filter_rule list" where
  "get_allow_lan_rules pc lg =
     try_all (map (pc_build pc)
       (concat (map (lan_net_rules lg) ALLOWED_LAN_NETS) @
        map (multicast_rule lg) ALLOWED_LAN_MULTICAST_NETS @ lan_dhcp_rules lg))"

text \<open>
  The DHCP rules are built one after the other by the same builder, which keeps what a later rule
  does not set again.
\<close>

definition dhcp_client_rules :: "rule_logging \<Rightarrow> filter_rule list" where
  "dhcp_client_rules lg =
     (let b = (create_rule_builder lg RulePass)\<lparr>fr_quick := True, fr_proto := Some PfUdp\<rparr>;
          b4 = b\<lparr>fr_af := Some FamilyIpv4\<rparr>;
          out_v4 = b4\<lparr>fr_direction := Some DirOut, fr_from := to_port DHCPV4_CLIENT_PORT,
                     fr_to := to_addr_port (V4 ipv4_broadcast) DHCPV4_SERVER_PORT\<rparr>;
          in_v4 = out_v4\<lparr>fr_direction := Some DirIn, fr_from := to_port DHCPV4_SERVER_PORT,
                        fr_to := to_port DHCPV4_CLIENT_PORT\<rparr>;
          b6 = in_v4\<lparr>fr_af := Some FamilyIpv6\<rparr>;
          out_v6 = (\<lambda>server. b6\<lparr>fr_direction := Some DirOut,
                      fr_from := to_net_port IPV6_LINK_LOCAL DHCPV6_CLIENT_PORT,
                      fr_to := to_addr_port (V6 server) DHCPV6_SERVER_PORT\<rparr>);
          in_v6 = b6\<lparr>fr_direction := Some DirIn,
                    fr_from := to_net_port IPV6_LINK_LOCAL DHCPV6_SERVER_PORT,
                    fr_to := to_net_port IPV6_LINK_LOCAL DHCPV6_CLIENT_PORT\<rparr>
      in [out_v4, in_v4] @ map out_v6 DHCPV6_SERVER_ADDRS @ [in_v6])"

definition ndp_rules :: "rule_logging \<Rightarrow> filter_rule list" where
  "ndp_rules lg =
     [(create_rule_builder lg RulePass)
        \<lparr>fr_quick := True, fr_proto := Some PfIcmpV6, fr_direction := Some DirOut,
         fr_to := to_net (net_of_addr (V6 ROUTER_SOLICITATION_OUT_DST_ADDR))\<rparr>,
      (create_rule_builder lg RulePass)
        \<lparr>fr_quick := True, fr_proto := Some PfIcmpV6, fr_direction := Some DirIn,
         fr_from := to_net IPV6_LINK_LOCAL\<rparr>]"

definition get_allow_dhcp_client_rules :: "'k pfctl \<Rightarrow> rule_logging \<Rightarrow> pf_error + filter_rule list" where
  "get_allow_dhcp_client_rules pc lg =
     try_all (map (pc_build pc) (dhcp_client_rules lg @ ndp_rules lg))"

text \<open>The rules of the \<open>Connected\<close> policy that steer DNS into the tunnel.\<close>

definition tunnel_dns_rule :: "rule_logging \<Rightarrow> string \<Rightarrow> pf_proto \<Rightarrow> ip_addr \<Rightarrow> filter_rule" where
  "tunnel_dns_rule lg iface proto gateway =
     (create_rule_builder lg RulePass)
       \<lparr>fr_direction := Some DirOut, fr_quick := True, fr_interface := Some iface,
        fr_proto := Some proto, fr_to := to_addr_port gateway 53\<rparr>"

definition block_dns_rule :: "rule_logging \<Rightarrow> pf_proto \<Rightarrow> filter_rule" where
  "block_dns_rule lg proto =
     (create_rule_builder lg RuleDrop)
       \<lparr>fr_direction := Some DirOut, fr_quick := True, fr_proto := Some proto, fr_to := to_port 53\<rparr>"

definition dns_rules :: "rule_logging \<Rightarrow> tunnel_metadata \<Rightarrow> filter_rule list" where
  "dns_rules lg t =
     [tunnel_dns_rule lg (tm_interface t) PfTcp (V4 (tm_ipv4_gateway t)),
      tunnel_dns_rule lg (tm_interface t) PfUdp (V4 (tm_ipv4_gateway t))] @
     (case tm_ipv6_gateway t of
        None \<Rightarrow> []
      | Some gateway \<Rightarrow>
          [tunnel_dns_rule lg (tm_interface t) PfTcp (V6 gateway),
           tunnel_dns_rule lg (tm_interface t) PfUdp (V6 gateway)]) @
     [block_dns_rule lg PfTcp, block_dns_rule lg PfUdp]"

definition lan_rules_if :: "'k pfctl \<Rightarrow> rule_logging \<Rightarrow> bool \<Rightarrow> pf_error + filter_rule list" where
  "lan_rules_if pc lg allow_lan = (if allow_lan then get_allow_lan_rules pc lg else Inr [])"

fun get_policy_specific_rules ::
    "'k pfctl \<Rightarrow> rule_logging \<Rightarrow> firewall_policy \<Rightarrow> pf_error + filter_rule list" where
  "get_policy_specific_rules pc lg (PolicyConnecting peer pingable_hosts allow_lan) =
     and_then (get_allow_relay_rule pc lg peer) (\<lambda>relay.
     and_then (get_allow_pingable_hosts pc lg pingable_hosts) (\<lambda>pings.
     and_then (lan_rules_if pc lg allow_lan) (\<lambda>lan.
     Inr (relay # pings @ lan))))"
| "get_policy_specific_rules pc lg (PolicyConnected peer tunnel allow_lan) =
     and_then (try_all (map (pc_build pc) (dns_rules lg tunnel))) (\<lambda>dns.
     and_then (get_allow_relay_rule pc lg peer) (\<lambda>relay.
     and_then (get_allow_tunnel_rule pc lg (tm_interface tunnel)) (\<lambda>tun.
     and_then (lan_rules_if pc lg allow_lan) (\<lambda>lan.
     Inr (dns @ [relay, tun] @ lan)))))"
| "get_policy_specific_rules pc lg (PolicyBlocked allow_lan) = lan_rules_if pc lg allow_lan"

definition drop_all_rule :: "rule_logging \<Rightarrow> filter_rule" where
  "drop_all_rule lg = (create_rule_builder lg RuleDrop)\<lparr>fr_quick := True\<rparr>"

definition new_filter_rules ::
    "'k pfctl \<Rightarrow> rule_logging \<Rightarrow> firewall_policy \<Rightarrow> pf_error + filter_rule list" where
  "new_filter_rules pc lg policy =
     and_then (get_allow_loopback_rules pc lg) (\<lambda>loopback.
     and_then (get_allow_dhcp_client_rules pc lg) (\<lambda>dhcp.
     and_then (get_policy_specific_rules pc lg policy) (\<lambda>specific.
     and_then (pc_build pc (drop_all_rule lg)) (\<lambda>drop_all.
     Inr (loopback @ dhcp @ specific @ [drop_all])))))"

section \<open>Operations\<close>

text \<open>A call of the crate on the packet filter inside the firewall.\<close>

definition on_pf :: "('k \<Rightarrow> (pf_error + 'a) \<times> 'k) \<Rightarrow> 'k macos_firewall
    \<Rightarrow> (pf_error + 'a) \<times> 'k macos_firewall" where
  "on_pf f fw = (case f (mf_pf fw) of (r, k) \<Rightarrow> (r, fw\<lparr>mf_pf := k\<rparr>))"

definition macos_set_rules :: "'k pfctl \<Rightarrow> firewall_policy \<Rightarrow> 'k macos_firewall
    \<Rightarrow> (pf_error + unit) \<times> 'k macos_firewall" where
  "macos_set_rules pc policy fw =
     (case new_filter_rules pc (mf_rule_logging fw) policy of
        Inl e \<Rightarrow> (Inl e, fw)
      | Inr rules \<Rightarrow> on_pf (pc_set_rules pc ANCHOR_NAME rules) fw)"

definition macos_remove_rules :: "'k pfctl \<Rightarrow> 'k macos_firewall \<Rightarrow> (pf_error + unit) \<times> 'k macos_firewall" where
  "macos_remove_rules pc = on_pf (pc_flush_rules pc ANCHOR_NAME)"

definition macos_enable :: "'k pfctl \<Rightarrow> 'k macos_firewall \<Rightarrow> (pf_error + unit) \<times> 'k macos_firewall" where
  "macos_enable pc =
     call_then
       (\<lambda>fw. if mf_pf_was_enabled fw = None
             then call_then (on_pf (pc_is_enabled pc))
                    (\<lambda>b fw. (Inr (), fw\<lparr>mf_pf_was_enabled := Some b\<rparr>)) fw
             else (Inr (), fw))
       (\<lambda>_. on_pf (pc_try_enable pc))"

definition macos_restore_state :: "'k pfctl \<Rightarrow> 'k macos_firewall \<Rightarrow> (pf_error + unit) \<times> 'k macos_firewall" where
  "macos_restore_state pc fw =
     (case mf_pf_was_enabled fw of
        Some True \<Rightarrow> on_pf (pc_try_enable pc) (fw\<lparr>mf_pf_was_enabled := None\<rparr>)
      | Some False \<Rightarrow> on_pf (pc_try_disable pc) (fw\<lparr>mf_pf_was_enabled := None\<rparr>)
      | None \<Rightarrow> (Inr (), fw))"

definition macos_add_anchor :: "'k pfctl \<Rightarrow> 'k macos_firewall \<Rightarrow> (pf_error + unit) \<times> 'k macos_firewall" where
  "macos_add_anchor pc =
     call_then (on_pf (pc_try_add_anchor pc ANCHOR_NAME AnchorFilter))
       (\<lambda>_. on_pf (pc_try_add_anchor pc ANCHOR_NAME AnchorRedirect))"

definition macos_remove_anchor :: "'k pfctl \<Rightarrow> 'k macos_firewall \<Rightarrow> (pf_error + unit) \<times> 'k macos_firewall" where
  "macos_remove_anchor pc =
     call_then (on_pf (pc_try_remove_anchor pc ANCHOR_NAME AnchorFilter))
       (\<lambda>_. on_pf (pc_try_remove_anchor pc ANCHOR_NAME AnchorRedirect))"

definition macos_apply_policy :: "'k pfctl \<Rightarrow> firewall_policy \<Rightarrow> 'k macos_firewall
    \<Rightarrow> (pf_error + unit) \<times> 'k macos_firewall" where
  "macos_apply_policy pc policy =
     call_then (macos_enable pc) (\<lambda>_. call_then (macos_add_anchor pc) (\<lambda>_. macos_set_rules pc policy))"

text \<open>All three steps of a reset are run; the first error is returned.\<close>

definition macos_reset_policy :: "'k pfctl \<Rightarrow> 'k macos_firewall \<Rightarrow> (pf_error + unit) \<times> 'k macos_firewall" where
  "macos_reset_policy pc fw =
     (let (removed, fw1) = macos_remove_rules pc fw;
          (unanchored, fw2) = macos_remove_anchor pc fw1;
          (restored, fw3) = macos_restore_state pc fw2
      in (map_sum id (\<lambda>_. ()) (try_all [removed, unanchored, restored]), fw3))"

end
