(* ===== verification/Firewall_Macos_Props.thy ===== *)
theory Firewall_Macos_Props
  imports Firewall_Macos Leak_Freedom
begin

text \<open>
  Correctness of the macOS firewall.  The locale \<open>pf_evaluation\<close> states how the packet filter decides
  about a packet that belongs to no known state, the locale \<open>pf_control\<close> what the calls of \<open>pfctl\<close> do to
  it; a reference packet filter instantiates both.  The decisions of the rules of every policy are computed
  (\<open>macos_allows\<close>, a description of the rules), compared with the documented block/allow specification
  \<open>policy_allows\<close>, with the differences listed, and the contract \<open>firewall_interface\<close> is derived, so that the
  state machine can be run on this firewall.
\<close>

section \<open>How rules are evaluated\<close>

text \<open>
  A packet with the TCP flags that are set in it.  The ports of a packet that is neither TCP nor UDP
  count as 0; a TCP or UDP packet without its header has none.
\<close>

record pf_packet =
  pp_packet :: packet
  pp_tcp_flags :: "tcp_flag set"

fun pf_ports :: "l4_header \<Rightarrow> (u16 \<times> u16) option" where
  "pf_ports (L4Udp s d) = Some (s, d)"
| "pf_ports (L4Tcp s d) = Some (s, d)"
| "pf_ports (L4Icmp _ _) = Some (0, 0)"
| "pf_ports (L4Icmpv6 _ _) = Some (0, 0)"
| "pf_ports (L4Other n) = (if n = 6 \<or> n = 17 then None else Some (0, 0))"

fun pf_proto_number :: "pf_proto \<Rightarrow> u8" where
  "pf_proto_number PfUdp = 17"
| "pf_proto_number PfTcp = 6"
| "pf_proto_number PfIcmp = 1"
| "pf_proto_number PfIcmpV6 = 58"

fun family_is :: "addr_family \<Rightarrow> l3_header \<Rightarrow> bool" where
  "family_is FamilyIpv4 (L3V4 _ _) = True"
| "family_is FamilyIpv6 (L3V6 _ _) = True"
| "family_is _ _ = False"

definition endpoint_matches :: "pf_endpoint \<Rightarrow> ip_addr \<Rightarrow> u16 option \<Rightarrow> bool" where
  "endpoint_matches e a port \<longleftrightarrow>
     (case pfe_ip e of IpAny \<Rightarrow> True | IpNet n \<Rightarrow> in_net a n) \<and>
     (case pfe_port e of PortAny \<Rightarrow> True | PortIs x \<Rightarrow> port = Some x)"

definition flags_match :: "(tcp_flag list \<times> tcp_flag list) option \<Rightarrow> pf_packet \<Rightarrow> bool" where
  "flags_match flags q \<longleftrightarrow>
     (case flags of None \<Rightarrow> True
      | Some (check, among) \<Rightarrow>
          l4_number (pk_l4 (pp_packet q)) = 6 \<longrightarrow> pp_tcp_flags q \<inter> set among = set check)"

abbreviation given :: "('a \<Rightarrow> bool) \<Rightarrow> 'a option \<Rightarrow> bool" where
  "given P x \<equiv> (case x of None \<Rightarrow> True | Some y \<Rightarrow> P y)"

definition rule_matches :: "(string \<Rightarrow> u32 option) \<Rightarrow> filter_rule \<Rightarrow> pf_packet \<Rightarrow> bool" where
  "rule_matches ifx r q \<longleftrightarrow>
     (let p = pp_packet q in
      given (\<lambda>d. pk_dir p = d) (fr_direction r) \<and>
      given (\<lambda>i. ifx i = Some (pk_iface p)) (fr_interface r) \<and>
      given (\<lambda>x. l4_number (pk_l4 p) = pf_proto_number x) (fr_proto r) \<and>
      given (\<lambda>a. family_is a (pk_l3 p)) (fr_af r) \<and>
      endpoint_matches (fr_from r) (l3_src (pk_l3 p)) (map_option fst (pf_ports (pk_l4 p))) \<and>
      endpoint_matches (fr_to r) (l3_dst (pk_l3 p)) (map_option snd (pf_ports (pk_l4 p))) \<and>
      flags_match (fr_tcp_flags r) q)"

text \<open>
  The decision of the rules of an anchor about a packet without a state: a matching rule with \<open>quick\<close>
  decides at once.  \<open>ifx\<close> gives the index of an interface.
\<close>

locale pf_evaluation =
  fixes ifx :: "string \<Rightarrow> u32 option"
    and decide :: "filter_rule list \<Rightarrow> pf_packet \<Rightarrow> filter_rule_action option"
  assumes decide_nil: "decide [] q = None"
    and decide_quick: "rule_matches ifx r q \<Longrightarrow> fr_quick r \<Longrightarrow> decide (r # rs) q = Some (fr_action r)"
    and decide_skip: "\<not> rule_matches ifx r q \<Longrightarrow> decide (r # rs) q = decide rs q"
begin

lemma decide_first:
  "\<forall>r \<in> set rs. fr_quick r \<Longrightarrow> decide rs q = map_option fr_action (find (\<lambda>r. rule_matches ifx r q) rs)"
  by (induction rs) (auto simp: decide_nil decide_quick decide_skip)

end

text \<open>
  The reference evaluation: without \<open>quick\<close> the last matching rule decides.
\<close>

fun pf_decide_from :: "filter_rule_action option \<Rightarrow> (string \<Rightarrow> u32 option) \<Rightarrow> filter_rule list \<Rightarrow> pf_packet
    \<Rightarrow> filter_rule_action option" where
  "pf_decide_from acc ifx [] q = acc"
| "pf_decide_from acc ifx (r # rs) q =
     (if rule_matches ifx r q
      then (if fr_quick r then Some (fr_action r) else pf_decide_from (Some (fr_action r)) ifx rs q)
      else pf_decide_from acc ifx rs q)"

interpretation ref_pf: pf_evaluation ifx "pf_decide_from None ifx" for ifx
  by unfold_locales simp_all

section \<open>What the rules of a policy let through\<close>

text \<open>
  The packets without a state that are let through on macOS.  A TCP connection through the tunnel or to
  the relay is recognised by its first packet; what follows belongs to its state.
\<close>

definition starts_connection :: "pf_packet \<Rightarrow> bool" where
  "starts_connection q \<longleftrightarrow> (l4_number (pk_l4 (pp_packet q)) = 6 \<longrightarrow> pp_tcp_flags q \<inter> {Syn, Ack} = {Syn})"

definition any_port :: "(transport_protocol \<Rightarrow> bool) \<Rightarrow> bool" where
  "any_port P \<longleftrightarrow> P Udp \<or> P Tcp"

definition macos_always_out :: "packet \<Rightarrow> bool" where
  "macos_always_out p \<longleftrightarrow>
     sport_is p Udp DHCPV4_CLIENT_PORT \<and> dst_is p (V4 ipv4_broadcast) \<and>
       dport_is p Udp DHCPV4_SERVER_PORT \<or>
     src_in p IPV6_LINK_LOCAL \<and> sport_is p Udp DHCPV6_CLIENT_PORT \<and>
       (\<exists>a \<in> set DHCPV6_SERVER_ADDRS. dst_is p (V6 a)) \<and> dport_is p Udp DHCPV6_SERVER_PORT \<or>
     dst_is p (V6 ROUTER_SOLICITATION_OUT_DST_ADDR) \<and> l4_number (pk_l4 p) = 58"

definition macos_always_in :: "packet \<Rightarrow> bool" where
  "macos_always_in p \<longleftrightarrow>
     family_is FamilyIpv4 (pk_l3 p) \<and> sport_is p Udp DHCPV4_SERVER_PORT \<and> dport_is p Udp DHCPV4_CLIENT_PORT \<or>
     src_in p IPV6_LINK_LOCAL \<and> sport_is p Udp DHCPV6_SERVER_PORT \<and>
       dst_in p IPV6_LINK_LOCAL \<and> dport_is p Udp DHCPV6_CLIENT_PORT \<or>
     src_in p IPV6_LINK_LOCAL \<and> l4_number (pk_l4 p) = 58"

definition macos_lan_out :: "packet \<Rightarrow> bool" where
  "macos_lan_out p \<longleftrightarrow>
     (\<exists>n \<in> set ALLOWED_LAN_NETS. dst_in p n) \<or>
     (\<exists>n \<in> set ALLOWED_LAN_MULTICAST_NETS. dst_in p n) \<or>
     family_is FamilyIpv4 (pk_l3 p) \<and>
       any_port (\<lambda>t. sport_is p t DHCPV4_SERVER_PORT \<and> dport_is p t DHCPV4_CLIENT_PORT)"

definition macos_lan_in :: "packet \<Rightarrow> bool" where
  "macos_lan_in p \<longleftrightarrow>
     (\<exists>n \<in> set ALLOWED_LAN_NETS. src_in p n) \<or>
     dst_is p (V4 ipv4_broadcast) \<and>
       any_port (\<lambda>t. sport_is p t DHCPV4_CLIENT_PORT \<and> dport_is p t DHCPV4_SERVER_PORT)"

definition on_iface :: "(string \<Rightarrow> u32 option) \<Rightarrow> string \<Rightarrow> packet \<Rightarrow> bool" where
  "on_iface ifx name p \<longleftrightarrow> ifx name = Some (pk_iface p)"

fun macos_specific :: "(string \<Rightarrow> u32 option) \<Rightarrow> firewall_policy \<Rightarrow> pf_packet \<Rightarrow> bool" where
  "macos_specific ifx (PolicyConnecting e hosts lan) q \<longleftrightarrow>
     (let p = pp_packet q in
      case pk_dir p of
        DirOut \<Rightarrow> to_endpoint p e \<and> starts_connection q \<or>
          (\<exists>h \<in> set hosts. dst_is p h \<and> icmp_for h (pk_l4 p)) \<or> lan \<and> macos_lan_out p
      | DirIn \<Rightarrow> (\<exists>h \<in> set hosts. src_is p h \<and> icmp_for h (pk_l4 p)) \<or> lan \<and> macos_lan_in p)"
| "macos_specific ifx (PolicyConnected e t lan) q \<longleftrightarrow>
     (let p = pp_packet q; in_tunnel = on_iface ifx (tm_interface t) p in
      case pk_dir p of
        DirOut \<Rightarrow>
          if is_dns p then in_tunnel \<and> to_tunnel_gateway p t
          else (to_endpoint p e \<or> in_tunnel) \<and> starts_connection q \<or> lan \<and> macos_lan_out p
      | DirIn \<Rightarrow> in_tunnel \<and> starts_connection q \<or> lan \<and> macos_lan_in p)"
| "macos_specific ifx (PolicyBlocked lan) q \<longleftrightarrow>
     (let p = pp_packet q in
      lan \<and> (case pk_dir p of DirOut \<Rightarrow> macos_lan_out p | DirIn \<Rightarrow> macos_lan_in p))"

definition macos_allows :: "(string \<Rightarrow> u32 option) \<Rightarrow> firewall_policy \<Rightarrow> pf_packet \<Rightarrow> bool" where
  "macos_allows ifx pol q \<longleftrightarrow>
     (let p = pp_packet q in
      on_iface ifx ''lo0'' p \<or>
      (case pk_dir p of DirOut \<Rightarrow> macos_always_out p | DirIn \<Rightarrow> macos_always_in p) \<or>
      macos_specific ifx pol q)"

section \<open>Matching of the rules that are built\<close>

lemma in_net_of_addr [simp]: "in_net a (net_of_addr b) \<longleftrightarrow> a = b"
  by (cases a; cases b) (simp_all add: mask_v4_def mask_v6_def take_bit_word_eq_self flip: take_bit_eq_mask)

lemma endpoint_matches_simps [simp]:
  "endpoint_matches to_any a port"
  "endpoint_matches (to_port x) a port \<longleftrightarrow> port = Some x"
  "endpoint_matches (to_net n) a port \<longleftrightarrow> in_net a n"
  "endpoint_matches (to_net_port n x) a port \<longleftrightarrow> in_net a n \<and> port = Some x"
  "endpoint_matches (to_addr_port b x) a port \<longleftrightarrow> a = b \<and> port = Some x"
  by (auto simp: endpoint_matches_def to_any_def to_port_def to_net_def to_net_port_def to_addr_port_def)

lemma builder_fields [simp]:
  "fr_action (create_rule_builder lg a) = a"
  "fr_direction (create_rule_builder lg a) = None"
  "fr_interface (create_rule_builder lg a) = None"
  "fr_proto (create_rule_builder lg a) = None"
  "fr_af (create_rule_builder lg a) = None"
  "fr_from (create_rule_builder lg a) = to_any"
  "fr_to (create_rule_builder lg a) = to_any"
  "fr_tcp_flags (create_rule_builder lg a) = None"
  by (simp_all add: create_rule_builder_def)

lemma flags_match_simps [simp]:
  "flags_match None q"
  "flags_match (Some get_tcp_flags) q \<longleftrightarrow> starts_connection q"
  by (auto simp: flags_match_def get_tcp_flags_def starts_connection_def)

text \<open>A TCP or UDP port as pf sees it, in terms of the specification.\<close>

lemma pf_sport_iff:
  "l4_number h = pf_proto_number (as_pfctl_proto t) \<and> map_option fst (pf_ports h) = Some x \<longleftrightarrow>
     l4_src_port t h = Some x"
  by (cases h; cases t) auto

lemma pf_dport_iff:
  "l4_number h = pf_proto_number (as_pfctl_proto t) \<and> map_option snd (pf_ports h) = Some x \<longleftrightarrow>
     l4_dst_port t h = Some x"
  by (cases h; cases t) auto

lemma pf_ports_iff:
  "x \<noteq> 0 \<Longrightarrow> map_option fst (pf_ports h) = Some x \<and> map_option snd (pf_ports h) = Some y \<longleftrightarrow>
     any_port (\<lambda>t. l4_src_port t h = Some x \<and> l4_dst_port t h = Some y)"
  by (cases h) (auto simp: any_port_def)

lemma icmp_for_number: "l4_number h = pf_proto_number (pf_icmp_proto a) \<longleftrightarrow> icmp_for a h"
  by (cases a) auto

lemma icmp_for_ports: "icmp_for a h \<Longrightarrow> pf_ports h = Some (0, 0)"
  by (cases h; cases a) auto

lemma bex_append: "(\<exists>x \<in> set (xs @ ys). P x) \<longleftrightarrow> (\<exists>x \<in> set xs. P x) \<or> (\<exists>x \<in> set ys. P x)"
  by auto

lemma bex_concat_map: "(\<exists>y \<in> set (concat (map f xs)). P y) \<longleftrightarrow> (\<exists>x \<in> set xs. \<exists>y \<in> set (f x). P y)"
  by auto

lemma bex_map: "(\<exists>y \<in> set (map f xs). P y) \<longleftrightarrow> (\<exists>x \<in> set xs. P (f x))"
  by auto

text \<open>The rules of every group, by the packets they match.\<close>

lemma loopback_matches:
  "rule_matches ifx (loopback_rule lg) q \<longleftrightarrow> on_iface ifx ''lo0'' (pp_packet q)"
  by (simp add: rule_matches_def loopback_rule_def on_iface_def Let_def)

lemma relay_matches:
  "rule_matches ifx (relay_rule lg e) q \<longleftrightarrow>
     pk_dir (pp_packet q) = DirOut \<and> to_endpoint (pp_packet q) e \<and> starts_connection q"
  by (simp add: rule_matches_def relay_rule_def Let_def to_endpoint_def dst_is_def dport_is_def
      flip: pf_dport_iff) blast

lemma tunnel_matches:
  "rule_matches ifx (tunnel_rule lg i) q \<longleftrightarrow> on_iface ifx i (pp_packet q) \<and> starts_connection q"
  by (simp add: rule_matches_def tunnel_rule_def on_iface_def Let_def)

lemma pingable_matches:
  "(\<exists>r \<in> set (pingable_rules lg h). rule_matches ifx r q) \<longleftrightarrow>
     (let p = pp_packet q in icmp_for h (pk_l4 p) \<and>
        (case pk_dir p of DirOut \<Rightarrow> dst_is p h | DirIn \<Rightarrow> src_is p h))"
  by (auto simp: rule_matches_def pingable_rules_def Let_def dst_is_def src_is_def icmp_for_number
      icmp_for_ports split: direction.splits)

lemma tunnel_dns_matches:
  "rule_matches ifx (tunnel_dns_rule lg i (as_pfctl_proto t) g) q \<longleftrightarrow>
     (let p = pp_packet q in pk_dir p = DirOut \<and> on_iface ifx i p \<and> dst_is p g \<and> dport_is p t 53)"
  by (auto simp: rule_matches_def tunnel_dns_rule_def on_iface_def Let_def dst_is_def dport_is_def
      simp flip: pf_dport_iff)

lemma block_dns_matches:
  "rule_matches ifx (block_dns_rule lg (as_pfctl_proto t)) q \<longleftrightarrow>
     pk_dir (pp_packet q) = DirOut \<and> dport_is (pp_packet q) t 53"
  by (auto simp: rule_matches_def block_dns_rule_def Let_def dport_is_def simp flip: pf_dport_iff)

lemma drop_all_matches [simp]: "rule_matches ifx (drop_all_rule lg) q"
  by (simp add: rule_matches_def drop_all_rule_def Let_def)

lemma lan_matches:
  "(\<exists>r \<in> set (concat (map (lan_net_rules lg) ALLOWED_LAN_NETS) @
       map (multicast_rule lg) ALLOWED_LAN_MULTICAST_NETS @ lan_dhcp_rules lg). rule_matches ifx r q) \<longleftrightarrow>
     (case pk_dir (pp_packet q) of DirOut \<Rightarrow> macos_lan_out (pp_packet q) | DirIn \<Rightarrow> macos_lan_in (pp_packet q))"
proof -
  let ?p = "pp_packet q"
  have nets: "(\<exists>r \<in> set (lan_net_rules lg n). rule_matches ifx r q) \<longleftrightarrow>
      (case pk_dir ?p of DirOut \<Rightarrow> dst_in ?p n | DirIn \<Rightarrow> src_in ?p n)" for n
    by (auto simp: lan_net_rules_def rule_matches_def Let_def dst_in_def src_in_def split: direction.splits)
  have multicast: "rule_matches ifx (multicast_rule lg n) q \<longleftrightarrow> pk_dir ?p = DirOut \<and> dst_in ?p n" for n
    by (auto simp: multicast_rule_def rule_matches_def Let_def dst_in_def)
  have dhcp: "(\<exists>r \<in> set (lan_dhcp_rules lg). rule_matches ifx r q) \<longleftrightarrow>
      (case pk_dir ?p of
         DirOut \<Rightarrow> family_is FamilyIpv4 (pk_l3 ?p) \<and>
           any_port (\<lambda>t. sport_is ?p t DHCPV4_SERVER_PORT \<and> dport_is ?p t DHCPV4_CLIENT_PORT)
       | DirIn \<Rightarrow> dst_is ?p (V4 ipv4_broadcast) \<and>
           any_port (\<lambda>t. sport_is ?p t DHCPV4_CLIENT_PORT \<and> dport_is ?p t DHCPV4_SERVER_PORT))"
    by (auto simp: lan_dhcp_rules_def rule_matches_def Let_def dst_is_def sport_is_def dport_is_def
        DHCPV4_SERVER_PORT_def DHCPV4_CLIENT_PORT_def split: direction.splits simp flip: pf_ports_iff)
  show ?thesis
    by (simp add: bex_append bex_concat_map bex_map nets multicast dhcp macos_lan_out_def macos_lan_in_def
        del: set_append set_concat set_map split: direction.split)
qed

lemma dhcp_matches:
  "(\<exists>r \<in> set (dhcp_client_rules lg @ ndp_rules lg). rule_matches ifx r q) \<longleftrightarrow>
     (case pk_dir (pp_packet q) of DirOut \<Rightarrow> macos_always_out (pp_packet q)
      | DirIn \<Rightarrow> macos_always_in (pp_packet q))"
  by (cases "pk_l3 (pp_packet q)"; cases "pk_l4 (pp_packet q)")
    (auto simp: dhcp_client_rules_def ndp_rules_def rule_matches_def Let_def macos_always_out_def
      macos_always_in_def spec_defs IPV6_LINK_LOCAL_def
      simp del: net_of_addr.simps split: direction.splits)

section \<open>The decision of the rules of a policy\<close>

definition always_rules :: "rule_logging \<Rightarrow> filter_rule list" where
  "always_rules lg = dhcp_client_rules lg @ ndp_rules lg"

definition lan_rules :: "rule_logging \<Rightarrow> bool \<Rightarrow> filter_rule list" where
  "lan_rules lg lan =
     (if lan then concat (map (lan_net_rules lg) ALLOWED_LAN_NETS) @
        map (multicast_rule lg) ALLOWED_LAN_MULTICAST_NETS @ lan_dhcp_rules lg else [])"

fun specific_rules :: "rule_logging \<Rightarrow> firewall_policy \<Rightarrow> filter_rule list" where
  "specific_rules lg (PolicyConnecting e hosts lan) =
     relay_rule lg e # concat (map (pingable_rules lg) hosts) @ lan_rules lg lan"
| "specific_rules lg (PolicyConnected e t lan) =
     dns_rules lg t @ [relay_rule lg e, tunnel_rule lg (tm_interface t)] @ lan_rules lg lan"
| "specific_rules lg (PolicyBlocked lan) = lan_rules lg lan"

definition policy_rules :: "rule_logging \<Rightarrow> firewall_policy \<Rightarrow> filter_rule list" where
  "policy_rules lg pol =
     loopback_rule lg # always_rules lg @ specific_rules lg pol @ [drop_all_rule lg]"

text \<open>The rule that decides when every rule is \<open>quick\<close>.\<close>

definition first_rule :: "(string \<Rightarrow> u32 option) \<Rightarrow> filter_rule list \<Rightarrow> pf_packet \<Rightarrow> filter_rule_action option" where
  "first_rule ifx rs q = map_option fr_action (find (\<lambda>r. rule_matches ifx r q) rs)"

lemma first_rule_Cons [simp]:
  "first_rule ifx [] q = None"
  "first_rule ifx (r # rs) q = (if rule_matches ifx r q then Some (fr_action r) else first_rule ifx rs q)"
  by (simp_all add: first_rule_def)

lemma first_rule_append:
  "first_rule ifx (rs @ rs') q = (case first_rule ifx rs q of None \<Rightarrow> first_rule ifx rs' q | Some a \<Rightarrow> Some a)"
  by (induction rs) simp_all

lemma first_rule_pass:
  "\<forall>r \<in> set rs. fr_action r = RulePass \<Longrightarrow>
     first_rule ifx rs q = (if \<exists>r \<in> set rs. rule_matches ifx r q then Some RulePass else None)"
  by (induction rs) auto

lemma rule_actions [simp]:
  "fr_action (loopback_rule lg) = RulePass" "fr_action (relay_rule lg e) = RulePass"
  "fr_action (tunnel_rule lg i) = RulePass" "fr_action (tunnel_dns_rule lg i x g) = RulePass"
  "fr_action (block_dns_rule lg x) = RuleDrop" "fr_action (drop_all_rule lg) = RuleDrop"
  by (simp_all add: loopback_rule_def relay_rule_def tunnel_rule_def tunnel_dns_rule_def
      block_dns_rule_def drop_all_rule_def)

lemma rule_quick [simp]:
  "fr_quick (loopback_rule lg)" "fr_quick (relay_rule lg e)" "fr_quick (tunnel_rule lg i)"
  "fr_quick (tunnel_dns_rule lg i x g)" "fr_quick (block_dns_rule lg x)" "fr_quick (drop_all_rule lg)"
  by (simp_all add: loopback_rule_def relay_rule_def tunnel_rule_def tunnel_dns_rule_def
      block_dns_rule_def drop_all_rule_def)

lemma group_passes:
  "r \<in> set (always_rules lg) \<Longrightarrow> fr_action r = RulePass \<and> fr_quick r"
  "r \<in> set (lan_rules lg lan) \<Longrightarrow> fr_action r = RulePass \<and> fr_quick r"
  "r \<in> set (concat (map (pingable_rules lg) hosts)) \<Longrightarrow> fr_action r = RulePass \<and> fr_quick r"
  by (auto simp: always_rules_def dhcp_client_rules_def ndp_rules_def lan_rules_def lan_net_rules_def multicast_rule_def
      lan_dhcp_rules_def pingable_rules_def Let_def split: if_splits)

lemma first_rule_groups:
  "first_rule ifx (always_rules lg) q =
     (if (case pk_dir (pp_packet q) of DirOut \<Rightarrow> macos_always_out (pp_packet q)
          | DirIn \<Rightarrow> macos_always_in (pp_packet q)) then Some RulePass else None)"
  "first_rule ifx (lan_rules lg lan) q =
     (if lan \<and> (case pk_dir (pp_packet q) of DirOut \<Rightarrow> macos_lan_out (pp_packet q)
          | DirIn \<Rightarrow> macos_lan_in (pp_packet q)) then Some RulePass else None)"
  "first_rule ifx (concat (map (pingable_rules lg) hosts)) q =
     (if \<exists>h \<in> set hosts. icmp_for h (pk_l4 (pp_packet q)) \<and>
          (case pk_dir (pp_packet q) of DirOut \<Rightarrow> dst_is (pp_packet q) h | DirIn \<Rightarrow> src_is (pp_packet q) h)
      then Some RulePass else None)"
proof -
  show "first_rule ifx (always_rules lg) q =
     (if (case pk_dir (pp_packet q) of DirOut \<Rightarrow> macos_always_out (pp_packet q)
          | DirIn \<Rightarrow> macos_always_in (pp_packet q)) then Some RulePass else None)"
    unfolding dhcp_matches [of lg ifx q, folded always_rules_def, symmetric]
    by (rule first_rule_pass) (use group_passes(1) in blast)
  show "first_rule ifx (concat (map (pingable_rules lg) hosts)) q =
     (if \<exists>h \<in> set hosts. icmp_for h (pk_l4 (pp_packet q)) \<and>
          (case pk_dir (pp_packet q) of DirOut \<Rightarrow> dst_is (pp_packet q) h | DirIn \<Rightarrow> src_is (pp_packet q) h)
      then Some RulePass else None)"
    unfolding pingable_matches [of lg _ ifx q, unfolded Let_def, symmetric] bex_concat_map [symmetric]
    by (rule first_rule_pass) (use group_passes(3) in blast)
  have "first_rule ifx (lan_rules lg True) q =
     (if \<exists>r \<in> set (lan_rules lg True). rule_matches ifx r q then Some RulePass else None)"
    by (rule first_rule_pass) (use group_passes(2) in blast)
  then show "first_rule ifx (lan_rules lg lan) q =
     (if lan \<and> (case pk_dir (pp_packet q) of DirOut \<Rightarrow> macos_lan_out (pp_packet q)
          | DirIn \<Rightarrow> macos_lan_in (pp_packet q)) then Some RulePass else None)"
    by (cases lan) (simp_all add: lan_rules_def lan_matches del: set_append)
qed

lemma first_rule_dns:
  "first_rule ifx (dns_rules lg t) q =
     (let p = pp_packet q in
      if pk_dir p = DirOut \<and> is_dns p
      then Some (if on_iface ifx (tm_interface t) p \<and> to_tunnel_gateway p t then RulePass else RuleDrop)
      else None)"
  using tunnel_dns_matches [of ifx lg _ Udp] tunnel_dns_matches [of ifx lg _ Tcp]
    block_dns_matches [of ifx lg Udp] block_dns_matches [of ifx lg Tcp]
  by (auto simp: dns_rules_def is_dns_def to_tunnel_gateway_def Let_def split: option.splits)

lemma first_rule_policy:
  "first_rule ifx (policy_rules lg pol) q = Some (if macos_allows ifx pol q then RulePass else RuleDrop)"
  by (cases pol; cases "pk_dir (pp_packet q)")
    (auto simp: policy_rules_def macos_allows_def first_rule_append first_rule_groups first_rule_dns
      loopback_matches relay_matches tunnel_matches Let_def split: if_splits)

lemma policy_rules_quick: "r \<in> set (policy_rules lg pol) \<Longrightarrow> fr_quick r"
  using group_passes [of r lg]
  by (cases pol) (auto simp: policy_rules_def dns_rules_def split: option.splits)

context pf_evaluation
begin

lemma decide_policy:
  "decide (policy_rules lg pol) q = Some (if macos_allows ifx pol q then RulePass else RuleDrop)"
  using decide_first [of "policy_rules lg pol" q] policy_rules_quick first_rule_policy [of ifx lg pol q]
  by (simp add: first_rule_def)

end

section \<open>The calls of the crate\<close>

text \<open>
  What of the packet filter matters: whether it is enabled, whether the anchor of the daemon is part of
  its filter rules, and the rules in the anchor.  A call that fails changes nothing, except that a
  failing exchange of the rules may have happened before the error.
\<close>

record pf_view =
  pv_enabled :: bool
  pv_anchored :: bool
  pv_rules :: "filter_rule list"

lemma pf_view_all [simp]:
  "v\<lparr>pv_enabled := a, pv_anchored := b, pv_rules := rs\<rparr> = \<lparr>pv_enabled = a, pv_anchored = b, pv_rules = rs\<rparr>"
  for v :: pf_view
  by simp

locale pf_control =
  fixes pc :: "'k pfctl" and view :: "'k \<Rightarrow> pf_view"
  assumes build_law: "pc_build pc b = Inr built \<Longrightarrow> built = b"
    and is_enabled_law: "pc_is_enabled pc k = (answer, k') \<Longrightarrow> view k' = view k"
    and enable_law: "pc_try_enable pc k = (r, k') \<Longrightarrow>
        view k' = (if is_ok r then (view k)\<lparr>pv_enabled := True\<rparr> else view k)"
    and disable_law: "pc_try_disable pc k = (r, k') \<Longrightarrow>
        view k' = (if is_ok r then (view k)\<lparr>pv_enabled := False\<rparr> else view k)"
    and add_anchor_law: "pc_try_add_anchor pc ANCHOR_NAME kind k = (r, k') \<Longrightarrow>
        view k' = (if is_ok r \<and> kind = AnchorFilter then (view k)\<lparr>pv_anchored := True\<rparr> else view k)"
    and remove_anchor_law: "pc_try_remove_anchor pc ANCHOR_NAME kind k = (r, k') \<Longrightarrow>
        view k' = (if is_ok r \<and> kind = AnchorFilter then (view k)\<lparr>pv_anchored := False\<rparr> else view k)"
    and set_rules_law: "pc_set_rules pc ANCHOR_NAME rs k = (r, k') \<Longrightarrow>
        view k' = (view k)\<lparr>pv_rules := rs\<rparr> \<or> \<not> is_ok r \<and> view k' = view k"
    and flush_law: "pc_flush_rules pc ANCHOR_NAME k = (r, k') \<Longrightarrow>
        view k' = (if is_ok r then (view k)\<lparr>pv_rules := []\<rparr> else view k)"
begin

abbreviation fw_view :: "'k macos_firewall \<Rightarrow> pf_view" where
  "fw_view fw \<equiv> view (mf_pf fw)"

lemma build_all: "try_all (map (pc_build pc) bs) = Inr rs \<Longrightarrow> rs = bs"
  by (induction bs arbitrary: rs) (auto simp: and_then_def split: sum.splits dest: build_law)

lemma lan_rules_if_built: "lan_rules_if pc lg lan = Inr rs \<Longrightarrow> rs = lan_rules lg lan"
  by (auto simp: lan_rules_if_def lan_rules_def get_allow_lan_rules_def split: if_splits
      simp del: map_append dest: build_all)

lemma specific_rules_built: "get_policy_specific_rules pc lg pol = Inr rs \<Longrightarrow> rs = specific_rules lg pol"
  by (cases pol) (auto simp: and_then_def get_allow_relay_rule_def get_allow_pingable_hosts_def
      get_allow_tunnel_rule_def split: sum.splits dest!: build_law build_all lan_rules_if_built)

lemma rules_built: "new_filter_rules pc lg pol = Inr rs \<Longrightarrow> rs = policy_rules lg pol"
  by (auto simp: new_filter_rules_def and_then_def policy_rules_def always_rules_def
      get_allow_loopback_rules_def get_allow_dhcp_client_rules_def split: sum.splits
      simp del: map_append dest!: build_law build_all specific_rules_built)

lemma call_thenE:
  assumes "call_then f g s = (r, s'')"
  obtains (err) e where "f s = (Inl e, s'')" "r = Inl e"
  | (ok) x s' where "f s = (Inr x, s')" "g x s' = (r, s'')"
  using assms by (auto simp: call_then_def split: prod.splits sum.splits)

lemma on_pfE:
  assumes "on_pf f fw = (r, fw')"
  obtains "f (mf_pf fw) = (r, mf_pf fw')" "mf_pf_was_enabled fw' = mf_pf_was_enabled fw"
    "mf_rule_logging fw' = mf_rule_logging fw"
  using assms by (auto simp: on_pf_def split: prod.splits)

lemma enable_view:
  assumes "macos_enable pc fw = (r, fw')"
  shows "fw_view fw' = (if is_ok r then (fw_view fw)\<lparr>pv_enabled := True\<rparr> else fw_view fw)"
  using assms unfolding macos_enable_def
  by (auto elim!: call_thenE on_pfE split: if_splits dest!: is_enabled_law enable_law)

lemma add_anchor_view:
  assumes "macos_add_anchor pc fw = (r, fw')"
  shows "fw_view fw' = (fw_view fw)\<lparr>pv_anchored := True\<rparr> \<or> \<not> is_ok r \<and> fw_view fw' = fw_view fw"
  using assms unfolding macos_add_anchor_def
  by (auto elim!: call_thenE on_pfE dest!: add_anchor_law)

lemma set_rules_view:
  assumes "macos_set_rules pc pol fw = (r, fw')"
  shows "(\<exists>lg. fw_view fw' = (fw_view fw)\<lparr>pv_rules := policy_rules lg pol\<rparr>) \<or>
    \<not> is_ok r \<and> fw_view fw' = fw_view fw"
  using assms unfolding macos_set_rules_def
  by (auto elim!: on_pfE split: sum.splits dest!: rules_built set_rules_law)

lemma apply_view:
  assumes "macos_apply_policy pc pol fw = (r, fw')"
  shows "(\<exists>lg. fw_view fw' = \<lparr>pv_enabled = True, pv_anchored = True, pv_rules = policy_rules lg pol\<rparr>) \<or>
    \<not> is_ok r \<and> pv_rules (fw_view fw') = pv_rules (fw_view fw) \<and>
      (pv_enabled (fw_view fw) \<longrightarrow> pv_enabled (fw_view fw')) \<and>
      (pv_anchored (fw_view fw) \<longrightarrow> pv_anchored (fw_view fw'))"
  using assms unfolding macos_apply_policy_def
  by (auto elim!: call_thenE dest!: enable_view add_anchor_view set_rules_view split: if_splits)

lemma reset_view:
  assumes "macos_reset_policy pc fw = (r, fw')"
  shows "pv_rules (fw_view fw') = [] \<or> \<not> is_ok r \<and> pv_rules (fw_view fw') = pv_rules (fw_view fw)"
proof -
  obtain a fw1 where 1: "macos_remove_rules pc fw = (a, fw1)" by fastforce
  obtain b fw2 where 2: "macos_remove_anchor pc fw1 = (b, fw2)" by fastforce
  obtain c fw3 where 3: "macos_restore_state pc fw2 = (c, fw3)" by fastforce
  have "pv_rules (fw_view fw2) = pv_rules (fw_view fw1)"
    using 2 unfolding macos_remove_anchor_def
    by (auto elim!: call_thenE on_pfE dest!: remove_anchor_law)
  moreover have "pv_rules (fw_view fw3) = pv_rules (fw_view fw2)"
    using 3 unfolding macos_restore_state_def
    by (auto elim!: on_pfE dest!: enable_law disable_law split: option.splits bool.splits)
  moreover have "pv_rules (fw_view fw1) = (if is_ok a then [] else pv_rules (fw_view fw))"
    using 1 unfolding macos_remove_rules_def by (auto elim!: on_pfE dest!: flush_law)
  moreover have "is_ok r \<Longrightarrow> is_ok a" "fw' = fw3"
    using assms by (cases a; auto simp: macos_reset_policy_def 1 2 3 and_then_def)+
  ultimately show ?thesis by (cases "is_ok a") auto
qed

end

text \<open>Enforcing a policy, and no rules of the daemon being active.\<close>

definition macos_enforces :: "(string \<Rightarrow> u32 option) \<Rightarrow> (filter_rule list \<Rightarrow> pf_packet \<Rightarrow> filter_rule_action option)
    \<Rightarrow> ('k \<Rightarrow> pf_view) \<Rightarrow> 'k macos_firewall \<Rightarrow> firewall_policy \<Rightarrow> bool" where
  "macos_enforces ifx decide view fw pol \<longleftrightarrow>
     (let v = view (mf_pf fw) in
      pv_enabled v \<and> pv_anchored v \<and>
      (\<forall>q. decide (pv_rules v) q = Some (if macos_allows ifx pol q then RulePass else RuleDrop)))"

definition macos_lifted :: "('k \<Rightarrow> pf_view) \<Rightarrow> 'k macos_firewall \<Rightarrow> bool" where
  "macos_lifted view fw \<longleftrightarrow>
     (let v = view (mf_pf fw) in \<not> pv_enabled v \<or> \<not> pv_anchored v \<or> pv_rules v = [])"

locale macos_pf = pf_evaluation ifx decide + pf_control pc view
  for ifx :: "string \<Rightarrow> u32 option"
    and decide :: "filter_rule list \<Rightarrow> pf_packet \<Rightarrow> filter_rule_action option"
    and pc :: "'k pfctl" and view :: "'k \<Rightarrow> pf_view"
begin

lemma apply_enforces:
  assumes "macos_apply_policy pc pol fw = (r, fw')"
  shows "macos_enforces ifx decide view fw' pol \<or>
    \<not> is_ok r \<and> (\<forall>q. macos_enforces ifx decide view fw q \<longrightarrow> macos_enforces ifx decide view fw' q)"
  using apply_view [OF assms] by (auto simp: macos_enforces_def Let_def decide_policy)

lemma reset_lifts:
  assumes "macos_reset_policy pc fw = (r, fw')"
  shows "macos_lifted view fw' \<or>
    \<not> is_ok r \<and> (\<forall>q. macos_enforces ifx decide view fw q \<longrightarrow> macos_enforces ifx decide view fw' q)"
  using reset_view [OF assms] by (auto simp: macos_enforces_def macos_lifted_def Let_def)

end

sublocale macos_pf \<subseteq>
  fw: firewall_interface "macos_apply_policy pc" "macos_reset_policy pc"
    "macos_enforces ifx decide view" "macos_lifted view"
proof
  show "macos_enforces ifx decide view fw' p" if "macos_apply_policy pc p fw = (Inr u, fw')" for p fw u fw'
    using apply_enforces [OF that] by simp
  show "macos_enforces ifx decide view fw' p \<or>
      (\<forall>q. macos_enforces ifx decide view fw q \<longrightarrow> macos_enforces ifx decide view fw' q)"
    if "macos_apply_policy pc p fw = (Inl e, fw')" for p fw e fw'
    using apply_enforces [OF that] by auto
  show "macos_lifted view fw'" if "macos_reset_policy pc fw = (Inr u, fw')" for fw u fw'
    using reset_lifts [OF that] by simp
  show "macos_lifted view fw' \<or>
      (\<forall>q. macos_enforces ifx decide view fw q \<longrightarrow> macos_enforces ifx decide view fw' q)"
    if "macos_reset_policy pc fw = (Inl e, fw')" for fw e fw'
    using reset_lifts [OF that] by auto
qed

section \<open>A reference packet filter\<close>

text \<open>
  A packet filter that obeys its calls; the list of its second component scripts which of the coming
  calls fail.
\<close>

type_synonym ref_pf = "pf_view \<times> bool list"

definition ref_call :: "(pf_view \<Rightarrow> 'a \<times> pf_view) \<Rightarrow> ref_pf \<Rightarrow> (pf_error + 'a) \<times> ref_pf" where
  "ref_call f k =
     (case snd k of
        True # fs \<Rightarrow> (Inl ''ioctl'', (fst k, fs))
      | fs \<Rightarrow> (case f (fst k) of (x, v) \<Rightarrow> (Inr x, (v, tl fs))))"

definition ref_pfctl :: "ref_pf pfctl" where
  "ref_pfctl = \<lparr>
     pc_build = Inr,
     pc_is_enabled = ref_call (\<lambda>v. (pv_enabled v, v)),
     pc_try_enable = ref_call (\<lambda>v. ((), v\<lparr>pv_enabled := True\<rparr>)),
     pc_try_disable = ref_call (\<lambda>v. ((), v\<lparr>pv_enabled := False\<rparr>)),
     pc_try_add_anchor = (\<lambda>name kind. ref_call (\<lambda>v.
       ((), if kind = AnchorFilter then v\<lparr>pv_anchored := True\<rparr> else v))),
     pc_try_remove_anchor = (\<lambda>name kind. ref_call (\<lambda>v.
       ((), if kind = AnchorFilter then v\<lparr>pv_anchored := False\<rparr> else v))),
     pc_set_rules = (\<lambda>name rs. ref_call (\<lambda>v. ((), v\<lparr>pv_rules := rs\<rparr>))),
     pc_flush_rules = (\<lambda>name. ref_call (\<lambda>v. ((), v\<lparr>pv_rules := []\<rparr>)))\<rparr>"

lemma ref_call_view:
  "ref_call f k = (r, k') \<Longrightarrow> fst k' = (if is_ok r then snd (f (fst k)) else fst k)"
  by (auto simp: ref_call_def split: list.splits bool.splits prod.splits)

interpretation ref_pfctl: pf_control ref_pfctl fst
  by unfold_locales (auto simp: ref_pfctl_def dest!: ref_call_view split: if_splits)

interpretation ref_macos: macos_pf ifx "pf_decide_from None ifx" ref_pfctl fst for ifx
  by unfold_locales

definition ref_ifx :: "string \<Rightarrow> u32 option" where
  "ref_ifx = map_of [(''lo0'', 1), (''tun0'', 7)]"

definition ref_mac :: "ref_pf macos_firewall" where
  "ref_mac = \<lparr>mf_pf = (\<lparr>pv_enabled = False, pv_anchored = False, pv_rules = []\<rparr>, []),
     mf_pf_was_enabled = None, mf_rule_logging = LogNone\<rparr>"

lemma ref_build_all [simp]: "try_all (map Inr bs) = (Inr bs :: 'e + _)"
  by (induction bs) (simp_all add: and_then_def)

lemma ref_rules_built: "new_filter_rules ref_pfctl lg pol = Inr (policy_rules lg pol)"
proof -
  have "is_ok (new_filter_rules ref_pfctl lg pol)"
    by (cases pol) (simp_all add: new_filter_rules_def and_then_def get_allow_loopback_rules_def
        get_allow_dhcp_client_rules_def get_allow_relay_rule_def get_allow_pingable_hosts_def
        get_allow_tunnel_rule_def lan_rules_if_def get_allow_lan_rules_def ref_pfctl_def
        del: map_append)
  then show ?thesis by (auto simp: is_ok_iff dest: ref_pfctl.rules_built)
qed

lemma ref_pfctl_calls:
  "pc_is_enabled ref_pfctl = ref_call (\<lambda>v. (pv_enabled v, v))"
  "pc_try_enable ref_pfctl = ref_call (\<lambda>v. ((), v\<lparr>pv_enabled := True\<rparr>))"
  "pc_try_add_anchor ref_pfctl name kind =
     ref_call (\<lambda>v. ((), if kind = AnchorFilter then v\<lparr>pv_anchored := True\<rparr> else v))"
  "pc_set_rules ref_pfctl name rs = ref_call (\<lambda>v. ((), v\<lparr>pv_rules := rs\<rparr>))"
  by (simp_all add: ref_pfctl_def)

lemma ref_apply:
  "\<exists>fw'. macos_apply_policy ref_pfctl pol ref_mac = (Inr (), fw') \<and> snd (mf_pf fw') = []"
  by (simp add: macos_apply_policy_def macos_enable_def macos_add_anchor_def macos_set_rules_def
      call_then_def on_pf_def ref_rules_built ref_mac_def ref_pfctl_calls ref_call_def)

section \<open>Properties\<close>

text \<open>
  How the rules differ from the documented policy, for packets without a state.  They let more through:
  ICMPv6 packets of every type to all routers or from a link-local address (the rules for NDP do not look
  at the type), and, while LAN traffic is allowed, TCP between the DHCP ports.
\<close>

definition macos_extra :: "firewall_policy \<Rightarrow> packet \<Rightarrow> bool" where
  "macos_extra pol p \<longleftrightarrow>
     l4_number (pk_l4 p) = 58 \<and> (case pk_dir p of
         DirOut \<Rightarrow> dst_is p (V6 ROUTER_SOLICITATION_OUT_DST_ADDR) | DirIn \<Rightarrow> src_in p IPV6_LINK_LOCAL) \<or>
     policy_allow_lan pol \<and> (case pk_dir p of
         DirOut \<Rightarrow> sport_is p Tcp DHCPV4_SERVER_PORT \<and> dport_is p Tcp DHCPV4_CLIENT_PORT
       | DirIn \<Rightarrow> sport_is p Tcp DHCPV4_CLIENT_PORT \<and> dport_is p Tcp DHCPV4_SERVER_PORT)"

text \<open>
  And they refuse some of what the documentation allows: conversations the peer endpoint starts; DHCPv4
  responses in IPv6 packets; TCP packets to the relay or through the tunnel that do not start a connection;
  and, while connected, DNS requests to a relay on port 53.
\<close>

definition dhcpv4_over_ipv6 :: "packet \<Rightarrow> bool" where
  "dhcpv4_over_ipv6 p \<longleftrightarrow> \<not> family_is FamilyIpv4 (pk_l3 p) \<and>
     sport_is p Udp DHCPV4_SERVER_PORT \<and> dport_is p Udp DHCPV4_CLIENT_PORT"

definition to_peer :: "firewall_policy \<Rightarrow> packet \<Rightarrow> bool" where
  "to_peer pol p \<longleftrightarrow> pk_dir p = DirOut \<and>
     (case pol of PolicyConnecting e _ _ \<Rightarrow> to_endpoint p e | PolicyConnected e _ _ \<Rightarrow> to_endpoint p e
      | PolicyBlocked _ \<Rightarrow> False)"

fun is_connected_policy :: "firewall_policy \<Rightarrow> bool" where
  "is_connected_policy (PolicyConnected _ _ _) = True"
| "is_connected_policy _ = False"

definition macos_refuses :: "u32 \<Rightarrow> firewall_policy \<Rightarrow> pf_packet \<Rightarrow> bool" where
  "macos_refuses tun pol q \<longleftrightarrow>
     (let p = pp_packet q in
      pk_dir p = DirIn \<and> from_peer pol p \<or>
      dhcpv4_over_ipv6 p \<or>
      \<not> starts_connection q \<and> (to_peer pol p \<or> is_connected_policy pol \<and> pk_iface p = tun) \<or>
      is_connected_policy pol \<and> is_dns p \<and> to_peer pol p)"

lemma within_groups:
  "macos_always_out p \<Longrightarrow> spec_always_out p \<or>
     l4_number (pk_l4 p) = 58 \<and> dst_is p (V6 ROUTER_SOLICITATION_OUT_DST_ADDR)"
  "macos_always_in p \<Longrightarrow> spec_always_in p \<or> l4_number (pk_l4 p) = 58 \<and> src_in p IPV6_LINK_LOCAL"
  "macos_lan_out p \<Longrightarrow> spec_lan_out p \<or>
     sport_is p Tcp DHCPV4_SERVER_PORT \<and> dport_is p Tcp DHCPV4_CLIENT_PORT"
  "macos_lan_in p \<Longrightarrow> spec_lan_in p \<or>
     sport_is p Tcp DHCPV4_CLIENT_PORT \<and> dport_is p Tcp DHCPV4_SERVER_PORT"
  unfolding macos_always_out_def macos_always_in_def spec_always_out_def spec_always_in_def
    macos_lan_out_def macos_lan_in_def spec_lan_out_def spec_lan_in_def any_port_def by blast+

lemma covered_groups:
  "spec_always_out p \<Longrightarrow> macos_always_out p"
  "spec_always_in p \<Longrightarrow> macos_always_in p \<or> dhcpv4_over_ipv6 p"
  "spec_lan_out p \<Longrightarrow> macos_lan_out p \<or> dhcpv4_over_ipv6 p"
  "spec_lan_in p \<Longrightarrow> macos_lan_in p"
  unfolding macos_always_out_def macos_always_in_def spec_always_out_def spec_always_in_def
    macos_lan_out_def macos_lan_in_def spec_lan_out_def spec_lan_in_def any_port_def dhcpv4_over_ipv6_def
  by auto

lemma enforces_decides:
  assumes "macos_enforces ifx decide view fw pol"
  shows "pv_enabled (view (mf_pf fw)) \<and> pv_anchored (view (mf_pf fw)) \<and>
    (decide (pv_rules (view (mf_pf fw))) q = Some RulePass \<longleftrightarrow> macos_allows ifx pol q)"
  using assms by (simp add: macos_enforces_def Let_def)

text \<open>The interfaces of a policy have the indices \<open>lo\<close> and \<open>tun\<close>.\<close>

definition macos_interfaces :: "(string \<Rightarrow> u32 option) \<Rightarrow> u32 \<Rightarrow> u32 \<Rightarrow> firewall_policy \<Rightarrow> bool" where
  "macos_interfaces ifx lo tun pol \<longleftrightarrow> ifx ''lo0'' = Some lo \<and>
     (\<forall>e t lan. pol = PolicyConnected e t lan \<longrightarrow> ifx (tm_interface t) = Some tun)"

lemma macos_allows_sound:
  assumes "macos_interfaces ifx lo tun pol" and "macos_allows ifx pol q"
  shows "policy_allows lo tun pol (pp_packet q) \<or> macos_extra pol (pp_packet q)"
  using assms within_groups [of "pp_packet q"]
  by (cases pol; cases "pk_dir (pp_packet q)")
    (simp_all add: macos_interfaces_def macos_extra_def macos_allows_def on_iface_def Let_def policy_allows_def
      spec_in_def split: if_splits, blast+)

lemma macos_allows_complete:
  assumes "macos_interfaces ifx lo tun pol" and "policy_allows lo tun pol (pp_packet q)"
    and "\<not> macos_refuses tun pol q"
  shows "macos_allows ifx pol q"
  using assms covered_groups [of "pp_packet q"]
  by (cases pol; cases "pk_dir (pp_packet q)")
    (simp_all add: macos_interfaces_def macos_refuses_def to_peer_def macos_allows_def on_iface_def Let_def
      policy_allows_def spec_in_def split: if_splits, blast+)

text \<open>
  C8.  \<open>Firewall::apply_policy\<close> of macOS, on any packet filter that behaves as documented.  When it returns
  \<open>Ok\<close>, pf is enabled, the anchor is in place, and its rules decide about every packet without a state; they
  let through every packet the documented policy allows, except those \<open>macos_refuses\<close> lists
  (conversations started by the peer endpoint, DHCPv4 responses in IPv6 packets, TCP packets to the relay or
  through the tunnel that do not start a connection, and DNS requests to a relay on port 53).  When it
  returns an error, from whichever of its steps, either the same holds, or the rules are the ones from before
  and pf and the anchor are not switched off.
\<close>

theorem macos_apply_policy_contract:
  assumes "macos_pf ifx decide pc view" and "macos_apply_policy pc pol fw = (r, fw')"
    and "macos_interfaces ifx lo tun pol" and "v = view (mf_pf fw)" and "v' = view (mf_pf fw')"
  shows "pv_enabled v' \<and> pv_anchored v' \<and>
      (\<forall>q. decide (pv_rules v') q = Some RulePass \<or>
         decide (pv_rules v') q = Some RuleDrop \<and>
           (\<not> policy_allows lo tun pol (pp_packet q) \<or> macos_refuses tun pol q)) \<or>
    \<not> is_ok r \<and> pv_rules v' = pv_rules v \<and>
      (pv_enabled v \<longrightarrow> pv_enabled v') \<and> (pv_anchored v \<longrightarrow> pv_anchored v')"
proof -
  have ev: "pf_evaluation ifx decide" and ctl: "pf_control pc view"
    using assms(1) by (simp_all add: macos_pf_def)
  from pf_control.apply_view [OF ctl assms(2)] show ?thesis
    using macos_allows_complete [OF assms(3)]
    by (fastforce simp: assms(4,5) pf_evaluation.decide_policy [OF ev] split: if_splits)
qed

theorem macos_apply_policy_contract_witness:
  "\<exists>fw'. macos_apply_policy ref_pfctl ref_policy ref_mac = (Inr (), fw') \<and>
     pv_enabled (fst (mf_pf fw')) \<and> pv_anchored (fst (mf_pf fw')) \<and>
     (\<forall>q. pf_decide_from None ref_ifx (pv_rules (fst (mf_pf fw'))) q = Some RulePass \<or>
        pf_decide_from None ref_ifx (pv_rules (fst (mf_pf fw'))) q = Some RuleDrop \<and>
          (\<not> policy_allows 1 7 ref_policy (pp_packet q) \<or> macos_refuses 7 ref_policy q))"
proof -
  obtain fw' where "macos_apply_policy ref_pfctl ref_policy ref_mac = (Inr (), fw')"
    using ref_apply by blast
  with macos_apply_policy_contract [OF ref_macos.macos_pf_axioms this, of ref_ifx 1 7] show ?thesis
    by (auto simp: macos_interfaces_def ref_ifx_def ref_policy_def ref_tunnel_def)
qed

text \<open>
  C10.  The rules \<open>Firewall::apply_policy\<close> installs on macOS stay within the documented policy.  After it has
  returned \<open>Ok\<close>, a packet without a state that the rules let through is allowed by the block/allow
  specification of \<open>FirewallPolicy\<close>, with two exceptions: ICMPv6 packets of any type to all routers or from a
  link-local address, and, while LAN traffic is allowed, TCP between the DHCP ports.
\<close>

theorem macos_within_policy:
  assumes "macos_pf ifx decide pc view" and "macos_apply_policy pc pol fw = (Inr u, fw')"
    and "macos_interfaces ifx lo tun pol" and "decide (pv_rules (view (mf_pf fw'))) q = Some RulePass"
  shows "policy_allows lo tun pol (pp_packet q) \<or> macos_extra pol (pp_packet q)"
proof -
  have "macos_enforces ifx decide view fw' pol"
    using macos_pf.apply_enforces [OF assms(1,2)] by simp
  with assms(4) have "macos_allows ifx pol q" by (auto dest: enforces_decides)
  with assms(3) show ?thesis by (rule macos_allows_sound)
qed

definition ref_mac_dhcp :: pf_packet where
  "ref_mac_dhcp = \<lparr>pp_packet = ref_dhcp, pp_tcp_flags = {}\<rparr>"

lemma ref_dhcp_always: "macos_always_out ref_dhcp"
  by (simp add: macos_always_out_def ref_dhcp_def spec_defs DHCPV4_CLIENT_PORT_def DHCPV4_SERVER_PORT_def)

theorem macos_within_policy_witness:
  "\<exists>fw'. macos_apply_policy ref_pfctl ref_policy ref_mac = (Inr (), fw') \<and>
     pf_decide_from None ref_ifx (pv_rules (fst (mf_pf fw'))) ref_mac_dhcp = Some RulePass \<and>
     policy_allows 1 7 ref_policy ref_dhcp"
proof -
  obtain fw' where fw': "macos_apply_policy ref_pfctl ref_policy ref_mac = (Inr (), fw')"
    using ref_apply by blast
  note e = ref_macos.fw.apply_ok [OF fw', of ref_ifx]
  have pass: "pf_decide_from None ref_ifx (pv_rules (fst (mf_pf fw'))) ref_mac_dhcp = Some RulePass"
    using e ref_dhcp_always
    by (simp add: macos_enforces_def Let_def macos_allows_def ref_mac_dhcp_def ref_dhcp_def)
  have "macos_interfaces ref_ifx 1 7 ref_policy"
    by (simp add: macos_interfaces_def ref_ifx_def ref_policy_def ref_tunnel_def)
  from macos_within_policy [OF ref_macos.macos_pf_axioms fw' this pass]
  have "policy_allows 1 7 ref_policy ref_dhcp"
    by (simp add: ref_mac_dhcp_def macos_extra_def ref_dhcp_def sport_is_def)
  with fw' pass show ?thesis by blast
qed

text \<open>
  C9.  No DNS leak on macOS.  After \<open>Firewall::apply_policy\<close> has returned \<open>Ok\<close> for a \<open>Connected\<close> policy, the rules
  let a DNS request (UDP or TCP to port 53) that starts a new conversation and is not sent over loopback out
  only through the tunnel and only to a gateway of the tunnel, and there they do let it out.  This holds even
  for a relay whose endpoint is on port 53, which the documentation of the policy allows elsewhere.
\<close>

theorem macos_no_dns_leak:
  assumes "macos_pf ifx decide pc view"
    and "macos_apply_policy pc (PolicyConnected e t lan) fw = (Inr u, fw')"
    and "p = pp_packet q" and "pk_dir p = DirOut" and "is_dns p" and "\<not> on_iface ifx ''lo0'' p"
  shows "decide (pv_rules (view (mf_pf fw'))) q =
    Some (if on_iface ifx (tm_interface t) p \<and> to_tunnel_gateway p t then RulePass else RuleDrop)"
proof -
  have "\<not> macos_always_out p"
    using assms(5) by (cases "pk_l4 p") (auto simp: is_dns_def macos_always_out_def dport_is_def
        DHCPV4_SERVER_PORT_def DHCPV6_SERVER_PORT_def)
  moreover have "macos_enforces ifx decide view fw' (PolicyConnected e t lan)"
    using macos_pf.apply_enforces [OF assms(1,2)] by simp
  ultimately show ?thesis
    using assms(3-6) by (simp add: macos_enforces_def macos_allows_def Let_def)
qed

definition ref_dns_relay :: pf_packet where
  "ref_dns_relay = \<lparr>pp_packet = ref_dns_leak\<lparr>pk_l3 := L3V4 (ipv4_new 192 168 1 2) (ipv4_new 1 2 3 4)\<rparr>,
     pp_tcp_flags = {}\<rparr>"

text \<open>The relay of this policy listens on port 53, as some relays of the list do.\<close>

definition ref_dns_policy :: firewall_policy where
  "ref_dns_policy = PolicyConnected (endpoint_new (V4 (ipv4_new 1 2 3 4)) 53 Udp) ref_tunnel True"

theorem macos_no_dns_leak_witness:
  "\<exists>fw'. macos_apply_policy ref_pfctl ref_dns_policy ref_mac = (Inr (), fw') \<and>
     pf_decide_from None ref_ifx (pv_rules (fst (mf_pf fw'))) ref_dns_relay = Some RuleDrop \<and>
     policy_allows 1 7 ref_dns_policy (pp_packet ref_dns_relay)"
proof -
  obtain fw' where fw': "macos_apply_policy ref_pfctl ref_dns_policy ref_mac = (Inr (), fw')"
    using ref_apply by blast
  have "policy_allows 1 7 ref_dns_policy (pp_packet ref_dns_relay)"
    by (simp add: policy_allows_def ref_dns_policy_def ref_dns_relay_def ref_dns_leak_def to_endpoint_def
        dst_is_def dport_is_def endpoint_new_def)
  moreover have "pf_decide_from None ref_ifx (pv_rules (fst (mf_pf fw'))) ref_dns_relay = Some RuleDrop"
    using macos_no_dns_leak [OF ref_macos.macos_pf_axioms fw' [unfolded ref_dns_policy_def] refl,
        of ref_dns_relay ref_ifx]
    by (simp add: ref_dns_relay_def ref_dns_leak_def is_dns_def dport_is_def on_iface_def ref_ifx_def
        ref_tunnel_def)
  ultimately show ?thesis using fw' by blast
qed

section \<open>The state machine on macOS\<close>

definition macos_platform :: "'k pfctl \<Rightarrow> string option \<Rightarrow> pf_error + 'k \<Rightarrow> (unit, 'dns, 'gen, 'tp) platform
    \<Rightarrow> ('k macos_firewall, 'dns, 'gen, 'tp) platform" where
  "macos_platform pc debugging opened rest = \<lparr>
     pf_fw_new = macos_firewall_new debugging opened,
     pf_fw_apply = macos_apply_policy pc, pf_fw_reset = macos_reset_policy pc,
     pf_dns_new = pf_dns_new rest, pf_dns_set = pf_dns_set rest, pf_dns_reset = pf_dns_reset rest,
     pf_generate = pf_generate rest, pf_start = pf_start rest, pf_close = pf_close rest\<rparr>"

sublocale macos_pf \<subseteq> machine: tsm_firewall "macos_platform pc debugging opened rest"
    "macos_enforces ifx decide view" "macos_lifted view" for debugging opened rest
  by unfold_locales (auto simp: macos_platform_def
      dest: fw.apply_ok fw.apply_err fw.reset_ok fw.reset_err)

context macos_pf
begin

lemma machine_secure:
  "reachable (macos_platform pc debugging opened rest) (st, sh) \<Longrightarrow>
     secure (macos_enforces ifx decide view) st sh"
  by (rule machine.reachable_secure)

end

text \<open>The new conversations a state of the machine may start besides those on loopback.\<close>

fun macos_may_leave :: "(string \<Rightarrow> u32 option) \<Rightarrow> tunnel_state \<Rightarrow> bool \<Rightarrow> packet \<Rightarrow> bool" where
  "macos_may_leave ifx (StConnecting c) lan p \<longleftrightarrow>
     macos_always_out p \<or> to_endpoint p (get_endpoint_from_params (cg_tunnel_parameters c)) \<or>
     (\<exists>h \<in> set (gateway_list_from_params (cg_tunnel_parameters c)). dst_is p h \<and> icmp_for h (pk_l4 p)) \<or>
     lan \<and> macos_lan_out p"
| "macos_may_leave ifx (StConnected c) lan p \<longleftrightarrow>
     macos_always_out p \<or>
     (let in_tunnel = on_iface ifx (tm_interface (cd_metadata c)) p in
      if is_dns p then in_tunnel \<and> to_tunnel_gateway p (cd_metadata c)
      else to_endpoint p (get_endpoint_from_params (cd_tunnel_parameters c)) \<or> in_tunnel \<or>
        lan \<and> macos_lan_out p)"
| "macos_may_leave ifx (StBlocked r) lan p \<longleftrightarrow> macos_always_out p \<or> macos_lan_out p"
| "macos_may_leave ifx StDisconnected lan p \<longleftrightarrow> True"
| "macos_may_leave ifx (StDisconnecting d) lan p \<longleftrightarrow> True"

text \<open>
  C7.  End to end leak freedom on macOS.  Run the state machine on the macOS firewall, with any packet filter
  that behaves as documented, however many of its calls fail.  In every reachable connecting or
  connected state, and in every blocked state whose reason is not a firewall failure, pf is enabled
  with the anchor in place, and a new conversation its rules let out on an interface other than
  loopback is one of those listed by \<open>macos_may_leave\<close>.
\<close>

theorem macos_machine_no_leak:
  assumes pf: "macos_pf ifx decide pc view"
    and reach: "reachable (macos_platform pc debugging opened rest) (st, sh)"
    and st: "st \<noteq> StBlocked SetFirewallPolicyError" "st \<noteq> StDisconnected"
    and p: "p = pp_packet q" "pk_dir p = DirOut" "\<not> on_iface ifx ''lo0'' p"
  shows "\<exists>v. v = view (mf_pf (sv_firewall sh)) \<and> pv_enabled v \<and> pv_anchored v \<and>
    (decide (pv_rules v) q = Some RulePass \<longrightarrow> macos_may_leave ifx st (sv_allow_lan sh) p)"
  using macos_pf.machine_secure [OF pf reach] st p
  by (cases st) (auto dest!: enforces_decides [where q = q] simp: macos_allows_def connecting_policy_eq
      connected_policy_def Let_def split: if_splits)

abbreviation mac_platform :: "(ref_pf macos_firewall, ref_dns, nat, nat) platform" where
  "mac_platform \<equiv> macos_platform ref_pfctl None (Inr (mf_pf ref_mac)) ref_rest"

definition mac_shared :: "(ref_pf macos_firewall, ref_dns, nat, nat) shared" where
  "mac_shared = \<lparr>sv_firewall = ref_mac, sv_dns_monitor = None, sv_allow_lan = False,
     sv_block_when_disconnected = False, sv_is_offline = False, sv_generator = 0,
     sv_tun_provider = 0, sv_log_dir = None, sv_resource_dir = ''/r''\<rparr>"

lemma mac_start:
  "machine_new mac_platform False False False 0 0 None ''/r'' ''/c'' =
     Inr \<lparr>tm_current_state = Some StDisconnected, tm_shared = mac_shared\<rparr>"
  by (simp add: machine_new_def disconnected_enter_def disconnected_set_firewall_policy_def
      reset_policy_def macos_platform_def ref_rest_def mac_shared_def macos_firewall_new_def and_then_def
      ref_mac_def rule_logging_of_def macos_reset_policy_def macos_remove_rules_def
      macos_remove_anchor_def macos_restore_state_def call_then_def on_pf_def)
    (simp add: ref_pfctl_def ref_call_def and_then_def on_pf_def)

lemma mac_blocked: "\<exists>sh'. reachable mac_platform (StBlocked IsOffline, sh')"
proof -
  obtain fw' where fw': "macos_apply_policy ref_pfctl (PolicyBlocked False) ref_mac = (Inr (), fw')"
    using ref_apply by blast
  have "handle_event mac_platform (cmd_poll (CmdBlock IsOffline)) StDisconnected mac_shared =
      (ActNotify (Some (StBlocked IsOffline)) (PollTransition (TrBlocked IsOffline)),
       mac_shared\<lparr>sv_firewall := fw'\<rparr>)"
    by (simp add: disconnected_handle_event_def cmd_poll_def idle_def blocked_enter_def
        blocked_set_firewall_policy_def apply_policy_def new_state_def macos_platform_def mac_shared_def fw')
  from reachable.step [OF reachable.start [OF mac_start] machine_step.notify [OF this]]
  show ?thesis by blast
qed

theorem macos_machine_no_leak_witness:
  "\<exists>sh'. reachable mac_platform (StBlocked IsOffline, sh') \<and> pv_enabled (fst (mf_pf (sv_firewall sh'))) \<and>
     (pf_decide_from None ref_ifx (pv_rules (fst (mf_pf (sv_firewall sh')))) ref_mac_dhcp = Some RulePass \<longrightarrow>
      macos_may_leave ref_ifx (StBlocked IsOffline) (sv_allow_lan sh') ref_dhcp)"
proof -
  obtain sh' where r: "reachable mac_platform (StBlocked IsOffline, sh')" using mac_blocked by blast
  have "pp_packet ref_mac_dhcp = ref_dhcp" by (simp add: ref_mac_dhcp_def)
  with macos_machine_no_leak [OF ref_macos.macos_pf_axioms r, of ref_dhcp ref_mac_dhcp ref_ifx] r
  show ?thesis by (auto simp: ref_dhcp_def on_iface_def ref_ifx_def)
qed

end
