(* ===== verification/Std_Str.thy ===== *)
theory Std_Str
  imports Std_Fmt
begin

text \<open>
  The parts of the standard library's \<open>str\<close> the sources read text with, on ASCII text: \<open>split_whitespace\<close>,
  \<open>trim\<close>, \<open>lines\<close>, \<open>starts_with\<close>, \<open>find\<close>, \<open>replace\<close> and \<open>u32::from_str\<close>.
\<close>

section \<open>Definitions\<close>

definition is_space :: "char \<Rightarrow> bool" where
  "is_space c \<longleftrightarrow> c = CHR '' '' \<or> 9 \<le> (of_char c :: nat) \<and> (of_char c :: nat) \<le> 13"

fun split_words :: "string \<Rightarrow> string \<Rightarrow> string list" where
  "split_words w [] = (if w = [] then [] else [w])"
| "split_words w (c # cs) =
     (if is_space c then (if w = [] then [] else [w]) @ split_words [] cs else split_words (w @ [c]) cs)"

definition split_whitespace :: "string \<Rightarrow> string list" where
  "split_whitespace s = split_words [] s"

definition strip_cr :: "string \<Rightarrow> string" where
  "strip_cr l = (if l \<noteq> [] \<and> last l = CHR 0x0D then butlast l else l)"

fun split_lines :: "string \<Rightarrow> string \<Rightarrow> string list" where
  "split_lines l [] = (if l = [] then [] else [strip_cr l])"
| "split_lines l (c # cs) =
     (if c = CHR 0x0A then strip_cr l # split_lines [] cs else split_lines (l @ [c]) cs)"

definition str_lines :: "string \<Rightarrow> string list" where
  "str_lines s = split_lines [] s"

definition is_digit :: "char \<Rightarrow> bool" where
  "is_digit c \<longleftrightarrow> 48 \<le> (of_char c :: nat) \<and> (of_char c :: nat) \<le> 57"

definition digits_value :: "string \<Rightarrow> nat" where
  "digits_value s = foldl (\<lambda>n c. n * 10 + (of_char c - 48)) 0 s"

definition parse_u32 :: "string \<Rightarrow> u32 option" where
  "parse_u32 s =
     (let ds = (if s \<noteq> [] \<and> hd s = CHR ''+'' then tl s else s) in
      if ds \<noteq> [] \<and> list_all is_digit ds \<and> digits_value ds < 2 ^ 32
      then Some (of_nat (digits_value ds)) else None)"

definition starts_with :: "string \<Rightarrow> string \<Rightarrow> bool" where
  "starts_with s p \<longleftrightarrow> take (length p) s = p"

definition str_trim :: "string \<Rightarrow> string" where
  "str_trim s = rev (dropWhile is_space (rev (dropWhile is_space s)))"

text \<open>\<open>str::find\<close> with a string: the index of the first occurrence.\<close>

fun str_find :: "string \<Rightarrow> string \<Rightarrow> nat option" where
  "str_find p [] = (if p = [] then Some 0 else None)"
| "str_find p (c # cs) = (if starts_with (c # cs) p then Some 0 else map_option Suc (str_find p cs))"

text \<open>
  \<open>str::replace\<close>: occurrences from the left that do not overlap; the empty pattern occurs around every
  character.
\<close>

function replace_from :: "string \<Rightarrow> string \<Rightarrow> string \<Rightarrow> string" where
  "replace_from p new s =
     (case s of
        [] \<Rightarrow> []
      | c # cs \<Rightarrow>
          if p \<noteq> [] \<and> starts_with s p then new @ replace_from p new (drop (length p) s)
          else c # replace_from p new cs)"
  by pat_completeness auto
termination
  by (relation "measure (\<lambda>(_, _, s). length s)") auto

declare replace_from.simps [simp del]

definition str_replace :: "string \<Rightarrow> string \<Rightarrow> string \<Rightarrow> string" where
  "str_replace p new s =
     (if p = [] then new @ concat (map (\<lambda>c. c # new) s) else replace_from p new s)"

section \<open>Lemmas\<close>

definition is_word :: "string \<Rightarrow> bool" where
  "is_word w \<longleftrightarrow> w \<noteq> [] \<and> (\<forall>c \<in> set w. \<not> is_space c)"

lemma split_words_word: "\<forall>c \<in> set w. \<not> is_space c \<Longrightarrow> split_words acc (w @ cs) = split_words (acc @ w) cs"
  by (induction w arbitrary: acc) auto

lemma split_whitespace_join: "\<forall>w \<in> set ws. is_word w \<Longrightarrow> split_whitespace (join_with '' '' ws) = ws"
  unfolding split_whitespace_def
proof (induction "'' ''" ws rule: join_with.induct)
  case (2 x)
  then show ?case using split_words_word [of x "[]" "[]"] by (simp add: is_word_def)
next
  case (3 x y ys)
  then show ?case using split_words_word [of x "[]" "'' '' @ join_with '' '' (y # ys)"]
    by (simp add: is_word_def) (simp add: is_space_def)
qed simp

lemma plain_no_space: "plain s \<Longrightarrow> c \<in> set s \<Longrightarrow> \<not> is_space c"
  by (auto simp: plain_def list_all_iff plain_char_def is_space_def)

lemma fmt_radix_digits:
  "list_all is_digit (fmt_radix 10 n) \<and> digits_value (fmt_radix 10 n) = n \<and> fmt_radix 10 n \<noteq> []"
proof (induction n rule: less_induct)
  case (less n)
  have d: "is_digit (digit k)" "of_char (digit k) = 48 + k" if "k < 10" for k
    using that by (simp_all add: digit_def is_digit_def)
  show ?case
  proof (cases "n < 10")
    case True
    with d show ?thesis by (subst (1 2 3) fmt_radix.simps) (simp add: digits_value_def)
  next
    case False
    then have "n div 10 < n" by simp
    with less.IH [OF this] d [of "n mod 10"] False show ?thesis
      by (subst (1 2 3) fmt_radix.simps) (simp add: digits_value_def)
  qed
qed

lemma parse_u32_fmt: "parse_u32 (fmt_nat (unat m)) = Some m"
proof -
  have "hd (fmt_nat (unat m)) \<noteq> CHR ''+''"
    using fmt_radix_digits [of "unat m"] by (cases "fmt_nat (unat m)") (auto simp: fmt_nat_def is_digit_def)
  moreover have "unat m < 2 ^ 32" using unsigned_less [of m] by simp
  ultimately show ?thesis
    using fmt_radix_digits [of "unat m"] by (simp add: parse_u32_def fmt_nat_def)
qed

lemma fmt_nat_word: "is_word (fmt_nat n)"
  using fmt_radix_digits [of n] plain_no_space [OF plain_fmt_nat [of n]] by (auto simp: is_word_def fmt_nat_def)

lemma join_with_nonempty: "length xs \<ge> 2 \<Longrightarrow> sep \<noteq> [] \<Longrightarrow> join_with sep xs \<noteq> []"
  by (induction sep xs rule: join_with.induct) auto

lemma fmt_ip_word: "is_word (fmt_ip a)"
proof -
  have "fmt_ipv4 x \<noteq> []" for x unfolding fmt_ipv4_def by (rule join_with_nonempty) (simp_all add: ipv4_octets_def)
  moreover have "fmt_ipv6 x \<noteq> []" for x
  proof -
    have "fmt_segments (ipv6_segments x) \<noteq> []"
      unfolding fmt_segments_def by (rule join_with_nonempty) (simp_all add: ipv6_segments_def)
    then show ?thesis unfolding fmt_ipv6_def Let_def by (simp split: prod.split)
  qed
  ultimately have "fmt_ip a \<noteq> []" by (cases a) simp_all
  then show ?thesis using plain_no_space [OF plain_fmt_ip [of a]] by (auto simp: is_word_def)
qed

lemma trim_word: "is_word w \<Longrightarrow> str_trim (w @ [CHR 0x0A]) = w"
proof -
  assume w: "is_word w"
  then have "dropWhile is_space (w @ xs) = w @ xs" for xs by (cases w) (simp_all add: is_word_def)
  moreover have "dropWhile is_space (rev w) = rev w"
    using w by (cases "rev w") (auto simp: is_word_def)
  moreover have "is_space (CHR 0x0A)" by (simp add: is_space_def)
  ultimately show ?thesis by (simp add: str_trim_def)
qed

end
