(* ===== verification/Routing_Linux.thy ===== *)
theory Routing_Linux
  imports Wireguard Std_Str
begin

text \<open>
  The route manager of Linux (\<open>talpid-core/src/routing/linux/mod.rs\<close>) with its listener for changes of
  the routing table (\<open>change_listener.rs\<close>).  Routes are set by running the program \<open>ip\<close>; the messages of
  netlink, the outcomes of the processes and the outputs of \<open>ip route show\<close> are inputs.  A \<open>HashSet\<close> is a
  list; the order of its iteration is the order of the list.
\<close>

section \<open>Routes\<close>

record route =
  rt_node :: route_node
  rt_prefix :: ip_network
  rt_metric :: "u32 option"

definition route_new :: "route_node \<Rightarrow> ip_network \<Rightarrow> route" where
  "route_new node prefix = \<lparr>rt_node = node, rt_prefix = prefix, rt_metric = None\<rparr>"

datatype route_change = ChangeAdd route | ChangeRemove route

datatype listener_error =
    NetlinkError | NetlinkProtocolError | ConnectError | InvalidRoute | InvalidIpBytes
  | InvalidNetworkPrefix | UnknownDeviceIndex u32 | BindError | NetlinkConnectionClosed

datatype routing_error =
    FailedToAddRoute | FailedToRemoveRoute | FailedToRunIp | ErrorIpFailed | UnexpectedOutput
  | NoDefaultRoute | ChangeListenerError listener_error | ChangeListenerClosed

section \<open>The change listener\<close>

text \<open>The messages of the crate \<open>netlink_packet\<close>, as far as the listener looks at them.\<close>

datatype route_nla =
    NlaOif u32 | NlaVia "u8 list" | NlaDestination "u8 list" | NlaGateway "u8 list"
  | NlaPriority u32 | NlaOther

record route_message =
  rm_destination_length :: u8
  rm_address_family :: u8
  rm_nlas :: "route_nla list"

datatype link_nla = LinkIfName string | LinkOther

record link_message =
  lm_index :: u32
  lm_nlas :: "link_nla list"

datatype netlink_payload =
    NewLink link_message | DelLink link_message | NewRoute route_message | DelRoute route_message
  | OtherPayload

definition AF_INET :: nat where "AF_INET = 2"
definition AF_INET6 :: nat where "AF_INET6 = 10"

definition bytes_to_nat :: "u8 list \<Rightarrow> nat" where
  "bytes_to_nat bs = foldl (\<lambda>n b. n * 256 + unat b) 0 bs"

definition listener_parse_ip :: "u8 list \<Rightarrow> listener_error + ip_addr" where
  "listener_parse_ip bytes =
     (if length bytes = 4 then Inr (V4 (of_nat (bytes_to_nat bytes)))
      else if length bytes = 16 then Inr (V6 (of_nat (bytes_to_nat bytes)))
      else Inl InvalidIpBytes)"

fun first_if_name :: "link_nla list \<Rightarrow> string option" where
  "first_if_name [] = None"
| "first_if_name (LinkIfName name # _) = Some name"
| "first_if_name (LinkOther # ns) = first_if_name ns"

definition map_iface_name_to_idx :: "link_message \<Rightarrow> (u32 \<times> string) option" where
  "map_iface_name_to_idx msg = map_option (\<lambda>name. (lm_index msg, name)) (first_if_name (lm_nlas msg))"

text \<open>The local variables of \<open>get_route\<close> while it goes through the attributes.\<close>

record route_parts =
  rp_prefix :: "ip_network option"
  rp_node_addr :: "ip_addr option"
  rp_device :: "string option"
  rp_metric :: "u32 option"
  rp_gateway :: "ip_addr option"

text \<open>\<open>net_new\<close> is \<open>IpNetwork::new\<close>, which fails for a prefix that is too long.\<close>

fun scan_nla :: "(ip_addr \<Rightarrow> u8 \<Rightarrow> ip_network option) \<Rightarrow> (u32 \<rightharpoonup> string) \<Rightarrow> u8 \<Rightarrow> route_nla \<Rightarrow> route_parts
    \<Rightarrow> listener_error + route_parts" where
  "scan_nla net_new ifs len (NlaOif idx) ps =
     (case ifs idx of Some name \<Rightarrow> Inr (ps\<lparr>rp_device := Some name\<rparr>) | None \<Rightarrow> Inl (UnknownDeviceIndex idx))"
| "scan_nla net_new ifs len (NlaVia addr) ps =
     (case listener_parse_ip addr of Inl e \<Rightarrow> Inl e | Inr ip \<Rightarrow> Inr (ps\<lparr>rp_node_addr := Some ip\<rparr>))"
| "scan_nla net_new ifs len (NlaDestination addr) ps =
     (case listener_parse_ip addr of
        Inl e \<Rightarrow> Inl e
      | Inr ip \<Rightarrow>
          (case net_new ip len of
             None \<Rightarrow> Inl InvalidNetworkPrefix
           | Some n \<Rightarrow> Inr (ps\<lparr>rp_prefix := Some n\<rparr>)))"
| "scan_nla net_new ifs len (NlaGateway addr) ps =
     (case listener_parse_ip addr of Inl e \<Rightarrow> Inl e | Inr ip \<Rightarrow> Inr (ps\<lparr>rp_gateway := Some ip\<rparr>))"
| "scan_nla net_new ifs len (NlaPriority priority) ps = Inr (ps\<lparr>rp_metric := Some priority\<rparr>)"
| "scan_nla net_new ifs len NlaOther ps = Inr ps"

fun scan_nlas :: "(ip_addr \<Rightarrow> u8 \<Rightarrow> ip_network option) \<Rightarrow> (u32 \<rightharpoonup> string) \<Rightarrow> u8 \<Rightarrow> route_nla list \<Rightarrow> route_parts
    \<Rightarrow> listener_error + route_parts" where
  "scan_nlas net_new ifs len [] ps = Inr ps"
| "scan_nlas net_new ifs len (nla # nlas) ps =
     (case scan_nla net_new ifs len nla ps of
        Inl e \<Rightarrow> Inl e | Inr ps' \<Rightarrow> scan_nlas net_new ifs len nlas ps')"

definition default_prefix :: "u8 \<Rightarrow> ip_network option" where
  "default_prefix family =
     (if unat family = AF_INET then Some (NetV4 0 0)
      else if unat family = AF_INET6 then Some (NetV6 0 0) else None)"

definition get_route ::
    "(ip_addr \<Rightarrow> u8 \<Rightarrow> ip_network option) \<Rightarrow> (u32 \<rightharpoonup> string) \<Rightarrow> route_message \<Rightarrow> listener_error + route" where
  "get_route net_new ifs msg =
     (case scan_nlas net_new ifs (rm_destination_length msg) (rm_nlas msg)
        \<lparr>rp_prefix = None, rp_node_addr = None, rp_device = None, rp_metric = None, rp_gateway = None\<rparr> of
        Inl e \<Rightarrow> Inl e
      | Inr ps \<Rightarrow>
          (let prefix = (if rp_prefix ps = None \<and> rp_gateway ps \<noteq> None
                         then default_prefix (rm_address_family msg) else rp_prefix ps)
           in (case prefix of
                 None \<Rightarrow> Inl InvalidRoute
               | Some n \<Rightarrow>
                   if rp_device ps = None \<and> rp_node_addr ps = None then Inl InvalidRoute
                   else Inr \<lparr>rt_node = \<lparr>node_ip = rp_node_addr ps, node_device = rp_device ps\<rparr>,
                             rt_prefix = n, rt_metric = rp_metric ps\<rparr>)))"

fun map_netlink_to_route_change ::
    "(ip_addr \<Rightarrow> u8 \<Rightarrow> ip_network option) \<Rightarrow> netlink_payload \<Rightarrow> (u32 \<rightharpoonup> string)
      \<Rightarrow> (listener_error + route_change option) \<times> (u32 \<rightharpoonup> string)" where
  "map_netlink_to_route_change net_new (NewLink link) ifs =
     (Inr None, (case map_iface_name_to_idx link of Some (idx, name) \<Rightarrow> ifs(idx \<mapsto> name) | None \<Rightarrow> ifs))"
| "map_netlink_to_route_change net_new (DelLink link) ifs =
     (Inr None, (case map_iface_name_to_idx link of Some (idx, _) \<Rightarrow> ifs(idx := None) | None \<Rightarrow> ifs))"
| "map_netlink_to_route_change net_new (NewRoute msg) ifs =
     (map_sum id (\<lambda>r. Some (ChangeAdd r)) (get_route net_new ifs msg), ifs)"
| "map_netlink_to_route_change net_new (DelRoute msg) ifs =
     (map_sum id (\<lambda>r. Some (ChangeRemove r)) (get_route net_new ifs msg), ifs)"
| "map_netlink_to_route_change net_new OtherPayload ifs = (Inr None, ifs)"

text \<open>
  What the listener reads: for each of its polls whether polling the connection succeeds, and the
  messages.  After the end of either list the connection is fine, and no message is ready.
\<close>

record netlink_input =
  ni_connection :: "bool list"
  ni_messages :: "netlink_payload stream_poll list"

fun poll_messages :: "(ip_addr \<Rightarrow> u8 \<Rightarrow> ip_network option) \<Rightarrow> netlink_payload stream_poll list \<Rightarrow> (u32 \<rightharpoonup> string)
    \<Rightarrow> (listener_error + route_change stream_poll) \<times> netlink_payload stream_poll list \<times> (u32 \<rightharpoonup> string)" where
  "poll_messages net_new [] ifs = (Inr StreamNotReady, [], ifs)"
| "poll_messages net_new (StreamNotReady # ms) ifs = (Inr StreamNotReady, ms, ifs)"
| "poll_messages net_new (StreamErr # ms) ifs = (Inl NetlinkConnectionClosed, ms, ifs)"
| "poll_messages net_new (StreamEnd # ms) ifs = (Inl NetlinkConnectionClosed, ms, ifs)"
| "poll_messages net_new (StreamItem m # ms) ifs =
     (case map_netlink_to_route_change net_new m ifs of
        (Inl e, ifs') \<Rightarrow> (Inl e, ms, ifs')
      | (Inr (Some change), ifs') \<Rightarrow> (Inr (StreamItem change), ms, ifs')
      | (Inr None, ifs') \<Rightarrow> poll_messages net_new ms ifs')"

definition listener_poll :: "(ip_addr \<Rightarrow> u8 \<Rightarrow> ip_network option) \<Rightarrow> netlink_input \<Rightarrow> (u32 \<rightharpoonup> string)
    \<Rightarrow> (listener_error + route_change stream_poll) \<times> netlink_input \<times> (u32 \<rightharpoonup> string)" where
  "listener_poll net_new inp ifs =
     (let inp' = inp\<lparr>ni_connection := tl (ni_connection inp)\<rparr> in
      if ni_connection inp \<noteq> [] \<and> \<not> hd (ni_connection inp)
      then (Inl NetlinkProtocolError, inp', ifs)
      else (case poll_messages net_new (ni_messages inp) ifs of
              (r, ms, ifs') \<Rightarrow> (r, inp'\<lparr>ni_messages := ms\<rparr>, ifs')))"

section \<open>The commands\<close>

text \<open>
  The arguments of \<open>ip\<close> that \<open>route_cmd\<close> collects; \<open>ip_args\<close> writes them as they are passed, with
  \<open>IpNetwork::to_string\<close> as \<open>fmt_net\<close>.
\<close>

record ip_command =
  ic_family :: string
  ic_action :: string
  ic_prefix :: ip_network
  ic_via :: "ip_addr option"
  ic_dev :: "string option"
  ic_metric :: "u32 option"

definition ip_vers :: "route \<Rightarrow> string" where
  "ip_vers r = (if net_is_ipv4 (rt_prefix r) then ''-4'' else ''-6'')"

definition route_cmd :: "string \<Rightarrow> route \<Rightarrow> ip_command" where
  "route_cmd action r =
     \<lparr>ic_family = ip_vers r, ic_action = action, ic_prefix = rt_prefix r,
      ic_via = node_ip (rt_node r), ic_dev = node_device (rt_node r), ic_metric = rt_metric r\<rparr>"

definition ip_args :: "(ip_network \<Rightarrow> string) \<Rightarrow> ip_command \<Rightarrow> string list" where
  "ip_args fmt_net c =
     [ic_family c, ''route'', ic_action c, fmt_net (ic_prefix c)] @
     (case ic_via c of Some addr \<Rightarrow> [''via'', fmt_ip addr] | None \<Rightarrow> []) @
     (case ic_dev c of Some device \<Rightarrow> [''dev'', device] | None \<Rightarrow> []) @
     (case ic_metric c of Some metric \<Rightarrow> [''metric'', fmt_nat (unat metric)] | None \<Rightarrow> [])"

datatype ip_exit = IpNotRun | IpExit bool

definition exit_result :: "routing_error \<Rightarrow> ip_exit \<Rightarrow> routing_error + unit" where
  "exit_result err ex =
     (case ex of IpNotRun \<Rightarrow> Inl FailedToRunIp | IpExit success \<Rightarrow> if success then Inr () else Inl err)"

text \<open>Running a command to its end; \<open>run\<close> is the system.\<close>

definition run_cmd :: "(ip_command \<Rightarrow> 's \<Rightarrow> ip_exit \<times> 's) \<Rightarrow> ip_command \<Rightarrow> routing_error \<Rightarrow> 's
    \<Rightarrow> (routing_error + unit) \<times> 's" where
  "run_cmd run cmd err s = apfst (exit_result err) (run cmd s)"

definition add_route :: "(ip_command \<Rightarrow> 's \<Rightarrow> ip_exit \<times> 's) \<Rightarrow> route \<Rightarrow> 's \<Rightarrow> (routing_error + unit) \<times> 's" where
  "add_route run r = run_cmd run (route_cmd ''replace'' r) FailedToAddRoute"

definition delete_route :: "(ip_command \<Rightarrow> 's \<Rightarrow> ip_exit \<times> 's) \<Rightarrow> route \<Rightarrow> 's \<Rightarrow> (routing_error + unit) \<times> 's" where
  "delete_route run r = run_cmd run (route_cmd ''delete'' r) FailedToRemoveRoute"

section \<open>Reading the default routes\<close>

datatype ip_version = IpV4 | IpV6

fun to_route_arg :: "ip_version \<Rightarrow> string" where
  "to_route_arg IpV4 = ''-4''"
| "to_route_arg IpV6 = ''-6''"

text \<open>The loop over the pairs of words; an odd word at the end stops it.\<close>

fun scan_pairs :: "(string \<Rightarrow> ip_addr option) \<Rightarrow> string list \<Rightarrow> route_node \<times> u32 option
    \<Rightarrow> route_node \<times> u32 option" where
  "scan_pairs parse_ip (kind # val # ws) (node, metric) =
     scan_pairs parse_ip ws
       (if kind = ''via'' then (node\<lparr>node_ip := parse_ip val\<rparr>, metric)
        else if kind = ''dev'' then (node\<lparr>node_device := Some val\<rparr>, metric)
        else if kind = ''metric'' then (node, parse_u32 val)
        else (node, metric))"
| "scan_pairs parse_ip [w] acc = acc"
| "scan_pairs parse_ip [] acc = acc"

definition parse_ip_route_show_line ::
    "(string \<Rightarrow> ip_addr option) \<Rightarrow> (string \<Rightarrow> ip_network option) \<Rightarrow> string \<Rightarrow> ip_version \<Rightarrow> route option" where
  "parse_ip_route_show_line parse_ip parse_net line v =
     (case split_whitespace line of
        [] \<Rightarrow> None
      | prefix_str # tokens \<Rightarrow>
          (case (if prefix_str = ''default''
                 then Some (case v of IpV4 \<Rightarrow> NetV4 0 0 | IpV6 \<Rightarrow> NetV6 0 0)
                 else parse_net prefix_str) of
             None \<Rightarrow> None
           | Some prefix \<Rightarrow>
               (let (node, metric) = scan_pairs parse_ip tokens (\<lparr>node_ip = None, node_device = None\<rparr>, None) in
                if node_ip node = None \<and> node_device node = None then None
                else Some \<lparr>rt_node = node, rt_prefix = prefix, rt_metric = metric\<rparr>)))"

text \<open>The outcome of \<open>ip route show\<close>: not run, an output that is not UTF-8, or its text.\<close>

datatype ip_show = ShowNotRun | ShowInvalid | ShowText string

definition get_default_routes_inner ::
    "(string \<Rightarrow> ip_addr option) \<Rightarrow> (string \<Rightarrow> ip_network option) \<Rightarrow> (string list \<Rightarrow> ip_show) \<Rightarrow> ip_version
      \<Rightarrow> routing_error + route list" where
  "get_default_routes_inner parse_ip parse_net show v =
     (case show [to_route_arg v, ''route'', ''show''] of
        ShowNotRun \<Rightarrow> Inl FailedToRunIp
      | ShowInvalid \<Rightarrow> Inl UnexpectedOutput
      | ShowText text \<Rightarrow>
          Inr (List.map_filter (\<lambda>line.
            if starts_with line ''default'' then parse_ip_route_show_line parse_ip parse_net line v
            else None) (str_lines text)))"

text \<open>The set of all routes of both families.\<close>

definition get_default_routes ::
    "(string \<Rightarrow> ip_addr option) \<Rightarrow> (string \<Rightarrow> ip_network option) \<Rightarrow> (string list \<Rightarrow> ip_show)
      \<Rightarrow> routing_error + route list" where
  "get_default_routes parse_ip parse_net show =
     (case get_default_routes_inner parse_ip parse_net show IpV4 of
        Inl e \<Rightarrow> Inl e
      | Inr v4_routes \<Rightarrow>
          (case get_default_routes_inner parse_ip parse_net show IpV6 of
             Inl e \<Rightarrow> Inl e
           | Inr v6_routes \<Rightarrow> Inr (remdups (v4_routes @ v6_routes))))"

definition metric_of :: "route \<Rightarrow> u32" where
  "metric_of r = (case rt_metric r of None \<Rightarrow> 0 | Some m \<Rightarrow> m)"

fun better_route :: "route option \<Rightarrow> route \<Rightarrow> route option" where
  "better_route (Some current_best) next_route =
     (if metric_of current_best > metric_of next_route then Some next_route else Some current_best)"
| "better_route None next_route = Some next_route"

definition pick_best_default_node :: "route list \<Rightarrow> bool \<Rightarrow> route_node option" where
  "pick_best_default_node routes v4 =
     map_option rt_node
       (foldl better_route None (filter (\<lambda>r. net_is_ipv4 (rt_prefix r) = v4) routes))"

section \<open>The manager\<close>

text \<open>
  The state of the manager; \<open>mg_shutdown_finished_tx\<close> says whether there is someone to tell when the
  shutdown is finished.  The process of a pending change is polled through an input.
\<close>

record route_manager =
  mg_iface_map :: "u32 \<rightharpoonup> string"
  mg_added_routes :: "route list"
  mg_required_default_routes :: "ip_network list"
  mg_default_routes :: "route list"
  mg_best_default_node_v4 :: "route_node option"
  mg_best_default_node_v6 :: "route_node option"
  mg_needed_changes :: "route_change list"
  mg_pending_change :: "route_change option"
  mg_shutdown_finished_tx :: bool
  mg_should_shut_down :: bool

definition required_normal :: "(ip_network \<times> net_node) list \<Rightarrow> route list" where
  "required_normal required =
     List.map_filter (\<lambda>(d, n). case n of RealNode node \<Rightarrow> Some (route_new node d) | DefaultNode \<Rightarrow> None) required"

definition required_default :: "(ip_network \<times> net_node) list \<Rightarrow> ip_network list" where
  "required_default required =
     List.map_filter (\<lambda>(d, n). case n of RealNode _ \<Rightarrow> None | DefaultNode \<Rightarrow> Some d) required"

text \<open>The routes of the baseline: the normal ones, then those through the best default nodes.\<close>

definition default_node_routes :: "route_node option \<Rightarrow> route_node option \<Rightarrow> ip_network list \<Rightarrow> route list" where
  "default_node_routes best_v4 best_v6 prefixes =
     List.map_filter (\<lambda>prefix.
       map_option (\<lambda>node. route_new node prefix) (if net_is_ipv4 prefix then best_v4 else best_v6)) prefixes"

text \<open>\<open>establish_baseline_fn\<close>: adds routes one by one until one fails.\<close>

fun establish_baseline :: "(ip_command \<Rightarrow> 's \<Rightarrow> ip_exit \<times> 's) \<Rightarrow> route list \<Rightarrow> route list \<Rightarrow> 's
    \<Rightarrow> (routing_error + unit) \<times> route list \<times> 's" where
  "establish_baseline run [] added s = (Inr (), added, s)"
| "establish_baseline run (r # rs) added s =
     (case add_route run r s of
        (Inl e, s') \<Rightarrow> (Inl e, added, s')
      | (Inr _, s') \<Rightarrow> establish_baseline run rs (List.insert r added) s')"

fun delete_routes :: "(ip_command \<Rightarrow> 's \<Rightarrow> ip_exit \<times> 's) \<Rightarrow> route list \<Rightarrow> 's \<Rightarrow> 's" where
  "delete_routes run [] s = s"
| "delete_routes run (r # rs) s = delete_routes run rs (snd (delete_route run r s))"

text \<open>
  \<open>RouteManagerImpl::new\<close>, given the outcome of starting the listener with the interfaces it found, and
  the default routes.
\<close>

definition route_manager_new :: "(ip_command \<Rightarrow> 's \<Rightarrow> ip_exit \<times> 's) \<Rightarrow> listener_error + (u32 \<rightharpoonup> string)
    \<Rightarrow> routing_error + route list \<Rightarrow> (ip_network \<times> net_node) list \<Rightarrow> 's
    \<Rightarrow> (routing_error + route_manager) \<times> 's" where
  "route_manager_new run listener defaults required s =
     (case listener of
        Inl e \<Rightarrow> (Inl (ChangeListenerError e), s)
      | Inr ifs \<Rightarrow>
          (case defaults of
             Inl e \<Rightarrow> (Inl e, s)
           | Inr default_routes \<Rightarrow>
               (let best_v4 = pick_best_default_node default_routes True;
                    best_v6 = pick_best_default_node default_routes False;
                    baseline = required_normal required @
                      default_node_routes best_v4 best_v6 (required_default required)
                in (case establish_baseline run baseline [] s of
                      (Inl e, added, s') \<Rightarrow> (Inl e, delete_routes run added s')
                    | (Inr _, added, s') \<Rightarrow>
                        (Inr \<lparr>mg_iface_map = ifs, mg_added_routes = added,
                              mg_required_default_routes = required_default required,
                              mg_default_routes = default_routes, mg_best_default_node_v4 = best_v4,
                              mg_best_default_node_v6 = best_v6, mg_needed_changes = [],
                              mg_pending_change = None, mg_shutdown_finished_tx = False,
                              mg_should_shut_down = False\<rparr>, s')))))"

definition enque_route_change :: "route_change \<Rightarrow> route_manager \<Rightarrow> route_manager" where
  "enque_route_change c mg =
     (if mg_pending_change mg \<noteq> Some c \<and> c \<notin> set (mg_needed_changes mg)
      then mg\<lparr>mg_needed_changes := mg_needed_changes mg @ [c]\<rparr> else mg)"

text \<open>Moving one destination from the old node to the new one.\<close>

definition move_destination :: "route_node option \<Rightarrow> route_node \<Rightarrow> ip_network \<Rightarrow> route_manager \<Rightarrow> route_manager" where
  "move_destination old new destination mg =
     enque_route_change (ChangeAdd (route_new new destination))
       (case old of
          Some node \<Rightarrow> enque_route_change (ChangeRemove (route_new node destination)) mg
        | None \<Rightarrow> mg)"

text \<open>\<open>update_default_rotues\<close> handles the two families in the same way, IPv4 first.\<close>

definition best_default_node :: "bool \<Rightarrow> route_manager \<Rightarrow> route_node option" where
  "best_default_node v4 mg = (if v4 then mg_best_default_node_v4 mg else mg_best_default_node_v6 mg)"

definition set_best_default_node :: "bool \<Rightarrow> route_node option \<Rightarrow> route_manager \<Rightarrow> route_manager" where
  "set_best_default_node v4 node mg =
     (if v4 then mg\<lparr>mg_best_default_node_v4 := node\<rparr> else mg\<lparr>mg_best_default_node_v6 := node\<rparr>)"

definition update_default_family :: "bool \<Rightarrow> route_manager \<Rightarrow> route_manager" where
  "update_default_family v4 mg =
     (case pick_best_default_node (mg_default_routes mg) v4 of
        Some new_node \<Rightarrow>
          if best_default_node v4 mg \<noteq> Some new_node
          then set_best_default_node v4 (Some new_node)
                 (fold (move_destination (best_default_node v4 mg) new_node)
                    (filter (\<lambda>d. net_is_ipv4 d = v4) (mg_required_default_routes mg))
                    (set_best_default_node v4 None mg))
          else mg
      | None \<Rightarrow> mg)"

definition update_default_rotues :: "route_manager \<Rightarrow> route_manager" where
  "update_default_rotues mg = update_default_family False (update_default_family True mg)"

definition process_new_route :: "route \<Rightarrow> route_manager \<Rightarrow> route_manager" where
  "process_new_route r mg =
     (let mg = mg\<lparr>mg_needed_changes := filter (\<lambda>c. c \<noteq> ChangeAdd r) (mg_needed_changes mg)\<rparr> in
      if net_prefix (rt_prefix r) = 0
      then update_default_rotues (mg\<lparr>mg_default_routes := List.insert r (mg_default_routes mg)\<rparr>)
      else mg)"

definition process_deleted_route :: "route \<Rightarrow> route_manager \<Rightarrow> route_manager" where
  "process_deleted_route r mg =
     (let mg = mg\<lparr>mg_needed_changes := filter (\<lambda>c. c \<noteq> ChangeRemove r) (mg_needed_changes mg)\<rparr> in
      if net_prefix (rt_prefix r) = 0 then update_default_rotues mg else mg)"

fun process_change :: "route_change \<Rightarrow> route_manager \<Rightarrow> route_manager" where
  "process_change (ChangeAdd r) mg = process_new_route r mg"
| "process_change (ChangeRemove r) mg = process_deleted_route r mg"

lemma poll_messages_shorter:
  "poll_messages net_new ms ifs = (Inr (StreamItem c), ms', ifs') \<Longrightarrow> length ms' < length ms"
proof (induction ms arbitrary: ifs)
  case (Cons m ms)
  then show ?case
    by (cases m) (auto split: prod.splits sum.splits option.splits intro: less_SucI)
qed simp

function process_route_table_change :: "(ip_addr \<Rightarrow> u8 \<Rightarrow> ip_network option) \<Rightarrow> netlink_input \<Rightarrow> route_manager
    \<Rightarrow> (routing_error + unit) \<times> netlink_input \<times> route_manager" where
  "process_route_table_change net_new inp mg =
     (case listener_poll net_new inp (mg_iface_map mg) of
        (Inl e, inp', ifs) \<Rightarrow> (Inl (ChangeListenerError e), inp', mg\<lparr>mg_iface_map := ifs\<rparr>)
      | (Inr StreamNotReady, inp', ifs) \<Rightarrow> (Inr (), inp', mg\<lparr>mg_iface_map := ifs\<rparr>)
      | (Inr (StreamItem c), inp', ifs) \<Rightarrow>
          process_route_table_change net_new inp' (process_change c (mg\<lparr>mg_iface_map := ifs\<rparr>))
      | (Inr _, inp', ifs) \<Rightarrow> (Inl ChangeListenerClosed, inp', mg\<lparr>mg_iface_map := ifs\<rparr>))"
  by pat_completeness auto
termination
  by (relation "measure (\<lambda>(_, inp, _). length (ni_messages inp))")
    (auto simp: listener_poll_def Let_def split: if_splits prod.splits dest: poll_messages_shorter)

text \<open>A poll of the process of the pending change.\<close>

datatype process_poll = ProcessNotReady | ProcessExit ip_exit

fun change_command :: "route_change \<Rightarrow> ip_command" where
  "change_command (ChangeAdd r) = route_cmd ''replace'' r"
| "change_command (ChangeRemove r) = route_cmd ''delete'' r"

fun change_result :: "route_change \<Rightarrow> ip_exit \<Rightarrow> routing_error + unit" where
  "change_result (ChangeAdd _) ex = exit_result FailedToAddRoute ex"
| "change_result (ChangeRemove _) ex = exit_result FailedToRemoveRoute ex"

fun record_change :: "route_change \<Rightarrow> route list \<Rightarrow> route list" where
  "record_change (ChangeAdd r) added = List.insert r added"
| "record_change (ChangeRemove r) added = removeAll r added"

text \<open>Starts the next change when none is pending, and says which command was started.\<close>

definition start_change :: "route_manager \<Rightarrow> ip_command list \<times> route_manager" where
  "start_change mg =
     (case mg_pending_change mg of
        Some _ \<Rightarrow> ([], mg)
      | None \<Rightarrow>
          (case mg_needed_changes mg of
             [] \<Rightarrow> ([], mg)
           | c # cs \<Rightarrow> ([change_command c], mg\<lparr>mg_needed_changes := cs, mg_pending_change := Some c\<rparr>)))"

text \<open>
  The loop of \<open>apply_route_table_changes\<close>.  The polls are taken from the list; when it is used up the
  process is not ready.  The result comes with the commands that were started.
\<close>

function apply_changes :: "process_poll list \<Rightarrow> route_manager
    \<Rightarrow> (routing_error + bool) \<times> ip_command list \<times> route_manager" where
  "apply_changes polls mg =
     (case start_change mg of
        (started, mg') \<Rightarrow>
          (case mg_pending_change mg' of
             None \<Rightarrow> (Inr (mg_needed_changes mg' = []), started, mg')
           | Some c \<Rightarrow>
               (case polls of
                  ProcessExit ex # polls' \<Rightarrow>
                    (case change_result c ex of
                       Inl e \<Rightarrow> (Inl e, started, mg'\<lparr>mg_pending_change := None\<rparr>)
                     | Inr _ \<Rightarrow>
                         (case apply_changes polls' (mg'\<lparr>mg_pending_change := None,
                                mg_added_routes := record_change c (mg_added_routes mg')\<rparr>) of
                            (r, cmds, mg'') \<Rightarrow> (r, started @ cmds, mg'')))
                | _ \<Rightarrow> (Inr False, started, mg'))))"
  by pat_completeness auto
termination
  by (relation "measure (length o fst)") auto

section \<open>Polling the manager\<close>

record manager_poll =
  mp_shutdown_rx :: "unit future_poll"
  mp_netlink :: netlink_input
  mp_process :: "process_poll list"

text \<open>
  \<open>poll\<close>: whether the manager is done, the commands it started, whether it reported the end of the
  shutdown, and its new state.
\<close>

definition manager_poll :: "(ip_addr \<Rightarrow> u8 \<Rightarrow> ip_network option) \<Rightarrow> manager_poll \<Rightarrow> route_manager
    \<Rightarrow> (routing_error + bool) \<times> ip_command list \<times> bool \<times> route_manager" where
  "manager_poll net_new inp mg =
     (let (events, mg1) =
        (if mg_should_shut_down mg then (Inr (), mg)
         else
           (let mg' = (case mp_shutdown_rx inp of
                  FutureNotReady \<Rightarrow> mg
                | FutureReady _ \<Rightarrow> mg\<lparr>mg_should_shut_down := True, mg_shutdown_finished_tx := True\<rparr>
                | FutureErr \<Rightarrow> mg\<lparr>mg_should_shut_down := True\<rparr>)
            in (case process_route_table_change net_new (mp_netlink inp) mg' of (r, _, mg'') \<Rightarrow> (r, mg''))))
      in (case events of
            Inl e \<Rightarrow> (Inl e, [], False, mg1)
          | Inr _ \<Rightarrow>
              (case apply_changes (mp_process inp) mg1 of
                 (Inl e, cmds, mg2) \<Rightarrow> (Inl e, cmds, False, mg2)
               | (Inr all_applied, cmds, mg2) \<Rightarrow>
                   if all_applied \<and> mg_should_shut_down mg2
                   then (Inr True, cmds, mg_shutdown_finished_tx mg2, mg2\<lparr>mg_shutdown_finished_tx := False\<rparr>)
                   else (Inr False, cmds, False, mg2))))"

end
