(* ===== verification/Routing_Linux_Props.thy ===== *)
theory Routing_Linux_Props
  imports Routing_Linux
begin

text \<open>
  Properties of the route manager of Linux: what a successful and a failed start leave in the routing
  table, that the routes through the default node follow the best default route, the round trip between
  the arguments of \<open>ip\<close> and its output, and the shutdown.  The locale \<open>ip_routes\<close> states what the program \<open>ip\<close>
  does to the table; a reference table instantiates it.
\<close>

section \<open>Starting\<close>

locale ip_routes =
  fixes run :: "ip_command \<Rightarrow> 's \<Rightarrow> ip_exit \<times> 's" and table :: "'s \<Rightarrow> route set"
  assumes replace_ok: "run (route_cmd ''replace'' r) s = (IpExit True, s') \<Longrightarrow>
      table s' = insert r {q \<in> table s. rt_prefix q \<noteq> rt_prefix r \<or> rt_metric q \<noteq> rt_metric r}"
    and replace_err: "run (route_cmd ''replace'' r) s = (ex, s') \<Longrightarrow> ex \<noteq> IpExit True \<Longrightarrow> table s' = table s"
    and delete_law: "run (route_cmd ''delete'' r) s = (ex, s') \<Longrightarrow>
      table s' = (if ex = IpExit True then table s - {r} else table s)"
begin

lemma exit_result_ok [simp]: "exit_result err ex = Inr u \<longleftrightarrow> ex = IpExit True"
  by (auto simp: exit_result_def split: ip_exit.splits)

lemma add_route_table:
  assumes "add_route run r s = (res, s')"
  shows "if is_ok res
    then table s' = insert r {q \<in> table s. rt_prefix q \<noteq> rt_prefix r \<or> rt_metric q \<noteq> rt_metric r}
    else table s' = table s"
proof -
  obtain ex where ex: "run (route_cmd ''replace'' r) s = (ex, s')" "res = exit_result FailedToAddRoute ex"
    using assms by (cases "run (route_cmd ''replace'' r) s") (auto simp: add_route_def run_cmd_def)
  then have "is_ok res \<longleftrightarrow> ex = IpExit True" by (simp add: is_ok_iff)
  with ex replace_ok replace_err show ?thesis by auto
qed

lemma establish_baseline_keeps:
  "establish_baseline run rs added s = (res, added', s') \<Longrightarrow> set added \<subseteq> set added'"
proof (induction rs arbitrary: added s)
  case (Cons r rs)
  then show ?case
    by (cases "add_route run r s") (auto split: sum.splits, metis Cons.IH in_set_insert insert_iff set_insert subsetD)
qed simp

text \<open>Routes with different prefixes: those added are in the table, and nothing else is new in it.\<close>

lemma establish_baseline_table:
  assumes "establish_baseline run rs added s = (res, added', s')"
    and "distinct (map rt_prefix rs)" and "set added \<subseteq> table s" and "distinct added"
    and "\<forall>a \<in> set added. \<forall>r \<in> set rs. rt_prefix a \<noteq> rt_prefix r"
  shows "set added' \<subseteq> table s' \<and> table s' \<subseteq> table s \<union> set added' \<and> distinct added' \<and>
    (is_ok res \<longrightarrow> set added' = set added \<union> set rs)"
  using assms
proof (induction rs arbitrary: added s)
  case (Cons r rs)
  obtain res1 s1 where s1: "add_route run r s = (res1, s1)" by fastforce
  note t = add_route_table [OF s1]
  show ?case
  proof (cases res1)
    case (Inl e)
    with Cons.prems s1 t show ?thesis by auto
  next
    case (Inr u)
    then have t: "table s1 = insert r {q \<in> table s. rt_prefix q \<noteq> rt_prefix r \<or> rt_metric q \<noteq> rt_metric r}"
      using t by simp
    have "establish_baseline run rs (List.insert r added) s1 = (res, added', s')"
      using Cons.prems(1) s1 Inr by simp
    moreover have "set (List.insert r added) \<subseteq> table s1"
      using Cons.prems(3,5) unfolding t by auto
    moreover have "\<forall>a \<in> set (List.insert r added). \<forall>r' \<in> set rs. rt_prefix a \<noteq> rt_prefix r'"
      using Cons.prems(2,5) by auto
    ultimately have ih: "set added' \<subseteq> table s' \<and> table s' \<subseteq> table s1 \<union> set added' \<and> distinct added' \<and>
        (is_ok res \<longrightarrow> set added' = set (List.insert r added) \<union> set rs)"
      using Cons.prems(2,4) by (intro Cons.IH) simp_all
    have "r \<in> set added'"
      using establish_baseline_keeps [OF \<open>establish_baseline run rs (List.insert r added) s1 = _\<close>] by simp
    with ih t show ?thesis by auto
  qed
qed auto

lemma delete_routes_table:
  assumes "\<And>r s. r \<in> table s \<Longrightarrow> fst (run (route_cmd ''delete'' r) s) = IpExit True"
    and "set rs \<subseteq> table s" and "distinct rs"
  shows "table (delete_routes run rs s) = table s - set rs"
  using assms(2,3)
proof (induction rs arbitrary: s)
  case (Cons r rs)
  obtain s1 where s1: "run (route_cmd ''delete'' r) s = (IpExit True, s1)"
    using assms(1) [of r s] Cons.prems by (metis list.set_intros(1) prod.collapse subsetD)
  then have "table s1 = table s - {r}" using delete_law by fastforce
  with Cons s1 show ?case by (auto simp: delete_route_def run_cmd_def)
qed simp

end

lemma required_prefixes:
  "rt_prefix ` set (required_normal required) = {d. \<exists>n. (d, RealNode n) \<in> set required}"
  "set (required_default required) = {d. (d, DefaultNode) \<in> set required}"
  by (force simp: required_normal_def required_default_def set_map_filter route_new_def
      split: net_node.splits)+

lemma map_filter_distinct:
  "distinct (map k xs) \<Longrightarrow> \<forall>x \<in> set xs. \<forall>y. f x = Some y \<longrightarrow> g y = k x \<Longrightarrow>
     distinct (map g (List.map_filter f xs))"
proof (induction xs)
  case (Cons x xs)
  have sub: "g ` set (List.map_filter f xs) \<subseteq> k ` set xs"
    using Cons.prems(2) by (force simp: set_map_filter)
  have ih: "distinct (map g (List.map_filter f xs))" using Cons by simp
  show ?case
  proof (cases "f x")
    case (Some y)
    then have "g y \<notin> g ` set (List.map_filter f xs)" using Cons.prems sub by auto
    with Some ih show ?thesis by simp
  qed (simp add: ih)
qed simp

lemma required_distinct:
  assumes "distinct (map fst required)"
  shows "distinct (map rt_prefix (required_normal required))" "distinct (required_default required)"
proof -
  show "distinct (map rt_prefix (required_normal required))"
    unfolding required_normal_def using assms
    by (rule map_filter_distinct) (auto simp: route_new_def split: net_node.splits)
  have "distinct (map id (required_default required))"
    unfolding required_default_def using assms
    by (rule map_filter_distinct) (auto split: net_node.splits)
  then show "distinct (required_default required)" by simp
qed

lemma set_default_node_routes:
  "r \<in> set (default_node_routes b4 b6 ds) \<longleftrightarrow>
     (\<exists>d \<in> set ds. \<exists>n. (if net_is_ipv4 d then b4 else b6) = Some n \<and> r = route_new n d)"
  by (auto simp: default_node_routes_def set_map_filter)

lemma baseline_distinct:
  assumes "distinct (map fst required)"
  shows "distinct (map rt_prefix (required_normal required @
    default_node_routes b4 b6 (required_default required)))"
proof -
  have "distinct (map rt_prefix (default_node_routes b4 b6 (required_default required)))"
    unfolding default_node_routes_def
    using required_distinct(2) [OF assms]
    by (intro map_filter_distinct [where k = "\<lambda>x. x"]) (auto simp: route_new_def)
  moreover have "rt_prefix r \<noteq> rt_prefix q" if "r \<in> set (required_normal required)"
    "q \<in> set (default_node_routes b4 b6 (required_default required))" for r q
  proof
    assume eq: "rt_prefix r = rt_prefix q"
    have "rt_prefix q \<in> set (required_default required)"
      using that(2) by (auto simp: set_default_node_routes route_new_def)
    moreover have "rt_prefix r \<in> rt_prefix ` set (required_normal required)" using that(1) by simp
    ultimately obtain n where "(rt_prefix q, RealNode n) \<in> set required" "(rt_prefix q, DefaultNode) \<in> set required"
      unfolding required_prefixes eq by blast
    with assms show False by (metis eq_key_imp_eq_value net_node.distinct(1))
  qed
  ultimately show ?thesis using required_distinct(1) [OF assms] by auto
qed

context ip_routes
begin

lemma route_manager_new_table:
  assumes new: "route_manager_new run listener defaults required s = (res, s')"
    and keys: "distinct (map fst required)"
    and deletes: "\<And>r s. r \<in> table s \<Longrightarrow> fst (run (route_cmd ''delete'' r) s) = IpExit True"
  shows "case res of
      Inl e \<Rightarrow> table s' \<subseteq> table s
    | Inr mg \<Rightarrow> set (mg_added_routes mg) \<subseteq> table s' \<and>
        set (mg_added_routes mg) = set (required_normal required) \<union>
          set (default_node_routes (mg_best_default_node_v4 mg) (mg_best_default_node_v6 mg) (required_default required))"
proof (cases "\<exists>ifs rs. listener = Inr ifs \<and> defaults = Inr rs")
  case True
  then obtain ifs rs where ok: "listener = Inr ifs" "defaults = Inr rs" by blast
  let ?b4 = "pick_best_default_node rs True" and ?b6 = "pick_best_default_node rs False"
  let ?bl = "required_normal required @ default_node_routes ?b4 ?b6 (required_default required)"
  obtain r1 added s1 where e: "establish_baseline run ?bl [] s = (r1, added, s1)" by (rule prod_cases3)
  note t = establish_baseline_table [OF e baseline_distinct [OF keys], simplified]
  show ?thesis
  proof (cases r1)
    case (Inl err)
    then have "res = Inl err" "s' = delete_routes run added s1" using new ok e by (auto simp: route_manager_new_def)
    moreover have "table (delete_routes run added s1) = table s1 - set added"
      using delete_routes_table [OF deletes] t by blast
    ultimately show ?thesis using t by auto
  next
    case (Inr u)
    then obtain mg where "res = Inr mg" "s' = s1" "mg_added_routes mg = added"
      "mg_best_default_node_v4 mg = ?b4" "mg_best_default_node_v6 mg = ?b6"
      using new ok e by (auto simp: route_manager_new_def)
    moreover have "set added \<subseteq> table s1" "set added = set ?bl" using t Inr by auto
    ultimately show ?thesis by simp
  qed
next
  case False
  with new show ?thesis by (auto simp: route_manager_new_def split: sum.splits)
qed

end

section \<open>Following the default route\<close>

text \<open>The best node has the lowest metric of the default routes of its family.\<close>

lemma better_route_best:
  "foldl better_route b rs = Some r \<Longrightarrow>
     (r \<in> set rs \<or> b = Some r) \<and> (\<forall>q \<in> set rs \<union> set_option b. metric_of r \<le> metric_of q)"
proof (induction rs arbitrary: b)
  case (Cons q rs)
  then have "foldl better_route (better_route b q) rs = Some r" by simp
  from Cons.IH [OF this] show ?case by (cases b) (auto split: if_splits)
qed simp

lemma pick_best_default_node_best:
  "pick_best_default_node rs v4 = Some n \<Longrightarrow>
     \<exists>r \<in> set rs. net_is_ipv4 (rt_prefix r) = v4 \<and> rt_node r = n \<and>
       (\<forall>q \<in> set rs. net_is_ipv4 (rt_prefix q) = v4 \<longrightarrow> metric_of r \<le> metric_of q)"
  by (fastforce simp: pick_best_default_node_def dest!: better_route_best)

text \<open>No change is waiting, and what all waiting changes will do to the routes that were added.\<close>

definition settled :: "route_manager \<Rightarrow> bool" where
  "settled mg \<longleftrightarrow> mg_pending_change mg = None \<and> mg_needed_changes mg = []"

definition waiting :: "route_manager \<Rightarrow> route_change list" where
  "waiting mg = (case mg_pending_change mg of None \<Rightarrow> [] | Some c \<Rightarrow> [c]) @ mg_needed_changes mg"

lemma apply_changes_done:
  assumes "apply_changes polls mg = (Inr True, cmds, mg')"
  shows "settled mg' \<and>
    mg' = mg\<lparr>mg_pending_change := None, mg_needed_changes := [],
      mg_added_routes := fold record_change (waiting mg) (mg_added_routes mg)\<rparr>"
  using assms
proof (induction polls mg arbitrary: cmds mg' rule: apply_changes.induct)
  case (1 polls mg)
  obtain started mg1 where 1: "start_change mg = (started, mg1)" by fastforce
  have w: "waiting mg1 = waiting mg" "mg_added_routes mg1 = mg_added_routes mg"
    "mg_pending_change mg1 = None \<Longrightarrow> mg_needed_changes mg1 = []"
    "mg1\<lparr>mg_pending_change := None, mg_needed_changes := []\<rparr> = mg\<lparr>mg_pending_change := None, mg_needed_changes := []\<rparr>"
    using 1 by (auto simp: start_change_def waiting_def split: option.splits list.splits)
  show ?case
  proof (cases "mg_pending_change mg1")
    case None
    then have "mg1 = mg" "mg_pending_change mg = None" "mg_needed_changes mg = []"
      using 1 by (auto simp: start_change_def split: option.splits list.splits)
    with "1.prems" 1 show ?thesis by (simp add: settled_def waiting_def)
  next
    case (Some c)
    then obtain ex polls' cmds' where p: "polls = ProcessExit ex # polls'" "change_result c ex = Inr ()"
      "apply_changes polls' (mg1\<lparr>mg_pending_change := None,
         mg_added_routes := record_change c (mg_added_routes mg1)\<rparr>) = (Inr True, cmds', mg')"
      using "1.prems" 1 by (auto split: list.splits process_poll.splits sum.splits prod.splits)
    have "waiting mg = c # mg_needed_changes mg1" using w(1) Some by (simp add: waiting_def)
    moreover have "waiting (mg1\<lparr>mg_pending_change := None, mg_added_routes := rs\<rparr>) = mg_needed_changes mg1" for rs
      by (simp add: waiting_def)
    ultimately show ?thesis
      using "1.IH" [OF 1 [symmetric] Some p(1) refl p(2) p(3)] w by (simp add: settled_def)
  qed
qed

text \<open>The changes that move destinations to another node.\<close>

definition moves :: "route_node option \<Rightarrow> route_node \<Rightarrow> ip_network \<Rightarrow> route_change list" where
  "moves old new d =
     (case old of Some n \<Rightarrow> [ChangeRemove (route_new n d)] | None \<Rightarrow> []) @ [ChangeAdd (route_new new d)]"

fun change_prefix :: "route_change \<Rightarrow> ip_network" where
  "change_prefix (ChangeAdd r) = rt_prefix r"
| "change_prefix (ChangeRemove r) = rt_prefix r"

lemma route_new_simps [simp]:
  "rt_prefix (route_new n d) = d" "rt_node (route_new n d) = n"
  "route_new n d = route_new m e \<longleftrightarrow> n = m \<and> d = e"
  by (auto simp: route_new_def)

lemma moves_prefix: "c \<in> set (moves old new d) \<Longrightarrow> change_prefix c = d"
  by (auto simp: moves_def split: option.splits)

lemma move_destination_moves:
  assumes "mg_pending_change mg = None" and "\<forall>c \<in> set (mg_needed_changes mg). change_prefix c \<noteq> d"
  shows "move_destination old new d mg = mg\<lparr>mg_needed_changes := mg_needed_changes mg @ moves old new d\<rparr>"
proof -
  have "ChangeRemove (route_new n d) \<notin> set (mg_needed_changes mg)"
    "ChangeAdd (route_new n d) \<notin> set (mg_needed_changes mg)" for n
    using assms(2) by auto
  with assms(1) show ?thesis
    by (simp add: move_destination_def moves_def enque_route_change_def split: option.split)
qed

lemma fold_move_destination:
  assumes "mg_pending_change mg = None" and "distinct ds"
    and "\<forall>c \<in> set (mg_needed_changes mg). change_prefix c \<notin> set ds"
  shows "fold (move_destination old new) ds mg =
    mg\<lparr>mg_needed_changes := mg_needed_changes mg @ concat (map (moves old new) ds)\<rparr>"
  using assms
proof (induction ds arbitrary: mg)
  case (Cons d ds)
  have m: "move_destination old new d mg = mg\<lparr>mg_needed_changes := mg_needed_changes mg @ moves old new d\<rparr>"
    using Cons.prems by (intro move_destination_moves) auto
  have "\<forall>c \<in> set (mg_needed_changes mg @ moves old new d). change_prefix c \<notin> set ds"
    using Cons.prems by (auto dest: moves_prefix)
  with Cons show ?case by (simp add: m)
qed simp

lemma record_moves:
  "route_new m d \<in> set (fold record_change (concat (map (moves old new) ds)) A) \<longleftrightarrow>
     (if d \<in> set ds then m = new \<or> route_new m d \<in> set A \<and> old \<noteq> Some m else route_new m d \<in> set A)"
proof (induction ds arbitrary: A)
  case (Cons e ds)
  have "route_new m d \<in> set (fold record_change (moves old new e) A) \<longleftrightarrow>
      (if d = e then m = new \<or> route_new m d \<in> set A \<and> old \<noteq> Some m else route_new m d \<in> set A)"
    by (auto simp: moves_def split: option.splits)
  then show ?case by (auto simp: Cons.IH)
qed simp

text \<open>
  The routes through the default node that there will be when all waiting changes are made: for every
  destination exactly the one through the best node of its family.
\<close>

definition follows :: "route_manager \<Rightarrow> bool" where
  "follows mg \<longleftrightarrow> (\<forall>d \<in> set (mg_required_default_routes mg). \<forall>m.
     route_new m d \<in> set (fold record_change (waiting mg) (mg_added_routes mg)) \<longleftrightarrow>
     best_default_node (net_is_ipv4 d) mg = Some m)"

definition best_current :: "bool \<Rightarrow> route_manager \<Rightarrow> bool" where
  "best_current v4 mg \<longleftrightarrow>
     (\<forall>n. pick_best_default_node (mg_default_routes mg) v4 = Some n \<longrightarrow> best_default_node v4 mg = Some n)"

lemma best_default_node_simps [simp]:
  "best_default_node v (set_best_default_node w n mg) = (if v = w then n else best_default_node v mg)"
  "best_default_node v (mg\<lparr>mg_needed_changes := cs\<rparr>) = best_default_node v mg"
  "best_default_node v (mg\<lparr>mg_default_routes := rs\<rparr>) = best_default_node v mg"
  "mg_needed_changes (set_best_default_node v n mg) = mg_needed_changes mg"
  "mg_pending_change (set_best_default_node v n mg) = mg_pending_change mg"
  "mg_added_routes (set_best_default_node v n mg) = mg_added_routes mg"
  "mg_default_routes (set_best_default_node v n mg) = mg_default_routes mg"
  "mg_required_default_routes (set_best_default_node v n mg) = mg_required_default_routes mg"
  by (auto simp: best_default_node_def set_best_default_node_def)

lemma update_default_family_moves:
  assumes "mg_pending_change mg = None" and "distinct (mg_required_default_routes mg)"
    and "\<forall>c \<in> set (mg_needed_changes mg). net_is_ipv4 (change_prefix c) \<noteq> v4"
  obtains (same) "update_default_family v4 mg = mg" "best_current v4 mg"
  | (moved) n mg' where "update_default_family v4 mg = mg'" "best_default_node v4 mg' = Some n"
      "pick_best_default_node (mg_default_routes mg) v4 = Some n"
      "\<And>w. w \<noteq> v4 \<Longrightarrow> best_default_node w mg' = best_default_node w mg"
      "mg_pending_change mg' = None" "mg_added_routes mg' = mg_added_routes mg"
      "mg_default_routes mg' = mg_default_routes mg"
      "mg_required_default_routes mg' = mg_required_default_routes mg"
      "mg_needed_changes mg' = mg_needed_changes mg @ concat (map (moves (best_default_node v4 mg) n)
         (filter (\<lambda>d. net_is_ipv4 d = v4) (mg_required_default_routes mg)))"
proof (cases "\<exists>n. pick_best_default_node (mg_default_routes mg) v4 = Some n \<and> best_default_node v4 mg \<noteq> Some n")
  case True
  then obtain n where n: "pick_best_default_node (mg_default_routes mg) v4 = Some n"
    "best_default_node v4 mg \<noteq> Some n" by blast
  let ?ds = "filter (\<lambda>d. net_is_ipv4 d = v4) (mg_required_default_routes mg)"
  have "fold (move_destination (best_default_node v4 mg) n) ?ds (set_best_default_node v4 None mg) =
      (set_best_default_node v4 None mg)\<lparr>mg_needed_changes := mg_needed_changes mg @
         concat (map (moves (best_default_node v4 mg) n) ?ds)\<rparr>"
    using fold_move_destination [of "set_best_default_node v4 None mg" ?ds] assms by auto
  with n show thesis by (intro moved [OF refl]) (simp_all add: update_default_family_def assms(1))
next
  case False
  then show thesis
    by (intro same) (auto simp: update_default_family_def best_current_def split: option.split)
qed

lemma update_default_family_follows:
  assumes "mg_pending_change mg = None" and "distinct (mg_required_default_routes mg)"
    and "\<forall>c \<in> set (mg_needed_changes mg). net_is_ipv4 (change_prefix c) \<noteq> v4" and "follows mg"
    and mg': "mg' = update_default_family v4 mg"
  shows "follows mg'" "best_current v4 mg'" "best_current (\<not> v4) mg \<Longrightarrow> best_current (\<not> v4) mg'"
    "mg_pending_change mg' = None" "mg_required_default_routes mg' = mg_required_default_routes mg"
    "mg_default_routes mg' = mg_default_routes mg" "mg_needed_changes mg = [] \<Longrightarrow>
      \<forall>c \<in> set (mg_needed_changes mg'). net_is_ipv4 (change_prefix c) = v4"
proof -
  have "follows mg' \<and> best_current v4 mg' \<and> (best_current (\<not> v4) mg \<longrightarrow> best_current (\<not> v4) mg') \<and>
    mg_pending_change mg' = None \<and> mg_required_default_routes mg' = mg_required_default_routes mg \<and>
    mg_default_routes mg' = mg_default_routes mg \<and>
    (mg_needed_changes mg = [] \<longrightarrow> (\<forall>c \<in> set (mg_needed_changes mg'). net_is_ipv4 (change_prefix c) = v4))"
  proof (cases rule: update_default_family_moves [OF assms(1-3), case_names same moved])
    case same
    with assms show ?thesis by simp
  next
    case (moved n mg1)
    have "follows mg1"
      unfolding follows_def
    proof (intro ballI allI)
      fix d m
      assume "d \<in> set (mg_required_default_routes mg1)"
      then have d: "d \<in> set (mg_required_default_routes mg)" using moved(8) by simp
      then have old: "route_new m d \<in> set (fold record_change (mg_needed_changes mg) (mg_added_routes mg)) \<longleftrightarrow>
          best_default_node (net_is_ipv4 d) mg = Some m"
        using \<open>follows mg\<close> assms(1) by (simp add: follows_def waiting_def)
      have "route_new m d \<in> set (fold record_change (waiting mg1) (mg_added_routes mg1)) \<longleftrightarrow>
          (if net_is_ipv4 d = v4 then m = n else best_default_node (net_is_ipv4 d) mg = Some m)"
        using d by (auto simp: waiting_def moved(5,6,9) record_moves old)
      then show "route_new m d \<in> set (fold record_change (waiting mg1) (mg_added_routes mg1)) \<longleftrightarrow>
          best_default_node (net_is_ipv4 d) mg1 = Some m"
        using moved(2,4) by auto
    qed
    moreover have "best_current v4 mg1" using moved by (simp add: best_current_def)
    moreover have "best_current (\<not> v4) mg \<longrightarrow> best_current (\<not> v4) mg1"
      using moved(4) [of "\<not> v4"] moved(7) by (simp add: best_current_def)
    moreover have "mg_needed_changes mg = [] \<longrightarrow> (\<forall>c \<in> set (mg_needed_changes mg1). net_is_ipv4 (change_prefix c) = v4)"
      using moved(9) by (auto dest: moves_prefix)
    ultimately show ?thesis using moved mg' by simp
  qed
  then show "follows mg'" "best_current v4 mg'" "best_current (\<not> v4) mg \<Longrightarrow> best_current (\<not> v4) mg'"
    "mg_pending_change mg' = None" "mg_required_default_routes mg' = mg_required_default_routes mg"
    "mg_default_routes mg' = mg_default_routes mg" "mg_needed_changes mg = [] \<Longrightarrow>
      \<forall>c \<in> set (mg_needed_changes mg'). net_is_ipv4 (change_prefix c) = v4"
    by blast+
qed

text \<open>The state between changes: nothing waits, and the routes follow the best default nodes.\<close>

definition up_to_date :: "route_manager \<Rightarrow> bool" where
  "up_to_date mg \<longleftrightarrow> settled mg \<and> distinct (mg_required_default_routes mg) \<and> follows mg \<and>
     best_current True mg \<and> best_current False mg"

lemma update_default_rotues_follows:
  assumes "settled mg" and "distinct (mg_required_default_routes mg)" and "follows mg"
    and mg': "mg' = update_default_rotues mg"
  shows "follows mg'" "\<forall>v. best_current v mg'" "mg_default_routes mg' = mg_default_routes mg"
    "mg_required_default_routes mg' = mg_required_default_routes mg"
proof -
  let ?mg1 = "update_default_family True mg"
  note 1 = update_default_family_follows [OF _ assms(2) _ assms(3) refl, of True]
  have p: "mg_pending_change mg = None" "mg_needed_changes mg = []" using assms(1) by (auto simp: settled_def)
  note 1 = 1 [unfolded p, simplified]
  note 2 = update_default_family_follows [of ?mg1 False, OF _ _ _ _ refl]
  have "follows mg' \<and> best_current False mg' \<and> best_current True mg' \<and>
    mg_default_routes mg' = mg_default_routes mg \<and>
    mg_required_default_routes mg' = mg_required_default_routes mg"
    using 1 2 assms(2) p by (simp add: mg' update_default_rotues_def)
  then show "follows mg'" "\<forall>v. best_current v mg'" "mg_default_routes mg' = mg_default_routes mg"
    "mg_required_default_routes mg' = mg_required_default_routes mg"
    by (simp_all add: all_bool_eq)
qed

text \<open>The default routes a change leaves the manager with: it learns new ones and forgets none.\<close>

fun learn :: "route_change \<Rightarrow> route list \<Rightarrow> route list" where
  "learn (ChangeAdd r) rs = (if net_prefix (rt_prefix r) = 0 then List.insert r rs else rs)"
| "learn (ChangeRemove r) rs = rs"

lemma follows_default_routes [simp]:
  "follows (mg\<lparr>mg_default_routes := rs\<rparr>) = follows mg" "settled (mg\<lparr>mg_default_routes := rs\<rparr>) = settled mg"
  by (simp_all add: follows_def waiting_def settled_def)

lemma process_change_follows:
  assumes "up_to_date mg" and mg': "mg' = process_change c mg"
  shows "follows mg' \<and> best_current v mg' \<and> distinct (mg_required_default_routes mg') \<and>
    mg_default_routes mg' = learn c (mg_default_routes mg)"
proof -
  have n: "mg\<lparr>mg_needed_changes := filter P (mg_needed_changes mg)\<rparr> = mg" for P
    using assms(1) by (simp add: up_to_date_def settled_def)
  note inv = assms(1) [unfolded up_to_date_def]
  note u = update_default_rotues_follows [OF _ _ _ refl]
  have "best_current v mg" using inv by (cases v) simp_all
  then show ?thesis
    using inv mg' u [where mg = mg] u [where mg = "mg\<lparr>mg_default_routes := rs\<rparr>" for rs]
    by (cases c) (simp_all add: process_new_route_def process_deleted_route_def n Let_def)
qed

text \<open>Changes of the routing table, each followed by polls that apply what it needs.\<close>

fun run_changes :: "(route_change \<times> process_poll list) list \<Rightarrow> route_manager \<Rightarrow> route_manager option" where
  "run_changes [] mg = Some mg"
| "run_changes ((c, polls) # cs) mg =
     (case apply_changes polls (process_change c mg) of
        (Inr True, _, mg') \<Rightarrow> run_changes cs mg'
      | _ \<Rightarrow> None)"

lemma run_changes_up_to_date:
  assumes "run_changes cs mg = Some mg'" and "up_to_date mg"
  shows "up_to_date mg' \<and> mg_default_routes mg' = fold learn (map fst cs) (mg_default_routes mg)"
  using assms
proof (induction cs mg rule: run_changes.induct)
  case (2 c polls cs mg)
  then obtain cmds mg1 where 1: "apply_changes polls (process_change c mg) = (Inr True, cmds, mg1)"
    "run_changes cs mg1 = Some mg'"
    by (auto split: prod.splits sum.splits bool.splits)
  note d = apply_changes_done [OF 1(1)] process_change_follows [OF "2.prems"(2) refl, where c = c and v = True]
    process_change_follows [OF "2.prems"(2) refl, where c = c and v = False]
  have "up_to_date mg1"
    using d by (auto simp: up_to_date_def follows_def waiting_def settled_def best_current_def best_default_node_def)
  with "2.IH" 1 d show ?case by simp
qed simp

lemma required_kept:
  "mg_required_default_routes (process_change c mg) = mg_required_default_routes mg"
proof -
  have e: "mg_required_default_routes (enque_route_change x mg) = mg_required_default_routes mg" for x mg
    by (simp add: enque_route_change_def)
  have "mg_required_default_routes (move_destination a b x mg) = mg_required_default_routes mg" for a b x mg
    by (simp add: move_destination_def e split: option.split)
  then have "mg_required_default_routes (fold (move_destination a b) ds mg) = mg_required_default_routes mg" for a b ds mg
    by (induction ds arbitrary: mg) simp_all
  then have "mg_required_default_routes (update_default_family v mg) = mg_required_default_routes mg" for v mg
    by (simp add: update_default_family_def split: option.split)
  then show ?thesis
    by (cases c) (simp_all add: process_new_route_def process_deleted_route_def update_default_rotues_def Let_def)
qed

lemma run_changes_required:
  "run_changes cs mg = Some mg' \<Longrightarrow> mg_required_default_routes mg' = mg_required_default_routes mg"
  by (induction cs mg rule: run_changes.induct)
    (auto simp: required_kept simp del: apply_changes.simps split: prod.splits sum.splits bool.splits
      dest!: apply_changes_done)

lemma establish_baseline_added:
  "establish_baseline run rs added s = (Inr u, added', s') \<Longrightarrow> set added' = set added \<union> set rs"
  by (induction rs arbitrary: added s) (auto split: prod.splits sum.splits)

lemma route_manager_new_up_to_date:
  assumes new: "route_manager_new run listener (Inr rs) required s = (Inr mg, s')"
    and keys: "distinct (map fst required)"
  shows "up_to_date mg" "mg_required_default_routes mg = required_default required" "mg_default_routes mg = rs"
proof -
  let ?b4 = "pick_best_default_node rs True" and ?b6 = "pick_best_default_node rs False"
  let ?normal = "required_normal required" and ?ds = "required_default required"
  obtain ifs added u s1 where e: "establish_baseline run (?normal @ default_node_routes ?b4 ?b6 ?ds) [] s = (Inr u, added, s1)"
    and mg: "mg = \<lparr>mg_iface_map = ifs, mg_added_routes = added, mg_required_default_routes = ?ds,
      mg_default_routes = rs, mg_best_default_node_v4 = ?b4, mg_best_default_node_v6 = ?b6,
      mg_needed_changes = [], mg_pending_change = None, mg_shutdown_finished_tx = False,
      mg_should_shut_down = False\<rparr>"
    using new by (auto simp: route_manager_new_def Let_def split: sum.splits prod.splits)
  have normal: "route_new m d \<notin> set ?normal" if "d \<in> set ?ds" for m d
  proof
    assume "route_new m d \<in> set ?normal"
    then have "d \<in> rt_prefix ` set ?normal" by force
    then obtain n where "(d, RealNode n) \<in> set required" unfolding required_prefixes by blast
    moreover have "(d, DefaultNode) \<in> set required" using that unfolding required_prefixes by simp
    ultimately show False using keys by (metis eq_key_imp_eq_value net_node.distinct(1))
  qed
  have added: "set added = set ?normal \<union> set (default_node_routes ?b4 ?b6 ?ds)"
    using establish_baseline_added [OF e] by simp
  then have "route_new m d \<in> set added \<longleftrightarrow> pick_best_default_node rs (net_is_ipv4 d) = Some m"
    if "d \<in> set ?ds" for m d
    using that normal [OF that] by (auto simp: set_default_node_routes)
  moreover have "best_default_node v mg = pick_best_default_node rs v" for v
    by (cases v) (simp_all add: mg best_default_node_def)
  ultimately show "up_to_date mg"
    using required_distinct(2) [OF keys]
    by (simp add: up_to_date_def settled_def follows_def waiting_def best_current_def) (simp add: mg)
  show "mg_required_default_routes mg = required_default required" "mg_default_routes mg = rs"
    by (simp_all add: mg)
qed

section \<open>Messages of the kernel\<close>

text \<open>
  A route the kernel announces has its gateway neither in the node nor anywhere else: only the attribute
  \<open>Via\<close> sets the address of the node.
\<close>

lemma scan_nlas_node_addr:
  "scan_nlas net_new ifs len nlas ps = Inr ps' \<Longrightarrow> \<forall>a. NlaVia a \<notin> set nlas \<Longrightarrow>
     rp_node_addr ps' = rp_node_addr ps"
proof (induction nlas arbitrary: ps)
  case (Cons nla nlas)
  then obtain ps1 where 1: "scan_nla net_new ifs len nla ps = Inr ps1"
    "scan_nlas net_new ifs len nlas ps1 = Inr ps'"
    by (auto split: sum.splits)
  have "rp_node_addr ps1 = rp_node_addr ps"
    using 1(1) Cons.prems(2) by (cases nla) (auto split: sum.splits option.splits)
  with Cons.IH [OF 1(2)] Cons.prems(2) show ?case by simp
qed simp

lemma announced_gateway_ignored:
  assumes "get_route net_new ifs msg = Inr r" and "\<forall>a. NlaVia a \<notin> set (rm_nlas msg)"
  shows "node_ip (rt_node r) = None"
  using assms by (auto simp: get_route_def Let_def split: sum.splits option.splits if_splits
      dest!: scan_nlas_node_addr)

text \<open>A default route that is deleted stays known, and stays the best one if it was.\<close>

lemma deleted_default_route_kept:
  assumes "up_to_date mg"
  shows "process_deleted_route r mg = mg"
proof -
  have n: "mg\<lparr>mg_needed_changes := filter P (mg_needed_changes mg)\<rparr> = mg" for P
    using assms by (simp add: up_to_date_def settled_def)
  have "update_default_family v mg = mg" for v
    using assms by (cases v) (auto simp: up_to_date_def best_current_def update_default_family_def split: option.split)
  then show ?thesis by (simp add: process_deleted_route_def n update_default_rotues_def)
qed

section \<open>A reference routing table\<close>

definition command_route :: "ip_command \<Rightarrow> route" where
  "command_route c = \<lparr>rt_node = \<lparr>node_ip = ic_via c, node_device = ic_dev c\<rparr>, rt_prefix = ic_prefix c, rt_metric = ic_metric c\<rparr>"

definition ref_ip :: "ip_command \<Rightarrow> route list \<Rightarrow> ip_exit \<times> route list" where
  "ref_ip c s =
     (let r = command_route c in
      if ic_action c = ''replace''
      then (IpExit True, r # filter (\<lambda>q. rt_prefix q \<noteq> rt_prefix r \<or> rt_metric q \<noteq> rt_metric r) s)
      else if ic_action c = ''delete'' then (IpExit (r \<in> set s), removeAll r s)
      else (IpExit False, s))"

lemma command_route_cmd [simp]: "command_route (route_cmd a r) = r" "ic_action (route_cmd a r) = a"
  by (simp_all add: command_route_def route_cmd_def)

interpretation ref_ip: ip_routes ref_ip set
  by unfold_locales (auto simp: ref_ip_def Let_def)

definition ref_required :: "(ip_network \<times> net_node) list" where
  "ref_required = [(NetV4 0 1, RealNode (node_device_new ''wg0'')), (NetV4 (ipv4_new 1 2 3 4) 32, DefaultNode)]"

definition ref_default :: "u32 \<Rightarrow> string \<Rightarrow> route" where
  "ref_default metric dev =
     \<lparr>rt_node = \<lparr>node_ip = None, node_device = Some dev\<rparr>, rt_prefix = NetV4 0 0, rt_metric = Some metric\<rparr>"

definition ref_manager :: route_manager where
  "ref_manager = \<lparr>mg_iface_map = Map.empty,
     mg_added_routes = [route_new (node_device_new ''eth0'') (NetV4 (ipv4_new 1 2 3 4) 32),
       route_new (node_device_new ''wg0'') (NetV4 0 1)],
     mg_required_default_routes = [NetV4 (ipv4_new 1 2 3 4) 32],
     mg_default_routes = [ref_default 100 ''eth0''],
     mg_best_default_node_v4 = Some (node_device_new ''eth0''), mg_best_default_node_v6 = None,
     mg_needed_changes = [], mg_pending_change = None, mg_shutdown_finished_tx = False,
     mg_should_shut_down = False\<rparr>"

lemma ref_manager_new:
  "\<exists>s'. route_manager_new ref_ip (Inr Map.empty) (Inr [ref_default 100 ''eth0'']) ref_required [] = (Inr ref_manager, s')"
  by (simp add: route_manager_new_def required_normal_def required_default_def default_node_routes_def
      ref_required_def pick_best_default_node_def ref_default_def add_route_def run_cmd_def ref_ip_def Let_def
      exit_result_def ref_manager_def node_device_new_def)

section \<open>Properties\<close>

text \<open>
  C24.  Starting the route manager, with an \<open>ip\<close> program that can delete every route that is present.  When \<open>RouteManagerImpl::new\<close> succeeds, the routes it remembers as added are in
  the routing table: every route through a given node, and for every destination that goes through
  the default node the route through the best default node of its family, if there is one.  When it
  fails, at whichever step, it has deleted what it had added: no route is in the table that was not
  there before.
\<close>

theorem route_manager_new_contract:
  assumes "ip_routes run table"
    and "\<And>r s. r \<in> table s \<Longrightarrow> fst (run (route_cmd ''delete'' r) s) = IpExit True"
    and "route_manager_new run listener defaults required s = (res, s')" and "distinct (map fst required)"
  shows "case res of
      Inl e \<Rightarrow> table s' \<subseteq> table s
    | Inr mg \<Rightarrow> set (mg_added_routes mg) \<subseteq> table s' \<and>
        (\<forall>d n. (d, RealNode n) \<in> set required \<longrightarrow> route_new n d \<in> set (mg_added_routes mg)) \<and>
        (\<forall>d n. (d, DefaultNode) \<in> set required \<and> best_default_node (net_is_ipv4 d) mg = Some n \<longrightarrow>
           route_new n d \<in> set (mg_added_routes mg))"
proof (cases res)
  case (Inl e)
  with ip_routes.route_manager_new_table [OF assms(1,3,4,2)] show ?thesis by simp
next
  case (Inr mg)
  have "route_new n d \<in> set (required_normal required)" if "(d, RealNode n) \<in> set required" for d n
    using that by (force simp: required_normal_def set_map_filter)
  moreover have "d \<in> set (required_default required)" if "(d, DefaultNode) \<in> set required" for d
    using that unfolding required_prefixes by simp
  ultimately show ?thesis
    using ip_routes.route_manager_new_table [OF assms(1,3,4,2)] Inr
    by (auto simp: set_default_node_routes best_default_node_def split: if_splits)
qed

theorem route_manager_new_contract_witness:
  "\<exists>s'. route_manager_new ref_ip (Inr Map.empty) (Inr [ref_default 100 ''eth0'']) ref_required [] = (Inr ref_manager, s') \<and>
     set (mg_added_routes ref_manager) \<subseteq> set s'"
proof -
  obtain s' where n: "route_manager_new ref_ip (Inr Map.empty) (Inr [ref_default 100 ''eth0'']) ref_required [] =
      (Inr ref_manager, s')"
    using ref_manager_new by blast
  have "fst (ref_ip (route_cmd ''delete'' r) s) = IpExit True" if "r \<in> set s" for r s
    using that by (simp add: ref_ip_def Let_def)
  from route_manager_new_contract [OF ref_ip.ip_routes_axioms this n] n show ?thesis
    by (auto simp: ref_required_def)
qed

text \<open>
  C23.  The routes through the default node follow the default route.  Start the manager and let the routing
  table change any number of times, provided that each change is applied before the next one comes (changes
  that are queued can be lost, see \<open>queued_moves_lost\<close>).  Then every destination that goes through the
  default node, in whose family the manager has learned of some default route, has exactly one route,
  through a node of lowest metric among the default routes of its family that the manager has learned of.
\<close>

theorem default_routes_followed:
  assumes "route_manager_new run listener (Inr rs) required s = (Inr mg0, s')"
    and "distinct (map fst required)" and "run_changes cs mg0 = Some mg"
    and "(d, DefaultNode) \<in> set required"
    and known: "known = filter (\<lambda>r. net_is_ipv4 (rt_prefix r) = net_is_ipv4 d) (fold learn (map fst cs) rs)"
      "known \<noteq> []"
  shows "\<exists>r \<in> set known. (\<forall>q \<in> set known. metric_of r \<le> metric_of q) \<and>
    (\<forall>m. route_new m d \<in> set (mg_added_routes mg) \<longleftrightarrow> m = rt_node r)"
proof -
  note new = route_manager_new_up_to_date [OF assms(1,2)]
  note u = run_changes_up_to_date [OF assms(3) new(1)]
  have some: "better_route b x \<noteq> None" for b x by (cases b) simp_all
  have "foldl better_route b xs = None \<Longrightarrow> xs = [] \<and> b = None" for b xs
  proof (induction xs arbitrary: b)
    case (Cons x xs)
    from Cons.IH [of "better_route b x"] Cons.prems some [of b x] show ?case by simp
  qed simp
  then obtain n where n: "pick_best_default_node (mg_default_routes mg) (net_is_ipv4 d) = Some n"
    using known u new(3)
    by (cases "pick_best_default_node (mg_default_routes mg) (net_is_ipv4 d)")
      (auto simp: pick_best_default_node_def)
  obtain r where r: "r \<in> set known" "rt_node r = n" "\<forall>q \<in> set known. metric_of r \<le> metric_of q"
    using pick_best_default_node_best [OF n] u new(3) unfolding known by auto
  have "d \<in> set (mg_required_default_routes mg)"
    using assms(4) run_changes_required [OF assms(3)] new(2) by (simp add: required_prefixes)
  moreover have "best_default_node (net_is_ipv4 d) mg = Some n"
    using u n by (cases "net_is_ipv4 d") (auto simp: up_to_date_def best_current_def)
  ultimately have "route_new m d \<in> set (mg_added_routes mg) \<longleftrightarrow> m = n" for m
    using u by (auto simp: up_to_date_def follows_def waiting_def settled_def)
  with r show ?thesis by blast
qed

theorem default_routes_followed_witness:
  "\<exists>mg. run_changes [(ChangeAdd (ref_default 5 ''wlan0''), [ProcessExit (IpExit True), ProcessExit (IpExit True)])]
      ref_manager = Some mg \<and>
    (\<forall>m. route_new m (NetV4 (ipv4_new 1 2 3 4) 32) \<in> set (mg_added_routes mg) \<longleftrightarrow> m = node_device_new ''wlan0'')"
proof -
  let ?cs = "[(ChangeAdd (ref_default 5 ''wlan0''), [ProcessExit (IpExit True), ProcessExit (IpExit True)])]"
  obtain s' where n: "route_manager_new ref_ip (Inr Map.empty) (Inr [ref_default 100 ''eth0'']) ref_required [] =
      (Inr ref_manager, s')"
    using ref_manager_new by blast
  obtain mg where mg: "run_changes ?cs ref_manager = Some mg"
    by (simp add: process_new_route_def update_default_rotues_def update_default_family_def
        pick_best_default_node_def ref_default_def ref_manager_def metric_of_def best_default_node_def
        set_best_default_node_def move_destination_def enque_route_change_def node_device_new_def
        route_new_def start_change_def exit_result_def Let_def)
  have k: "filter (\<lambda>r. net_is_ipv4 (rt_prefix r) = net_is_ipv4 (NetV4 (ipv4_new 1 2 3 4) 32))
      (fold learn (map fst ?cs) [ref_default 100 ''eth0'']) = [ref_default 5 ''wlan0'', ref_default 100 ''eth0'']"
    by (simp add: ref_default_def)
  have "\<exists>r \<in> set [ref_default 5 ''wlan0'', ref_default 100 ''eth0''].
      (\<forall>q \<in> set [ref_default 5 ''wlan0'', ref_default 100 ''eth0'']. metric_of r \<le> metric_of q) \<and>
      (\<forall>m. route_new m (NetV4 (ipv4_new 1 2 3 4) 32) \<in> set (mg_added_routes mg) \<longleftrightarrow> m = rt_node r)"
    by (rule default_routes_followed [OF n _ mg, of "NetV4 (ipv4_new 1 2 3 4) 32", unfolded k, OF _ _ refl])
      (simp_all add: ref_required_def)
  then show ?thesis
    using mg by (auto simp: ref_default_def metric_of_def node_device_new_def)
qed

text \<open>
  What \<open>route_cmd\<close> passes to \<open>ip\<close> and what \<open>parse_ip_route_show_line\<close> reads back: the words that describe a
  route, written as a line of \<open>ip route show\<close>, are parsed into the same route, whichever of gateway,
  device and metric it has.
\<close>

theorem route_line_roundtrip:
  assumes "parse_net (fmt_net (rt_prefix r)) = Some (rt_prefix r)" and "is_word (fmt_net (rt_prefix r))"
    and "fmt_net (rt_prefix r) \<noteq> ''default''"
    and "\<And>a. node_ip (rt_node r) = Some a \<Longrightarrow> parse_ip (fmt_ip a) = Some a"
    and "\<And>d. node_device (rt_node r) = Some d \<Longrightarrow> is_word d"
    and "node_ip (rt_node r) \<noteq> None \<or> node_device (rt_node r) \<noteq> None"
  shows "parse_ip_route_show_line parse_ip parse_net
    (join_with '' '' (drop 3 (ip_args fmt_net (route_cmd action r)))) v = Some r"
proof -
  let ?ws = "drop 3 (ip_args fmt_net (route_cmd action r))"
  have lits: "is_word ''via''" "is_word ''dev''" "is_word ''metric''"
    by (simp_all add: is_word_def is_space_def)
  have "\<forall>w \<in> set ?ws. is_word w"
    using assms(2,5) lits by (auto simp: ip_args_def route_cmd_def fmt_ip_word fmt_nat_word split: option.splits)
  then have "split_whitespace (join_with '' '' ?ws) = ?ws" by (rule split_whitespace_join)
  then show ?thesis
    using assms(1,3,4,6)
    by (cases "node_ip (rt_node r)"; cases "node_device (rt_node r)"; cases "rt_metric r")
      (simp_all add: parse_ip_route_show_line_def ip_args_def route_cmd_def parse_u32_fmt)
qed

theorem route_line_roundtrip_witness:
  "parse_ip_route_show_line (\<lambda>_. None) (\<lambda>_. Some (NetV4 0 1))
     (join_with '' '' (drop 3 (ip_args (\<lambda>_. ''0.0.0.0/1'') (route_cmd ''replace'' (route_new (node_device_new ''wg0'') (NetV4 0 1)))))) IpV4 =
   Some (route_new (node_device_new ''wg0'') (NetV4 0 1))"
  by (rule route_line_roundtrip) (auto simp: node_device_new_def is_word_def is_space_def)

text \<open>Polls that find every process finished make all waiting changes.\<close>

lemma apply_changes_all:
  assumes "polls = replicate (length (waiting mg)) (ProcessExit (IpExit True))"
  shows "apply_changes polls mg = (Inr True, map change_command (mg_needed_changes mg),
    mg\<lparr>mg_pending_change := None, mg_needed_changes := [],
       mg_added_routes := fold record_change (waiting mg) (mg_added_routes mg)\<rparr>)"
  using assms
proof (induction polls arbitrary: mg)
  case Nil
  then have "mg_pending_change mg = None" "mg_needed_changes mg = []"
    by (auto simp: waiting_def split: option.splits)
  then show ?case by (subst apply_changes.simps) (simp add: start_change_def waiting_def)
next
  case (Cons p polls)
  then have p: "p = ProcessExit (IpExit True)" by (cases "waiting mg") auto
  obtain c cs where w: "waiting mg = c # cs" using Cons.prems by (cases "waiting mg") auto
  let ?mg = "mg\<lparr>mg_pending_change := None, mg_needed_changes := cs, mg_added_routes := record_change c (mg_added_routes mg)\<rparr>"
  have cs: "waiting ?mg = cs" by (simp add: waiting_def)
  have ok: "change_result c (IpExit True) = Inr ()" by (cases c) (simp_all add: exit_result_def)
  have ih: "apply_changes polls ?mg = (Inr True, map change_command cs,
      ?mg\<lparr>mg_pending_change := None, mg_needed_changes := [],
         mg_added_routes := fold record_change cs (mg_added_routes ?mg)\<rparr>)"
    using Cons.IH [of ?mg] Cons.prems w cs by simp
  show ?case
  proof (cases "mg_pending_change mg")
    case None
    then have n: "mg_needed_changes mg = c # cs" using w by (simp add: waiting_def)
    have eq: "mg\<lparr>mg_needed_changes := cs, mg_pending_change := None,
        mg_added_routes := record_change c (mg_added_routes mg)\<rparr> = ?mg" by simp
    from None n p ok ih w show ?thesis
      by (subst apply_changes.simps) (simp add: start_change_def eq del: apply_changes.simps)
  next
    case (Some x)
    then have n: "x = c" "mg_needed_changes mg = cs" using w by (simp_all add: waiting_def)
    then have eq: "mg\<lparr>mg_pending_change := None, mg_added_routes := record_change c (mg_added_routes mg)\<rparr> = ?mg" by simp
    from Some n p ok ih w show ?thesis
      by (subst apply_changes.simps) (simp add: start_change_def eq del: apply_changes.simps)
  qed
qed

text \<open>
  Shutting down.  When the manager is told to stop, no change of the routing table is announced and the
  processes finish, one poll makes the changes that were waiting and ends; it runs no other command.
  So the routes it has added stay in the table, although the documentation of \<open>RouteManager::stop\<close> says
  that all of them are removed.
\<close>

theorem shutdown_completes_and_keeps_routes:
  assumes "\<not> mg_should_shut_down mg" and "mp_shutdown_rx inp = FutureReady ()"
    and "mp_netlink inp = \<lparr>ni_connection = [], ni_messages = []\<rparr>"
    and "mp_process inp = replicate (length (waiting mg)) (ProcessExit (IpExit True))"
  shows "\<exists>mg'. manager_poll net_new inp mg = (Inr True, map change_command (mg_needed_changes mg), True, mg') \<and>
    mg_added_routes mg' = fold record_change (waiting mg) (mg_added_routes mg)"
proof -
  let ?mg = "mg\<lparr>mg_should_shut_down := True, mg_shutdown_finished_tx := True\<rparr>"
  have w: "waiting ?mg = waiting mg" by (simp add: waiting_def)
  have "process_route_table_change net_new (mp_netlink inp) ?mg = (Inr (), mp_netlink inp, ?mg)"
    by (subst process_route_table_change.simps) (simp add: listener_poll_def assms(3))
  with apply_changes_all [of "mp_process inp" ?mg] assms(1,2,4) show ?thesis
    by (simp add: manager_poll_def w del: apply_changes.simps process_route_table_change.simps)
qed

theorem shutdown_completes_and_keeps_routes_witness:
  "\<exists>mg'. manager_poll (\<lambda>_ _. None) \<lparr>mp_shutdown_rx = FutureReady (),
       mp_netlink = \<lparr>ni_connection = [], ni_messages = []\<rparr>, mp_process = []\<rparr> ref_manager = (Inr True, [], True, mg') \<and>
     mg_added_routes mg' = mg_added_routes ref_manager"
  using shutdown_completes_and_keeps_routes [of ref_manager "\<lparr>mp_shutdown_rx = FutureReady (),
       mp_netlink = \<lparr>ni_connection = [], ni_messages = []\<rparr>, mp_process = []\<rparr>" "\<lambda>_ _. None"]
  by (simp add: ref_manager_def waiting_def)

section \<open>Changes that arrive too fast\<close>

text \<open>
  When the default route moves back and forth while changes are still waiting, \<open>enque_route_change\<close> takes the
  second move for one that is already in the queue: the destination ends up on the node that is not
  the best one.
\<close>

lemma queued_moves_lost:
  "let mg = fold process_change
     [ChangeAdd (ref_default 9 ''wlan0''), ChangeAdd (ref_default 8 ''eth0''), ChangeAdd (ref_default 7 ''wlan0'')]
     ref_manager
   in mg_best_default_node_v4 mg = Some (node_device_new ''wlan0'') \<and>
      route_new (node_device_new ''eth0'') (NetV4 (ipv4_new 1 2 3 4) 32) \<in>
        set (fold record_change (waiting mg) (mg_added_routes mg)) \<and>
      route_new (node_device_new ''wlan0'') (NetV4 (ipv4_new 1 2 3 4) 32) \<notin>
        set (fold record_change (waiting mg) (mg_added_routes mg))"
  by (simp add: process_new_route_def update_default_rotues_def update_default_family_def
      pick_best_default_node_def ref_default_def ref_manager_def metric_of_def best_default_node_def
      set_best_default_node_def move_destination_def enque_route_change_def node_device_new_def
      route_new_def waiting_def Let_def)

text \<open>One message the listener cannot interpret ends the manager.\<close>

lemma unknown_message_ends_manager:
  assumes "\<not> mg_should_shut_down mg"
    and "mp_netlink inp = \<lparr>ni_connection = [], ni_messages = [StreamItem (NewRoute msg)]\<rparr>"
    and "get_route net_new (mg_iface_map mg) msg = Inl e"
  shows "fst (manager_poll net_new inp mg) = Inl (ChangeListenerError e)"
  using assms
  by (subst manager_poll_def)
    (simp add: listener_poll_def Let_def split: future_poll.splits del: apply_changes.simps)

end
