(* ===== verification/Routing_Macos.thy ===== *)
theory Routing_Macos
  imports Routing_Linux_Props
begin

text \<open>
  The route manager of macOS (\<open>talpid-core/src/routing/macos.rs\<close>): its start, the output of \<open>route get\<close>, the
  listener for changes, and the poll function over its four states.  Processes are inputs: what
  running a command gives at the start, and what polling the running processes gives afterwards.
\<close>

section \<open>Commands\<close>

datatype mac_route_error =
    MacFailedToAddRoute | MacFailedToRemoveRoute | MacFailedToRunRoute | MacFailedToMonitorRoutes
  | MacNoDefaultRoute | BadOutputFromNetstat

datatype route_command = RouteAdd route | RouteDelete ip_network

definition mac_ip_vers :: "ip_network \<Rightarrow> string" where
  "mac_ip_vers prefix = (if net_is_ipv4 prefix then ''-inet'' else ''-inet6'')"

text \<open>The arguments that are passed to the program \<open>route\<close>.\<close>

fun mac_route_args :: "(ip_network \<Rightarrow> string) \<Rightarrow> route_command \<Rightarrow> string list" where
  "mac_route_args fmt_net (RouteDelete destination) =
     [''-q'', ''-n'', ''delete'', mac_ip_vers destination, fmt_net destination]"
| "mac_route_args fmt_net (RouteAdd r) =
     [''-q'', ''-n'', ''add'', mac_ip_vers (rt_prefix r), fmt_net (rt_prefix r)] @
     (case node_ip (rt_node r) of
        Some addr \<Rightarrow> [''-gateway'', fmt_ip addr]
      | None \<Rightarrow> (case node_device (rt_node r) of Some device \<Rightarrow> [''-interface'', device] | None \<Rightarrow> []))"

text \<open>
  Running a command to its end: \<open>None\<close> when it could not be run, else whether it succeeded.  Only the
  former is an error; the exit status is returned and not looked at here.
\<close>

definition mac_add_route :: "(route_command \<Rightarrow> 's \<Rightarrow> bool option \<times> 's) \<Rightarrow> route \<Rightarrow> 's
    \<Rightarrow> (mac_route_error + bool) \<times> 's" where
  "mac_add_route run r s =
     apfst (\<lambda>x. case x of None \<Rightarrow> Inl MacFailedToAddRoute | Some status \<Rightarrow> Inr status) (run (RouteAdd r) s)"

definition mac_delete_route :: "(route_command \<Rightarrow> 's \<Rightarrow> bool option \<times> 's) \<Rightarrow> ip_network \<Rightarrow> 's
    \<Rightarrow> (mac_route_error + bool) \<times> 's" where
  "mac_delete_route run d s =
     apfst (\<lambda>x. case x of None \<Rightarrow> Inl MacFailedToRemoveRoute | Some status \<Rightarrow> Inr status) (run (RouteDelete d) s)"

section \<open>The default node\<close>

definition parse_gateway_line :: "(string \<Rightarrow> ip_addr option) \<Rightarrow> string \<Rightarrow> ip_addr option" where
  "parse_gateway_line parse_ip line = parse_ip (takeWhile (\<lambda>c. c \<noteq> CHR ''%'') line)"

fun scan_route_lines :: "(string \<Rightarrow> ip_addr option) \<Rightarrow> string list \<Rightarrow> ip_addr option \<times> string option
    \<Rightarrow> ip_addr option \<times> string option" where
  "scan_route_lines parse_ip [] acc = acc"
| "scan_route_lines parse_ip (line # ls) (addr, device) =
     scan_route_lines parse_ip ls
       (case split_whitespace line of
          [key, val] \<Rightarrow>
            if key = ''interface:'' then (addr, Some val)
            else if key = ''gateway:'' then (parse_gateway_line parse_ip val, device)
            else (addr, device)
        | _ \<Rightarrow> (addr, device))"

definition parse_route :: "(string \<Rightarrow> ip_addr option) \<Rightarrow> string \<Rightarrow> route_node option" where
  "parse_route parse_ip output =
     (case scan_route_lines parse_ip (str_lines output) (None, None) of
        (None, None) \<Rightarrow> None
      | (addr, device) \<Rightarrow> Some \<lparr>node_ip = addr, node_device = device\<rparr>)"

definition get_default_node_cmd :: "(string \<Rightarrow> ip_addr option) \<Rightarrow> (string list \<Rightarrow> ip_show) \<Rightarrow> string
    \<Rightarrow> mac_route_error + route_node option" where
  "get_default_node_cmd parse_ip show if_family =
     (case show [''-n'', ''get'', if_family, ''default''] of
        ShowNotRun \<Rightarrow> Inl MacFailedToRunRoute
      | ShowInvalid \<Rightarrow> Inl BadOutputFromNetstat
      | ShowText output \<Rightarrow> Inr (parse_route parse_ip output))"

section \<open>The manager\<close>

text \<open>
  The state of the manager.  A state that waits for commands holds them: the pairs of a command to
  delete and one to add a route, or the commands that clean up and whether someone waits for them.
\<close>

datatype mac_state =
    MacListening
  | MacObtainingDefaultRoutes
  | MacApplying "route_command list"
  | MacShutdown "route_command list" bool

record mac_manager =
  mm_default_destinations :: "ip_network list"
  mm_applied_routes :: "route list"
  mm_current_state :: mac_state
  mm_v4_gateway :: "route_node option"
  mm_v6_gateway :: "route_node option"
  mm_shutdown_rx :: bool

text \<open>The routes of the destinations that go through the default node of their family.\<close>

definition gateway_routes :: "route_node option \<Rightarrow> route_node option \<Rightarrow> ip_network list \<Rightarrow> route list" where
  "gateway_routes v4_gateway v6_gateway destinations =
     List.map_filter (\<lambda>d. case (v4_gateway, v6_gateway, net_is_ipv4 d) of
         (Some gateway, _, True) \<Rightarrow> Some (route_new gateway d)
       | (_, Some gateway, False) \<Rightarrow> Some (route_new gateway d)
       | _ \<Rightarrow> None) destinations"

fun apply_routes :: "(route_command \<Rightarrow> 's \<Rightarrow> bool option \<times> 's) \<Rightarrow> route list \<Rightarrow> route list \<Rightarrow> 's
    \<Rightarrow> (mac_route_error + unit) \<times> route list \<times> 's" where
  "apply_routes run [] applied s = (Inr (), applied, s)"
| "apply_routes run (r # rs) applied s =
     (case mac_add_route run r s of
        (Inl e, s') \<Rightarrow> (Inl e, applied, s')
      | (Inr _, s') \<Rightarrow> apply_routes run rs (List.insert r applied) s')"

fun remove_applied :: "(route_command \<Rightarrow> 's \<Rightarrow> bool option \<times> 's) \<Rightarrow> route list \<Rightarrow> 's \<Rightarrow> 's" where
  "remove_applied run [] s = s"
| "remove_applied run (r # rs) s = remove_applied run rs (snd (mac_delete_route run (rt_prefix r) s))"

text \<open>\<open>new\<close>, given the two default nodes and whether the listener can be started.\<close>

definition mac_manager_new :: "(route_command \<Rightarrow> 's \<Rightarrow> bool option \<times> 's)
    \<Rightarrow> mac_route_error + route_node option \<Rightarrow> mac_route_error + route_node option \<Rightarrow> bool
    \<Rightarrow> (ip_network \<times> net_node) list \<Rightarrow> 's \<Rightarrow> (mac_route_error + mac_manager) \<times> 's" where
  "mac_manager_new run default_v4 default_v6 listener_ok required s =
     (case default_v4 of
        Inl e \<Rightarrow> (Inl e, s)
      | Inr v4_gateway \<Rightarrow>
          (case default_v6 of
             Inl e \<Rightarrow> (Inl e, s)
           | Inr v6_gateway \<Rightarrow>
               if v4_gateway = None \<and> v6_gateway = None then (Inl MacNoDefaultRoute, s)
               else
                 (let destinations = required_default required;
                      routes = required_normal required @ gateway_routes v4_gateway v6_gateway destinations
                  in (case apply_routes run routes [] s of
                        (Inl e, applied, s') \<Rightarrow> (Inl e, remove_applied run applied s')
                      | (Inr _, applied, s') \<Rightarrow>
                          if \<not> listener_ok then (Inl MacFailedToMonitorRoutes, s')
                          else (Inr \<lparr>mm_default_destinations = destinations, mm_applied_routes = applied,
                                  mm_current_state = MacListening, mm_v4_gateway = v4_gateway,
                                  mm_v6_gateway = v6_gateway, mm_shutdown_rx = True\<rparr>, s')))))"

definition shutdown_commands :: "mac_manager \<Rightarrow> route_command list" where
  "shutdown_commands mm =
     map (\<lambda>r. RouteDelete (rt_prefix r))
       (mm_applied_routes mm @
        gateway_routes (mm_v4_gateway mm) (mm_v6_gateway mm) (mm_default_destinations mm))"

definition apply_new_default_routes :: "mac_manager \<Rightarrow> route_node option \<Rightarrow> route_node option \<Rightarrow> route_command list" where
  "apply_new_default_routes mm new_v4 new_v6 =
     concat (map (\<lambda>r. [RouteDelete (rt_prefix r), RouteAdd r])
       (gateway_routes new_v4 new_v6 (mm_default_destinations mm)))"

section \<open>The listener\<close>

text \<open>Reading the lines of \<open>route monitor\<close>; when the list is used up no line is ready.\<close>

fun monitor_lines :: "string stream_poll list \<Rightarrow> unit future_poll" where
  "monitor_lines [] = FutureNotReady"
| "monitor_lines (StreamNotReady # _) = FutureNotReady"
| "monitor_lines (StreamErr # _) = FutureErr"
| "monitor_lines (StreamEnd # _) = FutureReady ()"
| "monitor_lines (StreamItem line # ls) =
     (if starts_with line ''RTM_DELETE'' \<or> starts_with line ''RTM_ADD'' then FutureReady ()
      else monitor_lines ls)"

fun change_listener_poll :: "unit future_poll \<Rightarrow> string stream_poll list \<Rightarrow> unit future_poll" where
  "change_listener_poll FutureNotReady ls = monitor_lines ls"
| "change_listener_poll (FutureReady _) ls = FutureReady ()"
| "change_listener_poll FutureErr ls = FutureErr"

section \<open>Polling\<close>

text \<open>
  What the processes give in one round of the loop: the listener and its lines, the default nodes, and
  whether the commands of the state have all been run; \<open>mi_listener_ok\<close> says whether a new listener can
  be started.
\<close>

record mac_input =
  mi_process :: "unit future_poll"
  mi_lines :: "string stream_poll list"
  mi_defaults :: "(mac_route_error + route_node option \<times> route_node option) option"
  mi_commands_done :: bool
  mi_listener_ok :: bool

datatype mac_result = MacError mac_route_error | MacReady | MacNotReady

text \<open>One round: a new state to go on with, or the result of the poll.\<close>

fun mac_round :: "mac_input \<Rightarrow> mac_manager \<Rightarrow> mac_state \<Rightarrow> mac_result + mac_state" where
  "mac_round i mm MacListening =
     (case change_listener_poll (mi_process i) (mi_lines i) of
        FutureErr \<Rightarrow> Inl (MacError MacFailedToMonitorRoutes)
      | FutureReady _ \<Rightarrow> Inr MacObtainingDefaultRoutes
      | FutureNotReady \<Rightarrow> Inl MacNotReady)"
| "mac_round i mm MacObtainingDefaultRoutes =
     (case mi_defaults i of
        None \<Rightarrow> Inl MacNotReady
      | Some (Inl e) \<Rightarrow> Inl (MacError e)
      | Some (Inr (v4, v6)) \<Rightarrow> Inr (MacApplying (apply_new_default_routes mm v4 v6)))"
| "mac_round i mm (MacApplying cmds) =
     (if \<not> mi_commands_done i then Inl MacNotReady
      else if mi_listener_ok i then Inr MacListening
      else Inl (MacError MacFailedToMonitorRoutes))"
| "mac_round i mm (MacShutdown cmds tx) = Inl (if mi_commands_done i then MacReady else MacNotReady)"

text \<open>The loop.  When the list of inputs is used up nothing is ready.\<close>

fun mac_loop :: "mac_input list \<Rightarrow> mac_manager \<Rightarrow> mac_result \<times> mac_manager" where
  "mac_loop [] mm = (MacNotReady, mm)"
| "mac_loop (i # is) mm =
     (case mac_round i mm (mm_current_state mm) of
        Inl result \<Rightarrow> (result, mm)
      | Inr st \<Rightarrow> mac_loop is (mm\<lparr>mm_current_state := st\<rparr>))"

definition mac_poll :: "unit future_poll \<Rightarrow> mac_input list \<Rightarrow> mac_manager \<Rightarrow> mac_result \<times> mac_manager" where
  "mac_poll shutdown is mm =
     mac_loop is
       (if \<not> mm_shutdown_rx mm then mm
        else
          (case shutdown of
             FutureReady _ \<Rightarrow> mm\<lparr>mm_current_state := MacShutdown (shutdown_commands mm) True, mm_shutdown_rx := False\<rparr>
           | FutureErr \<Rightarrow> mm\<lparr>mm_current_state := MacShutdown (shutdown_commands mm) False, mm_shutdown_rx := False\<rparr>
           | FutureNotReady \<Rightarrow> mm))"

fun mac_polls :: "(unit future_poll \<times> mac_input list) list \<Rightarrow> mac_manager \<Rightarrow> mac_manager" where
  "mac_polls [] mm = mm"
| "mac_polls ((sd, is) # ps) mm = mac_polls ps (snd (mac_poll sd is mm))"

section \<open>Properties\<close>

text \<open>The states as the documentation of \<open>RouteManagerImpl\<close> describes them.\<close>

datatype mac_kind = KindListening | KindObtaining | KindApplying | KindShutdown

fun mac_kind_of :: "mac_state \<Rightarrow> mac_kind" where
  "mac_kind_of MacListening = KindListening"
| "mac_kind_of MacObtainingDefaultRoutes = KindObtaining"
| "mac_kind_of (MacApplying _) = KindApplying"
| "mac_kind_of (MacShutdown _ _) = KindShutdown"

inductive mac_edge :: "mac_kind \<Rightarrow> mac_kind \<Rightarrow> bool" where
  "mac_edge KindListening KindObtaining"
| "mac_edge KindObtaining KindApplying"
| "mac_edge KindApplying KindListening"
| "mac_edge k KindShutdown"

inductive_simps mac_edge_shutdown: "mac_edge KindShutdown k"

lemma mac_round_edge: "mac_round i mm st = Inr st' \<Longrightarrow> mac_edge (mac_kind_of st) (mac_kind_of st')"
  by (cases st) (auto split: future_poll.splits option.splits sum.splits if_splits intro: mac_edge.intros)

lemma mac_loop_edges:
  "mac_loop is mm = (r, mm') \<Longrightarrow>
     mac_edge\<^sup>*\<^sup>* (mac_kind_of (mm_current_state mm)) (mac_kind_of (mm_current_state mm')) \<and>
     mm' = mm\<lparr>mm_current_state := mm_current_state mm'\<rparr>"
proof (induction "is" mm rule: mac_loop.induct)
  case (2 i "is" mm)
  show ?case
  proof (cases "mac_round i mm (mm_current_state mm)")
    case (Inl x)
    with "2.prems" show ?thesis by auto
  next
    case (Inr st)
    with "2.IH" [OF Inr] "2.prems" mac_round_edge [OF Inr] show ?thesis
      by (auto intro: converse_rtranclp_into_rtranclp)
  qed
qed auto

lemma mac_poll_state:
  assumes "mac_poll sd is mm = (r, mm')"
  shows "mac_edge\<^sup>*\<^sup>* (mac_kind_of (mm_current_state mm)) (mac_kind_of (mm_current_state mm'))"
    and "mm_applied_routes mm' = mm_applied_routes mm \<and> mm_v4_gateway mm' = mm_v4_gateway mm \<and>
      mm_v6_gateway mm' = mm_v6_gateway mm \<and> mm_default_destinations mm' = mm_default_destinations mm"
proof -
  define mm1 where "mm1 = (if \<not> mm_shutdown_rx mm then mm else
     (case sd of
        FutureReady _ \<Rightarrow> mm\<lparr>mm_current_state := MacShutdown (shutdown_commands mm) True, mm_shutdown_rx := False\<rparr>
      | FutureErr \<Rightarrow> mm\<lparr>mm_current_state := MacShutdown (shutdown_commands mm) False, mm_shutdown_rx := False\<rparr>
      | FutureNotReady \<Rightarrow> mm))"
  have "mac_loop is mm1 = (r, mm')" using assms by (simp add: mac_poll_def mm1_def)
  note l = mac_loop_edges [OF this]
  have "mac_edge\<^sup>*\<^sup>* (mac_kind_of (mm_current_state mm)) (mac_kind_of (mm_current_state mm1))"
    by (auto simp: mm1_def intro: mac_edge.intros split: future_poll.split)
  with l show "mac_edge\<^sup>*\<^sup>* (mac_kind_of (mm_current_state mm)) (mac_kind_of (mm_current_state mm'))"
    by (meson rtranclp_trans)
  have keep: "mm_applied_routes mm' = mm_applied_routes mm1" "mm_v4_gateway mm' = mm_v4_gateway mm1"
    "mm_v6_gateway mm' = mm_v6_gateway mm1" "mm_default_destinations mm' = mm_default_destinations mm1"
    using l by (metis mac_manager.ext_inject mac_manager.surjective mac_manager.update_convs(3))+
  show "mm_applied_routes mm' = mm_applied_routes mm \<and> mm_v4_gateway mm' = mm_v4_gateway mm \<and>
      mm_v6_gateway mm' = mm_v6_gateway mm \<and> mm_default_destinations mm' = mm_default_destinations mm"
    unfolding keep by (simp add: mm1_def split: future_poll.split)
qed

lemma mac_polls_keep:
  "mm_applied_routes (mac_polls ps mm) = mm_applied_routes mm \<and> mm_v4_gateway (mac_polls ps mm) = mm_v4_gateway mm \<and>
   mm_v6_gateway (mac_polls ps mm) = mm_v6_gateway mm \<and>
   mm_default_destinations (mac_polls ps mm) = mm_default_destinations mm"
proof (induction ps mm rule: mac_polls.induct)
  case (2 sd "is" ps mm)
  then show ?case using mac_poll_state(2) [of sd "is" mm] by (metis mac_polls.simps(2) prod.collapse)
qed simp

text \<open>
  The states of the manager change only as its documentation says: from waiting for a change to obtaining
  the default routes, to applying them and back to waiting, and to the shutdown from everywhere.  No
  poll leaves the shutdown.
\<close>

theorem mac_manager_states:
  assumes "mac_poll sd is mm = (r, mm')"
  shows "mac_edge\<^sup>*\<^sup>* (mac_kind_of (mm_current_state mm)) (mac_kind_of (mm_current_state mm')) \<and>
    (mac_kind_of (mm_current_state mm) = KindShutdown \<longrightarrow> mac_kind_of (mm_current_state mm') = KindShutdown)"
proof
  show e: "mac_edge\<^sup>*\<^sup>* (mac_kind_of (mm_current_state mm)) (mac_kind_of (mm_current_state mm'))"
    by (rule mac_poll_state(1) [OF assms])
  have "mac_edge\<^sup>*\<^sup>* KindShutdown k \<Longrightarrow> k = KindShutdown" for k
    by (induction rule: rtranclp_induct) (auto simp: mac_edge_shutdown)
  with e show "mac_kind_of (mm_current_state mm) = KindShutdown \<longrightarrow>
      mac_kind_of (mm_current_state mm') = KindShutdown" by auto
qed

definition ref_mac_manager :: mac_manager where
  "ref_mac_manager = \<lparr>mm_default_destinations = [], mm_applied_routes = [route_new (node_device_new ''utun0'') (NetV4 0 1)],
     mm_current_state = MacListening, mm_v4_gateway = Some (node_device_new ''en0''), mm_v6_gateway = None,
     mm_shutdown_rx = True\<rparr>"

theorem mac_manager_states_witness:
  "mac_edge\<^sup>*\<^sup>* KindListening
     (mac_kind_of (mm_current_state (snd (mac_poll (FutureReady ()) [] ref_mac_manager))))"
  using mac_manager_states [of "FutureReady ()" "[]" ref_mac_manager "fst (mac_poll (FutureReady ()) [] ref_mac_manager)"
      "snd (mac_poll (FutureReady ()) [] ref_mac_manager)"]
  by (simp add: ref_mac_manager_def)

lemma gateway_routes_eq: "gateway_routes v4 v6 ds = default_node_routes v4 v6 ds"
proof -
  have "(case (v4, v6, net_is_ipv4 d) of
         (Some gateway, _, True) \<Rightarrow> Some (route_new gateway d)
       | (_, Some gateway, False) \<Rightarrow> Some (route_new gateway d)
       | _ \<Rightarrow> None) = map_option (\<lambda>node. route_new node d) (if net_is_ipv4 d then v4 else v6)" for d
    by (cases v4; cases v6; cases "net_is_ipv4 d") simp_all
  then show ?thesis by (simp only: gateway_routes_def default_node_routes_def)
qed

lemma apply_routes_applied:
  "apply_routes run rs applied s = (Inr u, applied', s') \<Longrightarrow> set applied' = set applied \<union> set rs"
  by (induction rs arbitrary: applied s) (auto split: prod.splits sum.splits)

text \<open>
  C28.  The clean up of a shutdown.  Start the manager and poll it in any way; when it is then told to stop and
  its commands are run, it is done, and the commands delete every route with a given node and every
  route through the default node of a family that had one at the start.  A destination whose family
  had no default node at the start is not deleted, even if a route was added for it later.
\<close>

theorem mac_shutdown_cleans_up:
  assumes new: "mac_manager_new run default_v4 default_v6 True required s = (Inr mm0, s')"
    and keys: "distinct (map fst required)" and mm: "mm = mac_polls ps mm0" "mm_shutdown_rx mm"
    and stop: "mi_commands_done i" "mac_poll (FutureReady ()) [i] mm = (r, mm')"
  shows "r = MacReady \<and> (\<exists>cmds. mm_current_state mm' = MacShutdown cmds True \<and>
    (\<forall>d n. (d, RealNode n) \<in> set required \<longrightarrow> RouteDelete d \<in> set cmds) \<and>
    (\<forall>d. (d, DefaultNode) \<in> set required \<longrightarrow>
       (RouteDelete d \<in> set cmds \<longleftrightarrow> (if net_is_ipv4 d then mm_v4_gateway mm0 else mm_v6_gateway mm0) \<noteq> None)))"
proof -
  let ?ds = "required_default required"
  obtain applied u where "apply_routes run (required_normal required @
      gateway_routes (mm_v4_gateway mm0) (mm_v6_gateway mm0) ?ds) [] s = (Inr u, applied, s')"
    and mm0: "mm_applied_routes mm0 = applied" "mm_default_destinations mm0 = ?ds"
    using new by (auto simp: mac_manager_new_def Let_def split: sum.splits prod.splits if_splits)
  from apply_routes_applied [OF this(1)]
  have applied: "set applied = set (required_normal required) \<union>
      set (default_node_routes (mm_v4_gateway mm0) (mm_v6_gateway mm0) ?ds)"
    by (simp add: gateway_routes_eq)
  have cmds: "set (shutdown_commands mm) = RouteDelete ` rt_prefix ` (set (required_normal required) \<union>
      set (default_node_routes (mm_v4_gateway mm0) (mm_v6_gateway mm0) ?ds))"
    using mac_polls_keep [of ps mm0] mm0 applied
    by (auto simp: shutdown_commands_def mm(1) gateway_routes_eq)
  have "mac_poll (FutureReady ()) [i] mm =
      (MacReady, mm\<lparr>mm_current_state := MacShutdown (shutdown_commands mm) True, mm_shutdown_rx := False\<rparr>)"
    using mm(2) stop(1) by (simp add: mac_poll_def)
  then have r: "r = MacReady" "mm_current_state mm' = MacShutdown (shutdown_commands mm) True"
    using stop(2) by auto
  have normal: "d \<in> rt_prefix ` set (required_normal required) \<longleftrightarrow> (\<exists>n. (d, RealNode n) \<in> set required)" for d
    unfolding required_prefixes by simp
  have defaults: "d \<in> rt_prefix ` set (default_node_routes v4 v6 ?ds) \<longleftrightarrow>
      (d, DefaultNode) \<in> set required \<and> (if net_is_ipv4 d then v4 else v6) \<noteq> None" for d v4 v6
    by (force simp: set_default_node_routes required_prefixes image_iff)
  have "RouteDelete d \<in> RouteDelete ` X \<longleftrightarrow> d \<in> X" for d X by auto
  then have "RouteDelete d \<in> set (shutdown_commands mm) \<longleftrightarrow> (\<exists>n. (d, RealNode n) \<in> set required) \<or>
      (d, DefaultNode) \<in> set required \<and> (if net_is_ipv4 d then mm_v4_gateway mm0 else mm_v6_gateway mm0) \<noteq> None" for d
    by (simp add: cmds image_Un normal defaults)
  moreover have "\<not> (\<exists>n. (d, RealNode n) \<in> set required)" if "(d, DefaultNode) \<in> set required" for d
    using that keys by (metis eq_key_imp_eq_value net_node.distinct(1))
  ultimately show ?thesis using r by auto
qed

definition ref_mac_run :: "route_command \<Rightarrow> route_command list \<Rightarrow> bool option \<times> route_command list" where
  "ref_mac_run c s = (Some True, s @ [c])"

theorem mac_shutdown_cleans_up_witness:
  "\<exists>mm0 s' mm' cmds.
     mac_manager_new ref_mac_run (Inr (Some (node_device_new ''en0''))) (Inr None) True ref_required [] = (Inr mm0, s') \<and>
     mac_poll (FutureReady ()) [\<lparr>mi_process = FutureNotReady, mi_lines = [], mi_defaults = None,
       mi_commands_done = True, mi_listener_ok = True\<rparr>] mm0 = (MacReady, mm') \<and>
     mm_current_state mm' = MacShutdown cmds True \<and> RouteDelete (NetV4 0 1) \<in> set cmds"
proof -
  let ?i = "\<lparr>mi_process = FutureNotReady, mi_lines = [], mi_defaults = None,
       mi_commands_done = True, mi_listener_ok = True\<rparr>"
  obtain mm0 s' where n: "mac_manager_new ref_mac_run (Inr (Some (node_device_new ''en0''))) (Inr None) True
      ref_required [] = (Inr mm0, s')" "mm_shutdown_rx mm0"
    by (simp add: mac_manager_new_def required_normal_def required_default_def gateway_routes_def
        ref_required_def mac_add_route_def ref_mac_run_def Let_def)
  obtain r mm' where p: "mac_poll (FutureReady ()) [?i] mm0 = (r, mm')" by fastforce
  from mac_shutdown_cleans_up [OF n(1) _ _ n(2) _ p, of "[]"] n p show ?thesis
    by (auto simp: ref_required_def)
qed

section \<open>Failures\<close>

text \<open>When only the listener cannot be started, the routes that were added stay.\<close>

lemma mac_listener_failure_leaves_routes:
  "\<exists>s'. mac_manager_new ref_mac_run (Inr (Some (node_device_new ''en0''))) (Inr None) False ref_required [] =
      (Inl MacFailedToMonitorRoutes, s') \<and> RouteAdd (route_new (node_device_new ''wg0'') (NetV4 0 1)) \<in> set s' \<and>
      RouteDelete (NetV4 0 1) \<notin> set s'"
  by (simp add: mac_manager_new_def required_normal_def required_default_def gateway_routes_def
      ref_required_def mac_add_route_def ref_mac_run_def Let_def)

text \<open>A command that ends with an error at the start goes unnoticed: the route counts as applied.\<close>

lemma mac_add_route_status_ignored:
  "mac_add_route run r s = (Inr status, s') \<Longrightarrow>
     apply_routes run [r] [] s = (Inr (), [r], s')"
  by simp

end
