(* ===== verification/Dns_Cache.thy ===== *)
theory Dns_Cache
  imports Std_Str
begin

text \<open>
  The cached address of the API host (\<open>mullvad-rpc/src/cached_dns_resolver.rs\<close>): the address is looked up
  again when it is too old, implausible answers are ignored, and the last address is kept in a file.
  Time is in nanoseconds since the Unix epoch; the clock, the answers of the resolver and the outcomes
  of file operations are inputs, and \<open>parse_ip\<close> is the parser of addresses.
\<close>

section \<open>Types and constants\<close>

definition MAX_CACHE_AGE :: nat where
  "MAX_CACHE_AGE = 3600 * 10 ^ 9"

definition EXPIRED_CACHE_TIMESTAMP :: nat where
  "EXPIRED_CACHE_TIMESTAMP = 0"

datatype dns_error =
    DnsTimeout string | HostNotFound string | ResolveFailure string | ReadCacheError | ParseCacheError

record cached_dns_resolver =
  cr_hostname :: string
  cr_cache_file :: "string option"
  cr_cached_address :: ip_addr
  cr_last_updated :: nat

text \<open>
  The file: its content, if it can be read as text, and its modification time, if it can be read.
\<close>

record cache_file =
  cf_content :: "string option"
  cf_modified :: "nat option"

section \<open>Looking up a name\<close>

text \<open>\<open>to_socket_addrs\<close> fails or gives the addresses of the host.\<close>

definition resolve_hostname :: "unit + ip_addr list \<Rightarrow> string \<Rightarrow> dns_error + ip_addr" where
  "resolve_hostname answer host =
     (case answer of
        Inl _ \<Rightarrow> Inl (ResolveFailure host)
      | Inr [] \<Rightarrow> Inl (HostNotFound host)
      | Inr (a # _) \<Rightarrow> Inr a)"

text \<open>The lookup in a thread of its own: \<open>None\<close> when it does not answer in time.\<close>

definition system_resolve :: "(unit + ip_addr list) option \<Rightarrow> string \<Rightarrow> dns_error + ip_addr" where
  "system_resolve answer host =
     (case answer of None \<Rightarrow> Inl (DnsTimeout host) | Some a \<Rightarrow> resolve_hostname a host)"

section \<open>The cache file\<close>

definition load_from_file :: "(string \<Rightarrow> ip_addr option) \<Rightarrow> cache_file \<Rightarrow> dns_error + ip_addr" where
  "load_from_file parse_ip f =
     (case cf_content f of
        None \<Rightarrow> Inl ReadCacheError
      | Some text \<Rightarrow> (case parse_ip (str_trim text) of None \<Rightarrow> Inl ParseCacheError | Some a \<Rightarrow> Inr a))"

definition load_initial_cached_address ::
    "(string \<Rightarrow> ip_addr option) \<Rightarrow> cache_file \<Rightarrow> ip_addr \<Rightarrow> ip_addr \<times> nat" where
  "load_initial_cached_address parse_ip f fallback =
     (case load_from_file parse_ip f of
        Inr previously_cached \<Rightarrow>
          (case cf_modified f of
             Some last_updated \<Rightarrow> (previously_cached, last_updated)
           | None \<Rightarrow> (previously_cached, EXPIRED_CACHE_TIMESTAMP))
      | Inl _ \<Rightarrow> (fallback, EXPIRED_CACHE_TIMESTAMP))"

definition with_dns_resolver ::
    "(string \<Rightarrow> ip_addr option) \<Rightarrow> cache_file \<Rightarrow> string \<Rightarrow> string option \<Rightarrow> ip_addr \<Rightarrow> cached_dns_resolver" where
  "with_dns_resolver parse_ip f hostname path fallback =
     (let (cached, updated) =
        (case path of
           Some _ \<Rightarrow> load_initial_cached_address parse_ip f fallback
         | None \<Rightarrow> (fallback, EXPIRED_CACHE_TIMESTAMP))
      in \<lparr>cr_hostname = hostname, cr_cache_file = path, cr_cached_address = cached, cr_last_updated = updated\<rparr>)"

text \<open>
  What happens when the file is written: it cannot be created, it is created but only a part of the
  line is written, or all of it is written.
\<close>

datatype file_write = CreateFails | WriteFails nat | WriteOk

definition update_cache_file :: "file_write \<Rightarrow> nat \<Rightarrow> cached_dns_resolver \<Rightarrow> cache_file \<Rightarrow> bool \<times> cache_file" where
  "update_cache_file w now r f =
     (case cr_cache_file r of
        None \<Rightarrow> (True, f)
      | Some _ \<Rightarrow>
          (let line = fmt_ip (cr_cached_address r) @ [CHR 0x0A] in
           case w of
             CreateFails \<Rightarrow> (False, f)
           | WriteFails n \<Rightarrow> (False, \<lparr>cf_content = Some (take n line), cf_modified = Some now\<rparr>)
           | WriteOk \<Rightarrow> (True, \<lparr>cf_content = Some line, cf_modified = Some now\<rparr>)))"

section \<open>Resolving\<close>

text \<open>\<open>Ipv4Addr::is_private\<close> and \<open>IpAddr::is_unspecified\<close>.\<close>

definition ipv4_is_private :: "ipv4 \<Rightarrow> bool" where
  "ipv4_is_private a \<longleftrightarrow> in_net (V4 a) (NetV4 (ipv4_new 10 0 0 0) 8) \<or>
     in_net (V4 a) (NetV4 (ipv4_new 172 16 0 0) 12) \<or> in_net (V4 a) (NetV4 (ipv4_new 192 168 0 0) 16)"

fun is_unspecified :: "ip_addr \<Rightarrow> bool" where
  "is_unspecified (V4 a) = (a = 0)"
| "is_unspecified (V6 a) = (a = 0)"

definition is_bogus_address :: "ip_addr \<Rightarrow> bool" where
  "is_bogus_address a \<longleftrightarrow>
     is_unspecified a \<or> is_loopback a \<or> (case a of V4 x \<Rightarrow> ipv4_is_private x | V6 _ \<Rightarrow> False)"

text \<open>The inputs of a call: the clock when the age is checked and when the answer is stored, and the answer.\<close>

record resolve_input =
  ri_now :: nat
  ri_stored_at :: nat
  ri_answer :: "dns_error + ip_addr"
  ri_write :: file_write

definition resolve_into_cache ::
    "resolve_input \<Rightarrow> cached_dns_resolver \<Rightarrow> cache_file \<Rightarrow> cached_dns_resolver \<times> cache_file" where
  "resolve_into_cache inp r f =
     (case ri_answer inp of
        Inl _ \<Rightarrow> (r, f)
      | Inr a \<Rightarrow>
          if is_bogus_address a then (r, f)
          else (let r' = r\<lparr>cr_cached_address := a, cr_last_updated := ri_stored_at inp\<rparr>
                in (r', snd (update_cache_file (ri_write inp) (ri_stored_at inp) r' f))))"

definition needs_lookup :: "nat \<Rightarrow> cached_dns_resolver \<Rightarrow> bool" where
  "needs_lookup now r \<longleftrightarrow>
     (if cr_last_updated r \<le> now then now - cr_last_updated r > MAX_CACHE_AGE else True)"

definition cached_resolve ::
    "resolve_input \<Rightarrow> cached_dns_resolver \<Rightarrow> cache_file \<Rightarrow> ip_addr \<times> cached_dns_resolver \<times> cache_file" where
  "cached_resolve inp r f =
     (let (r', f') = (if needs_lookup (ri_now inp) r then resolve_into_cache inp r f else (r, f))
      in (cr_cached_address r', r', f'))"

fun resolve_all :: "resolve_input list \<Rightarrow> cached_dns_resolver \<Rightarrow> cache_file
    \<Rightarrow> ip_addr list \<times> cached_dns_resolver \<times> cache_file" where
  "resolve_all [] r f = ([], r, f)"
| "resolve_all (i # is) r f =
     (case cached_resolve i r f of
        (a, r', f') \<Rightarrow> (case resolve_all is r' f' of (as, r'', f'') \<Rightarrow> (a # as, r'', f'')))"

section \<open>Properties\<close>

text \<open>
  An address is plausible for a resolver when it is the fallback, was in the cache file at the start,
  or was resolved and is not bogus.
\<close>

definition plausible :: "(string \<Rightarrow> ip_addr option) \<Rightarrow> cache_file \<Rightarrow> ip_addr \<Rightarrow> resolve_input list \<Rightarrow> ip_addr \<Rightarrow> bool" where
  "plausible parse_ip f fallback inps a \<longleftrightarrow>
     a = fallback \<or> load_from_file parse_ip f = Inr a \<or>
     (\<exists>i \<in> set inps. ri_answer i = Inr a \<and> \<not> is_bogus_address a)"

lemma resolve_into_cache_cases:
  obtains (kept) "resolve_into_cache inp r f = (r, f)"
  | (stored) a where "ri_answer inp = Inr a" "\<not> is_bogus_address a"
      "fst (resolve_into_cache inp r f) = r\<lparr>cr_cached_address := a, cr_last_updated := ri_stored_at inp\<rparr>"
proof (cases "\<exists>a. ri_answer inp = Inr a \<and> \<not> is_bogus_address a")
  case True
  then show thesis by (auto simp: resolve_into_cache_def Let_def intro: stored)
next
  case False
  then show thesis by (intro kept) (auto simp: resolve_into_cache_def split: sum.split)
qed

lemma cached_resolve_address:
  assumes "cached_resolve inp r f = (a, r', f')"
  shows "a = cr_cached_address r' \<and> (a = cr_cached_address r \<or> ri_answer inp = Inr a \<and> \<not> is_bogus_address a)"
  using assms by (cases rule: resolve_into_cache_cases [of inp r f])
    (auto simp: cached_resolve_def split: if_splits prod.splits)

lemma resolve_all_addresses:
  assumes "resolve_all inps r f = (as, r', f')" and "a \<in> set as"
  shows "a = cr_cached_address r \<or> (\<exists>i \<in> set inps. ri_answer i = Inr a \<and> \<not> is_bogus_address a)"
  using assms
proof (induction inps arbitrary: r f as)
  case (Cons i inps)
  obtain b r1 f1 where 1: "cached_resolve i r f = (b, r1, f1)" by (rule prod_cases3)
  obtain bs where bs: "resolve_all inps r1 f1 = (bs, r', f')" "as = b # bs"
    using Cons.prems(1) 1 by (auto split: prod.splits)
  from Cons.IH [OF bs(1)] cached_resolve_address [OF 1] Cons.prems(2) bs(2) show ?case by auto
qed simp

lemma with_dns_resolver_address:
  "plausible parse_ip f fallback inps (cr_cached_address (with_dns_resolver parse_ip f host path fallback))"
  by (auto simp: with_dns_resolver_def load_initial_cached_address_def plausible_def
      split: option.split sum.split)

text \<open>
  C29.  The resolver always has an address, and never a bogus answer: whatever the lookups, the clock and the
  file do, every address it returns is the fallback, the one the cache file held at the start, or one
  that was looked up and is neither unspecified, loopback nor private.
\<close>

theorem resolved_addresses_plausible:
  assumes "resolve_all inps (with_dns_resolver parse_ip f host path fallback) f = (as, r, f')"
  shows "length as = length inps \<and> (\<forall>a \<in> set as. plausible parse_ip f fallback inps a)"
proof
  have "length (fst (resolve_all inps r f)) = length inps" for r f
    by (induction inps arbitrary: r f) (auto split: prod.splits, metis fst_conv)
  from this [of "with_dns_resolver parse_ip f host path fallback" f] show "length as = length inps"
    by (simp add: assms)
  show "\<forall>a \<in> set as. plausible parse_ip f fallback inps a"
    using resolve_all_addresses [OF assms] with_dns_resolver_address
    by (fastforce simp: plausible_def)
qed

definition ref_answer :: resolve_input where
  "ref_answer = \<lparr>ri_now = 5, ri_stored_at = 6, ri_answer = Inr (V4 (ipv4_new 10 100 200 1)), ri_write = WriteOk\<rparr>"

theorem resolved_addresses_plausible_witness:
  "\<exists>as r f'. resolve_all [ref_answer] (with_dns_resolver (\<lambda>_. None) \<lparr>cf_content = None, cf_modified = None\<rparr>
       ''api'' None (V4 7)) \<lparr>cf_content = None, cf_modified = None\<rparr> = (as, r, f') \<and>
     (\<forall>a \<in> set as. plausible (\<lambda>_. None) \<lparr>cf_content = None, cf_modified = None\<rparr> (V4 7) [ref_answer] a)"
proof -
  let ?r = "with_dns_resolver (\<lambda>_. None) \<lparr>cf_content = None, cf_modified = None\<rparr> ''api'' None (V4 7)"
  obtain as r f' where "resolve_all [ref_answer] ?r \<lparr>cf_content = None, cf_modified = None\<rparr> = (as, r, f')"
    by (rule prod_cases3)
  with resolved_addresses_plausible [OF this] show ?thesis by blast
qed

text \<open>
  The cache file carries the address over a restart.  After a lookup with a plausible answer, whose line
  could be written, a resolver that is started on the file has that address and the time it was
  stored, and for as long as the address is not too old it answers without a lookup.
\<close>

theorem cache_file_roundtrip:
  assumes "needs_lookup (ri_now inp) r" and "ri_answer inp = Inr a" and "\<not> is_bogus_address a"
    and "ri_write inp = WriteOk" and "cr_cache_file r = Some path"
    and "cached_resolve inp r f = (b, r', f')" and "parse_ip (fmt_ip a) = Some a"
    and "ri_stored_at inp \<le> ri_now later" and "ri_now later \<le> ri_stored_at inp + MAX_CACHE_AGE"
  shows "b = a \<and> with_dns_resolver parse_ip f' (cr_hostname r) (Some path) fallback = r' \<and>
    cached_resolve later r' f' = (a, r', f')"
proof -
  have f': "f' = \<lparr>cf_content = Some (fmt_ip a @ [CHR 0x0A]), cf_modified = Some (ri_stored_at inp)\<rparr>"
    and r': "r' = r\<lparr>cr_cached_address := a, cr_last_updated := ri_stored_at inp\<rparr>" and b: "b = a"
    using assms(1-6) by (auto simp: cached_resolve_def resolve_into_cache_def update_cache_file_def Let_def)
  have "with_dns_resolver parse_ip f' (cr_hostname r) (Some path) fallback = r'"
    using assms(5,7)
    by (simp add: with_dns_resolver_def load_initial_cached_address_def load_from_file_def f' r'
        trim_word [OF fmt_ip_word])
  moreover have "\<not> needs_lookup (ri_now later) r'" using assms(8,9) by (simp add: needs_lookup_def r')
  ultimately show ?thesis by (simp add: b cached_resolve_def r')
qed

theorem cache_file_roundtrip_witness:
  "\<exists>r' f'. cached_resolve (ref_answer\<lparr>ri_answer := Inr (V4 (ipv4_new 90 168 1 206)), ri_now := MAX_CACHE_AGE + 1\<rparr>)
       \<lparr>cr_hostname = ''api'', cr_cache_file = Some ''f'', cr_cached_address = V4 7, cr_last_updated = 0\<rparr>
       \<lparr>cf_content = None, cf_modified = None\<rparr> = (V4 (ipv4_new 90 168 1 206), r', f') \<and>
     with_dns_resolver (\<lambda>_. Some (V4 (ipv4_new 90 168 1 206))) f' ''api'' (Some ''f'') (V4 7) = r'"
proof -
  let ?inp = "ref_answer\<lparr>ri_answer := Inr (V4 (ipv4_new 90 168 1 206)), ri_now := MAX_CACHE_AGE + 1\<rparr>"
  let ?r = "\<lparr>cr_hostname = ''api'', cr_cache_file = Some ''f'', cr_cached_address = V4 7, cr_last_updated = 0\<rparr>"
  obtain b r' f' where e: "cached_resolve ?inp ?r \<lparr>cf_content = None, cf_modified = None\<rparr> = (b, r', f')"
    by (rule prod_cases3)
  have n: "needs_lookup (ri_now ?inp) ?r" by (simp add: needs_lookup_def)
  have ok: "\<not> is_bogus_address (V4 (ipv4_new 90 168 1 206))"
    by (simp add: is_bogus_address_def ipv4_is_private_def ipv4_new_def mask_v4_def mask_eq_exp_minus_1)
  show ?thesis
    using cache_file_roundtrip [OF n _ ok _ _ e, of "''f''" "\<lambda>_. Some (V4 (ipv4_new 90 168 1 206))" "ref_answer\<lparr>ri_now := 6\<rparr>" "V4 7"] e
    by (simp add: ref_answer_def)
qed

end
