(* ===== verification/Problem_Report.thy ===== *)
theory Problem_Report
  imports Std_Str
begin

text \<open>
  Problem reports (\<open>mullvad-problem-report/src/lib.rs\<close>) and the texts of errors (\<open>talpid-types/src/lib.rs\<close>):
  collecting logs, redacting them, writing the report, and reading the metadata back.  The crate \<open>regex\<close>
  is the parameter \<open>rx\<close>, called with a pattern, a text and a replacement; files and directories are inputs.
  A text is a string of bytes, and an error is the list of the texts of its chain.
\<close>

section \<open>Errors\<close>

type_synonym error_chain = "string \<times> string list"

definition NEWLINE :: string where
  "NEWLINE = [CHR 0x0A]"

definition caused_by :: "string list \<Rightarrow> string" where
  "caused_by causes = concat (map (\<lambda>c. NEWLINE @ ''Caused by: '' @ c) causes)"

definition display_chain :: "error_chain \<Rightarrow> string" where
  "display_chain e = ''Error: '' @ fst e @ caused_by (snd e)"

definition display_chain_with_msg :: "string \<Rightarrow> error_chain \<Rightarrow> string" where
  "display_chain_with_msg msg e = ''Error: '' @ msg @ caused_by (fst e # snd e)"

section \<open>Constants and patterns\<close>

definition LOG_MAX_READ_BYTES :: nat where "LOG_MAX_READ_BYTES = 128 * 1024"
definition EXTRA_BYTES :: nat where "EXTRA_BYTES = 32 * 1024"
definition REPORT_MAX_SIZE :: nat where "REPORT_MAX_SIZE = 5 * LOG_MAX_READ_BYTES + EXTRA_BYTES"

definition LOG_DELIMITER :: string where "LOG_DELIMITER = ''====================''"

definition LINE_SEPARATOR :: "target_os \<Rightarrow> string" where
  "LINE_SEPARATOR os = (if os = Windows then [CHR 0x0D, CHR 0x0A] else [CHR 0x0A])"

definition BACKSLASH :: string where
  "BACKSLASH = [CHR 0x5C]"

definition build_mac_regex :: string where
  "build_mac_regex =
     (let octet = ''[[:xdigit:]]{2}'' in ''(?:'' @ octet @ ''[:-]){5}('' @ octet @ '')'')"

definition build_ipv4_regex :: string where
  "build_ipv4_regex =
     (let above_250 = ''25[0-5]'';
          above_200 = ''2[0-4][0-9]'';
          above_100 = ''1[0-9][0-9]'';
          above_100_not_127 = ''1(?:[01][0-9]|2[0-6]|2[89]|[3-9][0-9])'';
          above_0 = ''0?[0-9][0-9]?'';
          alternatives = (\<lambda>a b c d. ''(?:'' @ a @ ''|'' @ b @ ''|'' @ c @ ''|'' @ d @ '')'');
          first_octet = alternatives above_250 above_200 above_100_not_127 above_0;
          ip_octet = alternatives above_250 above_200 above_100 above_0;
          dot = BACKSLASH @ ''.''
      in ''(?:'' @ first_octet @ dot @ ip_octet @ dot @ ip_octet @ dot @ ip_octet @ '')'')"

definition build_ipv6_regex :: string where
  "build_ipv6_regex =
     (let ipv4_segment = ''(25[0-5]|(2[0-4]|1{0,1}[0-9]){0,1}[0-9])'';
          ipv4_address = ''('' @ ipv4_segment @ BACKSLASH @ ''.){3,3}'' @ ipv4_segment;
          seg = ''[0-9a-fA-F]{1,4}'';
          groups = (\<lambda>n. ''('' @ seg @ '':){'' @ n @ ''}'');
          tails = (\<lambda>n. ''(:'' @ seg @ ''){'' @ n @ ''}'');
          long = groups ''7,7'' @ seg;
          compressed_1 = groups ''1,7'' @ '':'';
          compressed_2 = groups ''1,6'' @ '':'' @ seg;
          compressed_3 = groups ''1,5'' @ tails ''1,2'';
          compressed_4 = groups ''1,4'' @ tails ''1,3'';
          compressed_5 = groups ''1,3'' @ tails ''1,4'';
          compressed_6 = groups ''1,2'' @ tails ''1,5'';
          compressed_7 = seg @ '':('' @ tails ''1,6'' @ '')'';
          compressed_8 = '':('' @ tails ''1,7'' @ ''|:)'';
          link_local = ''[Ff][Ee]80:(:[0-9a-fA-F]{0,4}){0,4}%[0-9a-zA-Z]{1,}'';
          ipv4_mapped = ''::([fF]{4}(:0{1,4}){0,1}:){0,1}'' @ ipv4_address;
          ipv4_embedded = groups ''1,4'' @ '':'' @ ipv4_address
      in join_with ''|'' [long, link_local, ipv4_mapped, ipv4_embedded, compressed_8, compressed_7,
           compressed_6, compressed_5, compressed_4, compressed_3, compressed_2, compressed_1])"

definition account_pattern :: string where
  "account_pattern = BACKSLASH @ ''d{16}''"

definition network_pattern :: string where
  "network_pattern =
     ''(?P<start>^|[^0-9a-zA-Z.:])(?:'' @ build_ipv4_regex @ ''|'' @ build_ipv6_regex @ ''|'' @
     build_mac_regex @ '')''"

section \<open>Redaction\<close>

type_synonym regex_replace = "string \<Rightarrow> string \<Rightarrow> string \<Rightarrow> string"

definition redact_account_number :: "regex_replace \<Rightarrow> string \<Rightarrow> string" where
  "redact_account_number rx s = rx account_pattern s ''[REDACTED ACCOUNT NUMBER]''"

definition redact_home_dir :: "string option \<Rightarrow> string \<Rightarrow> string" where
  "redact_home_dir home s = (case home of Some h \<Rightarrow> str_replace h ''~'' s | None \<Rightarrow> s)"

definition redact_network_info :: "regex_replace \<Rightarrow> string \<Rightarrow> string" where
  "redact_network_info rx s = rx network_pattern s ''$start[REDACTED]''"

definition redact_custom_strings :: "string list \<Rightarrow> string \<Rightarrow> string" where
  "redact_custom_strings customs s = foldl (\<lambda>out redact. str_replace redact ''[REDACTED]'' out) s customs"

section \<open>Reports\<close>

text \<open>\<open>pr_metadata\<close> is a \<open>BTreeMap\<close>: its entries in the order of the keys.\<close>

record problem_report =
  pr_metadata :: "(string \<times> string) list"
  pr_logs :: "(string \<times> string) list"
  pr_log_paths :: "string list"
  pr_redact_custom_strings :: "string list"

text \<open>
  A file as it is read: its size when it is opened and the bytes that are there when it is read, which
  may be more when something is still writing to it.
\<close>

record file_view =
  fv_size :: nat
  fv_bytes :: string

text \<open>What reports ask the system for; \<open>re_lossy\<close> is \<open>String::from_utf8_lossy\<close>.\<close>

record report_env =
  re_rx :: regex_replace
  re_home :: "string option"
  re_canonicalize :: "string \<Rightarrow> string option"
  re_open :: "string \<Rightarrow> error_chain + file_view"
  re_lossy :: "string \<Rightarrow> string"

definition problem_report_new :: "(string \<times> string) list \<Rightarrow> string list \<Rightarrow> problem_report" where
  "problem_report_new metadata customs =
     \<lparr>pr_metadata = metadata, pr_logs = [], pr_log_paths = [],
      pr_redact_custom_strings = filter (\<lambda>redact. redact \<noteq> []) customs\<rparr>"

definition redact :: "report_env \<Rightarrow> problem_report \<Rightarrow> string \<Rightarrow> string" where
  "redact env r input =
     (let out1 = redact_account_number (re_rx env) input;
          out2 = redact_home_dir (re_home env) out1;
          out3 = redact_network_info (re_rx env) out2
      in redact_custom_strings (pr_redact_custom_strings r) out3)"

definition read_window :: "nat \<Rightarrow> file_view \<Rightarrow> string" where
  "read_window max_bytes f =
     take max_bytes (if fv_size f > max_bytes then drop (fv_size f - max_bytes) (fv_bytes f) else fv_bytes f)"

definition read_file_lossy :: "report_env \<Rightarrow> string \<Rightarrow> nat \<Rightarrow> error_chain + string" where
  "read_file_lossy env path max_bytes =
     map_sum id (\<lambda>f. re_lossy env (read_window max_bytes f)) (re_open env path)"

definition add_log :: "report_env \<Rightarrow> string \<Rightarrow> problem_report \<Rightarrow> problem_report" where
  "add_log env path r =
     (let expanded_path = (case re_canonicalize env path of Some p \<Rightarrow> p | None \<Rightarrow> path) in
      if expanded_path \<in> set (pr_log_paths r) then r
      else
        (let redacted_path = redact env r expanded_path;
             content = redact env r (case read_file_lossy env path LOG_MAX_READ_BYTES of
                 Inr text \<Rightarrow> text
               | Inl error \<Rightarrow> display_chain_with_msg
                   (''Error reading the contents of log file: '' @ expanded_path) error)
         in r\<lparr>pr_log_paths := expanded_path # pr_log_paths r,
              pr_logs := pr_logs r @ [(redacted_path, content)]\<rparr>))"

definition add_logs :: "report_env \<Rightarrow> string list \<Rightarrow> problem_report \<Rightarrow> problem_report" where
  "add_logs env paths r = fold (add_log env) paths r"

definition add_error :: "report_env \<Rightarrow> string \<Rightarrow> error_chain \<Rightarrow> problem_report \<Rightarrow> problem_report" where
  "add_error env message error r =
     r\<lparr>pr_logs := pr_logs r @ [(message, redact env r (display_chain error))]\<rparr>"

section \<open>Collecting\<close>

text \<open>\<open>Path::file_name\<close> and \<open>Path::extension\<close> of the path of a directory entry.\<close>

definition path_file_name :: "string \<Rightarrow> string" where
  "path_file_name p = rev (takeWhile (\<lambda>c. c \<noteq> CHR ''/'') (rev p))"

definition path_extension :: "string \<Rightarrow> string option" where
  "path_extension p =
     (let name = path_file_name p;
          ext = rev (takeWhile (\<lambda>c. c \<noteq> CHR ''.'') (rev name))
      in if length ext + 1 < length name \<and> CHR ''.'' \<in> set name then Some ext else None)"

text \<open>\<open>list_logs\<close>: the entries of the directory with the extension \<open>log\<close>, and the errors of single entries.\<close>

definition list_logs :: "error_chain + (error_chain + string) list \<Rightarrow> error_chain + (error_chain + string) list" where
  "list_logs dir =
     map_sum id (filter (\<lambda>entry. case entry of Inr path \<Rightarrow> path_extension path = Some ''log'' | Inl _ \<Rightarrow> True)) dir"

definition is_tunnel_log :: "string \<Rightarrow> bool" where
  "is_tunnel_log path \<longleftrightarrow> str_find ''openvpn'' (path_file_name path) \<noteq> None"

fun frontend_log_dir :: "target_os \<Rightarrow> string option \<Rightarrow> string option \<Rightarrow> (error_chain + string) option" where
  "frontend_log_dir Linux home _ =
     Some (case home of Some h \<Rightarrow> Inr (path_join h ''.config/Mullvad VPN/logs'')
       | None \<Rightarrow> Inl (''No home directory for current user'', []))"
| "frontend_log_dir MacOs home _ =
     Some (case home of Some h \<Rightarrow> Inr (path_join h ''Library/Logs/Mullvad VPN'')
       | None \<Rightarrow> Inl (''No home directory for current user'', []))"
| "frontend_log_dir Windows _ local_app_data =
     Some (case local_app_data of Some d \<Rightarrow> Inr (path_join d ''Mullvad VPN/logs'')
       | None \<Rightarrow> Inl (''Missing %LOCALAPPDATA% environment variable'', []))"
| "frontend_log_dir Android _ _ = None"

text \<open>The daemon logs: tunnel logs first, the others after all of them.\<close>

fun add_daemon_logs :: "report_env \<Rightarrow> (error_chain + string) list \<Rightarrow> string list \<Rightarrow> problem_report \<Rightarrow> problem_report" where
  "add_daemon_logs env [] other_logs r = add_logs env other_logs r"
| "add_daemon_logs env (Inr path # logs) other_logs r =
     (if is_tunnel_log path then add_daemon_logs env logs other_logs (add_log env path r)
      else add_daemon_logs env logs (other_logs @ [path]) r)"
| "add_daemon_logs env (Inl error # logs) other_logs r =
     add_daemon_logs env logs other_logs (add_error env ''Unable to get log path'' error r)"

fun add_frontend_logs :: "report_env \<Rightarrow> (error_chain + string) list \<Rightarrow> problem_report \<Rightarrow> problem_report" where
  "add_frontend_logs env [] r = r"
| "add_frontend_logs env (Inr path # logs) r = add_frontend_logs env logs (add_log env path r)"
| "add_frontend_logs env (Inl error # logs) r =
     add_frontend_logs env logs (add_error env ''Unable to get log path'' error r)"

text \<open>
  The inputs of \<open>collect_report\<close>: the log directory or the failure to determine it, what reading a
  directory gives, the logcat file on Android, the environment variable of Windows and the metadata.
\<close>

record collect_env =
  ce_os :: target_os
  ce_log_dir :: "error_chain + string"
  ce_read_dir :: "string \<Rightarrow> error_chain + (error_chain + string) list"
  ce_local_app_data :: "string option"
  ce_logcat :: "error_chain + string"
  ce_metadata :: "(string \<times> string) list"

definition bind_sum :: "'e + 'a \<Rightarrow> ('a \<Rightarrow> 'e + 'b) \<Rightarrow> 'e + 'b" where
  "bind_sum r f = (case r of Inl e \<Rightarrow> Inl e | Inr x \<Rightarrow> f x)"

definition collected_report :: "report_env \<Rightarrow> collect_env \<Rightarrow> string list \<Rightarrow> string list \<Rightarrow> problem_report" where
  "collected_report env ce extra_logs customs =
     (let r0 = problem_report_new (ce_metadata ce) customs;
          logs_of = (\<lambda>dir. bind_sum dir (\<lambda>d. list_logs (ce_read_dir ce d)));
          r1 = (case logs_of (ce_log_dir ce) of
                  Inr daemon_logs \<Rightarrow> add_daemon_logs env daemon_logs [] r0
                | Inl error \<Rightarrow> add_error env ''Failed to list logs in daemon log directory'' error r0);
          r2 = (case frontend_log_dir (ce_os ce) (re_home env) (ce_local_app_data ce) of
                  None \<Rightarrow> r1
                | Some dir \<Rightarrow>
                    (case logs_of dir of
                       Inr frontend_logs \<Rightarrow> add_frontend_logs env frontend_logs r1
                     | Inl error \<Rightarrow> add_error env ''Failed to list logs in frontend log directory'' error r1));
          r3 = (if ce_os ce = Android
                then (case ce_logcat ce of
                        Inr path \<Rightarrow> add_log env path r2
                      | Inl error \<Rightarrow> add_error env ''Failed to collect logcat'' error r2)
                else r2)
      in add_logs env extra_logs r3)"

section \<open>Writing and reading\<close>

definition write_line :: "target_os \<Rightarrow> string \<Rightarrow> string" where
  "write_line os text = text @ LINE_SEPARATOR os"

definition write_metadata :: "target_os \<Rightarrow> (string \<times> string) list \<Rightarrow> string" where
  "write_metadata os metadata = concat (map (\<lambda>(key, val). write_line os (key @ '': '' @ val)) metadata)"

definition write_log :: "target_os \<Rightarrow> string \<times> string \<Rightarrow> string" where
  "write_log os entry =
     write_line os LOG_DELIMITER @ write_line os (''Log: '' @ fst entry) @ write_line os LOG_DELIMITER @
     snd entry @ write_line os []"

definition write_to :: "target_os \<Rightarrow> problem_report \<Rightarrow> string" where
  "write_to os r =
     write_line os ''System information:'' @ write_metadata os (pr_metadata r) @ write_line os [] @
     concat (map (write_log os) (pr_logs r))"

fun parse_metadata_lines :: "string list \<Rightarrow> (string \<rightharpoonup> string) \<Rightarrow> (string \<rightharpoonup> string) option" where
  "parse_metadata_lines [] m = Some m"
| "parse_metadata_lines (line # ls) m =
     (if line = [] then Some m
      else (case str_find '': '' line of
              None \<Rightarrow> None
            | Some i \<Rightarrow> parse_metadata_lines ls (m(take i line \<mapsto> drop (i + 2) line))))"

definition parse_metadata :: "string \<Rightarrow> (string \<rightharpoonup> string) option" where
  "parse_metadata report =
     (case str_lines report of
        [] \<Rightarrow> None
      | l # ls \<Rightarrow> if l = ''System information:'' then parse_metadata_lines ls Map.empty else None)"

definition normalize_newlines :: "target_os \<Rightarrow> string \<Rightarrow> string" where
  "normalize_newlines os text =
     (if os = Windows then str_replace (LINE_SEPARATOR os) NEWLINE text else text)"

datatype report_error =
    WriteReportError string | ReadProblemReportError string | CreateRpcClientError | SendRpcError

text \<open>
  \<open>send_problem_report\<close>: the text and the metadata that are sent, or the error.  \<open>connect\<close> says whether the
  client can be created and \<open>call\<close> whether the request succeeds.
\<close>

definition send_problem_report :: "target_os \<Rightarrow> report_env \<Rightarrow> (string \<rightharpoonup> string) \<Rightarrow> bool
    \<Rightarrow> (string \<Rightarrow> (string \<rightharpoonup> string) \<Rightarrow> bool) \<Rightarrow> string \<Rightarrow> report_error + string \<times> (string \<rightharpoonup> string)" where
  "send_problem_report os env collected connect call report_path =
     (case read_file_lossy env report_path REPORT_MAX_SIZE of
        Inl _ \<Rightarrow> Inl (ReadProblemReportError report_path)
      | Inr text \<Rightarrow>
          (let content = normalize_newlines os text;
               metadata = (case parse_metadata content of Some m \<Rightarrow> m | None \<Rightarrow> collected)
           in if \<not> connect then Inl CreateRpcClientError
              else if \<not> call content metadata then Inl SendRpcError
              else Inr (content, metadata)))"

text \<open>
  \<open>collect_report\<close>: the report is written to a new file that is then read only; each of the steps may
  fail.  The result is the content of the file.
\<close>

definition collect_report :: "report_env \<Rightarrow> collect_env \<Rightarrow> string list \<Rightarrow> string \<Rightarrow> string list \<Rightarrow> bool \<Rightarrow> bool \<Rightarrow> bool
    \<Rightarrow> report_error + string" where
  "collect_report env ce extra_logs output_path customs created protected written =
     (let r = collected_report env ce extra_logs customs in
      if created \<and> protected \<and> written then Inr (write_to (ce_os ce) r)
      else Inl (WriteReportError output_path))"

end
