(* ===== verification/Problem_Report_Props.thy ===== *)
theory Problem_Report_Props
  imports Problem_Report
begin

text \<open>
  Properties of problem reports: account numbers do not get into them, and the metadata that is written
  is read back when the report is sent.
\<close>

section \<open>Runs of digits\<close>

definition lead :: "string \<Rightarrow> nat" where
  "lead s = length (takeWhile is_digit s)"

fun has_run :: "nat \<Rightarrow> string \<Rightarrow> bool" where
  "has_run n [] = (n = 0)"
| "has_run n (c # cs) = (n \<le> lead (c # cs) \<or> has_run n cs)"

text \<open>Account numbers are runs of sixteen digits.\<close>

definition account_number_in :: "string \<Rightarrow> bool" where
  "account_number_in s = has_run 16 s"

abbreviation no_digits :: "string \<Rightarrow> bool" where
  "no_digits m \<equiv> (\<forall>c \<in> set m. \<not> is_digit c)"

lemma lead_simps [simp]:
  "lead [] = 0" "lead (c # s) = (if is_digit c then Suc (lead s) else 0)"
  by (simp_all add: lead_def)

lemma has_run_lead: "n \<le> lead s \<Longrightarrow> has_run n s"
  by (cases s) auto

lemma lead_append: "lead s \<le> lead (s @ t)"
  by (induction s) auto

lemma has_run_append_left: "has_run n t \<Longrightarrow> has_run n (s @ t)"
  by (induction s) auto

lemma has_run_append_right: "has_run n s \<Longrightarrow> has_run n (s @ t)"
proof (induction s)
  case (Cons c s)
  then show ?case using lead_append [of s t] by (auto split: if_splits)
qed (auto intro: has_run_lead)

lemma lead_sep: "m \<noteq> [] \<Longrightarrow> no_digits m \<Longrightarrow> lead (a @ m @ b) = lead a"
proof (induction a)
  case Nil
  then show ?case by (cases m) simp_all
qed simp

lemma has_run_no_digits: "no_digits m \<Longrightarrow> 0 < n \<Longrightarrow> has_run n (m @ b) \<longleftrightarrow> has_run n b"
  by (induction m) auto

lemma has_run_sep:
  "m \<noteq> [] \<Longrightarrow> no_digits m \<Longrightarrow> 0 < n \<Longrightarrow> has_run n (a @ m @ b) \<longleftrightarrow> has_run n a \<or> has_run n b"
proof (induction a)
  case (Cons c a)
  then show ?case by (auto simp: lead_sep)
qed (simp add: has_run_no_digits)

section \<open>Replacing parts of a text\<close>

text \<open>
  \<open>redacts s t\<close>: parts of \<open>s\<close> are replaced by texts without digits, except that the first character of a part
  may be kept before the new text.
\<close>

inductive redacts :: "string \<Rightarrow> string \<Rightarrow> bool" where
  nothing: "redacts [] []"
| keep: "redacts s t \<Longrightarrow> redacts (c # s) (c # t)"
| cut: "redacts s t \<Longrightarrow> k \<le> 1 \<Longrightarrow> m \<noteq> [] \<Longrightarrow> no_digits m \<Longrightarrow> redacts (u @ s) (take k u @ m @ t)"

lemma redacts_refl: "redacts s s"
  by (induction s) (auto intro: redacts.intros)

lemma take_1_cases: "k \<le> 1 \<Longrightarrow> take k u = [] \<or> (\<exists>c v. u = c # v \<and> take k u = [c])"
  by (cases u) (auto simp: le_Suc_eq)

lemma redacts_lead: "redacts s t \<Longrightarrow> lead t \<le> lead s"
proof (induction rule: redacts.induct)
  case (cut s t k m u)
  from take_1_cases [OF cut(2), of u] cut(3,4) show ?case
    by (auto simp: lead_sep [of m "[]", simplified] neq_Nil_conv)
qed auto

lemma redacts_has_run: "redacts s t \<Longrightarrow> 2 \<le> n \<Longrightarrow> has_run n t \<Longrightarrow> has_run n s"
proof (induction rule: redacts.induct)
  case (keep s t c)
  then show ?case using redacts_lead [OF keep(1)] by (auto split: if_splits)
next
  case (cut s t k m u)
  have "\<not> has_run n (take k u)" using cut.prems take_1_cases [OF cut(2), of u] by (auto split: if_splits)
  then have "has_run n t" using cut has_run_sep [of m n "take k u" t] by simp
  with cut show ?case by (auto intro: has_run_append_left)
qed simp

lemma redacts_replace_from: "new \<noteq> [] \<Longrightarrow> no_digits new \<Longrightarrow> redacts s (replace_from p new s)"
proof (induction p new s rule: replace_from.induct)
  case (1 p new s)
  show ?case
  proof (cases s)
    case (Cons c cs)
    show ?thesis
    proof (cases "p \<noteq> [] \<and> starts_with s p")
      case True
      have "redacts (take (length p) s @ drop (length p) s)
          (take 0 (take (length p) s) @ new @ replace_from p new (drop (length p) s))"
        using 1 Cons True by (intro redacts.cut) auto
      with Cons True show ?thesis by (subst replace_from.simps) simp
    next
      case False
      have "redacts cs (replace_from p new cs)" using 1 Cons False by simp
      with Cons False show ?thesis by (subst replace_from.simps) (auto intro: redacts.keep)
    qed
  qed (subst replace_from.simps, simp add: redacts.nothing)
qed

lemma redacts_insert: "new \<noteq> [] \<Longrightarrow> no_digits new \<Longrightarrow> redacts s (new @ concat (map (\<lambda>c. c # new) s))"
proof (induction s)
  case Nil
  then show ?case using redacts.cut [OF redacts.nothing, of 0 new "[]"] by simp
next
  case (Cons c s)
  then have "redacts (c # s) (c # new @ concat (map (\<lambda>c. c # new) s))" by (auto intro: redacts.keep)
  from redacts.cut [OF this, of 0 new "[]"] Cons show ?case by simp
qed

lemma redacts_str_replace: "new \<noteq> [] \<Longrightarrow> no_digits new \<Longrightarrow> redacts s (str_replace p new s)"
  by (simp add: str_replace_def redacts_replace_from redacts_insert)

section \<open>No account numbers in reports\<close>

lemma no_digits_lits [simp]:
  "no_digits ''~''" "no_digits ''[REDACTED]''"
  by (simp_all add: is_digit_def)

lemma clean_redacts: "redacts s t \<Longrightarrow> \<not> account_number_in s \<Longrightarrow> \<not> account_number_in t"
  using redacts_has_run [of s t 16] by (auto simp: account_number_in_def)

lemma home_clean: "\<not> account_number_in s \<Longrightarrow> \<not> account_number_in (str_replace h ''~'' s)"
  by (rule clean_redacts [OF redacts_str_replace]) simp_all

lemma custom_clean: "\<not> account_number_in s \<Longrightarrow> \<not> account_number_in (redact_custom_strings customs s)"
  unfolding redact_custom_strings_def
proof (induction customs arbitrary: s)
  case (Cons x customs)
  have "\<not> account_number_in (str_replace x ''[REDACTED]'' s)"
    by (rule clean_redacts [OF redacts_str_replace Cons.prems]) simp_all
  then show ?case using Cons.IH by simp
qed simp

text \<open>What is relied on of the two patterns.\<close>

definition regex_redacts :: "regex_replace \<Rightarrow> bool" where
  "regex_redacts rx \<longleftrightarrow>
     (\<forall>s. \<not> account_number_in (rx account_pattern s ''[REDACTED ACCOUNT NUMBER]'')) \<and>
     (\<forall>s. redacts s (rx network_pattern s ''$start[REDACTED]''))"

lemma redact_clean:
  assumes "regex_redacts (re_rx env)"
  shows "\<not> account_number_in (redact env r s)"
proof -
  have 1: "\<not> account_number_in (redact_account_number (re_rx env) s)"
    using assms by (simp add: regex_redacts_def redact_account_number_def)
  have "\<not> account_number_in (redact_home_dir (re_home env) (redact_account_number (re_rx env) s))"
    using 1 by (simp add: redact_home_dir_def home_clean split: option.split)
  then have "\<not> account_number_in (redact_network_info (re_rx env)
      (redact_home_dir (re_home env) (redact_account_number (re_rx env) s)))"
    using assms by (auto simp: redact_network_info_def regex_redacts_def dest: clean_redacts)
  then show ?thesis by (simp add: redact_def Let_def custom_clean)
qed

definition logs_clean :: "problem_report \<Rightarrow> bool" where
  "logs_clean r \<longleftrightarrow> (\<forall>(label, content) \<in> set (pr_logs r). \<not> account_number_in label \<and> \<not> account_number_in content)"

lemma no_digits_clean: "no_digits s \<Longrightarrow> \<not> account_number_in s"
  using has_run_no_digits [of s 16 "[]"] by (simp add: account_number_in_def)

lemma message_clean:
  "\<not> account_number_in ''Unable to get log path''"
  "\<not> account_number_in ''Failed to list logs in daemon log directory''"
  "\<not> account_number_in ''Failed to list logs in frontend log directory''"
  "\<not> account_number_in ''Failed to collect logcat''"
  by (rule no_digits_clean, simp add: is_digit_def)+

lemma logs_clean_steps:
  assumes "regex_redacts (re_rx env)"
  shows "logs_clean r \<Longrightarrow> logs_clean (add_log env path r)"
    "logs_clean r \<Longrightarrow> \<not> account_number_in msg \<Longrightarrow> logs_clean (add_error env msg e r)"
    "logs_clean r \<Longrightarrow> logs_clean (add_logs env paths r)"
    "logs_clean r \<Longrightarrow> logs_clean (add_daemon_logs env logs others r)"
    "logs_clean r \<Longrightarrow> logs_clean (add_frontend_logs env logs r)"
proof -
  note clean = redact_clean [OF assms]
  show 1: "logs_clean r \<Longrightarrow> logs_clean (add_log env path r)" for path r
    by (auto simp: logs_clean_def add_log_def Let_def clean)
  show 2: "logs_clean r \<Longrightarrow> \<not> account_number_in msg \<Longrightarrow> logs_clean (add_error env msg e r)" for msg e r
    by (auto simp: logs_clean_def add_error_def clean)
  show 3: "logs_clean r \<Longrightarrow> logs_clean (add_logs env paths r)" for paths r
    unfolding add_logs_def by (induction paths arbitrary: r) (simp_all add: 1)
  show "logs_clean r \<Longrightarrow> logs_clean (add_daemon_logs env logs others r)"
  proof (induction logs arbitrary: others r)
    case (Cons x logs)
    then show ?case by (cases x) (simp_all add: 1 2 message_clean)
  qed (simp add: 3)
  show "logs_clean r \<Longrightarrow> logs_clean (add_frontend_logs env logs r)"
  proof (induction logs arbitrary: r)
    case (Cons x logs)
    then show ?case by (cases x) (simp_all add: 1 2 message_clean)
  qed simp
qed

lemma collected_logs_clean:
  assumes "regex_redacts (re_rx env)"
  shows "logs_clean (collected_report env ce extra customs)"
proof -
  have "logs_clean (problem_report_new md cs)" for md cs by (simp add: problem_report_new_def logs_clean_def)
  then show ?thesis
    by (simp add: collected_report_def Let_def logs_clean_steps [OF assms] message_clean
        split: sum.split option.split)
qed

lemma add_steps_metadata:
  "pr_metadata (add_log env path r) = pr_metadata r"
  "pr_metadata (add_error env msg e r) = pr_metadata r"
  "pr_metadata (add_logs env paths r) = pr_metadata r"
  "pr_metadata (add_daemon_logs env logs others r) = pr_metadata r"
  "pr_metadata (add_frontend_logs env logs r) = pr_metadata r"
proof -
  show 1: "pr_metadata (add_log env path r) = pr_metadata r" for path r by (simp add: add_log_def Let_def)
  show 2: "pr_metadata (add_error env msg e r) = pr_metadata r" for msg e r by (simp add: add_error_def)
  show 3: "pr_metadata (add_logs env paths r) = pr_metadata r" for paths r
    unfolding add_logs_def by (induction paths arbitrary: r) (simp_all add: 1)
  show "pr_metadata (add_daemon_logs env logs others r) = pr_metadata r"
  proof (induction logs arbitrary: others r)
    case (Cons x logs)
    then show ?case by (cases x) (simp_all add: 1 2)
  qed (simp add: 3)
  show "pr_metadata (add_frontend_logs env logs r) = pr_metadata r"
  proof (induction logs arbitrary: r)
    case (Cons x logs)
    then show ?case by (cases x) (simp_all add: 1 2)
  qed simp
qed

lemma collected_metadata: "pr_metadata (collected_report env ce extra customs) = ce_metadata ce"
  by (simp add: collected_report_def Let_def add_steps_metadata problem_report_new_def split: sum.split option.split)

text \<open>The lines of the written report are separated by texts without digits.\<close>

lemma separator_facts [simp]: "LINE_SEPARATOR os \<noteq> []" "no_digits (LINE_SEPARATOR os)"
  by (auto simp: LINE_SEPARATOR_def is_digit_def)

lemma clean_sep:
  "m \<noteq> [] \<Longrightarrow> no_digits m \<Longrightarrow> account_number_in (a @ m @ b) \<longleftrightarrow> account_number_in a \<or> account_number_in b"
  by (simp add: account_number_in_def has_run_sep)

lemma clean_line: "account_number_in (write_line os a @ b) \<longleftrightarrow> account_number_in a \<or> account_number_in b"
  unfolding write_line_def append_assoc by (rule clean_sep) simp_all

lemma clean_prefix: "no_digits m \<Longrightarrow> account_number_in (m @ b) \<longleftrightarrow> account_number_in b"
  by (simp add: account_number_in_def has_run_no_digits)

lemma clean_metadata:
  "\<forall>(k, v) \<in> set md. \<not> account_number_in k \<and> \<not> account_number_in v \<Longrightarrow> \<not> account_number_in b \<Longrightarrow>
     \<not> account_number_in (write_metadata os md @ b)"
proof (induction md)
  case (Cons kv md)
  obtain k v where kv: "kv = (k, v)" by (cases kv)
  have "account_number_in (k @ '': '' @ v) \<longleftrightarrow> account_number_in k \<or> account_number_in v"
    by (rule clean_sep) (simp_all add: is_digit_def)
  with Cons kv show ?case by (simp add: write_metadata_def clean_line)
qed (simp add: write_metadata_def)

lemma clean_logs:
  assumes "\<forall>(label, content) \<in> set logs. \<not> account_number_in label \<and> \<not> account_number_in content"
  shows "\<not> account_number_in (concat (map (write_log os) logs))"
  using assms
proof (induction logs)
  case (Cons entry logs)
  have lits: "no_digits LOG_DELIMITER" "no_digits ''Log: ''" by (simp_all add: LOG_DELIMITER_def is_digit_def)
  have sep: "account_number_in (c @ write_line os [] @ b) \<longleftrightarrow> account_number_in c \<or> account_number_in b" for c b
    unfolding write_line_def by (subst append_Nil) (rule clean_sep, simp_all)
  have "account_number_in (''Log: '' @ label) \<longleftrightarrow> account_number_in label" for label
    by (rule clean_prefix [OF lits(2)])
  then show ?case
    using Cons by (auto simp: write_log_def clean_line sep no_digits_clean [OF lits(1)])
qed (simp add: account_number_in_def)

text \<open>
  C27.  No account number gets into a report.  Whatever the logs, paths and error messages contain, the
  report that is written has no sixteen digits in a row, provided the metadata has none: redaction
  of the home directory, of network addresses and of the user's own strings never joins digits, and
  the lines around the logs keep them apart.
\<close>

theorem report_hides_accounts:
  assumes "regex_redacts (re_rx env)"
    and "\<forall>(k, v) \<in> set (ce_metadata ce). \<not> account_number_in k \<and> \<not> account_number_in v"
    and "collect_report env ce extra path customs created protected written = Inr text"
  shows "\<not> account_number_in text"
proof -
  let ?r = "collected_report env ce extra customs"
  have written: "text = write_to (ce_os ce) ?r"
    using assms(3) by (auto simp: collect_report_def Let_def split: if_splits)
  have "\<not> account_number_in (concat (map (write_log (ce_os ce)) (pr_logs ?r)))"
    using collected_logs_clean [OF assms(1)] by (intro clean_logs) (simp add: logs_clean_def)
  moreover have "\<not> account_number_in ''System information:''"
    by (rule no_digits_clean) (simp add: is_digit_def)
  moreover have "\<not> account_number_in []" by (simp add: account_number_in_def)
  ultimately show ?thesis
    using assms(2) by (simp add: written write_to_def clean_line clean_metadata collected_metadata)
qed

text \<open>A reference for the pattern of account numbers: from the left, every sixteen digits in a row.\<close>

function redact_digits :: "string \<Rightarrow> string \<Rightarrow> string" where
  "redact_digits new s =
     (case s of
        [] \<Rightarrow> []
      | c # cs \<Rightarrow> if lead s \<ge> 16 then new @ redact_digits new (drop 16 s) else c # redact_digits new cs)"
  by pat_completeness auto
termination
  by (relation "measure (\<lambda>(_, s). length s)") auto

declare redact_digits.simps [simp del]

lemma redact_digits_clean:
  assumes "new \<noteq> []" and "no_digits new"
  shows "lead (redact_digits new s) \<le> lead s \<and> \<not> has_run 16 (redact_digits new s)"
proof (induction s rule: measure_induct_rule [of length])
  case (less s)
  show ?case
  proof (cases s)
    case Nil
    then show ?thesis by (subst (1 2) redact_digits.simps) simp
  next
    case (Cons c cs)
    show ?thesis
    proof (cases "lead s \<ge> 16")
      case True
      have "lead (new @ x) = 0" for x using assms lead_sep [of new "[]" x] by simp
      moreover have "\<not> has_run 16 (redact_digits new (drop 16 s))" using less Cons by simp
      ultimately show ?thesis
        using Cons True assms by (subst (1 2) redact_digits.simps) (simp add: has_run_no_digits)
    next
      case False
      have "lead (redact_digits new cs) \<le> lead cs" "\<not> has_run 16 (redact_digits new cs)"
        using less [of cs] Cons by simp_all
      with Cons False show ?thesis by (subst (1 2) redact_digits.simps) auto
    qed
  qed
qed

definition ref_rx :: regex_replace where
  "ref_rx pattern s new = (if pattern = account_pattern then redact_digits new s else s)"

lemma ref_rx_redacts: "regex_redacts ref_rx"
proof -
  have "network_pattern \<noteq> account_pattern"
    by (simp add: network_pattern_def account_pattern_def BACKSLASH_def)
  moreover have "\<not> account_number_in (redact_digits ''[REDACTED ACCOUNT NUMBER]'' s)" for s
    using redact_digits_clean [of "''[REDACTED ACCOUNT NUMBER]''" s]
    by (simp add: account_number_in_def is_digit_def)
  ultimately show ?thesis by (simp add: regex_redacts_def ref_rx_def redacts_refl)
qed

definition ref_report_env :: report_env where
  "ref_report_env = \<lparr>re_rx = ref_rx, re_home = Some ''/home/u'', re_canonicalize = Some,
     re_open = (\<lambda>_. Inr \<lparr>fv_size = 20, fv_bytes = ''acc 1234567890123456''\<rparr>), re_lossy = id\<rparr>"

definition ref_collect_env :: collect_env where
  "ref_collect_env = \<lparr>ce_os = Linux, ce_log_dir = Inr ''/var/log'',
     ce_read_dir = (\<lambda>_. Inr [Inr ''/var/log/daemon.log'']), ce_local_app_data = None,
     ce_logcat = Inl ([], []), ce_metadata = [(''id'', ''x''), (''os'', ''Linux'')]\<rparr>"

theorem report_hides_accounts_witness:
  "\<exists>text. collect_report ref_report_env ref_collect_env [] ''/r'' [] True True True = Inr text \<and>
     \<not> account_number_in text"
proof -
  obtain content where t: "collect_report ref_report_env ref_collect_env [] ''/r'' [] True True True = Inr content"
    by (simp add: collect_report_def Let_def)
  have "regex_redacts (re_rx ref_report_env)" by (simp add: ref_report_env_def ref_rx_redacts)
  moreover have "\<forall>(k, v) \<in> set (ce_metadata ref_collect_env). \<not> account_number_in k \<and> \<not> account_number_in v"
    by (simp add: ref_collect_env_def account_number_in_def)
  ultimately show ?thesis using report_hides_accounts [OF _ _ t] t by blast
qed

section \<open>The metadata is read back\<close>

abbreviation one_line :: "string \<Rightarrow> bool" where
  "one_line s \<equiv> CHR 0x0A \<notin> set s \<and> CHR 0x0D \<notin> set s"

lemma split_lines_line:
  "one_line x \<Longrightarrow> CHR 0x0D \<notin> set l \<Longrightarrow> split_lines l (x @ CHR 0x0A # rest) = (l @ x) # split_lines [] rest"
proof (induction x arbitrary: l)
  case Nil
  then have "strip_cr l = l" by (metis last_in_set strip_cr_def)
  then show ?case by simp
next
  case (Cons c x)
  then show ?case using Cons.IH [of "l @ [c]"] by auto
qed

lemma replace_crlf_line:
  "one_line x \<Longrightarrow> replace_from [CHR 0x0D, CHR 0x0A] new (x @ CHR 0x0D # CHR 0x0A # rest) =
     x @ new @ replace_from [CHR 0x0D, CHR 0x0A] new rest"
proof (induction x)
  case Nil
  show ?case by (subst replace_from.simps) (simp add: starts_with_def)
next
  case (Cons c x)
  then show ?case by (subst replace_from.simps) (auto simp: starts_with_def)
qed

text \<open>A line as it is written and normalised.\<close>

lemma normalize_line:
  "one_line x \<Longrightarrow> normalize_newlines os (write_line os x @ rest) = x @ CHR 0x0A # normalize_newlines os rest"
  by (simp add: normalize_newlines_def write_line_def LINE_SEPARATOR_def str_replace_def NEWLINE_def
      replace_crlf_line)

lemma str_find_sep: "str_find '': '' k = None \<Longrightarrow> str_find '': '' (k @ '': '' @ v) = Some (length k)"
proof (induction k)
  case Nil
  show ?case by (simp add: starts_with_def)
next
  case (Cons c k)
  from Cons.prems have "\<not> starts_with (c # k) '': ''" "str_find '': '' k = None"
    by (auto split: if_splits)
  then have "\<not> starts_with ((c # k) @ '': '' @ v) '': ''"
    by (cases k) (auto simp: starts_with_def)
  with Cons.IH \<open>str_find '': '' k = None\<close> show ?case by simp
qed

definition metadata_ok :: "(string \<times> string) list \<Rightarrow> bool" where
  "metadata_ok md \<longleftrightarrow> distinct (map fst md) \<and>
     (\<forall>(k, v) \<in> set md. one_line k \<and> one_line v \<and> str_find '': '' k = None)"

lemma parse_written_metadata:
  "metadata_ok md \<Longrightarrow>
     parse_metadata_lines (str_lines (normalize_newlines os (write_metadata os md @ write_line os [] @ rest))) m =
     Some (m ++ map_of md)"
proof (induction md arbitrary: m)
  case Nil
  have "str_lines (normalize_newlines os (write_line os [] @ rest)) = [] # str_lines (normalize_newlines os rest)"
    using normalize_line [of "[]" os rest] split_lines_line [of "[]" "[]"] by (simp add: str_lines_def)
  then show ?case by (simp add: write_metadata_def)
next
  case (Cons kv md)
  obtain k v where kv: "kv = (k, v)" by (cases kv)
  have ok: "one_line k" "one_line v" "str_find '': '' k = None" "k \<notin> dom (map_of md)" "metadata_ok md"
    using Cons.prems by (auto simp: metadata_ok_def kv dom_map_of_conv_image_fst)
  let ?l = "k @ '': '' @ v" and ?rest = "write_metadata os md @ write_line os [] @ rest"
  have one: "one_line ?l" using ok by auto
  have "str_lines (normalize_newlines os (write_line os ?l @ ?rest)) = ?l # str_lines (normalize_newlines os ?rest)"
    unfolding normalize_line [OF one] str_lines_def using split_lines_line [OF one, of "[]"] by simp
  moreover have "write_metadata os (kv # md) @ write_line os [] @ rest = write_line os ?l @ ?rest"
    by (simp add: write_metadata_def kv)
  moreover have "parse_metadata_lines (?l # ls) m = parse_metadata_lines ls (m(k \<mapsto> v))" for ls
    using str_find_sep [OF ok(3), of v] by simp
  moreover have "m(k \<mapsto> v) ++ map_of md = m ++ map_of ((k, v) # md)"
    using ok(4) by (auto simp: map_add_def fun_eq_iff split: option.splits)
  ultimately show ?case using Cons.IH [OF ok(5), of "m(k \<mapsto> v)"] unfolding kv by metis
qed

text \<open>
  \<open>parse_metadata\<close> stays in sync with \<open>write_to\<close>: the metadata of a written report, read back with the
  newlines of the platform, is the metadata that was written, whatever the logs are.  The keys must
  not contain the separator, and neither keys nor values a newline.
\<close>

theorem metadata_roundtrip:
  assumes "metadata_ok (pr_metadata r)"
  shows "parse_metadata (normalize_newlines os (write_to os r)) = Some (map_of (pr_metadata r))"
proof -
  let ?rest = "write_metadata os (pr_metadata r) @ write_line os [] @ concat (map (write_log os) (pr_logs r))"
  have one: "one_line ''System information:''" by simp
  have "str_lines (normalize_newlines os (write_line os ''System information:'' @ ?rest)) =
      ''System information:'' # str_lines (normalize_newlines os ?rest)"
    unfolding normalize_line [OF one] str_lines_def using split_lines_line [OF one, of "[]"] by simp
  then show ?thesis
    using parse_written_metadata [OF assms, of os _ Map.empty]
    by (simp add: parse_metadata_def write_to_def del: append.append_Cons)
qed

theorem metadata_roundtrip_witness:
  "parse_metadata (normalize_newlines Windows (write_to Windows
     (collected_report ref_report_env ref_collect_env [] []))) = Some [''id'' \<mapsto> ''x'', ''os'' \<mapsto> ''Linux'']"
proof -
  have md: "pr_metadata (collected_report ref_report_env ref_collect_env [] []) = [(''id'', ''x''), (''os'', ''Linux'')]"
    by (simp add: collected_metadata ref_collect_env_def)
  then have "metadata_ok (pr_metadata (collected_report ref_report_env ref_collect_env [] []))"
    by (simp add: metadata_ok_def starts_with_def)
  from metadata_roundtrip [OF this, of Windows] md show ?thesis
    by (auto simp: fun_eq_iff)
qed

end
