(* ===== verification/Dns_Linux.thy ===== *)
theory Dns_Linux
  imports Routing_Linux
begin

text \<open>
  The DNS monitor of Linux (\<open>talpid-core/src/dns/linux/*.rs\<close>) with its four backends: systemd-resolved and
  NetworkManager over D-Bus, the program \<open>resolvconf\<close>, and a static \<open>/etc/resolv.conf\<close> that is watched
  for changes.  The files, processes, the bus and the crate \<open>resolv_conf\<close> are the operations of the record
  \<open>dns_system\<close>; every operation on the state \<open>'s\<close> of the system may fail.
\<close>

section \<open>The system\<close>

text \<open>The nameservers of the crate \<open>resolv_conf\<close>; \<open>'o\<close> holds the other settings of a configuration.\<close>

datatype scoped_ip = ScopedV4 ipv4 | ScopedV6 ipv6 "string option"

fun scoped_from :: "ip_addr \<Rightarrow> scoped_ip" where
  "scoped_from (V4 a) = ScopedV4 a"
| "scoped_from (V6 a) = ScopedV6 a None"

record 'o resolv_config =
  rc_nameservers :: "scoped_ip list"
  rc_other :: 'o

text \<open>Values on the bus, and a call of a method of an object.\<close>

datatype message_item =
    MiByte u8 | MiInt32 u32 | MiBool bool | MiStr string | MiPath string
  | MiArray "message_item list" | MiStruct "message_item list" | MiDict "(string \<times> message_item) list"

record dbus_call =
  dc_bus :: string
  dc_path :: string
  dc_timeout :: nat
  dc_interface :: string
  dc_member :: string
  dc_args :: "message_item list"

text \<open>An error on the bus may have a name.\<close>

type_synonym dbus_error = "string option"

datatype read_failure = ReadNotFound | ReadOther

record ('s, 'o) dns_system =
  ds_env :: "'s \<Rightarrow> string option"
  ds_read :: "string \<Rightarrow> 's \<Rightarrow> read_failure + string"
  ds_write :: "string \<Rightarrow> string \<Rightarrow> 's \<Rightarrow> bool \<times> 's"
  ds_remove :: "string \<Rightarrow> 's \<Rightarrow> bool \<times> 's"
  ds_read_link :: "string \<Rightarrow> 's \<Rightarrow> string option"
  ds_canonicalize :: "string \<Rightarrow> 's \<Rightarrow> string option"
  ds_file_lines :: "string \<Rightarrow> 's \<Rightarrow> (unit + string) list option"
  ds_parse :: "string \<Rightarrow> 'o resolv_config option"
  ds_print :: "'o resolv_config \<Rightarrow> string"
  ds_watch :: "'s \<Rightarrow> bool"
  ds_which :: "string \<Rightarrow> 's \<Rightarrow> string option"
  ds_run :: "string \<Rightarrow> string list \<Rightarrow> string \<Rightarrow> 's \<Rightarrow> (bool \<times> string) option \<times> 's"
  ds_drain :: "string list \<Rightarrow> string list"
  ds_connect :: "'s \<Rightarrow> bool"
  ds_iface_index :: "string \<Rightarrow> 's \<Rightarrow> u32 option"
  ds_call :: "dbus_call \<Rightarrow> 's \<Rightarrow> (dbus_error + (dbus_error + message_item list)) \<times> 's"
  ds_get :: "string \<Rightarrow> string \<Rightarrow> string \<Rightarrow> string \<Rightarrow> 's \<Rightarrow> dbus_error + message_item"
  ds_set :: "string \<Rightarrow> string \<Rightarrow> string \<Rightarrow> string \<Rightarrow> message_item \<Rightarrow> 's \<Rightarrow> (dbus_error + unit) \<times> 's"

text \<open>
  \<open>ds_run\<close> gets the program, its arguments and its input, and gives its success and what it printed as
  errors, or \<open>None\<close> when it could not be run.  \<open>ds_drain\<close> is the order in which a set of names is emptied.
\<close>

definition RESOLV_CONF_PATH :: string where
  "RESOLV_CONF_PATH = ''/etc/resolv.conf''"

section \<open>Static resolv.conf\<close>

definition RESOLV_CONF_BACKUP_PATH :: string where
  "RESOLV_CONF_BACKUP_PATH = ''/etc/resolv.conf.mullvadbackup''"

datatype static_error =
    WatchResolvConf | WriteResolvConf string | ReadResolvConf string | ParseError string | RemoveBackup string

record 'o static_state =
  sc_backup :: "'o resolv_config"
  sc_desired_dns :: "ip_addr list"

definition read_config :: "('s, 'o) dns_system \<Rightarrow> 's \<Rightarrow> static_error + 'o resolv_config" where
  "read_config sys s =
     (case ds_read sys RESOLV_CONF_PATH s of
        Inl _ \<Rightarrow> Inl (ReadResolvConf RESOLV_CONF_PATH)
      | Inr contents \<Rightarrow>
          (case ds_parse sys contents of
             None \<Rightarrow> Inl (ParseError RESOLV_CONF_PATH)
           | Some config \<Rightarrow> Inr config))"

definition write_file_or :: "string \<Rightarrow> ('s, 'o) dns_system \<Rightarrow> 'o resolv_config \<Rightarrow> 's \<Rightarrow> (static_error + unit) \<times> 's" where
  "write_file_or path sys config s =
     (case ds_write sys path (ds_print sys config) s of
        (ok, s') \<Rightarrow> (if ok then Inr () else Inl (WriteResolvConf path), s'))"

definition write_config :: "('s, 'o) dns_system \<Rightarrow> 'o resolv_config \<Rightarrow> 's \<Rightarrow> (static_error + unit) \<times> 's" where
  "write_config = write_file_or RESOLV_CONF_PATH"

definition write_backup :: "('s, 'o) dns_system \<Rightarrow> 'o resolv_config \<Rightarrow> 's \<Rightarrow> (static_error + unit) \<times> 's" where
  "write_backup = write_file_or RESOLV_CONF_BACKUP_PATH"

definition restore_from_backup :: "('s, 'o) dns_system \<Rightarrow> 's \<Rightarrow> (static_error + unit) \<times> 's" where
  "restore_from_backup sys s =
     (case ds_read sys RESOLV_CONF_BACKUP_PATH s of
        Inr backup \<Rightarrow>
          (case ds_parse sys backup of
             None \<Rightarrow> (Inl (ParseError RESOLV_CONF_BACKUP_PATH), s)
           | Some config \<Rightarrow>
               (case write_config sys config s of
                  (Inl e, s) \<Rightarrow> (Inl e, s)
                | (Inr _, s) \<Rightarrow>
                    (case ds_remove sys RESOLV_CONF_BACKUP_PATH s of
                       (ok, s) \<Rightarrow> (if ok then Inr () else Inl (RemoveBackup RESOLV_CONF_BACKUP_PATH), s))))
      | Inl ReadNotFound \<Rightarrow> (Inr (), s)
      | Inl ReadOther \<Rightarrow> (Inl (ReadResolvConf RESOLV_CONF_BACKUP_PATH), s))"

text \<open>\<open>StaticResolvConf\<close> is its shared state; the watcher thread calls \<open>watcher_update\<close> for every event.\<close>

definition static_new :: "('s, 'o) dns_system \<Rightarrow> 's \<Rightarrow> (static_error + 'o static_state option) \<times> 's" where
  "static_new sys s =
     (case restore_from_backup sys s of
        (Inl e, s) \<Rightarrow> (Inl e, s)
      | (Inr _, s) \<Rightarrow> (if ds_watch sys s then Inr None else Inl WatchResolvConf, s))"

definition desired_config :: "'o static_state \<Rightarrow> 'o resolv_config" where
  "desired_config st = (sc_backup st)\<lparr>rc_nameservers := map scoped_from (sc_desired_dns st)\<rparr>"

definition static_set_dns :: "('s, 'o) dns_system \<Rightarrow> ip_addr list \<Rightarrow> 'o static_state option \<Rightarrow> 's
    \<Rightarrow> (static_error + unit) \<times> 'o static_state option \<times> 's" where
  "static_set_dns sys servers st s =
     (case (case st of
              None \<Rightarrow>
                (case read_config sys s of
                   Inl e \<Rightarrow> (Inl e, s)
                 | Inr backup \<Rightarrow>
                     (case write_backup sys backup s of
                        (Inl e, s) \<Rightarrow> (Inl e, s)
                      | (Inr _, s) \<Rightarrow> (Inr \<lparr>sc_backup = backup, sc_desired_dns = servers\<rparr>, s)))
            | Some previous_state \<Rightarrow>
                (Inr \<lparr>sc_backup = sc_backup previous_state, sc_desired_dns = servers\<rparr>, s)) of
        (Inl e, s) \<Rightarrow> (Inl e, None, s)
      | (Inr new_state, s) \<Rightarrow>
          (case write_config sys (desired_config new_state) s of (r, s) \<Rightarrow> (r, Some new_state, s)))"

definition static_reset :: "('s, 'o) dns_system \<Rightarrow> 'o static_state option \<Rightarrow> 's
    \<Rightarrow> (static_error + unit) \<times> 'o static_state option \<times> 's" where
  "static_reset sys st s =
     (case st of
        None \<Rightarrow> (Inr (), None, s)
      | Some st \<Rightarrow>
          (case write_config sys (sc_backup st) s of
             (Inl e, s) \<Rightarrow> (Inl e, None, s)
           | (Inr _, s) \<Rightarrow> (Inr (), None, snd (ds_remove sys RESOLV_CONF_BACKUP_PATH s))))"

definition watcher_update :: "('s, 'o) dns_system \<Rightarrow> 'o static_state option \<Rightarrow> 's
    \<Rightarrow> (static_error + unit) \<times> 'o static_state option \<times> 's" where
  "watcher_update sys st s =
     (case st of
        None \<Rightarrow> (Inr (), None, s)
      | Some state \<Rightarrow>
          (case read_config sys s of
             Inl e \<Rightarrow> (Inl e, Some state, s)
           | Inr new_config \<Rightarrow>
               (let desired_nameservers = map scoped_from (sc_desired_dns state) in
                if rc_nameservers new_config \<noteq> desired_nameservers then
                  (case write_config sys (new_config\<lparr>rc_nameservers := desired_nameservers\<rparr>) s of
                     (r, s) \<Rightarrow> (r, Some (state\<lparr>sc_backup := new_config\<rparr>), s))
                else
                  (let state = state\<lparr>sc_backup := new_config\<lparr>rc_nameservers := rc_nameservers (sc_backup state)\<rparr>\<rparr>
                   in case write_backup sys (sc_backup state) s of (r, s) \<Rightarrow> (r, Some state, s)))))"

text \<open>The loop of the watcher over its events; errors are logged.\<close>

fun watcher_events :: "('s, 'o) dns_system \<Rightarrow> nat \<Rightarrow> 'o static_state option \<times> 's \<Rightarrow> 'o static_state option \<times> 's" where
  "watcher_events sys 0 c = c"
| "watcher_events sys (Suc n) (st, s) = watcher_events sys n (snd (watcher_update sys st s))"

section \<open>The program resolvconf\<close>

datatype resolvconf_error =
    NoResolvconf | ResolvconfUsesResolved | RunResolvconf | AddRecordError string | DeleteRecordError

record resolvconf =
  rv_record_names :: "string list"
  rv_resolvconf :: string

text \<open>\<open>Path::file_name\<close> for a path whose last component is not \<open>.\<close>; trailing slashes are ignored.\<close>

definition file_name :: "string \<Rightarrow> string option" where
  "file_name p =
     (let name = takeWhile (\<lambda>c. c \<noteq> CHR ''/'') (dropWhile (\<lambda>c. c = CHR ''/'') (rev p))
      in if name = [] \<or> name = ''..'' then None else Some (rev name))"

definition resolvconf_is_resolved_symlink :: "('s, 'o) dns_system \<Rightarrow> string \<Rightarrow> 's \<Rightarrow> bool" where
  "resolvconf_is_resolved_symlink sys path s =
     (case ds_read_link sys path s of Some target \<Rightarrow> file_name target = Some ''resolvectl'' | None \<Rightarrow> False)"

definition resolvconf_new :: "('s, 'o) dns_system \<Rightarrow> 's \<Rightarrow> resolvconf_error + resolvconf" where
  "resolvconf_new sys s =
     (case ds_which sys ''resolvconf'' s of
        None \<Rightarrow> Inl NoResolvconf
      | Some path \<Rightarrow>
          if resolvconf_is_resolved_symlink sys path s then Inl ResolvconfUsesResolved
          else Inr \<lparr>rv_record_names = [], rv_resolvconf = path\<rparr>)"

definition record_contents :: "ip_addr list \<Rightarrow> string" where
  "record_contents servers = concat (map (\<lambda>a. ''nameserver '' @ fmt_ip a @ [CHR 0x0A]) servers)"

definition resolvconf_set_dns :: "('s, 'o) dns_system \<Rightarrow> string \<Rightarrow> ip_addr list \<Rightarrow> resolvconf \<Rightarrow> 's
    \<Rightarrow> (resolvconf_error + unit) \<times> resolvconf \<times> 's" where
  "resolvconf_set_dns sys interface servers rv s =
     (let record_name = interface @ ''.mullvad'' in
      case ds_run sys (rv_resolvconf rv) [''-a'', record_name] (record_contents servers) s of
        (None, s) \<Rightarrow> (Inl RunResolvconf, rv, s)
      | (Some (success, stderr), s) \<Rightarrow>
          if \<not> success then (Inl (AddRecordError stderr), rv, s)
          else (Inr (), rv\<lparr>rv_record_names := List.insert record_name (rv_record_names rv)\<rparr>, s))"

fun delete_records :: "('s, 'o) dns_system \<Rightarrow> string \<Rightarrow> string list \<Rightarrow> resolvconf_error + unit \<Rightarrow> 's
    \<Rightarrow> (resolvconf_error + unit) \<times> 's" where
  "delete_records sys prog [] result s = (result, s)"
| "delete_records sys prog (record_name # names) result s =
     (case ds_run sys prog [''-d'', record_name] [] s of
        (None, s) \<Rightarrow> (Inl RunResolvconf, s)
      | (Some (success, stderr), s) \<Rightarrow>
          delete_records sys prog names (if success then result else Inl DeleteRecordError) s)"

text \<open>The names are drained, so that none is left even if the loop ends early.\<close>

definition resolvconf_reset :: "('s, 'o) dns_system \<Rightarrow> resolvconf \<Rightarrow> 's
    \<Rightarrow> (resolvconf_error + unit) \<times> resolvconf \<times> 's" where
  "resolvconf_reset sys rv s =
     (case delete_records sys (rv_resolvconf rv) (ds_drain sys (rv_record_names rv)) (Inr ()) s of
        (r, s) \<Rightarrow> (r, rv\<lparr>rv_record_names := []\<rparr>, s))"

section \<open>systemd-resolved\<close>

datatype resolved_error =
    ConnectDBus | NotSymlinkedToResolvConf | NoDnsPointsToResolved | NoSystemdResolved
  | ReadResolvConfFailed | ParseResolvConfFailed | InvalidInterfaceName | GetLinkError resolved_error
  | SetDomainsError | RevertDnsError string | DBusRpcError | MatchDBusTypeError

definition RESOLVED_PATHS :: "string list" where
  "RESOLVED_PATHS = [''/run/systemd/resolve/stub-resolv.conf'', ''/run/systemd/resolve/resolv.conf'']"

definition RESOLVED_DNS_SERVER_ADDRESS :: ipv4 where
  "RESOLVED_DNS_SERVER_ADDRESS = ipv4_new 127 0 0 53"

definition RESOLVED_BUS :: string where
  "RESOLVED_BUS = ''org.freedesktop.resolve1''"

definition RESOLVED_RPC_TIMEOUT_MS :: nat where
  "RESOLVED_RPC_TIMEOUT_MS = 1000"

definition LINK_INTERFACE :: string where
  "LINK_INTERFACE = ''org.freedesktop.resolve1.Link''"

definition MANAGER_INTERFACE :: string where
  "MANAGER_INTERFACE = ''org.freedesktop.resolve1.Manager''"

text \<open>The connection has no state; \<open>interface_link\<close> is the link whose DNS was set.\<close>

record systemd_resolved =
  sd_interface_link :: "(string \<times> string) option"

definition manager_call :: "string \<Rightarrow> message_item list \<Rightarrow> dbus_call" where
  "manager_call member items =
     \<lparr>dc_bus = RESOLVED_BUS, dc_path = ''/org/freedesktop/resolve1'', dc_timeout = RESOLVED_RPC_TIMEOUT_MS,
      dc_interface = MANAGER_INTERFACE, dc_member = member, dc_args = items\<rparr>"

definition link_call :: "string \<Rightarrow> string \<Rightarrow> message_item list \<Rightarrow> dbus_call" where
  "link_call link member items =
     \<lparr>dc_bus = RESOLVED_BUS, dc_path = link, dc_timeout = RESOLVED_RPC_TIMEOUT_MS,
      dc_interface = LINK_INTERFACE, dc_member = member, dc_args = items\<rparr>"

definition ensure_resolved_exists :: "('s, 'o) dns_system \<Rightarrow> 's \<Rightarrow> resolved_error + unit" where
  "ensure_resolved_exists sys s =
     (case ds_get sys RESOLVED_BUS ''/org/freedesktop/resolve1'' MANAGER_INTERFACE ''DNS'' s of
        Inl _ \<Rightarrow> Inl NoSystemdResolved
      | Inr _ \<Rightarrow> Inr ())"

definition compare_resolvconf_symlink :: "('s, 'o) dns_system \<Rightarrow> string \<Rightarrow> 's \<Rightarrow> bool" where
  "compare_resolvconf_symlink sys link_path s =
     (if \<not> starts_with link_path ''/'' then
        (case ds_canonicalize sys (''/etc/'' @ link_path) s of
           Some link_destination \<Rightarrow> link_destination \<in> set RESOLVED_PATHS
         | None \<Rightarrow> False)
      else link_path \<in> set RESOLVED_PATHS)"

definition ensure_resolv_conf_is_resolved_symlink :: "('s, 'o) dns_system \<Rightarrow> 's \<Rightarrow> resolved_error + unit" where
  "ensure_resolv_conf_is_resolved_symlink sys s =
     (if (case ds_read_link sys RESOLV_CONF_PATH s of
            Some target \<Rightarrow> compare_resolvconf_symlink sys target s
          | None \<Rightarrow> False)
      then Inr () else Inl NotSymlinkedToResolvConf)"

definition ensure_resolv_conf_has_resolved_dns :: "('s, 'o) dns_system \<Rightarrow> 's \<Rightarrow> resolved_error + unit" where
  "ensure_resolv_conf_has_resolved_dns sys s =
     (case ds_read sys RESOLV_CONF_PATH s of
        Inl _ \<Rightarrow> Inl ReadResolvConfFailed
      | Inr contents \<Rightarrow>
          (case ds_parse sys contents of
             None \<Rightarrow> Inl ParseResolvConfFailed
           | Some config \<Rightarrow>
               if ScopedV4 RESOLVED_DNS_SERVER_ADDRESS \<in> set (rc_nameservers config) then Inr ()
               else Inl NoDnsPointsToResolved))"

definition resolved_new :: "('s, 'o) dns_system \<Rightarrow> 's \<Rightarrow> resolved_error + systemd_resolved" where
  "resolved_new sys s =
     (if \<not> ds_connect sys s then Inl ConnectDBus
      else
        (case ensure_resolved_exists sys s of
           Inl e \<Rightarrow> Inl e
         | Inr _ \<Rightarrow>
             (case ensure_resolv_conf_is_resolved_symlink sys s of
                Inl e \<Rightarrow> Inl e
              | Inr _ \<Rightarrow>
                  (case ensure_resolv_conf_has_resolved_dns sys s of
                     Inl e \<Rightarrow> Inl e
                   | Inr _ \<Rightarrow> Inr \<lparr>sd_interface_link = None\<rparr>))))"

definition fetch_link :: "('s, 'o) dns_system \<Rightarrow> string \<Rightarrow> 's \<Rightarrow> (resolved_error + string) \<times> 's" where
  "fetch_link sys interface_name s =
     (case ds_iface_index sys interface_name s of
        None \<Rightarrow> (Inl InvalidInterfaceName, s)
      | Some interface_index \<Rightarrow>
          (case ds_call sys (manager_call ''GetLink'' [MiInt32 interface_index]) s of
             (Inr (Inr (MiPath p # _)), s) \<Rightarrow> (Inr p, s)
           | (Inr (Inr _), s) \<Rightarrow> (Inl MatchDBusTypeError, s)
           | (_, s) \<Rightarrow> (Inl DBusRpcError, s)))"

text \<open>\<open>octets\<close> of an address, most significant first.\<close>

definition ipv4_bytes :: "ipv4 \<Rightarrow> u8 list" where
  "ipv4_bytes a = map (\<lambda>i. ucast (drop_bit (8 * i) a)) (rev [0..<4])"

definition ipv6_bytes :: "ipv6 \<Rightarrow> u8 list" where
  "ipv6_bytes a = map (\<lambda>i. ucast (drop_bit (8 * i) a)) (rev [0..<16])"

definition bytes_to_message_item_array :: "u8 list \<Rightarrow> message_item" where
  "bytes_to_message_item_array bytes = MiArray (map MiByte bytes)"

definition ip_address_to_message_item :: "ip_addr \<Rightarrow> message_item" where
  "ip_address_to_message_item a =
     (let (protocol, octets) =
        (case a of
           V4 ipv4_address \<Rightarrow> (AF_INET, bytes_to_message_item_array (ipv4_bytes ipv4_address))
         | V6 ipv6_address \<Rightarrow> (AF_INET6, bytes_to_message_item_array (ipv6_bytes ipv6_address)))
      in MiStruct [MiInt32 (of_nat protocol), octets])"

definition build_addresses_argument :: "ip_addr list \<Rightarrow> message_item" where
  "build_addresses_argument addresses = MiArray (map ip_address_to_message_item addresses)"

text \<open>The search domain that catches all requests.\<close>

definition dns_domains :: message_item where
  "dns_domains = MiArray [MiStruct [MiStr ''.'', MiBool True]]"

definition set_link_dns :: "('s, 'o) dns_system \<Rightarrow> string \<Rightarrow> ip_addr list \<Rightarrow> 's \<Rightarrow> (resolved_error + unit) \<times> 's" where
  "set_link_dns sys link servers s =
     (case ds_call sys (link_call link ''SetDNS'' [build_addresses_argument servers]) s of
        (Inr (Inr _), s) \<Rightarrow>
          (case ds_call sys (link_call link ''SetDomains'' [dns_domains]) s of
             (Inr (Inr _), s) \<Rightarrow> (Inr (), s)
           | (_, s) \<Rightarrow> (Inl SetDomainsError, s))
      | (_, s) \<Rightarrow> (Inl DBusRpcError, s))"

definition revert_link :: "('s, 'o) dns_system \<Rightarrow> string \<Rightarrow> 's \<Rightarrow> (dbus_error + unit) \<times> 's" where
  "revert_link sys link s =
     (case ds_call sys (link_call link ''Revert'' []) s of
        (Inr reply, s) \<Rightarrow> (case reply of Inr _ \<Rightarrow> Inr () | Inl e \<Rightarrow> Inl e, s)
      | (Inl e, s) \<Rightarrow> (if e = Some ''org.freedesktop.DBus.Error.UnknownObject'' then Inr () else Inl e, s))"

definition resolved_reset :: "('s, 'o) dns_system \<Rightarrow> systemd_resolved \<Rightarrow> 's
    \<Rightarrow> (resolved_error + unit) \<times> systemd_resolved \<times> 's" where
  "resolved_reset sys sd s =
     (case sd_interface_link sd of
        Some (interface_name, link) \<Rightarrow>
          (case revert_link sys link s of
             (r, s) \<Rightarrow> (map_sum (\<lambda>_. RevertDnsError interface_name) id r, sd\<lparr>sd_interface_link := None\<rparr>, s))
      | None \<Rightarrow> (Inr (), sd, s))"

definition resolved_set_dns :: "('s, 'o) dns_system \<Rightarrow> string \<Rightarrow> ip_addr list \<Rightarrow> systemd_resolved \<Rightarrow> 's
    \<Rightarrow> (resolved_error + unit) \<times> systemd_resolved \<times> 's" where
  "resolved_set_dns sys interface_name servers sd s =
     (case fetch_link sys interface_name s of
        (Inl e, s) \<Rightarrow> (Inl (GetLinkError e), sd, s)
      | (Inr link, s) \<Rightarrow>
          (case resolved_reset sys sd s of
             (_, sd, s) \<Rightarrow>
               (case set_link_dns sys link servers s of
                  (Inl e, s) \<Rightarrow> (Inl e, sd, s)
                | (Inr _, s) \<Rightarrow> (Inr (), sd\<lparr>sd_interface_link := Some (interface_name, link)\<rparr>, s))))"

section \<open>NetworkManager\<close>

datatype nm_error =
    NetworkManagerNotDetected | TooOldNetworkManager | NetworkManagerNotManagingDns | DbusFailure
  | SystemdResolvedManages

definition NM_BUS :: string where "NM_BUS = ''org.freedesktop.NetworkManager''"
definition NM_TOP_OBJECT :: string where "NM_TOP_OBJECT = ''org.freedesktop.NetworkManager''"
definition NM_DNS_MANAGER :: string where "NM_DNS_MANAGER = ''org.freedesktop.NetworkManager.DnsManager''"
definition NM_DNS_MANAGER_PATH :: string where
  "NM_DNS_MANAGER_PATH = ''/org/freedesktop/NetworkManager/DnsManager''"
definition NM_OBJECT_PATH :: string where "NM_OBJECT_PATH = ''/org/freedesktop/NetworkManager''"
definition GLOBAL_DNS_CONF_KEY :: string where "GLOBAL_DNS_CONF_KEY = ''GlobalDnsConfiguration''"
definition RC_MANAGEMENT_MODE_KEY :: string where "RC_MANAGEMENT_MODE_KEY = ''RcManager''"
definition DNS_MODE_KEY :: string where "DNS_MODE_KEY = ''Mode''"

text \<open>Two files are compared line by line, as far as the shorter one goes.\<close>

definition eq_file_content :: "('s, 'o) dns_system \<Rightarrow> string \<Rightarrow> string \<Rightarrow> 's \<Rightarrow> bool" where
  "eq_file_content sys a b s =
     (case ds_file_lines sys a s of
        None \<Rightarrow> False
      | Some lines_a \<Rightarrow>
          (case ds_file_lines sys b s of
             None \<Rightarrow> False
           | Some lines_b \<Rightarrow>
               list_all (\<lambda>(x, y). case (x, y) of (Inr l, Inr m) \<Rightarrow> l = m | _ \<Rightarrow> False) (zip lines_a lines_b)))"

text \<open>A property that must be a string.\<close>

definition get_string :: "('s, 'o) dns_system \<Rightarrow> string \<Rightarrow> 's \<Rightarrow> string option" where
  "get_string sys key s =
     (case ds_get sys NM_BUS NM_DNS_MANAGER_PATH NM_DNS_MANAGER key s of
        Inr (MiStr v) \<Rightarrow> Some v
      | _ \<Rightarrow> None)"

definition ensure_network_manager_exists :: "('s, 'o) dns_system \<Rightarrow> 's \<Rightarrow> nm_error + unit" where
  "ensure_network_manager_exists sys s =
     (case ds_get sys NM_BUS NM_OBJECT_PATH NM_TOP_OBJECT GLOBAL_DNS_CONF_KEY s of
        Inl _ \<Rightarrow> Inl NetworkManagerNotDetected
      | Inr _ \<Rightarrow> Inr ())"

definition ensure_resolv_conf_is_managed :: "('s, 'o) dns_system \<Rightarrow> 's \<Rightarrow> nm_error + unit" where
  "ensure_resolv_conf_is_managed sys s =
     (case get_string sys RC_MANAGEMENT_MODE_KEY s of
        None \<Rightarrow> Inl TooOldNetworkManager
      | Some management_mode \<Rightarrow>
          if management_mode = ''unmanaged'' then Inl NetworkManagerNotManagingDns
          else
            (case get_string sys DNS_MODE_KEY s of
               None \<Rightarrow> Inl DbusFailure
             | Some dns_mode \<Rightarrow>
                 if dns_mode = ''systemd-resolved'' then Inl SystemdResolvedManages
                 else if dns_mode = ''none'' then Inl NetworkManagerNotManagingDns
                 else if \<not> eq_file_content sys ''/var/run/NetworkManager/resolv.conf'' ''/etc/resolv.conf'' s
                 then Inl NetworkManagerNotManagingDns
                 else Inr ()))"

definition nm_new :: "('s, 'o) dns_system \<Rightarrow> 's \<Rightarrow> nm_error + unit" where
  "nm_new sys s =
     (if \<not> ds_connect sys s then Inl DbusFailure
      else (case ensure_resolv_conf_is_managed sys s of
              Inl e \<Rightarrow> Inl e
            | Inr _ \<Rightarrow> ensure_network_manager_exists sys s))"

text \<open>A \<open>HashMap\<close> on the bus is a dictionary; its entries have no order.\<close>

definition create_global_settings :: "ip_addr list \<Rightarrow> message_item" where
  "create_global_settings server_list =
     (let dns_server_list = MiArray (map (MiStr \<circ> fmt_ip) server_list);
          specific_domain_config = MiDict [(''servers'', dns_server_list)];
          domain_settings = MiDict [(''*'', specific_domain_config)]
      in MiDict [(''domains'', domain_settings), (''searches'', MiArray []), (''options'', MiArray [])])"

definition create_empty_global_settings :: message_item where
  "create_empty_global_settings = MiDict []"

definition set_global_dns :: "('s, 'o) dns_system \<Rightarrow> message_item \<Rightarrow> 's \<Rightarrow> (nm_error + unit) \<times> 's" where
  "set_global_dns sys config s =
     apfst (map_sum (\<lambda>_. DbusFailure) id) (ds_set sys NM_BUS NM_OBJECT_PATH NM_TOP_OBJECT GLOBAL_DNS_CONF_KEY config s)"

definition nm_set_dns :: "('s, 'o) dns_system \<Rightarrow> ip_addr list \<Rightarrow> 's \<Rightarrow> (nm_error + unit) \<times> 's" where
  "nm_set_dns sys servers s = set_global_dns sys (create_global_settings servers) s"

definition nm_reset :: "('s, 'o) dns_system \<Rightarrow> 's \<Rightarrow> (nm_error + unit) \<times> 's" where
  "nm_reset sys s = set_global_dns sys create_empty_global_settings s"

section \<open>Choosing a backend\<close>

datatype linux_dns_error =
    SystemdResolvedError resolved_error | NetworkManagerError nm_error | ResolvconfError resolvconf_error
  | StaticResolvConfError static_error | NoDnsMonitor

datatype 'o dns_monitor_holder =
    HolderSystemdResolved systemd_resolved
  | HolderNetworkManager
  | HolderResolvconf resolvconf
  | HolderStaticResolvConf "'o static_state option"

text \<open>Only the backend for a static file changes the system when it is created.\<close>

definition with_detected_dns_manager :: "('s, 'o) dns_system \<Rightarrow> 's
    \<Rightarrow> (linux_dns_error + 'o dns_monitor_holder) \<times> 's" where
  "with_detected_dns_manager sys s =
     (case resolved_new sys s of
        Inr sd \<Rightarrow> (Inr (HolderSystemdResolved sd), s)
      | Inl _ \<Rightarrow>
          (case nm_new sys s of
             Inr _ \<Rightarrow> (Inr HolderNetworkManager, s)
           | Inl _ \<Rightarrow>
               (case resolvconf_new sys s of
                  Inr rv \<Rightarrow> (Inr (HolderResolvconf rv), s)
                | Inl _ \<Rightarrow>
                    (case static_new sys s of
                       (Inr st, s) \<Rightarrow> (Inr (HolderStaticResolvConf st), s)
                     | (Inl _, s) \<Rightarrow> (Inl NoDnsMonitor, s)))))"

definition holder_new :: "('s, 'o) dns_system \<Rightarrow> 's \<Rightarrow> (linux_dns_error + 'o dns_monitor_holder) \<times> 's" where
  "holder_new sys s =
     (case ds_env sys s of
        None \<Rightarrow> with_detected_dns_manager sys s
      | Some m \<Rightarrow>
          if m = ''static-file'' then apfst (map_sum StaticResolvConfError HolderStaticResolvConf) (static_new sys s)
          else if m = ''resolvconf'' then (map_sum ResolvconfError HolderResolvconf (resolvconf_new sys s), s)
          else if m = ''systemd'' then (map_sum SystemdResolvedError HolderSystemdResolved (resolved_new sys s), s)
          else if m = ''network-manager'' then (map_sum NetworkManagerError (\<lambda>_. HolderNetworkManager) (nm_new sys s), s)
          else with_detected_dns_manager sys s)"

fun holder_set :: "('s, 'o) dns_system \<Rightarrow> string \<Rightarrow> ip_addr list \<Rightarrow> 'o dns_monitor_holder \<Rightarrow> 's
    \<Rightarrow> (linux_dns_error + unit) \<times> 'o dns_monitor_holder \<times> 's" where
  "holder_set sys interface servers (HolderResolvconf rv) s =
     (case resolvconf_set_dns sys interface servers rv s of
        (r, rv, s) \<Rightarrow> (map_sum ResolvconfError id r, HolderResolvconf rv, s))"
| "holder_set sys interface servers (HolderStaticResolvConf st) s =
     (case static_set_dns sys servers st s of
        (r, st, s) \<Rightarrow> (map_sum StaticResolvConfError id r, HolderStaticResolvConf st, s))"
| "holder_set sys interface servers (HolderSystemdResolved sd) s =
     (case resolved_set_dns sys interface servers sd s of
        (r, sd, s) \<Rightarrow> (map_sum SystemdResolvedError id r, HolderSystemdResolved sd, s))"
| "holder_set sys interface servers HolderNetworkManager s =
     (case nm_set_dns sys servers s of (r, s) \<Rightarrow> (map_sum NetworkManagerError id r, HolderNetworkManager, s))"

fun holder_reset :: "('s, 'o) dns_system \<Rightarrow> 'o dns_monitor_holder \<Rightarrow> 's \<Rightarrow> (linux_dns_error + unit) \<times> 's" where
  "holder_reset sys (HolderResolvconf rv) s =
     (case resolvconf_reset sys rv s of (r, _, s) \<Rightarrow> (map_sum ResolvconfError id r, s))"
| "holder_reset sys (HolderStaticResolvConf st) s =
     (case static_reset sys st s of (r, _, s) \<Rightarrow> (map_sum StaticResolvConfError id r, s))"
| "holder_reset sys (HolderSystemdResolved sd) s =
     (case resolved_reset sys sd s of (r, _, s) \<Rightarrow> (map_sum SystemdResolvedError id r, s))"
| "holder_reset sys HolderNetworkManager s =
     (case nm_reset sys s of (r, s) \<Rightarrow> (map_sum NetworkManagerError id r, s))"

section \<open>The monitor\<close>

text \<open>\<open>DnsMonitor\<close> of Linux: the backend in use, if any.  A backend that was taken out is dropped.\<close>

record 'o linux_dns_monitor =
  lm_inner :: "'o dns_monitor_holder option"

definition linux_dns_new :: "'o linux_dns_monitor" where
  "linux_dns_new = \<lparr>lm_inner = None\<rparr>"

definition linux_dns_reset :: "('s, 'o) dns_system \<Rightarrow> 'o linux_dns_monitor \<Rightarrow> 's
    \<Rightarrow> (linux_dns_error + unit) \<times> 'o linux_dns_monitor \<times> 's" where
  "linux_dns_reset sys m s =
     (case lm_inner m of
        None \<Rightarrow> (Inr (), m, s)
      | Some inner \<Rightarrow> (case holder_reset sys inner s of (r, s) \<Rightarrow> (r, m\<lparr>lm_inner := None\<rparr>, s)))"

definition linux_dns_set :: "('s, 'o) dns_system \<Rightarrow> string \<Rightarrow> ip_addr list \<Rightarrow> 'o linux_dns_monitor \<Rightarrow> 's
    \<Rightarrow> (linux_dns_error + unit) \<times> 'o linux_dns_monitor \<times> 's" where
  "linux_dns_set sys interface servers m s =
     (case linux_dns_reset sys m s of
        (Inl e, m, s) \<Rightarrow> (Inl e, m, s)
      | (Inr _, m, s) \<Rightarrow>
          (case holder_new sys s of
             (Inl e, s) \<Rightarrow> (Inl e, m, s)
           | (Inr inner, s) \<Rightarrow>
               (case holder_set sys interface servers inner s of
                  (Inl e, _, s) \<Rightarrow> (Inl e, m, s)
                | (Inr _, inner, s) \<Rightarrow> (Inr (), m\<lparr>lm_inner := Some inner\<rparr>, s))))"

end
