(* ===== verification/Dns_Linux_Props.thy ===== *)
theory Dns_Linux_Props
  imports Dns_Linux Tunnel_State_Machine_Props
begin

text \<open>
  Properties of the Linux DNS monitor.  The locale \<open>conf_files\<close> states what files and the crate
  \<open>resolv_conf\<close> promise, \<open>dns_services\<close> adds the program \<open>resolvconf\<close> and the two services on the bus; both
  are interpreted by the reference system at the end.
\<close>

section \<open>Addresses as bytes\<close>

lemma bytes_to_nat_Cons: "bytes_to_nat (b # bs) = unat b * 256 ^ length bs + bytes_to_nat bs"
proof -
  have "foldl (\<lambda>n b. n * 256 + unat b) n bs = n * 256 ^ length bs + foldl (\<lambda>n b. n * 256 + unat b) 0 bs"
    for n and bs :: "u8 list"
  proof (induction bs arbitrary: n)
    case (Cons b bs)
    show ?case using Cons [of "n * 256 + unat b"] Cons [of "unat b"] by (simp add: algebra_simps)
  qed simp
  from this [of "unat b" bs] show ?thesis by (simp add: bytes_to_nat_def)
qed

lemma bytes_of_word:
  "bytes_to_nat (map (\<lambda>i. ucast (drop_bit (8 * i) a) :: u8) (rev [0..<n])) = unat (a :: 'a::len word) mod 256 ^ n"
proof (induction n)
  case 0
  show ?case by (simp add: bytes_to_nat_def)
next
  case (Suc n)
  have "unat (ucast (drop_bit (8 * n) a) :: u8) = unat a div 256 ^ n mod 256"
    by (simp add: unsigned_ucast_eq take_bit_eq_mod unat_drop_bit_eq drop_bit_eq_div [of _ "unat a"] power_mult)
  moreover have "unat a mod 256 ^ Suc n = 256 ^ n * (unat a div 256 ^ n mod 256) + unat a mod 256 ^ n"
    by (metis mod_mult2_eq mult.commute power_Suc)
  ultimately show ?case using Suc by (simp add: bytes_to_nat_Cons mult.commute)
qed

lemma unat_bound: "unat (a :: 'a::len word) < 2 ^ LENGTH('a)"
  by (rule unsigned_less)

lemma ipv4_bytes_back: "V4 (of_nat (bytes_to_nat (ipv4_bytes a))) = V4 a" "length (ipv4_bytes a) = 4"
  using bytes_of_word [of a 4] unat_bound [of a] by (simp_all add: ipv4_bytes_def)

lemma ipv6_bytes_back: "V6 (of_nat (bytes_to_nat (ipv6_bytes a))) = V6 a" "length (ipv6_bytes a) = 16"
  using bytes_of_word [of a 16] unat_bound [of a] by (simp_all add: ipv6_bytes_def)

text \<open>What a service reads from the argument of \<open>SetDNS\<close>.\<close>

fun item_byte :: "message_item \<Rightarrow> u8" where
  "item_byte (MiByte b) = b"
| "item_byte _ = 0"

fun item_address :: "message_item \<Rightarrow> ip_addr option" where
  "item_address (MiStruct [MiInt32 family, MiArray bytes]) =
     (case listener_parse_ip (map item_byte bytes) of
        Inr a \<Rightarrow> if unat family = (if is_ipv4 a then AF_INET else AF_INET6) then Some a else None
      | Inl _ \<Rightarrow> None)"
| "item_address _ = None"

fun item_addresses :: "message_item \<Rightarrow> ip_addr option list" where
  "item_addresses (MiArray items) = map item_address items"
| "item_addresses _ = []"

lemma item_address_back: "item_address (ip_address_to_message_item a) = Some a"
  by (cases a) (simp_all add: ip_address_to_message_item_def bytes_to_message_item_array_def
      listener_parse_ip_def ipv4_bytes_back [simplified] ipv6_bytes_back [simplified] comp_def AF_INET_def AF_INET6_def)

lemma item_addresses_back: "item_addresses (build_addresses_argument servers) = map Some servers"
  by (simp add: build_addresses_argument_def item_address_back)

section \<open>Files\<close>

text \<open>A configuration is unchanged by printing and parsing, and a file holds a configuration.\<close>

definition prints :: "('s, 'o) dns_system \<Rightarrow> 'o resolv_config \<Rightarrow> bool" where
  "prints sys c \<longleftrightarrow> ds_parse sys (ds_print sys c) = Some c"

definition holds :: "('s, 'o) dns_system \<Rightarrow> string \<Rightarrow> 'o resolv_config \<Rightarrow> 's \<Rightarrow> bool" where
  "holds sys p c s \<longleftrightarrow> (\<exists>t. ds_read sys p s = Inr t \<and> ds_parse sys t = Some c)"

definition reliable_files :: "('s, 'o) dns_system \<Rightarrow> bool" where
  "reliable_files sys \<longleftrightarrow> (\<forall>p t s. fst (ds_write sys p t s)) \<and> (\<forall>p s. fst (ds_remove sys p s))"

lemma holds_unique: "holds sys p c s \<Longrightarrow> holds sys p d s \<Longrightarrow> c = d"
  by (auto simp: holds_def)

lemma holds_read: "ds_read sys p s' = ds_read sys p s \<Longrightarrow> holds sys p c s' \<longleftrightarrow> holds sys p c s"
  by (simp add: holds_def)

lemma paths_differ [simp]:
  "RESOLV_CONF_PATH \<noteq> RESOLV_CONF_BACKUP_PATH" "RESOLV_CONF_BACKUP_PATH \<noteq> RESOLV_CONF_PATH"
  by (simp_all add: RESOLV_CONF_PATH_def RESOLV_CONF_BACKUP_PATH_def)

text \<open>
  What others mean when they write \<open>e\<close> to the file while \<open>servers\<close> are enforced and the configuration they
  had before is \<open>u\<close>: if the file still names \<open>servers\<close>, they changed the other settings only.
\<close>

definition edited :: "ip_addr list \<Rightarrow> 'o resolv_config \<Rightarrow> 'o resolv_config \<Rightarrow> 'o resolv_config" where
  "edited servers u e =
     (if rc_nameservers e = map scoped_from servers then e\<lparr>rc_nameservers := rc_nameservers u\<rparr> else e)"

text \<open>Others write the file, and after each time the watcher handles at least two events before the next.\<close>

inductive watched :: "('s, 'o) dns_system \<Rightarrow> 'o static_state option \<times> 's \<Rightarrow> 'o resolv_config list
    \<Rightarrow> 'o static_state option \<times> 's \<Rightarrow> bool" for sys c where
  watched_none: "watched sys c [] c"
| watched_edit: "watched sys c es (st, s) \<Longrightarrow> holds sys RESOLV_CONF_PATH e s' \<Longrightarrow>
    ds_read sys RESOLV_CONF_BACKUP_PATH s' = ds_read sys RESOLV_CONF_BACKUP_PATH s \<Longrightarrow> 2 \<le> n \<Longrightarrow>
    watched sys c (es @ [e]) (watcher_events sys n (st, s'))"

locale conf_files =
  fixes sys :: "('s, 'o) dns_system"
  assumes parsed_prints: "ds_parse sys t = Some c \<Longrightarrow> prints sys c"
    and mixed_prints: "prints sys c \<Longrightarrow> prints sys d \<Longrightarrow> prints sys (c\<lparr>rc_nameservers := rc_nameservers d\<rparr>)"
    and servers_print: "prints sys c \<Longrightarrow> prints sys (c\<lparr>rc_nameservers := map scoped_from servers\<rparr>)"
    and write_ok: "ds_write sys p t s = (True, s') \<Longrightarrow> ds_read sys p s' = Inr t"
    and write_other: "ds_write sys p t s = (ok, s') \<Longrightarrow> q \<noteq> p \<Longrightarrow> ds_read sys q s' = ds_read sys q s"
    and remove_ok: "ds_remove sys p s = (True, s') \<Longrightarrow> ds_read sys p s' = Inl ReadNotFound"
    and remove_failed: "ds_remove sys p s = (False, s') \<Longrightarrow> ds_read sys p s' = ds_read sys p s"
    and remove_other: "ds_remove sys p s = (ok, s') \<Longrightarrow> q \<noteq> p \<Longrightarrow> ds_read sys q s' = ds_read sys q s"
begin

lemma holds_prints: "holds sys p c s \<Longrightarrow> prints sys c"
  by (auto simp: holds_def intro: parsed_prints)

lemma read_config_holds: "holds sys RESOLV_CONF_PATH c s \<Longrightarrow> read_config sys s = Inr c"
  by (auto simp: holds_def read_config_def)

lemma read_config_Inr: "read_config sys s = Inr c \<Longrightarrow> holds sys RESOLV_CONF_PATH c s"
  by (simp add: holds_def read_config_def split: sum.splits option.splits)

lemma write_to_cases:
  assumes "write_file_or p sys c s = (r, s')" and "prints sys c"
  shows "if is_ok r then holds sys p c s' else r = Inl (WriteResolvConf p)"
    and "q \<noteq> p \<Longrightarrow> ds_read sys q s' = ds_read sys q s"
  using assms write_ok [of p] write_other [of p]
  by (auto simp: write_file_or_def holds_def prints_def split: prod.splits if_splits)

lemma write_to_reliable:
  assumes "reliable_files sys" "prints sys c"
  obtains s' where "write_file_or p sys c s = (Inr (), s')" "holds sys p c s'"
    "\<And>q. q \<noteq> p \<Longrightarrow> ds_read sys q s' = ds_read sys q s"
proof -
  obtain r s' where w: "write_file_or p sys c s = (r, s')" by fastforce
  moreover have "r = Inr ()"
    using assms(1) w by (auto simp: write_file_or_def reliable_files_def split: prod.splits) (metis fst_conv)
  ultimately show thesis
    using that [of s'] write_to_cases [OF w assms(2)] by simp
qed

text \<open>The watcher settles after two events.\<close>

lemma settled_update:
  assumes "reliable_files sys" "prints sys (sc_backup st)" "holds sys RESOLV_CONF_PATH c s"
    "rc_nameservers c = map scoped_from (sc_desired_dns st)"
  shows "\<exists>s'. watcher_update sys (Some st) s =
      (Inr (), Some (st\<lparr>sc_backup := c\<lparr>rc_nameservers := rc_nameservers (sc_backup st)\<rparr>\<rparr>), s') \<and>
    holds sys RESOLV_CONF_PATH c s' \<and>
    holds sys RESOLV_CONF_BACKUP_PATH (c\<lparr>rc_nameservers := rc_nameservers (sc_backup st)\<rparr>) s'"
proof -
  let ?b = "c\<lparr>rc_nameservers := rc_nameservers (sc_backup st)\<rparr>"
  have "prints sys ?b" by (rule mixed_prints [OF holds_prints [OF assms(3)] assms(2)])
  then obtain s' where w: "write_file_or RESOLV_CONF_BACKUP_PATH sys ?b s = (Inr (), s')"
      "holds sys RESOLV_CONF_BACKUP_PATH ?b s'"
      "\<And>q. q \<noteq> RESOLV_CONF_BACKUP_PATH \<Longrightarrow> ds_read sys q s' = ds_read sys q s"
    by (rule write_to_reliable [OF assms(1), of _ _ s]) blast
  then have "holds sys RESOLV_CONF_PATH c s'" using assms(3) by (simp add: holds_def)
  then show ?thesis
    using w(1,2) assms(4) by (simp add: watcher_update_def read_config_holds [OF assms(3)] write_backup_def)
qed

lemma unsettled_update:
  assumes "reliable_files sys" "holds sys RESOLV_CONF_PATH c s"
    "rc_nameservers c \<noteq> map scoped_from (sc_desired_dns st)"
  shows "\<exists>s'. watcher_update sys (Some st) s = (Inr (), Some (st\<lparr>sc_backup := c\<rparr>), s') \<and>
    holds sys RESOLV_CONF_PATH (c\<lparr>rc_nameservers := map scoped_from (sc_desired_dns st)\<rparr>) s'"
proof -
  let ?c = "c\<lparr>rc_nameservers := map scoped_from (sc_desired_dns st)\<rparr>"
  have "prints sys ?c" by (rule servers_print [OF holds_prints [OF assms(2)]])
  then obtain s' where "write_file_or RESOLV_CONF_PATH sys ?c s = (Inr (), s')" "holds sys RESOLV_CONF_PATH ?c s'"
    by (rule write_to_reliable [OF assms(1), of _ _ s]) blast
  then show ?thesis
    using assms(3) by (auto simp: watcher_update_def read_config_holds [OF assms(2)] write_config_def)
qed

definition settled :: "ip_addr list \<Rightarrow> 'o resolv_config \<Rightarrow> 'o static_state option \<times> 's \<Rightarrow> bool" where
  "settled servers u = (\<lambda>(st, s). st = Some \<lparr>sc_backup = u, sc_desired_dns = servers\<rparr> \<and> prints sys u \<and>
     holds sys RESOLV_CONF_PATH (u\<lparr>rc_nameservers := map scoped_from servers\<rparr>) s \<and>
     holds sys RESOLV_CONF_BACKUP_PATH u s)"

lemma settled_stays:
  assumes "reliable_files sys" "settled servers u c"
  shows "settled servers u (watcher_events sys n c)"
  using assms(2)
proof (induction n arbitrary: c)
  case (Suc n)
  obtain st s where c: "c = (st, s)" by fastforce
  let ?st = "\<lparr>sc_backup = u, sc_desired_dns = servers\<rparr>"
  have st: "st = Some ?st" using Suc.prems by (simp add: c settled_def)
  obtain s' where "watcher_update sys (Some ?st) s = (Inr (), Some ?st, s')" "settled servers u (Some ?st, s')"
    using settled_update [OF assms(1), of ?st "u\<lparr>rc_nameservers := map scoped_from servers\<rparr>" s] Suc.prems
    by (auto simp: c settled_def)
  then show ?case using Suc.IH by (simp add: c st)
qed simp

lemma settles:
  assumes rel: "reliable_files sys" and "prints sys u" and e: "holds sys RESOLV_CONF_PATH e s" and "2 \<le> n"
  shows "settled servers (edited servers u e)
    (watcher_events sys n (Some \<lparr>sc_backup = u, sc_desired_dns = servers\<rparr>, s))"
proof -
  let ?st = "\<lparr>sc_backup = u, sc_desired_dns = servers\<rparr>"
  let ?e = "e\<lparr>rc_nameservers := map scoped_from servers\<rparr>"
  obtain m where n: "n = Suc (Suc m)" using le_Suc_ex [OF assms(4)] by auto
  have pe: "prints sys e" using e by (rule holds_prints)
  show ?thesis
  proof (cases "rc_nameservers e = map scoped_from servers")
    case True
    then have "e\<lparr>rc_nameservers := rc_nameservers u\<rparr>\<lparr>rc_nameservers := map scoped_from servers\<rparr> = e" by (cases e) simp
    then obtain s' where s': "watcher_update sys (Some ?st) s = (Inr (), Some (?st\<lparr>sc_backup := edited servers u e\<rparr>), s')"
        "settled servers (edited servers u e) (Some (?st\<lparr>sc_backup := edited servers u e\<rparr>), s')"
      using settled_update [OF rel, of ?st e s] assms(2) e True mixed_prints [OF pe assms(2)]
      by (auto simp: edited_def settled_def)
    then show ?thesis
      using settled_stays [OF rel s'(2), of "Suc m"] by (simp add: n)
  next
    case False
    then obtain s1 where s1: "watcher_update sys (Some ?st) s = (Inr (), Some (?st\<lparr>sc_backup := e\<rparr>), s1)"
        "holds sys RESOLV_CONF_PATH ?e s1"
      using unsettled_update [OF rel e, of ?st] by auto
    then obtain s2 where s2: "watcher_update sys (Some (?st\<lparr>sc_backup := e\<rparr>)) s1 = (Inr (), Some (?st\<lparr>sc_backup := e\<rparr>), s2)"
        "holds sys RESOLV_CONF_PATH ?e s2" "holds sys RESOLV_CONF_BACKUP_PATH e s2"
      using settled_update [OF rel, of "?st\<lparr>sc_backup := e\<rparr>" ?e s1] pe by auto
    then have "settled servers (edited servers u e) (Some (?st\<lparr>sc_backup := e\<rparr>), s2)"
      using False pe by (simp add: settled_def edited_def)
    from settled_stays [OF rel this, of m] show ?thesis using s1(1) s2(1) by (simp add: n)
  qed
qed

lemma static_set_settled:
  assumes "static_set_dns sys servers None s = (Inr (), st, s')" and u: "holds sys RESOLV_CONF_PATH u s"
  shows "settled servers u (st, s')"
proof -
  have pu: "prints sys u" using u by (rule holds_prints)
  obtain s1 where s1: "write_file_or RESOLV_CONF_BACKUP_PATH sys u s = (Inr (), s1)"
      "write_file_or RESOLV_CONF_PATH sys (u\<lparr>rc_nameservers := map scoped_from servers\<rparr>) s1 = (Inr (), s')"
      "st = Some \<lparr>sc_backup = u, sc_desired_dns = servers\<rparr>"
    using assms(1) by (auto simp: static_set_dns_def read_config_holds [OF u] write_backup_def write_config_def
        desired_config_def split: prod.splits sum.splits)
  then show ?thesis
    using write_to_cases [OF s1(1) pu] write_to_cases [OF s1(2) servers_print [OF pu]] pu
    by (simp add: settled_def holds_def)
qed

lemma watched_settled:
  assumes "reliable_files sys" and "watched sys c es c'" and "settled servers u c"
  shows "settled servers (foldl (edited servers) u es) c'"
  using assms(2)
proof induction
  case watched_none
  show ?case using assms(3) by simp
next
  case (watched_edit es st s e s' n)
  then have "st = Some \<lparr>sc_backup = foldl (edited servers) u es, sc_desired_dns = servers\<rparr>"
      "prints sys (foldl (edited servers) u es)"
    by (simp_all add: settled_def)
  with settles [OF assms(1) this(2) watched_edit.hyps(2) watched_edit.hyps(4), of servers] show ?case by simp
qed

lemma settled_reset:
  assumes "reliable_files sys" and "settled servers u (st, s)"
  shows "\<exists>s'. static_reset sys st s = (Inr (), None, s') \<and> holds sys RESOLV_CONF_PATH u s' \<and>
    ds_read sys RESOLV_CONF_BACKUP_PATH s' = Inl ReadNotFound"
proof -
  have st: "st = Some \<lparr>sc_backup = u, sc_desired_dns = servers\<rparr>" "prints sys u"
    using assms(2) by (simp_all add: settled_def)
  obtain s1 where s1: "write_file_or RESOLV_CONF_PATH sys u s = (Inr (), s1)" "holds sys RESOLV_CONF_PATH u s1"
    by (rule write_to_reliable [OF assms(1) st(2), of _ s]) blast
  obtain s2 where s2: "ds_remove sys RESOLV_CONF_BACKUP_PATH s1 = (True, s2)"
    using assms(1) by (metis reliable_files_def prod.collapse)
  then have "holds sys RESOLV_CONF_PATH u s2"
    using s1(2) remove_other [OF s2] by (simp add: holds_def)
  then show ?thesis
    using s1(1) s2 remove_ok [OF s2] by (auto simp: static_reset_def st(1) write_config_def)
qed

lemma backup_restores:
  assumes "reliable_files sys" and u: "holds sys RESOLV_CONF_BACKUP_PATH u s"
  shows "\<exists>s'. restore_from_backup sys s = (Inr (), s') \<and> holds sys RESOLV_CONF_PATH u s' \<and>
    ds_read sys RESOLV_CONF_BACKUP_PATH s' = Inl ReadNotFound"
proof -
  obtain s1 where s1: "write_file_or RESOLV_CONF_PATH sys u s = (Inr (), s1)" "holds sys RESOLV_CONF_PATH u s1"
    by (rule write_to_reliable [OF assms(1) holds_prints [OF u], of _ s]) blast
  obtain s2 where s2: "ds_remove sys RESOLV_CONF_BACKUP_PATH s1 = (True, s2)"
    using assms(1) by (metis reliable_files_def prod.collapse)
  then have "holds sys RESOLV_CONF_PATH u s2"
    using s1(2) remove_other [OF s2] by (simp add: holds_def)
  then show ?thesis
    using s1(1) s2 remove_ok [OF s2] u
    by (auto simp: restore_from_backup_def write_config_def holds_def)
qed

lemma restored_backup:
  assumes u: "holds sys RESOLV_CONF_BACKUP_PATH u s" and "restore_from_backup sys s = (Inr (), s')"
  shows "holds sys RESOLV_CONF_PATH u s'"
proof -
  obtain s1 where s1: "write_file_or RESOLV_CONF_PATH sys u s = (Inr (), s1)" "ds_remove sys RESOLV_CONF_BACKUP_PATH s1 = (True, s')"
    using u assms(2) by (auto simp: restore_from_backup_def write_config_def holds_def
        split: prod.splits sum.splits if_splits)
  then show ?thesis
    using write_to_cases(1) [OF s1(1) holds_prints [OF u]] remove_other [OF s1(2)] by (simp add: holds_def)
qed

text \<open>Whatever fails, the file is as it was or its backup is complete.\<close>

lemma static_set_failed:
  assumes "static_set_dns sys servers None s = (Inl e, st, s')" and u: "holds sys RESOLV_CONF_PATH u s"
  shows "ds_read sys RESOLV_CONF_PATH s' = ds_read sys RESOLV_CONF_PATH s \<or> holds sys RESOLV_CONF_BACKUP_PATH u s'"
proof (rule prod.exhaust)
  fix r s1 assume w: "write_file_or RESOLV_CONF_BACKUP_PATH sys u s = (r, s1)"
  note pu = holds_prints [OF u]
  show ?thesis
  proof (cases r)
    case (Inl x)
    then have "s' = s1"
      using assms(1) w by (auto simp: static_set_dns_def read_config_holds [OF u] write_backup_def)
    then show ?thesis using write_to_cases(2) [OF w pu] by simp
  next
    case (Inr x)
    then obtain r' where w': "write_file_or RESOLV_CONF_PATH sys (u\<lparr>rc_nameservers := map scoped_from servers\<rparr>) s1 = (r', s')"
      using assms(1) w by (auto simp: static_set_dns_def read_config_holds [OF u] write_backup_def write_config_def
          desired_config_def split: prod.splits)
    then show ?thesis
      using write_to_cases(1) [OF w pu] write_to_cases(2) [OF w' servers_print [OF pu]] Inr
      by (simp add: holds_def)
  qed
qed

lemma static_reset_failed:
  assumes "static_reset sys st s = (Inl e, st', s')" and "settled servers u (st, s)"
  shows "holds sys RESOLV_CONF_BACKUP_PATH u s'"
proof -
  have st: "st = Some \<lparr>sc_backup = u, sc_desired_dns = servers\<rparr>" "prints sys u"
      "holds sys RESOLV_CONF_BACKUP_PATH u s"
    using assms(2) by (simp_all add: settled_def)
  obtain r where "write_file_or RESOLV_CONF_PATH sys u s = (r, s')"
    using assms(1) by (auto simp: static_reset_def st(1) write_config_def split: prod.splits sum.splits)
  from write_to_cases(2) [OF this st(2)] st(3) show ?thesis by (simp add: holds_def)
qed

end

section \<open>The services\<close>

text \<open>
  What can be observed of the system: the contents of the records of \<open>resolvconf\<close>, the servers and domains
  of the links of systemd-resolved (\<open>None\<close> for a link that does not exist), and the global DNS
  configuration of NetworkManager.
\<close>

record 's dns_view =
  dv_record :: "string \<Rightarrow> 's \<Rightarrow> string option"
  dv_link :: "string \<Rightarrow> 's \<Rightarrow> (message_item option \<times> message_item option) option"
  dv_global :: "'s \<Rightarrow> message_item"

text \<open>A backend serves the given servers, and a backend has undone what it did.\<close>

fun dns_in_use :: "('s, 'o) dns_system \<Rightarrow> 's dns_view \<Rightarrow> 'o dns_monitor_holder \<Rightarrow> string \<Rightarrow> ip_addr list \<Rightarrow> 's \<Rightarrow> bool" where
  "dns_in_use sys view (HolderResolvconf rv) interface servers s \<longleftrightarrow>
     interface @ ''.mullvad'' \<in> set (rv_record_names rv) \<and>
     dv_record view (interface @ ''.mullvad'') s = Some (record_contents servers)"
| "dns_in_use sys view (HolderStaticResolvConf st) interface servers s \<longleftrightarrow>
     (\<exists>c. ds_read sys RESOLV_CONF_PATH s = Inr (ds_print sys c) \<and> rc_nameservers c = map scoped_from servers)"
| "dns_in_use sys view (HolderSystemdResolved sd) interface servers s \<longleftrightarrow>
     (\<exists>link addresses. sd_interface_link sd = Some (interface, link) \<and>
        dv_link view link s = Some (Some addresses, Some dns_domains) \<and>
        item_addresses addresses = map Some servers)"
| "dns_in_use sys view HolderNetworkManager interface servers s \<longleftrightarrow>
     dv_global view s = create_global_settings servers"

fun dns_undone :: "('s, 'o) dns_system \<Rightarrow> 's dns_view \<Rightarrow> 'o dns_monitor_holder \<Rightarrow> 's \<Rightarrow> bool" where
  "dns_undone sys view (HolderResolvconf rv) s \<longleftrightarrow> (\<forall>n \<in> set (rv_record_names rv). dv_record view n s = None)"
| "dns_undone sys view (HolderStaticResolvConf st) s \<longleftrightarrow>
     (case st of None \<Rightarrow> True | Some st \<Rightarrow> ds_read sys RESOLV_CONF_PATH s = Inr (ds_print sys (sc_backup st)))"
| "dns_undone sys view (HolderSystemdResolved sd) s \<longleftrightarrow>
     (case sd_interface_link sd of
        None \<Rightarrow> True
      | Some (_, link) \<Rightarrow> dv_link view link s = None \<or> dv_link view link s = Some (None, None))"
| "dns_undone sys view HolderNetworkManager s \<longleftrightarrow> dv_global view s = create_empty_global_settings"

lemma map_sum_Inr: "map_sum f id r = Inr u \<longleftrightarrow> r = Inr u"
  by (cases r) simp_all

locale dns_services = conf_files sys for sys :: "('s, 'o) dns_system" +
  fixes view :: "'s dns_view"
  assumes add_ok: "ds_run sys prog [''-a'', n] t s = (Some (True, err), s') \<Longrightarrow> dv_record view n s' = Some t"
    and delete_ok: "ds_run sys prog [''-d'', n] t s = (Some (True, err), s') \<Longrightarrow> dv_record view n s' = None"
    and delete_other: "ds_run sys prog [''-d'', n] t s = (r, s') \<Longrightarrow> m \<noteq> n \<Longrightarrow>
      dv_record view m s' = dv_record view m s"
    and drain: "set (ds_drain sys ns) = set ns"
    and set_dns_ok: "ds_call sys (link_call p ''SetDNS'' [x]) s = (Inr (Inr y), s') \<Longrightarrow>
      \<exists>d. dv_link view p s' = Some (Some x, d)"
    and set_domains_ok: "ds_call sys (link_call p ''SetDomains'' [x]) s = (Inr (Inr y), s') \<Longrightarrow>
      dv_link view p s = Some (a, d) \<Longrightarrow> dv_link view p s' = Some (a, Some x)"
    and revert_ok: "ds_call sys (link_call p ''Revert'' []) s = (Inr (Inr y), s') \<Longrightarrow>
      dv_link view p s' = Some (None, None)"
    and unknown_object: "ds_call sys (link_call p ''Revert'' []) s =
      (Inl (Some ''org.freedesktop.DBus.Error.UnknownObject''), s') \<Longrightarrow> dv_link view p s' = None"
    and set_property_ok: "ds_set sys NM_BUS NM_OBJECT_PATH NM_TOP_OBJECT GLOBAL_DNS_CONF_KEY v s = (Inr (), s') \<Longrightarrow>
      dv_global view s' = v"
begin

lemma delete_records_done:
  "delete_records sys prog ns r0 s = (Inr (), s') \<Longrightarrow>
     r0 = Inr () \<and> (\<forall>n \<in> set ns. dv_record view n s' = None) \<and>
     (\<forall>n. dv_record view n s = None \<longrightarrow> dv_record view n s' = None)"
proof (induction ns arbitrary: r0 s)
  case (Cons n ns)
  obtain r s1 where run: "ds_run sys prog [''-d'', n] [] s = (r, s1)" by fastforce
  with Cons.prems obtain ok err where r: "r = Some (ok, err)" by (cases r) auto
  then have del: "delete_records sys prog ns (if ok then r0 else Inl DeleteRecordError) s1 = (Inr (), s')"
    using Cons.prems run by simp
  note IH = Cons.IH [OF del]
  then have ok: "ok" by (auto split: if_splits)
  have "dv_record view n s1 = None" using delete_ok [where prog = prog and t = "[]" and s = s and err = err] run r ok by simp
  moreover have "dv_record view m s = None \<Longrightarrow> dv_record view m s1 = None" for m
    using delete_other [OF run, of m] calculation by (cases "m = n") simp_all
  ultimately show ?case using IH ok by auto
qed simp

lemma write_text_ok: "write_file_or p sys c s = (Inr u, s') \<Longrightarrow> ds_read sys p s' = Inr (ds_print sys c)"
  by (auto simp: write_file_or_def split: prod.splits if_splits dest: write_ok)

lemma static_set_in_use:
  "static_set_dns sys servers st s = (Inr u, st', s') \<Longrightarrow>
     dns_in_use sys view (HolderStaticResolvConf st') interface servers s'"
  by (auto simp: static_set_dns_def write_config_def desired_config_def split: prod.splits sum.splits option.splits
      dest!: write_text_ok)

lemma resolved_set_in_use:
  "resolved_set_dns sys interface servers sd s = (Inr u, sd', s') \<Longrightarrow>
     dns_in_use sys view (HolderSystemdResolved sd') interface servers s'"
  by (auto simp: resolved_set_dns_def set_link_dns_def item_addresses_back split: prod.splits sum.splits
      dest!: set_dns_ok set_domains_ok)

lemma set_global_ok: "set_global_dns sys v s = (Inr u, s') \<Longrightarrow> dv_global view s' = v"
  using set_property_ok [of v s s']
  by (cases "ds_set sys NM_BUS NM_OBJECT_PATH NM_TOP_OBJECT GLOBAL_DNS_CONF_KEY v s")
    (simp add: set_global_dns_def map_sum_Inr)

lemma holder_set_in_use:
  "holder_set sys interface servers h s = (Inr u, h', s') \<Longrightarrow> dns_in_use sys view h' interface servers s'"
  by (cases h) (auto split: prod.splits simp del: dns_in_use.simps(2,3)
      simp: resolvconf_set_dns_def nm_set_dns_def map_sum_Inr Let_def
      split: option.splits if_splits dest: add_ok set_global_ok static_set_in_use resolved_set_in_use)

lemma holder_reset_undone:
  "holder_reset sys h s = (Inr u, s') \<Longrightarrow> dns_undone sys view h s'"
proof (cases h)
  case (HolderResolvconf rv)
  moreover assume "holder_reset sys h s = (Inr u, s')"
  ultimately have "delete_records sys (rv_resolvconf rv) (ds_drain sys (rv_record_names rv)) (Inr ()) s = (Inr (), s')"
    by (auto simp: resolvconf_reset_def map_sum_Inr split: prod.splits)
  from delete_records_done [OF this] show ?thesis by (simp add: HolderResolvconf drain)
next
  case (HolderStaticResolvConf st)
  moreover assume "holder_reset sys h s = (Inr u, s')"
  ultimately show ?thesis
    by (auto simp: static_reset_def write_config_def map_sum_Inr split: prod.splits sum.splits option.splits
        dest!: write_text_ok) (metis paths_differ(1) prod.collapse remove_other)
next
  case (HolderSystemdResolved sd)
  moreover assume "holder_reset sys h s = (Inr u, s')"
  ultimately show ?thesis
    by (auto simp: resolved_reset_def revert_link_def map_sum_Inr split: prod.splits sum.splits option.splits
        if_splits dest: revert_ok unknown_object)
next
  case HolderNetworkManager
  moreover assume "holder_reset sys h s = (Inr u, s')"
  ultimately show ?thesis
    by (auto simp: nm_reset_def map_sum_Inr split: prod.splits dest: set_global_ok)
qed

lemma linux_reset_contract:
  assumes "linux_dns_reset sys m s = (r, m', s')"
  shows "lm_inner m' = None" and "is_ok r \<Longrightarrow> lm_inner m = Some h \<Longrightarrow> dns_undone sys view h s'"
  using assms holder_reset_undone
  by (auto simp: linux_dns_reset_def is_ok_iff split: option.splits prod.splits)

lemma linux_set_contract:
  assumes "linux_dns_set sys interface servers m s = (r, m', s')"
  shows "if is_ok r then \<exists>h. lm_inner m' = Some h \<and> dns_in_use sys view h interface servers s'
    else lm_inner m' = None"
proof -
  obtain r1 m1 s1 where "linux_dns_reset sys m s = (r1, m1, s1)" by (rule prod_cases3)
  with linux_reset_contract [OF this] assms show ?thesis
    by (auto simp: linux_dns_set_def split: sum.splits prod.splits dest: holder_set_in_use)
qed

end

end
