(* ===== verification/Dns_Linux_Machine.thy ===== *)
theory Dns_Linux_Machine
  imports Dns_Linux_Props
begin

text \<open>
  The reference system that interprets the contracts of the Linux DNS monitor, the properties of the
  monitor, and the tunnel state machine on top of it.
\<close>

section \<open>The reference system\<close>

text \<open>
  A configuration file is a sequence of addresses, each a tag and its bytes, a full stop, and the other
  settings; addresses with a scope cannot be written.
\<close>

definition ref_byte :: "u8 \<Rightarrow> char" where
  "ref_byte b = char_of (unat b)"

definition ref_bytes :: "string \<Rightarrow> nat" where
  "ref_bytes cs = bytes_to_nat (map (\<lambda>c. of_nat (of_char c)) cs)"

fun ref_print_server :: "scoped_ip \<Rightarrow> string" where
  "ref_print_server (ScopedV4 a) = CHR ''4'' # map ref_byte (ipv4_bytes a)"
| "ref_print_server (ScopedV6 a None) = CHR ''6'' # map ref_byte (ipv6_bytes a)"
| "ref_print_server (ScopedV6 a (Some _)) = []"

definition ref_print :: "string resolv_config \<Rightarrow> string" where
  "ref_print c = concat (map ref_print_server (rc_nameservers c)) @ ''.'' @ rc_other c"

function ref_parse_servers :: "string \<Rightarrow> scoped_ip list \<times> string" where
  "ref_parse_servers t =
     (if t \<noteq> [] \<and> hd t = CHR ''4'' then
        apfst ((#) (ScopedV4 (of_nat (ref_bytes (take 4 (tl t)))))) (ref_parse_servers (drop 5 t))
      else if t \<noteq> [] \<and> hd t = CHR ''6'' then
        apfst ((#) (ScopedV6 (of_nat (ref_bytes (take 16 (tl t)))) None)) (ref_parse_servers (drop 17 t))
      else ([], tl t))"
  by pat_completeness auto
termination by (relation "measure size") auto

declare ref_parse_servers.simps [simp del]

definition ref_parse :: "string \<Rightarrow> string resolv_config option" where
  "ref_parse t = (case ref_parse_servers t of (ns, other) \<Rightarrow> Some \<lparr>rc_nameservers = ns, rc_other = other\<rparr>)"

fun unscoped :: "scoped_ip \<Rightarrow> bool" where
  "unscoped (ScopedV4 _) = True"
| "unscoped (ScopedV6 _ scope) = (scope = None)"

lemma ref_bytes_back: "ref_bytes (map ref_byte bs) = bytes_to_nat bs"
  by (simp add: ref_bytes_def ref_byte_def comp_def unsigned_less [of "_ :: u8", simplified])

lemma ref_parse_print_server:
  "unscoped n \<Longrightarrow> ref_parse_servers (ref_print_server n @ t) = apfst ((#) n) (ref_parse_servers t)"
  by (cases n; subst ref_parse_servers.simps)
    (use ipv4_bytes_back ipv6_bytes_back in \<open>auto simp: ref_bytes_back\<close>)

lemma ref_parse_print:
  "list_all unscoped ns \<Longrightarrow>
     ref_parse_servers (concat (map ref_print_server ns) @ CHR ''.'' # other) = (ns, other)"
proof (induction ns)
  case Nil
  show ?case by (subst ref_parse_servers.simps) simp
qed (simp add: ref_parse_print_server)

lemma ref_parse_unscoped: "list_all unscoped (fst (ref_parse_servers t))"
proof (induction t rule: ref_parse_servers.induct)
  case (1 t)
  then show ?case by (subst ref_parse_servers.simps) simp
qed

text \<open>The files in \<open>ro\<close> cannot be written or removed.\<close>

record ref_dns_state =
  rd_files :: "string \<Rightarrow> string option"
  rd_records :: "string \<Rightarrow> string option"
  rd_links :: "string \<Rightarrow> (message_item option \<times> message_item option) option"
  rd_global :: message_item
  rd_module :: "string option"

definition ref_link_path :: "u32 \<Rightarrow> string" where
  "ref_link_path i = ''/org/freedesktop/resolve1/link/'' @ fmt_nat (unat i)"

definition ref_dns_call :: "dbus_call \<Rightarrow> ref_dns_state
    \<Rightarrow> (dbus_error + (dbus_error + message_item list)) \<times> ref_dns_state" where
  "ref_dns_call c s =
     (if dc_interface c = MANAGER_INTERFACE then
        (case dc_args c of [MiInt32 i] \<Rightarrow> (Inr (Inr [MiPath (ref_link_path i)]), s) | _ \<Rightarrow> (Inr (Inl None), s))
      else
        (case rd_links s (dc_path c) of
           None \<Rightarrow> (Inl (Some ''org.freedesktop.DBus.Error.UnknownObject''), s)
         | Some (servers, domains) \<Rightarrow>
             (let new = (if dc_member c = ''SetDNS'' then (Some (hd (dc_args c)), domains)
                else if dc_member c = ''SetDomains'' then (servers, Some (hd (dc_args c)))
                else (None, None))
              in (Inr (Inr []), s\<lparr>rd_links := (rd_links s)(dc_path c \<mapsto> new)\<rparr>))))"

definition ref_dns_run :: "string \<Rightarrow> string list \<Rightarrow> string \<Rightarrow> ref_dns_state \<Rightarrow> (bool \<times> string) option \<times> ref_dns_state" where
  "ref_dns_run prog args input s =
     (Some (True, []), s\<lparr>rd_records := (rd_records s)(args ! 1 := if hd args = ''-a'' then Some input else None)\<rparr>)"

definition ref_dns_system :: "string list \<Rightarrow> (ref_dns_state, string) dns_system" where
  "ref_dns_system ro = \<lparr>
     ds_env = rd_module,
     ds_read = (\<lambda>p s. case rd_files s p of None \<Rightarrow> Inl ReadNotFound | Some t \<Rightarrow> Inr t),
     ds_write = (\<lambda>p t s. if p \<in> set ro then (False, s) else (True, s\<lparr>rd_files := (rd_files s)(p \<mapsto> t)\<rparr>)),
     ds_remove = (\<lambda>p s. if p \<in> set ro then (False, s) else (True, s\<lparr>rd_files := (rd_files s)(p := None)\<rparr>)),
     ds_read_link = (\<lambda>p s. None), ds_canonicalize = (\<lambda>p s. None),
     ds_file_lines = (\<lambda>p s. map_option (\<lambda>t. map Inr (str_lines t)) (rd_files s p)),
     ds_parse = ref_parse, ds_print = ref_print,
     ds_watch = (\<lambda>s. True), ds_which = (\<lambda>n s. Some (''/sbin/'' @ n)),
     ds_run = ref_dns_run, ds_drain = rev, ds_connect = (\<lambda>s. True),
     ds_iface_index = (\<lambda>i s. Some (of_nat (length i))),
     ds_call = ref_dns_call,
     ds_get = (\<lambda>bus path iface key s. Inr (MiStr ''default'')),
     ds_set = (\<lambda>bus path iface key v s. (Inr (), s\<lparr>rd_global := v\<rparr>))\<rparr>"

definition ref_dns_view :: "ref_dns_state dns_view" where
  "ref_dns_view = \<lparr>dv_record = (\<lambda>n s. rd_records s n), dv_link = (\<lambda>p s. rd_links s p), dv_global = rd_global\<rparr>"

lemma ref_prints: "prints (ref_dns_system ro) c \<longleftrightarrow> list_all unscoped (rc_nameservers c)"
proof
  assume "prints (ref_dns_system ro) c"
  then show "list_all unscoped (rc_nameservers c)"
    using ref_parse_unscoped [of "ref_print c"]
    by (auto simp: prints_def ref_dns_system_def ref_parse_def split: prod.splits)
qed (simp add: prints_def ref_dns_system_def ref_parse_def ref_print_def ref_parse_print)

lemma unscoped_from [simp]: "unscoped (scoped_from a)"
  by (cases a) simp_all

lemma link_call_simps [simp]:
  "dc_interface (link_call p m xs) \<noteq> MANAGER_INTERFACE" "dc_path (link_call p m xs) = p"
  "dc_member (link_call p m xs) = m" "dc_args (link_call p m xs) = xs"
  by (simp_all add: link_call_def LINK_INTERFACE_def MANAGER_INTERFACE_def)

lemma ref_dns_simps [simp]:
  "ds_env (ref_dns_system ro) = rd_module"
  "ds_read (ref_dns_system ro) p s = (case rd_files s p of None \<Rightarrow> Inl ReadNotFound | Some t \<Rightarrow> Inr t)"
  "ds_write (ref_dns_system ro) p t s =
     (if p \<in> set ro then (False, s) else (True, s\<lparr>rd_files := (rd_files s)(p \<mapsto> t)\<rparr>))"
  "ds_remove (ref_dns_system ro) p s =
     (if p \<in> set ro then (False, s) else (True, s\<lparr>rd_files := (rd_files s)(p := None)\<rparr>))"
  "ds_parse (ref_dns_system ro) = ref_parse" "ds_print (ref_dns_system ro) = ref_print"
  "ds_run (ref_dns_system ro) = ref_dns_run" "ds_drain (ref_dns_system ro) = rev"
  "ds_call (ref_dns_system ro) = ref_dns_call"
  "ds_which (ref_dns_system ro) n s = Some (''/sbin/'' @ n)" "ds_read_link (ref_dns_system ro) p s = None"
  "ds_set (ref_dns_system ro) bus path iface key v s = (Inr (), s\<lparr>rd_global := v\<rparr>)"
  by (simp_all add: ref_dns_system_def)

interpretation ref_dns: dns_services "ref_dns_system ro" ref_dns_view for ro
proof unfold_locales
  show "prints (ref_dns_system ro) c" if "ds_parse (ref_dns_system ro) t = Some c" for t c
    using that ref_parse_unscoped [of t]
    by (auto simp: ref_prints ref_parse_def split: prod.splits)
qed (auto simp: ref_prints list.pred_map comp_def list.pred_True ref_dns_view_def ref_dns_run_def ref_dns_call_def Let_def split: if_splits option.splits prod.splits)

lemma ref_reliable: "reliable_files (ref_dns_system [])"
  by (simp add: reliable_files_def ref_dns_system_def)

section \<open>The state machine and the DNS monitor\<close>

text \<open>What the machine needs of a DNS monitor: after a successful call the servers are in force.\<close>

definition tunnel_dns :: "tunnel_metadata \<Rightarrow> ip_addr list" where
  "tunnel_dns md = V4 (tm_ipv4_gateway md) # (case tm_ipv6_gateway md of Some g \<Rightarrow> [V6 g] | None \<Rightarrow> [])"

definition dns_follows :: "('dns \<Rightarrow> string \<Rightarrow> ip_addr list \<Rightarrow> bool) \<Rightarrow> tunnel_state
    \<Rightarrow> ('fw, 'dns, 'gen, 'tp) shared \<Rightarrow> bool" where
  "dns_follows in_force st sh \<longleftrightarrow>
     (\<forall>c. st = StConnected c \<longrightarrow>
        in_force (sv_dns_monitor sh) (tm_interface (cd_metadata c)) (tunnel_dns (cd_metadata c)))"

lemma dns_follows_simps [simp]:
  "kind_of st \<noteq> KConnected \<Longrightarrow> dns_follows in_force st sh"
  "dns_follows in_force (StConnected c) sh \<longleftrightarrow>
     in_force (sv_dns_monitor sh) (tm_interface (cd_metadata c)) (tunnel_dns (cd_metadata c))"
  by (auto simp: dns_follows_def)

locale dns_machine =
  fixes pf :: "('fw, 'dns, 'gen, 'tp) platform" and in_force :: "'dns \<Rightarrow> string \<Rightarrow> ip_addr list \<Rightarrow> bool"
  assumes set_in_force: "pf_dns_set pf i servers d = (Inr (), d') \<Longrightarrow> in_force d' i servers"
begin

definition keeps_dns :: "machine_action \<times> ('fw, 'dns, 'gen, 'tp) shared \<Rightarrow> bool" where
  "keeps_dns r \<longleftrightarrow> (\<forall>st. act_state (fst r) = Some st \<longrightarrow> dns_follows in_force st (snd r))"

lemma keeps_dns_new:
  "(\<And>st tr sh'. r = (st, tr, sh') \<Longrightarrow> dns_follows in_force st sh') \<Longrightarrow>
     keeps_dns (apfst (action_from_consequence w) (new_state r))"
  by (cases r) (simp add: keeps_dns_def new_state_def)

lemma connected_enter_dns: "connected_enter pf c sh = (st, tr, sh') \<Longrightarrow> dns_follows in_force st sh'"
  by (auto simp: connected_enter_def connected_set_dns_def disconnecting_enter_def Let_def tunnel_dns_def
      split: prod.splits sum.splits intro: set_in_force)

lemma enter_keeps_dns:
  "keeps_dns (apfst (action_from_consequence w) (new_state (blocked_enter pf r sh)))"
  "keeps_dns (apfst (action_from_consequence w) (new_state (connecting_enter pf n sh)))"
  "keeps_dns (apfst (action_from_consequence w) (new_state (connected_enter pf c sh)))"
  "keeps_dns (apfst (action_from_consequence w) (new_state (disconnecting_enter pf t a sh)))"
  "keeps_dns (apfst (action_from_consequence w) (new_state (disconnected_enter pf sh)))"
  by (rule keeps_dns_new; fastforce dest: enter_shape(1,2,4,5) connected_enter_dns)+

lemma keeps_dns_same:
  "dns_follows in_force st sh \<Longrightarrow> keeps_dns (ActRepeat st, sh)"
  "dns_follows in_force st sh \<Longrightarrow> keeps_dns (ActNotify (Some st) r, sh)" "keeps_dns (ActNotify None r, sh)"
  by (simp_all add: keeps_dns_def)

lemmas dns_cases = keeps_dns_same enter_keeps_dns

lemma connected_dns:
  assumes "dns_follows in_force (StConnected c) sh"
  shows "keeps_dns (handle_event pf ps (StConnected c) sh)"
proof -
  have lan: "connected_set_firewall_policy pf c (sh\<lparr>sv_allow_lan := b\<rparr>) = (r, sh') \<Longrightarrow>
      sv_dns_monitor sh' = sv_dns_monitor sh" for b r sh'
    by (auto simp: connected_set_firewall_policy_def apply_policy_def split: prod.splits)
  show ?thesis
    using assms by (simp add: connected_handle_event_eq connected_handle_commands_def connected_disconnect_def
        connected_handle_tunnel_events_def connected_handle_tunnel_close_event_def Let_def dns_cases lan
        split: tried.split tunnel_command.split tunnel_event.split future_poll.split option.split
          prod.split sum.split)
qed

lemma handle_event_dns: "dns_follows in_force st sh \<Longrightarrow> keeps_dns (handle_event pf ps st sh)"
proof (cases st)
  case StDisconnected
  then show ?thesis
    by (simp add: disconnected_handle_event_def dns_cases split: tried.split tunnel_command.split)
next
  case (StConnecting c)
  then show ?thesis
    by (simp add: connecting_handle_event_eq connecting_handle_commands_def
        connecting_handle_tunnel_events_def connecting_handle_tunnel_close_event_def Let_def dns_cases
        split: tried.split tunnel_command.split tunnel_event.split future_poll.split option.split
          prod.split sum.split)
next
  case (StDisconnecting d)
  then show ?thesis
    by (simp add: disconnecting_handle_event_eq disconnecting_handle_commands_def
        disconnecting_handle_exit_event_def disconnecting_after_disconnect_def Let_def dns_cases
        split: tried.split prod.split future_poll.split option.split after_disconnect.split)
next
  case (StBlocked r)
  then show ?thesis
    by (simp add: blocked_handle_event_def Let_def dns_cases
        split: tried.split tunnel_command.split prod.split option.split)
next
  case (StConnected c)
  moreover assume "dns_follows in_force st sh"
  ultimately show ?thesis using connected_dns by blast
qed

lemma reachable_dns: "reachable pf (st, sh) \<Longrightarrow> dns_follows in_force st sh"
proof (induction "(st, sh)" arbitrary: st sh rule: reachable.induct)
  case (start lan bwd off g tp ld rd cd st sh)
  then have "st = StDisconnected"
    by (auto simp: machine_new_def disconnected_enter_def Let_def split: sum.splits)
  then show ?case by simp
next
  case (step c st' sh')
  obtain st sh where "c = (st, sh)" by fastforce
  with step have "keeps_dns (handle_event pf ps st sh)" for ps by (simp add: handle_event_dns)
  with step \<open>c = (st, sh)\<close> show ?case
    by (auto elim!: machine_stepE simp: keeps_dns_def) (metis act_state.simps fst_conv snd_conv)+
qed

end

text \<open>The platform with the Linux DNS monitor; \<open>fmt\<close> prints its errors.\<close>

definition with_linux_dns :: "('s, 'o) dns_system \<Rightarrow> (linux_dns_error \<Rightarrow> string) \<Rightarrow> 's
    \<Rightarrow> ('fw, 'd, 'gen, 'tp) platform \<Rightarrow> ('fw, 'o linux_dns_monitor \<times> 's, 'gen, 'tp) platform" where
  "with_linux_dns sys fmt s0 rest = \<lparr>
     pf_fw_new = pf_fw_new rest, pf_fw_apply = pf_fw_apply rest, pf_fw_reset = pf_fw_reset rest,
     pf_dns_new = (\<lambda>_. Inr (linux_dns_new, s0)),
     pf_dns_set = (\<lambda>i servers (m, s). apfst (map_sum fmt id) (linux_dns_set sys i servers m s)),
     pf_dns_reset = (\<lambda>(m, s). apfst (map_sum fmt id) (linux_dns_reset sys m s)),
     pf_generate = pf_generate rest, pf_start = pf_start rest, pf_close = pf_close rest\<rparr>"

definition linux_dns_in_force :: "('s, 'o) dns_system \<Rightarrow> 's dns_view \<Rightarrow> 'o linux_dns_monitor \<times> 's
    \<Rightarrow> string \<Rightarrow> ip_addr list \<Rightarrow> bool" where
  "linux_dns_in_force sys view = (\<lambda>(m, s) interface servers.
     \<exists>h. lm_inner m = Some h \<and> dns_in_use sys view h interface servers s)"

sublocale dns_services \<subseteq> machine: dns_machine "with_linux_dns sys fmt s0 rest" "linux_dns_in_force sys view" for fmt s0 rest
proof
  fix i servers d d'
  assume "pf_dns_set (with_linux_dns sys fmt s0 rest) i servers d = (Inr (), d')"
  then show "linux_dns_in_force sys view d' i servers"
    using linux_set_contract [of i servers "fst d" "snd d" "Inr ()" "fst d'" "snd d'"]
    by (cases d; cases "linux_dns_set sys i servers (fst d) (snd d)")
      (auto simp: with_linux_dns_def linux_dns_in_force_def map_sum_Inr)
qed

context dns_services
begin

lemma monitor_follows:
  "reachable (with_linux_dns sys fmt s0 rest) (st, sh) \<Longrightarrow> dns_follows (linux_dns_in_force sys view) st sh"
  by (rule machine.reachable_dns)

end

section \<open>Properties\<close>

text \<open>
  C31.  A static \<open>/etc/resolv.conf\<close>.  Let \<open>u\<close> be the user's configuration when the DNS servers are set, and
  let other programs then write the file any number of times, each time followed by at least two events
  of the watcher.  Afterwards the file names the servers of the tunnel and has the other settings of the
  last writer; resetting DNS, or starting again after a crash, gives the file the user's configuration
  with every change the others made, and removes the backup.
\<close>

theorem static_dns_restored:
  assumes "conf_files sys" and "reliable_files sys"
    and "holds sys RESOLV_CONF_PATH u s" and "static_set_dns sys servers None s = (Inr (), st, s1)"
    and "watched sys (st, s1) es (st2, s2)"
  defines "u' \<equiv> foldl (edited servers) u es"
  shows "holds sys RESOLV_CONF_PATH (u'\<lparr>rc_nameservers := map scoped_from servers\<rparr>) s2 \<and>
    (\<exists>s3. static_reset sys st2 s2 = (Inr (), None, s3) \<and> holds sys RESOLV_CONF_PATH u' s3 \<and>
      ds_read sys RESOLV_CONF_BACKUP_PATH s3 = Inl ReadNotFound) \<and>
    (\<exists>s3. restore_from_backup sys s2 = (Inr (), s3) \<and> holds sys RESOLV_CONF_PATH u' s3 \<and>
      ds_read sys RESOLV_CONF_BACKUP_PATH s3 = Inl ReadNotFound)"
proof -
  note files = assms(1)
  have "conf_files.settled sys servers u' (st2, s2)"
    unfolding u'_def
    by (rule conf_files.watched_settled [OF files assms(2,5)
          conf_files.static_set_settled [OF files assms(4,3)]])
  then show ?thesis
    using conf_files.settled_reset [OF files assms(2)] conf_files.backup_restores [OF files assms(2)]
    by (auto simp: conf_files.settled_def [OF files])
qed

definition ref_dns_state0 :: ref_dns_state where
  "ref_dns_state0 = \<lparr>rd_files = [RESOLV_CONF_PATH \<mapsto> ref_print \<lparr>rc_nameservers = [ScopedV4 7], rc_other = ''x''\<rparr>],
     rd_records = Map.empty, rd_links = Map.empty, rd_global = MiDict [], rd_module = Some ''resolvconf''\<rparr>"

lemma ref_holds:
  "list_all unscoped (rc_nameservers c) \<Longrightarrow> rd_files s p = Some (ref_print c) \<Longrightarrow>
     holds (ref_dns_system ro) p c s"
  using ref_prints [of ro c] by (simp add: holds_def prints_def)

lemma ref_static_set:
  "\<exists>st s1. static_set_dns (ref_dns_system []) servers None ref_dns_state0 = (Inr (), st, s1)"
proof -
  have "holds (ref_dns_system []) RESOLV_CONF_PATH \<lparr>rc_nameservers = [ScopedV4 7], rc_other = ''x''\<rparr> ref_dns_state0"
    by (rule ref_holds) (simp_all add: ref_dns_state0_def)
  from ref_dns.read_config_holds [OF this] show ?thesis
    by (simp add: static_set_dns_def write_backup_def write_config_def write_file_or_def)
qed

theorem static_dns_restored_witness:
  "let e = \<lparr>rc_nameservers = [ScopedV4 9], rc_other = ''y''\<rparr> in
   \<exists>st s1 s2 s3. static_set_dns (ref_dns_system []) [V4 5] None ref_dns_state0 = (Inr (), st, s1) \<and>
     ds_read (ref_dns_system []) RESOLV_CONF_PATH s2 = Inr (ref_print e) \<and>
     static_reset (ref_dns_system []) (fst (watcher_events (ref_dns_system []) 2 (st, s2)))
       (snd (watcher_events (ref_dns_system []) 2 (st, s2))) = (Inr (), None, s3) \<and>
     holds (ref_dns_system []) RESOLV_CONF_PATH e s3"
proof -
  let ?sys = "ref_dns_system []"
  let ?u = "\<lparr>rc_nameservers = [ScopedV4 7], rc_other = ''x''\<rparr>"
  let ?e = "\<lparr>rc_nameservers = [ScopedV4 9], rc_other = ''y''\<rparr>"
  obtain st s1 where set: "static_set_dns ?sys [V4 5] None ref_dns_state0 = (Inr (), st, s1)"
    using ref_static_set by blast
  have u: "holds ?sys RESOLV_CONF_PATH ?u ref_dns_state0"
    by (rule ref_holds) (simp_all add: ref_dns_state0_def)
  let ?s2 = "s1\<lparr>rd_files := (rd_files s1)(RESOLV_CONF_PATH \<mapsto> ref_print ?e)\<rparr>"
  obtain st3 s3 where w: "watcher_events ?sys 2 (st, ?s2) = (st3, s3)" by fastforce
  have "holds ?sys RESOLV_CONF_PATH ?e ?s2" by (rule ref_holds) simp_all
  then have "watched ?sys (st, s1) ([] @ [?e]) (watcher_events ?sys 2 (st, ?s2))"
    by (rule watched.watched_edit [OF watched.watched_none]) simp_all
  then have "watched ?sys (st, s1) [?e] (st3, s3)" by (simp add: w)
  from static_dns_restored [OF ref_dns.conf_files_axioms ref_reliable u set this]
  obtain s4 where "static_reset ?sys st3 s3 = (Inr (), None, s4)" "holds ?sys RESOLV_CONF_PATH ?e s4"
    by (auto simp: edited_def)
  moreover have "ds_read ?sys RESOLV_CONF_PATH ?s2 = Inr (ref_print ?e)" by simp
  ultimately show ?thesis unfolding Let_def using set w by (metis fst_conv snd_conv)
qed

text \<open>
  Failures.  When setting the DNS servers in the file fails, or resetting them afterwards, whichever
  operation on the files failed: the file is as it was before, or the next start that succeeds in restoring
  the backup gives the user's configuration back.\<close>

theorem static_dns_recoverable:
  assumes "conf_files sys" and u: "holds sys RESOLV_CONF_PATH u s"
    and failed: "(\<exists>e st. static_set_dns sys servers None s = (Inl e, st, s')) \<or>
      (\<exists>e st s1 st'. static_set_dns sys servers None s = (Inr (), st, s1) \<and> static_reset sys st s1 = (Inl e, st', s'))"
  shows "ds_read sys RESOLV_CONF_PATH s' = ds_read sys RESOLV_CONF_PATH s \<or>
    (\<forall>s2. restore_from_backup sys s' = (Inr (), s2) \<longrightarrow> holds sys RESOLV_CONF_PATH u s2)"
proof -
  note files = assms(1)
  have "ds_read sys RESOLV_CONF_PATH s' = ds_read sys RESOLV_CONF_PATH s \<or> holds sys RESOLV_CONF_BACKUP_PATH u s'"
    using failed conf_files.static_set_failed [OF files _ u] conf_files.static_set_settled [OF files _ u]
      conf_files.static_reset_failed [OF files] by blast
  then show ?thesis using conf_files.restored_backup [OF files] by blast
qed

theorem static_dns_recoverable_witness:
  "let sys = ref_dns_system [RESOLV_CONF_BACKUP_PATH] in
     static_set_dns sys [V4 5] None ref_dns_state0 =
       (Inl (WriteResolvConf RESOLV_CONF_BACKUP_PATH), None, ref_dns_state0) \<and>
     (ds_read sys RESOLV_CONF_PATH ref_dns_state0 = ds_read sys RESOLV_CONF_PATH ref_dns_state0 \<or>
      (\<forall>s2. restore_from_backup sys ref_dns_state0 = (Inr (), s2) \<longrightarrow>
        holds sys RESOLV_CONF_PATH \<lparr>rc_nameservers = [ScopedV4 7], rc_other = ''x''\<rparr> s2))"
proof -
  let ?sys = "ref_dns_system [RESOLV_CONF_BACKUP_PATH]"
  have u: "holds ?sys RESOLV_CONF_PATH \<lparr>rc_nameservers = [ScopedV4 7], rc_other = ''x''\<rparr> ref_dns_state0"
    by (rule ref_holds) (simp_all add: ref_dns_state0_def)
  have "static_set_dns ?sys [V4 5] None ref_dns_state0 =
      (Inl (WriteResolvConf RESOLV_CONF_BACKUP_PATH), None, ref_dns_state0)"
    using ref_dns.read_config_holds [OF u] by (simp add: static_set_dns_def write_backup_def write_file_or_def)
  then show ?thesis
    using static_dns_recoverable [OF ref_dns.conf_files_axioms u, of "[V4 5]" ref_dns_state0] by simp
qed

text \<open>
  C32.  The contract of the Linux DNS monitor, whichever backend it chooses.  After a successful call the
  backend in use serves exactly the given servers: in the record of the interface, in the file, for all
  domains of the link, or in the global configuration.  A failed call leaves no backend behind.  A reset
  always ends the use of a backend, and when it succeeds the backend has undone what it did.\<close>

theorem linux_dns_contract:
  assumes "dns_services sys view"
    and "linux_dns_set sys interface servers m s = (r, m1, s1)" and "linux_dns_reset sys m s = (r2, m2, s2)"
  shows "(if is_ok r then \<exists>h. lm_inner m1 = Some h \<and> dns_in_use sys view h interface servers s1
      else lm_inner m1 = None) \<and>
    lm_inner m2 = None \<and> (is_ok r2 \<longrightarrow> (\<forall>h. lm_inner m = Some h \<longrightarrow> dns_undone sys view h s2))"
  using dns_services.linux_set_contract [OF assms(1,2)] dns_services.linux_reset_contract [OF assms(1,3)]
  by simp

lemma ref_resolvconf_set:
  "\<exists>s1. linux_dns_set (ref_dns_system []) ''wg0'' servers linux_dns_new ref_dns_state0 = (Inr (),
     \<lparr>lm_inner = Some (HolderResolvconf \<lparr>rv_record_names = [''wg0.mullvad''], rv_resolvconf = ''/sbin/resolvconf''\<rparr>)\<rparr>, s1)"
  by (simp add: linux_dns_set_def linux_dns_reset_def linux_dns_new_def holder_new_def resolvconf_new_def
      resolvconf_is_resolved_symlink_def resolvconf_set_dns_def ref_dns_run_def ref_dns_state0_def Let_def)

theorem linux_dns_contract_witness:
  "\<exists>s1. dns_in_use (ref_dns_system []) ref_dns_view
     (HolderResolvconf \<lparr>rv_record_names = [''wg0.mullvad''], rv_resolvconf = ''/sbin/resolvconf''\<rparr>)
     ''wg0'' [V4 5] s1"
proof -
  obtain s1 where "linux_dns_set (ref_dns_system []) ''wg0'' [V4 5] linux_dns_new ref_dns_state0 = (Inr (),
      \<lparr>lm_inner = Some (HolderResolvconf \<lparr>rv_record_names = [''wg0.mullvad''], rv_resolvconf = ''/sbin/resolvconf''\<rparr>)\<rparr>, s1)"
    using ref_resolvconf_set by blast
  moreover have "linux_dns_reset (ref_dns_system []) linux_dns_new ref_dns_state0 = (Inr (), linux_dns_new, ref_dns_state0)"
    by (simp add: linux_dns_reset_def linux_dns_new_def)
  ultimately show ?thesis using linux_dns_contract [OF ref_dns.dns_services_axioms] by fastforce
qed

text \<open>
  C30.  The machine on the Linux DNS monitor: in every reachable connected state, whatever failed on the
  way, the DNS monitor has a backend in use for the interface of the tunnel, and it serves the gateways
  of the tunnel and no other server.\<close>

theorem connected_uses_tunnel_dns:
  assumes "dns_services sys view"
    and "reachable (with_linux_dns sys fmt s0 rest) (StConnected c, sh)"
  shows "\<exists>h. lm_inner (fst (sv_dns_monitor sh)) = Some h \<and>
    dns_in_use sys view h (tm_interface (cd_metadata c)) (tunnel_dns (cd_metadata c)) (snd (sv_dns_monitor sh))"
  using dns_services.monitor_follows [OF assms]
  by (auto simp: linux_dns_in_force_def split: prod.splits)

definition dns_platform :: "(ref_fw, string linux_dns_monitor \<times> ref_dns_state, nat, nat) platform" where
  "dns_platform = with_linux_dns (ref_dns_system []) (\<lambda>_. []) ref_dns_state0 ref_platform"

definition dns_shared :: "string linux_dns_monitor \<times> ref_dns_state
    \<Rightarrow> (ref_fw, ref_dns, nat, nat) shared
    \<Rightarrow> (ref_fw, string linux_dns_monitor \<times> ref_dns_state, nat, nat) shared" where
  "dns_shared d sh = \<lparr>sv_firewall = sv_firewall sh, sv_dns_monitor = d, sv_allow_lan = sv_allow_lan sh,
     sv_block_when_disconnected = sv_block_when_disconnected sh, sv_is_offline = sv_is_offline sh,
     sv_generator = sv_generator sh, sv_tun_provider = sv_tun_provider sh, sv_log_dir = sv_log_dir sh,
     sv_resource_dir = sv_resource_dir sh\<rparr>"

lemmas dns_ref_defs = dns_platform_def with_linux_dns_def dns_shared_def ref_defs

lemma dns_reachable:
  "\<exists>h s1. reachable dns_platform (StConnected ref_connected, dns_shared (\<lparr>lm_inner = Some h\<rparr>, s1) ref_connected_shared)"
proof -
  let ?d0 = "(linux_dns_new, ref_dns_state0)"
  let ?h = "HolderResolvconf \<lparr>rv_record_names = [''wg0.mullvad''], rv_resolvconf = ''/sbin/resolvconf''\<rparr> :: string dns_monitor_holder"
  obtain s1 where s1: "linux_dns_set (ref_dns_system []) ''wg0'' [V4 (ipv4_new 10 64 0 1)] linux_dns_new ref_dns_state0 =
      (Inr (), \<lparr>lm_inner = Some ?h\<rparr>, s1)"
    using ref_resolvconf_set by blast
  have 1: "machine_new dns_platform False False False 0 0 None ''/r'' ''/c'' =
      Inr \<lparr>tm_current_state = Some StDisconnected, tm_shared = dns_shared ?d0 ref_boot_shared\<rparr>"
    by (simp add: machine_new_def disconnected_enter_def disconnected_set_firewall_policy_def
        reset_policy_def dns_ref_defs)
  have 2: "\<exists>r. handle_event dns_platform (cmd_poll CmdConnect) StDisconnected (dns_shared ?d0 ref_boot_shared) =
      (ActNotify (Some (StConnecting ref_connecting)) r, dns_shared ?d0 ref_connecting_shared)"
    by (simp add: disconnected_handle_event_def new_state_def connecting_enter_def
        connecting_set_firewall_policy_def apply_policy_def start_tunnel_def dns_ref_defs)
  have 3: "\<exists>r. handle_event dns_platform (event_poll (EvUp ref_metadata)) (StConnecting ref_connecting)
      (dns_shared ?d0 ref_connecting_shared) =
      (ActNotify (Some (StConnected ref_connected)) r, dns_shared (\<lparr>lm_inner = Some ?h\<rparr>, s1) ref_connected_shared)"
    using s1 by (simp add: connecting_handle_event_eq connecting_handle_tunnel_events_def new_state_def
        connected_enter_def connected_set_firewall_policy_def connected_set_dns_def apply_policy_def
        into_connected_state_bootstrap_def wg_tunnel_metadata_def ref_wg_config_def dns_ref_defs)
  show ?thesis
    using 2 3 by (blast intro: reachable.step [OF reachable.step [OF reachable.start [OF 1]
        machine_step.notify] machine_step.notify])
qed

theorem connected_uses_tunnel_dns_witness:
  "\<exists>h s1. dns_in_use (ref_dns_system []) ref_dns_view h ''wg0'' [V4 (ipv4_new 10 64 0 1)] s1"
proof -
  obtain h s1 where "reachable dns_platform
      (StConnected ref_connected, dns_shared (\<lparr>lm_inner = Some h\<rparr>, s1) ref_connected_shared)"
    using dns_reachable by blast
  from connected_uses_tunnel_dns [OF ref_dns.dns_services_axioms this [unfolded dns_platform_def]] show ?thesis
    by (auto simp: dns_shared_def tunnel_dns_def ref_connected_def into_connected_state_bootstrap_def
        ref_metadata_def wg_tunnel_metadata_def ref_wg_config_def)
qed

end
