(* ===== verification/Dns_Macos.thy ===== *)
theory Dns_Macos
  imports Std_Str "HOL-Library.AList"
begin

text \<open>
  The DNS monitor of macOS (\<open>talpid-core/src/dns/macos.rs\<close>).  The dynamic store of the system is the record
  \<open>mac_store\<close>, whose operations may fail; a \<open>HashMap\<close> is an association list and \<open>mo_order\<close> the order in
  which it is iterated.  The thread with the run loop calls \<open>dns_change_callback\<close>.
\<close>

section \<open>The dynamic store\<close>

datatype cf_value = CfString string | CfArray "cf_value list" | CfOther string

type_synonym cf_dictionary = "string \<rightharpoonup> cf_value"

datatype property_list = PlDict cf_dictionary | PlOther cf_value

record 's mac_store =
  mo_get :: "string \<Rightarrow> 's \<Rightarrow> property_list option"
  mo_set :: "string \<Rightarrow> cf_dictionary \<Rightarrow> 's \<Rightarrow> bool \<times> 's"
  mo_remove :: "string \<Rightarrow> 's \<Rightarrow> bool \<times> 's"
  mo_get_keys :: "string \<Rightarrow> 's \<Rightarrow> string list option"
  mo_notify :: "string list \<Rightarrow> 's \<Rightarrow> bool"
  mo_order :: "string list \<Rightarrow> string list"

datatype mac_dns_error = SettingDnsFailed | DynamicStoreInitError

definition STATE_PATH_PATTERN :: string where
  "STATE_PATH_PATTERN = ''State:/Network/Service/.*/DNS''"

definition SETUP_PATH_PATTERN :: string where
  "SETUP_PATH_PATTERN = ''Setup:/Network/Service/.*/DNS''"

section \<open>The settings of a service\<close>

text \<open>\<open>kSCPropNetDNSServerAddresses\<close>.\<close>

definition SERVER_ADDRESSES :: string where
  "SERVER_ADDRESSES = ''ServerAddresses''"

definition from_server_addresses :: "string list \<Rightarrow> cf_dictionary" where
  "from_server_addresses server_addresses =
     (if server_addresses \<noteq> [] then [SERVER_ADDRESSES \<mapsto> CfArray (map CfString server_addresses)] else Map.empty)"

definition dns_load :: "'s mac_store \<Rightarrow> string \<Rightarrow> 's \<Rightarrow> cf_dictionary option" where
  "dns_load st path s = (case mo_get st path s of Some (PlDict d) \<Rightarrow> Some d | _ \<Rightarrow> None)"

definition dns_save :: "'s mac_store \<Rightarrow> cf_dictionary \<Rightarrow> string \<Rightarrow> 's \<Rightarrow> (mac_dns_error + unit) \<times> 's" where
  "dns_save st settings path s =
     (case mo_set st path settings s of (ok, s) \<Rightarrow> (if ok then Inr () else Inl SettingDnsFailed, s))"

fun parse_cf_array_to_strings :: "cf_value list \<Rightarrow> string list option" where
  "parse_cf_array_to_strings [] = Some []"
| "parse_cf_array_to_strings (item # items) =
     (case item of
        CfString s \<Rightarrow> map_option ((#) s) (parse_cf_array_to_strings items)
      | _ \<Rightarrow> None)"

definition settings_addresses :: "cf_dictionary \<Rightarrow> string list" where
  "settings_addresses d =
     (case d SERVER_ADDRESSES of
        Some (CfArray items) \<Rightarrow> (case parse_cf_array_to_strings items of Some strings \<Rightarrow> strings | None \<Rightarrow> [])
      | _ \<Rightarrow> [])"

section \<open>The monitor\<close>

type_synonym dns_backup = "(string \<times> cf_dictionary option) list"

record mac_dns_state =
  mn_dns_settings :: cf_dictionary
  mn_backup :: dns_backup

definition create_dynamic_store :: "'s mac_store \<Rightarrow> 's \<Rightarrow> mac_dns_error + unit" where
  "create_dynamic_store st s =
     (if mo_notify st [STATE_PATH_PATTERN, SETUP_PATH_PATTERN] s then Inr () else Inl DynamicStoreInitError)"

definition mac_dns_new :: "'s mac_store \<Rightarrow> 's \<Rightarrow> mac_dns_error + mac_dns_state option" where
  "mac_dns_new st s = map_sum id (\<lambda>_. None) (create_dynamic_store st s)"

definition state_to_setup_path :: "string \<Rightarrow> string option" where
  "state_to_setup_path state_path =
     (if starts_with state_path ''State:/'' then Some (''Setup:/'' @ drop 7 state_path) else None)"

fun backup_state_paths :: "'s mac_store \<Rightarrow> 's \<Rightarrow> string list \<Rightarrow> dns_backup \<Rightarrow> dns_backup panics" where
  "backup_state_paths st s [] backup = Returns backup"
| "backup_state_paths st s (state_path # paths) backup =
     (case state_to_setup_path state_path of
        None \<Rightarrow> Panics
      | Some setup_path \<Rightarrow>
          backup_state_paths st s paths
            (AList.update setup_path (dns_load st setup_path s)
               (AList.update state_path (dns_load st state_path s) backup)))"

fun backup_setup_paths :: "'s mac_store \<Rightarrow> 's \<Rightarrow> string list \<Rightarrow> dns_backup \<Rightarrow> dns_backup" where
  "backup_setup_paths st s [] backup = backup"
| "backup_setup_paths st s (setup_path # paths) backup =
     backup_setup_paths st s paths
       (if map_of backup setup_path = None then AList.update setup_path (dns_load st setup_path s) backup
        else backup)"

definition read_all_dns :: "'s mac_store \<Rightarrow> 's \<Rightarrow> dns_backup panics" where
  "read_all_dns st s =
     (case backup_state_paths st s (case mo_get_keys st STATE_PATH_PATTERN s of Some paths \<Rightarrow> paths | None \<Rightarrow> []) [] of
        Panics \<Rightarrow> Panics
      | Returns backup \<Rightarrow>
          Returns (backup_setup_paths st s
            (case mo_get_keys st SETUP_PATH_PATTERN s of Some paths \<Rightarrow> paths | None \<Rightarrow> []) backup))"

text \<open>Saving settings for a list of paths, up to the first failure.\<close>

fun save_all :: "'s mac_store \<Rightarrow> cf_dictionary \<Rightarrow> string list \<Rightarrow> 's \<Rightarrow> (mac_dns_error + unit) \<times> 's" where
  "save_all st settings [] s = (Inr (), s)"
| "save_all st settings (path # paths) s =
     (case dns_save st settings path s of
        (Inl e, s) \<Rightarrow> (Inl e, s)
      | (Inr _, s) \<Rightarrow> save_all st settings paths s)"

definition backup_keys :: "'s mac_store \<Rightarrow> dns_backup \<Rightarrow> string list" where
  "backup_keys st backup = mo_order st (map fst backup)"

text \<open>The state is taken out first: it is gone when a settings entry cannot be saved.\<close>

definition mac_dns_set :: "'s mac_store \<Rightarrow> ip_addr list \<Rightarrow> mac_dns_state option \<Rightarrow> 's
    \<Rightarrow> ((mac_dns_error + unit) \<times> mac_dns_state option \<times> 's) panics" where
  "mac_dns_set st ips state s =
     (let servers = map fmt_ip ips; settings = from_server_addresses servers in
      case state of
        None \<Rightarrow>
          (case read_all_dns st s of
             Panics \<Rightarrow> Panics
           | Returns backup \<Rightarrow>
               Returns (case save_all st settings (backup_keys st backup) s of
                  (Inl e, s) \<Rightarrow> (Inl e, None, s)
                | (Inr _, s) \<Rightarrow> (Inr (), Some \<lparr>mn_dns_settings = settings, mn_backup = backup\<rparr>, s)))
      | Some state \<Rightarrow>
          Returns (if servers \<noteq> settings_addresses (mn_dns_settings state) then
             (case save_all st settings (backup_keys st (mn_backup state)) s of
                (Inl e, s) \<Rightarrow> (Inl e, None, s)
              | (Inr _, s) \<Rightarrow> (Inr (), Some \<lparr>mn_dns_settings = settings, mn_backup = mn_backup state\<rparr>, s))
           else (Inr (), Some state, s)))"

fun restore_all :: "'s mac_store \<Rightarrow> dns_backup \<Rightarrow> string list \<Rightarrow> 's \<Rightarrow> (mac_dns_error + unit) \<times> 's" where
  "restore_all st backup [] s = (Inr (), s)"
| "restore_all st backup (path # paths) s =
     (case map_of backup path of
        Some (Some settings) \<Rightarrow>
          (case dns_save st settings path s of
             (Inl e, s) \<Rightarrow> (Inl e, s)
           | (Inr _, s) \<Rightarrow> restore_all st backup paths s)
      | _ \<Rightarrow>
          (case mo_remove st path s of
             (ok, s) \<Rightarrow> if \<not> ok then (Inl SettingDnsFailed, s) else restore_all st backup paths s))"

definition mac_dns_reset :: "'s mac_store \<Rightarrow> mac_dns_state option \<Rightarrow> 's
    \<Rightarrow> (mac_dns_error + unit) \<times> mac_dns_state option \<times> 's" where
  "mac_dns_reset st state s =
     (case state of
        None \<Rightarrow> (Inr (), None, s)
      | Some state \<Rightarrow>
          (case restore_all st (mn_backup state) (backup_keys st (mn_backup state)) s of (r, s) \<Rightarrow> (r, None, s)))"

section \<open>Changes by others\<close>

text \<open>The corresponding setup entry of a state entry; failures are logged.\<close>

definition set_setup_entry :: "'s mac_store \<Rightarrow> string \<Rightarrow> mac_dns_state \<Rightarrow> 's \<Rightarrow> mac_dns_state \<times> 's" where
  "set_setup_entry st path state s =
     (case state_to_setup_path path of
        None \<Rightarrow> (state, s)
      | Some setup_path \<Rightarrow>
          (let state = (if map_of (mn_backup state) setup_path = None
                then state\<lparr>mn_backup := AList.update setup_path (dns_load st setup_path s) (mn_backup state)\<rparr>
                else state)
           in (state, snd (dns_save st (mn_dns_settings state) setup_path s))))"

definition dns_path_changed :: "'s mac_store \<Rightarrow> string \<Rightarrow> mac_dns_state \<Rightarrow> 's \<Rightarrow> mac_dns_state \<times> 's" where
  "dns_path_changed st path state s =
     (let (should_set_dns, state) =
        (case dns_load st path s of
           None \<Rightarrow> (True, state\<lparr>mn_backup := AList.update path None (mn_backup state)\<rparr>)
         | Some new_settings \<Rightarrow>
             if new_settings \<noteq> mn_dns_settings state
             then (True, state\<lparr>mn_backup := AList.update path (Some new_settings) (mn_backup state)\<rparr>)
             else (False, state))
      in if should_set_dns
         then set_setup_entry st path state (snd (dns_save st (mn_dns_settings state) path s))
         else (state, s))"

fun dns_change_callback_internal :: "'s mac_store \<Rightarrow> string list \<Rightarrow> mac_dns_state \<Rightarrow> 's \<Rightarrow> mac_dns_state \<times> 's" where
  "dns_change_callback_internal st [] state s = (state, s)"
| "dns_change_callback_internal st (path # changed_keys) state s =
     (case dns_path_changed st path state s of
        (state, s) \<Rightarrow> dns_change_callback_internal st changed_keys state s)"

definition dns_change_callback :: "'s mac_store \<Rightarrow> string list \<Rightarrow> mac_dns_state option \<Rightarrow> 's
    \<Rightarrow> mac_dns_state option \<times> 's" where
  "dns_change_callback st changed_keys state s =
     (case state of
        None \<Rightarrow> (None, s)
      | Some state \<Rightarrow> apfst Some (dns_change_callback_internal st changed_keys state s))"

section \<open>What the store promises\<close>

definition reliable_store :: "'s mac_store \<Rightarrow> bool" where
  "reliable_store st \<longleftrightarrow> (\<forall>p d s. fst (mo_set st p d s)) \<and> (\<forall>p s. mo_get st p s \<noteq> None \<longrightarrow> fst (mo_remove st p s))"

locale dynamic_store =
  fixes st :: "'s mac_store"
  assumes set_ok: "mo_set st p d s = (True, s') \<Longrightarrow> mo_get st p s' = Some (PlDict d)"
    and set_other: "mo_set st p d s = (ok, s') \<Longrightarrow> q \<noteq> p \<Longrightarrow> mo_get st q s' = mo_get st q s"
    and remove_ok: "mo_remove st p s = (True, s') \<Longrightarrow> mo_get st p s' = None"
    and remove_other: "mo_remove st p s = (ok, s') \<Longrightarrow> q \<noteq> p \<Longrightarrow> mo_get st q s' = mo_get st q s"
    and state_keys: "mo_get_keys st STATE_PATH_PATTERN s = Some ps \<Longrightarrow> p \<in> set ps \<Longrightarrow> starts_with p ''State:/''"
    and order: "set (mo_order st ks) = set ks" "distinct ks \<Longrightarrow> distinct (mo_order st ks)"
begin

lemma dns_load_set: "reliable_store st \<Longrightarrow> dns_save st d p s = (r, s') \<Longrightarrow>
    r = Inr () \<and> (\<forall>q. dns_load st q s' = (if q = p then Some d else dns_load st q s))"
  using set_ok [of p d s s'] set_other [of p d s _ s']
  by (auto simp: dns_save_def reliable_store_def dns_load_def split: prod.splits if_splits)
    (metis fst_conv)+

lemma dns_load_save: "reliable_store st \<Longrightarrow>
    dns_load st q (snd (dns_save st d p s)) = (if q = p then Some d else dns_load st q s)"
  using dns_load_set [of d p s "fst (dns_save st d p s)" "snd (dns_save st d p s)"] by simp

lemma save_all_ok:
  assumes "reliable_store st"
  shows "\<exists>s'. save_all st d ps s = (Inr (), s') \<and>
    (\<forall>q. dns_load st q s' = (if q \<in> set ps then Some d else dns_load st q s))"
proof (induction ps arbitrary: s)
  case (Cons p ps)
  obtain r s1 where save: "dns_save st d p s = (r, s1)" by fastforce
  note s1 = dns_load_set [OF assms save]
  show ?case using Cons [of s1] save s1 by auto
qed simp

lemma restore_all_ok:
  assumes "reliable_store st" "distinct ps" "\<forall>p \<in> set ps. mo_get st p s \<noteq> None"
  shows "\<exists>s'. restore_all st backup ps s = (Inr (), s') \<and>
    (\<forall>q. dns_load st q s' = (if q \<in> set ps then Option.bind (map_of backup q) (\<lambda>b. b) else dns_load st q s))"
  using assms(2,3)
proof (induction ps arbitrary: s)
  case (Cons p ps)
  show ?case
  proof (cases "Option.bind (map_of backup p) (\<lambda>b. b)")
    case None
    then obtain s1 where rm: "mo_remove st p s = (True, s1)"
      using Cons.prems assms(1) by (metis list.set_intros(1) prod.collapse reliable_store_def)
    then have s1: "dns_load st q s1 = (if q = p then None else dns_load st q s)" for q
      using remove_ok [OF rm] remove_other [OF rm, of q] by (simp add: dns_load_def)
    have "\<forall>q \<in> set ps. mo_get st q s1 \<noteq> None" using Cons.prems remove_other [OF rm] by (metis distinct.simps(2) list.set_intros(2))
    with Cons.IH [of s1] Cons.prems obtain s' where "restore_all st backup ps s1 = (Inr (), s')"
        "\<forall>q. dns_load st q s' = (if q \<in> set ps then Option.bind (map_of backup q) (\<lambda>b. b) else dns_load st q s1)"
      by auto
    then show ?thesis using None rm s1 Cons.prems(1) by (auto split: option.splits)
  next
    case (Some d)
    obtain r s1 where save: "dns_save st d p s = (r, s1)" by fastforce
    note s1 = dns_load_set [OF assms(1) save]
    have "q \<noteq> p \<Longrightarrow> mo_get st q s1 = mo_get st q s" for q
      using save set_other [of p d s] by (auto simp: dns_save_def split: prod.splits)
    then have "\<forall>q \<in> set ps. mo_get st q s1 \<noteq> None"
      using Cons.prems by (metis distinct.simps(2) list.set_intros(2))
    with Cons.IH [of s1] Cons.prems obtain s' where "restore_all st backup ps s1 = (Inr (), s')"
        "\<forall>q. dns_load st q s' = (if q \<in> set ps then Option.bind (map_of backup q) (\<lambda>b. b) else dns_load st q s1)"
      by auto
    then show ?thesis using Some save s1 Cons.prems(1) by (auto split: option.splits)
  qed
qed simp

text \<open>The backup that is read holds the current settings.\<close>

definition snapshot :: "'s \<Rightarrow> dns_backup \<Rightarrow> bool" where
  "snapshot s backup \<longleftrightarrow> distinct (map fst backup) \<and> (\<forall>p b. map_of backup p = Some b \<longrightarrow> b = dns_load st p s)"

lemma snapshot_update: "snapshot s backup \<Longrightarrow> snapshot s (AList.update p (dns_load st p s) backup)"
  by (auto simp: snapshot_def distinct_update update_conv)

lemma backup_state_snapshot:
  "snapshot s backup \<Longrightarrow> backup_state_paths st s ps backup = Returns backup' \<Longrightarrow> snapshot s backup'"
proof (induction ps arbitrary: backup)
  case (Cons p ps)
  then show ?case by (auto split: option.splits) (blast intro: snapshot_update)
qed simp

lemma backup_setup_snapshot: "snapshot s backup \<Longrightarrow> snapshot s (backup_setup_paths st s ps backup)"
  by (induction ps arbitrary: backup) (simp_all add: snapshot_update)

lemma read_all_snapshot: "read_all_dns st s = Returns backup \<Longrightarrow> snapshot s backup"
  using backup_state_snapshot [of s "[]"]
  by (auto simp: read_all_dns_def backup_setup_snapshot snapshot_def [of s "[]"] split: panics.splits)

lemma backup_state_returns:
  "(\<And>p. p \<in> set ps \<Longrightarrow> starts_with p ''State:/'') \<Longrightarrow> backup_state_paths st s ps backup \<noteq> Panics"
  by (induction ps arbitrary: backup) (auto simp: state_to_setup_path_def split: option.splits)

lemma read_all_returns: "read_all_dns st s \<noteq> Panics"
  using backup_state_returns [of "case mo_get_keys st STATE_PATH_PATTERN s of Some ps \<Rightarrow> ps | None \<Rightarrow> []" s "[]"]
    state_keys [of s] by (auto simp: read_all_dns_def split: panics.splits option.splits)

text \<open>
  Between the calls of the callback: every service with a backup has the desired settings, and the backup
  holds what the user wants (\<open>u\<close>); the other services have what the user wants.
\<close>

definition injected :: "(string \<Rightarrow> cf_dictionary option) \<Rightarrow> mac_dns_state \<Rightarrow> 's \<Rightarrow> bool" where
  "injected u state s \<longleftrightarrow> distinct (map fst (mn_backup state)) \<and>
     (\<forall>p. case map_of (mn_backup state) p of
        Some b \<Rightarrow> b = u p \<and> dns_load st p s = Some (mn_dns_settings state)
      | None \<Rightarrow> dns_load st p s = u p)"

lemma injectedI:
  "distinct (map fst (mn_backup state)) \<Longrightarrow>
     (\<And>p b. map_of (mn_backup state) p = Some b \<Longrightarrow> b = u p \<and> dns_load st p s = Some (mn_dns_settings state)) \<Longrightarrow>
     (\<And>p. map_of (mn_backup state) p = None \<Longrightarrow> dns_load st p s = u p) \<Longrightarrow> injected u state s"
  by (simp add: injected_def split: option.split)

lemma injected_distinct: "injected u state s \<Longrightarrow> distinct (map fst (mn_backup state))"
  by (simp add: injected_def)

lemma injectedD:
  "injected u state s \<Longrightarrow> map_of (mn_backup state) p = Some b \<Longrightarrow> b = u p \<and> dns_load st p s = Some (mn_dns_settings state)"
  "injected u state s \<Longrightarrow> map_of (mn_backup state) p = None \<Longrightarrow> dns_load st p s = u p"
  unfolding injected_def by (force split: option.splits)+

lemma mac_set_injected:
  assumes "reliable_store st"
  shows "\<exists>state s'. mac_dns_set st ips None s = Returns (Inr (), Some state, s') \<and>
    mn_dns_settings state = from_server_addresses (map fmt_ip ips) \<and>
    injected (\<lambda>p. dns_load st p s) state s' \<and> read_all_dns st s = Returns (mn_backup state)"
proof -
  obtain backup where b: "read_all_dns st s = Returns backup"
    using read_all_returns [of s] by (cases "read_all_dns st s") auto
  let ?d = "from_server_addresses (map fmt_ip ips)"
  obtain s' where s': "save_all st ?d (backup_keys st backup) s = (Inr (), s')"
      "\<forall>q. dns_load st q s' = (if q \<in> fst ` set backup then Some ?d else dns_load st q s)"
    using save_all_ok [OF assms, of ?d "backup_keys st backup" s] by (auto simp: backup_keys_def order)
  have "injected (\<lambda>p. dns_load st p s) \<lparr>mn_dns_settings = ?d, mn_backup = backup\<rparr> s'"
    using read_all_snapshot [OF b] s'(2)
    by (auto simp: injected_def snapshot_def map_of_eq_None_iff split: option.split dest: map_of_SomeD)
      (metis fst_conv image_eqI map_of_SomeD)
  then show ?thesis using b s'(1) by (simp add: mac_dns_set_def Let_def)
qed

lemma mac_reset_restores:
  assumes "reliable_store st" and inj: "injected u state s"
  shows "\<exists>s'. mac_dns_reset st (Some state) s = (Inr (), None, s') \<and> (\<forall>p. dns_load st p s' = u p)"
proof -
  let ?ps = "backup_keys st (mn_backup state)"
  have mem: "p \<in> set ?ps \<longleftrightarrow> map_of (mn_backup state) p \<noteq> None" for p
    by (simp add: backup_keys_def order map_of_eq_None_iff)
  have "\<forall>p \<in> set ?ps. mo_get st p s \<noteq> None"
    using injectedD(1) [OF inj] mem by (metis (no_types, lifting) dns_load_def not_None_eq option.simps(4))
  moreover have "distinct ?ps" using inj by (simp add: injected_def backup_keys_def order)
  ultimately obtain s' where "restore_all st (mn_backup state) ?ps s = (Inr (), s')"
      "\<forall>q. dns_load st q s' = (if q \<in> set ?ps then Option.bind (map_of (mn_backup state) q) (\<lambda>b. b) else dns_load st q s)"
    using restore_all_ok [OF assms(1)] by blast
  moreover have "Option.bind (map_of (mn_backup state) q) (\<lambda>b. b) = u q" if "q \<in> set ?ps" for q
    using that injectedD(1) [OF inj, of q] by (auto simp: mem)
  ultimately show ?thesis
    using injectedD(2) [OF inj] by (simp add: mac_dns_reset_def mem)
qed

text \<open>A change of one service by others is taken over into the backup and undone in the store.\<close>

lemma setup_path_differs:
  assumes "state_to_setup_path p = Some q"
  shows "q \<noteq> p"
proof -
  have "starts_with p ''State:/''" "q = ''Setup:/'' @ drop 7 p"
    using assms by (simp_all add: state_to_setup_path_def split: if_splits)
  moreover have "\<not> starts_with (''Setup:/'' @ drop 7 p) ''State:/''" by (simp add: starts_with_def)
  ultimately show ?thesis by metis
qed

lemma set_setup_entry_injected:
  assumes "reliable_store st" and inj: "injected u state s"
    and "set_setup_entry st p state s = (state', s')"
  shows "injected u state' s' \<and> mn_dns_settings state' = mn_dns_settings state \<and>
    dom (map_of (mn_backup state)) \<subseteq> dom (map_of (mn_backup state'))"
proof (cases "state_to_setup_path p")
  case None
  then show ?thesis using assms by (simp add: set_setup_entry_def)
next
  case (Some q)
  let ?state = "if map_of (mn_backup state) q = None
    then state\<lparr>mn_backup := AList.update q (dns_load st q s) (mn_backup state)\<rparr> else state"
  have r: "state' = ?state" "s' = snd (dns_save st (mn_dns_settings state) q s)"
    using assms(3) Some by (auto simp: set_setup_entry_def Let_def split: if_splits)
  have "injected u state' s'"
    unfolding r using injected_distinct [OF inj] injectedD [OF inj]
    by (intro injectedI) (auto simp: dns_load_save [OF assms(1)] distinct_update update_conv
        simp del: map_of_eq_Some_iff Some_eq_map_of_iff split: if_splits)
  then show ?thesis by (auto simp: r update_conv)
qed

lemma path_changed_injected:
  assumes "reliable_store st" and inj: "injected u state s"
    and others: "\<And>q. q \<noteq> p \<Longrightarrow> dns_load st q s1 = dns_load st q s"
    and changed: "dns_load st p s1 \<noteq> Some (mn_dns_settings state)"
    and step: "dns_path_changed st p state s1 = (state', s')"
  shows "injected (u(p := dns_load st p s1)) state' s' \<and> mn_dns_settings state' = mn_dns_settings state \<and>
    insert p (dom (map_of (mn_backup state))) \<subseteq> dom (map_of (mn_backup state'))"
proof -
  let ?state = "state\<lparr>mn_backup := AList.update p (dns_load st p s1) (mn_backup state)\<rparr>"
  let ?s = "snd (dns_save st (mn_dns_settings state) p s1)"
  have step': "set_setup_entry st p ?state ?s = (state', s')"
    using step changed by (auto simp: dns_path_changed_def split: option.splits)
  have "injected (u(p := dns_load st p s1)) ?state ?s"
    using injected_distinct [OF inj] injectedD [OF inj]
    by (intro injectedI) (auto simp: dns_load_save [OF assms(1)] others distinct_update update_conv
        simp del: map_of_eq_Some_iff Some_eq_map_of_iff split: if_splits)
  moreover have "insert p (dom (map_of (mn_backup state))) \<subseteq> dom (map_of (mn_backup ?state))"
    by (auto simp: update_conv)
  ultimately show ?thesis using set_setup_entry_injected [OF assms(1) _ step'] by (simp del: fun_upd_apply) blast
qed

lemma callback_ignores_own:
  assumes "\<And>p. p \<in> set ps \<Longrightarrow> dns_load st p s = Some (mn_dns_settings state)"
  shows "dns_change_callback_internal st ps state s = (state, s)"
  using assms by (induction ps) (simp_all add: dns_path_changed_def)

end

text \<open>
  A history after the servers were set: others change the settings of one service and the callback is
  called for it, or the callback is called for entries that have the desired settings.  The list holds
  the changes of the others.
\<close>

inductive mac_history :: "'s mac_store \<Rightarrow> mac_dns_state \<times> 's \<Rightarrow> (string \<times> cf_dictionary option) list
    \<Rightarrow> mac_dns_state \<times> 's \<Rightarrow> bool" for st c where
  history_empty: "mac_history st c [] c"
| history_change: "mac_history st c es (state, s) \<Longrightarrow> dns_load st p s1 = v \<Longrightarrow>
    (\<And>q. q \<noteq> p \<Longrightarrow> dns_load st q s1 = dns_load st q s) \<Longrightarrow> v \<noteq> Some (mn_dns_settings state) \<Longrightarrow>
    dns_change_callback st [p] (Some state) s1 = (Some state', s') \<Longrightarrow>
    mac_history st c (es @ [(p, v)]) (state', s')"
| history_own: "mac_history st c es (state, s) \<Longrightarrow>
    (\<And>p. p \<in> set ps \<Longrightarrow> dns_load st p s = Some (mn_dns_settings state)) \<Longrightarrow>
    dns_change_callback st ps (Some state) s = (Some state', s') \<Longrightarrow> mac_history st c es (state', s')"

definition changed_by_others :: "(string \<Rightarrow> cf_dictionary option) \<Rightarrow> (string \<times> cf_dictionary option) list
    \<Rightarrow> string \<Rightarrow> cf_dictionary option" where
  "changed_by_others u es = foldl (\<lambda>u (p, v). u(p := v)) u es"

context dynamic_store
begin

lemma history_injected:
  assumes "reliable_store st" and "mac_history st c es c'" and "injected u (fst c) (snd c)"
  shows "injected (changed_by_others u es) (fst c') (snd c') \<and>
    mn_dns_settings (fst c') = mn_dns_settings (fst c) \<and>
    fst ` set es \<union> dom (map_of (mn_backup (fst c))) \<subseteq> dom (map_of (mn_backup (fst c')))"
  using assms(2)
proof induction
  case history_empty
  then show ?case using assms(3) by (simp add: changed_by_others_def)
next
  case (history_change es state s p s1 v state' s')
  have step: "dns_path_changed st p state s1 = (state', s')"
    using history_change.hyps(5) by (simp add: dns_change_callback_def split: prod.splits)
  have IH: "injected (changed_by_others u es) state s" "mn_dns_settings state = mn_dns_settings (fst c)"
      "fst ` set es \<union> dom (map_of (mn_backup (fst c))) \<subseteq> dom (map_of (mn_backup state))"
    using history_change.IH by simp_all
  have "injected ((changed_by_others u es)(p := v)) state' s' \<and> mn_dns_settings state' = mn_dns_settings state \<and>
      insert p (dom (map_of (mn_backup state))) \<subseteq> dom (map_of (mn_backup state'))"
    using path_changed_injected [OF assms(1) IH(1) history_change.hyps(3) _ step] history_change.hyps(2,4) by simp
  moreover have "changed_by_others u (es @ [(p, v)]) = (changed_by_others u es)(p := v)"
    by (simp add: changed_by_others_def)
  ultimately show ?case using IH(2,3) by (simp del: fun_upd_apply) blast
next
  case (history_own es state s ps state' s')
  then show ?case by (auto simp: dns_change_callback_def callback_ignores_own)
qed

end

section \<open>A reference store\<close>

definition ref_mac_store :: "(string \<times> property_list) list mac_store" where
  "ref_mac_store = \<lparr>
     mo_get = (\<lambda>p s. map_of s p),
     mo_set = (\<lambda>p d s. (True, AList.update p (PlDict d) s)),
     mo_remove = (\<lambda>p s. (map_of s p \<noteq> None, AList.delete p s)),
     mo_get_keys = (\<lambda>pattern s. Some (filter (\<lambda>k. starts_with k (take 7 pattern)) (map fst s))),
     mo_notify = (\<lambda>ks s. True), mo_order = rev\<rparr>"

interpretation ref_mac: dynamic_store ref_mac_store
  by unfold_locales (auto simp: ref_mac_store_def update_conv delete_conv STATE_PATH_PATTERN_def)

lemma ref_mac_reliable: "reliable_store ref_mac_store"
  by (simp add: reliable_store_def ref_mac_store_def)

section \<open>Properties\<close>

text \<open>
  C33.  With a dynamic store whose operations succeed, setting DNS servers on macOS succeeds without a panic.
  Let others then change the settings, one service entry at a time, the callback handling each change
  before the next one (an entry changed before the callback has run can be lost, see
  \<open>pending_setup_change_lost\<close>).  Then every service that had DNS settings or has been changed has exactly
  the servers of the tunnel, and resetting gives every service the settings the user had, with all the
  changes the others made.\<close>

theorem mac_dns_restored:
  assumes "dynamic_store st" and "reliable_store st"
  shows "\<exists>state s1. mac_dns_set st ips None s0 = Returns (Inr (), Some state, s1) \<and>
    (\<forall>es state' s2. mac_history st (state, s1) es (state', s2) \<longrightarrow>
      (\<forall>p \<in> fst ` set es \<union> fst ` set (mn_backup state).
         dns_load st p s2 = Some (from_server_addresses (map fmt_ip ips))) \<and>
      (\<exists>s3. mac_dns_reset st (Some state') s2 = (Inr (), None, s3) \<and>
         (\<forall>p. dns_load st p s3 = changed_by_others (\<lambda>p. dns_load st p s0) es p)))"
proof -
  note store = assms(1)
  obtain state s1 where set: "mac_dns_set st ips None s0 = Returns (Inr (), Some state, s1)"
      "mn_dns_settings state = from_server_addresses (map fmt_ip ips)"
      "dynamic_store.injected st (\<lambda>p. dns_load st p s0) state s1"
    using dynamic_store.mac_set_injected [OF store assms(2), of ips s0] by blast
  have "(\<forall>p \<in> fst ` set es \<union> fst ` set (mn_backup state).
         dns_load st p s2 = Some (from_server_addresses (map fmt_ip ips))) \<and>
      (\<exists>s3. mac_dns_reset st (Some state') s2 = (Inr (), None, s3) \<and>
         (\<forall>p. dns_load st p s3 = changed_by_others (\<lambda>p. dns_load st p s0) es p))"
    if "mac_history st (state, s1) es (state', s2)" for es state' s2
  proof -
    have inj: "dynamic_store.injected st (changed_by_others (\<lambda>p. dns_load st p s0) es) state' s2"
        "mn_dns_settings state' = mn_dns_settings state"
        "fst ` set es \<union> dom (map_of (mn_backup state)) \<subseteq> dom (map_of (mn_backup state'))"
      using dynamic_store.history_injected [OF store assms(2) that] set(3) by simp_all
    have "dns_load st p s2 = Some (from_server_addresses (map fmt_ip ips))"
      if "p \<in> fst ` set es \<union> fst ` set (mn_backup state)" for p
    proof -
      have "p \<in> dom (map_of (mn_backup state'))" using that inj(3) by (auto simp: dom_map_of_conv_image_fst)
      then show ?thesis using dynamic_store.injectedD(1) [OF store inj(1), of p] inj(2) set(2) by auto
    qed
    with dynamic_store.mac_reset_restores [OF store assms(2) inj(1)] show ?thesis by blast
  qed
  with set(1) show ?thesis by blast
qed

theorem mac_dns_restored_witness:
  "\<exists>state s1 state' s2 s3. mac_dns_set ref_mac_store [V4 5] None [] = Returns (Inr (), Some state, s1) \<and>
     dns_change_callback ref_mac_store [''State:/x''] (Some state) (AList.update ''State:/x'' (PlDict Map.empty) s1) =
       (Some state', s2) \<and>
     mac_dns_reset ref_mac_store (Some state') s2 = (Inr (), None, s3) \<and>
     dns_load ref_mac_store ''State:/x'' s3 = Some Map.empty"
proof -
  obtain state s1 where set: "mac_dns_set ref_mac_store [V4 5] None [] = Returns (Inr (), Some state, s1)"
    and all: "\<forall>es state' s2. mac_history ref_mac_store (state, s1) es (state', s2) \<longrightarrow>
      (\<forall>p \<in> fst ` set es \<union> fst ` set (mn_backup state).
         dns_load ref_mac_store p s2 = Some (from_server_addresses (map fmt_ip [V4 5]))) \<and>
      (\<exists>s3. mac_dns_reset ref_mac_store (Some state') s2 = (Inr (), None, s3) \<and>
        (\<forall>p. dns_load ref_mac_store p s3 = changed_by_others (\<lambda>p. dns_load ref_mac_store p []) es p))"
    by (rule exE [OF mac_dns_restored [OF ref_mac.dynamic_store_axioms ref_mac_reliable, of "[V4 5]" "[]"]])
      (elim exE conjE)
  have settings: "mn_dns_settings state = from_server_addresses [fmt_ip (V4 5)]"
    using ref_mac.mac_set_injected [OF ref_mac_reliable, of "[V4 5]" "[]"] set by auto
  let ?s = "AList.update ''State:/x'' (PlDict Map.empty) s1"
  have load: "dns_load ref_mac_store q ?s = (if q = ''State:/x'' then Some Map.empty else dns_load ref_mac_store q s1)" for q
    by (simp add: dns_load_def ref_mac_store_def update_conv)
  obtain state' s2 where cb: "dns_change_callback ref_mac_store [''State:/x''] (Some state) ?s = (Some state', s2)"
    by (cases "dns_change_callback_internal ref_mac_store [''State:/x''] state ?s") (simp add: dns_change_callback_def)
  have "mac_history ref_mac_store (state, s1) ([] @ [(''State:/x'', Some Map.empty)]) (state', s2)"
    by (rule history_change [OF history_empty _ _ _ cb])
      (simp_all add: load settings from_server_addresses_def fun_eq_iff)
  with all have "\<exists>s3. mac_dns_reset ref_mac_store (Some state') s2 = (Inr (), None, s3) \<and>
      (\<forall>p. dns_load ref_mac_store p s3 =
        changed_by_others (\<lambda>p. dns_load ref_mac_store p []) ([] @ [(''State:/x'', Some Map.empty)]) p)"
    by (elim allE impE conjE)
  then obtain s3 where "mac_dns_reset ref_mac_store (Some state') s2 = (Inr (), None, s3)"
      "\<forall>p. dns_load ref_mac_store p s3 =
        changed_by_others (\<lambda>p. dns_load ref_mac_store p []) ([] @ [(''State:/x'', Some Map.empty)]) p"
    by (elim exE conjE)
  then show ?thesis using set cb by (auto simp: changed_by_others_def)
qed

text \<open>
  A pending change of the setup entry is lost when the change of its state entry is handled first: the
  entry is overwritten, and the backup is not the new value.\<close>

lemma pending_setup_change_lost:
  assumes "dynamic_store st" "reliable_store st" "state_to_setup_path p = Some q"
    and "map_of (mn_backup state) q = Some b" "dns_load st p s \<noteq> Some (mn_dns_settings state)"
    and "dns_path_changed st p state s = (state', s')"
  shows "map_of (mn_backup state') q = Some b \<and> dns_load st q s' = Some (mn_dns_settings state)"
  using assms dynamic_store.setup_path_differs [OF assms(1,3)]
  by (auto simp: dns_path_changed_def set_setup_entry_def update_conv dynamic_store.dns_load_save
      split: option.splits)

text \<open>When an entry cannot be saved, the backup of all services is forgotten.\<close>

lemma failed_save_forgets_backup:
  "mac_dns_set st ips state s = Returns (Inl e, state', s') \<Longrightarrow> state' = None"
  by (auto simp: mac_dns_set_def Let_def split: option.splits panics.splits prod.splits sum.splits if_splits)

end
