(* ===== verification/Offline.thy ===== *)
theory Offline
  imports Daemon_Machine
begin

text \<open>
  The offline monitors (\<open>talpid-core/src/offline/{linux,macos,windows}.rs\<close>): they watch the network and send
  \<open>IsOffline\<close> commands to the tunnel state machine.  What the system answers is an input of every call.
  The locale \<open>offline_source\<close> is what the machine needs of a monitor; each platform interprets it.
\<close>

section \<open>Linux\<close>

datatype offline_error =
    GetLinksError | NetlinkConnectionError | NetlinkBindError | NetlinkError | MonitorNetlinkError
  | NetlinkDisconnected

datatype link_layer = LayerLoopback | LayerNone | LayerIrda | LayerOther u16

datatype link_info_kind = KindDummy | KindBridge | KindTun | KindNlmon | KindIpTun | KindOther string

datatype link_info = InfoKind link_info_kind | InfoOther

datatype if_nla = NlaLinkInfo "link_info list" | NlaOther

record if_link =
  il_index :: u32
  il_layer :: link_layer
  il_running :: bool
  il_nlas :: "if_nla list"

text \<open>
  How a request on the netlink connection ends: the connection ends or fails first, or the request is
  answered or fails.  An address is given by the index of its interface.
\<close>

datatype 'a request_outcome = ConnectionEnded | ConnectionFailed | RequestOk 'a | RequestFailed

record netlink_answers =
  na_connected :: bool
  na_links :: "if_link list request_outcome"
  na_addresses :: "u32 list request_outcome"

text \<open>The second component says whether the connection is still there.\<close>

definition execute_request :: "'a request_outcome \<Rightarrow> bool \<Rightarrow> (offline_error + 'a) \<times> bool" where
  "execute_request outcome connection =
     (if \<not> connection then (Inl NetlinkDisconnected, False)
      else (case outcome of
              ConnectionEnded \<Rightarrow> (Inl NetlinkDisconnected, False)
            | ConnectionFailed \<Rightarrow> (Inl NetlinkError, False)
            | RequestOk x \<Rightarrow> (Inr x, True)
            | RequestFailed \<Rightarrow> (Inl GetLinksError, True)))"

fun info_kind :: "link_info list \<Rightarrow> link_info_kind option" where
  "info_kind [] = None"
| "info_kind (InfoKind kind # _) = Some kind"
| "info_kind (InfoOther # infos) = info_kind infos"

fun is_virtual_interface :: "if_nla list \<Rightarrow> bool" where
  "is_virtual_interface [] = False"
| "is_virtual_interface (NlaOther # nlas) = is_virtual_interface nlas"
| "is_virtual_interface (NlaLinkInfo infos # nlas) =
     (case info_kind infos of
        Some kind \<Rightarrow> kind \<in> {KindDummy, KindBridge, KindTun, KindNlmon, KindIpTun}
      | None \<Rightarrow> is_virtual_interface nlas)"

definition link_provides_connectivity :: "if_link \<Rightarrow> bool" where
  "link_provides_connectivity link \<longleftrightarrow>
     il_layer link \<noteq> LayerLoopback \<and> il_layer link \<noteq> LayerNone \<and> il_layer link \<noteq> LayerIrda \<and>
     il_running link \<and> \<not> is_virtual_interface (il_nlas link)"

definition running_interfaces :: "if_link list request_outcome \<Rightarrow> bool \<Rightarrow> (offline_error + u32 set) \<times> bool" where
  "running_interfaces links connection =
     apfst (map_sum id (\<lambda>ls. set (map il_index (filter link_provides_connectivity ls))))
       (execute_request links connection)"

definition check_if_offline :: "netlink_answers \<Rightarrow> offline_error + bool" where
  "check_if_offline a =
     (if \<not> na_connected a then Inl NetlinkConnectionError
      else
        (case running_interfaces (na_links a) True of
           (Inl e, _) \<Rightarrow> Inl e
         | (Inr interfaces, connection) \<Rightarrow>
             if interfaces = {} then Inr True
             else
               (case execute_request (na_addresses a) connection of
                  (Inl e, _) \<Rightarrow> Inl e
                | (Inr addresses, _) \<Rightarrow> Inr (list_all (\<lambda>index. index \<notin> interfaces) addresses))))"

definition linux_is_offline :: "netlink_answers \<Rightarrow> bool" where
  "linux_is_offline a = (case check_if_offline a of Inr b \<Rightarrow> b | Inl _ \<Rightarrow> False)"

text \<open>The monitor; what it sends is returned.\<close>

record link_monitor =
  lo_is_offline :: bool

definition link_monitor_new :: "netlink_answers \<Rightarrow> link_monitor" where
  "link_monitor_new a = \<lparr>lo_is_offline = linux_is_offline a\<rparr>"

definition set_is_offline :: "bool \<Rightarrow> link_monitor \<Rightarrow> link_monitor \<times> tunnel_command list" where
  "set_is_offline is_offline m =
     (if lo_is_offline m \<noteq> is_offline then (m\<lparr>lo_is_offline := is_offline\<rparr>, [CmdIsOffline is_offline])
      else (m, []))"

definition link_monitor_update :: "netlink_answers \<Rightarrow> link_monitor \<Rightarrow> link_monitor \<times> tunnel_command list" where
  "link_monitor_update a m = set_is_offline (linux_is_offline a) m"

definition link_monitor_reset :: "link_monitor \<Rightarrow> link_monitor \<times> tunnel_command list" where
  "link_monitor_reset m = (m, [CmdIsOffline False])"

text \<open>
  The event loop: an update for every message, and the reset when the connection or the channel has
  ended (\<open>ended\<close>).
\<close>

fun monitor_updates :: "netlink_answers list \<Rightarrow> link_monitor \<Rightarrow> link_monitor \<times> tunnel_command list" where
  "monitor_updates [] m = (m, [])"
| "monitor_updates (a # as) m =
     (case link_monitor_update a m of (m, cs) \<Rightarrow> apsnd ((@) cs) (monitor_updates as m))"

definition monitor_event_loop :: "netlink_answers list \<Rightarrow> bool \<Rightarrow> link_monitor \<Rightarrow> link_monitor \<times> tunnel_command list" where
  "monitor_event_loop messages ended m =
     (case monitor_updates messages m of
        (m, cs) \<Rightarrow> if ended then apsnd ((@) cs) (link_monitor_reset m) else (m, cs))"

section \<open>macOS\<close>

text \<open>The host is offline when the dynamic store has no primary interface.\<close>

definition mac_is_offline :: "'v option \<Rightarrow> bool" where
  "mac_is_offline primary_interface = (primary_interface = None)"

definition primary_interface_change_callback :: "'v option \<Rightarrow> tunnel_command list" where
  "primary_interface_change_callback primary_interface =
     (let is_offline = (primary_interface = None) in [CmdIsOffline is_offline])"

section \<open>Windows\<close>

definition WM_POWERBROADCAST :: nat where "WM_POWERBROADCAST = 536"
definition PBT_APMSUSPEND :: nat where "PBT_APMSUSPEND = 4"
definition PBT_APMRESUMEAUTOMATIC :: nat where "PBT_APMRESUMEAUTOMATIC = 18"

datatype state_change = NetworkConnectivity bool | Suspended bool

record system_state =
  ws_network_connectivity :: bool
  ws_suspended :: bool

definition is_offline_currently :: "system_state \<Rightarrow> bool" where
  "is_offline_currently s \<longleftrightarrow> \<not> ws_network_connectivity s \<or> ws_suspended s"

definition apply_change :: "state_change \<Rightarrow> system_state \<Rightarrow> system_state \<times> tunnel_command list" where
  "apply_change change s =
     (let old_state = is_offline_currently s;
          s = (case change of
                 NetworkConnectivity connectivity \<Rightarrow> s\<lparr>ws_network_connectivity := connectivity\<rparr>
               | Suspended suspended \<Rightarrow> s\<lparr>ws_suspended := suspended\<rparr>);
          new_state = is_offline_currently s
      in (s, if old_state \<noteq> new_state then [CmdIsOffline new_state] else []))"

text \<open>
  The listener: its state and the number of threads that wait for the TAP adapter before they report
  that the host has resumed.  \<open>active\<close> is the answer of the connectivity monitor when it is started.
\<close>

record broadcast_listener =
  bl_state :: system_state
  bl_resuming :: nat

definition broadcast_listener_start :: "bool option \<Rightarrow> unit + broadcast_listener" where
  "broadcast_listener_start active =
     (case active of
        None \<Rightarrow> Inl ()
      | Some current_connectivity \<Rightarrow>
          Inr \<lparr>bl_state = \<lparr>ws_network_connectivity = current_connectivity, ws_suspended = False\<rparr>, bl_resuming = 0\<rparr>)"

definition bl_apply :: "state_change \<Rightarrow> broadcast_listener \<Rightarrow> broadcast_listener \<times> tunnel_command list" where
  "bl_apply change l = (case apply_change change (bl_state l) of (s, cs) \<Rightarrow> (l\<lparr>bl_state := s\<rparr>, cs))"

definition power_broadcast_callback :: "nat \<Rightarrow> nat \<Rightarrow> broadcast_listener \<Rightarrow> broadcast_listener \<times> tunnel_command list" where
  "power_broadcast_callback message wparam l =
     (if message = WM_POWERBROADCAST then
        (if wparam = PBT_APMSUSPEND then bl_apply (Suspended True) l
         else if wparam = PBT_APMRESUMEAUTOMATIC then (l\<lparr>bl_resuming := bl_resuming l + 1\<rparr>, [])
         else (l, []))
      else (l, []))"

definition resume_thread :: "broadcast_listener \<Rightarrow> broadcast_listener \<times> tunnel_command list" where
  "resume_thread l =
     (if bl_resuming l = 0 then (l, [])
      else bl_apply (Suspended False) (l\<lparr>bl_resuming := bl_resuming l - 1\<rparr>))"

definition connectivity_callback :: "bool \<Rightarrow> broadcast_listener \<Rightarrow> broadcast_listener \<times> tunnel_command list" where
  "connectivity_callback connectivity l = bl_apply (NetworkConnectivity connectivity) l"

definition windows_is_offline :: "(unit + bool) \<Rightarrow> bool" where
  "windows_is_offline answer = (case answer of Inr state \<Rightarrow> state | Inl _ \<Rightarrow> False)"

datatype windows_event = WindowsMessage nat nat | ResumeThread | ConnectivityChanged bool

fun windows_update :: "windows_event \<Rightarrow> broadcast_listener \<Rightarrow> broadcast_listener \<times> tunnel_command list" where
  "windows_update (WindowsMessage message wparam) = power_broadcast_callback message wparam"
| "windows_update ResumeThread = resume_thread"
| "windows_update (ConnectivityChanged b) = connectivity_callback b"

section \<open>What a monitor promises\<close>

text \<open>What a receiver of the commands believes.\<close>

fun offline_view :: "tunnel_command \<Rightarrow> bool \<Rightarrow> bool" where
  "offline_view (CmdIsOffline b) v = b"
| "offline_view _ v = v"

locale offline_source =
  fixes offline_now :: "'m \<Rightarrow> bool" and monitor_update :: "'e \<Rightarrow> 'm \<Rightarrow> 'm \<times> tunnel_command list"
  assumes reports: "monitor_update e m = (m', cs) \<Longrightarrow> fold offline_view cs (offline_now m) = offline_now m'"
    and only_offline: "monitor_update e m = (m', cs) \<Longrightarrow> c \<in> set cs \<Longrightarrow> \<exists>b. c = CmdIsOffline b"
begin

fun run :: "'e list \<Rightarrow> 'm \<Rightarrow> 'm \<times> tunnel_command list" where
  "run [] m = (m, [])"
| "run (e # es) m = (case monitor_update e m of (m, cs) \<Rightarrow> apsnd ((@) cs) (run es m))"

lemma run_reports:
  "run es m = (m', cs) \<Longrightarrow> fold offline_view cs (offline_now m) = offline_now m' \<and> set cs \<subseteq> range CmdIsOffline"
proof (induction es arbitrary: m cs)
  case (Cons e es)
  obtain m1 cs1 where e: "monitor_update e m = (m1, cs1)" by fastforce
  obtain m2 cs2 where es: "run es m1 = (m2, cs2)" by fastforce
  then have "m2 = m'" "cs = cs1 @ cs2" using Cons.prems e by simp_all
  with Cons.IH [of m1 cs2] es reports [OF e] only_offline [OF e] show ?case by auto
qed simp

end

interpretation linux_offline: offline_source lo_is_offline link_monitor_update
  by unfold_locales (auto simp: link_monitor_update_def set_is_offline_def split: if_splits)

interpretation mac_offline: offline_source id
    "\<lambda>primary (_ :: bool). (mac_is_offline primary, primary_interface_change_callback primary)"
  by unfold_locales (auto simp: mac_is_offline_def primary_interface_change_callback_def)

interpretation windows_offline: offline_source "\<lambda>l. is_offline_currently (bl_state l)" windows_update
proof
  fix e l l' cs
  have report: "bl_apply ch l = (l', cs) \<Longrightarrow>
      fold offline_view cs (is_offline_currently (bl_state l)) = is_offline_currently (bl_state l') \<and>
      set cs \<subseteq> range CmdIsOffline" for ch l l' cs
    by (auto simp: bl_apply_def apply_change_def Let_def split: if_splits)
  assume u: "windows_update e l = (l', cs)"
  then show "fold offline_view cs (is_offline_currently (bl_state l)) = is_offline_currently (bl_state l')"
    by (cases e) (auto simp: power_broadcast_callback_def resume_thread_def connectivity_callback_def
        split: if_splits dest: report)
  from u show "\<exists>b. c = CmdIsOffline b" if "c \<in> set cs" for c
    using that by (cases e) (auto simp: power_broadcast_callback_def resume_thread_def connectivity_callback_def
        split: if_splits dest: report)
qed

lemma monitor_updates_run: "monitor_updates as m = linux_offline.run as m"
  by (induction as arbitrary: m) (auto split: prod.splits)

lemma monitor_updates_now:
  "lo_is_offline (fst (monitor_updates as m)) = (if as = [] then lo_is_offline m else linux_is_offline (last as))"
  by (induction as arbitrary: m)
    (auto simp: link_monitor_update_def set_is_offline_def split: prod.splits if_splits)

lemma event_loop_reports:
  "monitor_event_loop messages ended m = (m', cs) \<Longrightarrow>
     fold offline_view cs (lo_is_offline m) =
       (if ended then False else if messages = [] then lo_is_offline m else linux_is_offline (last messages))"
  using linux_offline.run_reports [of messages m "fst (monitor_updates messages m)" "snd (monitor_updates messages m)"]
    monitor_updates_now [of messages m]
  by (auto simp: monitor_event_loop_def monitor_updates_run [symmetric] link_monitor_reset_def split: prod.splits)

section \<open>The machine follows the monitor\<close>

lemma set_policy_is_offline [simp]:
  "sv_is_offline (snd (apply_policy pf p sh)) = sv_is_offline sh"
  "sv_is_offline (snd (reset_policy pf sh)) = sv_is_offline sh"
  "sv_is_offline (reset_dns pf sh) = sv_is_offline sh"
  "sv_is_offline (disconnected_set_firewall_policy pf sh) = sv_is_offline sh"
  "sv_is_offline (snd (blocked_set_firewall_policy pf sh)) = sv_is_offline sh"
  by (auto simp: apply_policy_def reset_policy_def reset_dns_def disconnected_set_firewall_policy_def
      blocked_set_firewall_policy_def split: prod.split sum.split)

lemma blocked_enter_is_offline [simp]:
  "sv_is_offline (snd (snd (blocked_enter pf r sh))) = sv_is_offline sh"
  by (rule blocked_enter_cases [of pf r sh]) (simp add: same_settings_def)

lemma enter_is_offline [simp]:
  "sv_is_offline (snd (snd (connecting_enter pf n sh))) = sv_is_offline sh"
  "sv_is_offline (snd (snd (connected_enter pf c sh))) = sv_is_offline sh"
  "sv_is_offline (snd (snd (disconnecting_enter pf t a sh))) = sv_is_offline sh"
  "sv_is_offline (snd (snd (disconnected_enter pf sh))) = sv_is_offline sh"
proof -
  show "sv_is_offline (snd (snd (connecting_enter pf n sh))) = sv_is_offline sh"
    by (rule connecting_enter_cases [of pf n sh]) (auto simp: same_settings_def)
  show "sv_is_offline (snd (snd (connected_enter pf c sh))) = sv_is_offline sh"
    by (metis connected_enter_settings prod.collapse)
qed (simp_all add: disconnecting_enter_def disconnected_enter_def)

lemma disconnecting_command_offline:
  "disconnecting_command a e sh = (a', sh') \<Longrightarrow>
     sv_is_offline sh' = fold offline_view (case e of None \<Rightarrow> [] | Some c \<Rightarrow> [c]) (sv_is_offline sh)"
  by (cases "(a, e, sh)" rule: disconnecting_command.cases) auto

lemma handle_event_offline:
  assumes "handle_event pf ps st sh = (act, sh')"
  shows "sv_is_offline sh' = fold offline_view (polled (po_commands ps)) (sv_is_offline sh)"
proof -
  have view: "offline_view c v = (case c of CmdIsOffline b \<Rightarrow> b | _ \<Rightarrow> v)" for c v by (cases c) simp_all
  have "sv_is_offline (snd (handle_event pf ps st sh)) =
      fold offline_view (polled (po_commands ps)) (sv_is_offline sh)"
  proof (cases st)
    case (StConnecting c)
    then show ?thesis
      by (cases "po_commands ps")
        (auto simp: connecting_handle_event_eq connecting_handle_commands_def view
          connecting_handle_tunnel_events_def connecting_handle_tunnel_close_event_def Let_def
          split: tried.split tunnel_command.split tunnel_event.split future_poll.split option.split
            prod.split sum.split dest: set_policy_offline)
  next
    case (StConnected c)
    then show ?thesis
      by (cases "po_commands ps")
        (auto simp: connected_handle_event_eq connected_handle_commands_def connected_disconnect_def
          connected_handle_tunnel_events_def connected_handle_tunnel_close_event_def Let_def view
          split: tried.split tunnel_command.split tunnel_event.split future_poll.split option.split
            prod.split sum.split dest: set_policy_offline)
  next
    case (StDisconnecting d)
    then show ?thesis
      by (cases "po_commands ps")
        (auto simp: disconnecting_handle_event_eq disconnecting_handle_commands_def
          disconnecting_handle_exit_event_def disconnecting_after_disconnect_def Let_def
          split: future_poll.split option.split prod.split after_disconnect.split
          dest: disconnecting_command_offline)
  qed (cases "po_commands ps"; auto simp: disconnected_handle_event_def blocked_handle_event_def Let_def view
      split: tunnel_command.split)+
  with assms show ?thesis by simp
qed

lemma machine_handles_offline:
  "machine_handles pf ok c0 cs c \<Longrightarrow> sv_is_offline (snd c) = fold offline_view cs (sv_is_offline (snd c0))"
  by (induction rule: machine_handles.induct) (auto dest: handle_event_offline)

definition from_monitor :: "tunnel_command \<Rightarrow> bool" where
  "from_monitor c = (case c of CmdIsOffline _ \<Rightarrow> True | _ \<Rightarrow> False)"

lemma fold_from_monitor: "fold offline_view (filter from_monitor cs) v = fold offline_view cs v"
proof -
  have "offline_view c v = v" if "\<not> from_monitor c" for c v
    using that by (cases c) (simp_all add: from_monitor_def)
  then show ?thesis by (induction cs arbitrary: v) simp_all
qed

text \<open>What the answers of a check say about the host.\<close>

definition seen_offline :: "netlink_answers \<Rightarrow> bool" where
  "seen_offline a \<longleftrightarrow> na_connected a \<and>
     (\<exists>links. na_links a = RequestOk links \<and>
        ((\<forall>l \<in> set links. \<not> link_provides_connectivity l) \<or>
         (\<exists>addresses. na_addresses a = RequestOk addresses \<and>
            (\<forall>l \<in> set links. link_provides_connectivity l \<longrightarrow> il_index l \<notin> set addresses))))"

lemma seen_offline: "linux_is_offline a \<longleftrightarrow> seen_offline a"
  by (cases "na_links a"; cases "na_addresses a")
    (auto simp: seen_offline_def linux_is_offline_def check_if_offline_def running_interfaces_def
      execute_request_def list_all_iff image_iff filter_empty_conv)

section \<open>Properties\<close>


definition no_network :: netlink_answers where
  "no_network = \<lparr>na_connected = True,
     na_links = RequestOk [\<lparr>il_index = 1, il_layer = LayerLoopback, il_running = True, il_nlas = []\<rparr>],
     na_addresses = RequestOk [1]\<rparr>"

lemma quiet_handles_offline:
  "\<exists>sh. machine_handles quiet_platform usual_polls (StDisconnected, quiet_shared) [CmdIsOffline True]
     (StDisconnected, sh)"
proof -
  have h: "handle_event quiet_platform (idle\<lparr>po_commands := StreamItem (CmdIsOffline True)\<rparr>) StDisconnected quiet_shared =
      (ActRepeat StDisconnected, quiet_shared\<lparr>sv_is_offline := True\<rparr>)"
    by (simp add: disconnected_handle_event_def)
  from handled_event [OF handled_nothing _ h, of usual_polls StDisconnected] show ?thesis
    by (auto simp: usual_polls_def idle_def)
qed


text \<open>
  On Windows a thread that waits after a resume reports it even if the host has been suspended again in
  the meantime: the monitor then takes a suspended host to be online.\<close>

lemma stale_resume:
  "\<exists>l. fst (windows_offline.run
      [WindowsMessage WM_POWERBROADCAST PBT_APMSUSPEND, WindowsMessage WM_POWERBROADCAST PBT_APMRESUMEAUTOMATIC,
       WindowsMessage WM_POWERBROADCAST PBT_APMSUSPEND, ResumeThread]
      \<lparr>bl_state = \<lparr>ws_network_connectivity = True, ws_suspended = False\<rparr>, bl_resuming = 0\<rparr>) = l \<and>
     \<not> is_offline_currently (bl_state l)"
  by (simp add: power_broadcast_callback_def resume_thread_def bl_apply_def apply_change_def
      is_offline_currently_def WM_POWERBROADCAST_def PBT_APMSUSPEND_def PBT_APMRESUMEAUTOMATIC_def)

end
