(* ===== verification/Clap.thy ===== *)
theory Clap
  imports Relay_Types
begin

text \<open>
  What the command line client uses of the argument parser \<open>clap\<close>: the declaration of a program with
  its arguments and subcommands, and the values that were found.  The parser itself is outside the
  repository; the locale \<open>argument_parser\<close> states what it promises about a parsed command line.  Texts
  for help and usage have no effect on parsing and are left out.
\<close>

section \<open>Declarations\<close>

text \<open>
  An argument with an index, or without a short or long name, is positional; it and an argument that
  \<open>takes_value\<close> have values, any other is a flag.  A validator says why it refuses a value.
\<close>

record clap_arg =
  ca_name :: string
  ca_long :: "string option"
  ca_short :: "char option"
  ca_index :: "nat option"
  ca_required :: bool
  ca_takes_value :: bool
  ca_multiple :: bool
  ca_default :: "string option"
  ca_possible :: "string list option"
  ca_validator :: "string \<Rightarrow> string option"

definition with_name :: "string \<Rightarrow> clap_arg" where
  "with_name n =
     \<lparr>ca_name = n, ca_long = None, ca_short = None, ca_index = None, ca_required = False,
      ca_takes_value = False, ca_multiple = False, ca_default = None, ca_possible = None,
      ca_validator = \<lambda>_. None\<rparr>"

definition required_arg :: "string \<Rightarrow> clap_arg" where
  "required_arg n = (with_name n)\<lparr>ca_required := True\<rparr>"

definition required_at :: "nat \<Rightarrow> string \<Rightarrow> clap_arg" where
  "required_at i n = (required_arg n)\<lparr>ca_index := Some i\<rparr>"

definition optional_at :: "nat \<Rightarrow> string \<Rightarrow> clap_arg" where
  "optional_at i n = (with_name n)\<lparr>ca_index := Some i\<rparr>"

definition has_values :: "clap_arg \<Rightarrow> bool" where
  "has_values a \<longleftrightarrow> ca_takes_value a \<or> ca_index a \<noteq> None \<or> (ca_long a = None \<and> ca_short a = None)"

text \<open>A program or a subcommand; the flag is the setting \<open>SubcommandRequiredElseHelp\<close>.\<close>

datatype clap_app = ClapApp
  (cl_name: string) (cl_subcommand_required: bool) (cl_args: "clap_arg list") (cl_subcommands: "clap_app list")

section \<open>Matches\<close>

datatype arg_matches = ArgMatches
  (am_values: "(string \<times> string list) list") (am_subcommand: "(string \<times> arg_matches) option")

definition value_of :: "arg_matches \<Rightarrow> string \<Rightarrow> string option" where
  "value_of m n = (case map_of (am_values m) n of Some (v # _) \<Rightarrow> Some v | _ \<Rightarrow> None)"

definition values_of :: "arg_matches \<Rightarrow> string \<Rightarrow> string list option" where
  "values_of m n = map_of (am_values m) n"

definition is_present :: "arg_matches \<Rightarrow> string \<Rightarrow> bool" where
  "is_present m n \<longleftrightarrow> map_of (am_values m) n \<noteq> None"

definition subcommand_matches :: "arg_matches \<Rightarrow> string \<Rightarrow> arg_matches option" where
  "subcommand_matches m n =
     (case am_subcommand m of Some (n', m') \<Rightarrow> if n' = n then Some m' else None | None \<Rightarrow> None)"

section \<open>What the parser promises\<close>

definition value_accepted :: "clap_arg \<Rightarrow> string \<Rightarrow> bool" where
  "value_accepted a v \<longleftrightarrow>
     (case ca_possible a of None \<Rightarrow> True | Some vs \<Rightarrow> v \<in> set vs) \<and> ca_validator a v = None"

definition values_accepted :: "clap_arg \<Rightarrow> string list \<Rightarrow> bool" where
  "values_accepted a vs \<longleftrightarrow>
     (if has_values a
      then vs \<noteq> [] \<and> (ca_multiple a \<or> length vs = 1) \<and> list_all (value_accepted a) vs
      else vs = [])"

text \<open>
  The values belong to declared arguments and are among their possible values; a required argument
  is present, and so is one with a default value.
\<close>

definition args_accepted :: "clap_arg list \<Rightarrow> (string \<times> string list) list \<Rightarrow> bool" where
  "args_accepted args values \<longleftrightarrow>
     distinct (map fst values) \<and>
     list_all (\<lambda>(n, vs). list_ex (\<lambda>a. ca_name a = n \<and> values_accepted a vs) args) values \<and>
     list_all (\<lambda>a. ca_required a \<or> ca_default a \<noteq> None \<longrightarrow> ca_name a \<in> fst ` set values) args"

fun accepts :: "clap_app \<Rightarrow> arg_matches \<Rightarrow> bool" where
  "accepts app (ArgMatches values None) \<longleftrightarrow>
     args_accepted (cl_args app) values \<and> \<not> cl_subcommand_required app"
| "accepts app (ArgMatches values (Some (n, m))) \<longleftrightarrow>
     args_accepted (cl_args app) values \<and> list_ex (\<lambda>a. cl_name a = n \<and> accepts a m) (cl_subcommands app)"

locale argument_parser =
  fixes get_matches :: "clap_app \<Rightarrow> string list \<Rightarrow> 'e + arg_matches"
  assumes parsed_accepted: "get_matches app ws = Inr m \<Longrightarrow> accepts app m"

section \<open>Using accepted matches\<close>

text \<open>The arguments of a command have names of their own; then a value is one of its argument.\<close>

lemma accepted_args:
  assumes "accepts app m"
  shows "args_accepted (cl_args app) (am_values m)"
  using assms by (induction app m rule: accepts.induct) simp_all

lemma accepted_value:
  assumes "accepts app m" and "map_of (am_values m) n = Some vs"
  obtains a where "a \<in> set (cl_args app)" "ca_name a = n" "values_accepted a vs"
proof -
  have "list_ex (\<lambda>a. ca_name a = n \<and> values_accepted a vs) (cl_args app)"
    using accepted_args [OF assms(1)] map_of_SomeD [OF assms(2)]
    unfolding args_accepted_def list_all_iff by blast
  then show thesis using that unfolding list_ex_iff by blast
qed

lemma accepted_present:
  assumes "accepts app m" and "a \<in> set (cl_args app)" and "ca_required a \<or> ca_default a \<noteq> None"
  obtains vs where "map_of (am_values m) (ca_name a) = Some vs"
proof -
  have "ca_name a \<in> fst ` set (am_values m)"
    using accepted_args [OF assms(1)] assms(2,3) unfolding args_accepted_def list_all_iff by blast
  then have "ca_name a \<in> dom (map_of (am_values m))" by (simp add: dom_map_of_conv_image_fst)
  then show thesis using that by blast
qed

lemma accepted_value_of:
  assumes "accepts app m" and "value_of m n = Some v"
  shows "\<exists>a\<in>set (cl_args app). ca_name a = n \<and> value_accepted a v"
proof -
  obtain vs where vs: "map_of (am_values m) n = Some (v # vs)"
    using assms(2) by (auto simp: value_of_def split: option.splits list.splits)
  obtain a where "a \<in> set (cl_args app)" "ca_name a = n" "values_accepted a (v # vs)"
    by (rule accepted_value [OF assms(1) vs])
  then show ?thesis by (auto simp: values_accepted_def split: if_splits)
qed

lemma accepted_required:
  assumes "accepts app m" and "a \<in> set (cl_args app)" and "ca_required a \<or> ca_default a \<noteq> None"
    and "\<forall>b\<in>set (cl_args app). ca_name b = ca_name a \<longrightarrow> b = a" and "has_values a"
  shows "\<exists>v. value_of m (ca_name a) = Some v \<and> value_accepted a v"
proof -
  obtain vs where vs: "map_of (am_values m) (ca_name a) = Some vs"
    by (rule accepted_present [OF assms(1-3)])
  obtain b where "b \<in> set (cl_args app)" "ca_name b = ca_name a" "values_accepted b vs"
    by (rule accepted_value [OF assms(1) vs])
  with assms(4,5) have "values_accepted a vs" by auto
  with vs assms(5) show ?thesis
    by (cases vs) (auto simp: value_of_def values_accepted_def)
qed

text \<open>The subcommand of a command that requires one is one of those that are declared.\<close>

lemma accepted_subcommand:
  assumes "accepts app m"
  shows "(am_subcommand m = None \<and> \<not> cl_subcommand_required app) \<or>
    (\<exists>a\<in>set (cl_subcommands app). \<exists>m'. am_subcommand m = Some (cl_name a, m') \<and> accepts a m')"
  using assms by (induction app m rule: accepts.induct) (simp_all add: list_ex_iff, metis)

end
