(* ===== verification/Ipc_Client.thy ===== *)
theory Ipc_Client
  imports Management_Props Problem_Report Clap
begin

text \<open>
  The client of the management interface (\<open>mullvad-ipc-client/src/lib.rs\<close>), and the result and error
  types of the command line client (\<open>mullvad-cli/src/main.rs\<close>).  A program of the client reads and writes
  the standard streams and sends requests to the daemon; it returns a value, an error, ends the
  process, or panics.  The transport, the parsers of addresses and of base64, and the printing of
  floating point numbers and of \<open>Debug\<close> values are the record \<open>cli_env\<close>.
\<close>

section \<open>Programs\<close>

text \<open>Errors of \<open>jsonrpc_client_core\<close>: an error answer of the daemon, or a failed or unreadable answer.\<close>

datatype client_error = ClientJsonRpc api_error | ClientTransport string | ClientDeserialize

datatype cli_error =
    DaemonNotRunning string
  | CantSubscribe string
  | RpcClientError client_error
  | InvalidCommand string

text \<open>Standard input is the list of outcomes of reading a line; when there is none left, it is at its end.\<close>

record 's cli_state =
  cs_daemon :: 's
  cs_stdin :: "(string + string) list"
  cs_stdout :: string
  cs_stderr :: string

datatype 'a cli_outcome = CliValue 'a | CliError cli_error | CliExit | CliPanic

type_synonym ('s, 'a) cli = "'s cli_state \<Rightarrow> 'a cli_outcome \<times> 's cli_state"

record 's cli_env =
  ce_os :: target_os
  ce_connect :: "'s \<Rightarrow> string + unit"
  ce_request :: "rpc_request \<Rightarrow> 's \<Rightarrow> (client_error + rpc_value) \<times> 's"
  ce_subscribe :: "'s \<Rightarrow> (string + (client_error + daemon_event) list) \<times> 's"
  ce_parse_ip :: "string \<Rightarrow> ip_addr option"
  ce_parse_ipv4 :: "string \<Rightarrow> ipv4 option"
  ce_parse_ipv6 :: "string \<Rightarrow> ipv6 option"
  ce_base64_decode :: "string \<Rightarrow> string + u8 list"
  ce_key_fmt :: "public_key \<Rightarrow> string"
  ce_five_decimals :: "real \<Rightarrow> string"
  ce_debug_settings :: "settings \<Rightarrow> string"
  ce_debug_relay_list :: "relay_list \<Rightarrow> string"
  ce_error_chain :: "client_error \<Rightarrow> error_chain"

definition cli_return :: "'a \<Rightarrow> ('s, 'a) cli" where
  "cli_return x s = (CliValue x, s)"

definition cli_fail :: "cli_error \<Rightarrow> ('s, 'a) cli" where
  "cli_fail e s = (CliError e, s)"

definition cli_exit :: "('s, 'a) cli" where
  "cli_exit s = (CliExit, s)"

definition cli_panic :: "('s, 'a) cli" where
  "cli_panic s = (CliPanic, s)"

definition cli_bind :: "('s, 'a) cli \<Rightarrow> ('a \<Rightarrow> ('s, 'b) cli) \<Rightarrow> ('s, 'b) cli" where
  "cli_bind m f s =
     (case m s of
        (CliValue x, s') \<Rightarrow> f x s'
      | (CliError e, s') \<Rightarrow> (CliError e, s')
      | (CliExit, s') \<Rightarrow> (CliExit, s')
      | (CliPanic, s') \<Rightarrow> (CliPanic, s'))"

definition cli_then :: "('s, unit) cli \<Rightarrow> ('s, 'b) cli \<Rightarrow> ('s, 'b) cli" where
  "cli_then m k = cli_bind m (\<lambda>_. k)"

fun cli_all :: "('s, unit) cli list \<Rightarrow> ('s, unit) cli" where
  "cli_all [] = cli_return ()"
| "cli_all (m # ms) = cli_then m (cli_all ms)"

definition print :: "string \<Rightarrow> ('s, unit) cli" where
  "print text s = (CliValue (), s\<lparr>cs_stdout := cs_stdout s @ text\<rparr>)"

definition println :: "string \<Rightarrow> ('s, unit) cli" where
  "println text = print (text @ NEWLINE)"

definition eprintln :: "string \<Rightarrow> ('s, unit) cli" where
  "eprintln text s = (CliValue (), s\<lparr>cs_stderr := cs_stderr s @ text @ NEWLINE\<rparr>)"

text \<open>\<open>stdin().read_line\<close>; at the end of the input it reads an empty line.\<close>

definition read_line :: "('s, string + string) cli" where
  "read_line s =
     (case cs_stdin s of
        [] \<Rightarrow> (CliValue (Inr []), s)
      | l # ls \<Rightarrow> (CliValue l, s\<lparr>cs_stdin := ls\<rparr>))"

text \<open>The operator \<open>?\<close> on a result of the client.\<close>

definition cli_try :: "('s, client_error + 'a) cli \<Rightarrow> ('s, 'a) cli" where
  "cli_try m = cli_bind m (\<lambda>r. case r of Inl e \<Rightarrow> cli_fail (RpcClientError e) | Inr x \<Rightarrow> cli_return x)"

section \<open>The methods the daemon serves\<close>

datatype rpc_args =
    NoArgs
  | ArgString string
  | ArgOptString "string option"
  | ArgBool bool
  | ArgOptU16 "u16 option"
  | ArgBridgeSettings bridge_settings
  | ArgBridgeState bridge_state
  | ArgRelaySettingsUpdate relay_settings_update

definition takes_nothing :: "rpc_request \<Rightarrow> rpc_args \<Rightarrow> rpc_request option" where
  "takes_nothing r a = (case a of NoArgs \<Rightarrow> Some r | _ \<Rightarrow> None)"

definition takes_bool :: "(bool \<Rightarrow> rpc_request) \<Rightarrow> rpc_args \<Rightarrow> rpc_request option" where
  "takes_bool f a = (case a of ArgBool b \<Rightarrow> Some (f b) | _ \<Rightarrow> None)"

definition takes_u16 :: "(u16 option \<Rightarrow> rpc_request) \<Rightarrow> rpc_args \<Rightarrow> rpc_request option" where
  "takes_u16 f a = (case a of ArgOptU16 v \<Rightarrow> Some (f v) | _ \<Rightarrow> None)"

definition served_methods :: "(string \<times> (rpc_args \<Rightarrow> rpc_request option)) list" where
  "served_methods =
     [(''get_account_data'', \<lambda>a. case a of ArgString t \<Rightarrow> Some (RpcGetAccountData t) | _ \<Rightarrow> None),
      (''get_relay_locations'', takes_nothing RpcGetRelayLocations),
      (''update_relay_locations'', takes_nothing RpcUpdateRelayLocations),
      (''set_account'', \<lambda>a. case a of ArgOptString t \<Rightarrow> Some (RpcSetAccount t) | _ \<Rightarrow> None),
      (''update_relay_settings'',
        \<lambda>a. case a of ArgRelaySettingsUpdate u \<Rightarrow> Some (RpcUpdateRelaySettings u) | _ \<Rightarrow> None),
      (''set_allow_lan'', takes_bool RpcSetAllowLan),
      (''set_block_when_disconnected'', takes_bool RpcSetBlockWhenDisconnected),
      (''set_auto_connect'', takes_bool RpcSetAutoConnect),
      (''connect'', takes_nothing RpcConnect),
      (''disconnect'', takes_nothing RpcDisconnect),
      (''get_state'', takes_nothing RpcGetState),
      (''get_current_location'', takes_nothing RpcGetCurrentLocation),
      (''shutdown'', takes_nothing RpcShutdown),
      (''get_account_history'', takes_nothing RpcGetAccountHistory),
      (''remove_account_from_history'',
        \<lambda>a. case a of ArgString t \<Rightarrow> Some (RpcRemoveAccountFromHistory t) | _ \<Rightarrow> None),
      (''set_openvpn_mssfix'', takes_u16 RpcSetOpenVpnMssfix),
      (''set_bridge_settings'',
        \<lambda>a. case a of ArgBridgeSettings b \<Rightarrow> Some (RpcSetBridgeSettings b) | _ \<Rightarrow> None),
      (''set_bridge_state'',
        \<lambda>a. case a of ArgBridgeState b \<Rightarrow> Some (RpcSetBridgeState b) | _ \<Rightarrow> None),
      (''set_enable_ipv6'', takes_bool RpcSetEnableIpv6),
      (''set_wireguard_mtu'', takes_u16 RpcSetWireguardMtu),
      (''get_settings'', takes_nothing RpcGetSettings),
      (''generate_wireguard_key'', takes_nothing RpcGenerateWireguardKey),
      (''get_wireguard_key'', takes_nothing RpcGetWireguardKey),
      (''verify_wireguard_key'', takes_nothing RpcVerifyWireguardKey),
      (''get_current_version'', takes_nothing RpcGetCurrentVersion),
      (''get_version_info'', takes_nothing RpcGetVersionInfo),
      (''factory_reset'', takes_nothing RpcFactoryReset)]"

section \<open>The client\<close>

definition method_not_found :: client_error where
  "method_not_found = ClientJsonRpc (ApiError (- 32601) ''Method not found'' None)"

definition client_call :: "'s cli_env \<Rightarrow> string \<Rightarrow> rpc_args \<Rightarrow> (rpc_value \<Rightarrow> 'a option) \<Rightarrow> ('s, client_error + 'a) cli" where
  "client_call env method args decode s =
     (case map_of served_methods method of
        None \<Rightarrow> (CliValue (Inl method_not_found), s)
      | Some f \<Rightarrow>
          (case f args of
             None \<Rightarrow> (CliValue (Inl (ClientJsonRpc (ApiInvalidParams ''Invalid params''))), s)
           | Some req \<Rightarrow>
               (case ce_request env req (cs_daemon s) of
                  (r, d) \<Rightarrow>
                    (CliValue (case r of
                       Inl e \<Rightarrow> Inl e
                     | Inr v \<Rightarrow> (case decode v of None \<Rightarrow> Inl ClientDeserialize | Some x \<Rightarrow> Inr x)),
                     s\<lparr>cs_daemon := d\<rparr>))))"

text \<open>\<open>new_rpc_client\<close>, and the types the answers are read as.\<close>

definition new_rpc_client :: "'s cli_env \<Rightarrow> ('s, unit) cli" where
  "new_rpc_client env s =
     (case ce_connect env (cs_daemon s) of Inl e \<Rightarrow> cli_fail (DaemonNotRunning e) s | Inr _ \<Rightarrow> cli_return () s)"

definition as_unit :: "rpc_value \<Rightarrow> unit option" where
  "as_unit v = (case v of ValUnit \<Rightarrow> Some () | _ \<Rightarrow> None)"

definition as_settings :: "rpc_value \<Rightarrow> settings option" where
  "as_settings v = (case v of ValReply (ReplySettings x) \<Rightarrow> Some x | _ \<Rightarrow> None)"

definition as_account_data :: "rpc_value \<Rightarrow> account_data option" where
  "as_account_data v = (case v of ValAccountData x \<Rightarrow> Some x | _ \<Rightarrow> None)"

definition as_state :: "rpc_value \<Rightarrow> daemon_tunnel_state option" where
  "as_state v = (case v of ValReply (ReplyState x) \<Rightarrow> Some x | _ \<Rightarrow> None)"

definition as_location :: "rpc_value \<Rightarrow> geo_ip_location option option" where
  "as_location v = (case v of ValReply (ReplyLocation x) \<Rightarrow> Some x | _ \<Rightarrow> None)"

definition as_relay_list :: "rpc_value \<Rightarrow> relay_list option" where
  "as_relay_list v = (case v of ValReply (ReplyRelayLocations x) \<Rightarrow> Some x | _ \<Rightarrow> None)"

definition as_version :: "rpc_value \<Rightarrow> string option" where
  "as_version v = (case v of ValReply (ReplyVersion x) \<Rightarrow> Some x | _ \<Rightarrow> None)"

definition as_version_info :: "rpc_value \<Rightarrow> app_version_info option" where
  "as_version_info v = (case v of ValVersionInfo x \<Rightarrow> Some x | _ \<Rightarrow> None)"

definition as_keygen_event :: "rpc_value \<Rightarrow> keygen_event option" where
  "as_keygen_event v = (case v of ValReply (ReplyKeygen x) \<Rightarrow> Some x | _ \<Rightarrow> None)"

definition as_key :: "rpc_value \<Rightarrow> public_key option option" where
  "as_key v = (case v of ValReply (ReplyKey x) \<Rightarrow> Some x | _ \<Rightarrow> None)"

definition as_bool :: "rpc_value \<Rightarrow> bool option" where
  "as_bool v = (case v of ValReply (ReplyVerifyKey b) \<Rightarrow> Some b | _ \<Rightarrow> None)"

text \<open>Results of methods that are not served; no answer of the daemon has their types.\<close>

definition as_unserved :: "rpc_value \<Rightarrow> 'a option" where
  "as_unserved _ = None"

section \<open>Calls\<close>

definition rpc_connect :: "'s cli_env \<Rightarrow> ('s, client_error + unit) cli" where
  "rpc_connect env = client_call env ''connect'' NoArgs as_unit"

definition rpc_disconnect :: "'s cli_env \<Rightarrow> ('s, client_error + unit) cli" where
  "rpc_disconnect env = client_call env ''disconnect'' NoArgs as_unit"

definition rpc_get_account :: "'s cli_env \<Rightarrow> ('s, client_error + string option) cli" where
  "rpc_get_account env = client_call env ''get_account'' NoArgs as_unserved"

definition rpc_get_account_data :: "'s cli_env \<Rightarrow> string \<Rightarrow> ('s, client_error + account_data) cli" where
  "rpc_get_account_data env account = client_call env ''get_account_data'' (ArgString account) as_account_data"

definition rpc_set_allow_lan :: "'s cli_env \<Rightarrow> bool \<Rightarrow> ('s, client_error + unit) cli" where
  "rpc_set_allow_lan env b = client_call env ''set_allow_lan'' (ArgBool b) as_unit"

definition rpc_set_block_when_disconnected :: "'s cli_env \<Rightarrow> bool \<Rightarrow> ('s, client_error + unit) cli" where
  "rpc_set_block_when_disconnected env b = client_call env ''set_block_when_disconnected'' (ArgBool b) as_unit"

definition rpc_get_allow_lan :: "'s cli_env \<Rightarrow> ('s, client_error + bool) cli" where
  "rpc_get_allow_lan env = client_call env ''get_allow_lan'' NoArgs as_unserved"

definition rpc_set_auto_connect :: "'s cli_env \<Rightarrow> bool \<Rightarrow> ('s, client_error + unit) cli" where
  "rpc_set_auto_connect env b = client_call env ''set_auto_connect'' (ArgBool b) as_unit"

definition rpc_get_auto_connect :: "'s cli_env \<Rightarrow> ('s, client_error + bool) cli" where
  "rpc_get_auto_connect env = client_call env ''get_auto_connect'' NoArgs as_unserved"

definition rpc_get_current_location :: "'s cli_env \<Rightarrow> ('s, client_error + geo_ip_location option) cli" where
  "rpc_get_current_location env = client_call env ''get_current_location'' NoArgs as_location"

definition rpc_get_current_version :: "'s cli_env \<Rightarrow> ('s, client_error + string) cli" where
  "rpc_get_current_version env = client_call env ''get_current_version'' NoArgs as_version"

definition rpc_get_relay_locations :: "'s cli_env \<Rightarrow> ('s, client_error + relay_list) cli" where
  "rpc_get_relay_locations env = client_call env ''get_relay_locations'' NoArgs as_relay_list"

definition rpc_update_relay_locations :: "'s cli_env \<Rightarrow> ('s, client_error + unit) cli" where
  "rpc_update_relay_locations env = client_call env ''update_relay_locations'' NoArgs as_unit"

definition rpc_get_relay_settings :: "'s cli_env \<Rightarrow> ('s, client_error + relay_settings) cli" where
  "rpc_get_relay_settings env = client_call env ''get_relay_settings'' NoArgs as_unserved"

definition rpc_get_state :: "'s cli_env \<Rightarrow> ('s, client_error + daemon_tunnel_state) cli" where
  "rpc_get_state env = client_call env ''get_state'' NoArgs as_state"

definition rpc_get_tunnel_options :: "'s cli_env \<Rightarrow> ('s, client_error + tunnel_options) cli" where
  "rpc_get_tunnel_options env = client_call env ''get_tunnel_options'' NoArgs as_unserved"

definition rpc_get_settings :: "'s cli_env \<Rightarrow> ('s, client_error + settings) cli" where
  "rpc_get_settings env = client_call env ''get_settings'' NoArgs as_settings"

definition rpc_generate_wireguard_key :: "'s cli_env \<Rightarrow> ('s, client_error + keygen_event) cli" where
  "rpc_generate_wireguard_key env = client_call env ''generate_wireguard_key'' NoArgs as_keygen_event"

definition rpc_get_wireguard_key :: "'s cli_env \<Rightarrow> ('s, client_error + public_key option) cli" where
  "rpc_get_wireguard_key env = client_call env ''get_wireguard_key'' NoArgs as_key"

definition rpc_verify_wireguard_key :: "'s cli_env \<Rightarrow> ('s, client_error + bool) cli" where
  "rpc_verify_wireguard_key env = client_call env ''verify_wireguard_key'' NoArgs as_bool"

definition rpc_get_version_info :: "'s cli_env \<Rightarrow> ('s, client_error + app_version_info) cli" where
  "rpc_get_version_info env = client_call env ''get_version_info'' NoArgs as_version_info"

definition rpc_set_account :: "'s cli_env \<Rightarrow> string option \<Rightarrow> ('s, client_error + unit) cli" where
  "rpc_set_account env t = client_call env ''set_account'' (ArgOptString t) as_unit"

definition rpc_set_enable_ipv6 :: "'s cli_env \<Rightarrow> bool \<Rightarrow> ('s, client_error + unit) cli" where
  "rpc_set_enable_ipv6 env b = client_call env ''set_enable_ipv6'' (ArgBool b) as_unit"

definition rpc_set_wireguard_mtu :: "'s cli_env \<Rightarrow> u16 option \<Rightarrow> ('s, client_error + unit) cli" where
  "rpc_set_wireguard_mtu env v = client_call env ''set_wireguard_mtu'' (ArgOptU16 v) as_unit"

definition rpc_set_openvpn_mssfix :: "'s cli_env \<Rightarrow> u16 option \<Rightarrow> ('s, client_error + unit) cli" where
  "rpc_set_openvpn_mssfix env v = client_call env ''set_openvpn_mssfix'' (ArgOptU16 v) as_unit"

definition rpc_set_bridge_settings :: "'s cli_env \<Rightarrow> bridge_settings \<Rightarrow> ('s, client_error + unit) cli" where
  "rpc_set_bridge_settings env b = client_call env ''set_bridge_settings'' (ArgBridgeSettings b) as_unit"

definition rpc_set_bridge_state :: "'s cli_env \<Rightarrow> bridge_state \<Rightarrow> ('s, client_error + unit) cli" where
  "rpc_set_bridge_state env b = client_call env ''set_bridge_state'' (ArgBridgeState b) as_unit"

definition rpc_shutdown :: "'s cli_env \<Rightarrow> ('s, client_error + unit) cli" where
  "rpc_shutdown env = client_call env ''shutdown'' NoArgs as_unit"

definition rpc_factory_reset :: "'s cli_env \<Rightarrow> ('s, client_error + unit) cli" where
  "rpc_factory_reset env = client_call env ''factory_reset'' NoArgs as_unit"

definition rpc_update_relay_settings :: "'s cli_env \<Rightarrow> relay_settings_update \<Rightarrow> ('s, client_error + unit) cli" where
  "rpc_update_relay_settings env u = client_call env ''update_relay_settings'' (ArgRelaySettingsUpdate u) as_unit"

text \<open>\<open>daemon_event_subscribe\<close>, waited for: the events of the subscription until it ends.\<close>

definition rpc_daemon_event_subscribe ::
    "'s cli_env \<Rightarrow> ('s, string + (client_error + daemon_event) list) cli" where
  "rpc_daemon_event_subscribe env s =
     (case ce_subscribe env (cs_daemon s) of (r, d) \<Rightarrow> (CliValue r, s\<lparr>cs_daemon := d\<rparr>))"

section \<open>Requests of the calls\<close>

text \<open>A call whose method is served, with arguments it takes, is the request.\<close>

definition request_call :: "'s cli_env \<Rightarrow> rpc_request \<Rightarrow> (rpc_value \<Rightarrow> 'a option) \<Rightarrow> ('s, client_error + 'a) cli" where
  "request_call env req decode s =
     (case ce_request env req (cs_daemon s) of
        (r, d) \<Rightarrow>
          (CliValue (case r of
             Inl e \<Rightarrow> Inl e
           | Inr v \<Rightarrow> (case decode v of None \<Rightarrow> Inl ClientDeserialize | Some x \<Rightarrow> Inr x)),
           s\<lparr>cs_daemon := d\<rparr>))"

lemma served_call:
  assumes "map_of served_methods method = Some f" and "f args = Some req"
  shows "client_call env method args decode = request_call env req decode"
  using assms by (simp add: fun_eq_iff client_call_def request_call_def)

lemmas takes_defs = takes_nothing_def takes_bool_def takes_u16_def

lemma served_calls:
  "rpc_connect env = request_call env RpcConnect as_unit"
  "rpc_disconnect env = request_call env RpcDisconnect as_unit"
  "rpc_get_account_data env t = request_call env (RpcGetAccountData t) as_account_data"
  "rpc_set_allow_lan env b = request_call env (RpcSetAllowLan b) as_unit"
  "rpc_set_block_when_disconnected env b = request_call env (RpcSetBlockWhenDisconnected b) as_unit"
  "rpc_set_auto_connect env b = request_call env (RpcSetAutoConnect b) as_unit"
  "rpc_get_current_location env = request_call env RpcGetCurrentLocation as_location"
  "rpc_get_current_version env = request_call env RpcGetCurrentVersion as_version"
  "rpc_get_relay_locations env = request_call env RpcGetRelayLocations as_relay_list"
  "rpc_update_relay_locations env = request_call env RpcUpdateRelayLocations as_unit"
  "rpc_get_state env = request_call env RpcGetState as_state"
  "rpc_get_settings env = request_call env RpcGetSettings as_settings"
  "rpc_generate_wireguard_key env = request_call env RpcGenerateWireguardKey as_keygen_event"
  "rpc_get_wireguard_key env = request_call env RpcGetWireguardKey as_key"
  "rpc_verify_wireguard_key env = request_call env RpcVerifyWireguardKey as_bool"
  "rpc_get_version_info env = request_call env RpcGetVersionInfo as_version_info"
  "rpc_set_account env a = request_call env (RpcSetAccount a) as_unit"
  "rpc_set_enable_ipv6 env b = request_call env (RpcSetEnableIpv6 b) as_unit"
  "rpc_set_wireguard_mtu env v = request_call env (RpcSetWireguardMtu v) as_unit"
  "rpc_set_openvpn_mssfix env v = request_call env (RpcSetOpenVpnMssfix v) as_unit"
  "rpc_set_bridge_settings env bs = request_call env (RpcSetBridgeSettings bs) as_unit"
  "rpc_set_bridge_state env bst = request_call env (RpcSetBridgeState bst) as_unit"
  "rpc_shutdown env = request_call env RpcShutdown as_unit"
  "rpc_factory_reset env = request_call env RpcFactoryReset as_unit"
  "rpc_update_relay_settings env u = request_call env (RpcUpdateRelaySettings u) as_unit"
  unfolding rpc_connect_def rpc_disconnect_def rpc_get_account_data_def rpc_set_allow_lan_def
    rpc_set_block_when_disconnected_def rpc_set_auto_connect_def rpc_get_current_location_def
    rpc_get_current_version_def rpc_get_relay_locations_def rpc_update_relay_locations_def
    rpc_get_state_def rpc_get_settings_def rpc_generate_wireguard_key_def rpc_get_wireguard_key_def
    rpc_verify_wireguard_key_def rpc_get_version_info_def rpc_set_account_def rpc_set_enable_ipv6_def
    rpc_set_wireguard_mtu_def rpc_set_openvpn_mssfix_def rpc_set_bridge_settings_def
    rpc_set_bridge_state_def rpc_shutdown_def rpc_factory_reset_def rpc_update_relay_settings_def
  by (rule served_call, simp add: served_methods_def, simp add: takes_defs)+

text \<open>The client has calls for methods the daemon does not serve; they always fail.\<close>

lemma unserved_calls:
  "rpc_get_account env s = (CliValue (Inl method_not_found), s)"
  "rpc_get_allow_lan env s = (CliValue (Inl method_not_found), s)"
  "rpc_get_auto_connect env s = (CliValue (Inl method_not_found), s)"
  "rpc_get_relay_settings env s = (CliValue (Inl method_not_found), s)"
  "rpc_get_tunnel_options env s = (CliValue (Inl method_not_found), s)"
  by (simp_all add: rpc_get_account_def rpc_get_allow_lan_def rpc_get_auto_connect_def
      rpc_get_relay_settings_def rpc_get_tunnel_options_def client_call_def served_methods_def)

end
