(* ===== verification/Cli.thy ===== *)
theory Cli
  imports Ipc_Client "HOL-Library.List_Lexorder" "HOL-Library.Char_ord"
begin

text \<open>
  The command line client \<open>mullvad\<close> (\<open>mullvad-cli/src/main.rs\<close>, \<open>location.rs\<close>, \<open>cmds/*.rs\<close>) with the texts
  of blocked connections (\<open>mullvad-types/src/auth_failed.rs\<close>): for every command its declaration and
  what it does with its arguments.
\<close>

section \<open>Reading values\<close>

text \<open>
  \<open>value_t!\<close> and \<open>values_t!\<close>: the value is parsed, and there is an error without one; \<open>unwrap_or_else\<close>
  with \<open>e.exit()\<close>, as in \<open>value_t_or_exit!\<close>, ends the process.
\<close>

datatype 'a value_t = ValueFound 'a | ValueNotFound | ValueInvalid

definition value_t :: "(string \<Rightarrow> 'a option) \<Rightarrow> string option \<Rightarrow> 'a value_t" where
  "value_t parse v =
     (case v of
        None \<Rightarrow> ValueNotFound
      | Some text \<Rightarrow> (case parse text of None \<Rightarrow> ValueInvalid | Some x \<Rightarrow> ValueFound x))"

definition values_t :: "(string \<Rightarrow> 'a option) \<Rightarrow> string list option \<Rightarrow> 'a list value_t" where
  "values_t parse vs =
     (case vs of
        None \<Rightarrow> ValueNotFound
      | Some texts \<Rightarrow> (case those (map parse texts) of None \<Rightarrow> ValueInvalid | Some xs \<Rightarrow> ValueFound xs))"

definition or_exit :: "'a value_t \<Rightarrow> ('s, 'a) cli" where
  "or_exit v = (case v of ValueFound x \<Rightarrow> cli_return x | _ \<Rightarrow> cli_exit)"

definition cli_unwrap :: "'a option \<Rightarrow> ('s, 'a) cli" where
  "cli_unwrap x = (case x of None \<Rightarrow> cli_panic | Some x \<Rightarrow> cli_return x)"

text \<open>\<open>u16::from_str\<close>, and \<open>str::to_lowercase\<close> on ASCII text.\<close>

definition parse_u16 :: "string \<Rightarrow> u16 option" where
  "parse_u16 s =
     (let ds = (if s \<noteq> [] \<and> hd s = CHR ''+'' then tl s else s) in
      if ds \<noteq> [] \<and> list_all is_digit ds \<and> digits_value ds < 2 ^ 16
      then Some (of_nat (digits_value ds)) else None)"

definition char_to_lowercase :: "char \<Rightarrow> char" where
  "char_to_lowercase c =
     (if 65 \<le> (of_char c :: nat) \<and> (of_char c :: nat) \<le> 90 then char_of ((of_char c :: nat) + 32) else c)"

definition to_lowercase :: "string \<Rightarrow> string" where
  "to_lowercase = map char_to_lowercase"

section \<open>Locations\<close>

definition country_code_validator :: "string \<Rightarrow> string option" where
  "country_code_validator code =
     (if length code = 2 \<or> code = ''any'' then None
      else Some ''Country codes must be two letters, or 'any'.'')"

definition city_code_validator :: "string \<Rightarrow> string option" where
  "city_code_validator code = (if length code = 3 then None else Some ''City codes must be three letters'')"

definition location_app :: clap_app where
  "location_app =
     ClapApp ''location'' False
       [(required_at 1 ''country'')\<lparr>ca_validator := country_code_validator\<rparr>,
        (optional_at 2 ''city'')\<lparr>ca_validator := city_code_validator\<rparr>,
        optional_at 3 ''hostname''] []"

definition get_constraint :: "arg_matches \<Rightarrow> ('s, location_constraint constraint) cli" where
  "get_constraint m =
     cli_bind (cli_unwrap (value_of m ''country'')) (\<lambda>country.
       case (value_of m ''city'', value_of m ''hostname'') of
         (None, None) \<Rightarrow>
           cli_return (if country = ''any'' then Any else Only (LocCountry country))
       | (Some city, None) \<Rightarrow>
           if country = ''any'' then cli_exit else cli_return (Only (LocCity country city))
       | (Some city, Some hostname) \<Rightarrow>
           if country = ''any'' then cli_exit else cli_return (Only (LocHostname country city hostname))
       | (None, Some hostname) \<Rightarrow> cli_exit)"

section \<open>Commands\<close>

text \<open>The trait \<open>Command\<close>.  A message ends with a line break; \<open>plain_app\<close> has no arguments.\<close>

record 's cli_command =
  cc_app :: clap_app
  cc_run :: "arg_matches \<Rightarrow> ('s, unit) cli"

definition cc_name :: "'s cli_command \<Rightarrow> string" where
  "cc_name c = cl_name (cc_app c)"

definition plain_app :: "string \<Rightarrow> clap_app" where
  "plain_app name = ClapApp name False [] []"

text \<open>A call of the client with a new connection, and the message when it succeeded.\<close>

definition call_and_report :: "'s cli_env \<Rightarrow> ('s, client_error + unit) cli \<Rightarrow> string \<Rightarrow> ('s, unit) cli" where
  "call_and_report env call message =
     cli_then (new_rpc_client env) (cli_then (cli_try call) (println message))"

definition with_settings :: "'s cli_env \<Rightarrow> (settings \<Rightarrow> ('s, unit) cli) \<Rightarrow> ('s, unit) cli" where
  "with_settings env k = cli_then (new_rpc_client env) (cli_bind (cli_try (rpc_get_settings env)) k)"

subsection \<open>\<open>account\<close>\<close>

definition account_app :: clap_app where
  "account_app =
     ClapApp ''account'' True []
       [ClapApp ''set'' False [required_arg ''token''] [], plain_app ''get'', plain_app ''unset'']"

definition QUOTE :: string where
  "QUOTE = [CHR 0x22]"

definition account_set :: "'s cli_env \<Rightarrow> string option \<Rightarrow> ('s, unit) cli" where
  "account_set env token =
     call_and_report env (rpc_set_account env token)
       (case token of Some t \<Rightarrow> ''Mullvad account '' @ QUOTE @ t @ QUOTE @ '' set'' | None \<Rightarrow> ''Mullvad account removed'')"

definition account_get :: "'s cli_env \<Rightarrow> ('s, unit) cli" where
  "account_get env =
     with_settings env (\<lambda>settings.
       case st_account_token settings of
         None \<Rightarrow> println ''No account configured''
       | Some account_token \<Rightarrow>
           cli_then (println (''Mullvad account: '' @ account_token))
             (cli_bind (cli_try (rpc_get_account_data env account_token)) (\<lambda>expiry.
                println (''Expires at     : '' @ ad_expiry expiry))))"

definition account_run :: "'s cli_env \<Rightarrow> arg_matches \<Rightarrow> ('s, unit) cli" where
  "account_run env m =
     (case subcommand_matches m ''set'' of
        Some set_m \<Rightarrow>
          cli_bind (or_exit (value_t Some (value_of set_m ''token''))) (\<lambda>token. account_set env (Some token))
      | None \<Rightarrow>
          if subcommand_matches m ''unset'' \<noteq> None then account_set env None
          else if subcommand_matches m ''get'' \<noteq> None then account_get env
          else cli_panic)"

subsection \<open>\<open>auto-connect\<close>, \<open>block-when-disconnected\<close> and \<open>lan\<close>\<close>

definition policy_app :: "string \<Rightarrow> string list \<Rightarrow> clap_app" where
  "policy_app name policies =
     ClapApp name True []
       [ClapApp ''set'' False [(required_arg ''policy'')\<lparr>ca_possible := Some policies\<rparr>] [], plain_app ''get'']"

definition policy_run :: "(string \<Rightarrow> ('s, unit) cli) \<Rightarrow> ('s, unit) cli \<Rightarrow> arg_matches \<Rightarrow> ('s, unit) cli" where
  "policy_run set_policy get m =
     (case subcommand_matches m ''set'' of
        Some set_m \<Rightarrow> cli_bind (or_exit (value_t Some (value_of set_m ''policy''))) set_policy
      | None \<Rightarrow> if subcommand_matches m ''get'' \<noteq> None then get else cli_panic)"

definition auto_connect_app :: clap_app where
  "auto_connect_app = policy_app ''auto-connect'' [''on'', ''off'']"

definition auto_connect_set :: "'s cli_env \<Rightarrow> bool \<Rightarrow> ('s, unit) cli" where
  "auto_connect_set env b =
     call_and_report env (rpc_set_auto_connect env b) ''Changed auto-connect sharing setting''"

definition auto_connect_get :: "'s cli_env \<Rightarrow> ('s, unit) cli" where
  "auto_connect_get env =
     with_settings env (\<lambda>s. println (''Autoconnect: '' @ (if st_auto_connect s then ''on'' else ''off'')))"

definition auto_connect_run :: "'s cli_env \<Rightarrow> arg_matches \<Rightarrow> ('s, unit) cli" where
  "auto_connect_run env = policy_run (\<lambda>p. auto_connect_set env (p = ''on'')) (auto_connect_get env)"

definition block_when_disconnected_app :: clap_app where
  "block_when_disconnected_app = policy_app ''block-when-disconnected'' [''on'', ''off'']"

definition block_when_disconnected_set :: "'s cli_env \<Rightarrow> bool \<Rightarrow> ('s, unit) cli" where
  "block_when_disconnected_set env b =
     call_and_report env (rpc_set_block_when_disconnected env b) ''Changed block when disconnected setting''"

definition block_when_disconnected_get :: "'s cli_env \<Rightarrow> ('s, unit) cli" where
  "block_when_disconnected_get env =
     with_settings env (\<lambda>s.
       println (''Network traffic will be '' @
         (if st_block_when_disconnected s then ''blocked'' else ''allowed'') @
         '' when the VPN is disconnected''))"

definition block_when_disconnected_run :: "'s cli_env \<Rightarrow> arg_matches \<Rightarrow> ('s, unit) cli" where
  "block_when_disconnected_run env =
     policy_run (\<lambda>p. block_when_disconnected_set env (p = ''on'')) (block_when_disconnected_get env)"

definition lan_app :: clap_app where
  "lan_app = policy_app ''lan'' [''allow'', ''block'']"

definition lan_set :: "'s cli_env \<Rightarrow> bool \<Rightarrow> ('s, unit) cli" where
  "lan_set env b = call_and_report env (rpc_set_allow_lan env b) ''Changed local network sharing setting''"

definition lan_get :: "'s cli_env \<Rightarrow> ('s, unit) cli" where
  "lan_get env =
     with_settings env (\<lambda>s.
       println (''Local network sharing setting: '' @ (if st_allow_lan s then ''allow'' else ''block'')))"

definition lan_run :: "'s cli_env \<Rightarrow> arg_matches \<Rightarrow> ('s, unit) cli" where
  "lan_run env = policy_run (\<lambda>p. lan_set env (p = ''allow'')) (lan_get env)"

subsection \<open>\<open>bridge\<close>\<close>

definition create_set_custom_settings_subcommand :: clap_app where
  "create_set_custom_settings_subcommand =
     ClapApp ''custom'' True []
       [ClapApp ''local'' False
          [required_at 1 ''local-port'', required_at 2 ''remote-ip'', required_at 3 ''remote-port''] [],
        ClapApp ''remote'' False
          [required_at 1 ''remote-ip'', required_at 2 ''remote-port'', required_at 3 ''username'',
           required_at 4 ''password''] [],
        ClapApp ''shadowsocks'' False
          [required_at 1 ''remote-ip'', (optional_at 2 ''remote-port'')\<lparr>ca_default := Some ''443''\<rparr>,
           (optional_at 3 ''password'')\<lparr>ca_default := Some ''23#dfsbbb''\<rparr>,
           (optional_at 4 ''cipher'')\<lparr>ca_default := Some ''chacha20'', ca_possible := Some SHADOWSOCKS_CIPHERS\<rparr>] []]"

definition create_set_state_subcommand :: clap_app where
  "create_set_state_subcommand =
     ClapApp ''state'' False
       [(required_at 1 ''state'')\<lparr>ca_possible := Some [''auto'', ''on'', ''off'']\<rparr>] []"

definition create_bridge_set_subcommand :: clap_app where
  "create_bridge_set_subcommand =
     ClapApp ''set'' True []
       [create_set_state_subcommand, create_set_custom_settings_subcommand, location_app]"

definition bridge_app :: clap_app where
  "bridge_app =
     ClapApp ''bridge'' True [] [create_bridge_set_subcommand, plain_app ''get'', plain_app ''list'']"

definition print_local_proxy :: "local_proxy_settings \<Rightarrow> ('s, unit) cli" where
  "print_local_proxy proxy =
     cli_all
       [println ''proxy: local'',
        println (''  local port: '' @ fmt_u16 (lp_port proxy)),
        println (''  peer IP: '' @ fmt_ip (sa_ip (lp_peer proxy))),
        println (''  peer port: '' @ fmt_u16 (sa_port (lp_peer proxy)))]"

definition print_remote_proxy :: "remote_proxy_settings \<Rightarrow> ('s, unit) cli" where
  "print_remote_proxy proxy =
     cli_all
       ([println ''proxy: remote'',
         println (''  server IP: '' @ fmt_ip (sa_ip (rp_address proxy))),
         println (''  server port: '' @ fmt_u16 (sa_port (rp_address proxy)))] @
        (case rp_auth proxy of
           Some auth \<Rightarrow>
             [println (''  auth username: '' @ pa_username auth),
              println (''  auth password: '' @ pa_password auth)]
         | None \<Rightarrow> [println ''  auth: none'']))"

definition print_shadowsocks_proxy :: "shadowsocks_proxy_settings \<Rightarrow> ('s, unit) cli" where
  "print_shadowsocks_proxy proxy =
     cli_all
       [println ''proxy: Shadowsocks'',
        println (''  peer IP: '' @ fmt_ip (sa_ip (ss_peer proxy))),
        println (''  peer port: '' @ fmt_u16 (sa_port (ss_peer proxy))),
        println (''  password: '' @ ss_password proxy),
        println (''  cipher: '' @ ss_cipher proxy)]"

definition bridge_get :: "'s cli_env \<Rightarrow> ('s, unit) cli" where
  "bridge_get env =
     with_settings env (\<lambda>settings.
       cli_then (println (''Bridge state - '' @ bridge_state_fmt (st_bridge_state settings)))
         (case st_bridge_settings settings of
            BridgeCustom (ProxyLocal proxy) \<Rightarrow> print_local_proxy proxy
          | BridgeCustom (ProxyRemote proxy) \<Rightarrow> print_remote_proxy proxy
          | BridgeCustom (ProxyShadowsocksSettings proxy) \<Rightarrow> print_shadowsocks_proxy proxy
          | BridgeNormal constraints \<Rightarrow> println (''Bridge constraints: '' @ bridge_constraints_fmt constraints)))"

definition set_bridge_location :: "'s cli_env \<Rightarrow> arg_matches \<Rightarrow> ('s, unit) cli" where
  "set_bridge_location env m =
     cli_bind (get_constraint m) (\<lambda>location.
       cli_then (new_rpc_client env)
         (cli_try (rpc_set_bridge_settings env (BridgeNormal \<lparr>bc_location = location\<rparr>))))"

definition set_bridge_state_cmd :: "'s cli_env \<Rightarrow> arg_matches \<Rightarrow> ('s, unit) cli" where
  "set_bridge_state_cmd env m =
     cli_bind (cli_unwrap (value_of m ''state'')) (\<lambda>text.
     cli_bind
       (if text = ''auto'' then cli_return BridgeAuto
        else if text = ''on'' then cli_return BridgeOn
        else if text = ''off'' then cli_return BridgeOff
        else cli_panic) (\<lambda>state.
       cli_then (new_rpc_client env) (cli_try (rpc_set_bridge_state env state))))"

definition set_custom_proxy :: "'s cli_env \<Rightarrow> proxy_settings \<Rightarrow> ('s, unit) cli" where
  "set_custom_proxy env packed_proxy =
     (case validate_proxy_settings packed_proxy of
        Inl error \<Rightarrow> cli_panic
      | Inr _ \<Rightarrow>
          cli_then (new_rpc_client env)
            (cli_then (cli_try (rpc_set_bridge_settings env (BridgeCustom packed_proxy)))
               (println ''proxy details have been updated'')))"

definition local_proxy_args :: "'s cli_env \<Rightarrow> arg_matches \<Rightarrow> ('s, proxy_settings) cli" where
  "local_proxy_args env args =
     cli_bind (or_exit (value_t parse_u16 (value_of args ''local-port''))) (\<lambda>local_port.
     cli_bind (or_exit (value_t (ce_parse_ip env) (value_of args ''remote-ip''))) (\<lambda>remote_ip.
     cli_bind (or_exit (value_t parse_u16 (value_of args ''remote-port''))) (\<lambda>remote_port.
       cli_return (ProxyLocal \<lparr>lp_port = local_port, lp_peer = \<lparr>sa_ip = remote_ip, sa_port = remote_port\<rparr>\<rparr>))))"

definition remote_proxy_args :: "'s cli_env \<Rightarrow> arg_matches \<Rightarrow> ('s, proxy_settings) cli" where
  "remote_proxy_args env args =
     cli_bind (or_exit (value_t (ce_parse_ip env) (value_of args ''remote-ip''))) (\<lambda>remote_ip.
     cli_bind (or_exit (value_t parse_u16 (value_of args ''remote-port''))) (\<lambda>remote_port.
       cli_return
         (ProxyRemote
            \<lparr>rp_address = \<lparr>sa_ip = remote_ip, sa_port = remote_port\<rparr>,
             rp_auth =
               (case (value_of args ''username'', value_of args ''password'') of
                  (Some username, Some password) \<Rightarrow> Some \<lparr>pa_username = username, pa_password = password\<rparr>
                | _ \<Rightarrow> None)\<rparr>)))"

definition shadowsocks_proxy_args :: "'s cli_env \<Rightarrow> arg_matches \<Rightarrow> ('s, proxy_settings) cli" where
  "shadowsocks_proxy_args env args =
     cli_bind (or_exit (value_t (ce_parse_ip env) (value_of args ''remote-ip''))) (\<lambda>remote_ip.
     cli_bind (or_exit (value_t parse_u16 (value_of args ''remote-port''))) (\<lambda>remote_port.
     cli_bind (cli_unwrap (value_of args ''password'')) (\<lambda>password.
     cli_bind (cli_unwrap (value_of args ''cipher'')) (\<lambda>cipher.
       cli_return
         (ProxyShadowsocksSettings
            \<lparr>ss_peer = \<lparr>sa_ip = remote_ip, sa_port = remote_port\<rparr>, ss_password = password,
             ss_cipher = cipher\<rparr>)))))"

definition set_custom_settings :: "'s cli_env \<Rightarrow> arg_matches \<Rightarrow> ('s, unit) cli" where
  "set_custom_settings env m =
     (case subcommand_matches m ''local'' of
        Some args \<Rightarrow> cli_bind (local_proxy_args env args) (set_custom_proxy env)
      | None \<Rightarrow>
          (case subcommand_matches m ''remote'' of
             Some args \<Rightarrow> cli_bind (remote_proxy_args env args) (set_custom_proxy env)
           | None \<Rightarrow>
               (case subcommand_matches m ''shadowsocks'' of
                  Some args \<Rightarrow> cli_bind (shadowsocks_proxy_args env args) (set_custom_proxy env)
                | None \<Rightarrow> cli_panic)))"

text \<open>The matched subcommand, as \<open>matches.subcommand()\<close> with patterns for the names.\<close>

fun dispatch :: "(string \<times> (arg_matches \<Rightarrow> ('s, unit) cli)) list \<Rightarrow> arg_matches \<Rightarrow> ('s, unit) cli" where
  "dispatch [] m = cli_panic"
| "dispatch ((name, run) # cs) m =
     (case subcommand_matches m name of Some m' \<Rightarrow> run m' | None \<Rightarrow> dispatch cs m)"

definition bridge_set :: "'s cli_env \<Rightarrow> arg_matches \<Rightarrow> ('s, unit) cli" where
  "bridge_set env =
     dispatch
       [(''location'', set_bridge_location env), (''custom'', set_custom_settings env),
        (''state'', set_bridge_state_cmd env)]"

text \<open>Names and codes of places, and positions with five decimals; \<open>DEGREES\<close> is UTF-8.\<close>

definition DEGREES :: string where
  "DEGREES = [CHR 0xC2, CHR 0xB0]"

definition fmt_position :: "'s cli_env \<Rightarrow> real \<Rightarrow> real \<Rightarrow> string" where
  "fmt_position env lat lon =
     ce_five_decimals env lat @ DEGREES @ ''N, '' @ ce_five_decimals env lon @ DEGREES @ ''W''"

definition print_country :: "'s cli_env \<Rightarrow> relay_list_country \<Rightarrow> ('s, unit) cli" where
  "print_country env country =
     cli_all
       ([println (co_name country @ '' ('' @ co_code country @ '')'')] @
        map (\<lambda>city. println ([CHR 0x09] @ ci_name city @ '' ('' @ ci_code city @ '') @ '' @
               fmt_position env (ci_latitude city) (ci_longitude city)))
          (sort_key ci_name (co_cities country)) @
        [println []])"

definition bridge_locations :: "relay_list_country list \<Rightarrow> relay_list_country list" where
  "bridge_locations countries =
     filter (\<lambda>country. co_cities country \<noteq> [])
       (map (\<lambda>country. country\<lparr>co_cities :=
          filter (\<lambda>city. ci_relays city \<noteq> [])
            (map (\<lambda>city. city\<lparr>ci_relays := filter (\<lambda>r. \<not> bridges_is_empty (r_bridges r)) (ci_relays city)\<rparr>)
               (co_cities country))\<rparr>) countries)"

definition list_bridge_relays :: "'s cli_env \<Rightarrow> ('s, unit) cli" where
  "list_bridge_relays env =
     cli_then (new_rpc_client env)
       (cli_bind (cli_try (rpc_get_relay_locations env)) (\<lambda>locations.
          cli_all (map (print_country env) (bridge_locations (rl_countries locations)))))"

definition bridge_run :: "'s cli_env \<Rightarrow> arg_matches \<Rightarrow> ('s, unit) cli" where
  "bridge_run env =
     dispatch
       [(''set'', bridge_set env), (''get'', \<lambda>_. bridge_get env), (''list'', \<lambda>_. list_bridge_relays env)]"

subsection \<open>\<open>relay\<close>\<close>

definition custom_wireguard_app :: clap_app where
  "custom_wireguard_app =
     ClapApp ''wireguard'' False
       [required_at 1 ''host'', required_at 2 ''port'', optional_at 3 ''peer-key'',
        (optional_at 4 ''v4-gateway'')\<lparr>ca_long := Some ''v4-gateway''\<rparr>,
        (with_name ''v6-gateway'')\<lparr>ca_long := Some ''v6-gateway'', ca_takes_value := True\<rparr>,
        (with_name ''addr'')\<lparr>ca_long := Some ''addr'', ca_takes_value := True, ca_multiple := True\<rparr>] []"

definition custom_openvpn_app :: clap_app where
  "custom_openvpn_app =
     ClapApp ''openvpn'' False
       [required_at 1 ''host'', required_at 2 ''port'',
        (optional_at 3 ''protocol'')\<lparr>ca_default := Some ''udp'', ca_possible := Some [''udp'', ''tcp'']\<rparr>,
        optional_at 4 ''username'', optional_at 5 ''password''] []"

definition relay_set_app :: clap_app where
  "relay_set_app =
     ClapApp ''set'' True []
       [ClapApp ''custom'' False [] [custom_wireguard_app, custom_openvpn_app],
        location_app,
        ClapApp ''tunnel'' False
          [(required_at 1 ''vpn protocol'')\<lparr>ca_possible := Some [''wireguard'', ''openvpn'']\<rparr>,
           required_at 2 ''port'',
           (with_name ''transport protocol'')\<lparr>ca_long := Some ''protocol'', ca_takes_value := True,
             ca_default := Some ''any'', ca_possible := Some [''any'', ''udp'', ''tcp'']\<rparr>] []]"

definition relay_app :: clap_app where
  "relay_app =
     ClapApp ''relay'' True []
       [relay_set_app, plain_app ''get'', plain_app ''list'', plain_app ''update'']"

definition parse_port_constraint :: "string \<Rightarrow> cli_error + u16 constraint" where
  "parse_port_constraint raw_port =
     (let port = to_lowercase raw_port in
      if port = ''any'' then Inr Any
      else (case parse_u16 port of
              Some p \<Rightarrow> Inr (Only p)
            | None \<Rightarrow> Inl (InvalidCommand (''Invalid port. Must be '' @ QUOTE @ ''any'' @ QUOTE @ '' or [0-65535].''))))"

definition parse_protocol_constraint :: "string \<Rightarrow> transport_protocol constraint option" where
  "parse_protocol_constraint raw_protocol =
     (if raw_protocol = ''any'' then Some Any
      else if raw_protocol = ''udp'' then Some (Only Udp)
      else if raw_protocol = ''tcp'' then Some (Only Tcp)
      else None)"

definition update_constraints :: "'s cli_env \<Rightarrow> relay_settings_update \<Rightarrow> ('s, unit) cli" where
  "update_constraints env update =
     call_and_report env (rpc_update_relay_settings env update) ''Relay constraints updated''"

definition no_update :: relay_constraints_update where
  "no_update =
     \<lparr>ru_location = None, ru_tunnel_protocol = None, ru_wireguard_constraints = None,
      ru_openvpn_constraints = None\<rparr>"

definition relay_set_location :: "'s cli_env \<Rightarrow> arg_matches \<Rightarrow> ('s, unit) cli" where
  "relay_set_location env m =
     cli_bind (get_constraint m) (\<lambda>location.
       update_constraints env (UpdateNormal (no_update\<lparr>ru_location := Some location\<rparr>)))"

definition relay_set_tunnel :: "'s cli_env \<Rightarrow> arg_matches \<Rightarrow> ('s, unit) cli" where
  "relay_set_tunnel env m =
     cli_bind (cli_unwrap (value_of m ''vpn protocol'')) (\<lambda>vpn_protocol.
     cli_bind (cli_unwrap (value_of m ''port'')) (\<lambda>raw_port.
     cli_bind (case parse_port_constraint raw_port of Inl e \<Rightarrow> cli_fail e | Inr port \<Rightarrow> cli_return port) (\<lambda>port.
     cli_bind (cli_unwrap (value_of m ''transport protocol'')) (\<lambda>raw_protocol.
     cli_bind (cli_unwrap (parse_protocol_constraint raw_protocol)) (\<lambda>protocol.
       if vpn_protocol = ''wireguard'' then
         if protocol = Only Tcp then cli_fail (InvalidCommand ''WireGuard does not support TCP'')
         else update_constraints env (UpdateNormal
           (no_update\<lparr>ru_tunnel_protocol := Some (Only ProtoWireguard),
             ru_wireguard_constraints := Some \<lparr>wc_port = port\<rparr>\<rparr>))
       else if vpn_protocol = ''openvpn'' then
         update_constraints env (UpdateNormal
           (no_update\<lparr>ru_tunnel_protocol := Some Any,
             ru_openvpn_constraints := Some \<lparr>oc_port = port, oc_protocol = protocol\<rparr>\<rparr>))
       else cli_panic)))))"

definition parse_transport_protocol :: "string \<Rightarrow> transport_protocol option" where
  "parse_transport_protocol s = (case transport_protocol_from_str s of Inl _ \<Rightarrow> None | Inr p \<Rightarrow> Some p)"

definition read_custom_openvpn_relay :: "'s cli_env \<Rightarrow> arg_matches \<Rightarrow> ('s, custom_tunnel_endpoint) cli" where
  "read_custom_openvpn_relay env m =
     cli_bind (or_exit (value_t Some (value_of m ''host''))) (\<lambda>host.
     cli_bind (or_exit (value_t parse_u16 (value_of m ''port''))) (\<lambda>port.
     cli_bind (or_exit (value_t Some (value_of m ''username''))) (\<lambda>username.
     cli_bind (or_exit (value_t Some (value_of m ''password''))) (\<lambda>password.
     cli_bind (or_exit (value_t parse_transport_protocol (value_of m ''protocol''))) (\<lambda>protocol.
       cli_return
         (custom_tunnel_endpoint_new host
            (ConfigOpenVpn
              \<lparr>ovpn_endpoint = endpoint_new (V4 0) port protocol, ovpn_username = username,
               ovpn_password = password\<rparr>)))))))"

definition validate_wireguard_key :: "'s cli_env \<Rightarrow> string \<Rightarrow> ('s, u8 list) cli" where
  "validate_wireguard_key env key_str =
     (case ce_base64_decode env (str_trim key_str) of
        Inl e \<Rightarrow> cli_then (eprintln (''Failed to decode wireguard key: '' @ e)) cli_exit
      | Inr key_bytes \<Rightarrow>
          if length key_bytes \<noteq> 32
          then cli_then (eprintln (''Expected key length to be 32 bytes, got '' @ fmt_nat (length key_bytes))) cli_exit
          else cli_return key_bytes)"

text \<open>The key is read from standard input; a failed read leaves an empty text, which is not a key.\<close>

definition read_private_key :: "('s, string) cli" where
  "read_private_key =
     cli_then (println ''Reading private key from standard input'')
       (cli_bind read_line (\<lambda>r.
          let private_key_str = (case r of Inl _ \<Rightarrow> [] | Inr line \<Rightarrow> line) in
          cli_then
            (if str_trim private_key_str = [] then eprintln ''Expected to read private key from standard input''
             else cli_return ())
            (cli_return private_key_str)))"

definition read_custom_wireguard_relay :: "'s cli_env \<Rightarrow> arg_matches \<Rightarrow> ('s, custom_tunnel_endpoint) cli" where
  "read_custom_wireguard_relay env m =
     cli_bind (or_exit (value_t Some (value_of m ''host''))) (\<lambda>host.
     cli_bind (or_exit (value_t parse_u16 (value_of m ''port''))) (\<lambda>port.
     cli_bind (or_exit (values_t (ce_parse_ip env) (values_of m ''addr''))) (\<lambda>addresses.
     cli_bind (or_exit (value_t Some (value_of m ''peer-key''))) (\<lambda>peer_key_str.
     cli_bind (or_exit (value_t (ce_parse_ipv4 env) (value_of m ''v4-gateway''))) (\<lambda>ipv4_gateway.
     cli_bind
       (case value_t (ce_parse_ipv6 env) (value_of m ''v6-gateway'') of
          ValueFound gateway \<Rightarrow> cli_return (Some gateway)
        | ValueNotFound \<Rightarrow> cli_return None
        | ValueInvalid \<Rightarrow> cli_exit) (\<lambda>ipv6_gateway.
     cli_bind read_private_key (\<lambda>private_key_str.
     cli_bind (validate_wireguard_key env private_key_str) (\<lambda>private_key.
     cli_bind (validate_wireguard_key env peer_key_str) (\<lambda>peer_public_key.
       cli_return
         (custom_tunnel_endpoint_new host
            (ConfigWireguard
              \<lparr>wgc_tunnel = \<lparr>wg_private_key = private_key_from private_key, wg_addresses = addresses\<rparr>,
               wgc_peer =
                 \<lparr>peer_public_key = PublicKey peer_public_key, peer_allowed_ips = all_of_the_internet,
                  peer_endpoint = \<lparr>sa_ip = V4 0, sa_port = port\<rparr>\<rparr>,
               wgc_ipv4_gateway = ipv4_gateway, wgc_ipv6_gateway = ipv6_gateway\<rparr>)))))))))))"

definition relay_set_custom :: "'s cli_env \<Rightarrow> arg_matches \<Rightarrow> ('s, unit) cli" where
  "relay_set_custom env m =
     (case subcommand_matches m ''openvpn'' of
        Some args \<Rightarrow>
          cli_bind (read_custom_openvpn_relay env args) (\<lambda>e. update_constraints env (UpdateCustomTunnelEndpoint e))
      | None \<Rightarrow>
          (case subcommand_matches m ''wireguard'' of
             Some args \<Rightarrow>
               cli_bind (read_custom_wireguard_relay env args) (\<lambda>e.
                 update_constraints env (UpdateCustomTunnelEndpoint e))
           | None \<Rightarrow> cli_panic))"

definition relay_set :: "'s cli_env \<Rightarrow> arg_matches \<Rightarrow> ('s, unit) cli" where
  "relay_set env =
     dispatch
       [(''custom'', relay_set_custom env), (''location'', relay_set_location env),
        (''tunnel'', relay_set_tunnel env)]"

definition relay_get :: "'s cli_env \<Rightarrow> ('s, unit) cli" where
  "relay_get env =
     with_settings env (\<lambda>s.
       println (''Current constraints: '' @ relay_settings_fmt (ce_key_fmt env) (st_relay_settings s)))"

definition relay_list_cmd :: "'s cli_env \<Rightarrow> ('s, unit) cli" where
  "relay_list_cmd env =
     cli_then (new_rpc_client env)
       (cli_bind (cli_try (rpc_get_relay_locations env)) (\<lambda>locations.
          cli_all (map (print_country env) (sort_key co_name (rl_countries locations)))))"

definition relay_update :: "'s cli_env \<Rightarrow> ('s, unit) cli" where
  "relay_update env =
     call_and_report env (rpc_update_relay_locations env) ''Updating relay list in the background...''"

definition relay_run :: "'s cli_env \<Rightarrow> arg_matches \<Rightarrow> ('s, unit) cli" where
  "relay_run env =
     dispatch
       [(''set'', relay_set env), (''get'', \<lambda>_. relay_get env), (''list'', \<lambda>_. relay_list_cmd env),
        (''update'', \<lambda>_. relay_update env)]"

subsection \<open>\<open>tunnel\<close>\<close>

definition create_wireguard_mtu_subcommand :: clap_app where
  "create_wireguard_mtu_subcommand =
     ClapApp ''mtu'' True []
       [plain_app ''get'', plain_app ''unset'', ClapApp ''set'' False [required_arg ''mtu''] []]"

definition create_wireguard_keys_subcommand :: clap_app where
  "create_wireguard_keys_subcommand = ClapApp ''key'' True [] [plain_app ''check'', plain_app ''generate'']"

definition create_wireguard_subcommand :: clap_app where
  "create_wireguard_subcommand =
     ClapApp ''wireguard'' True [] [create_wireguard_mtu_subcommand, create_wireguard_keys_subcommand]"

definition create_openvpn_mssfix_subcommand :: clap_app where
  "create_openvpn_mssfix_subcommand =
     ClapApp ''mssfix'' True []
       [plain_app ''get'', plain_app ''unset'', ClapApp ''set'' False [required_arg ''mssfix''] []]"

definition create_openvpn_subcommand :: clap_app where
  "create_openvpn_subcommand = ClapApp ''openvpn'' True [] [create_openvpn_mssfix_subcommand]"

definition create_ipv6_subcommand :: clap_app where
  "create_ipv6_subcommand =
     ClapApp ''ipv6'' True []
       [plain_app ''get'',
        ClapApp ''set'' False
          [(required_arg ''enable'')\<lparr>ca_takes_value := True, ca_possible := Some [''on'', ''off'']\<rparr>] []]"

definition tunnel_app :: clap_app where
  "tunnel_app =
     ClapApp ''tunnel'' True []
       [create_openvpn_subcommand, create_wireguard_subcommand, create_ipv6_subcommand]"

definition with_tunnel_options :: "'s cli_env \<Rightarrow> (tunnel_options \<Rightarrow> ('s, unit) cli) \<Rightarrow> ('s, unit) cli" where
  "with_tunnel_options env k = with_settings env (\<lambda>s. k (st_tunnel_options s))"

definition fmt_u16_option :: "u16 option \<Rightarrow> string" where
  "fmt_u16_option v = (case v of Some n \<Rightarrow> fmt_u16 n | None \<Rightarrow> ''unset'')"

definition openvpn_mssfix_get :: "'s cli_env \<Rightarrow> ('s, unit) cli" where
  "openvpn_mssfix_get env =
     with_tunnel_options env (\<lambda>opts. println (''mssfix: '' @ fmt_u16_option (mssfix (to_openvpn opts))))"

definition openvpn_mssfix_unset :: "'s cli_env \<Rightarrow> ('s, unit) cli" where
  "openvpn_mssfix_unset env =
     call_and_report env (rpc_set_openvpn_mssfix env None) ''mssfix parameter has been unset''"

definition openvpn_mssfix_set :: "'s cli_env \<Rightarrow> arg_matches \<Rightarrow> ('s, unit) cli" where
  "openvpn_mssfix_set env m =
     cli_bind (or_exit (value_t parse_u16 (value_of m ''mssfix''))) (\<lambda>new_value.
       call_and_report env (rpc_set_openvpn_mssfix env (Some new_value)) ''mssfix parameter has been updated'')"

definition openvpn_cmd :: "'s cli_env \<Rightarrow> arg_matches \<Rightarrow> ('s, unit) cli" where
  "openvpn_cmd env =
     dispatch
       [(''mssfix'', dispatch
          [(''get'', \<lambda>_. openvpn_mssfix_get env), (''unset'', \<lambda>_. openvpn_mssfix_unset env),
           (''set'', openvpn_mssfix_set env)])]"

definition wireguard_mtu_get :: "'s cli_env \<Rightarrow> ('s, unit) cli" where
  "wireguard_mtu_get env =
     with_tunnel_options env (\<lambda>opts. println (''mtu: '' @ fmt_u16_option (wg_mtu (to_wireguard opts))))"

definition wireguard_mtu_set :: "'s cli_env \<Rightarrow> arg_matches \<Rightarrow> ('s, unit) cli" where
  "wireguard_mtu_set env m =
     cli_bind (or_exit (value_t parse_u16 (value_of m ''mtu''))) (\<lambda>mtu.
       call_and_report env (rpc_set_wireguard_mtu env (Some mtu)) ''Wireguard MTU has been updated'')"

definition wireguard_mtu_unset :: "'s cli_env \<Rightarrow> ('s, unit) cli" where
  "wireguard_mtu_unset env =
     call_and_report env (rpc_set_wireguard_mtu env None) ''Wireguard MTU has been unset''"

definition fmt_bool :: "bool \<Rightarrow> string" where
  "fmt_bool b = (if b then ''true'' else ''false'')"

definition wireguard_key_check :: "'s cli_env \<Rightarrow> ('s, unit) cli" where
  "wireguard_key_check env =
     cli_then (new_rpc_client env)
       (cli_bind (cli_try (rpc_get_wireguard_key env)) (\<lambda>key.
          case key of
            None \<Rightarrow> println ''No key is set''
          | Some key \<Rightarrow>
              cli_then (println (''Current key: '' @ ce_key_fmt env key))
                (cli_bind (cli_try (rpc_verify_wireguard_key env)) (\<lambda>is_valid.
                   println (''Key is valid for use with current account: '' @ fmt_bool is_valid)))))"

definition wireguard_key_generate :: "'s cli_env \<Rightarrow> ('s, unit) cli" where
  "wireguard_key_generate env =
     cli_then (new_rpc_client env)
       (cli_bind (cli_try (rpc_generate_wireguard_key env)) (\<lambda>result.
          println (keygen_event_fmt (ce_key_fmt env) result)))"

definition wireguard_cmd :: "'s cli_env \<Rightarrow> arg_matches \<Rightarrow> ('s, unit) cli" where
  "wireguard_cmd env =
     dispatch
       [(''mtu'', dispatch
          [(''get'', \<lambda>_. wireguard_mtu_get env), (''set'', wireguard_mtu_set env),
           (''unset'', \<lambda>_. wireguard_mtu_unset env)]),
        (''key'', dispatch
          [(''check'', \<lambda>_. wireguard_key_check env), (''generate'', \<lambda>_. wireguard_key_generate env)])]"

definition ipv6_get :: "'s cli_env \<Rightarrow> ('s, unit) cli" where
  "ipv6_get env =
     with_tunnel_options env (\<lambda>opts. println (''IPv6: '' @ (if enable_ipv6 (to_generic opts) then ''on'' else ''off'')))"

definition ipv6_set :: "'s cli_env \<Rightarrow> arg_matches \<Rightarrow> ('s, unit) cli" where
  "ipv6_set env m =
     cli_bind (cli_unwrap (value_of m ''enable'')) (\<lambda>enable.
       call_and_report env (rpc_set_enable_ipv6 env (enable = ''on'')) ''IPv6 setting has been updated'')"

definition ipv6_cmd :: "'s cli_env \<Rightarrow> arg_matches \<Rightarrow> ('s, unit) cli" where
  "ipv6_cmd env = dispatch [(''get'', \<lambda>_. ipv6_get env), (''set'', ipv6_set env)]"

definition tunnel_run :: "'s cli_env \<Rightarrow> arg_matches \<Rightarrow> ('s, unit) cli" where
  "tunnel_run env =
     dispatch
       [(''openvpn'', openvpn_cmd env), (''wireguard'', wireguard_cmd env), (''ipv6'', ipv6_cmd env)]"

subsection \<open>\<open>connect\<close>, \<open>disconnect\<close>, \<open>version\<close> and \<open>factory-reset\<close>\<close>

definition connect_run :: "'s cli_env \<Rightarrow> arg_matches \<Rightarrow> ('s, unit) cli" where
  "connect_run env _ =
     cli_then (new_rpc_client env)
       (cli_bind (rpc_connect env) (\<lambda>r.
          case r of
            Inl e \<Rightarrow> eprintln (display_chain (ce_error_chain env e))
          | Inr _ \<Rightarrow> cli_return ()))"

definition disconnect_run :: "'s cli_env \<Rightarrow> arg_matches \<Rightarrow> ('s, unit) cli" where
  "disconnect_run env _ = cli_then (new_rpc_client env) (cli_try (rpc_disconnect env))"

definition version_run :: "'s cli_env \<Rightarrow> arg_matches \<Rightarrow> ('s, unit) cli" where
  "version_run env _ =
     cli_then (new_rpc_client env)
       (cli_bind (cli_try (rpc_get_current_version env)) (\<lambda>current_version.
        cli_then (println (''Current version: '' @ current_version))
       (cli_bind (cli_try (rpc_get_version_info env)) (\<lambda>version_info.
        cli_then (println (''Supported: '' @ fmt_bool (vi_current_is_supported version_info)))
          (if vi_latest_stable version_info \<noteq> vi_latest version_info
           then println (''Latest version: '' @ vi_latest version_info @ '' (latest stable: '' @
             vi_latest_stable version_info @ '')'')
           else println (''Latest version: '' @ vi_latest_stable version_info))))))"

text \<open>The loop reads lines until one is an answer; at the end of the input the line is empty.\<close>

fun confirmation_loop :: "(string + string) list \<Rightarrow> bool \<times> (string + string) list \<times> string \<times> string" where
  "confirmation_loop [] = (False, [], [], [])"
| "confirmation_loop (Inl e # ls) = (False, ls, [], ''Couldn't read from STDIN - '' @ e @ NEWLINE)"
| "confirmation_loop (Inr line # ls) =
     (let answer = str_trim line in
      if answer = ''Yes'' then (True, ls, [], [])
      else if answer \<in> {''No'', ''no'', ''''} then (False, ls, [], [])
      else (case confirmation_loop ls of
              (b, rest, out, err) \<Rightarrow>
                (b, rest, ''Unexpected response. Please enter '' @ QUOTE @ ''Yes'' @ QUOTE @ '' or '' @
                   QUOTE @ ''No'' @ QUOTE @ NEWLINE @ out, err)))"

definition receive_confirmation :: "('s, bool) cli" where
  "receive_confirmation =
     cli_then
       (println (''Are you sure you want to disconnect, log out, delete all settings, logs and cache files '' @
          ''for the Mullvad VPN system service? [Yes/No (default)]''))
       (\<lambda>s. case confirmation_loop (cs_stdin s) of
          (b, rest, out, err) \<Rightarrow>
            (CliValue b, s\<lparr>cs_stdin := rest, cs_stdout := cs_stdout s @ out, cs_stderr := cs_stderr s @ err\<rparr>))"

definition reset_run :: "'s cli_env \<Rightarrow> arg_matches \<Rightarrow> ('s, unit) cli" where
  "reset_run env _ =
     cli_then (new_rpc_client env)
       (cli_bind receive_confirmation (\<lambda>confirmed.
          if confirmed then
            cli_bind (rpc_factory_reset env) (\<lambda>r.
              case r of
                Inl _ \<Rightarrow> eprintln ''FAILED TO PERFORM FACTORY RESET''
              | Inr _ \<Rightarrow>
                  if ce_os env = Linux
                  then println ''If you're running systemd, to remove all logs, you must use journalctl''
                  else cli_return ())
          else cli_return ()))"

section \<open>Reasons of a failed authentication\<close>

datatype auth_failed =
    InvalidAccount
  | ExpiredAccount
  | TooManyConnectons
  | UnknownReason string string

definition INVALID_ACCOUNT_MSG :: string where
  "INVALID_ACCOUNT_MSG = ''You've logged in with an account number that is not valid. Please log out and try another one.''"

definition EXPIRED_ACCOUNT_MSG :: string where
  "EXPIRED_ACCOUNT_MSG = ''You have no more VPN time left on this account. Please log in on our website to buy more credit.''"

definition TOO_MANY_CONNECTIONS_MSG :: string where
  "TOO_MANY_CONNECTIONS_MSG = ''This account has too many simultaneous connections. Disconnect another device or try connecting again shortly.''"

text \<open>
  The pattern \<open>^\[(\w+)\]\s*(.*)$\<close> on ASCII text: an identifier in brackets, white space, and a
  message without a line break.
\<close>

definition is_word_char :: "char \<Rightarrow> bool" where
  "is_word_char c \<longleftrightarrow>
     (let n = (of_char c :: nat) in
      (48 \<le> n \<and> n \<le> 57) \<or> (65 \<le> n \<and> n \<le> 90) \<or> (97 \<le> n \<and> n \<le> 122) \<or> n = 95)"

definition parse_string :: "string \<Rightarrow> (string \<times> string) option" where
  "parse_string reason =
     (if reason = [] \<or> hd reason \<noteq> CHR ''['' then None
      else
        (let ident = takeWhile is_word_char (tl reason);
             rest = dropWhile is_word_char (tl reason)
         in if ident = [] \<or> rest = [] \<or> hd rest \<noteq> CHR '']'' then None
            else (let message = dropWhile is_space (tl rest) in
                  if CHR 0x0A \<in> set message then None else Some (ident, message))))"

definition auth_failed_from :: "string \<Rightarrow> auth_failed" where
  "auth_failed_from reason =
     (case parse_string reason of
        Some (ident, message) \<Rightarrow>
          if ident = ''INVALID_ACCOUNT'' then InvalidAccount
          else if ident = ''EXPIRED_ACCOUNT'' then ExpiredAccount
          else if ident = ''TOO_MANY_CONNECTIONS'' then TooManyConnectons
          else UnknownReason ident message
      | None \<Rightarrow> UnknownReason ''UNKNOWN'' reason)"

fun auth_failed_fmt :: "auth_failed \<Rightarrow> string" where
  "auth_failed_fmt InvalidAccount = INVALID_ACCOUNT_MSG"
| "auth_failed_fmt ExpiredAccount = EXPIRED_ACCOUNT_MSG"
| "auth_failed_fmt TooManyConnectons = TOO_MANY_CONNECTIONS_MSG"
| "auth_failed_fmt (UnknownReason _ reason) = reason"

section \<open>\<open>status\<close>\<close>

definition endpoint_fmt :: "endpoint \<Rightarrow> string" where
  "endpoint_fmt e = fmt_socket_addr (address e) @ '' over '' @ transport_protocol_fmt (protocol e)"

definition tunnel_endpoint_fmt :: "tunnel_endpoint \<Rightarrow> string" where
  "tunnel_endpoint_fmt e =
     tunnel_type_fmt (te_tunnel_type e) @ '' - '' @ endpoint_fmt (te_endpoint e) @
     (case te_proxy e of
        Some proxy \<Rightarrow>
          '' via '' @ proxy_type_fmt (pe_proxy_type proxy) @ '' '' @
          fmt_socket_addr (address (pe_endpoint proxy)) @ '' over '' @
          transport_protocol_fmt (protocol (pe_endpoint proxy))
      | None \<Rightarrow> [])"

definition print_blocked_reason :: "'s cli_env \<Rightarrow> block_reason \<Rightarrow> ('s, unit) cli" where
  "print_blocked_reason env reason =
     (case reason of
        AuthFailed auth_failure \<Rightarrow>
          println (''Blocked: '' @ auth_failed_fmt (auth_failed_from
            (case auth_failure of Some s \<Rightarrow> s | None \<Rightarrow> ''Account authentication failed'')))
      | _ \<Rightarrow>
          cli_then (println (''Blocked: '' @ block_reason_fmt reason))
            (if reason = SetFirewallPolicyError \<and> ce_os env = Linux
             then println ''Your kernel might be terribly out of date or missing nftables''
             else cli_return ()))"

definition print_tunnel_state :: "'s cli_env \<Rightarrow> daemon_tunnel_state \<Rightarrow> ('s, unit) cli" where
  "print_tunnel_state env state =
     cli_then (print ''Tunnel status: '')
       (case state of
          DtBlocked reason \<Rightarrow> print_blocked_reason env reason
        | DtConnected endpoint _ \<Rightarrow> println (''Connected to '' @ tunnel_endpoint_fmt endpoint)
        | DtConnecting endpoint _ \<Rightarrow> println (''Connecting to '' @ tunnel_endpoint_fmt endpoint @ ''...'')
        | DtDisconnected \<Rightarrow> println ''Disconnected''
        | DtDisconnecting _ \<Rightarrow> println ''Disconnecting...'')"

definition print_if_some :: "string \<Rightarrow> string option \<Rightarrow> string \<Rightarrow> ('s, unit) cli" where
  "print_if_some before v after = (case v of Some text \<Rightarrow> print (before @ text @ after) | None \<Rightarrow> cli_return ())"

definition print_location :: "'s cli_env \<Rightarrow> ('s, unit) cli" where
  "print_location env =
     cli_bind (cli_try (rpc_get_current_location env)) (\<lambda>location.
       case location of
         None \<Rightarrow> println ''Location data unavailable''
       | Some loc \<Rightarrow>
           cli_all
             [print_if_some ''Relay: '' (geo_hostname loc) NEWLINE,
              print_if_some ''IPv4: '' (map_option fmt_ipv4 (geo_ipv4 loc)) NEWLINE,
              print_if_some ''IPv6: '' (map_option fmt_ipv6 (geo_ipv6 loc)) NEWLINE,
              print ''Location: '',
              print_if_some [] (geo_city loc) '', '',
              println (geo_country loc),
              println (''Position: '' @ fmt_position env (geo_latitude loc) (geo_longitude loc))])"

fun print_event :: "'s cli_env \<Rightarrow> bool \<Rightarrow> daemon_event \<Rightarrow> ('s, unit) cli" where
  "print_event env verbose (EvTunnelState tunnel_state) =
     cli_then (print_tunnel_state env tunnel_state)
       (case tunnel_state of
          DtConnected _ _ \<Rightarrow> print_location env
        | DtDisconnected \<Rightarrow> print_location env
        | _ \<Rightarrow> cli_return ())"
| "print_event env verbose (EvSettings settings) =
     (if verbose then println (''New settings: '' @ ce_debug_settings env settings) else cli_return ())"
| "print_event env verbose (EvRelayList relay_list) =
     (if verbose then println (''New relay list: '' @ ce_debug_relay_list env relay_list) else cli_return ())"
| "print_event env verbose (EvWireguardKey key_event) =
     (if verbose then println (keygen_event_fmt (ce_key_fmt env) key_event) else cli_return ())"

fun listen_loop :: "'s cli_env \<Rightarrow> bool \<Rightarrow> (client_error + daemon_event) list \<Rightarrow> ('s, unit) cli" where
  "listen_loop env verbose [] = cli_return ()"
| "listen_loop env verbose (Inl e # es) = cli_fail (RpcClientError e)"
| "listen_loop env verbose (Inr event # es) = cli_then (print_event env verbose event) (listen_loop env verbose es)"

definition status_app :: clap_app where
  "status_app =
     ClapApp ''status'' False []
       [ClapApp ''listen'' False [(with_name ''verbose'')\<lparr>ca_short := Some (CHR ''v'')\<rparr>] []]"

definition status_run :: "'s cli_env \<Rightarrow> arg_matches \<Rightarrow> ('s, unit) cli" where
  "status_run env m =
     cli_then (new_rpc_client env)
       (cli_bind (cli_try (rpc_get_state env)) (\<lambda>state.
        cli_then (print_tunnel_state env state)
       (cli_then (print_location env)
       (case subcommand_matches m ''listen'' of
          None \<Rightarrow> cli_return ()
        | Some listen_m \<Rightarrow>
            cli_bind (rpc_daemon_event_subscribe env) (\<lambda>r.
              case r of
                Inl e \<Rightarrow> cli_fail (CantSubscribe e)
              | Inr events \<Rightarrow> listen_loop env (is_present listen_m ''verbose'') events)))))"

section \<open>The program\<close>

definition all_commands :: "'s cli_env \<Rightarrow> 's cli_command list" where
  "all_commands env =
     [\<lparr>cc_app = account_app, cc_run = account_run env\<rparr>,
      \<lparr>cc_app = auto_connect_app, cc_run = auto_connect_run env\<rparr>,
      \<lparr>cc_app = block_when_disconnected_app, cc_run = block_when_disconnected_run env\<rparr>,
      \<lparr>cc_app = bridge_app, cc_run = bridge_run env\<rparr>,
      \<lparr>cc_app = plain_app ''connect'', cc_run = connect_run env\<rparr>,
      \<lparr>cc_app = plain_app ''disconnect'', cc_run = disconnect_run env\<rparr>,
      \<lparr>cc_app = lan_app, cc_run = lan_run env\<rparr>,
      \<lparr>cc_app = relay_app, cc_run = relay_run env\<rparr>,
      \<lparr>cc_app = plain_app ''factory-reset'', cc_run = reset_run env\<rparr>,
      \<lparr>cc_app = status_app, cc_run = status_run env\<rparr>,
      \<lparr>cc_app = tunnel_app, cc_run = tunnel_run env\<rparr>,
      \<lparr>cc_app = plain_app ''version'', cc_run = version_run env\<rparr>]"

text \<open>The map of the commands; a second one with the same name is a panic.\<close>

fun insert_commands :: "'s cli_command list \<Rightarrow> (string \<times> 's cli_command) list \<Rightarrow> (string \<times> 's cli_command) list panics" where
  "insert_commands [] commands = Returns commands"
| "insert_commands (c # cs) commands =
     (if map_of commands (cc_name c) \<noteq> None then Panics
      else insert_commands cs ((cc_name c, c) # commands))"

definition get_commands :: "'s cli_env \<Rightarrow> (string \<times> 's cli_command) list panics" where
  "get_commands env = insert_commands (all_commands env) []"

definition mullvad_app :: "(string \<times> 's cli_command) list \<Rightarrow> clap_app" where
  "mullvad_app commands = ClapApp ''mullvad-cli'' True [] (map (cc_app \<circ> snd) commands)"

definition run_command :: "(string \<times> 's cli_command) list \<Rightarrow> arg_matches \<Rightarrow> ('s, unit) cli" where
  "run_command commands m =
     (case am_subcommand m of
        None \<Rightarrow> cli_panic
      | Some (name, sub) \<Rightarrow>
          (case map_of commands name of None \<Rightarrow> cli_panic | Some c \<Rightarrow> cc_run c sub))"

fun cli_error_chain :: "'s cli_env \<Rightarrow> cli_error \<Rightarrow> error_chain" where
  "cli_error_chain env (DaemonNotRunning e) = (''Failed to connect to daemon'', [e])"
| "cli_error_chain env (CantSubscribe e) = (''Can't subscribe to daemon states'', [e])"
| "cli_error_chain env (RpcClientError e) =
     (''Failed to communicate with mullvad-daemon over RPC'',
      fst (ce_error_chain env e) # snd (ce_error_chain env e))"
| "cli_error_chain env (InvalidCommand message) = (''Invalid command: '' @ message, [])"

text \<open>
  \<open>main\<close>: the exit code of the process and the final state.  The parser ends the process by itself
  for a command line it refuses and after printing help, with an exit code of its own; ending on an
  invalid value has the code 1, and a panic the code 101.
\<close>

definition cli_exit_code :: "'s cli_env \<Rightarrow> unit cli_outcome \<times> 's cli_state \<Rightarrow> int \<times> 's cli_state" where
  "cli_exit_code env r =
     (case r of
        (CliValue _, s) \<Rightarrow> (0, s)
      | (CliError e, s) \<Rightarrow> (1, snd (eprintln (display_chain (cli_error_chain env e)) s))
      | (CliExit, s) \<Rightarrow> (1, s)
      | (CliPanic, s) \<Rightarrow> (101, s))"

definition cli_main :: "'s cli_env \<Rightarrow> (clap_app \<Rightarrow> string list \<Rightarrow> int + arg_matches) \<Rightarrow> string list
    \<Rightarrow> 's cli_state \<Rightarrow> int \<times> 's cli_state" where
  "cli_main env get_matches words s =
     (case get_commands env of
        Panics \<Rightarrow> (101, s)
      | Returns commands \<Rightarrow>
          (case get_matches (mullvad_app commands) words of
             Inl code \<Rightarrow> (code, s)
           | Inr m \<Rightarrow> cli_exit_code env (run_command commands m s)))"

end
