(* ===== verification/Cli_Props.thy ===== *)
theory Cli_Props
  imports Cli
begin

text \<open>
  Properties of the command line client: which command lines make it panic, and that a command that
  succeeds has made the change it stands for in the daemon, while the commands that show things
  change no settings.
\<close>

section \<open>Running programs\<close>

text \<open>
  Programs that do not panic and change the daemon only within a relation \<open>R\<close>, which the theorems take
  to be a preorder.
\<close>

definition stays :: "('s \<Rightarrow> 's \<Rightarrow> bool) \<Rightarrow> ('s, 'a) cli \<Rightarrow> bool" where
  "stays R m \<longleftrightarrow> (\<forall>s. fst (m s) \<noteq> CliPanic \<and> R (cs_daemon s) (cs_daemon (snd (m s))))"

definition preorder_on_daemon :: "('s \<Rightarrow> 's \<Rightarrow> bool) \<Rightarrow> bool" where
  "preorder_on_daemon R \<longleftrightarrow> (\<forall>d. R d d) \<and> (\<forall>a b c. R a b \<longrightarrow> R b c \<longrightarrow> R a c)"

named_theorems stays_intro \<open>programs that do not panic\<close>

lemmas prog_defs = cli_return_def cli_fail_def cli_exit_def cli_panic_def print_def println_def
  eprintln_def read_line_def new_rpc_client_def

lemma cli_bind_simps [simp]:
  "cli_bind (cli_return x) f = f x" "cli_bind (cli_fail e) f = cli_fail e" "cli_bind cli_exit f = cli_exit"
  "cli_bind cli_panic f = cli_panic" "cli_then (cli_return u) k = k" "cli_unwrap (Some x) = cli_return x"
  by (simp_all add: fun_eq_iff cli_bind_def cli_then_def cli_return_def cli_fail_def cli_exit_def
      cli_panic_def cli_unwrap_def)

lemma stays_basic [stays_intro]:
  assumes "preorder_on_daemon R"
  shows "stays R (cli_return x)" "stays R (cli_fail e)" "stays R cli_exit" "stays R (print t)"
    "stays R (println t)" "stays R (eprintln t)" "stays R read_line" "stays R (new_rpc_client env)"
  using assms
  by (auto simp: stays_def preorder_on_daemon_def prog_defs split: list.splits sum.splits)

lemma stays_bind [stays_intro]:
  assumes "preorder_on_daemon R" and "stays R m" and "\<And>x. stays R (f x)"
  shows "stays R (cli_bind m f)"
  unfolding stays_def
proof
  fix s
  obtain r s1 where m: "m s = (r, s1)" by fastforce
  have 1: "r \<noteq> CliPanic" "R (cs_daemon s) (cs_daemon s1)"
    using assms(2) m unfolding stays_def by (metis fst_conv, metis snd_conv)
  have "fst (f x s1) \<noteq> CliPanic \<and> R (cs_daemon s) (cs_daemon (snd (f x s1)))" for x
    using assms(1,3) 1(2) unfolding stays_def preorder_on_daemon_def by blast
  with 1 m show "fst (cli_bind m f s) \<noteq> CliPanic \<and> R (cs_daemon s) (cs_daemon (snd (cli_bind m f s)))"
    by (cases r) (auto simp: cli_bind_def)
qed

lemma stays_then [stays_intro]:
  assumes "preorder_on_daemon R" and "stays R m" and "stays R k"
  shows "stays R (cli_then m k)"
  unfolding cli_then_def by (rule stays_bind [OF assms(1,2)]) (rule assms(3))

lemma stays_all [stays_intro]:
  assumes "preorder_on_daemon R" and "\<And>m. m \<in> set ms \<Longrightarrow> stays R m"
  shows "stays R (cli_all ms)"
  using assms(2) by (induction ms) (auto intro!: stays_basic stays_then assms(1))

lemma stays_try [stays_intro]:
  assumes "preorder_on_daemon R" and "stays R m"
  shows "stays R (cli_try m)"
  unfolding cli_try_def by (intro stays_bind assms) (auto split: sum.split intro!: stays_basic assms(1))

lemma stays_or_exit [stays_intro]:
  assumes "preorder_on_daemon R"
  shows "stays R (or_exit v)"
  by (auto simp: or_exit_def split: value_t.split intro!: stays_basic assms)

definition keeps_request :: "('s \<Rightarrow> 's \<Rightarrow> bool) \<Rightarrow> 's cli_env \<Rightarrow> rpc_request \<Rightarrow> bool" where
  "keeps_request R env req \<longleftrightarrow> (\<forall>d. R d (snd (ce_request env req d)))"

lemma stays_request [stays_intro]:
  assumes "keeps_request R env req"
  shows "stays R (request_call env req decode)"
  using assms by (auto simp: stays_def keeps_request_def request_call_def split: prod.split) (metis snd_conv)

lemma stays_call_and_report [stays_intro]:
  assumes "preorder_on_daemon R" and "stays R call"
  shows "stays R (call_and_report env call message)"
  unfolding call_and_report_def by (intro stays_intro assms)

lemma stays_with_settings [stays_intro]:
  assumes "preorder_on_daemon R" and "keeps_request R env RpcGetSettings" and "\<And>s. stays R (k s)"
  shows "stays R (with_settings env k)"
  unfolding with_settings_def served_calls by (intro stays_intro assms)

lemma stays_unwrap:
  assumes "preorder_on_daemon R" and "x \<noteq> None"
  shows "stays R (cli_unwrap x)"
  using assms by (auto simp: cli_unwrap_def intro: stays_basic)

text \<open>Any change of the daemon, and none of its settings.\<close>

definition any_change :: "'s \<Rightarrow> 's \<Rightarrow> bool" where
  "any_change _ _ = True"

definition same_settings :: "'g daemon \<Rightarrow> 'g daemon \<Rightarrow> bool" where
  "same_settings d d' \<longleftrightarrow> dm_settings d' = dm_settings d"

lemma preorders [simp, intro]: "preorder_on_daemon any_change" "preorder_on_daemon same_settings"
  by (simp_all add: preorder_on_daemon_def any_change_def same_settings_def)

lemma any_change_request [simp, intro]: "keeps_request any_change env req"
  by (simp add: keeps_request_def any_change_def)

section \<open>Dispatch\<close>

declare dispatch.simps [simp del]

lemma dispatch_eq:
  "dispatch cs m =
     (case am_subcommand m of
        None \<Rightarrow> cli_panic
      | Some (name, m') \<Rightarrow> (case map_of cs name of None \<Rightarrow> cli_panic | Some run \<Rightarrow> run m'))"
  by (induction cs m rule: dispatch.induct)
    (auto simp: dispatch.simps subcommand_matches_def split: option.split prod.split)

lemma stays_dispatch:
  assumes "accepts (ClapApp name True args subs) m"
    and "\<And>a m'. a \<in> set subs \<Longrightarrow> accepts a m' \<Longrightarrow> \<exists>run. map_of cs (cl_name a) = Some run \<and> stays R (run m')"
  shows "stays R (dispatch cs m)"
proof -
  obtain a m' where a: "a \<in> set subs" "am_subcommand m = Some (cl_name a, m')" "accepts a m'"
    using accepted_subcommand [OF assms(1)] by auto
  from assms(2) [OF a(1,3)] a(2) show ?thesis by (auto simp: dispatch_eq)
qed

text \<open>A required argument, or one with a default value, whose name is its own.\<close>

lemma accepted_required_value:
  assumes "accepts (ClapApp name req args subs) m" and "a \<in> set args" and "ca_required a \<or> ca_default a \<noteq> None"
    and "\<forall>b\<in>set args. ca_name b = ca_name a \<longrightarrow> b = a" and "has_values a"
  obtains v where "value_of m (ca_name a) = Some v" "value_accepted a v"
  using accepted_required [of "ClapApp name req args subs" m a] assms by auto

lemmas arg_defs = required_arg_def required_at_def optional_at_def with_name_def has_values_def
  value_accepted_def


lemma policy_run_dispatch:
  "policy_run set_policy get m =
     dispatch
       [(''set'', \<lambda>set_m. cli_bind (or_exit (value_t Some (value_of set_m ''policy''))) set_policy),
        (''get'', \<lambda>_. get)] m"
  by (auto simp: policy_run_def dispatch.simps split: option.split)

lemma account_run_dispatch:
  "account_run env m =
     dispatch
       [(''set'', \<lambda>set_m. cli_bind (or_exit (value_t Some (value_of set_m ''token'')))
          (\<lambda>token. account_set env (Some token))),
        (''unset'', \<lambda>_. account_set env None), (''get'', \<lambda>_. account_get env)] m"
  by (auto simp: account_run_def dispatch.simps split: option.split)

lemma set_custom_settings_dispatch:
  "set_custom_settings env m =
     dispatch
       [(''local'', \<lambda>args. cli_bind (local_proxy_args env args) (set_custom_proxy env)),
        (''remote'', \<lambda>args. cli_bind (remote_proxy_args env args) (set_custom_proxy env)),
        (''shadowsocks'', \<lambda>args. cli_bind (shadowsocks_proxy_args env args) (set_custom_proxy env))] m"
  by (auto simp: set_custom_settings_def dispatch.simps split: option.split)

lemma relay_set_custom_dispatch:
  "relay_set_custom env m =
     dispatch
       [(''openvpn'', \<lambda>args. cli_bind (read_custom_openvpn_relay env args)
          (\<lambda>e. update_constraints env (UpdateCustomTunnelEndpoint e))),
        (''wireguard'', \<lambda>args. cli_bind (read_custom_wireguard_relay env args)
          (\<lambda>e. update_constraints env (UpdateCustomTunnelEndpoint e)))] m"
  by (auto simp: relay_set_custom_def dispatch.simps split: option.split)

section \<open>Commands that show things\<close>

text \<open>Requests that ask for no change of the settings, and subscribing, stay within the relation.\<close>

definition reads_within :: "('s \<Rightarrow> 's \<Rightarrow> bool) \<Rightarrow> 's cli_env \<Rightarrow> bool" where
  "reads_within R env \<longleftrightarrow> preorder_on_daemon R \<and>
     (\<forall>req. rpc_change req = None \<longrightarrow> req \<noteq> RpcFactoryReset \<longrightarrow> keeps_request R env req) \<and>
     (\<forall>d. R d (snd (ce_subscribe env d)))"

lemma any_change_reads [simp, intro]: "reads_within any_change env"
  by (simp add: reads_within_def) (simp add: any_change_def)

lemma reads_withinD:
  assumes "reads_within R env"
  shows "preorder_on_daemon R"
    "rpc_change req = None \<Longrightarrow> req \<noteq> RpcFactoryReset \<Longrightarrow> stays R (request_call env req decode)"
    "stays R (rpc_daemon_event_subscribe env)"
    "(\<And>s. stays R (k s)) \<Longrightarrow> stays R (with_settings env k)"
  using assms
  by (auto simp: reads_within_def intro: stays_request stays_with_settings)
    (auto simp: stays_def rpc_daemon_event_subscribe_def split: prod.split, metis snd_conv)

lemmas stays_rules = stays_basic stays_bind stays_then stays_all stays_try stays_or_exit
  stays_call_and_report

lemma stays_print_country:
  assumes "preorder_on_daemon R"
  shows "stays R (print_country env country)"
  unfolding print_country_def
  by (rule stays_all [OF assms]) (auto intro: stays_basic assms)

lemma stays_print_proxy:
  assumes "preorder_on_daemon R"
  shows "stays R (print_local_proxy lp)" "stays R (print_remote_proxy rp)" "stays R (print_shadowsocks_proxy ss)"
  unfolding print_local_proxy_def print_remote_proxy_def print_shadowsocks_proxy_def
  by (rule stays_all [OF assms]; auto intro: stays_basic assms split: option.splits)+

lemma stays_print_tunnel_state:
  assumes "preorder_on_daemon R"
  shows "stays R (print_tunnel_state env t)"
  unfolding print_tunnel_state_def print_blocked_reason_def
  by (auto intro!: stays_rules [OF assms] split: daemon_tunnel_state.split block_reason.split)

lemmas stays_prints = stays_print_country stays_print_proxy stays_print_tunnel_state

locale daemon_reader =
  fixes R :: "'s \<Rightarrow> 's \<Rightarrow> bool" and env :: "'s cli_env"
  assumes reads: "reads_within R env"
begin

lemmas pre = reads_withinD(1) [OF reads]

lemmas rules = stays_rules [OF pre] stays_prints [OF pre] reads_withinD(2-) [OF reads]

lemma stays_print_if_some: "stays R (print_if_some before v after)"
  by (auto simp: print_if_some_def intro: rules split: option.split)

lemma stays_print_location: "stays R (print_location env)"
  unfolding print_location_def served_calls
  by (intro rules) (auto split: option.split intro!: rules stays_print_if_some)

lemma stays_print_event: "stays R (print_event env verbose event)"
  by (cases event) (auto intro!: rules stays_print_location split: daemon_tunnel_state.split)

lemma stays_listen_loop: "stays R (listen_loop env verbose es)"
proof (induction es)
  case (Cons e es)
  then show ?case by (cases e) (auto intro!: rules stays_print_event)
qed (auto intro: rules)

lemma stays_shows:
  "stays R (account_get env)" "stays R (auto_connect_get env)" "stays R (block_when_disconnected_get env)"
  "stays R (lan_get env)" "stays R (bridge_get env)" "stays R (list_bridge_relays env)"
  "stays R (relay_get env)" "stays R (relay_list_cmd env)" "stays R (relay_update env)"
  "stays R (openvpn_mssfix_get env)" "stays R (wireguard_mtu_get env)" "stays R (ipv6_get env)"
  "stays R (wireguard_key_check env)" "stays R (wireguard_key_generate env)" "stays R (connect_run env m)"
  "stays R (disconnect_run env m)" "stays R (version_run env m)" "stays R (status_run env m)"
  unfolding account_get_def auto_connect_get_def block_when_disconnected_get_def lan_get_def bridge_get_def
    list_bridge_relays_def relay_get_def relay_list_cmd_def relay_update_def openvpn_mssfix_get_def
    wireguard_mtu_get_def ipv6_get_def wireguard_key_check_def wireguard_key_generate_def connect_run_def
    disconnect_run_def version_run_def status_run_def with_tunnel_options_def served_calls
  by (auto intro!: rules stays_print_location stays_listen_loop
      split: option.split sum.split bridge_settings.split proxy_settings.split)

end


section \<open>Panics\<close>

text \<open>Every program that only makes requests is free of panics; \<open>safe\<close> is staying in any change.\<close>

lemma any_reader: "daemon_reader any_change env"
  by (simp add: daemon_reader_def)

lemmas safe_shows = daemon_reader.stays_shows [OF any_reader]
lemmas safe_rules = stays_rules [OF preorders(1)] stays_request [OF any_change_request]
  stays_unwrap [OF preorders(1)]

lemma safe_get_constraint:
  assumes "accepts location_app m"
  shows "stays any_change (get_constraint m)"
proof -
  obtain v where "value_of m ''country'' = Some v"
    by (rule accepted_required_value [OF assms [unfolded location_app_def], where a = "(required_at 1 ''country'')\<lparr>ca_validator := country_code_validator\<rparr>"])
      (auto simp: arg_defs)
  then show ?thesis
    by (auto simp: get_constraint_def intro!: safe_rules split: option.split)
qed

lemma safe_account:
  assumes "accepts account_app m"
  shows "stays any_change (account_run env m)"
  unfolding account_run_dispatch
  by (rule stays_dispatch [OF assms [unfolded account_app_def]])
    (auto simp: plain_app_def account_set_def served_calls intro!: safe_rules safe_shows)

lemma safe_policy:
  assumes "accepts (policy_app name ps) m" and "\<And>p. stays any_change (f p)" and "stays any_change get"
  shows "stays any_change (policy_run f get m)"
  unfolding policy_run_dispatch
  by (rule stays_dispatch [OF assms(1) [unfolded policy_app_def]])
    (auto simp: plain_app_def intro!: safe_rules assms(2,3))

lemma safe_policies:
  "accepts auto_connect_app m \<Longrightarrow> stays any_change (auto_connect_run env m)"
  "accepts block_when_disconnected_app m \<Longrightarrow> stays any_change (block_when_disconnected_run env m)"
  "accepts lan_app m \<Longrightarrow> stays any_change (lan_run env m)"
  unfolding auto_connect_app_def auto_connect_run_def block_when_disconnected_app_def
    block_when_disconnected_run_def lan_app_def lan_run_def
  by (erule safe_policy; auto simp: auto_connect_set_def block_when_disconnected_set_def lan_set_def served_calls
      intro!: safe_rules safe_shows)+

lemma app_names [simp]:
  "cl_name (plain_app n) = n" "cl_name (policy_app n ps) = n" "cl_name location_app = ''location''"
  "cl_name account_app = ''account''" "cl_name auto_connect_app = ''auto-connect''"
  "cl_name block_when_disconnected_app = ''block-when-disconnected''" "cl_name lan_app = ''lan''"
  "cl_name bridge_app = ''bridge''" "cl_name create_bridge_set_subcommand = ''set''"
  "cl_name create_set_custom_settings_subcommand = ''custom''" "cl_name create_set_state_subcommand = ''state''"
  "cl_name relay_app = ''relay''" "cl_name relay_set_app = ''set''" "cl_name custom_wireguard_app = ''wireguard''"
  "cl_name custom_openvpn_app = ''openvpn''" "cl_name tunnel_app = ''tunnel''"
  "cl_name create_wireguard_subcommand = ''wireguard''" "cl_name create_openvpn_subcommand = ''openvpn''"
  "cl_name create_ipv6_subcommand = ''ipv6''" "cl_name create_wireguard_mtu_subcommand = ''mtu''"
  "cl_name create_wireguard_keys_subcommand = ''key''" "cl_name create_openvpn_mssfix_subcommand = ''mssfix''"
  "cl_name status_app = ''status''"
  by (simp_all add: plain_app_def policy_app_def location_app_def account_app_def auto_connect_app_def
      block_when_disconnected_app_def lan_app_def bridge_app_def create_bridge_set_subcommand_def
      create_set_custom_settings_subcommand_def create_set_state_subcommand_def relay_app_def relay_set_app_def
      custom_wireguard_app_def custom_openvpn_app_def tunnel_app_def create_wireguard_subcommand_def
      create_openvpn_subcommand_def create_ipv6_subcommand_def create_wireguard_mtu_subcommand_def
      create_wireguard_keys_subcommand_def create_openvpn_mssfix_subcommand_def status_app_def)

lemma safe_tunnel_sets:
  "stays any_change (openvpn_mssfix_set env args)" "stays any_change (wireguard_mtu_set env args)"
  "stays any_change (openvpn_mssfix_unset env)" "stays any_change (wireguard_mtu_unset env)"
  unfolding openvpn_mssfix_set_def wireguard_mtu_set_def openvpn_mssfix_unset_def wireguard_mtu_unset_def
    served_calls by (auto intro!: safe_rules)

lemma safe_openvpn_cmd:
  assumes "accepts create_openvpn_subcommand m"
  shows "stays any_change (openvpn_cmd env m)"
  unfolding openvpn_cmd_def
  by (rule stays_dispatch [OF assms [unfolded create_openvpn_subcommand_def]], simp)
    (rule stays_dispatch [OF _], simp add: create_openvpn_mssfix_subcommand_def,
      auto intro!: safe_shows safe_tunnel_sets)

lemma safe_wireguard_cmd:
  assumes "accepts create_wireguard_subcommand m"
  shows "stays any_change (wireguard_cmd env m)"
proof -
  have "stays any_change (dispatch [(''get'', \<lambda>_. wireguard_mtu_get env), (''set'', wireguard_mtu_set env),
      (''unset'', \<lambda>_. wireguard_mtu_unset env)] args)" if "accepts create_wireguard_mtu_subcommand args" for args
    by (rule stays_dispatch [OF that [unfolded create_wireguard_mtu_subcommand_def]])
      (auto intro!: safe_shows safe_tunnel_sets)
  moreover have "stays any_change (dispatch [(''check'', \<lambda>_. wireguard_key_check env),
      (''generate'', \<lambda>_. wireguard_key_generate env)] args)" if "accepts create_wireguard_keys_subcommand args" for args
    by (rule stays_dispatch [OF that [unfolded create_wireguard_keys_subcommand_def]]) (auto intro!: safe_shows)
  ultimately show ?thesis
    unfolding wireguard_cmd_def
    by (intro stays_dispatch [OF assms [unfolded create_wireguard_subcommand_def]]) auto
qed

lemma safe_ipv6_cmd:
  assumes "accepts create_ipv6_subcommand m"
  shows "stays any_change (ipv6_cmd env m)"
proof -
  have "stays any_change (ipv6_set env args)"
    if acc: "accepts (ClapApp ''set'' False
      [(required_arg ''enable'')\<lparr>ca_takes_value := True, ca_possible := Some [''on'', ''off'']\<rparr>] []) args" for args
  proof -
    obtain v where "value_of args ''enable'' = Some v"
      by (rule accepted_required_value [OF acc, where a =
            "(required_arg ''enable'')\<lparr>ca_takes_value := True, ca_possible := Some [''on'', ''off'']\<rparr>"])
        (auto simp: arg_defs)
    then show ?thesis by (auto simp: ipv6_set_def served_calls intro!: safe_rules)
  qed
  then show ?thesis
    unfolding ipv6_cmd_def
    by (intro stays_dispatch [OF assms [unfolded create_ipv6_subcommand_def]]) (auto intro!: safe_shows)
qed

lemma safe_tunnel:
  assumes "accepts tunnel_app m"
  shows "stays any_change (tunnel_run env m)"
  unfolding tunnel_run_def
  by (rule stays_dispatch [OF assms [unfolded tunnel_app_def]])
    (auto intro!: safe_openvpn_cmd safe_wireguard_cmd safe_ipv6_cmd)

text \<open>The names of the subcommands of a command line, and the matches of the last one.\<close>

fun command_path :: "arg_matches \<Rightarrow> string list" where
  "command_path (ArgMatches values None) = []"
| "command_path (ArgMatches values (Some (n, m))) = n # command_path m"

fun last_matches :: "arg_matches \<Rightarrow> arg_matches" where
  "last_matches (ArgMatches values None) = ArgMatches values None"
| "last_matches (ArgMatches values (Some (n, m))) = last_matches m"

lemma path_None: "am_subcommand m = None \<Longrightarrow> command_path m = [] \<and> last_matches m = m"
  by (cases m) simp

lemma path_Some:
  "am_subcommand m = Some (n, m') \<Longrightarrow> command_path m = n # command_path m' \<and> last_matches m = last_matches m'"
  by (cases m) simp

definition panics_on :: "('s, 'a) cli \<Rightarrow> 's cli_state \<Rightarrow> bool" where
  "panics_on m s \<longleftrightarrow> fst (m s) = CliPanic"

lemma safe_no_panic: "stays R m \<Longrightarrow> \<not> panics_on m s"
  by (simp add: stays_def panics_on_def)

lemma dispatch_result:
  assumes "accepts (ClapApp name True args subs) m"
    and "\<And>a m'. a \<in> set subs \<Longrightarrow> accepts a m' \<Longrightarrow>
      \<exists>run. map_of cs (cl_name a) = Some run \<and> Q (run m' s) (cl_name a # command_path m') (last_matches m')"
  shows "Q (dispatch cs m s) (command_path m) (last_matches m)"
proof -
  obtain a m' where a: "a \<in> set subs" "am_subcommand m = Some (cl_name a, m')" "accepts a m'"
    using accepted_subcommand [OF assms(1)] by auto
  from assms(2) [OF a(1,3)] path_Some [OF a(2)] a(2) show ?thesis by (auto simp: dispatch_eq)
qed

lemma dispatch_panics:
  assumes "accepts (ClapApp name True args subs) m"
    and "\<And>a m'. a \<in> set subs \<Longrightarrow> accepts a m' \<Longrightarrow>
      \<exists>run. map_of cs (cl_name a) = Some run \<and> (panics_on (run m') s \<longleftrightarrow> P (cl_name a # command_path m') (last_matches m'))"
  shows "panics_on (dispatch cs m) s \<longleftrightarrow> P (command_path m) (last_matches m)"
  unfolding panics_on_def
  by (rule dispatch_result [OF assms(1), where Q = "\<lambda>r path args. fst r = CliPanic \<longleftrightarrow> P path args"])
    (use assms(2) in \<open>simp add: panics_on_def\<close>)

text \<open>A custom bridge that is read from the arguments and is not valid.\<close>

definition custom_proxy_args :: "'s cli_env \<Rightarrow> string \<Rightarrow> arg_matches \<Rightarrow> ('s, proxy_settings) cli" where
  "custom_proxy_args env kind =
     (if kind = ''local'' then local_proxy_args env
      else if kind = ''remote'' then remote_proxy_args env else shadowsocks_proxy_args env)"

definition invalid_bridge :: "'s cli_env \<Rightarrow> string list \<Rightarrow> arg_matches \<Rightarrow> 's cli_state \<Rightarrow> bool" where
  "invalid_bridge env path args s \<longleftrightarrow>
     (\<exists>kind proxy e. path = [''custom'', kind] \<and> fst (custom_proxy_args env kind args s) = CliValue proxy \<and>
        validate_proxy_settings proxy = Inl e)"

lemma custom_proxy_panics:
  assumes "stays any_change read"
  shows "panics_on (cli_bind read (set_custom_proxy env)) s \<longleftrightarrow>
    (\<exists>proxy e. fst (read s) = CliValue proxy \<and> validate_proxy_settings proxy = Inl e)"
proof -
  have "\<not> panics_on (set_custom_proxy env proxy) s" if "validate_proxy_settings proxy = Inr ()" for proxy s
    by (rule safe_no_panic [of any_change])
      (auto simp: set_custom_proxy_def that served_calls intro!: safe_rules)
  moreover have "fst (read s) \<noteq> CliPanic" using assms by (simp add: stays_def)
  ultimately show ?thesis
    by (cases "read s"; cases "fst (read s)")
      (auto simp: panics_on_def cli_bind_def set_custom_proxy_def cli_panic_def split: sum.splits)
qed

lemma last_no_subcommands:
  assumes "accepts (ClapApp n r args []) m"
  shows "command_path m = [] \<and> last_matches m = m"
  using assms accepted_subcommand path_None by fastforce

lemma plain_app_path: "accepts (plain_app n) m \<Longrightarrow> command_path m = []"
  using last_no_subcommands by (auto simp: plain_app_def)

lemma bridge_custom_panics:
  assumes "accepts create_set_custom_settings_subcommand m"
  shows "panics_on (set_custom_settings env m) s \<longleftrightarrow> invalid_bridge env (''custom'' # command_path m) (last_matches m) s"
proof -
  let ?ss = "ClapApp ''shadowsocks'' False
          [required_at 1 ''remote-ip'', (optional_at 2 ''remote-port'')\<lparr>ca_default := Some ''443''\<rparr>,
           (optional_at 3 ''password'')\<lparr>ca_default := Some ''23#dfsbbb''\<rparr>,
           (optional_at 4 ''cipher'')\<lparr>ca_default := Some ''chacha20'', ca_possible := Some SHADOWSOCKS_CIPHERS\<rparr>] []"
  have ss: "stays any_change (shadowsocks_proxy_args env args)" if acc: "accepts ?ss args" for args
  proof -
    obtain pw where "value_of args ''password'' = Some pw"
      by (rule accepted_required_value [OF acc, where a = "(optional_at 3 ''password'')\<lparr>ca_default := Some ''23#dfsbbb''\<rparr>"])
        (auto simp: arg_defs)
    moreover obtain cipher where "value_of args ''cipher'' = Some cipher"
      by (rule accepted_required_value [OF acc, where a =
            "(optional_at 4 ''cipher'')\<lparr>ca_default := Some ''chacha20'', ca_possible := Some SHADOWSOCKS_CIPHERS\<rparr>"])
        (auto simp: arg_defs)
    ultimately show ?thesis by (auto simp: shadowsocks_proxy_args_def intro!: safe_rules)
  qed
  have other: "stays any_change (local_proxy_args env args)" "stays any_change (remote_proxy_args env args)" for args
    by (auto simp: local_proxy_args_def remote_proxy_args_def intro!: safe_rules)
  show ?thesis
    unfolding set_custom_settings_dispatch
    by (rule dispatch_panics [OF assms [unfolded create_set_custom_settings_subcommand_def],
          where P = "\<lambda>path args. invalid_bridge env (''custom'' # path) args s"])
      (auto simp: last_no_subcommands custom_proxy_panics ss other invalid_bridge_def custom_proxy_args_def)
qed

lemma safe_bridge_sets:
  "accepts location_app m \<Longrightarrow> stays any_change (set_bridge_location env m)"
  "accepts create_set_state_subcommand m \<Longrightarrow> stays any_change (set_bridge_state_cmd env m)"
proof -
  assume "accepts location_app m"
  then show "stays any_change (set_bridge_location env m)"
    by (auto simp: set_bridge_location_def served_calls intro!: safe_rules safe_get_constraint)
next
  assume acc: "accepts create_set_state_subcommand m"
  obtain v where "value_of m ''state'' = Some v" "v \<in> {''auto'', ''on'', ''off''}"
    by (rule accepted_required_value [OF acc [unfolded create_set_state_subcommand_def], where a =
          "(required_at 1 ''state'')\<lparr>ca_possible := Some [''auto'', ''on'', ''off'']\<rparr>"])
      (auto simp: arg_defs)
  then show "stays any_change (set_bridge_state_cmd env m)"
    by (auto simp: set_bridge_state_cmd_def cli_unwrap_def served_calls intro!: safe_rules)
qed

lemma bridge_set_panics:
  assumes "accepts create_bridge_set_subcommand m"
  shows "panics_on (bridge_set env m) s \<longleftrightarrow> invalid_bridge env (command_path m) (last_matches m) s"
proof -
  have "\<not> invalid_bridge env (n # path) args s" if "n \<noteq> ''custom''" for n path args
    using that by (simp add: invalid_bridge_def)
  then show ?thesis
    unfolding bridge_set_def
    by (intro dispatch_panics [OF assms [unfolded create_bridge_set_subcommand_def]])
      (auto simp: bridge_custom_panics safe_bridge_sets [THEN safe_no_panic])
qed

lemma bridge_panics:
  assumes "accepts bridge_app m"
  shows "panics_on (bridge_run env m) s \<longleftrightarrow>
    (\<exists>path. command_path m = ''set'' # path \<and> invalid_bridge env path (last_matches m) s)"
  unfolding bridge_run_def
  by (rule dispatch_panics [OF assms [unfolded bridge_app_def],
        where P = "\<lambda>path args. \<exists>path'. path = ''set'' # path' \<and> invalid_bridge env path' args s"])
    (auto simp: bridge_set_panics safe_shows [THEN safe_no_panic])

lemma safe_update_constraints: "stays any_change (update_constraints env u)"
  by (auto simp: update_constraints_def served_calls intro!: safe_rules)

lemma safe_read_custom:
  "accepts custom_openvpn_app m \<Longrightarrow> stays any_change (read_custom_openvpn_relay env m)"
  "stays any_change (read_custom_wireguard_relay env m)"
proof -
  show "stays any_change (read_custom_openvpn_relay env m)"
    by (auto simp: read_custom_openvpn_relay_def intro!: safe_rules)
  have "stays any_change (validate_wireguard_key env k)" for k
    by (auto simp: validate_wireguard_key_def intro!: safe_rules split: sum.split)
  then show "stays any_change (read_custom_wireguard_relay env m)"
    by (auto simp: read_custom_wireguard_relay_def read_private_key_def Let_def intro!: safe_rules
        split: value_t.split)
qed

lemma relay_custom_panics:
  assumes "accepts (ClapApp ''custom'' False [] [custom_wireguard_app, custom_openvpn_app]) m"
  shows "panics_on (relay_set_custom env m) s \<longleftrightarrow> command_path m = []"
proof (cases "am_subcommand m")
  case None
  then show ?thesis
    using path_None by (auto simp: relay_set_custom_def subcommand_matches_def panics_on_def cli_panic_def)
next
  case (Some p)
  then obtain n m' where p: "am_subcommand m = Some (n, m')" by (cases p) auto
  with accepted_subcommand [OF assms] have "n = ''wireguard'' \<or> n = ''openvpn'' \<and> accepts custom_openvpn_app m'"
    by auto
  then have "stays any_change (relay_set_custom env m)"
    using p by (auto simp: relay_set_custom_def subcommand_matches_def
        intro!: safe_rules safe_update_constraints safe_read_custom)
  then show ?thesis using path_Some [OF p] safe_no_panic by auto
qed

lemma safe_relay_tunnel:
  assumes acc: "accepts (ClapApp ''tunnel'' False
          [(required_at 1 ''vpn protocol'')\<lparr>ca_possible := Some [''wireguard'', ''openvpn'']\<rparr>,
           required_at 2 ''port'',
           (with_name ''transport protocol'')\<lparr>ca_long := Some ''protocol'', ca_takes_value := True,
             ca_default := Some ''any'', ca_possible := Some [''any'', ''udp'', ''tcp'']\<rparr>] []) m"
  shows "stays any_change (relay_set_tunnel env m)"
proof -
  obtain vpn where "value_of m ''vpn protocol'' = Some vpn" "vpn \<in> {''wireguard'', ''openvpn''}"
    by (rule accepted_required_value [OF acc, where a =
          "(required_at 1 ''vpn protocol'')\<lparr>ca_possible := Some [''wireguard'', ''openvpn'']\<rparr>"])
      (auto simp: arg_defs)
  moreover obtain port where "value_of m ''port'' = Some port"
    by (rule accepted_required_value [OF acc, where a = "required_at 2 ''port''"]) (auto simp: arg_defs)
  moreover obtain proto where "value_of m ''transport protocol'' = Some proto" "proto \<in> {''any'', ''udp'', ''tcp''}"
    by (rule accepted_required_value [OF acc, where a =
          "(with_name ''transport protocol'')\<lparr>ca_long := Some ''protocol'', ca_takes_value := True,
             ca_default := Some ''any'', ca_possible := Some [''any'', ''udp'', ''tcp'']\<rparr>"])
      (auto simp: arg_defs)
  ultimately show ?thesis
    by (auto simp: relay_set_tunnel_def cli_unwrap_def parse_protocol_constraint_def
        intro!: safe_rules safe_update_constraints split: sum.split)
qed

lemma relay_panics:
  assumes "accepts relay_app m"
  shows "panics_on (relay_run env m) s \<longleftrightarrow> command_path m = [''set'', ''custom'']"
proof -
  have loc: "stays any_change (relay_set_location env m)" if "accepts location_app m" for m
    using that by (auto simp: relay_set_location_def intro!: safe_rules safe_update_constraints safe_get_constraint)
  have "panics_on (relay_set env m) s \<longleftrightarrow> command_path m = [''custom'']" if "accepts relay_set_app m" for m
    unfolding relay_set_def
    by (rule dispatch_panics [OF that [unfolded relay_set_app_def], where P = "\<lambda>path _. path = [''custom'']"])
      (auto simp: relay_custom_panics loc [THEN safe_no_panic] safe_relay_tunnel [THEN safe_no_panic])
  then show ?thesis
    unfolding relay_run_def
    by (intro dispatch_panics [OF assms [unfolded relay_app_def], where P = "\<lambda>path _. path = [''set'', ''custom'']"])
      (auto simp: safe_shows [THEN safe_no_panic])
qed

section \<open>The whole program\<close>

lemma get_commands_eq: "get_commands env = Returns (rev (map (\<lambda>c. (cc_name c, c)) (all_commands env)))"
  by (simp add: get_commands_def all_commands_def cc_name_def)

text \<open>The commands with their names, in the order they were inserted.\<close>

definition command_runs :: "'s cli_env \<Rightarrow> (string \<times> (arg_matches \<Rightarrow> ('s, unit) cli)) list" where
  "command_runs env =
     [(''account'', account_run env), (''auto-connect'', auto_connect_run env),
      (''block-when-disconnected'', block_when_disconnected_run env), (''bridge'', bridge_run env),
      (''connect'', connect_run env), (''disconnect'', disconnect_run env), (''lan'', lan_run env),
      (''relay'', relay_run env), (''factory-reset'', reset_run env), (''status'', status_run env),
      (''tunnel'', tunnel_run env), (''version'', version_run env)]"

definition command_apps :: "clap_app list" where
  "command_apps =
     [account_app, auto_connect_app, block_when_disconnected_app, bridge_app, plain_app ''connect'',
      plain_app ''disconnect'', lan_app, relay_app, plain_app ''factory-reset'', status_app, tunnel_app,
      plain_app ''version'']"

lemma command_runs_eq:
  assumes "get_commands env = Returns commands"
  shows "run_command commands m s = dispatch (command_runs env) m s"
    "mullvad_app commands = ClapApp ''mullvad-cli'' True [] (rev command_apps)"
proof -
  have c: "commands = rev (map (\<lambda>c. (cc_name c, c)) (all_commands env))"
    using assms by (simp add: get_commands_eq)
  have "map_of commands n = map_option (\<lambda>run. (the (map_of commands n))) (map_of (command_runs env) n) \<and>
      map_of (command_runs env) n = map_option cc_run (map_of commands n)" for n
    by (simp add: c all_commands_def command_runs_def cc_name_def)
  then have "map_of (command_runs env) n = map_option cc_run (map_of commands n)" for n by blast
  then show "run_command commands m s = dispatch (command_runs env) m s"
    by (auto simp: run_command_def dispatch_eq split: option.split)
  show "mullvad_app commands = ClapApp ''mullvad-cli'' True [] (rev command_apps)"
    by (simp add: c mullvad_app_def all_commands_def command_apps_def)
qed

lemma safe_reset: "stays any_change (reset_run env m)"
proof -
  have "stays any_change (receive_confirmation :: ('a, bool) cli)"
    by (auto simp: receive_confirmation_def intro!: safe_rules)
      (auto simp: stays_def any_change_def split: prod.split)
  then show ?thesis by (auto simp: reset_run_def served_calls intro!: safe_rules split: sum.split)
qed

lemma cli_panics:
  assumes "accepts (ClapApp ''mullvad-cli'' True [] (rev command_apps)) m"
  shows "panics_on (dispatch (command_runs env) m) s \<longleftrightarrow>
    command_path m = [''relay'', ''set'', ''custom''] \<or>
    (\<exists>path. command_path m = ''bridge'' # ''set'' # path \<and> invalid_bridge env path (last_matches m) s)"
  by (rule dispatch_panics [OF assms, where P = "\<lambda>path args. path = [''relay'', ''set'', ''custom''] \<or>
        (\<exists>p. path = ''bridge'' # ''set'' # p \<and> invalid_bridge env p args s)"])
    (auto simp: command_apps_def command_runs_def bridge_panics relay_panics
      safe_account [THEN safe_no_panic] safe_policies [THEN safe_no_panic] safe_tunnel [THEN safe_no_panic]
      safe_reset [THEN safe_no_panic] safe_shows [THEN safe_no_panic])

section \<open>Successful commands\<close>

text \<open>What a program that returns a value has done.\<close>

named_theorems value_simps \<open>when a program returns a value\<close>

lemma bind_value [value_simps]:
  "cli_bind m f s = (CliValue y, s') \<longleftrightarrow> (\<exists>x s1. m s = (CliValue x, s1) \<and> f x s1 = (CliValue y, s'))"
  by (cases "m s"; cases "fst (m s)") (auto simp: cli_bind_def)

lemma then_value [value_simps]:
  "cli_then m k s = (CliValue y, s') \<longleftrightarrow> (\<exists>x s1. m s = (CliValue x, s1) \<and> k s1 = (CliValue y, s'))"
  by (simp add: cli_then_def bind_value)

lemma basic_value [value_simps]:
  "cli_return x s = (CliValue y, s') \<longleftrightarrow> y = x \<and> s' = s"
  "cli_fail e s \<noteq> (CliValue y, s')" "cli_exit s \<noteq> (CliValue y, s')" "cli_panic s \<noteq> (CliValue y, s')"
  "new_rpc_client env s = (CliValue u, s') \<longleftrightarrow> is_ok (ce_connect env (cs_daemon s)) \<and> s' = s"
  "or_exit v s = (CliValue z, s') \<longleftrightarrow> v = ValueFound z \<and> s' = s"
  "cli_unwrap v2 s = (CliValue z2, s') \<longleftrightarrow> v2 = Some z2 \<and> s' = s"
  by (auto simp: prog_defs or_exit_def cli_unwrap_def split: sum.split value_t.split option.split)

lemma print_value [value_simps]:
  "println text s = (CliValue u, s') \<longleftrightarrow> s' = s\<lparr>cs_stdout := cs_stdout s @ text @ NEWLINE\<rparr>"
  "eprintln text s = (CliValue u, s') \<longleftrightarrow> s' = s\<lparr>cs_stderr := cs_stderr s @ text @ NEWLINE\<rparr>"
  by (auto simp: prog_defs)

lemma try_value [value_simps]:
  "cli_try m s = (CliValue y, s') \<longleftrightarrow> m s = (CliValue (Inr y), s')"
proof -
  have "(case r of Inl e \<Rightarrow> cli_fail (RpcClientError e) | Inr x \<Rightarrow> cli_return x) s1 = (CliValue y, s') \<longleftrightarrow>
      r = Inr y \<and> s1 = s'" for r s1
    by (cases r) (auto simp: basic_value)
  then show ?thesis unfolding cli_try_def bind_value by auto
qed

text \<open>
  The change of the settings a command line asks for, from the names of its subcommands and the
  values of its arguments, as the help texts describe it; \<open>None\<close> for commands that change none.
\<close>

definition text_arg :: "arg_matches \<Rightarrow> string \<Rightarrow> string" where
  "text_arg m n = (case value_of m n of Some v \<Rightarrow> v | None \<Rightarrow> [])"

definition number_arg :: "arg_matches \<Rightarrow> string \<Rightarrow> u16" where
  "number_arg m n = (case parse_u16 (text_arg m n) of Some p \<Rightarrow> p | None \<Rightarrow> 0)"

definition ip_arg :: "'s cli_env \<Rightarrow> arg_matches \<Rightarrow> string \<Rightarrow> ip_addr" where
  "ip_arg env m n = (case ce_parse_ip env (text_arg m n) of Some a \<Rightarrow> a | None \<Rightarrow> V4 0)"

definition peer_args :: "'s cli_env \<Rightarrow> arg_matches \<Rightarrow> socket_addr" where
  "peer_args env m = \<lparr>sa_ip = ip_arg env m ''remote-ip'', sa_port = number_arg m ''remote-port''\<rparr>"

definition asked_place :: "arg_matches \<Rightarrow> location_constraint constraint" where
  "asked_place m =
     (let country = text_arg m ''country'' in
      if country = ''any'' then Any
      else Only (case (value_of m ''city'', value_of m ''hostname'') of
                   (None, _) \<Rightarrow> LocCountry country
                 | (Some city, None) \<Rightarrow> LocCity country city
                 | (Some city, Some hostname) \<Rightarrow> LocHostname country city hostname))"

definition asked_port :: "arg_matches \<Rightarrow> u16 constraint" where
  "asked_port m = (if to_lowercase (text_arg m ''port'') = ''any'' then Any
     else Only (case parse_u16 (to_lowercase (text_arg m ''port'')) of Some p \<Rightarrow> p | None \<Rightarrow> 0))"

definition asked_protocol :: "arg_matches \<Rightarrow> transport_protocol constraint" where
  "asked_protocol m =
     (let p = text_arg m ''transport protocol'' in
      if p = ''tcp'' then Only Tcp else if p = ''udp'' then Only Udp else Any)"

definition asked_key :: "'s cli_env \<Rightarrow> string \<Rightarrow> u8 list" where
  "asked_key env text = (case ce_base64_decode env (str_trim text) of Inr k \<Rightarrow> k | Inl _ \<Rightarrow> [])"

definition input_line :: "'s cli_state \<Rightarrow> string" where
  "input_line s = (case cs_stdin s of Inr line # _ \<Rightarrow> line | _ \<Rightarrow> [])"

definition asked_openvpn :: "arg_matches \<Rightarrow> connection_config" where
  "asked_openvpn m =
     ConfigOpenVpn
       \<lparr>ovpn_endpoint = endpoint_new (V4 0) (number_arg m ''port'')
          (if text_arg m ''protocol'' = ''tcp'' then Tcp else Udp),
        ovpn_username = text_arg m ''username'', ovpn_password = text_arg m ''password''\<rparr>"

definition asked_wireguard :: "'s cli_env \<Rightarrow> arg_matches \<Rightarrow> 's cli_state \<Rightarrow> connection_config" where
  "asked_wireguard env m s =
     ConfigWireguard
       \<lparr>wgc_tunnel =
          \<lparr>wg_private_key = private_key_from (asked_key env (input_line s)),
           wg_addresses = List.map_filter (ce_parse_ip env) (case values_of m ''addr'' of Some vs \<Rightarrow> vs | None \<Rightarrow> [])\<rparr>,
        wgc_peer =
          \<lparr>peer_public_key = PublicKey (asked_key env (text_arg m ''peer-key'')),
           peer_allowed_ips = all_of_the_internet,
           peer_endpoint = \<lparr>sa_ip = V4 0, sa_port = number_arg m ''port''\<rparr>\<rparr>,
        wgc_ipv4_gateway = (case ce_parse_ipv4 env (text_arg m ''v4-gateway'') of Some a \<Rightarrow> a | None \<Rightarrow> 0),
        wgc_ipv6_gateway = Option.bind (value_of m ''v6-gateway'') (ce_parse_ipv6 env)\<rparr>"

definition asked_bridge :: "'s cli_env \<Rightarrow> string \<Rightarrow> arg_matches \<Rightarrow> proxy_settings" where
  "asked_bridge env kind m =
     (if kind = ''local'' then ProxyLocal \<lparr>lp_port = number_arg m ''local-port'', lp_peer = peer_args env m\<rparr>
      else if kind = ''remote'' then
        ProxyRemote \<lparr>rp_address = peer_args env m,
          rp_auth = Some \<lparr>pa_username = text_arg m ''username'', pa_password = text_arg m ''password''\<rparr>\<rparr>
      else ProxyShadowsocksSettings
        \<lparr>ss_peer = peer_args env m, ss_password = text_arg m ''password'', ss_cipher = text_arg m ''cipher''\<rparr>)"

definition asked_tunnel :: "arg_matches \<Rightarrow> relay_constraints_update" where
  "asked_tunnel m =
     (if text_arg m ''vpn protocol'' = ''wireguard''
      then no_update\<lparr>ru_tunnel_protocol := Some (Only ProtoWireguard),
             ru_wireguard_constraints := Some \<lparr>wc_port = asked_port m\<rparr>\<rparr>
      else no_update\<lparr>ru_tunnel_protocol := Some (Only ProtoOpenVpn),
             ru_openvpn_constraints := Some \<lparr>oc_port = asked_port m, oc_protocol = asked_protocol m\<rparr>\<rparr>)"

definition requested_by :: "(arg_matches \<Rightarrow> relay_constraints_update) \<Rightarrow> 's cli_env \<Rightarrow> 's cli_state
    \<Rightarrow> string list \<Rightarrow> arg_matches \<Rightarrow> setting_change option" where
  "requested_by tunnel env s path m =
     (if path = [''account'', ''set''] then Some (ChangeAccountToken (Some (text_arg m ''token'')))
      else if path = [''account'', ''unset''] then Some (ChangeAccountToken None)
      else if path = [''auto-connect'', ''set''] then Some (ChangeAutoConnect (text_arg m ''policy'' = ''on''))
      else if path = [''block-when-disconnected'', ''set'']
        then Some (ChangeBlockWhenDisconnected (text_arg m ''policy'' = ''on''))
      else if path = [''lan'', ''set''] then Some (ChangeAllowLan (text_arg m ''policy'' = ''allow''))
      else if path = [''bridge'', ''set'', ''state'']
        then Some (ChangeBridgeState
          (if text_arg m ''state'' = ''on'' then BridgeOn
           else if text_arg m ''state'' = ''off'' then BridgeOff else BridgeAuto))
      else if path = [''bridge'', ''set'', ''location'']
        then Some (ChangeBridgeSettings (BridgeNormal \<lparr>bc_location = asked_place m\<rparr>))
      else if take 3 path = [''bridge'', ''set'', ''custom''] \<and> length path = 4
        then Some (ChangeBridgeSettings (BridgeCustom (asked_bridge env (path ! 3) m)))
      else if path = [''relay'', ''set'', ''location'']
        then Some (ChangeRelaySettings (UpdateNormal (no_update\<lparr>ru_location := Some (asked_place m)\<rparr>)))
      else if path = [''relay'', ''set'', ''tunnel'']
        then Some (ChangeRelaySettings (UpdateNormal (tunnel m)))
      else if path = [''relay'', ''set'', ''custom'', ''openvpn'']
        then Some (ChangeRelaySettings (UpdateCustomTunnelEndpoint
          (custom_tunnel_endpoint_new (text_arg m ''host'') (asked_openvpn m))))
      else if path = [''relay'', ''set'', ''custom'', ''wireguard'']
        then Some (ChangeRelaySettings (UpdateCustomTunnelEndpoint
          (custom_tunnel_endpoint_new (text_arg m ''host'') (asked_wireguard env m s))))
      else if path = [''tunnel'', ''openvpn'', ''mssfix'', ''set''] then Some (ChangeMssfix (Some (number_arg m ''mssfix'')))
      else if path = [''tunnel'', ''openvpn'', ''mssfix'', ''unset''] then Some (ChangeMssfix None)
      else if path = [''tunnel'', ''wireguard'', ''mtu'', ''set''] then Some (ChangeMtu (Some (number_arg m ''mtu'')))
      else if path = [''tunnel'', ''wireguard'', ''mtu'', ''unset''] then Some (ChangeMtu None)
      else if path = [''tunnel'', ''ipv6'', ''set''] then Some (ChangeEnableIpv6 (text_arg m ''enable'' = ''on''))
      else None)"

definition requested :: "'s cli_env \<Rightarrow> 's cli_state \<Rightarrow> string list \<Rightarrow> arg_matches \<Rightarrow> setting_change option" where
  "requested env s path m = requested_by asked_tunnel env s path m"

text \<open>
  What the client makes of the request: \<open>relay set tunnel openvpn\<close> does not select OpenVPN, it sets the
  tunnel protocol to \<open>Any\<close> beside the OpenVPN constraints.  All else is sent as requested.
\<close>

definition openvpn_as_any :: "string list \<Rightarrow> arg_matches \<Rightarrow> setting_change \<Rightarrow> setting_change" where
  "openvpn_as_any path m ch =
     (if path = [''relay'', ''set'', ''tunnel''] \<and> text_arg m ''vpn protocol'' \<noteq> ''wireguard''
      then ChangeRelaySettings (UpdateNormal ((asked_tunnel m)\<lparr>ru_tunnel_protocol := Some Any\<rparr>))
      else ch)"

definition sent_tunnel :: "arg_matches \<Rightarrow> relay_constraints_update" where
  "sent_tunnel m =
     (if text_arg m ''vpn protocol'' = ''wireguard'' then asked_tunnel m
      else (asked_tunnel m)\<lparr>ru_tunnel_protocol := Some Any\<rparr>)"

definition issued :: "'s cli_env \<Rightarrow> 's cli_state \<Rightarrow> string list \<Rightarrow> arg_matches \<Rightarrow> setting_change option" where
  "issued env s path m = requested_by sent_tunnel env s path m"

lemma issued_requested: "issued env s path m = map_option (openvpn_as_any path m) (requested env s path m)"
proof (cases "path = [''relay'', ''set'', ''tunnel'']")
  case True
  then show ?thesis
    by (simp add: issued_def requested_def requested_by_def openvpn_as_any_def sent_tunnel_def)
next
  case False
  then have "openvpn_as_any path m = id" by (auto simp: openvpn_as_any_def fun_eq_iff)
  moreover have "issued env s path m = requested env s path m"
    using False unfolding issued_def requested_def requested_by_def by presburger
  ultimately show ?thesis by (simp add: option.map_id)
qed

lemmas issued_by = issued_def requested_by_def

text \<open>
  The client is connected to a daemon: a request is served by it, or is not delivered; an answer may
  get lost.  Waiting for events is no request.
\<close>

definition serves :: "'g daemon_env \<Rightarrow> 'g daemon cli_env \<Rightarrow> bool" where
  "serves denv env \<longleftrightarrow>
     (\<forall>req d. (\<exists>e. ce_request env req d = (Inl e, d)) \<or>
        (\<exists>io check api res d' r. rpc_serve denv io check api req d = Returns (res, d') \<and>
           ce_request env req d = (r, d') \<and> (r = map_sum ClientJsonRpc id res \<or> (\<exists>e. r = Inl e)))) \<and>
     (\<forall>d. dm_settings (snd (ce_subscribe env d)) = dm_settings d)"

text \<open>What a successful command has done to the daemon.\<close>

definition achieved :: "setting_change option \<Rightarrow> 'g daemon \<Rightarrow> 'g daemon \<Rightarrow> bool" where
  "achieved ch d d' \<longleftrightarrow>
     (case ch of
        None \<Rightarrow> same_settings d d'
      | Some ch \<Rightarrow>
          is_running (dm_state d) \<and>
          dm_settings d' = setting_result True ch (dm_settings d))"

lemma serves_request:
  assumes "serves denv env" and "ce_request env req d = (Inr v, d')"
  obtains io check api where "rpc_serve denv io check api req d = Returns (Inr v, d')"
proof -
  have "(\<exists>e. ce_request env req d = (Inl e, d)) \<or>
      (\<exists>io check api res d' r. rpc_serve denv io check api req d = Returns (res, d') \<and>
         ce_request env req d = (r, d') \<and> (r = map_sum ClientJsonRpc id res \<or> (\<exists>e. r = Inl e)))"
    using assms(1) by (simp add: serves_def)
  then obtain io check api res where "rpc_serve denv io check api req d = Returns (res, d')"
      "Inr v = map_sum ClientJsonRpc id res"
    using assms(2) by auto
  then show thesis using that by (cases res) auto
qed

lemma request_achieves:
  assumes "serves denv env" and "rpc_change req = Some ch"
    and "request_call env req as_unit s = (CliValue (Inr u), s')"
  shows "achieved (Some ch) (cs_daemon s) (cs_daemon s')"
proof -
  have "ce_request env req (cs_daemon s) = (Inr ValUnit, cs_daemon s')"
    using assms(3) by (auto simp: request_call_def as_unit_def split: prod.splits sum.splits option.splits rpc_value.splits)
  then obtain io check api where served: "rpc_serve denv io check api req (cs_daemon s) = Returns (Inr ValUnit, cs_daemon s')"
    by (rule serves_request [OF assms(1)])
  from rpc_setting_outcome [OF assms(2) served] show ?thesis by (simp add: achieved_def)
qed

lemma serves_reads:
  assumes "serves denv env"
  shows "reads_within same_settings env"
proof -
  have "dm_settings (snd (ce_request env req d)) = dm_settings d"
    if "rpc_change req = None" "req \<noteq> RpcFactoryReset" for req d
  proof -
    have "(\<exists>e. ce_request env req d = (Inl e, d)) \<or>
        (\<exists>io check api res d' r. rpc_serve denv io check api req d = Returns (res, d') \<and>
           ce_request env req d = (r, d'))"
      using assms unfolding serves_def by blast
    then show ?thesis using rpc_reads_settings [OF that] by auto
  qed
  with assms show ?thesis
    by (auto simp: reads_within_def keeps_request_def same_settings_def serves_def)
qed

definition doing :: "'g daemon cli_env \<Rightarrow> 'g daemon cli_state \<Rightarrow> string list \<Rightarrow> arg_matches
    \<Rightarrow> unit cli_outcome \<times> 'g daemon cli_state \<Rightarrow> bool" where
  "doing env s path args r \<longleftrightarrow>
     (\<forall>u s'. r = (CliValue u, s') \<longrightarrow> achieved (issued env s path args) (cs_daemon s) (cs_daemon s'))"

lemma value_t_simps [value_simps]:
  "value_t parse v = ValueFound x \<longleftrightarrow> (\<exists>t. v = Some t \<and> parse t = Some x)"
  "values_t parse vs = ValueFound xs \<longleftrightarrow> (\<exists>ts. vs = Some ts \<and> those (map parse ts) = Some xs)"
  by (auto simp: value_t_def values_t_def split: option.splits)

lemma those_map_filter: "those (map f ts) = Some xs \<Longrightarrow> xs = List.map_filter f ts"
  by (induction ts arbitrary: xs) (auto simp: List.map_filter_simps split: option.splits)

lemma constraint_value:
  assumes "get_constraint m s = (CliValue c, s')"
  shows "c = asked_place m \<and> s' = s"
  using assms
  by (auto simp: get_constraint_def value_simps asked_place_def text_arg_def split: option.splits if_splits)

lemma custom_proxy_value:
  assumes "accepts create_set_custom_settings_subcommand m" and "am_subcommand m = Some (kind, args)"
    and "custom_proxy_args env kind args s = (CliValue p, s')"
  shows "p = asked_bridge env kind args \<and> s' = s"
proof -
  have "\<exists>a. value_of args ''username'' = Some a" "\<exists>a. value_of args ''password'' = Some a" if "kind = ''remote''"
  proof -
    let ?app = "ClapApp ''remote'' False
          [required_at 1 ''remote-ip'', required_at 2 ''remote-port'', required_at 3 ''username'',
           required_at 4 ''password''] []"
    have acc: "accepts ?app args"
      using accepted_subcommand [OF assms(1)] assms(2) that
      by (auto simp: create_set_custom_settings_subcommand_def)
    show "\<exists>a. value_of args ''username'' = Some a"
      by (rule accepted_required_value [OF acc, where a = "required_at 3 ''username''"]) (auto simp: arg_defs)
    show "\<exists>a. value_of args ''password'' = Some a"
      by (rule accepted_required_value [OF acc, where a = "required_at 4 ''password''"]) (auto simp: arg_defs)
  qed
  with assms(3) show ?thesis
    by (auto simp: custom_proxy_args_def local_proxy_args_def remote_proxy_args_def shadowsocks_proxy_args_def
        asked_bridge_def peer_args_def ip_arg_def number_arg_def text_arg_def value_simps split: if_splits)
qed

lemma relay_tunnel_update:
  assumes "relay_set_tunnel env m s = (CliValue u, s')"
  shows "update_constraints env (UpdateNormal (sent_tunnel m)) s = (CliValue u, s')"
proof -
  have "parse_protocol_constraint (text_arg m ''transport protocol'') = Some pr \<Longrightarrow> pr = asked_protocol m" for pr
    by (auto simp: parse_protocol_constraint_def asked_protocol_def Let_def split: if_splits)
  moreover have "parse_port_constraint (text_arg m ''port'') = Inr po \<Longrightarrow> po = asked_port m" for po
    by (auto simp: parse_port_constraint_def asked_port_def Let_def split: if_splits option.splits)
  ultimately show ?thesis
    using assms
    by (auto simp: relay_set_tunnel_def sent_tunnel_def asked_tunnel_def no_update_def value_simps text_arg_def split: if_splits sum.splits)
qed

lemma openvpn_relay_value:
  assumes "read_custom_openvpn_relay env m s = (CliValue e, s')"
  shows "e = custom_tunnel_endpoint_new (text_arg m ''host'') (asked_openvpn m) \<and> s' = s"
  using assms
  by (auto simp: read_custom_openvpn_relay_def asked_openvpn_def value_simps text_arg_def number_arg_def
      parse_transport_protocol_def transport_protocol_from_str_def split: sum.splits if_splits)

lemma key_value:
  "validate_wireguard_key env k s = (CliValue b, s') \<Longrightarrow> b = asked_key env k \<and> s' = s"
  by (auto simp: validate_wireguard_key_def asked_key_def value_simps split: sum.splits if_splits)

lemma private_key_value:
  "read_private_key s = (CliValue k, s') \<Longrightarrow> k = input_line s \<and> cs_daemon s' = cs_daemon s"
  by (auto simp: read_private_key_def read_line_def input_line_def value_simps Let_def
      split: list.splits sum.splits if_splits)

lemma wireguard_relay_value:
  assumes "read_custom_wireguard_relay env m s = (CliValue e, s')"
  shows "e = custom_tunnel_endpoint_new (text_arg m ''host'') (asked_wireguard env m s) \<and>
    cs_daemon s' = cs_daemon s"
proof -
  have v6: "(case value_t (ce_parse_ipv6 env) (value_of m ''v6-gateway'') of
          ValueFound gateway \<Rightarrow> cli_return (Some gateway)
        | ValueNotFound \<Rightarrow> cli_return None
        | ValueInvalid \<Rightarrow> cli_exit) s1 = (CliValue g, s2) \<Longrightarrow>
      g = Option.bind (value_of m ''v6-gateway'') (ce_parse_ipv6 env) \<and> s2 = s1" for s1 s2 g
    by (auto simp: value_t_def value_simps split: option.splits)
  show ?thesis
    using assms
    by (auto simp: read_custom_wireguard_relay_def asked_wireguard_def value_simps text_arg_def number_arg_def
        dest!: v6 key_value private_key_value those_map_filter)
qed

locale served_client =
  fixes denv :: "'g daemon_env" and env :: "'g daemon cli_env"
  assumes served: "serves denv env"
begin

lemma report_achieves:
  assumes "rpc_change req = Some ch" and "call_and_report env (request_call env req as_unit) message s1 = (CliValue u, s')"
    and "cs_daemon s1 = cs_daemon s"
  shows "achieved (Some ch) (cs_daemon s) (cs_daemon s')"
proof -
  obtain s2 v where "request_call env req as_unit s1 = (CliValue (Inr v), s2)" "cs_daemon s' = cs_daemon s2"
    using assms(2) by (auto simp: call_and_report_def value_simps)
  with request_achieves [OF served assms(1)] assms(3) show ?thesis by metis
qed

lemma try_achieves:
  assumes "rpc_change req = Some ch" and "cli_then (new_rpc_client env) (cli_try (request_call env req as_unit)) s1 = (CliValue u, s')"
    and "cs_daemon s1 = cs_daemon s"
  shows "achieved (Some ch) (cs_daemon s) (cs_daemon s')"
proof -
  have "request_call env req as_unit s1 = (CliValue (Inr u), s')"
    using assms(2) by (auto simp: value_simps)
  with request_achieves [OF served assms(1)] assms(3) show ?thesis by metis
qed

lemma call_done:
  assumes "call_and_report env (request_call env req as_unit) message s = (CliValue u, s')"
    and "rpc_change req \<noteq> None"
  shows "achieved (rpc_change req) (cs_daemon s) (cs_daemon s')"
  using assms report_achieves by (metis option.exhaust_sel)

lemma show_doing:
  assumes "stays same_settings m" and "issued env s path args = None"
  shows "doing env s path args (m s)"
proof -
  have "same_settings (cs_daemon s) (cs_daemon (snd (m s)))" using assms(1) by (simp add: stays_def)
  with assms(2) show ?thesis by (auto simp: doing_def achieved_def)
qed

lemmas showing = daemon_reader.stays_shows [OF daemon_reader.intro [OF serves_reads [OF served]]]

lemma account_doing:
  assumes "accepts account_app m"
  shows "doing env s (''account'' # command_path m) (last_matches m) (account_run env m s)"
proof -
  have "doing env s [''account'', ''get''] args (account_get env s)" for args
    by (rule show_doing [OF showing(1)]) (simp add: issued_by)
  moreover have "doing env s [''account'', ''set''] args
      (cli_bind (or_exit (value_t Some (value_of args ''token''))) (\<lambda>token. account_set env (Some token)) s)" for args
    by (auto simp: issued_by doing_def value_simps text_arg_def account_set_def served_calls dest!: call_done)
  moreover have "doing env s [''account'', ''unset''] args (account_set env None s)" for args
    by (auto simp: issued_by doing_def account_set_def served_calls dest!: call_done)
  ultimately show ?thesis
    unfolding account_run_dispatch
    by (intro dispatch_result [OF assms [unfolded account_app_def], where Q = "\<lambda>r path args. doing env s (''account'' # path) args r"])
      (auto simp: last_no_subcommands plain_app_def)
qed

lemma policy_doing:
  assumes "accepts (policy_app name ps) m"
    and "\<And>p. f p = call_and_report env (request_call env (req p) as_unit) message"
    and "\<And>p. rpc_change (req p) = Some (ch p)" and "stays same_settings get"
    and "\<And>args. issued env s [name, ''set''] args = Some (ch (text_arg args ''policy''))"
    and "\<And>args. issued env s [name, ''get''] args = None"
  shows "doing env s (name # command_path m) (last_matches m) (policy_run f get m s)"
proof -
  have "doing env s [name, ''get''] args (get s)" for args
    by (rule show_doing [OF assms(4,6)])
  moreover have "doing env s [name, ''set''] args (cli_bind (or_exit (value_t Some (value_of args ''policy''))) f s)" for args
    by (auto simp: assms(2,5) doing_def value_simps text_arg_def intro: report_achieves [OF assms(3)])
  ultimately show ?thesis
    unfolding policy_run_dispatch
    by (intro dispatch_result [OF assms(1) [unfolded policy_app_def], where Q = "\<lambda>r path args. doing env s (name # path) args r"])
      (auto simp: last_no_subcommands plain_app_def)
qed

lemma policies_doing:
  "accepts auto_connect_app m \<Longrightarrow>
    doing env s (''auto-connect'' # command_path m) (last_matches m) (auto_connect_run env m s)"
  "accepts block_when_disconnected_app m \<Longrightarrow>
    doing env s (''block-when-disconnected'' # command_path m) (last_matches m) (block_when_disconnected_run env m s)"
  "accepts lan_app m \<Longrightarrow> doing env s (''lan'' # command_path m) (last_matches m) (lan_run env m s)"
  unfolding auto_connect_app_def auto_connect_run_def block_when_disconnected_app_def
    block_when_disconnected_run_def lan_app_def lan_run_def
  by (erule policy_doing, simp add: auto_connect_set_def block_when_disconnected_set_def lan_set_def served_calls,
      simp, rule showing, simp_all add: issued_by)+

lemma tunnel_sets_doing:
  "doing env s [''tunnel'', ''openvpn'', ''mssfix'', ''set''] args (openvpn_mssfix_set env args s)"
  "doing env s [''tunnel'', ''openvpn'', ''mssfix'', ''unset''] args (openvpn_mssfix_unset env s)"
  "doing env s [''tunnel'', ''wireguard'', ''mtu'', ''set''] args (wireguard_mtu_set env args s)"
  "doing env s [''tunnel'', ''wireguard'', ''mtu'', ''unset''] args (wireguard_mtu_unset env s)"
  "doing env s [''tunnel'', ''ipv6'', ''set''] args (ipv6_set env args s)"
  by (auto simp: openvpn_mssfix_set_def openvpn_mssfix_unset_def wireguard_mtu_set_def wireguard_mtu_unset_def
      ipv6_set_def doing_def issued_by value_simps text_arg_def number_arg_def served_calls
      dest!: call_done)

lemma tunnel_gets_doing:
  "doing env s [''tunnel'', ''openvpn'', ''mssfix'', ''get''] args (openvpn_mssfix_get env s)"
  "doing env s [''tunnel'', ''wireguard'', ''mtu'', ''get''] args (wireguard_mtu_get env s)"
  "doing env s [''tunnel'', ''wireguard'', ''key'', ''check''] args (wireguard_key_check env s)"
  "doing env s [''tunnel'', ''wireguard'', ''key'', ''generate''] args (wireguard_key_generate env s)"
  "doing env s [''tunnel'', ''ipv6'', ''get''] args (ipv6_get env s)"
  by (rule show_doing, rule showing, simp add: issued_by)+

lemma openvpn_doing:
  assumes "accepts create_openvpn_subcommand m"
  shows "doing env s (''tunnel'' # ''openvpn'' # command_path m) (last_matches m) (openvpn_cmd env m s)"
proof -
  have "doing env s (''tunnel'' # ''openvpn'' # ''mssfix'' # command_path m) (last_matches m)
      (dispatch [(''get'', \<lambda>_. openvpn_mssfix_get env), (''unset'', \<lambda>_. openvpn_mssfix_unset env),
        (''set'', openvpn_mssfix_set env)] m s)" if "accepts create_openvpn_mssfix_subcommand m" for m
    by (rule dispatch_result [OF that [unfolded create_openvpn_mssfix_subcommand_def], where
          Q = "\<lambda>r path args. doing env s (''tunnel'' # ''openvpn'' # ''mssfix'' # path) args r"])
      (auto simp: last_no_subcommands plain_app_def tunnel_sets_doing tunnel_gets_doing)
  then show ?thesis
    unfolding openvpn_cmd_def
    by (intro dispatch_result [OF assms [unfolded create_openvpn_subcommand_def], where
          Q = "\<lambda>r path args. doing env s (''tunnel'' # ''openvpn'' # path) args r"]) auto
qed

lemma wireguard_doing:
  assumes "accepts create_wireguard_subcommand m"
  shows "doing env s (''tunnel'' # ''wireguard'' # command_path m) (last_matches m) (wireguard_cmd env m s)"
proof -
  have "doing env s (''tunnel'' # ''wireguard'' # ''mtu'' # command_path m) (last_matches m)
      (dispatch [(''get'', \<lambda>_. wireguard_mtu_get env), (''set'', wireguard_mtu_set env),
        (''unset'', \<lambda>_. wireguard_mtu_unset env)] m s)" if "accepts create_wireguard_mtu_subcommand m" for m
    by (rule dispatch_result [OF that [unfolded create_wireguard_mtu_subcommand_def], where
          Q = "\<lambda>r path args. doing env s (''tunnel'' # ''wireguard'' # ''mtu'' # path) args r"])
      (auto simp: last_no_subcommands plain_app_def tunnel_sets_doing tunnel_gets_doing)
  moreover have "doing env s (''tunnel'' # ''wireguard'' # ''key'' # command_path m) (last_matches m)
      (dispatch [(''check'', \<lambda>_. wireguard_key_check env), (''generate'', \<lambda>_. wireguard_key_generate env)] m s)"
    if "accepts create_wireguard_keys_subcommand m" for m
    by (rule dispatch_result [OF that [unfolded create_wireguard_keys_subcommand_def], where
          Q = "\<lambda>r path args. doing env s (''tunnel'' # ''wireguard'' # ''key'' # path) args r"])
      (auto simp: last_no_subcommands plain_app_def tunnel_gets_doing)
  ultimately show ?thesis
    unfolding wireguard_cmd_def
    by (intro dispatch_result [OF assms [unfolded create_wireguard_subcommand_def], where
          Q = "\<lambda>r path args. doing env s (''tunnel'' # ''wireguard'' # path) args r"]) auto
qed

lemma tunnel_doing:
  assumes "accepts tunnel_app m"
  shows "doing env s (''tunnel'' # command_path m) (last_matches m) (tunnel_run env m s)"
proof -
  have "doing env s (''tunnel'' # ''ipv6'' # command_path m) (last_matches m) (ipv6_cmd env m s)"
    if "accepts create_ipv6_subcommand m" for m
    unfolding ipv6_cmd_def
    by (rule dispatch_result [OF that [unfolded create_ipv6_subcommand_def], where
          Q = "\<lambda>r path args. doing env s (''tunnel'' # ''ipv6'' # path) args r"])
      (auto simp: last_no_subcommands plain_app_def tunnel_sets_doing tunnel_gets_doing)
  then show ?thesis
    unfolding tunnel_run_def
    by (intro dispatch_result [OF assms [unfolded tunnel_app_def], where
          Q = "\<lambda>r path args. doing env s (''tunnel'' # path) args r"])
      (auto simp: openvpn_doing wireguard_doing)
qed

lemma bridge_doing:
  assumes "accepts bridge_app m"
  shows "doing env s (''bridge'' # command_path m) (last_matches m) (bridge_run env m s)"
proof -
  have show_cmds: "doing env s [''bridge'', ''get''] args (bridge_get env s)"
    "doing env s [''bridge'', ''list''] args (list_bridge_relays env s)" for args
    by (rule show_doing, rule showing, simp add: issued_by)+
  have location: "doing env s [''bridge'', ''set'', ''location''] args (set_bridge_location env args s)" for args
    by (auto simp: doing_def issued_by set_bridge_location_def bind_value served_calls
        dest!: constraint_value intro: try_achieves [rotated])
  have state: "doing env s [''bridge'', ''set'', ''state''] args (set_bridge_state_cmd env args s)" for args
    by (auto simp: doing_def issued_by set_bridge_state_cmd_def bind_value basic_value text_arg_def served_calls
        split: if_splits intro: try_achieves [rotated])
  have custom: "doing env s (''bridge'' # ''set'' # ''custom'' # command_path m) (last_matches m)
      (set_custom_settings env m s)" if acc: "accepts create_set_custom_settings_subcommand m" for m
  proof -
    obtain kind args where sub: "am_subcommand m = Some (kind, args)" "kind \<in> {''local'', ''remote'', ''shadowsocks''}"
        "command_path args = []" "last_matches args = args"
      using accepted_subcommand [OF acc] last_no_subcommands
      by (auto simp: create_set_custom_settings_subcommand_def)
    then have run: "set_custom_settings env m = cli_bind (custom_proxy_args env kind args) (set_custom_proxy env)"
      by (auto simp: fun_eq_iff set_custom_settings_dispatch dispatch_eq custom_proxy_args_def)
    have proxy: "set_custom_proxy env p s = (CliValue u, s') \<Longrightarrow>
        achieved (Some (ChangeBridgeSettings (BridgeCustom p))) (cs_daemon s) (cs_daemon s')" for p u s'
      by (auto simp: set_custom_proxy_def call_and_report_def [symmetric] served_calls value_simps
          split: sum.splits dest!: call_done)
    have "doing env s [''bridge'', ''set'', ''custom'', kind] args (set_custom_settings env m s)"
      by (auto simp: run doing_def bind_value issued_by dest!: custom_proxy_value [OF acc sub(1)] proxy)
    with path_Some [OF sub(1)] sub(3,4) show ?thesis by simp
  qed
  have "doing env s (''bridge'' # ''set'' # command_path m) (last_matches m) (bridge_set env m s)"
    if "accepts create_bridge_set_subcommand m" for m
    unfolding bridge_set_def
    by (rule dispatch_result [OF that [unfolded create_bridge_set_subcommand_def], where
          Q = "\<lambda>r path args. doing env s (''bridge'' # ''set'' # path) args r"])
      (auto simp: custom location state last_no_subcommands location_app_def create_set_state_subcommand_def)
  then show ?thesis
    unfolding bridge_run_def
    by (intro dispatch_result [OF assms [unfolded bridge_app_def], where
          Q = "\<lambda>r path args. doing env s (''bridge'' # path) args r"])
      (auto simp: show_cmds last_no_subcommands plain_app_def)
qed

lemma relay_doing:
  assumes "accepts relay_app m"
  shows "doing env s (''relay'' # command_path m) (last_matches m) (relay_run env m s)"
proof -
  have show_cmds: "doing env s [''relay'', ''get''] args (relay_get env s)"
    "doing env s [''relay'', ''list''] args (relay_list_cmd env s)"
    "doing env s [''relay'', ''update''] args (relay_update env s)" for args
    by (rule show_doing, rule showing, simp add: issued_by)+
  have update: "achieved (Some (ChangeRelaySettings u)) (cs_daemon s) (cs_daemon s')"
    if "update_constraints env u s1 = (CliValue v, s')" "cs_daemon s1 = cs_daemon s" for u s1 v s'
  proof -
    have "rpc_change (RpcUpdateRelaySettings u) = Some (ChangeRelaySettings u)" by simp
    from report_achieves [OF this _ that(2)] that(1) show ?thesis
      by (simp add: update_constraints_def served_calls)
  qed
  have location: "doing env s [''relay'', ''set'', ''location''] args (relay_set_location env args s)" for args
    by (auto simp: doing_def issued_by relay_set_location_def bind_value dest!: constraint_value update)
  have tunnel: "doing env s [''relay'', ''set'', ''tunnel''] args (relay_set_tunnel env args s)" for args
    by (auto simp: doing_def issued_by dest!: relay_tunnel_update update)
  have custom: "doing env s (''relay'' # ''set'' # ''custom'' # command_path m) (last_matches m) (relay_set_custom env m s)"
    if acc: "accepts (ClapApp ''custom'' False [] [custom_wireguard_app, custom_openvpn_app]) m" for m
  proof (cases "am_subcommand m")
    case None
    then show ?thesis
      by (simp add: relay_set_custom_def subcommand_matches_def doing_def basic_value)
  next
    case (Some p)
    then obtain kind args where sub: "am_subcommand m = Some (kind, args)" "kind \<in> {''wireguard'', ''openvpn''}"
        "command_path args = []" "last_matches args = args"
      using accepted_subcommand [OF acc] last_no_subcommands
      by (auto simp: custom_wireguard_app_def custom_openvpn_app_def)
    have "doing env s [''relay'', ''set'', ''custom'', kind] args (relay_set_custom env m s)"
      using sub(1,2)
      by (auto simp: doing_def issued_by relay_set_custom_dispatch dispatch_eq bind_value
          dest!: openvpn_relay_value wireguard_relay_value update)
    with path_Some [OF sub(1)] sub(3,4) show ?thesis by simp
  qed
  have "doing env s (''relay'' # ''set'' # command_path m) (last_matches m) (relay_set env m s)"
    if "accepts relay_set_app m" for m
    unfolding relay_set_def
    by (rule dispatch_result [OF that [unfolded relay_set_app_def], where
          Q = "\<lambda>r path args. doing env s (''relay'' # ''set'' # path) args r"])
      (auto simp: custom location tunnel last_no_subcommands location_app_def)
  then show ?thesis
    unfolding relay_run_def
    by (intro dispatch_result [OF assms [unfolded relay_app_def], where
          Q = "\<lambda>r path args. doing env s (''relay'' # path) args r"])
      (auto simp: show_cmds last_no_subcommands plain_app_def)
qed

lemma status_doing:
  assumes "accepts status_app m"
  shows "doing env s (''status'' # command_path m) (last_matches m) (status_run env m s)"
  by (rule show_doing [OF showing(18)]) (simp add: issued_by)

lemma plain_doing:
  "doing env s [''connect''] args (connect_run env m s)"
  "doing env s [''disconnect''] args (disconnect_run env m s)"
  "doing env s [''version''] args (version_run env m s)"
  by (rule show_doing, rule showing, simp add: issued_by)+

lemma cli_doing:
  assumes "accepts (ClapApp ''mullvad-cli'' True [] (rev command_apps)) m"
  shows "command_path m = [''factory-reset''] \<or>
    doing env s (command_path m) (last_matches m) (dispatch (command_runs env) m s)"
  by (rule dispatch_result [OF assms, where Q = "\<lambda>r path args. path = [''factory-reset''] \<or> doing env s path args r"])
    (auto simp: command_apps_def command_runs_def account_doing policies_doing bridge_doing relay_doing
      status_doing tunnel_doing plain_doing plain_app_path)

end

section \<open>A reference parser and client\<close>

text \<open>
  A parser that takes the name of a subcommand or else the values of the positional arguments in
  their order, fills in the defaults, and refuses what is not accepted.
\<close>

fun ref_assign :: "clap_arg list \<Rightarrow> string list \<Rightarrow> (string \<times> string list) list" where
  "ref_assign [] ws = map (\<lambda>w. (w, [])) ws"
| "ref_assign (a # as) ws =
     (case (ws, ca_takes_value a, ca_default a) of
        (w # ws', False, _) \<Rightarrow> (ca_name a, [w]) # ref_assign as ws'
      | (_, _, Some d) \<Rightarrow> (ca_name a, [d]) # ref_assign as ws
      | _ \<Rightarrow> ref_assign as ws)"

fun ref_build :: "clap_app \<Rightarrow> string list \<Rightarrow> arg_matches" where
  "ref_build app [] = ArgMatches (ref_assign (cl_args app) []) None"
| "ref_build app (w # ws) =
     (case find (\<lambda>a. cl_name a = w) (cl_subcommands app) of
        Some a \<Rightarrow> ArgMatches (ref_assign (cl_args app) []) (Some (w, ref_build a ws))
      | None \<Rightarrow> ArgMatches (ref_assign (cl_args app) (w # ws)) None)"

definition ref_get_matches :: "clap_app \<Rightarrow> string list \<Rightarrow> int + arg_matches" where
  "ref_get_matches app ws = (let m = ref_build app ws in if accepts app m then Inr m else Inl 1)"

interpretation ref_parser: argument_parser ref_get_matches
  by unfold_locales (auto simp: ref_get_matches_def Let_def split: if_splits)

definition ref_cli_api :: api_outcome where
  "ref_cli_api = \<lparr>ao_account_data = Inl MasterOther, ao_version_info = Inl MasterOther\<rparr>"

definition ref_cli_env :: "u64 list daemon cli_env" where
  "ref_cli_env =
     \<lparr>ce_os = Linux, ce_connect = \<lambda>_. Inr (),
      ce_request = \<lambda>req d.
        (case rpc_serve sample_env sample_daemon_io (\<lambda>_ _. None) ref_cli_api req d of
           Returns (res, d') \<Rightarrow> (map_sum ClientJsonRpc id res, d')
         | Panics \<Rightarrow> (Inl (ClientTransport ''connection closed''), d)),
      ce_subscribe = \<lambda>d. (Inr [], d), ce_parse_ip = \<lambda>_. None, ce_parse_ipv4 = \<lambda>_. None,
      ce_parse_ipv6 = \<lambda>_. None, ce_base64_decode = \<lambda>_. Inl ''Invalid byte'', ce_key_fmt = \<lambda>_. [],
      ce_five_decimals = \<lambda>_. ''0.00000'', ce_debug_settings = \<lambda>_. [], ce_debug_relay_list = \<lambda>_. [],
      ce_error_chain = \<lambda>_. ([], [])\<rparr>"

lemma ref_serves: "serves sample_env ref_cli_env"
  by (auto simp: serves_def ref_cli_env_def split: panics.split prod.split) blast+

interpretation ref_client: served_client sample_env ref_cli_env
  by unfold_locales (rule ref_serves)

interpretation ref_reader: daemon_reader same_settings ref_cli_env
  by unfold_locales (rule serves_reads [OF ref_serves])

section \<open>Properties\<close>


lemma ref_parse_app:
  assumes "get_commands env = Returns commands"
  shows "mullvad_app commands = ClapApp ''mullvad-cli'' True [] (rev command_apps)"
  using command_runs_eq [OF assms] by simp


text \<open>
  C35.  A command that ends with exit code 0, other than the factory reset, has done what it says: the daemon
  is running and has the requested setting and no other change, and a command that asks for no change
  leaves all settings as they were.  There are two exceptions.  \<open>relay set tunnel openvpn\<close> asks for
  OpenVPN but sets the tunnel protocol to \<open>Any\<close> beside the OpenVPN constraints.  And \<open>bridge set state on\<close>,
  when bridges were not on, also sets the relay constraints to OpenVPN over TCP with any port.\<close>

theorem cli_command_achieves:
  assumes "argument_parser get_matches" and "serves denv env" and "get_commands env = Returns commands"
    and "get_matches (mullvad_app commands) words = Inr m" and "cli_main env get_matches words s = (0, s')"
    and "command_path m \<noteq> [''factory-reset'']"
  shows "case requested env s (command_path m) (last_matches m) of
      None \<Rightarrow> dm_settings (cs_daemon s') = dm_settings (cs_daemon s)
    | Some change \<Rightarrow>
        is_running (dm_state (cs_daemon s)) \<and>
        dm_settings (cs_daemon s') =
          setting_result True (openvpn_as_any (command_path m) (last_matches m) change) (dm_settings (cs_daemon s))"
proof -
  note runs = command_runs_eq [OF assms(3)]
  have accepted: "accepts (ClapApp ''mullvad-cli'' True [] (rev command_apps)) m"
    using argument_parser.parsed_accepted [OF assms(1,4)] by (simp add: runs)
  obtain r s1 where r: "run_command commands m s = (r, s1)" by fastforce
  with assms(3-5) have "r = CliValue ()" "s1 = s'"
    by (auto simp: cli_main_def cli_exit_code_def split: cli_outcome.splits)
  with r have "dispatch (command_runs env) m s = (CliValue (), s')" by (simp add: runs)
  then have "achieved (issued env s (command_path m) (last_matches m)) (cs_daemon s) (cs_daemon s')"
    using served_client.cli_doing [OF served_client.intro [OF assms(2)] accepted, of s] assms(6)
    by (auto simp: doing_def)
  then show ?thesis by (auto simp: issued_requested achieved_def same_settings_def split: option.splits)
qed

lemma ref_auto_connect:
  assumes "cs_daemon s = sample_daemon"
  shows "\<exists>s'. auto_connect_set ref_cli_env True s = (CliValue (), s')"
proof -
  have running: "is_running (dm_state sample_daemon)" by (simp add: sample_daemon_def)
  then obtain res d' where r: "rpc_serve sample_env sample_daemon_io (\<lambda>_ _. None) ref_cli_api
      (RpcSetAutoConnect True) sample_daemon = Returns (res, d')"
    by (simp add: rpc_serve_def handle_management_interface_event_def)
  have "settings_saved (di_settings sample_daemon_io)"
    by (simp add: settings_saved_def sample_daemon_io_def sample_settings_io_def get_settings_path_def)
  then have "change_saved sample_env sample_daemon_io (ChangeAutoConnect True) sample_daemon"
    by (simp add: change_saved_def settings_saved_ok)
  with rpc_setting_outcome [OF _ r] running have "res = Inr ValUnit" by simp
  with r assms show ?thesis
    by (simp add: auto_connect_set_def served_calls call_and_report_def value_simps request_call_def ref_cli_env_def as_unit_def)
qed

theorem cli_command_achieves_witness:
  "\<exists>s s'. cli_main ref_cli_env ref_get_matches [''auto-connect'', ''set'', ''on''] s = (0, s') \<and>
     cs_daemon s = sample_daemon \<and>
     dm_settings (cs_daemon s') = changed (ChangeAutoConnect True) (dm_settings sample_daemon)"
proof -
  let ?commands = "rev (map (\<lambda>c. (cc_name c, c)) (all_commands ref_cli_env))"
  let ?words = "[''auto-connect'', ''set'', ''on'']"
  let ?args = "ArgMatches [(''policy'', [''on''])] None"
  let ?m = "ArgMatches [] (Some (''auto-connect'', ArgMatches [] (Some (''set'', ?args))))"
  let ?s = "\<lparr>cs_daemon = sample_daemon, cs_stdin = [], cs_stdout = [], cs_stderr = []\<rparr>"
  have c: "get_commands ref_cli_env = Returns ?commands" by (rule get_commands_eq)
  have "ref_build (mullvad_app ?commands) ?words = ?m"
    by (simp add: ref_parse_app [OF c] command_apps_def auto_connect_app_def policy_app_def arg_defs)
  moreover have "accepts (mullvad_app ?commands) ?m"
    by (simp add: ref_parse_app [OF c] command_apps_def auto_connect_app_def policy_app_def arg_defs
        args_accepted_def values_accepted_def)
  ultimately have m: "ref_get_matches (mullvad_app ?commands) ?words = Inr ?m"
    by (simp add: ref_get_matches_def)
  obtain s' where s': "auto_connect_set ref_cli_env True ?s = (CliValue (), s')"
    using ref_auto_connect [of ?s] by auto
  have "run_command ?commands ?m ?s = (CliValue (), s')"
    using s' by (simp add: command_runs_eq(1) [OF c] dispatch_eq command_runs_def auto_connect_run_def
        policy_run_dispatch value_t_def value_of_def or_exit_def)
  with c m have main: "cli_main ref_cli_env ref_get_matches ?words ?s = (0, s')"
    by (simp add: cli_main_def cli_exit_code_def)
  from cli_command_achieves [OF ref_parser.argument_parser_axioms ref_serves c m main]
  have "dm_settings (cs_daemon s') = changed (ChangeAutoConnect True) (dm_settings sample_daemon)"
    by (simp add: requested_def requested_by_def openvpn_as_any_def text_arg_def value_of_def)
  with main show ?thesis by (intro exI [of _ ?s] exI [of _ s']) simp
qed

end
