(* ===== verification/Spec2Isabelle.thy ===== *)
theory Spec2Isabelle
  imports Daemon_Machine Daemon_Props Management_Props Firewall_Macos_Props Routing_Linux_Props
    Routing_Macos Dns_Cache Problem_Report_Props Dns_Linux_Machine Dns_Macos Offline
    Cli_Props
begin

text \<open>
  \<^bold>\<open>Verification of the Mullvad VPN app\<close>: the daemon and its management interface, the command line
  client, the relay selector, the tunnel state machine, the firewalls, route managers and DNS monitors
  of Linux and macOS, the offline monitors, the DNS cache of the API client and the problem report, as
  they are in the Rust sources under \<open>src/\<close>.

  \<^bold>\<open>The program.\<close>  \<open>mullvad-daemon\<close> is a service with one event loop.  Clients (GUI, command line) send it
  management commands; it keeps settings, an account history, WireGuard keys and a list of relays,
  and it sends commands to the tunnel state machine of \<open>talpid-core\<close>, which runs in a thread of its
  own.  The machine asks the daemon for tunnel parameters, starts and stops OpenVPN and WireGuard
  tunnels, applies a firewall policy for every state, and reports its transitions back.  The firewall
  of the platform turns a policy into rules of the kernel, and the route manager sends the traffic of
  the system through the tunnel.

  \<^bold>\<open>Theories and sources\<close>, from the bottom up:
  \<^item> \<open>Prelude\<close>: named collections of simplification rules, machine integers, \<open>panics\<close> (a call that may
    panic) and lemmas on lists, options and words.
  \<^item> \<open>Net_Types\<close>, \<open>Std_Fmt\<close>: \<open>talpid-types/src/net/*.rs\<close>, \<open>talpid-types/src/tunnel.rs\<close>; printing of
    numbers and addresses as \<open>std::fmt\<close> does.
  \<^item> \<open>Firewall_Policy\<close>: \<open>talpid-core/src/firewall/mod.rs\<close>, and the packets a policy lets through according
    to its documentation (\<open>policy_allows\<close>).  The trait \<open>FirewallT\<close> is the locale \<open>firewall_interface\<close>.
  \<^item> \<open>Firewall_Linux\<close>, \<open>Firewall_Linux_Proofs\<close>, \<open>Firewall_Linux_Kernel\<close>: \<open>talpid-core/src/firewall/linux.rs\<close>;
    every rule builder and the exchange with the kernel.  The crates \<open>nftnl\<close> and \<open>mnl\<close> and the kernel
    are the locales \<open>netfilter\<close> and \<open>netlink_kernel\<close>, interpreted by a reference kernel.
  \<^item> \<open>Wireguard\<close>, \<open>OpenVpn\<close>, \<open>Tunnel\<close>: \<open>talpid-core/src/tunnel/**\<close>, \<open>process/openvpn.rs\<close>, \<open>proxy/*.rs\<close>,
    \<open>logging.rs\<close>, \<open>routing/mod.rs\<close>; what is passed to the tunnel programs, and the monitors.
  \<^item> \<open>Tunnel_State_Machine\<close>, \<open>_Proofs\<close>, \<open>_Props\<close>: \<open>talpid-core/src/tunnel_state_machine/*.rs\<close>; states,
    \<open>enter\<close> functions, event handlers and the poll loop, over a record of platform operations.
  \<^item> \<open>Leak_Freedom\<close>: the machine on the Linux firewall.
  \<^item> \<open>Relay_Types\<close>: \<open>mullvad-types/src/{location,relay_list,endpoint,relay_constraints,custom_tunnel}.rs\<close>.
  \<^item> \<open>Relay_Selector\<close>, \<open>_Proofs\<close>, \<open>_Props\<close>: \<open>mullvad-daemon/src/relays.rs\<close>; the random number generator is
    the locale \<open>random_source\<close>, interpreted by a generator that replays a script.
  \<^item> \<open>Settings\<close>, \<open>Settings_Props\<close>: \<open>mullvad-types/src/settings/**\<close>, \<open>mullvad-daemon/src/settings.rs\<close>.
  \<^item> \<open>Account_History\<close>: \<open>mullvad-daemon/src/account_history.rs\<close>; the locale \<open>mru_cache\<close> is its contract.
  \<^item> \<open>Key_Manager\<close>: \<open>mullvad-daemon/src/wireguard.rs\<close> and \<open>geoip.rs\<close>.
  \<^item> \<open>Daemon\<close>, \<open>Daemon_Proofs\<close>, \<open>Daemon_Props\<close>: \<open>mullvad-daemon/src/lib.rs\<close> with the commands of
    \<open>management_interface.rs\<close> and \<open>mullvad-types/src/states.rs\<close>.
  \<^item> \<open>Management_Interface\<close>, \<open>Management_Props\<close>: \<open>mullvad-daemon/src/management_interface.rs\<close>; the requests
    of clients, their answers and error codes, the subscriptions and the events broadcast to them.
  \<^item> \<open>Firewall_Macos\<close>, \<open>Firewall_Macos_Props\<close>: \<open>talpid-core/src/firewall/macos.rs\<close>.  The crate \<open>pfctl\<close> and
    the kernel are the locales \<open>pf_evaluation\<close> and \<open>pf_control\<close>, interpreted by a reference packet
    filter; packets that belong to an existing state of the filter are not modelled.
  \<^item> \<open>Std_Str\<close>: the functions on strings of the standard library that the following parts use.
  \<^item> \<open>Routing_Linux\<close>, \<open>Routing_Linux_Props\<close>: \<open>talpid-core/src/routing/linux/*.rs\<close>; parsing the output of the
    program \<open>ip\<close> and the futures of the route manager.  The program and the kernel are the locale
    \<open>ip_routes\<close>, interpreted by a reference routing table.
  \<^item> \<open>Routing_Macos\<close>: \<open>talpid-core/src/routing/macos.rs\<close>.
  \<^item> \<open>Dns_Cache\<close>: \<open>mullvad-rpc/src/cached_dns_resolver.rs\<close>.
  \<^item> \<open>Problem_Report\<close>, \<open>Problem_Report_Props\<close>: \<open>mullvad-problem-report/src/lib.rs\<close> and the error printing
    of \<open>talpid-types/src/lib.rs\<close>.
  \<^item> \<open>Dns_Linux\<close>, \<open>Dns_Linux_Props\<close>, \<open>Dns_Linux_Machine\<close>: \<open>talpid-core/src/dns/linux/*.rs\<close>; the choice between
    \<open>resolvconf\<close>, systemd-resolved, NetworkManager and \<open>/etc/resolv.conf\<close>, and the machine with this DNS
    monitor.  Files, programs and D-Bus are a record of operations with the laws of the locales
    \<open>conf_files\<close> and \<open>dns_services\<close>, interpreted by a reference system.
  \<^item> \<open>Dns_Macos\<close>: \<open>talpid-core/src/dns/macos.rs\<close>; the dynamic store is the locale \<open>dynamic_store\<close>.
  \<^item> \<open>Offline\<close>: \<open>talpid-core/src/offline/{linux,macos,windows}.rs\<close>; the locale \<open>offline_source\<close> is what the
    machine relies on, with an interpretation for each platform.
  \<^item> \<open>Clap\<close>, \<open>Ipc_Client\<close>, \<open>Cli\<close>, \<open>Cli_Props\<close>: \<open>mullvad-cli/src/**\<close>, \<open>mullvad-ipc-client/src/lib.rs\<close>,
    \<open>mullvad-types/src/auth_failed.rs\<close>; a program that may end the process or panic is a function from
    the streams and the daemon to an outcome.  The parser \<open>clap\<close> is the locale \<open>argument_parser\<close>,
    interpreted by a small parser.
  \<^item> \<open>Daemon_Machine\<close> and this theory: the daemon and the state machine together.

  \<^bold>\<open>State and operations.\<close>  Structs are records, enums are datatypes, and every method is a function from
  the state before to the result and the state after.  A failing operation returns a value of a sum
  type, a panicking one is \<open>Panics\<close>.  What the code calls and does not contain (kernel, DNS, random
  numbers, JSON, the API, processes) is an argument; the outcomes of input and output are inputs of
  the handlers (\<open>daemon_io\<close>, \<open>settings_io\<close>, \<open>history_write\<close>), so that every theorem holds for every way
  they may fail unless it says otherwise.  What a handler of the daemon sends is appended to
  \<open>dm_effects\<close> in its order.  Sending to the state machine or to the relay list updater after that thread
  has stopped panics: \<open>daemon_run_on\<close> is the daemon with these panics, given which threads still receive
  at each event, and \<open>daemon_run\<close> the daemon while both threads run.

  \<^bold>\<open>Specifications.\<close>  What a component should do is taken from the documentation and the command line help,
  not from the code, and a theorem states where the code differs: \<open>policy_allows\<close> for the firewalls (both
  refuse conversations the peer starts, \<open>peer_starts\<close>; macOS also differs as \<open>macos_extra\<close> and
  \<open>macos_refuses\<close> list), \<open>endpoint_satisfies\<close> for the relay selector (\<open>ignoring_tunnel_constraints\<close>: the
  constraints of a tunnel protocol count only if that protocol is selected), \<open>requested\<close> for the command
  line (\<open>openvpn_as_any\<close>), and \<open>setting_result\<close> for requests (switching bridges on).  \<open>macos_allows\<close> and
  \<open>endpoint_chosen\<close> describe what the code computes and are only used in proofs.

  \<^bold>\<open>What is shown.\<close>
  \<^item> Firewall: the committed rules accept exactly the packets of the documented policy, but for
    conversations the peer starts; no leaks, no DNS outside the tunnel; the outcome of \<open>apply_policy\<close>
    under failures.
  \<^item> State machine: the kill switch as an invariant of the reachable states, the exact policy with a
    firewall that works, refinement of an abstract machine, termination of polling, disconnecting.
  \<^item> Relay selector: soundness and completeness of the selection, the weights, ports and bridges, and
    the round trip through the cache.
  \<^item> Settings and history: contracts of the setters, round trips, migration, most recently used order.
  \<^item> Daemon: no panics while the threads it sends to run, parameters as the user asked for, shutdown,
    keys, failing storage.
  \<^item> Management interface: a changed setting is reported to subscribers, a subscriber that keeps every
    event knows the state and settings of the daemon, and subscriptions do not disturb each other.
  \<^item> macOS firewall: what the rules let through of the documented policy, and what besides it; the state
    machine keeps its guarantee on this firewall.
  \<^item> Route managers: the routes through the default gateway follow it, the contract of starting one,
    and what stopping one leaves behind.
  \<^item> DNS cache and problem report: only plausible addresses are kept, the file is read back as it was
    written, account numbers do not reach the report.
  \<^item> DNS and offline monitors: the settings of the user are restored with the changes of others (on macOS
    for changes that are handled one after the other), the
    connected state uses the servers of the tunnel, and the machine knows what the monitor has seen.
  \<^item> Command line: when it panics, and that a command that succeeds has made its change in the daemon.
  \<^item> Together (below): a secured target is never left unprotected, and the firewall follows the
    settings of the user.

  \<^bold>\<open>Loops and fuel.\<close>  Event loops run over the list of events they receive; their result is \<open>None\<close> while
  the loop is still waiting, and theorems that a loop ends say which events are enough.  The poll loop
  of the machine is given its polls in the same way.  No other definition has fuel.

  \<^bold>\<open>Not modelled.\<close>  The firewall and the DNS of Windows, which pass their arguments to C++ libraries, and
  the firewall of Android, which is empty; the machine uses them through the modelled interfaces.  The
  creation of tunnel devices and the plugin of OpenVPN, which are calls of the operating system and of
  the RPC library; JSON, sockets and the HTTP client of the API; the window and the threads that
  receive power messages on Windows; floating point rounding (distances are real numbers); the collection of system information for problem reports, the
  set up of logging and of the system service, and the bindings for Java, which convert values.
\<close>

section \<open>The daemon and the state machine together\<close>

text \<open>The commands on the channel that do not come from the offline monitor.\<close>

definition from_daemon :: "tunnel_command \<Rightarrow> bool" where
  "from_daemon c = (case c of CmdIsOffline _ \<Rightarrow> False | _ \<Rightarrow> True)"

lemma fold_from_daemon:
  "fold obey (filter from_daemon cs) v = fold obey cs v"
  "fold aim (filter from_daemon cs) b = fold aim cs b"
proof -
  have obey: "obey c v = v" and aim: "aim c b = b" if "\<not> from_daemon c" for c v b
    using that by (auto simp: from_daemon_def split: tunnel_command.splits)
  show "fold obey (filter from_daemon cs) v = fold obey cs v"
    by (induction cs arbitrary: v) (simp_all add: obey)
  show "fold aim (filter from_daemon cs) b = fold aim cs b"
    by (induction cs arbitrary: b) (simp_all add: aim)
qed

lemma machine_new_start:
  assumes "machine_new pf lan bwd off g tp ld rd cd = Inr \<lparr>tm_current_state = Some st, tm_shared = sh\<rparr>"
  shows "st = StDisconnected" "machine_settings sh = (lan, bwd)"
proof -
  let ?sh = "\<lambda>fw dns. \<lparr>sv_firewall = fw, sv_dns_monitor = dns, sv_allow_lan = lan,
    sv_block_when_disconnected = bwd, sv_is_offline = off, sv_generator = g, sv_tun_provider = tp,
    sv_log_dir = ld, sv_resource_dir = rd\<rparr>"
  obtain fw dns where "st = StDisconnected" "sh = disconnected_set_firewall_policy pf (?sh fw dns)"
    using assms by (auto simp: machine_new_def disconnected_enter_def Let_def split: sum.splits)
  moreover have "machine_settings (?sh fw dns) = (lan, bwd)" by (simp add: machine_settings_def)
  ultimately show "st = StDisconnected" "machine_settings sh = (lan, bwd)" by simp_all
qed

text \<open>No operation of the firewall ever fails.\<close>

definition firewall_never_fails :: "('fw, 'dns, 'gen, 'tp) platform \<Rightarrow> bool" where
  "firewall_never_fails pf \<longleftrightarrow>
     (\<forall>p f. is_ok (fst (pf_fw_apply pf p f))) \<and> (\<forall>f. is_ok (fst (pf_fw_reset pf f)))"

text \<open>
  C1.  The kill switch, end to end.  Start the daemon and the state machine, let the daemon handle any
  events and the machine any polls (nobody sends it \<open>Block\<close>, its command channel stays open, and a tunnel does
  not close for the reason that the host is offline), and consider a moment when the machine has handled
  the commands the daemon has sent.  While the target is secured and the daemon is not shutting down, the
  machine is never in the disconnected state, and a firewall policy is in force, unless the machine is
  blocked because the firewall has failed; with a firewall whose operations all succeed a policy is in
  force in any case.  Otherwise there is no tunnel: the machine is neither connecting nor connected.\<close>

theorem secured_target_protected:
  assumes start: "start_internal env io ok1 ok2 ok3 selector loaded history
      (\<lambda>lan bwd. map_sum id (\<lambda>_. ()) (machine_new pf lan bwd off g tp ld rd cd)) version = Inr d0"
    and run: "daemon_run env es dirs d0 = Returns (r, d)"
    and machine: "machine_new pf (st_allow_lan (fst loaded)) (st_block_when_disconnected (fst loaded))
      off g tp ld rd cd = Inr \<lparr>tm_current_state = Some st0, tm_shared = sh0\<rparr>"
    and handles: "machine_handles pf usual_polls (st0, sh0) cs (st, sh)"
    and commands: "filter from_daemon cs = daemon_commands d"
    and fw: "firewall_interface (pf_fw_apply pf) (pf_fw_reset pf) enforces lifted"
  shows "if is_running (dm_state d) \<and> dm_target_state d = Secured
    then st \<noteq> StDisconnected \<and>
      (st = StBlocked SetFirewallPolicyError \<and> \<not> firewall_never_fails pf \<or> (\<exists>p. enforces (sv_firewall sh) p))
    else kind_of st \<notin> {KConnecting, KConnected}"
proof -
  note d0 = start_internal_Inr [OF start] start_internal_announced [OF start]
  note m0 = machine_new_start [OF machine]
  have "target_announced d" using daemon_run_target [OF run] d0 by simp
  moreover have "sent_aim cs = sent_aim (daemon_commands d)"
    unfolding commands [symmetric] by (simp add: sent_aim_def fold_from_daemon)
  ultimately have aim: "aims_at (is_running (dm_state d) \<and> dm_target_state d = Secured) st"
    using machine_handles_aim [OF handles] m0(1) by (simp add: target_announced_def)
  have reach: "reachable pf (st, sh)"
    using machine_handles_reachable [OF handles reachable.start [OF machine]] .
  then have "secure enforces st sh"
    using fw by (intro tsm_firewall.reachable_secure) (simp add: tsm_firewall_def)
  moreover have "firewall_never_fails pf \<Longrightarrow> exact enforces lifted st sh"
    using reach fw by (intro reliable_tsm.reachable_exact)
      (simp_all add: reliable_tsm_def tsm_firewall_def reliable_tsm_axioms_def firewall_never_fails_def)
  ultimately show ?thesis using aim by (cases st) auto
qed

text \<open>A daemon and a machine that start with the default settings, on the reference Linux kernel.\<close>

definition quiet_spawn :: "bool \<Rightarrow> bool \<Rightarrow> tsm_error + unit" where
  "quiet_spawn = (\<lambda>lan bwd. map_sum id (\<lambda>_. ())
     (machine_new quiet_platform lan bwd False 0 0 None ''/r'' ''/c''))"

lemma quiet_daemon:
  "\<exists>d. start_internal sample_env sample_daemon_io True True True sample_selector
     (settings_default, Map.empty) (Inr \<lparr>ah_file = [], ah_accounts = []\<rparr>) quiet_spawn ''2020.1'' = Inr d"
  by (simp add: start_internal_def quiet_spawn_def settings_default_def quiet_start)

lemma quiet_reliable: "firewall_never_fails quiet_platform"
  by (simp add: firewall_never_fails_def quiet_tsm.apply_reliable quiet_tsm.reset_reliable)

lemma sample_refresh [simp]: "refresh_relays sample_daemon_io d = d"
  by (simp add: refresh_relays_def sample_daemon_io_def)

lemma cmd_poll_simps [simp]:
  "po_commands (cmd_poll c) = StreamItem c" "po_close_event (cmd_poll c) = FutureNotReady"
  by (simp_all add: cmd_poll_def idle_def)

lemma quiet_handles_connect:
  "\<exists>st sh. machine_handles quiet_platform usual_polls (StDisconnected, quiet_shared) [CmdConnect] (st, sh)"
proof -
  obtain st tr sh where "connecting_enter quiet_platform 0 quiet_shared = (st, tr, sh)"
    by (rule prod_cases3)
  then have "handle_event quiet_platform (cmd_poll CmdConnect) StDisconnected quiet_shared =
      (ActNotify (Some st) (PollTransition tr), sh)"
    by (simp add: disconnected_handle_event_def new_state_def)
  from handled_event [OF handled_nothing _ this, of usual_polls st] show ?thesis
    by (auto simp: usual_polls_def)
qed

lemma sample_secured:
  assumes "dm_state d0 = ExecRunning" "dm_target_state d0 = Unsecured"
    "dm_settings d0 = settings_default" "daemon_commands d0 = []"
  shows "\<exists>d. daemon_run sample_env [(sample_daemon_io, EventManagementCommand (SetTargetState Secured))] [] d0 =
      Returns (None, d) \<and> is_running (dm_state d) \<and> dm_target_state d = Secured \<and>
      daemon_commands d = [CmdConnect]"
proof -
  have "daemon_auto_connect d0 = d0"
    using assms(3) by (simp add: daemon_auto_connect_def settings_default_def)
  moreover have "daemon_commands (set_target_state Secured d0) = [CmdConnect]"
    using assms by (simp add: set_target_state_def connect_tunnel_def send_tunnel_command_def)
  ultimately show ?thesis
    using assms by (simp add: daemon_run_def handle_management_interface_event_def on_set_target_state_def)
qed

theorem secured_target_protected_witness:
  "\<exists>st sh. machine_handles quiet_platform usual_polls (StDisconnected, quiet_shared) [CmdConnect] (st, sh) \<and>
     st \<noteq> StDisconnected \<and> (\<exists>p. linux_enforces quiet_sys nft_filter fst (sv_firewall sh) p)"
proof -
  obtain d0 where d0: "start_internal sample_env sample_daemon_io True True True sample_selector
      (settings_default, Map.empty) (Inr \<lparr>ah_file = [], ah_accounts = []\<rparr>) quiet_spawn ''2020.1'' = Inr d0"
    using quiet_daemon by blast
  obtain st sh where h: "machine_handles quiet_platform usual_polls (StDisconnected, quiet_shared)
      [CmdConnect] (st, sh)"
    using quiet_handles_connect by blast
  obtain d where d: "daemon_run sample_env
      [(sample_daemon_io, EventManagementCommand (SetTargetState Secured))] [] d0 = Returns (None, d)"
      "is_running (dm_state d)" "dm_target_state d = Secured" "daemon_commands d = [CmdConnect]"
    using sample_secured [of d0] start_internal_Inr [OF d0] by auto
  have "machine_new quiet_platform (st_allow_lan (fst (settings_default, Map.empty)))
      (st_block_when_disconnected (fst (settings_default, Map.empty))) False 0 0 None ''/r'' ''/c'' =
      Inr \<lparr>tm_current_state = Some StDisconnected, tm_shared = quiet_shared\<rparr>"
    by (simp add: settings_default_def quiet_start)
  from secured_target_protected [OF d0 [unfolded quiet_spawn_def] d(1) this h _ quiet_tsm.fw.firewall_interface_axioms]
    d(2-4) h
  show ?thesis by (auto simp: from_daemon_def quiet_reliable)
qed

text \<open>
  C2.  The user's settings reach the firewall.  In the same situation, with a daemon that is not shutting
  down, and as long as the settings could be saved whenever they were changed, the machine has the LAN and
  blocking settings of the daemon; and if no firewall operation ever fails, the policy in force is exactly
  the one of its state with those settings.\<close>

theorem settings_enforced:
  assumes start: "start_internal env io ok1 ok2 ok3 selector loaded history
      (\<lambda>lan bwd. map_sum id (\<lambda>_. ()) (machine_new pf lan bwd off g tp ld rd cd)) version = Inr d0"
    and run: "daemon_run env es dirs d0 = Returns (r, d)" and "is_running (dm_state d)"
    and saved: "\<forall>(io, e) \<in> set es. settings_saved (di_settings io)"
    and machine: "machine_new pf (st_allow_lan (fst loaded)) (st_block_when_disconnected (fst loaded))
      off g tp ld rd cd = Inr \<lparr>tm_current_state = Some st0, tm_shared = sh0\<rparr>"
    and handles: "machine_handles pf ok (st0, sh0) cs (st, sh)"
    and commands: "filter from_daemon cs = daemon_commands d"
    and fw: "firewall_interface (pf_fw_apply pf) (pf_fw_reset pf) enforces lifted"
  shows "sv_allow_lan sh = st_allow_lan (dm_settings d) \<and>
    sv_block_when_disconnected sh = st_block_when_disconnected (dm_settings d) \<and>
    (firewall_never_fails pf \<longrightarrow> exact enforces lifted st sh)"
proof -
  let ?v = "(st_allow_lan (fst loaded), st_block_when_disconnected (fst loaded))"
  note d0 = start_internal_Inr [OF start] start_internal_announced [OF start]
  note m0 = machine_new_start [OF machine]
  have "settings_announced ?v d" using daemon_run_settings [OF run] d0 saved by fastforce
  moreover have "sent_settings ?v cs = sent_settings ?v (daemon_commands d)"
    unfolding commands [symmetric] by (simp add: sent_settings_def fold_from_daemon)
  ultimately have "machine_settings sh = (st_allow_lan (dm_settings d), st_block_when_disconnected (dm_settings d))"
    using machine_handles_settings [OF handles] m0(2) assms(3) by (simp add: settings_announced_def)
  moreover have "exact enforces lifted st sh" if "firewall_never_fails pf"
    using that fw machine_handles_reachable [OF handles reachable.start [OF machine]]
    by (intro reliable_tsm.reachable_exact)
      (simp_all add: reliable_tsm_def tsm_firewall_def reliable_tsm_axioms_def firewall_never_fails_def)
  ultimately show ?thesis by (simp add: machine_settings_def)
qed

lemma sample_allow_lan:
  assumes "dm_state d0 = ExecRunning" "dm_settings d0 = settings_default" "daemon_commands d0 = []"
  shows "\<exists>d. daemon_run sample_env [(sample_daemon_io, EventManagementCommand (SetAllowLan True))] [] d0 =
      Returns (None, d) \<and> is_running (dm_state d) \<and> st_allow_lan (dm_settings d) \<and>
      daemon_commands d = [CmdAllowLan True]"
proof -
  have "daemon_auto_connect d0 = d0"
    using assms(2) by (simp add: daemon_auto_connect_def settings_default_def)
  moreover have "settings_saved (di_settings sample_daemon_io)"
    by (simp add: settings_saved_def sample_daemon_io_def sample_settings_io_def get_settings_path_def)
  moreover have "changed (ChangeAllowLan True) settings_default \<noteq> settings_default"
    by (simp add: settings_default_def)
  ultimately show ?thesis
    using assms
    by (simp add: daemon_run_def handle_management_interface_event_def on_set_allow_lan_def
        setters_are_changes on_changed_settings_def change_settings_eq settings_saved_ok Let_def
        notify_settings_def send_tunnel_command_def)
qed

lemma quiet_handles_allow_lan:
  "\<exists>sh. machine_handles quiet_platform usual_polls (StDisconnected, quiet_shared) [CmdAllowLan True]
     (StDisconnected, sh)"
proof -
  have "\<exists>sh. handle_event quiet_platform (cmd_poll (CmdAllowLan True)) StDisconnected quiet_shared =
      (ActRepeat StDisconnected, sh)"
    by (simp add: disconnected_handle_event_def)
  then obtain sh where "handle_event quiet_platform (cmd_poll (CmdAllowLan True)) StDisconnected
      quiet_shared = (ActRepeat StDisconnected, sh)" ..
  from handled_event [OF handled_nothing _ this, of usual_polls StDisconnected] show ?thesis
    by (auto simp: usual_polls_def)
qed

theorem settings_enforced_witness:
  "\<exists>sh. machine_handles quiet_platform usual_polls (StDisconnected, quiet_shared) [CmdAllowLan True]
     (StDisconnected, sh) \<and> sv_allow_lan sh"
proof -
  obtain d0 where d0: "start_internal sample_env sample_daemon_io True True True sample_selector
      (settings_default, Map.empty) (Inr \<lparr>ah_file = [], ah_accounts = []\<rparr>) quiet_spawn ''2020.1'' = Inr d0"
    using quiet_daemon by blast
  obtain sh where h: "machine_handles quiet_platform usual_polls (StDisconnected, quiet_shared)
      [CmdAllowLan True] (StDisconnected, sh)"
    using quiet_handles_allow_lan by blast
  obtain d where d: "daemon_run sample_env
      [(sample_daemon_io, EventManagementCommand (SetAllowLan True))] [] d0 = Returns (None, d)"
      "is_running (dm_state d)" "st_allow_lan (dm_settings d)" "daemon_commands d = [CmdAllowLan True]"
    using sample_allow_lan [of d0] start_internal_Inr [OF d0] by auto
  have saved: "\<forall>(io, e) \<in> set [(sample_daemon_io, EventManagementCommand (SetAllowLan True))].
      settings_saved (di_settings io)"
    by (simp add: settings_saved_def sample_daemon_io_def sample_settings_io_def get_settings_path_def)
  have "machine_new quiet_platform (st_allow_lan (fst (settings_default, Map.empty)))
      (st_block_when_disconnected (fst (settings_default, Map.empty))) False 0 0 None ''/r'' ''/c'' =
      Inr \<lparr>tm_current_state = Some StDisconnected, tm_shared = quiet_shared\<rparr>"
    by (simp add: settings_default_def quiet_start)
  from settings_enforced [OF d0 [unfolded quiet_spawn_def] d(1,2) saved this h _ quiet_tsm.fw.firewall_interface_axioms]
    d(3,4) h quiet_reliable
  show ?thesis by (auto simp: from_daemon_def)
qed

end
